(* ===== verification/Prelude.thy ===== *)
theory Prelude
  imports Complex_Main
begin

text \<open>
  The vocabulary every component shares: HTTP exceptions as values, JavaScript truthiness and
  string helpers, database tables as lists of rows with the \<open>findFirst\<close>, \<open>update\<close> and \<open>updateMany\<close>
  of Prisma, and money columns of type \<open>Decimal(15, 2)\<close>.

  A table is the list of its rows in insertion order.  \<open>findFirst\<close> is \<^const>\<open>List.find\<close> of the
  \<open>where\<close> clause, \<open>update\<close> by a unique key is \<open>update_row\<close>, \<open>updateMany\<close> is \<open>update_where\<close> and
  \<open>create\<close> appends.  Identifiers and clock readings are arguments of the operations.
\<close>

section \<open>Results and errors\<close>

named_theorems db_simps \<open>reading a table after it has been updated\<close>

type_synonym id = string
type_synonym time = int

text \<open>
  The exceptions the services throw.  The texts of the originals are Persian; a short English key
  stands for each.
\<close>

datatype http_error =
    BadRequest string
  | Unauthorized string
  | Forbidden string
  | NotFound string
  | Conflict string
  | TooManyRequests int
  | UniqueViolation string
  | ForeignKeyViolation string

text \<open>The environment of one request: the clock, the random draw and the fresh UUIDs.\<close>

record env =
  now :: time
  rnd :: nat
  uuid :: "nat \<Rightarrow> id"

fun bindE :: "'e + 'a \<Rightarrow> ('a \<Rightarrow> 'e + 'b) \<Rightarrow> 'e + 'b" where
  "bindE (Inl e) f = Inl e"
| "bindE (Inr x) f = f x"

lemma bindE_Inr: "bindE m f = Inr y \<longleftrightarrow> (\<exists>x. m = Inr x \<and> f x = Inr y)"
  by (cases m) auto

lemma bindE_Inl: "bindE m f = Inl e \<longleftrightarrow> m = Inl e \<or> (\<exists>x. m = Inr x \<and> f x = Inl e)"
  by (cases m) auto

lemma bindE_InrE:
  assumes "bindE m f = Inr y"
  obtains x where "m = Inr x" and "f x = Inr y"
  using assms by (auto simp: bindE_Inr)

fun foldE :: "('x \<Rightarrow> 's \<Rightarrow> 'e + 's) \<Rightarrow> 'x list \<Rightarrow> 's \<Rightarrow> 'e + 's" where
  "foldE f [] s = Inr s"
| "foldE f (x # xs) s = bindE (f x s) (foldE f xs)"

lemma foldE_append: "foldE f (xs @ ys) s = bindE (foldE f xs s) (foldE f ys)"
proof (induction xs arbitrary: s)
  case (Cons x xs)
  then show ?case by (cases "f x s") auto
qed simp

text \<open>An invariant every step keeps is kept by the whole loop.\<close>

lemma foldE_invariant:
  assumes step: "\<And>x s s'. x \<in> set xs \<Longrightarrow> I s \<Longrightarrow> f x s = Inr s' \<Longrightarrow> I s'"
    and "I s" and "foldE f xs s = Inr s'"
  shows "I s'"
  using assms
proof (induction xs arbitrary: s)
  case (Cons x xs)
  from Cons.prems(3) obtain t where t: "f x s = Inr t" "foldE f xs t = Inr s'"
    by (auto simp: bindE_Inr)
  from Cons.prems(1)[of x s t] t Cons.prems(2) have "I t" by simp
  moreover have "\<And>y u u'. y \<in> set xs \<Longrightarrow> I u \<Longrightarrow> f y u = Inr u' \<Longrightarrow> I u'"
    using Cons.prems(1) by (meson list.set_intros(2))
  ultimately show ?case using Cons.IH t(2) by blast
qed simp

section \<open>JavaScript values\<close>

text \<open>A possibly missing string is truthy when it is there and not empty.\<close>

fun truthy :: "string option \<Rightarrow> bool" where
  "truthy None = False"
| "truthy (Some s) = (s \<noteq> [])"

fun js_or :: "string option \<Rightarrow> string option \<Rightarrow> string option" where
  "js_or a b = (if truthy a then a else b)"

definition str_or :: "string option \<Rightarrow> string \<Rightarrow> string" where
  "str_or a d = (case a of Some (c # s) \<Rightarrow> c # s | _ \<Rightarrow> d)"

text \<open>How a template literal prints a nullable column.\<close>

fun show_opt :: "string option \<Rightarrow> string" where
  "show_opt None = ''null''"
| "show_opt (Some s) = s"

definition is_space :: "char \<Rightarrow> bool" where
  "is_space c \<longleftrightarrow> c = CHR '' '' \<or> c = CHR 0x09 \<or> c = CHR 0x0A \<or> c = CHR 0x0B \<or> c = CHR 0x0C \<or> c = CHR 0x0D"

definition to_upper :: "char \<Rightarrow> char" where
  "to_upper c = (let n = (of_char c :: nat) in if 97 \<le> n \<and> n \<le> 122 then char_of (n - 32) else c)"

definition trim :: "string \<Rightarrow> string" where
  "trim s = rev (dropWhile is_space (rev (dropWhile is_space s)))"

definition digit_char :: "nat \<Rightarrow> char" where
  "digit_char d = ''0123456789'' ! d"

fun string_of_nat :: "nat \<Rightarrow> string" where
  "string_of_nat n = (if n < 10 then [digit_char n]
     else string_of_nat (n div 10) @ [digit_char (n mod 10)])"

declare string_of_nat.simps [simp del]

definition string_of_int :: "int \<Rightarrow> string" where
  "string_of_int i = (if i < 0 then CHR ''-'' # string_of_nat (nat (- i)) else string_of_nat (nat i))"

fun str_contains :: "string \<Rightarrow> string \<Rightarrow> bool" where
  "str_contains needle [] = (needle = [])"
| "str_contains needle (c # cs) = (take (length needle) (c # cs) = needle \<or> str_contains needle cs)"

definition to_lower :: "char \<Rightarrow> char" where
  "to_lower c = (let n = (of_char c :: nat) in if 65 \<le> n \<and> n \<le> 90 then char_of (n + 32) else c)"

definition contains_ci :: "string \<Rightarrow> string \<Rightarrow> bool" where
  "contains_ci needle s = str_contains (map to_lower needle) (map to_lower s)"

definition opt_holds :: "('a \<Rightarrow> bool) \<Rightarrow> 'a option \<Rightarrow> bool" where
  "opt_holds f x = (case x of None \<Rightarrow> False | Some y \<Rightarrow> f y)"

text \<open>\<open>x || d\<close> for optional numbers, and two decimals, a tie upwards: \<open>toFixed(2)\<close> and \<open>Math.round(x * 100) / 100\<close>.\<close>

definition falsy_or :: "rat option \<Rightarrow> rat \<Rightarrow> rat" where
  "falsy_or x d = (case x of None \<Rightarrow> d | Some y \<Rightarrow> if y = 0 then d else y)"

definition int_or :: "int option \<Rightarrow> int \<Rightarrow> int" where
  "int_or x d = (case x of None \<Rightarrow> d | Some y \<Rightarrow> if y = 0 then d else y)"

definition round2 :: "rat \<Rightarrow> rat" where
  "round2 x = of_int \<lfloor>x * 100 + 1 / 2\<rfloor> / 100"

text \<open>The order of text columns: by code units.\<close>

fun str_le :: "string \<Rightarrow> string \<Rightarrow> bool" where
  "str_le [] t = True"
| "str_le (a # s) [] = False"
| "str_le (a # s) (b # t) = ((of_char a :: nat) < of_char b \<or> a = b \<and> str_le s t)"

text \<open>A stable sort by a comparison, for \<open>orderBy\<close> clauses on texts.\<close>

fun insert_by :: "('a \<Rightarrow> 'a \<Rightarrow> bool) \<Rightarrow> 'a \<Rightarrow> 'a list \<Rightarrow> 'a list" where
  "insert_by le x [] = [x]"
| "insert_by le x (y # ys) = (if le x y then x # y # ys else y # insert_by le x ys)"

definition sort_by :: "('a \<Rightarrow> 'a \<Rightarrow> bool) \<Rightarrow> 'a list \<Rightarrow> 'a list" where
  "sort_by le xs = foldr (insert_by le) xs []"

lemma set_insert_by [simp]: "set (insert_by le x xs) = insert x (set xs)"
  by (induction xs) auto

lemma set_sort_by [simp]: "set (sort_by le xs) = set xs"
  unfolding sort_by_def by (induction xs) auto

section \<open>Tables\<close>

definition update_row :: "('r \<Rightarrow> 'k) \<Rightarrow> 'k \<Rightarrow> ('r \<Rightarrow> 'r) \<Rightarrow> 'r list \<Rightarrow> 'r list" where
  "update_row key k f rs = map (\<lambda>r. if key r = k then f r else r) rs"

definition update_where :: "('r \<Rightarrow> bool) \<Rightarrow> ('r \<Rightarrow> 'r) \<Rightarrow> 'r list \<Rightarrow> 'r list" where
  "update_where p f rs = map (\<lambda>r. if p r then f r else r) rs"

definition find_row :: "('r \<Rightarrow> 'k) \<Rightarrow> 'k \<Rightarrow> 'r list \<Rightarrow> 'r option" where
  "find_row key k rs = find (\<lambda>r. key r = k) rs"

lemma find_Some_iff_mem: "find p rs = Some r \<Longrightarrow> r \<in> set rs \<and> p r"
  by (auto simp: find_Some_iff)

lemma find_None_all: "find p rs = None \<longleftrightarrow> (\<forall>r \<in> set rs. \<not> p r)"
  by (auto simp: find_None_iff)

lemma find_append_new: "find P rs = None \<Longrightarrow> P r \<Longrightarrow> find P (rs @ [r]) = Some r"
  by (induction rs) auto

lemma find_row_SomeD: "find_row key k rs = Some r \<Longrightarrow> r \<in> set rs \<and> key r = k"
  unfolding find_row_def by (rule find_Some_iff_mem)

lemma length_update_row [simp]: "length (update_row key k f rs) = length rs"
  by (simp add: update_row_def)

lemma set_update_row:
  "set (update_row key k f rs) = (\<lambda>r. if key r = k then f r else r) ` set rs"
  by (simp add: update_row_def)

lemma update_row_memE:
  assumes "r \<in> set (update_row key k f rs)"
  obtains (same) "r \<in> set rs" "key r \<noteq> k" | (changed) r0 where "r0 \<in> set rs" "key r0 = k" "r = f r0"
  using assms by (auto simp: set_update_row split: if_splits)

lemma distinct_find:
  "distinct (map key rs) \<Longrightarrow> r \<in> set rs \<Longrightarrow> find_row key (key r) rs = Some r"
proof (induction rs)
  case (Cons a rs)
  then show ?case by (cases "a = r") (auto simp: find_row_def)
qed (simp add: find_row_def)

lemma distinct_key_inj:
  "distinct (map key rs) \<Longrightarrow> r \<in> set rs \<Longrightarrow> s \<in> set rs \<Longrightarrow> key r = key s \<Longrightarrow> r = s"
  by (simp add: distinct_map inj_on_def)

text \<open>
  A column update of a keyed table: the table's key and a row change that leaves the key alone.
  Every table of the model instantiates this interface for each of its updates.
\<close>

locale keyed_update =
  fixes key :: "'r \<Rightarrow> 'k" and f :: "'r \<Rightarrow> 'r"
  assumes key_kept: "key (f r) = key r"
begin

lemma map_key_update: "map key (update_row key k f rs) = map key rs"
  by (simp add: update_row_def key_kept comp_def)

lemma find_update:
  "find_row key j (update_row key k f rs) =
     (if j = k then map_option f (find_row key k rs) else find_row key j rs)"
  by (induction rs) (auto simp: find_row_def update_row_def key_kept)

lemma sum_update:
  fixes w :: "'r \<Rightarrow> 'a :: ab_group_add"
  assumes "distinct (map key rs)" and "find_row key k rs = Some r"
  shows "sum_list (map w (update_row key k f rs)) = sum_list (map w rs) + (w (f r) - w r)"
  using assms
proof (induction rs)
  case (Cons a rs)
  show ?case
  proof (cases "key a = k")
    case True
    with Cons.prems have "r = a" and "k \<notin> key ` set rs" by (auto simp: find_row_def)
    then have "map (\<lambda>r. if key r = k then f r else r) rs = rs"
      by (intro map_idI) auto
    with True \<open>r = a\<close> show ?thesis by (simp add: update_row_def)
  next
    case False
    with Cons show ?thesis by (simp add: find_row_def update_row_def algebra_simps)
  qed
qed (simp add: find_row_def)

end

section \<open>Money columns\<close>

text \<open>
  A column declared \<open>@db.Decimal(15, 2)\<close> holds hundredths; a value with more digits is rounded to
  the nearest hundredth on the way in, a tie away from zero.  In memory a \<open>Prisma.Decimal\<close> is the
  rational it denotes.
\<close>

definition round_away :: "rat \<Rightarrow> int" where
  "round_away x = (if x < 0 then - \<lfloor>- x + 1 / 2\<rfloor> else \<lfloor>x + 1 / 2\<rfloor>)"

definition dec2 :: "rat \<Rightarrow> rat" where
  "dec2 x = of_int (round_away (x * 100)) / 100"

definition is_money :: "rat \<Rightarrow> bool" where
  "is_money x \<longleftrightarrow> dec2 x = x"

lemma round_away_of_int [simp]: "round_away (of_int k) = k"
  by (auto simp: round_away_def floor_unique)

lemma is_money_iff: "is_money x \<longleftrightarrow> (\<exists>k. x = of_int k / 100)"
proof
  assume "\<exists>k. x = of_int k / 100"
  then show "is_money x" by (auto simp: is_money_def dec2_def)
next
  assume "is_money x"
  then show "\<exists>k. x = of_int k / 100" unfolding is_money_def dec2_def by metis
qed

lemma is_money_dec2 [simp]: "is_money (dec2 x)"
  by (auto simp: is_money_iff dec2_def)

lemma dec2_money: "is_money x \<Longrightarrow> dec2 x = x"
  by (simp add: is_money_def)

lemma is_money_0 [simp]: "is_money 0"
  by (auto simp: is_money_iff intro: exI [of _ 0])

lemma is_money_of_int: "is_money (of_int k)"
  unfolding is_money_iff by (rule exI [of _ "k * 100"]) simp

lemma is_money_numeral [simp]: "is_money 1" "is_money (numeral n)"
  using is_money_of_int [of 1] is_money_of_int [of "numeral n"] by simp_all

lemma dec2_numeral [simp]: "dec2 0 = 0" "dec2 1 = 1" "dec2 (numeral n) = numeral n"
  by (simp_all add: dec2_money)

lemma is_money_add: "is_money x \<Longrightarrow> is_money y \<Longrightarrow> is_money (x + y)"
  unfolding is_money_iff by (metis add_divide_distrib of_int_add)

lemma is_money_diff: "is_money x \<Longrightarrow> is_money y \<Longrightarrow> is_money (x - y)"
  unfolding is_money_iff by (metis diff_divide_distrib of_int_diff)

lemma round_away_mono: "x \<le> y \<Longrightarrow> round_away x \<le> round_away y"
proof -
  assume "x \<le> y"
  then have "\<lfloor>x + 1/2\<rfloor> \<le> \<lfloor>y + 1/2\<rfloor>" and "\<lfloor>- y + 1/2\<rfloor> \<le> \<lfloor>- x + 1/2\<rfloor>"
    by (simp_all add: floor_mono)
  moreover have "x < 0 \<Longrightarrow> 0 \<le> y \<Longrightarrow> - \<lfloor>1/2 - x\<rfloor> \<le> \<lfloor>y + 1/2\<rfloor>"
    by linarith
  ultimately show ?thesis using \<open>x \<le> y\<close> unfolding round_away_def by auto
qed

lemma dec2_mono: "x \<le> y \<Longrightarrow> dec2 x \<le> dec2 y"
  by (simp add: dec2_def divide_right_mono round_away_mono)

lemma dec2_nonneg: "0 \<le> x \<Longrightarrow> 0 \<le> dec2 x"
  using dec2_mono [of 0 x] by simp

lemma dec2_le_money: "is_money m \<Longrightarrow> x \<le> m \<Longrightarrow> dec2 x \<le> m"
  using dec2_mono [of x m] by (simp add: dec2_money)

lemma dec2_ge_money: "is_money m \<Longrightarrow> m \<le> x \<Longrightarrow> m \<le> dec2 x"
  using dec2_mono [of m x] by (simp add: dec2_money)

text \<open>Rounding both parts of a split of a money amount never loses any of it.\<close>

lemma floor_half_split: "0 \<le> \<lfloor>1/2 - y\<rfloor> + \<lfloor>y + (1/2 :: rat)\<rfloor>"
  by linarith

lemma dec2_split:
  assumes "is_money m" and "0 \<le> p" and "p \<le> m"
  shows "m \<le> dec2 (m - p) + dec2 p"
proof -
  from assms(1) obtain k where k: "m = of_int k / 100" by (auto simp: is_money_iff)
  let ?y = "p * 100"
  have le: "?y \<le> of_int k" using assms(3) k by (simp add: field_simps)
  have 1: "round_away ((m - p) * 100) = \<lfloor>of_int k - ?y + 1/2\<rfloor>"
    using le by (simp add: round_away_def k algebra_simps)
  have 2: "round_away ?y = \<lfloor>?y + 1/2\<rfloor>" using assms(2) by (simp add: round_away_def)
  have "\<lfloor>of_int k - ?y + 1/2\<rfloor> = k + \<lfloor>1/2 - ?y\<rfloor>" by linarith
  with floor_half_split [of ?y] have "k \<le> round_away ((m - p) * 100) + round_away ?y"
    by (simp only: 1 2)
  then have "(of_int k :: rat) \<le> of_int (round_away ((m - p) * 100) + round_away ?y)"
    by (simp only: of_int_le_iff)
  then show ?thesis by (simp add: dec2_def k add_divide_distrib [symmetric] divide_right_mono)
qed

end
