(* ===== verification/Fee_Model.thy ===== *)
theory Fee_Model
  imports Prelude
begin

text \<open>
  The tables of the finance module (\<open>prisma/schema.prisma\<close>, the models \<open>StudentFeeContract\<close>,
  \<open>FeeInstallment\<close>, \<open>FeePayment\<close>, \<open>PaymentTransaction\<close>, \<open>FeeReceipt\<close>, \<open>FeePlan\<close>), the constraints
  the schema puts on new rows, and the ledger invariant of the module.
\<close>

section \<open>Enumerations\<close>

datatype PaymentStatus = PENDING | PROCESSING | SUCCESSFUL | FAILED | CANCELLED | REFUNDED

datatype PaymentMethod = ONLINE_GATEWAY | POS_RECEIPT | BANK_TRANSFER | CHEQUE | CASH

datatype PaymentGateway = ZARINPAL | MANUAL_OFFLINE | MOCK_SANDBOX

datatype FeeContractStatus = FC_ACTIVE | FC_COMPLETED | FC_DEFAULTED | FC_CANCELLED

datatype InstallmentStatus = UNPAID | PARTIALLY_PAID | PAID | OVERDUE

datatype CheckStatus = CK_PENDING | CK_CASHED | CK_BOUNCED | CK_REPLACED

datatype FeePlanScope = ALL_SCHOOL | EDUCATIONAL_LEVEL | CLASSROOM | INDIVIDUAL

section \<open>Rows\<close>

text \<open>
  The reason of a financial hold is a sentence built around the cheque's number (or Sayad id), its
  amount and its bank; the three interpolated values are kept.
\<close>

datatype hold_reason = BouncedCheque string rat string

record StudentFeeContract =
  fc_id :: id
  fc_tenantId :: id
  fc_academicYearId :: id
  fc_studentId :: id
  fc_contractNumber :: string
  fc_totalAmount :: rat
  fc_discountAmount :: rat
  fc_finalPayableAmount :: rat
  fc_balanceRemaining :: rat
  fc_status :: FeeContractStatus
  fc_discountReason :: "string option"
  fc_notes :: "string option"
  fc_feePlanId :: "id option"
  fc_isIndividual :: bool
  fc_hasFinancialHold :: bool
  fc_financialHoldReason :: "hold_reason option"

record FeeInstallment =
  fi_id :: id
  fi_tenantId :: id
  fi_contractId :: id
  fi_installmentNumber :: nat
  fi_title :: string
  fi_dueDate :: time
  fi_amount :: rat
  fi_paidAmount :: rat
  fi_status :: InstallmentStatus
  fi_paidAt :: "time option"

record FeePayment =
  fp_id :: id
  fp_tenantId :: id
  fp_feeContractId :: id
  fp_installmentId :: "id option"
  fp_method :: PaymentMethod
  fp_amount :: rat
  fp_recordedById :: id
  fp_note :: "string option"
  fp_cashReceivedAt :: "time option"
  fp_checkNumber :: "string option"
  fp_checkSayadId :: "string option"
  fp_bankName :: "string option"
  fp_branchName :: "string option"
  fp_checkOwnerName :: "string option"
  fp_checkDueDate :: "time option"
  fp_checkStatus :: "CheckStatus option"
  fp_checkStatusChangedAt :: "time option"
  fp_checkStatusChangedById :: "id option"
  fp_replacedByPaymentId :: "id option"

record PaymentTransaction =
  pt_id :: id
  pt_tenantId :: id
  pt_contractId :: "id option"
  pt_installmentId :: "id option"
  pt_payerUserId :: id
  pt_gateway :: PaymentGateway
  pt_method :: PaymentMethod
  pt_amount :: rat
  pt_status :: PaymentStatus
  pt_authority :: "string option"
  pt_refId :: "string option"
  pt_cardPan :: "string option"
  pt_trackingCode :: string
  pt_errorMessage :: "string option"
  pt_verifiedAt :: "time option"

record FeeReceipt =
  fr_id :: id
  fr_tenantId :: id
  fr_transactionId :: "id option"
  fr_paymentId :: "id option"
  fr_contractId :: id
  fr_receiptNumber :: string
  fr_amount :: rat
  fr_payerName :: string
  fr_paymentMethod :: PaymentMethod
  fr_issuedById :: "id option"

text \<open>The events the services emit.\<close>

datatype fee_event =
    ChequeBounced id id id rat
  | PaymentSuccess id id string rat

text \<open>
  The state: the tables, the events emitted so far and the Redis keys of the verification locks.
  \<open>studentUser\<close> reads the user behind a student profile.
\<close>

record student_user =
  su_firstName :: string
  su_lastName :: string
  su_nationalId :: "string option"

record fee_db =
  contracts :: "StudentFeeContract list"
  installments :: "FeeInstallment list"
  payments :: "FeePayment list"
  transactions :: "PaymentTransaction list"
  receipts :: "FeeReceipt list"
  studentUser :: "id \<Rightarrow> student_user option"
  outbox :: "fee_event list"
  verifyLocks :: "string list"

section \<open>Operations on the tables\<close>

definition update_contract ::
  "id \<Rightarrow> (StudentFeeContract \<Rightarrow> StudentFeeContract) \<Rightarrow> fee_db \<Rightarrow> fee_db" where
  "update_contract i f db = db\<lparr>contracts := update_row fc_id i f (contracts db)\<rparr>"

definition update_installment ::
  "id \<Rightarrow> (FeeInstallment \<Rightarrow> FeeInstallment) \<Rightarrow> fee_db \<Rightarrow> fee_db" where
  "update_installment i f db = db\<lparr>installments := update_row fi_id i f (installments db)\<rparr>"

definition update_payment :: "id \<Rightarrow> (FeePayment \<Rightarrow> FeePayment) \<Rightarrow> fee_db \<Rightarrow> fee_db" where
  "update_payment i f db = db\<lparr>payments := update_row fp_id i f (payments db)\<rparr>"

definition update_transaction ::
  "id \<Rightarrow> (PaymentTransaction \<Rightarrow> PaymentTransaction) \<Rightarrow> fee_db \<Rightarrow> fee_db" where
  "update_transaction i f db = db\<lparr>transactions := update_row pt_id i f (transactions db)\<rparr>"

definition payer_name :: "string \<Rightarrow> fee_db \<Rightarrow> StudentFeeContract \<Rightarrow> string" where
  "payer_name fallback db c = (case studentUser db (fc_studentId c) of
     Some u \<Rightarrow> su_firstName u @ '' '' @ su_lastName u
   | None \<Rightarrow> fallback)"

text \<open>A column that is null, or names a row of the table.\<close>

definition fk_ok :: "('r \<Rightarrow> id) \<Rightarrow> 'r list \<Rightarrow> id option \<Rightarrow> bool" where
  "fk_ok key rs r = (case r of None \<Rightarrow> True | Some k \<Rightarrow> k \<in> set (map key rs))"

text \<open>A nullable unique column: null never collides.\<close>

definition unique_opt :: "('r \<Rightarrow> 'k option) \<Rightarrow> 'r list \<Rightarrow> 'k option \<Rightarrow> bool" where
  "unique_opt col rs v = (case v of None \<Rightarrow> True | Some k \<Rightarrow> Some k \<notin> set (map col rs))"

text \<open>
  \<open>create\<close> with the constraints of the schema: the row's identifier is new, its references exist and
  its unique columns are free, otherwise the engine throws and the transaction rolls back.
\<close>

definition create_payment :: "FeePayment \<Rightarrow> fee_db \<Rightarrow> http_error + fee_db" where
  "create_payment p db =
     (if fp_id p \<in> set (map fp_id (payments db)) then Inl (UniqueViolation ''FeePayment.id'')
      else if fp_feeContractId p \<notin> set (map fc_id (contracts db))
        then Inl (ForeignKeyViolation ''FeePayment.feeContractId'')
      else if \<not> fk_ok fi_id (installments db) (fp_installmentId p)
        then Inl (ForeignKeyViolation ''FeePayment.installmentId'')
      else Inr (db\<lparr>payments := payments db @ [p\<lparr>fp_amount := dec2 (fp_amount p)\<rparr>]\<rparr>))"

definition create_receipt :: "FeeReceipt \<Rightarrow> fee_db \<Rightarrow> http_error + fee_db" where
  "create_receipt r db =
     (if fr_id r \<in> set (map fr_id (receipts db)) then Inl (UniqueViolation ''FeeReceipt.id'')
      else if (fr_tenantId r, fr_receiptNumber r)
          \<in> set (map (\<lambda>q. (fr_tenantId q, fr_receiptNumber q)) (receipts db))
        then Inl (UniqueViolation ''FeeReceipt.receiptNumber'')
      else if \<not> unique_opt fr_paymentId (receipts db) (fr_paymentId r)
        then Inl (UniqueViolation ''FeeReceipt.paymentId'')
      else if \<not> unique_opt fr_transactionId (receipts db) (fr_transactionId r)
        then Inl (UniqueViolation ''FeeReceipt.transactionId'')
      else if fr_contractId r \<notin> set (map fc_id (contracts db))
        then Inl (ForeignKeyViolation ''FeeReceipt.contractId'')
      else Inr (db\<lparr>receipts := receipts db @ [r\<lparr>fr_amount := dec2 (fr_amount r)\<rparr>]\<rparr>))"

definition create_transaction :: "PaymentTransaction \<Rightarrow> fee_db \<Rightarrow> http_error + fee_db" where
  "create_transaction t db =
     (if pt_id t \<in> set (map pt_id (transactions db)) then Inl (UniqueViolation ''PaymentTransaction.id'')
      else if (pt_tenantId t, pt_trackingCode t)
          \<in> set (map (\<lambda>q. (pt_tenantId q, pt_trackingCode q)) (transactions db))
        then Inl (UniqueViolation ''PaymentTransaction.trackingCode'')
      else if \<not> fk_ok fc_id (contracts db) (pt_contractId t)
        then Inl (ForeignKeyViolation ''PaymentTransaction.contractId'')
      else if \<not> fk_ok fi_id (installments db) (pt_installmentId t)
        then Inl (ForeignKeyViolation ''PaymentTransaction.installmentId'')
      else Inr (db\<lparr>transactions := transactions db @ [t\<lparr>pt_amount := dec2 (pt_amount t)\<rparr>]\<rparr>))"

end
