(* ===== verification/Fee_Ledger.thy ===== *)
theory Fee_Ledger
  imports Fee_Model
begin

text \<open>
  What the write paths of the finance module share: the receipt number, the credit of an installment,
  the clamped balance, and the ledger invariant with the laws of each table operation.
\<close>

section \<open>Shared steps\<close>

text \<open>
  \<open>`REC-CSH-${Date.now()}-${Math.floor(100 + Math.random() * 900)}`\<close>: \<open>rnd\<close> is the draw, below 900.
\<close>

definition receipt_number :: "string \<Rightarrow> env \<Rightarrow> string" where
  "receipt_number prefix e = prefix @ string_of_int (now e) @ ''-'' @ string_of_nat (100 + rnd e)"

text \<open>A balance that would go below zero stops at zero.\<close>

definition clamp0 :: "rat \<Rightarrow> rat" where
  "clamp0 x = (if x < 0 then 0 else x)"

text \<open>
  The new balance of a contract, written with the status the caller's snapshot had, or
  \<open>COMPLETED\<close> when nothing is left.
\<close>

definition settle_contract :: "StudentFeeContract \<Rightarrow> rat \<Rightarrow> fee_db \<Rightarrow> fee_db" where
  "settle_contract contract bal db = update_contract (fc_id contract)
     (\<lambda>c. c\<lparr>fc_balanceRemaining := dec2 bal,
            fc_status := (if bal = 0 then FC_COMPLETED else fc_status contract)\<rparr>) db"

text \<open>The credit of an installment, written from the row the caller has read.\<close>

definition credit_installment :: "env \<Rightarrow> FeeInstallment \<Rightarrow> rat \<Rightarrow> fee_db \<Rightarrow> fee_db" where
  "credit_installment e inst amount db =
     (let newPaid = fi_paidAmount inst + amount;
          newStatus = (if newPaid \<ge> fi_amount inst then PAID else PARTIALLY_PAID)
      in update_installment (fi_id inst)
           (\<lambda>i. i\<lparr>fi_paidAmount := dec2 newPaid, fi_status := newStatus,
                  fi_paidAt := (if newStatus = PAID then Some (now e) else fi_paidAt inst)\<rparr>) db)"

text \<open>\<open>if (inst) { ... }\<close>: a payment without an installment, or whose installment is not found, credits none.\<close>

definition credit_found :: "env \<Rightarrow> FeeInstallment option \<Rightarrow> rat \<Rightarrow> fee_db \<Rightarrow> fee_db" where
  "credit_found e inst amount db =
     (case inst of None \<Rightarrow> db | Some i \<Rightarrow> credit_installment e i amount db)"

section \<open>The ledger invariant\<close>

definition keys_ok :: "fee_db \<Rightarrow> bool" where
  "keys_ok db \<longleftrightarrow> distinct (map fc_id (contracts db)) \<and> distinct (map fi_id (installments db))
     \<and> distinct (map fp_id (payments db)) \<and> distinct (map fr_id (receipts db))"

text \<open>Every row of \<open>contracts\<close>: money columns, a balance between zero and the debt, settled means zero.\<close>

definition contract_ok :: "StudentFeeContract \<Rightarrow> bool" where
  "contract_ok c \<longleftrightarrow> is_money (fc_finalPayableAmount c) \<and> is_money (fc_balanceRemaining c)
     \<and> 0 \<le> fc_balanceRemaining c \<and> fc_balanceRemaining c \<le> fc_finalPayableAmount c
     \<and> (fc_status c = FC_COMPLETED \<longrightarrow> fc_balanceRemaining c = 0)"

definition contracts_ok :: "fee_db \<Rightarrow> bool" where
  "contracts_ok db \<longleftrightarrow> list_all contract_ok (contracts db)"

definition payment_ok :: "FeePayment \<Rightarrow> bool" where
  "payment_ok p \<longleftrightarrow> is_money (fp_amount p) \<and> 0 \<le> fp_amount p"

definition payments_ok :: "fee_db \<Rightarrow> bool" where
  "payments_ok db \<longleftrightarrow> list_all payment_ok (payments db)"

text \<open>
  Every payment belongs to a contract of its own tenant, and the contract of a bounced cheque is on
  hold.  Inside a transaction the cheques \<open>X\<close>, whose status is about to change, are exempt.
\<close>

definition hold_ok :: "id set \<Rightarrow> StudentFeeContract list \<Rightarrow> FeePayment \<Rightarrow> bool" where
  "hold_ok X cs p \<longleftrightarrow> (\<exists>c \<in> set cs. fc_id c = fp_feeContractId p \<and> fc_tenantId c = fp_tenantId p
     \<and> (fp_checkStatus p = Some CK_BOUNCED \<and> fp_id p \<notin> X \<longrightarrow> fc_hasFinancialHold c))"

definition holds_ok :: "id set \<Rightarrow> fee_db \<Rightarrow> bool" where
  "holds_ok X db \<longleftrightarrow> list_all (hold_ok X (contracts db)) (payments db)"

text \<open>The money received on a contract, by its receipts.\<close>

definition received :: "id \<Rightarrow> fee_db \<Rightarrow> rat" where
  "received cid db = sum_list (map fr_amount (filter (\<lambda>r. fr_contractId r = cid) (receipts db)))"

text \<open>
  The books: what is left to pay and what the receipts show add up to at least the debt.  \<open>k\<close> is the
  money credited to a contract whose receipt is still to be written, inside a transaction.
\<close>

definition books :: "(id \<Rightarrow> rat) \<Rightarrow> fee_db \<Rightarrow> bool" where
  "books k db \<longleftrightarrow> (\<forall>c \<in> set (contracts db).
     fc_finalPayableAmount c \<le> fc_balanceRemaining c + received (fc_id c) db + k (fc_id c))"

definition ledger_but :: "id set \<Rightarrow> fee_db \<Rightarrow> bool" where
  "ledger_but X db \<longleftrightarrow> keys_ok db \<and> contracts_ok db \<and> payments_ok db \<and> holds_ok X db \<and> books (\<lambda>_. 0) db"

definition ledger_inv :: "fee_db \<Rightarrow> bool" where
  "ledger_inv db = ledger_but {} db"

lemmas ledger_defs = ledger_inv_def ledger_but_def keys_ok_def contracts_ok_def payments_ok_def holds_ok_def books_def

section \<open>Projections of the table operations\<close>

lemma update_contract_tables [simp]:
  "installments (update_contract i f db) = installments db"
  "payments (update_contract i f db) = payments db"
  "transactions (update_contract i f db) = transactions db"
  "receipts (update_contract i f db) = receipts db"
  "studentUser (update_contract i f db) = studentUser db"
  "verifyLocks (update_contract i f db) = verifyLocks db"
  "outbox (update_contract i f db) = outbox db"
  by (simp_all add: update_contract_def)

lemma update_installment_tables [simp]:
  "contracts (update_installment i f db) = contracts db"
  "payments (update_installment i f db) = payments db"
  "transactions (update_installment i f db) = transactions db"
  "receipts (update_installment i f db) = receipts db"
  "studentUser (update_installment i f db) = studentUser db"
  "verifyLocks (update_installment i f db) = verifyLocks db"
  "outbox (update_installment i f db) = outbox db"
  by (simp_all add: update_installment_def)

lemma update_payment_tables [simp]:
  "contracts (update_payment i f db) = contracts db"
  "installments (update_payment i f db) = installments db"
  "transactions (update_payment i f db) = transactions db"
  "receipts (update_payment i f db) = receipts db"
  "outbox (update_payment i f db) = outbox db"
  by (simp_all add: update_payment_def)

lemma update_transaction_tables [simp]:
  "contracts (update_transaction i f db) = contracts db"
  "installments (update_transaction i f db) = installments db"
  "payments (update_transaction i f db) = payments db"
  "receipts (update_transaction i f db) = receipts db"
  "studentUser (update_transaction i f db) = studentUser db"
  "verifyLocks (update_transaction i f db) = verifyLocks db"
  by (simp_all add: update_transaction_def)

text \<open>The row changes of the services leave the keys alone.\<close>

interpretation settled: keyed_update fc_id
  "\<lambda>c. c\<lparr>fc_balanceRemaining := b, fc_status := s\<rparr>" for b s
  by unfold_locales simp

interpretation credited: keyed_update fi_id
  "\<lambda>i. i\<lparr>fi_paidAmount := a, fi_status := s, fi_paidAt := t\<rparr>" for a s t
  by unfold_locales simp

lemma credit_installment_tables [simp]:
  "contracts (credit_installment e inst a db) = contracts db"
  "payments (credit_installment e inst a db) = payments db"
  "transactions (credit_installment e inst a db) = transactions db"
  "receipts (credit_installment e inst a db) = receipts db"
  "studentUser (credit_installment e inst a db) = studentUser db"
  "verifyLocks (credit_installment e inst a db) = verifyLocks db"
  "outbox (credit_installment e inst a db) = outbox db"
  "map fi_id (installments (credit_installment e inst a db)) = map fi_id (installments db)"
  by (simp_all add: credit_installment_def Let_def update_installment_def credited.map_key_update)

lemma credit_found_tables [simp]:
  "contracts (credit_found e inst a db) = contracts db"
  "payments (credit_found e inst a db) = payments db"
  "transactions (credit_found e inst a db) = transactions db"
  "receipts (credit_found e inst a db) = receipts db"
  "studentUser (credit_found e inst a db) = studentUser db"
  "verifyLocks (credit_found e inst a db) = verifyLocks db"
  "outbox (credit_found e inst a db) = outbox db"
  "map fi_id (installments (credit_found e inst a db)) = map fi_id (installments db)"
  by (simp_all add: credit_found_def split: option.split)

lemma create_payment_tables:
  assumes "create_payment p db = Inr db'"
  shows "contracts db' = contracts db" "installments db' = installments db"
    "transactions db' = transactions db" "receipts db' = receipts db"
    "studentUser db' = studentUser db" "outbox db' = outbox db"
    "payments db' = payments db @ [p\<lparr>fp_amount := dec2 (fp_amount p)\<rparr>]"
    "fp_id p \<notin> set (map fp_id (payments db))"
    "fp_feeContractId p \<in> set (map fc_id (contracts db))"
    "fk_ok fi_id (installments db) (fp_installmentId p)"
  using assms by (auto simp: create_payment_def split: if_splits)

lemma create_receipt_tables:
  assumes "create_receipt r db = Inr db'"
  shows "contracts db' = contracts db" "installments db' = installments db"
    "transactions db' = transactions db" "payments db' = payments db"
    "studentUser db' = studentUser db" "outbox db' = outbox db"
    "receipts db' = receipts db @ [r\<lparr>fr_amount := dec2 (fr_amount r)\<rparr>]"
    "fr_id r \<notin> set (map fr_id (receipts db))"
    "unique_opt fr_paymentId (receipts db) (fr_paymentId r)"
    "unique_opt fr_transactionId (receipts db) (fr_transactionId r)"
    "fr_contractId r \<in> set (map fc_id (contracts db))"
  using assms by (auto simp: create_receipt_def split: if_splits)

lemma received_update_contract [simp]: "received cid (update_contract i f db) = received cid db"
  by (simp add: received_def)

lemma received_eq: "receipts db' = receipts db \<Longrightarrow> received cid db' = received cid db"
  by (simp add: received_def)

lemma received_create:
  "create_receipt r db = Inr db' \<Longrightarrow>
     received cid db' = received cid db + (if fr_contractId r = cid then dec2 (fr_amount r) else 0)"
  by (auto dest!: create_receipt_tables(7) simp: received_def)

section \<open>Laws of the invariant\<close>

lemma books_eq: "contracts db' = contracts db \<Longrightarrow> receipts db' = receipts db \<Longrightarrow> books k db' = books k db"
  by (simp add: books_def received_def)

lemma holds_eq: "contracts db' = contracts db \<Longrightarrow> payments db' = payments db \<Longrightarrow> holds_ok X db' = holds_ok X db"
  by (simp add: holds_ok_def)

lemma keys_update_contract:
  assumes "\<And>c. fc_id (f c) = fc_id c"
  shows "keys_ok (update_contract i f db) = keys_ok db"
  using keyed_update.map_key_update [OF keyed_update.intro, of fc_id f, OF assms]
  by (simp add: keys_ok_def) (simp add: update_contract_def)

lemma contracts_ok_update:
  assumes "contracts_ok db" and "\<And>c. c \<in> set (contracts db) \<Longrightarrow> fc_id c = i \<Longrightarrow> contract_ok c \<Longrightarrow> contract_ok (f c)"
  shows "contracts_ok (update_contract i f db)"
  using assms by (auto simp: contracts_ok_def update_contract_def list_all_iff set_update_row)

lemma books_update_contract:
  assumes "books k db"
    and row: "\<And>c. c \<in> set (contracts db) \<Longrightarrow> fc_id c = i \<Longrightarrow>
      fc_id (f c) = i \<and> fc_finalPayableAmount (f c) = fc_finalPayableAmount c
      \<and> fc_balanceRemaining c \<le> fc_balanceRemaining (f c) + a"
  shows "books (k(i := k i + a)) (update_contract i f db)"
proof -
  have "fc_finalPayableAmount d \<le> fc_balanceRemaining d + received (fc_id d) db + (k(i := k i + a)) (fc_id d)"
    if "d \<in> set (update_row fc_id i f (contracts db))" for d
    using that
  proof (cases rule: update_row_memE)
    case same
    then show ?thesis using assms(1) by (simp add: books_def)
  next
    case (changed c)
    moreover have "fc_finalPayableAmount c \<le> fc_balanceRemaining c + received (fc_id c) db + k (fc_id c)"
      using assms(1) changed(1) by (simp add: books_def)
    ultimately show ?thesis using row [of c] by auto
  qed
  then have "\<forall>d \<in> set (contracts (update_contract i f db)).
      fc_finalPayableAmount d \<le> fc_balanceRemaining d + received (fc_id d) db + (k(i := k i + a)) (fc_id d)"
    by (simp add: update_contract_def del: fun_upd_apply)
  then show ?thesis by (simp add: books_def del: fun_upd_apply)
qed

lemma books_create_receipt:
  assumes "books k db" and "create_receipt r db = Inr db'"
    and "k (fr_contractId r) = dec2 (fr_amount r)" and "\<And>i. i \<noteq> fr_contractId r \<Longrightarrow> k i = 0"
  shows "books (\<lambda>_. 0) db'"
  unfolding books_def
proof
  fix c assume "c \<in> set (contracts db')"
  then have "c \<in> set (contracts db)" using create_receipt_tables(1) [OF assms(2)] by simp
  then show "fc_finalPayableAmount c \<le> fc_balanceRemaining c + received (fc_id c) db' + 0"
    using assms(1,3) assms(4) [of "fc_id c"]
    by (auto simp: books_def received_create [OF assms(2)] split: if_splits)
qed

lemma holds_mono: "holds_ok X db \<Longrightarrow> X \<subseteq> Y \<Longrightarrow> holds_ok Y db"
  unfolding holds_ok_def list_all_iff hold_ok_def by blast

lemma ledger_mono: "ledger_but X db \<Longrightarrow> X \<subseteq> Y \<Longrightarrow> ledger_but Y db"
  using holds_mono by (auto simp: ledger_but_def)

lemma holds_update_contract:
  assumes "holds_ok {} db"
    and keep: "\<And>c. fc_id (f c) = fc_id c \<and> fc_tenantId (f c) = fc_tenantId c"
    and hold: "\<And>c p. c \<in> set (contracts db) \<Longrightarrow> fc_id c = i \<Longrightarrow> p \<in> set (payments db) \<Longrightarrow> fp_feeContractId p = i \<Longrightarrow>
       fp_tenantId p = fc_tenantId c \<Longrightarrow> fp_checkStatus p = Some CK_BOUNCED \<Longrightarrow> fp_id p \<notin> X \<Longrightarrow>
       fc_hasFinancialHold c \<Longrightarrow> fc_hasFinancialHold (f c)"
  shows "holds_ok X (update_contract i f db)"
  unfolding holds_ok_def list_all_iff hold_ok_def
proof
  fix p assume "p \<in> set (payments (update_contract i f db))"
  then have p: "p \<in> set (payments db)" by simp
  with assms(1) obtain c where c: "c \<in> set (contracts db)" "fc_id c = fp_feeContractId p"
    "fc_tenantId c = fp_tenantId p" "fp_checkStatus p = Some CK_BOUNCED \<longrightarrow> fc_hasFinancialHold c"
    by (auto simp: holds_ok_def list_all_iff hold_ok_def)
  let ?c = "if fc_id c = i then f c else c"
  have "?c \<in> set (contracts (update_contract i f db))"
    using c(1) by (auto simp: update_contract_def set_update_row)
  moreover have "fc_id ?c = fp_feeContractId p \<and> fc_tenantId ?c = fp_tenantId p
     \<and> (fp_checkStatus p = Some CK_BOUNCED \<and> fp_id p \<notin> X \<longrightarrow> fc_hasFinancialHold ?c)"
    using keep hold [OF c(1) _ p] c by auto
  ultimately show "\<exists>c \<in> set (contracts (update_contract i f db)). fc_id c = fp_feeContractId p
     \<and> fc_tenantId c = fp_tenantId p
     \<and> (fp_checkStatus p = Some CK_BOUNCED \<and> fp_id p \<notin> X \<longrightarrow> fc_hasFinancialHold c)"
    by blast
qed

lemma create_receipt_keeps:
  assumes "create_receipt r db = Inr db'"
  shows "keys_ok db \<Longrightarrow> keys_ok db'" "contracts_ok db' = contracts_ok db"
    "payments_ok db' = payments_ok db" "holds_ok X db' = holds_ok X db"
  using create_receipt_tables [OF assms]
  by (simp_all add: keys_ok_def contracts_ok_def payments_ok_def holds_ok_def)

lemma create_payment_keeps:
  assumes "create_payment p db = Inr db'"
  shows "keys_ok db \<Longrightarrow> keys_ok db'" "contracts_ok db' = contracts_ok db"
    "payments_ok db \<Longrightarrow> 0 \<le> fp_amount p \<Longrightarrow> payments_ok db'" "books k db' = books k db"
  using create_payment_tables [OF assms]
  by (simp_all add: keys_ok_def contracts_ok_def payments_ok_def payment_ok_def dec2_nonneg books_def
      received_def)

lemma create_payment_holds:
  assumes "create_payment p db = Inr db'" and "holds_ok X db"
    and "\<exists>c \<in> set (contracts db). fc_id c = fp_feeContractId p \<and> fc_tenantId c = fp_tenantId p"
    and "fp_checkStatus p \<noteq> Some CK_BOUNCED"
  shows "holds_ok X db'"
  using create_payment_tables [OF assms(1)] assms(2-)
  by (auto simp: holds_ok_def hold_ok_def)

text \<open>Settling: the balance goes down by the amount, or to zero.\<close>

lemma clamp0_cases: "clamp0 x = x \<and> 0 \<le> x \<or> clamp0 x = 0 \<and> x < 0"
  by (auto simp: clamp0_def)

lemma settle_row_ok:
  assumes "contract_ok c" and "0 \<le> a" and "s = (if clamp0 (fc_balanceRemaining c - a) = 0 then FC_COMPLETED else fc_status c)"
  shows "contract_ok (c\<lparr>fc_balanceRemaining := dec2 (clamp0 (fc_balanceRemaining c - a)), fc_status := s\<rparr>)"
proof -
  let ?b = "clamp0 (fc_balanceRemaining c - a)"
  have m: "is_money (fc_finalPayableAmount c)" "is_money (fc_balanceRemaining c)"
    and b: "0 \<le> fc_balanceRemaining c" "fc_balanceRemaining c \<le> fc_finalPayableAmount c"
    using assms(1) by (simp_all add: contract_ok_def)
  have "0 \<le> ?b" and le: "?b \<le> fc_balanceRemaining c" using assms(2) b(1) by (auto simp: clamp0_def)
  then have "0 \<le> dec2 ?b" and "dec2 ?b \<le> fc_finalPayableAmount c"
    using dec2_nonneg dec2_le_money [OF m(2)] b(2) by (auto intro: order_trans)
  moreover have "s = FC_COMPLETED \<Longrightarrow> dec2 ?b = 0"
    using assms(1,3) le \<open>0 \<le> ?b\<close> by (auto simp: contract_ok_def split: if_splits)
  ultimately show ?thesis using m(1) by (simp add: contract_ok_def)
qed

lemma settle_row_books:
  assumes "contract_ok c" and "0 \<le> a"
  shows "fc_balanceRemaining c \<le> dec2 (clamp0 (fc_balanceRemaining c - a)) + dec2 a"
proof (cases "a \<le> fc_balanceRemaining c")
  case True
  with assms dec2_split [of "fc_balanceRemaining c" a] show ?thesis
    by (simp add: contract_ok_def clamp0_def)
next
  case False
  with assms dec2_ge_money [of "fc_balanceRemaining c" a] show ?thesis
    by (simp add: contract_ok_def clamp0_def)
qed

text \<open>
  The shape of every settlement: the contract row changes, installments may be credited, a receipt of
  the same amount is written.
\<close>

lemma settle_and_receipt:
  assumes inv: "ledger_inv db" and c: "c \<in> set (contracts db)"
    and keep: "\<And>d. fc_id (f d) = fc_id d \<and> fc_tenantId (f d) = fc_tenantId d
       \<and> fc_finalPayableAmount (f d) = fc_finalPayableAmount d"
    and row: "contract_ok (f c)" "fc_balanceRemaining c \<le> fc_balanceRemaining (f c) + dec2 a"
    and hold: "\<And>p. p \<in> set (payments db) \<Longrightarrow> fp_feeContractId p = fc_id c \<Longrightarrow> fp_tenantId p = fc_tenantId c \<Longrightarrow>
       fp_checkStatus p = Some CK_BOUNCED \<Longrightarrow> fp_id p \<notin> X \<Longrightarrow> fc_hasFinancialHold c \<Longrightarrow> fc_hasFinancialHold (f c)"
    and mid: "contracts mid = contracts (update_contract (fc_id c) f db)" "payments mid = payments db"
       "receipts mid = receipts db" "map fi_id (installments mid) = map fi_id (installments db)"
    and r: "create_receipt r mid = Inr db'" "fr_contractId r = fc_id c" "fr_amount r = a"
  shows "ledger_but X db'"
proof -
  from inv have inv': "keys_ok db" "contracts_ok db" "payments_ok db" "holds_ok {} db" "books (\<lambda>_. 0) db"
    by (simp_all add: ledger_inv_def ledger_but_def)
  let ?u = "update_contract (fc_id c) f db"
  have one: "d = c" if "d \<in> set (contracts db)" "fc_id d = fc_id c" for d
    using distinct_key_inj [of fc_id "contracts db" d c] inv'(1) that c by (simp add: keys_ok_def)
  have "keys_ok ?u" using inv'(1) keep by (simp add: keys_update_contract)
  then have "keys_ok mid" using mid by (simp add: keys_ok_def)
  moreover have "contracts_ok ?u"
    by (rule contracts_ok_update [OF inv'(2)]) (use one row(1) in blast)
  then have "contracts_ok mid" using mid by (simp add: contracts_ok_def)
  moreover have "holds_ok X ?u"
    by (rule holds_update_contract [OF inv'(4)]) (use one keep hold in blast)+
  then have "holds_ok X mid" using mid by (simp add: holds_ok_def)
  moreover have "payments_ok mid" using mid inv'(3) by (simp add: payments_ok_def)
  moreover have "books ((\<lambda>_. 0)(fc_id c := 0 + dec2 a)) ?u"
    by (rule books_update_contract [OF inv'(5)]) (use one keep row(2) in blast)
  then have "books ((\<lambda>_. 0)(fc_id c := 0 + dec2 a)) mid" using mid by (simp add: books_eq [of mid ?u])
  then have "books (\<lambda>_. 0) db'" by (rule books_create_receipt [OF _ r(1)]) (simp_all add: r)
  ultimately show ?thesis
    using create_receipt_keeps [OF r(1)] by (simp add: ledger_but_def)
qed

lemma settle_contract_tables [simp]:
  "installments (settle_contract c b db) = installments db"
  "payments (settle_contract c b db) = payments db"
  "transactions (settle_contract c b db) = transactions db"
  "receipts (settle_contract c b db) = receipts db"
  "studentUser (settle_contract c b db) = studentUser db"
  "outbox (settle_contract c b db) = outbox db"
  by (simp_all add: settle_contract_def)

lemma settle_contract_inv:
  assumes "ledger_inv db" and "c \<in> set (contracts db)" and "0 \<le> a" and "B = clamp0 (fc_balanceRemaining c - a)"
    and "create_receipt r (settle_contract c B (credit_found e inst x db)) = Inr db'"
    and "fr_contractId r = fc_id c" and "fr_amount r = a"
  shows "ledger_inv db'"
  unfolding ledger_inv_def
proof -
  have ok: "contract_ok c" using assms(1,2) by (auto simp: ledger_defs list_all_iff)
  show "ledger_but {} db'"
    by (rule settle_and_receipt [OF assms(1,2) _ _ _ _ _ _ _ _ assms(5-7),
          where f = "\<lambda>d. d\<lparr>fc_balanceRemaining := dec2 B, fc_status := (if B = 0 then FC_COMPLETED else fc_status c)\<rparr>"])
      (use settle_row_ok [OF ok assms(3)] settle_row_books [OF ok assms(3)] assms(4) in
        \<open>simp_all add: settle_contract_def update_contract_def\<close>)
qed

lemmas settle_contract_inv0 = settle_contract_inv [where inst = None, unfolded credit_found_def option.case]

definition has_contract :: "id \<Rightarrow> id \<Rightarrow> fee_db \<Rightarrow> bool" where
  "has_contract t i db \<longleftrightarrow> (i, t) \<in> set (map (\<lambda>d. (fc_id d, fc_tenantId d)) (contracts db))"

lemma has_contractI: "c \<in> set (contracts db) \<Longrightarrow> fc_tenantId c = t \<Longrightarrow> has_contract t (fc_id c) db"
  by (auto simp: has_contract_def)

lemma has_contract_eq: "contracts db' = contracts db \<Longrightarrow> has_contract t i db' = has_contract t i db"
  by (simp add: has_contract_def)

lemma has_contract_settle [simp]: "has_contract t i (settle_contract c b db) = has_contract t i db"
proof -
  have "map (\<lambda>d. (fc_id d, fc_tenantId d)) (contracts (settle_contract c b db))
      = map (\<lambda>d. (fc_id d, fc_tenantId d)) (contracts db)"
    by (simp add: settle_contract_def update_contract_def update_row_def)
  then show ?thesis by (simp only: has_contract_def)
qed

lemma payment_has_contract:
  assumes "ledger_inv db" and "p \<in> set (payments db)"
  shows "has_contract (fp_tenantId p) (fp_feeContractId p) db"
proof -
  from assms obtain c where "c \<in> set (contracts db)" "fc_id c = fp_feeContractId p" "fc_tenantId c = fp_tenantId p"
    by (auto simp: ledger_defs list_all_iff hold_ok_def)
  then show ?thesis using has_contractI by metis
qed

lemma payment_contract_tenant:
  assumes "ledger_inv db" and "p \<in> set (payments db)" and "c \<in> set (contracts db)" and "fc_id c = fp_feeContractId p"
  shows "fc_tenantId c = fp_tenantId p"
proof -
  obtain d where d: "d \<in> set (contracts db)" "fc_id d = fp_feeContractId p" "fc_tenantId d = fp_tenantId p"
    using payment_has_contract [OF assms(1,2)] by (auto simp: has_contract_def)
  have "distinct (map fc_id (contracts db))" using assms(1) by (simp add: ledger_defs)
  then have "d = c" using distinct_key_inj d(1,2) assms(3,4) by metis
  with d(3) show ?thesis by simp
qed

text \<open>The write that ends a status change of a payment ends its exemption.\<close>

lemma update_payment_inv:
  assumes "ledger_but {fp_id p} db" and "p \<in> set (payments db)"
    and keep: "\<And>q. fp_id (f q) = fp_id q \<and> fp_amount (f q) = fp_amount q
      \<and> fp_feeContractId (f q) = fp_feeContractId q \<and> fp_tenantId (f q) = fp_tenantId q"
    and held: "\<And>c. fp_checkStatus (f p) = Some CK_BOUNCED \<Longrightarrow> c \<in> set (contracts db) \<Longrightarrow>
      fc_id c = fp_feeContractId p \<Longrightarrow> fc_hasFinancialHold c"
  shows "ledger_inv (update_payment (fp_id p) f db)"
proof -
  have rows: "list_all payment_ok (payments db)" "list_all (hold_ok {fp_id p} (contracts db)) (payments db)"
    "distinct (map fp_id (payments db))"
    using assms(1) by (simp_all add: ledger_but_def keys_ok_def payments_ok_def holds_ok_def)
  have "payment_ok q \<and> hold_ok {} (contracts db) q" if "q \<in> set (update_row fp_id (fp_id p) f (payments db))" for q
    using that
  proof (cases rule: update_row_memE)
    case same
    then have "payment_ok q" "hold_ok {fp_id p} (contracts db) q" using rows by (auto simp: list_all_iff)
    with same show ?thesis by (auto simp: hold_ok_def)
  next
    case (changed q0)
    then have "q0 = p" using distinct_key_inj [OF rows(3)] assms(2) by blast
    moreover have "payment_ok p" "hold_ok {fp_id p} (contracts db) p" using rows assms(2) by (auto simp: list_all_iff)
    ultimately show ?thesis using keep held changed by (auto simp: hold_ok_def payment_ok_def)
  qed
  then have "payments_ok (update_payment (fp_id p) f db)" "holds_ok {} (update_payment (fp_id p) f db)"
    unfolding payments_ok_def holds_ok_def list_all_iff by (simp_all add: update_payment_def)
  moreover have "keys_ok (update_payment (fp_id p) f db)"
    using assms(1) keyed_update.map_key_update [OF keyed_update.intro, of fp_id f] keep
    by (simp add: ledger_but_def keys_ok_def) (simp add: update_payment_def)
  ultimately show ?thesis
    using assms(1) by (simp add: ledger_inv_def ledger_but_def contracts_ok_def books_def received_def)
qed

text \<open>A change of the hold columns of a contract.\<close>

lemma update_hold_inv:
  assumes "ledger_inv db"
    and keep: "\<And>d. fc_id (f d) = fc_id d \<and> fc_tenantId (f d) = fc_tenantId d \<and> fc_status (f d) = fc_status d
       \<and> fc_finalPayableAmount (f d) = fc_finalPayableAmount d \<and> fc_balanceRemaining (f d) = fc_balanceRemaining d"
    and hold: "\<And>c p. c \<in> set (contracts db) \<Longrightarrow> fc_id c = i \<Longrightarrow> p \<in> set (payments db) \<Longrightarrow> fp_feeContractId p = i \<Longrightarrow>
       fp_tenantId p = fc_tenantId c \<Longrightarrow> fp_checkStatus p = Some CK_BOUNCED \<Longrightarrow> fp_id p \<notin> X \<Longrightarrow>
       fc_hasFinancialHold c \<Longrightarrow> fc_hasFinancialHold (f c)"
  shows "ledger_but X (update_contract i f db)"
proof -
  from assms(1) have inv: "keys_ok db" "contracts_ok db" "payments_ok db" "holds_ok {} db" "books (\<lambda>_. 0) db"
    by (simp_all add: ledger_inv_def ledger_but_def)
  have "contracts_ok (update_contract i f db)"
    by (rule contracts_ok_update [OF inv(2)]) (use keep in \<open>simp add: contract_ok_def\<close>)
  moreover have "holds_ok X (update_contract i f db)"
    by (rule holds_update_contract [OF inv(4)]) (use keep hold in blast)+
  moreover have "books ((\<lambda>_. 0)(i := 0 + 0)) (update_contract i f db)"
    by (rule books_update_contract [OF inv(5)]) (use keep in simp)
  moreover have "((\<lambda>_. 0)(i := 0 + 0)) = (\<lambda>_. 0 :: rat)" by auto
  ultimately show ?thesis
    using inv(1,3) keep by (simp add: ledger_but_def keys_update_contract payments_ok_def)
qed

section \<open>The interface of a ledger service\<close>

text \<open>
  A service whose requests write to the ledger promises that each accepted request keeps the ledger
  invariant, only ever adds receipts, and never changes a debt that is on the books.
\<close>

definition debts :: "fee_db \<Rightarrow> (id \<times> rat) list" where
  "debts db = map (\<lambda>c. (fc_id c, fc_finalPayableAmount c)) (contracts db)"

lemma debts_update_contract:
  assumes "\<And>c. fc_id (f c) = fc_id c \<and> fc_finalPayableAmount (f c) = fc_finalPayableAmount c"
  shows "debts (update_contract i f db) = debts db"
  using assms by (simp add: debts_def update_contract_def update_row_def comp_def)

locale ledger_service =
  fixes inv :: "fee_db \<Rightarrow> bool"
    and serve :: "'req \<Rightarrow> fee_db \<Rightarrow> http_error + fee_db"
    and valid :: "'req \<Rightarrow> bool"
  assumes inv_ledger: "inv db \<Longrightarrow> ledger_inv db"
    and serve_inv: "valid r \<Longrightarrow> inv db \<Longrightarrow> serve r db = Inr db' \<Longrightarrow> inv db'"
    and serve_receipts: "serve r db = Inr db' \<Longrightarrow> \<exists>new. receipts db' = receipts db @ new"
    and serve_debts: "serve r db = Inr db' \<Longrightarrow> \<exists>new. debts db' = debts db @ new"
begin

lemma run_inv:
  "list_all valid rs \<Longrightarrow> inv db \<Longrightarrow> foldE serve rs db = Inr db' \<Longrightarrow> inv db'"
proof (rule foldE_invariant [where I = inv and f = serve and xs = rs])
  assume "list_all valid rs"
  then show "\<And>x s s'. x \<in> set rs \<Longrightarrow> inv s \<Longrightarrow> serve x s = Inr s' \<Longrightarrow> inv s'"
    using serve_inv by (auto simp: list_all_iff)
qed

lemma run_receipts: "foldE serve rs db = Inr db' \<Longrightarrow> \<exists>new. receipts db' = receipts db @ new"
proof (rule foldE_invariant [where I = "\<lambda>s. \<exists>new. receipts s = receipts db @ new" and f = serve and xs = rs])
  show "\<And>x s s'. \<exists>new. receipts s = receipts db @ new \<Longrightarrow> serve x s = Inr s' \<Longrightarrow>
      \<exists>new. receipts s' = receipts db @ new"
    using serve_receipts by (metis append.assoc)
qed simp_all

lemma run_debts: "foldE serve rs db = Inr db' \<Longrightarrow> \<exists>new. debts db' = debts db @ new"
proof (rule foldE_invariant [where I = "\<lambda>s. \<exists>new. debts s = debts db @ new" and f = serve and xs = rs])
  show "\<And>x s s'. \<exists>new. debts s = debts db @ new \<Longrightarrow> serve x s = Inr s' \<Longrightarrow> \<exists>new. debts s' = debts db @ new"
    using serve_debts by (metis append.assoc)
qed simp_all

text \<open>After any run the receipts account for whatever part of the debt is gone.\<close>

lemma run_accounts:
  assumes "list_all valid rs" and "inv db" and "foldE serve rs db = Inr db'" and "c \<in> set (contracts db')"
  shows "0 \<le> fc_balanceRemaining c \<and> fc_balanceRemaining c \<le> fc_finalPayableAmount c
    \<and> fc_finalPayableAmount c - fc_balanceRemaining c \<le> received (fc_id c) db'"
proof -
  have "ledger_inv db'" using run_inv inv_ledger assms(1-3) by blast
  then have "contract_ok c"
    and "fc_finalPayableAmount c \<le> fc_balanceRemaining c + received (fc_id c) db' + 0"
    using assms(4) by (auto simp: ledger_defs list_all_iff)
  then show ?thesis by (auto simp: contract_ok_def)
qed

end

end
