(* ===== verification/Fee_Payment.thy ===== *)
theory Fee_Payment
  imports Fee_Ledger "HOL-Library.Multiset"
begin

text \<open>
  \<open>FeePaymentService\<close> (\<open>modules/finance/fee-payment.service.ts\<close>): cash payments, the register of
  Sayad cheques and the cheque state machine.  An operation that reads outside its transaction is
  split in two, the check that takes the snapshot and the commit that writes, so that two requests
  can be interleaved.
\<close>

section \<open>Request bodies\<close>

record RecordCashPaymentDto =
  cash_contractId :: id
  cash_installmentId :: "id option"
  cash_amount :: rat
  cash_cashReceivedAt :: "time option"
  cash_note :: "string option"

record RecordChequePaymentDto =
  chq_contractId :: id
  chq_installmentId :: "id option"
  chq_amount :: rat
  chq_checkNumber :: string
  chq_checkSayadId :: string
  chq_bankName :: string
  chq_branchName :: "string option"
  chq_checkOwnerName :: "string option"
  chq_checkDueDate :: time
  chq_note :: "string option"

record UpdateChequeStatusDto =
  ucs_status :: CheckStatus
  ucs_note :: "string option"
  ucs_replacementCheque :: "RecordChequePaymentDto option"
  ucs_replacementCash :: "RecordCashPaymentDto option"

section \<open>Cash payments\<close>

definition cash_check :: "id \<Rightarrow> RecordCashPaymentDto \<Rightarrow> fee_db \<Rightarrow> http_error + StudentFeeContract" where
  "cash_check tenantId dto db =
     (case find (\<lambda>c. fc_id c = cash_contractId dto \<and> fc_tenantId c = tenantId) (contracts db) of
        None \<Rightarrow> Inl (NotFound ''contract'')
      | Some contract \<Rightarrow>
          if cash_amount dto \<le> 0 then Inl (BadRequest ''amount must be positive'')
          else if cash_amount dto > fc_balanceRemaining contract
            then Inl (BadRequest ''amount exceeds the remaining balance'')
          else Inr contract)"

text \<open>
  \<open>checkStatus\<close> is not given for a cash payment, so its row takes the default of the schema, which is
  \<open>PENDING\<close>.
\<close>

definition cash_payment_row ::
  "id \<Rightarrow> id \<Rightarrow> id \<Rightarrow> id \<Rightarrow> id option \<Rightarrow> rat \<Rightarrow> time option \<Rightarrow> string option \<Rightarrow> env \<Rightarrow> FeePayment" where
  "cash_payment_row i tenantId recordedById contractId installmentId amount receivedAt note e =
     \<lparr>fp_id = i, fp_tenantId = tenantId, fp_feeContractId = contractId,
      fp_installmentId = installmentId, fp_method = CASH, fp_amount = amount,
      fp_recordedById = recordedById, fp_note = note,
      fp_cashReceivedAt = Some (case receivedAt of Some t \<Rightarrow> t | None \<Rightarrow> now e),
      fp_checkNumber = None, fp_checkSayadId = None, fp_bankName = None, fp_branchName = None,
      fp_checkOwnerName = None, fp_checkDueDate = None, fp_checkStatus = Some CK_PENDING,
      fp_checkStatusChangedAt = None, fp_checkStatusChangedById = None,
      fp_replacedByPaymentId = None\<rparr>"

definition cash_commit ::
  "id \<Rightarrow> id \<Rightarrow> RecordCashPaymentDto \<Rightarrow> StudentFeeContract \<Rightarrow> env \<Rightarrow> fee_db \<Rightarrow> http_error + fee_db \<times> rat" where
  "cash_commit tenantId recordedById dto contract e db =
     (let payAmount = cash_amount dto;
          payment = cash_payment_row (uuid e 0) tenantId recordedById (fc_id contract)
            (cash_installmentId dto) payAmount (cash_cashReceivedAt dto) (cash_note dto) e
      in bindE (create_payment payment db) (\<lambda>db1.
      let inst = (if truthy (cash_installmentId dto) then
                   find (\<lambda>i. Some (fi_id i) = cash_installmentId dto \<and> fi_contractId i = fc_id contract)
                     (installments db1)
                 else None);
          db2 = credit_found e inst payAmount db1;
          newContractBalance = fc_balanceRemaining contract - payAmount;
          db3 = settle_contract contract newContractBalance db2;
          receipt = \<lparr>fr_id = uuid e 1, fr_tenantId = tenantId, fr_transactionId = None,
            fr_paymentId = Some (fp_id payment), fr_contractId = fc_id contract,
            fr_receiptNumber = receipt_number ''REC-CSH-'' e, fr_amount = payAmount,
            fr_payerName = payer_name ''payer'' db contract, fr_paymentMethod = CASH,
            fr_issuedById = Some recordedById\<rparr>
      in bindE (create_receipt receipt db3) (\<lambda>db4. Inr (db4, newContractBalance))))"

definition recordCashPayment ::
  "id \<Rightarrow> id \<Rightarrow> RecordCashPaymentDto \<Rightarrow> env \<Rightarrow> fee_db \<Rightarrow> http_error + fee_db \<times> rat" where
  "recordCashPayment tenantId recordedById dto e db =
     bindE (cash_check tenantId dto db) (\<lambda>contract. cash_commit tenantId recordedById dto contract e db)"

section \<open>Cheques\<close>

text \<open>\<open>/^\d{16}$/\<close>\<close>

definition is_digit :: "char \<Rightarrow> bool" where
  "is_digit c \<longleftrightarrow> 48 \<le> (of_char c :: nat) \<and> (of_char c :: nat) \<le> 57"

definition valid_sayad :: "string \<Rightarrow> bool" where
  "valid_sayad s \<longleftrightarrow> length s = 16 \<and> list_all is_digit s"

definition cheque_row ::
  "id \<Rightarrow> id \<Rightarrow> id \<Rightarrow> id \<Rightarrow> id option \<Rightarrow> RecordChequePaymentDto \<Rightarrow> string option \<Rightarrow> FeePayment" where
  "cheque_row i tenantId recordedById contractId installmentId dto note =
     \<lparr>fp_id = i, fp_tenantId = tenantId, fp_feeContractId = contractId,
      fp_installmentId = installmentId, fp_method = CHEQUE, fp_amount = chq_amount dto,
      fp_recordedById = recordedById, fp_note = note, fp_cashReceivedAt = None,
      fp_checkNumber = Some (chq_checkNumber dto), fp_checkSayadId = Some (chq_checkSayadId dto),
      fp_bankName = Some (chq_bankName dto), fp_branchName = chq_branchName dto,
      fp_checkOwnerName = chq_checkOwnerName dto, fp_checkDueDate = Some (chq_checkDueDate dto),
      fp_checkStatus = Some CK_PENDING, fp_checkStatusChangedAt = None,
      fp_checkStatusChangedById = None, fp_replacedByPaymentId = None\<rparr>"

definition recordChequePayment ::
  "id \<Rightarrow> id \<Rightarrow> RecordChequePaymentDto \<Rightarrow> env \<Rightarrow> fee_db \<Rightarrow> http_error + fee_db" where
  "recordChequePayment tenantId recordedById dto e db =
     (case find (\<lambda>c. fc_id c = chq_contractId dto \<and> fc_tenantId c = tenantId) (contracts db) of
        None \<Rightarrow> Inl (NotFound ''contract'')
      | Some contract \<Rightarrow>
          if \<not> valid_sayad (chq_checkSayadId dto) then Inl (BadRequest ''Sayad id must have 16 digits'')
          else if find (\<lambda>p. fp_tenantId p = tenantId \<and> fp_checkSayadId p = Some (chq_checkSayadId dto))
                    (payments db) \<noteq> None
            then Inl (Conflict ''Sayad id already registered'')
          else if chq_amount dto \<le> 0 then Inl (BadRequest ''amount must be positive'')
          else create_payment
            (cheque_row (uuid e 0) tenantId recordedById (fc_id contract) (chq_installmentId dto) dto
               (chq_note dto)) db)"

text \<open>The checks of \<open>updateChequeStatus\<close>; the snapshot is the cheque with its contract.\<close>

definition cheque_check ::
  "id \<Rightarrow> id \<Rightarrow> UpdateChequeStatusDto \<Rightarrow> fee_db \<Rightarrow> http_error + FeePayment \<times> StudentFeeContract" where
  "cheque_check tenantId paymentId dto db =
     (case find (\<lambda>p. fp_id p = paymentId \<and> fp_tenantId p = tenantId) (payments db) of
        None \<Rightarrow> Inl (NotFound ''cheque'')
      | Some cheque \<Rightarrow>
          if fp_method cheque \<noteq> CHEQUE then Inl (BadRequest ''not a cheque'')
          else if fp_checkStatus cheque = Some CK_CASHED \<and> ucs_status dto \<noteq> CK_CASHED
            then Inl (BadRequest ''a cashed cheque cannot change'')
          else case find_row fc_id (fp_feeContractId cheque) (contracts db) of
            None \<Rightarrow> Inl (ForeignKeyViolation ''FeePayment.feeContractId'')
          | Some contract \<Rightarrow> Inr (cheque, contract))"

text \<open>Is there another bounced cheque on the contract?\<close>

definition other_bounced :: "id \<Rightarrow> id \<Rightarrow> id \<Rightarrow> fee_db \<Rightarrow> bool" where
  "other_bounced tenantId contractId chequeId db \<longleftrightarrow>
     find (\<lambda>p. fp_tenantId p = tenantId \<and> fp_feeContractId p = contractId \<and> fp_id p \<noteq> chequeId
                \<and> fp_checkStatus p = Some CK_BOUNCED) (payments db) \<noteq> None"

text \<open>Case A: the cheque is cashed and the debt is reduced.\<close>

definition cheque_cashed ::
  "id \<Rightarrow> id \<Rightarrow> FeePayment \<Rightarrow> StudentFeeContract \<Rightarrow> env \<Rightarrow> fee_db \<Rightarrow> http_error + fee_db" where
  "cheque_cashed tenantId changedById cheque contract e db =
     (let chequeAmount = fp_amount cheque;
          finalBalance = clamp0 (fc_balanceRemaining contract - chequeAmount);
          otherBounced = other_bounced tenantId (fc_id contract) (fp_id cheque) db;
          db1 = update_contract (fc_id contract)
            (\<lambda>c. c\<lparr>fc_balanceRemaining := dec2 finalBalance,
                   fc_hasFinancialHold := otherBounced,
                   fc_financialHoldReason :=
                     (if otherBounced then fc_financialHoldReason contract else None),
                   fc_status := (if finalBalance = 0 then FC_COMPLETED else fc_status contract)\<rparr>) db;
          inst = (if truthy (fp_installmentId cheque) then
                   find (\<lambda>i. Some (fi_id i) = fp_installmentId cheque) (installments db1)
                 else None);
          db2 = credit_found e inst chequeAmount db1;
          receipt = \<lparr>fr_id = uuid e 1, fr_tenantId = tenantId, fr_transactionId = None,
            fr_paymentId = Some (fp_id cheque), fr_contractId = fc_id contract,
            fr_receiptNumber = receipt_number ''REC-CHQ-'' e, fr_amount = chequeAmount,
            fr_payerName = payer_name ''cheque owner'' db contract, fr_paymentMethod = CHEQUE,
            fr_issuedById = Some changedById\<rparr>
      in create_receipt receipt db2)"

text \<open>Case B: the cheque bounced; the debt stays and the contract is put on hold.\<close>

definition cheque_bounced :: "id \<Rightarrow> FeePayment \<Rightarrow> StudentFeeContract \<Rightarrow> fee_db \<Rightarrow> fee_db" where
  "cheque_bounced tenantId cheque contract db =
     (update_contract (fc_id contract)
        (\<lambda>c. c\<lparr>fc_hasFinancialHold := True,
               fc_financialHoldReason := Some (BouncedCheque
                 (show_opt (js_or (fp_checkNumber cheque) (fp_checkSayadId cheque)))
                 (fp_amount cheque) (str_or (fp_bankName cheque) ''''))\<rparr>) db)
     \<lparr>outbox := outbox db @ [ChequeBounced tenantId (fc_id contract) (fp_id cheque) (fp_amount cheque)]\<rparr>"

text \<open>
  Case C: the cheque is replaced by another cheque, by cash, or by nothing.  The result carries the
  identifier of the replacing payment.
\<close>

definition replacement_note :: "FeePayment \<Rightarrow> string" where
  "replacement_note cheque = ''replacement of bounced cheque no. '' @ show_opt (fp_checkNumber cheque)"

definition cash_replacement_note :: "FeePayment \<Rightarrow> string" where
  "cash_replacement_note cheque = ''cash settlement replacing cheque no. '' @ show_opt (fp_checkNumber cheque)"

definition replace_by_cheque ::
  "id \<Rightarrow> id \<Rightarrow> FeePayment \<Rightarrow> StudentFeeContract \<Rightarrow> RecordChequePaymentDto \<Rightarrow> env \<Rightarrow> fee_db
     \<Rightarrow> http_error + fee_db \<times> id option" where
  "replace_by_cheque tenantId changedById cheque contract r e db =
     (let newChq = cheque_row (uuid e 0) tenantId changedById (fc_id contract)
            (js_or (chq_installmentId r) (fp_installmentId cheque)) r
            (Some (replacement_note cheque))
      in bindE (create_payment newChq db) (\<lambda>db1. Inr (db1, Some (fp_id newChq))))"

definition replace_by_cash ::
  "id \<Rightarrow> id \<Rightarrow> FeePayment \<Rightarrow> StudentFeeContract \<Rightarrow> RecordCashPaymentDto \<Rightarrow> env \<Rightarrow> fee_db
     \<Rightarrow> http_error + fee_db \<times> id option" where
  "replace_by_cash tenantId changedById cheque contract r e db =
     (let cashAmount = cash_amount r;
          newCash = cash_payment_row (uuid e 0) tenantId changedById (fc_id contract)
            (js_or (cash_installmentId r) (fp_installmentId cheque)) cashAmount
            (cash_cashReceivedAt r)
            (Some (cash_replacement_note cheque)) e
      in bindE (create_payment newCash db) (\<lambda>db1.
      let finalBalance = clamp0 (fc_balanceRemaining contract - cashAmount);
          db2 = settle_contract contract finalBalance db1;
          receipt = \<lparr>fr_id = uuid e 1, fr_tenantId = tenantId, fr_transactionId = None,
            fr_paymentId = Some (fp_id newCash), fr_contractId = fc_id contract,
            fr_receiptNumber = receipt_number ''REC-CSH-REP-'' e, fr_amount = cashAmount,
            fr_payerName = payer_name ''guardian'' db contract, fr_paymentMethod = CASH,
            fr_issuedById = Some changedById\<rparr>
      in bindE (create_receipt receipt db2) (\<lambda>db3. Inr (db3, Some (fp_id newCash)))))"

definition release_hold :: "id \<Rightarrow> FeePayment \<Rightarrow> StudentFeeContract \<Rightarrow> fee_db \<Rightarrow> fee_db" where
  "release_hold tenantId cheque contract db =
     (if other_bounced tenantId (fc_id contract) (fp_id cheque) db then db
      else update_contract (fc_id contract)
        (\<lambda>c. c\<lparr>fc_hasFinancialHold := False, fc_financialHoldReason := None\<rparr>) db)"

definition cheque_replaced ::
  "id \<Rightarrow> id \<Rightarrow> FeePayment \<Rightarrow> StudentFeeContract \<Rightarrow> UpdateChequeStatusDto \<Rightarrow> env \<Rightarrow> fee_db
     \<Rightarrow> http_error + fee_db \<times> id option" where
  "cheque_replaced tenantId changedById cheque contract dto e db =
     bindE
       (case (ucs_replacementCheque dto, ucs_replacementCash dto) of
          (Some r, _) \<Rightarrow> replace_by_cheque tenantId changedById cheque contract r e db
        | (None, Some r) \<Rightarrow> replace_by_cash tenantId changedById cheque contract r e db
        | (None, None) \<Rightarrow> Inr (db, None))
       (\<lambda>(db1, replacedPaymentId). Inr (release_hold tenantId cheque contract db1, replacedPaymentId))"

text \<open>The write of the cheque row that ends every case.\<close>

definition mark_cheque ::
  "id \<Rightarrow> FeePayment \<Rightarrow> UpdateChequeStatusDto \<Rightarrow> id option \<Rightarrow> env \<Rightarrow> fee_db \<Rightarrow> fee_db" where
  "mark_cheque changedById cheque dto replacedPaymentId e db =
     update_payment (fp_id cheque)
       (\<lambda>p. p\<lparr>fp_checkStatus := Some (ucs_status dto),
              fp_checkStatusChangedAt := Some (now e),
              fp_checkStatusChangedById := Some changedById,
              fp_note := (if truthy (ucs_note dto)
                 then Some (trim (str_or (fp_note cheque) '''' @ '' | '' @ show_opt (ucs_note dto)))
                 else fp_note cheque),
              fp_replacedByPaymentId := replacedPaymentId\<rparr>) db"

definition cheque_commit ::
  "id \<Rightarrow> id \<Rightarrow> UpdateChequeStatusDto \<Rightarrow> FeePayment \<Rightarrow> StudentFeeContract \<Rightarrow> env \<Rightarrow> fee_db
     \<Rightarrow> http_error + fee_db" where
  "cheque_commit tenantId changedById dto cheque contract e db =
     bindE
       (if ucs_status dto = CK_CASHED \<and> fp_checkStatus cheque \<noteq> Some CK_CASHED then
          bindE (cheque_cashed tenantId changedById cheque contract e db) (\<lambda>db1. Inr (db1, None))
        else if ucs_status dto = CK_BOUNCED then
          Inr (cheque_bounced tenantId cheque contract db, None)
        else if ucs_status dto = CK_REPLACED then
          cheque_replaced tenantId changedById cheque contract dto e db
        else Inr (db, None))
       (\<lambda>(db1, replacedPaymentId). Inr (mark_cheque changedById cheque dto replacedPaymentId e db1))"

definition updateChequeStatus ::
  "id \<Rightarrow> id \<Rightarrow> id \<Rightarrow> UpdateChequeStatusDto \<Rightarrow> env \<Rightarrow> fee_db \<Rightarrow> http_error + fee_db" where
  "updateChequeStatus tenantId paymentId changedById dto e db =
     bindE (cheque_check tenantId paymentId dto db)
       (\<lambda>(cheque, contract). cheque_commit tenantId changedById dto cheque contract e db)"

section \<open>What the checks establish\<close>

lemma cash_check_Inr:
  "cash_check t dto db = Inr c \<longleftrightarrow>
     find (\<lambda>c. fc_id c = cash_contractId dto \<and> fc_tenantId c = t) (contracts db) = Some c
     \<and> 0 < cash_amount dto \<and> cash_amount dto \<le> fc_balanceRemaining c"
  by (auto simp: cash_check_def split: option.splits)

lemma cash_check_snapshot:
  assumes "cash_check t dto db = Inr c"
  shows "c \<in> set (contracts db)" "fc_id c = cash_contractId dto" "fc_tenantId c = t"
    "0 < cash_amount dto" "cash_amount dto \<le> fc_balanceRemaining c"
  using assms find_Some_iff_mem [of _ "contracts db" c] by (auto simp: cash_check_Inr)

lemma cheque_check_snapshot:
  assumes "cheque_check t i dto db = Inr (p, c)"
  shows "p \<in> set (payments db)" "fp_id p = i" "fp_tenantId p = t" "fp_method p = CHEQUE"
    "c \<in> set (contracts db)" "fc_id c = fp_feeContractId p"
    "fp_checkStatus p = Some CK_CASHED \<Longrightarrow> ucs_status dto = CK_CASHED"
  using assms
  by (auto simp: cheque_check_def split: option.splits if_splits
      dest!: find_Some_iff_mem find_row_SomeD)

section \<open>The ledger invariant\<close>

lemma cash_commit_inv:
  assumes "ledger_inv db" and "c \<in> set (contracts db)" and "fc_tenantId c = t"
    and "0 < cash_amount dto" and "cash_amount dto \<le> fc_balanceRemaining c"
    and "cash_commit t by dto c e db = Inr (db', b)"
  shows "ledger_inv db'"
  using assms(6) unfolding cash_commit_def Let_def
  apply (elim bindE_InrE)
  subgoal premises prems for db1 db4
  proof -
    have "\<exists>d \<in> set (contracts db). fc_id d = fc_id c \<and> fc_tenantId d = t" using assms(2,3) by blast
    then have "holds_ok {} db1"
      by (intro create_payment_holds [OF prems(1)])
        (use assms(1) in \<open>simp_all add: ledger_inv_def ledger_but_def cash_payment_row_def\<close>)
    then have inv1: "ledger_inv db1"
      using create_payment_keeps [OF prems(1)] assms(1,4)
      by (simp add: ledger_inv_def ledger_but_def cash_payment_row_def)
    have "db' = db4" using prems(3) by simp
    then show ?thesis using assms(2,4,5) prems(2) create_payment_tables(1) [OF prems(1)]
      by (intro settle_contract_inv [OF inv1 _ _ _ prems(2) [folded \<open>db' = db4\<close>], where a = "cash_amount dto"])
        (simp_all add: clamp0_def)
  qed
  done

lemma recordCheque_inv:
  assumes "ledger_inv db" and "recordChequePayment t by dto e db = Inr db'"
  shows "ledger_inv db'"
proof -
  from assms(2) obtain c where c: "c \<in> set (contracts db)" "fc_tenantId c = t"
    and pos: "0 < chq_amount dto"
    and p: "create_payment (cheque_row (uuid e 0) t by (fc_id c) (chq_installmentId dto) dto (chq_note dto)) db = Inr db'"
    by (auto simp: recordChequePayment_def split: option.splits if_splits dest!: find_Some_iff_mem)
  have "\<exists>d \<in> set (contracts db). fc_id d = fc_id c \<and> fc_tenantId d = t" using c by blast
  then have "holds_ok {} db'"
    by (intro create_payment_holds [OF p])
      (use assms(1) in \<open>simp_all add: ledger_inv_def ledger_but_def cheque_row_def\<close>)
  then show ?thesis
    using create_payment_keeps [OF p] assms(1) pos by (simp add: ledger_inv_def ledger_but_def cheque_row_def)
qed

text \<open>
  What the three cases of \<open>updateChequeStatus\<close> keep, from the snapshot \<open>(p, c)\<close> of the current state:
  the cheque itself is exempt from the hold condition until its row is marked.
\<close>

lemma other_bounced_iff:
  "other_bounced t cid i db \<longleftrightarrow> (\<exists>p \<in> set (payments db). fp_tenantId p = t \<and> fp_feeContractId p = cid
     \<and> fp_id p \<noteq> i \<and> fp_checkStatus p = Some CK_BOUNCED)"
  by (auto simp: other_bounced_def find_None_iff)

lemma cheque_cashed_inv:
  assumes inv: "ledger_inv db" and c: "c \<in> set (contracts db)" "fc_tenantId c = t"
    and p: "p \<in> set (payments db)"
    and r: "cheque_cashed t by p c e db = Inr db'"
  shows "ledger_but {fp_id p} db'"
proof -
  have ok: "contract_ok c" and amt: "0 \<le> fp_amount p"
    using inv c(1) p by (auto simp: ledger_defs list_all_iff payment_ok_def)
  show ?thesis
    by (rule settle_and_receipt [OF inv c(1) _ _ _ _ _ _ _ _ r [unfolded cheque_cashed_def Let_def]])
      (use settle_row_ok [OF ok amt] settle_row_books [OF ok amt] c(2) in
        \<open>auto simp: contract_ok_def update_contract_def other_bounced_iff\<close>)
qed

lemma cheque_bounced_inv:
  assumes "ledger_inv db" shows "ledger_inv (cheque_bounced t p c db)"
proof -
  have "ledger_but {} (update_contract (fc_id c) (\<lambda>d. d\<lparr>fc_hasFinancialHold := True,
      fc_financialHoldReason := Some (BouncedCheque (show_opt (js_or (fp_checkNumber p) (fp_checkSayadId p)))
        (fp_amount p) (str_or (fp_bankName p) ''''))\<rparr>) db)"
    by (rule update_hold_inv [OF assms]) simp_all
  then show ?thesis
    by (simp add: cheque_bounced_def ledger_defs received_def)
qed

lemma cheque_bounced_hold:
  "d \<in> set (contracts (cheque_bounced t p c db)) \<Longrightarrow> fc_id d = fc_id c \<Longrightarrow> fc_hasFinancialHold d"
  by (auto simp: cheque_bounced_def update_contract_def set_update_row split: if_splits)

lemma release_hold_inv:
  assumes "ledger_inv db" and c: "has_contract t (fc_id c) db"
  shows "ledger_but {fp_id p} (release_hold t p c db)"
proof (cases "other_bounced t (fc_id c) (fp_id p) db")
  case True
  then show ?thesis
    using assms(1) ledger_mono [of "{}" db "{fp_id p}"] by (simp add: release_hold_def ledger_inv_def)
next
  case False
  from c obtain d0 where d0: "d0 \<in> set (contracts db)" "fc_id d0 = fc_id c" "fc_tenantId d0 = t"
    by (auto simp: has_contract_def)
  have one: "fc_tenantId d = t" if "d \<in> set (contracts db)" "fc_id d = fc_id c" for d
    using distinct_key_inj [of fc_id "contracts db" d d0] assms(1) that d0 by (auto simp: ledger_defs)
  have "ledger_but {fp_id p} (update_contract (fc_id c)
      (\<lambda>c. c\<lparr>fc_hasFinancialHold := False, fc_financialHoldReason := None\<rparr>) db)"
    by (rule update_hold_inv [OF assms(1)]) (use False one in \<open>auto simp: other_bounced_iff\<close>)
  with False show ?thesis by (simp add: release_hold_def)
qed

lemma replace_by_cheque_inv:
  assumes inv: "ledger_inv db" and c: "c \<in> set (contracts db)" "fc_tenantId c = t" and "0 \<le> chq_amount r"
    and ok: "replace_by_cheque t by p c r e db = Inr (db', i)"
  shows "ledger_inv db' \<and> has_contract t (fc_id c) db'"
  using ok unfolding replace_by_cheque_def Let_def
  apply (elim bindE_InrE)
  subgoal premises prems for db1
  proof -
    have "\<exists>d \<in> set (contracts db). fc_id d = fc_id c \<and> fc_tenantId d = t" using c by blast
    then have "holds_ok {} db1"
      by (intro create_payment_holds [OF prems(1)])
        (use inv in \<open>simp_all add: ledger_inv_def ledger_but_def cheque_row_def\<close>)
    then show ?thesis
      using create_payment_keeps [OF prems(1)] create_payment_tables(1) [OF prems(1)] inv assms(4) prems(2)
        has_contractI [OF c] has_contract_eq [of db1 db]
      by (simp add: ledger_inv_def ledger_but_def cheque_row_def)
  qed
  done

lemma replace_by_cash_inv:
  assumes inv: "ledger_inv db" and c: "c \<in> set (contracts db)" "fc_tenantId c = t" and "0 \<le> cash_amount r"
    and ok: "replace_by_cash t by p c r e db = Inr (db', i)"
  shows "ledger_inv db' \<and> has_contract t (fc_id c) db'"
  using ok unfolding replace_by_cash_def Let_def
  apply (elim bindE_InrE)
  subgoal premises prems for db1 db3
  proof -
    have "\<exists>d \<in> set (contracts db). fc_id d = fc_id c \<and> fc_tenantId d = t" using c by blast
    then have "holds_ok {} db1"
      by (intro create_payment_holds [OF prems(1)])
        (use inv in \<open>simp_all add: ledger_inv_def ledger_but_def cash_payment_row_def\<close>)
    then have inv1: "ledger_inv db1"
      using create_payment_keeps [OF prems(1)] inv assms(4)
      by (simp add: ledger_inv_def ledger_but_def cash_payment_row_def)
    have "ledger_inv db3"
      by (rule settle_contract_inv0 [OF inv1 _ _ _ prems(2), where a = "cash_amount r"])
        (use c create_payment_tables(1) [OF prems(1)] assms(4) in simp_all)
    moreover have "has_contract t (fc_id c) db1"
      using has_contractI [OF c] has_contract_eq create_payment_tables(1) [OF prems(1)] by blast
    then have "has_contract t (fc_id c) db3"
      using has_contract_eq [OF create_receipt_tables(1) [OF prems(2)]] by simp
    ultimately show ?thesis using prems(3) by simp
  qed
  done

lemma mark_cheque_inv:
  assumes "ledger_but {fp_id p} db" and "p \<in> set (payments db)"
    and "\<And>c. ucs_status dto = CK_BOUNCED \<Longrightarrow> c \<in> set (contracts db) \<Longrightarrow> fc_id c = fp_feeContractId p \<Longrightarrow>
      fc_hasFinancialHold c"
  shows "ledger_inv (mark_cheque by p dto i e db)"
  unfolding mark_cheque_def by (rule update_payment_inv [OF assms(1,2)]) (use assms(3) in auto)

text \<open>
  The bodies the DTO validation lets through (\<open>@Min(1000)\<close> on both amounts, and on the amounts of the
  nested bodies of a status change).
\<close>

definition valid_cash_dto :: "RecordCashPaymentDto \<Rightarrow> bool" where
  "valid_cash_dto d \<longleftrightarrow> cash_contractId d \<noteq> [] \<and> 1000 \<le> cash_amount d"

definition valid_cheque_dto :: "RecordChequePaymentDto \<Rightarrow> bool" where
  "valid_cheque_dto d \<longleftrightarrow> chq_contractId d \<noteq> [] \<and> 1000 \<le> chq_amount d \<and> chq_checkNumber d \<noteq> []
     \<and> valid_sayad (chq_checkSayadId d) \<and> chq_bankName d \<noteq> []"

definition valid_update_dto :: "UpdateChequeStatusDto \<Rightarrow> bool" where
  "valid_update_dto d \<longleftrightarrow> pred_option valid_cheque_dto (ucs_replacementCheque d)
     \<and> pred_option valid_cash_dto (ucs_replacementCash d)"

lemma cheque_replaced_inv:
  assumes inv: "ledger_inv db" and c: "c \<in> set (contracts db)" "fc_tenantId c = t"
    and "valid_update_dto dto" and r: "cheque_replaced t by p c dto e db = Inr (db', i)"
  shows "ledger_but {fp_id p} db'"
proof -
  have valid: "ucs_replacementCheque dto = Some q \<Longrightarrow> 0 \<le> chq_amount q"
    "ucs_replacementCash dto = Some q' \<Longrightarrow> 0 \<le> cash_amount q'" for q q'
    using assms(4) by (auto simp: valid_update_dto_def valid_cheque_dto_def valid_cash_dto_def)
  from r obtain db1 where db': "db' = release_hold t p c db1"
    and "(case (ucs_replacementCheque dto, ucs_replacementCash dto) of
          (Some r, _) \<Rightarrow> replace_by_cheque t by p c r e db
        | (None, Some r) \<Rightarrow> replace_by_cash t by p c r e db
        | (None, None) \<Rightarrow> Inr (db, None)) = Inr (db1, i)"
    by (auto simp: cheque_replaced_def bindE_Inr)
  then have "ledger_inv db1 \<and> has_contract t (fc_id c) db1"
    using valid replace_by_cheque_inv [OF inv c] replace_by_cash_inv [OF inv c] inv has_contractI [OF c]
    by (auto split: option.splits)
  then show ?thesis unfolding db' by (blast intro: release_hold_inv)
qed

text \<open>No case removes a payment or a receipt, or touches a debt.\<close>

definition ledger_grows :: "fee_db \<Rightarrow> fee_db \<Rightarrow> bool" where
  "ledger_grows db db' \<longleftrightarrow> (\<exists>ps rs. payments db' = payments db @ ps \<and> receipts db' = receipts db @ rs)
     \<and> debts db' = debts db"

lemma ledger_grows_refl [simp]: "ledger_grows db db"
  by (simp add: ledger_grows_def)

lemma ledger_grows_trans: "ledger_grows a b \<Longrightarrow> ledger_grows b c \<Longrightarrow> ledger_grows a c"
  unfolding ledger_grows_def by (metis append.assoc)

lemma debts_eq: "contracts db' = contracts db \<Longrightarrow> debts db' = debts db"
  by (simp add: debts_def)

lemma create_payment_grows: "create_payment p db = Inr db' \<Longrightarrow> ledger_grows db db'"
  using create_payment_tables [of p db db'] by (simp add: ledger_grows_def debts_eq [of db' db])

lemma create_receipt_grows: "create_receipt r db = Inr db' \<Longrightarrow> ledger_grows db db'"
  using create_receipt_tables [of r db db'] by (simp add: ledger_grows_def debts_eq [of db' db])

lemma debts_steps [simp]:
  "debts (settle_contract c b db) = debts db"
  "debts (credit_found e i a db) = debts db"
  by (simp_all add: settle_contract_def debts_update_contract debts_eq [of "credit_found e i a db" db])

lemma settle_grows [simp]:
  "ledger_grows (settle_contract c b db) db' = ledger_grows db db'"
  "ledger_grows (credit_found e i a db) db' = ledger_grows db db'"
  by (simp_all add: ledger_grows_def)

lemma release_hold_grows: "ledger_grows db (release_hold t p c db)"
  by (simp add: ledger_grows_def release_hold_def debts_update_contract)

lemma cash_commit_grows: "cash_commit t by dto c e db = Inr (db', b) \<Longrightarrow> ledger_grows db db'"
  unfolding cash_commit_def Let_def
  by (auto elim!: bindE_InrE dest!: create_payment_grows create_receipt_grows intro: ledger_grows_trans)

lemma replace_by_cash_grows: "replace_by_cash t by p c r e db = Inr (db', i) \<Longrightarrow> ledger_grows db db'"
  unfolding replace_by_cash_def Let_def
  by (auto elim!: bindE_InrE dest!: create_payment_grows create_receipt_grows intro: ledger_grows_trans)

lemma replace_by_cheque_grows: "replace_by_cheque t by p c r e db = Inr (db', i) \<Longrightarrow> ledger_grows db db'"
  unfolding replace_by_cheque_def Let_def by (auto elim!: bindE_InrE dest!: create_payment_grows)

lemma cheque_replaced_grows: "cheque_replaced t by p c dto e db = Inr (db', i) \<Longrightarrow> ledger_grows db db'"
  unfolding cheque_replaced_def
  by (auto elim!: bindE_InrE split: option.splits dest!: replace_by_cash_grows replace_by_cheque_grows
      intro: ledger_grows_trans release_hold_grows)

lemma cheque_cashed_grows:
  assumes "cheque_cashed t by p c e db = Inr db'" shows "ledger_grows db db'"
  using create_receipt_grows [OF assms [unfolded cheque_cashed_def Let_def]]
  by (simp add: ledger_grows_def debts_update_contract)

lemma cheque_bounced_grows: "ledger_grows db (cheque_bounced t p c db)"
proof -
  have "debts (cheque_bounced t p c db) = debts (update_contract (fc_id c) (\<lambda>c. c\<lparr>fc_hasFinancialHold := True,
      fc_financialHoldReason := Some (BouncedCheque (show_opt (js_or (fp_checkNumber p) (fp_checkSayadId p)))
        (fp_amount p) (str_or (fp_bankName p) ''''))\<rparr>) db)"
    by (rule debts_eq) (simp add: cheque_bounced_def)
  then show ?thesis by (simp add: ledger_grows_def cheque_bounced_def debts_update_contract)
qed

text \<open>A status change is one of the cases, then the write of the cheque row.\<close>

lemma cheque_commit_cases:
  assumes "cheque_commit t by dto p c e db = Inr db'"
  obtains
    (cashed) db1 where "ucs_status dto = CK_CASHED" "fp_checkStatus p \<noteq> Some CK_CASHED"
      "cheque_cashed t by p c e db = Inr db1" "db' = mark_cheque by p dto None e db1"
  | (bounced) "ucs_status dto = CK_BOUNCED" "db' = mark_cheque by p dto None e (cheque_bounced t p c db)"
  | (replaced) db1 i where "ucs_status dto = CK_REPLACED"
      "cheque_replaced t by p c dto e db = Inr (db1, i)" "db' = mark_cheque by p dto i e db1"
  | (noted) "ucs_status dto = CK_PENDING \<or> ucs_status dto = CK_CASHED \<and> fp_checkStatus p = Some CK_CASHED"
      "db' = mark_cheque by p dto None e db"
  using assms
  by (cases "ucs_status dto") (auto simp: cheque_commit_def bindE_Inr split: if_splits)

lemma cheque_commit_inv:
  assumes inv: "ledger_inv db" and c: "c \<in> set (contracts db)" "fc_tenantId c = t" "fc_id c = fp_feeContractId p"
    and p: "p \<in> set (payments db)" and "valid_update_dto dto"
    and r: "cheque_commit t by dto p c e db = Inr db'"
  shows "ledger_inv db'"
proof -
  have weak: "ledger_but {fp_id p} d" if "ledger_inv d" for d
    using that ledger_mono [of "{}" d "{fp_id p}"] by (simp add: ledger_inv_def)
  have stays: "p \<in> set (payments d)" if "ledger_grows db d" for d
    using that p by (auto simp: ledger_grows_def)
  show ?thesis using r
  proof (cases rule: cheque_commit_cases)
    case (cashed db1)
    show ?thesis
      unfolding cashed(4)
      by (rule mark_cheque_inv [OF cheque_cashed_inv [OF inv c(1,2) p cashed(3)] stays [OF cheque_cashed_grows [OF cashed(3)]]])
        (simp add: cashed(1))
  next
    case bounced
    then show ?thesis
      using mark_cheque_inv [OF weak [OF cheque_bounced_inv [OF inv]] stays [OF cheque_bounced_grows]]
        cheque_bounced_hold c(3) by metis
  next
    case (replaced db1 i)
    show ?thesis
      unfolding replaced(3)
      by (rule mark_cheque_inv [OF cheque_replaced_inv [OF inv c(1,2) assms(6) replaced(2)]
            stays [OF cheque_replaced_grows [OF replaced(2)]]])
        (simp add: replaced(1))
  next
    case noted
    show ?thesis unfolding noted(2) by (rule mark_cheque_inv [OF weak [OF inv] p]) (use noted(1) in auto)
  qed
qed

section \<open>The service\<close>

text \<open>The writing requests of the fee payment controller, and the service as a ledger service.\<close>

datatype fee_request =
    CashRequest id id RecordCashPaymentDto env
  | ChequeRequest id id RecordChequePaymentDto env
  | ChequeStatusRequest id id id UpdateChequeStatusDto env

fun fee_payment_serve :: "fee_request \<Rightarrow> fee_db \<Rightarrow> http_error + fee_db" where
  "fee_payment_serve (CashRequest t by dto e) db = bindE (recordCashPayment t by dto e db) (\<lambda>(db', _). Inr db')"
| "fee_payment_serve (ChequeRequest t by dto e) db = recordChequePayment t by dto e db"
| "fee_payment_serve (ChequeStatusRequest t i by dto e) db = updateChequeStatus t i by dto e db"

fun fee_request_valid :: "fee_request \<Rightarrow> bool" where
  "fee_request_valid (CashRequest _ _ dto _) = valid_cash_dto dto"
| "fee_request_valid (ChequeRequest _ _ dto _) = valid_cheque_dto dto"
| "fee_request_valid (ChequeStatusRequest _ _ _ dto _) = valid_update_dto dto"

lemma mark_cheque_grows_receipts [simp]:
  "receipts (mark_cheque by p dto i e db) = receipts db" "debts (mark_cheque by p dto i e db) = debts db"
  by (simp_all add: mark_cheque_def debts_def)

lemma cheque_commit_receipts:
  assumes "cheque_commit t by dto p c e db = Inr db'"
  shows "(\<exists>rs. receipts db' = receipts db @ rs) \<and> debts db' = debts db"
  using assms
  by (cases rule: cheque_commit_cases)
    (use cheque_cashed_grows cheque_replaced_grows cheque_bounced_grows [of db t p c] in
      \<open>fastforce simp: ledger_grows_def\<close>)+

lemma fee_payment_serve_inv:
  assumes "fee_request_valid r" and inv: "ledger_inv db" and "fee_payment_serve r db = Inr db'"
  shows "ledger_inv db'"
proof (cases r)
  case (CashRequest t u dto e)
  with assms(3) obtain c b where "cash_check t dto db = Inr c" "cash_commit t u dto c e db = Inr (db', b)"
    by (auto simp: bindE_Inr recordCashPayment_def)
  note check = this
  show ?thesis
    by (rule cash_commit_inv [OF inv _ _ _ _ check(2)]) (use cash_check_snapshot [OF check(1)] in simp_all)
next
  case (ChequeRequest t u dto e)
  then show ?thesis using assms(3) recordCheque_inv [OF inv] by simp
next
  case (ChequeStatusRequest t i u dto e)
  with assms(3) obtain p c where check: "cheque_check t i dto db = Inr (p, c)"
    and commit: "cheque_commit t u dto p c e db = Inr db'"
    by (auto simp: bindE_Inr updateChequeStatus_def)
  note s = cheque_check_snapshot [OF check]
  have "fc_tenantId c = t" using payment_contract_tenant [OF inv s(1,5,6)] s(3) by simp
  then show ?thesis using cheque_commit_inv [OF inv s(5) _ s(6,1) _ commit] assms(1) ChequeStatusRequest by simp
qed

lemma fee_payment_serve_grows:
  assumes "fee_payment_serve r db = Inr db'"
  shows "(\<exists>rs. receipts db' = receipts db @ rs) \<and> debts db' = debts db"
proof (cases r)
  case (CashRequest t u dto e)
  then show ?thesis using assms cash_commit_grows
    by (fastforce simp: bindE_Inr recordCashPayment_def ledger_grows_def)
next
  case (ChequeRequest t u dto e)
  then show ?thesis using assms create_payment_grows
    by (fastforce simp: recordChequePayment_def ledger_grows_def split: option.splits if_splits)
next
  case (ChequeStatusRequest t i u dto e)
  then show ?thesis using assms cheque_commit_receipts by (auto simp: bindE_Inr updateChequeStatus_def)
qed

interpretation fee_payments: ledger_service ledger_inv fee_payment_serve fee_request_valid
  by unfold_locales (use fee_payment_serve_inv fee_payment_serve_grows in auto)

section \<open>What one request does to the payments and receipts\<close>

text \<open>
  A status change appends at most one payment and rewrites the row of its cheque; the other requests
  append one payment.
\<close>

lemma create_payment_appends: "create_payment p db = Inr db' \<Longrightarrow> \<exists>q. payments db' = payments db @ [q]"
  using create_payment_tables(7) by blast

lemma cheque_commit_payments:
  assumes "cheque_commit t u dto p c e db = Inr db'"
  shows "\<exists>new i. payments db' = update_row fp_id (fp_id p)
    (\<lambda>p'. p'\<lparr>fp_checkStatus := Some (ucs_status dto), fp_checkStatusChangedAt := Some (now e),
       fp_checkStatusChangedById := Some u,
       fp_note := (if truthy (ucs_note dto)
                 then Some (trim (str_or (fp_note p) '''' @ '' | '' @ show_opt (ucs_note dto)))
                 else fp_note p),
       fp_replacedByPaymentId := i\<rparr>) (payments db @ new)
    \<and> (ucs_status dto \<noteq> CK_REPLACED \<longrightarrow> i = None \<and> new = [])"
proof -
  have mark: "payments (mark_cheque u p dto i e d) = update_row fp_id (fp_id p)
    (\<lambda>p'. p'\<lparr>fp_checkStatus := Some (ucs_status dto), fp_checkStatusChangedAt := Some (now e),
       fp_checkStatusChangedById := Some u,
       fp_note := (if truthy (ucs_note dto)
                 then Some (trim (str_or (fp_note p) '''' @ '' | '' @ show_opt (ucs_note dto)))
                 else fp_note p),
       fp_replacedByPaymentId := i\<rparr>) (payments d)" for i d
    by (simp add: mark_cheque_def update_payment_def)
  show ?thesis using assms
  proof (cases rule: cheque_commit_cases)
    case (cashed db1)
    have "payments db1 = payments db"
      using create_receipt_tables(4) [OF cashed(3) [unfolded cheque_cashed_def Let_def]] by simp
    then show ?thesis unfolding cashed(4) mark using cashed(1) by (intro exI [of _ "[]"] exI [of _ None]) simp
  next
    case bounced
    show ?thesis unfolding bounced(2) mark using bounced(1)
      by (intro exI [of _ "[]"] exI [of _ None]) (simp add: cheque_bounced_def)
  next
    case (replaced db1 i)
    obtain new where "payments db1 = payments db @ new"
      using cheque_replaced_grows [OF replaced(2)] by (auto simp: ledger_grows_def)
    then show ?thesis unfolding replaced(3) mark using replaced(1)
      by (intro exI [of _ new] exI [of _ i]) simp
  next
    case noted
    then show ?thesis unfolding noted(2) mark by (intro exI [of _ "[]"] exI [of _ None]) auto
  qed
qed

lemma mem_update_rowI:
  "p \<in> set rs \<Longrightarrow> (if key p = k then f p else p) \<in> set (update_row key k f rs)"
  by (auto simp: set_update_row)

text \<open>A payment never disappears; its contract, method and amount never change.\<close>

definition same_payment :: "FeePayment \<Rightarrow> FeePayment \<Rightarrow> bool" where
  "same_payment p q \<longleftrightarrow> fp_id q = fp_id p \<and> fp_tenantId q = fp_tenantId p \<and> fp_amount q = fp_amount p
     \<and> fp_feeContractId q = fp_feeContractId p \<and> fp_method q = fp_method p
     \<and> (fp_checkStatus p = Some CK_CASHED \<longrightarrow> fp_checkStatus q = Some CK_CASHED)"

lemma serve_payment_stays:
  assumes "keys_ok db" and "p \<in> set (payments db)" and "fee_payment_serve r db = Inr db'"
  shows "\<exists>q \<in> set (payments db'). same_payment p q"
proof (cases r)
  case (CashRequest t u dto e)
  then have "p \<in> set (payments db')" using assms(2,3) cash_commit_grows
    by (fastforce simp: bindE_Inr recordCashPayment_def ledger_grows_def)
  then show ?thesis by (auto simp: same_payment_def)
next
  case (ChequeRequest t u dto e)
  then have "p \<in> set (payments db')" using assms(2,3) create_payment_grows
    by (fastforce simp: recordChequePayment_def ledger_grows_def split: option.splits if_splits)
  then show ?thesis by (auto simp: same_payment_def)
next
  case (ChequeStatusRequest t i u dto e)
  with assms(3) obtain ch c where check: "cheque_check t i dto db = Inr (ch, c)"
    and commit: "cheque_commit t u dto ch c e db = Inr db'"
    by (auto simp: bindE_Inr updateChequeStatus_def)
  obtain new f where rows: "payments db' = update_row fp_id (fp_id ch) f (payments db @ new)"
    and f: "\<And>q. fp_checkStatus (f q) = Some (ucs_status dto)" "\<And>q. fp_id (f q) = fp_id q"
      "\<And>q. fp_tenantId (f q) = fp_tenantId q" "\<And>q. fp_amount (f q) = fp_amount q"
      "\<And>q. fp_feeContractId (f q) = fp_feeContractId q" "\<And>q. fp_method (f q) = fp_method q"
    using cheque_commit_payments [OF commit] by fastforce
  have "fp_id p = fp_id ch \<Longrightarrow> p = ch"
    using assms(1,2) cheque_check_snapshot(1) [OF check] distinct_key_inj by (metis keys_ok_def)
  then have "same_payment p (if fp_id p = fp_id ch then f p else p)"
    using f cheque_check_snapshot(7) [OF check] by (auto simp: same_payment_def)
  then show ?thesis using mem_update_rowI [of p "payments db @ new"] assms(2) rows by fastforce
qed

lemma same_payment_trans: "same_payment p q \<Longrightarrow> same_payment q r \<Longrightarrow> same_payment p r"
  by (auto simp: same_payment_def)

text \<open>The receipts of payments: no payment has two.\<close>

definition receipts_once :: "fee_db \<Rightarrow> bool" where
  "receipts_once db \<longleftrightarrow> distinct (filter (\<lambda>x. x \<noteq> None) (map fr_paymentId (receipts db)))
     \<and> distinct (filter (\<lambda>x. x \<noteq> None) (map fr_transactionId (receipts db)))"

lemma create_receipt_once: "create_receipt r db = Inr db' \<Longrightarrow> receipts_once db \<Longrightarrow> receipts_once db'"
  using create_receipt_tables(7,9,10) [of r db db']
  by (auto simp: receipts_once_def unique_opt_def split: option.splits)

lemma receipts_once_eq: "receipts db' = receipts db \<Longrightarrow> receipts_once db' = receipts_once db"
  by (simp add: receipts_once_def)

lemma receipts_once_steps [simp]:
  "receipts_once (settle_contract c b db) = receipts_once db"
  "receipts_once (credit_found e i a db) = receipts_once db"
  "receipts_once (update_contract k f db) = receipts_once db"
  "receipts_once (mark_cheque u p dto j e db) = receipts_once db"
  "receipts_once (release_hold t p c db) = receipts_once db"
  "receipts_once (cheque_bounced t p c db) = receipts_once db"
  by (simp_all add: receipts_once_def release_hold_def cheque_bounced_def)

lemma create_payment_once: "create_payment p db = Inr db' \<Longrightarrow> receipts_once db' = receipts_once db"
  using create_payment_tables(4) receipts_once_eq by blast

lemma cheque_replaced_once:
  assumes "cheque_replaced t u p c dto e db = Inr (db', i)" and "receipts_once db" shows "receipts_once db'"
  using assms
  by (auto simp: cheque_replaced_def replace_by_cheque_def replace_by_cash_def Let_def create_payment_once
      split: option.splits elim!: bindE_InrE dest!: create_receipt_once)

lemma cheque_cashed_once:
  assumes "cheque_cashed t u p c e db = Inr db'" and "receipts_once db" shows "receipts_once db'"
  using create_receipt_once [OF assms(1) [unfolded cheque_cashed_def Let_def]] assms(2) by simp

lemma serve_receipts_once:
  assumes "receipts_once db" and "fee_payment_serve r db = Inr db'"
  shows "receipts_once db'"
proof (cases r)
  case (CashRequest t u dto e)
  then show ?thesis using assms
    by (auto simp: recordCashPayment_def cash_commit_def Let_def create_payment_once
        elim!: bindE_InrE dest!: create_receipt_once)
next
  case (ChequeRequest t u dto e)
  then show ?thesis using assms create_payment_once
    by (auto simp: recordChequePayment_def split: option.splits if_splits)
next
  case (ChequeStatusRequest t i u dto e)
  with assms(2) obtain p c where "cheque_commit t u dto p c e db = Inr db'"
    by (auto simp: bindE_Inr updateChequeStatus_def)
  then show ?thesis using assms(1)
    by (cases rule: cheque_commit_cases) (auto intro: cheque_cashed_once cheque_replaced_once)
qed

text \<open>
  The receipts against the payments: a payment that counts as paid, which a cheque does once it is cashed, has exactly one receipt, which
  repeats it, and a cheque that is not cashed has none.
\<close>

definition paid_in :: "FeePayment \<Rightarrow> bool" where
  "paid_in p \<longleftrightarrow> (fp_method p = CHEQUE \<longrightarrow> fp_checkStatus p = Some CK_CASHED)"

definition repeats :: "FeePayment \<Rightarrow> FeeReceipt \<Rightarrow> bool" where
  "repeats p r \<longleftrightarrow> fr_tenantId r = fp_tenantId p \<and> fr_contractId r = fp_feeContractId p
     \<and> fr_amount r = fp_amount p \<and> fr_paymentMethod r = fp_method p"

definition receipts_for :: "FeePayment \<Rightarrow> FeeReceipt list \<Rightarrow> FeeReceipt list" where
  "receipts_for p = filter (\<lambda>r. fr_paymentId r = Some (fp_id p))"

definition receipt_due :: "FeeReceipt list \<Rightarrow> FeePayment \<Rightarrow> bool" where
  "receipt_due rs p \<longleftrightarrow> (if paid_in p then (case receipts_for p rs of [r] \<Rightarrow> repeats p r | _ \<Rightarrow> False)
     else receipts_for p rs = [])"

definition receipts_match :: "FeePayment list \<Rightarrow> FeeReceipt list \<Rightarrow> bool" where
  "receipts_match ps rs \<longleftrightarrow> list_all (receipt_due rs) ps
     \<and> list_all (\<lambda>r. fk_ok fp_id ps (fr_paymentId r)) rs"

lemma receipt_due_iff:
  "receipt_due rs p \<longleftrightarrow> (if fp_method p = CHEQUE \<and> fp_checkStatus p \<noteq> Some CK_CASHED
     then \<forall>r \<in> set rs. fr_paymentId r \<noteq> Some (fp_id p)
     else \<exists>r. filter (\<lambda>r. fr_paymentId r = Some (fp_id p)) rs = [r] \<and> fr_amount r = fp_amount p
        \<and> fr_contractId r = fp_feeContractId p \<and> fr_tenantId r = fp_tenantId p \<and> fr_paymentMethod r = fp_method p)"
proof -
  have none: "receipts_for p rs = [] \<longleftrightarrow> (\<forall>r \<in> set rs. fr_paymentId r \<noteq> Some (fp_id p))"
    by (simp add: receipts_for_def filter_empty_conv)
  have one: "(case xs of [r] \<Rightarrow> repeats p r | _ \<Rightarrow> False) \<longleftrightarrow> (\<exists>r. xs = [r] \<and> repeats p r)" for xs by (auto split: list.split)
  show ?thesis by (auto simp: receipt_due_def paid_in_def none one) (auto simp: receipts_for_def repeats_def)
qed

lemma receipts_for_append [simp]:
  "receipts_for p (rs @ [r]) = receipts_for p rs @ (if fr_paymentId r = Some (fp_id p) then [r] else [])"
  by (simp add: receipts_for_def)

lemma receipts_for_new:
  "receipts_match ps rs \<Longrightarrow> fp_id p \<notin> set (map fp_id ps) \<Longrightarrow> receipts_for p rs = []"
  by (force simp: receipts_match_def receipts_for_def list_all_iff fk_ok_def filter_empty_conv)

lemma match_unpaid:
  assumes "receipts_match ps rs" and "fp_id p \<notin> set (map fp_id ps)" and "\<not> paid_in p"
  shows "receipts_match (ps @ [p]) rs"
  using assms receipts_for_new [OF assms(1,2)]
  by (auto simp: receipts_match_def receipt_due_def list_all_iff fk_ok_def split: option.splits)

lemma match_paid:
  assumes "receipts_match ps rs" and "fp_id p \<notin> set (map fp_id ps)" and "paid_in p"
    and "fr_paymentId r = Some (fp_id p)" and "repeats p r"
  shows "receipts_match (ps @ [p]) (rs @ [r])"
  using assms receipts_for_new [OF assms(1,2)]
  by (auto simp: receipts_match_def receipt_due_def list_all_iff fk_ok_def image_iff split: option.splits)

text \<open>A write of one row that keeps its identity, its amount and whether it is paid.\<close>

lemma receipt_due_same:
  "fp_id q = fp_id p \<Longrightarrow> fp_tenantId q = fp_tenantId p \<Longrightarrow> fp_feeContractId q = fp_feeContractId p \<Longrightarrow>
   fp_amount q = fp_amount p \<Longrightarrow> fp_method q = fp_method p \<Longrightarrow> paid_in q = paid_in p \<Longrightarrow>
   receipt_due rs q = receipt_due rs p"
  by (simp add: receipt_due_def receipts_for_def repeats_def split: list.split)

lemma match_rewritten:
  assumes "receipts_match ps rs"
    and "\<And>q. fp_id (f q) = fp_id q \<and> fp_tenantId (f q) = fp_tenantId q \<and> fp_feeContractId (f q) = fp_feeContractId q
      \<and> fp_amount (f q) = fp_amount q \<and> fp_method (f q) = fp_method q"
    and "\<And>q. q \<in> set ps \<Longrightarrow> fp_id q = k \<Longrightarrow> paid_in (f q) = paid_in q"
  shows "receipts_match (update_row fp_id k f ps) rs"
proof -
  have ids: "map fp_id (update_row fp_id k f ps) = map fp_id ps"
    using assms(2) by (auto simp: update_row_def)
  show ?thesis
    using assms(1,3) receipt_due_same [of "f q" q rs for q] assms(2)
    by (auto simp: receipts_match_def list_all_iff set_update_row fk_ok_def ids simp del: set_map split: option.splits)
qed

text \<open>The write that makes a cheque paid, together with its receipt.\<close>

lemma match_cashed:
  assumes m: "receipts_match ps rs" and d: "distinct (map fp_id ps)" and p: "p \<in> set ps" "\<not> paid_in p"
    and f: "fp_id (f p) = fp_id p" "paid_in (f p)" "repeats (f p) r" and r: "fr_paymentId r = Some (fp_id p)"
  shows "receipts_match (update_row fp_id (fp_id p) f ps) (rs @ [r])"
proof -
  have one: "q = p" if "q \<in> set ps" "fp_id q = fp_id p" for q
    using distinct_key_inj [OF d that(1) p(1)] that(2) by simp
  have ids: "map fp_id (update_row fp_id (fp_id p) f ps) = map fp_id ps"
    using one f(1) by (auto simp: update_row_def)
  have none: "receipts_for p rs = []"
    using m p by (auto simp: receipts_match_def list_all_iff receipt_due_def)
  have "receipts_for (f p) rs = []" using none f(1) by (simp add: receipts_for_def)
  then have new: "receipt_due (rs @ [r]) (f p)" using f r by (simp add: receipt_due_def)
  have old: "receipt_due (rs @ [r]) q" if "q \<in> set ps" "fp_id q \<noteq> fp_id p" for q
    using m that r by (auto simp: receipts_match_def list_all_iff receipt_due_def)
  have "fk_ok fp_id (update_row fp_id (fp_id p) f ps) (fr_paymentId x)" if "x \<in> set (rs @ [r])" for x
  proof -
    have "fp_id p \<in> set (map fp_id ps)" using p(1) by simp
    then show ?thesis
      using m that r by (auto simp: receipts_match_def list_all_iff fk_ok_def ids simp del: set_map split: option.splits)
  qed
  moreover have "receipt_due (rs @ [r]) q" if "q \<in> set (update_row fp_id (fp_id p) f ps)" for q
    using that new old one by (auto simp: set_update_row split: if_splits)
  ultimately show ?thesis by (auto simp: receipts_match_def list_all_iff)
qed

lemma marked_row:
  "payments (mark_cheque u p dto i e db) = update_row fp_id (fp_id p)
     (\<lambda>q. q\<lparr>fp_checkStatus := Some (ucs_status dto), fp_checkStatusChangedAt := Some (now e), fp_checkStatusChangedById := Some u,
        fp_note := (if truthy (ucs_note dto) then Some (trim (str_or (fp_note p) '''' @ '' | '' @ show_opt (ucs_note dto))) else fp_note p),
        fp_replacedByPaymentId := i\<rparr>) (payments db)"
  by (simp add: mark_cheque_def update_payment_def)

text \<open>The write of the cheque row when it does not make the cheque paid.\<close>

lemma match_marked:
  assumes "receipts_match (payments db) (receipts db)" and "distinct (map fp_id (payments db))" and "p \<in> set (payments db)"
    and "fp_method p = CHEQUE" and "ucs_status dto = CK_CASHED \<longleftrightarrow> fp_checkStatus p = Some CK_CASHED"
  shows "receipts_match (payments (mark_cheque u p dto i e db)) (receipts (mark_cheque u p dto i e db))"
  unfolding marked_row mark_cheque_grows_receipts
proof (rule match_rewritten [OF assms(1)])
  fix q assume "q \<in> set (payments db)" "fp_id q = fp_id p"
  then have "q = p" using distinct_key_inj [OF assms(2) _ assms(3)] by blast
  then show "paid_in (q\<lparr>fp_checkStatus := Some (ucs_status dto), fp_checkStatusChangedAt := Some (now e), fp_checkStatusChangedById := Some u,
        fp_note := (if truthy (ucs_note dto) then Some (trim (str_or (fp_note p) '''' @ '' | '' @ show_opt (ucs_note dto))) else fp_note p),
        fp_replacedByPaymentId := i\<rparr>) = paid_in q"
    using assms(4,5) by (simp add: paid_in_def)
qed simp

lemma cash_commit_match:
  assumes "receipts_match (payments db) (receipts db)" and "cash_commit t u dto c e db = Inr (db', b)"
  shows "receipts_match (payments db') (receipts db')"
  using assms(2) unfolding cash_commit_def Let_def
  apply (elim bindE_InrE)
  subgoal premises prems for db1 db4
    using prems(3) create_payment_tables [OF prems(1)] create_receipt_tables [OF prems(2)]
    by (auto intro!: match_paid [OF assms(1)] simp: paid_in_def repeats_def cash_payment_row_def settle_contract_def)
  done

lemma cheque_replaced_match:
  assumes "receipts_match (payments db) (receipts db)" and "cheque_replaced t u p c dto e db = Inr (db', i)"
  shows "receipts_match (payments db') (receipts db') \<and> (distinct (map fp_id (payments db)) \<longrightarrow> distinct (map fp_id (payments db')))
    \<and> set (payments db) \<subseteq> set (payments db')"
proof -
  have frames: "payments (release_hold t p c d) = payments d" "receipts (release_hold t p c d) = receipts d" for d
    by (simp_all add: release_hold_def)
  obtain db1 where db': "db' = release_hold t p c db1"
    and r: "(case (ucs_replacementCheque dto, ucs_replacementCash dto) of
          (Some r, _) \<Rightarrow> replace_by_cheque t u p c r e db
        | (None, Some r) \<Rightarrow> replace_by_cash t u p c r e db
        | (None, None) \<Rightarrow> Inr (db, None)) = Inr (db1, i)"
    using assms(2) by (auto simp: cheque_replaced_def bindE_Inr)
  have cheque: ?thesis if "replace_by_cheque t u p c q e db = Inr (db1, i)" for q
    using that unfolding replace_by_cheque_def Let_def
    apply (elim bindE_InrE)
    subgoal premises prems for d1
      using prems(2) create_payment_tables [OF prems(1)]
      by (auto intro!: match_unpaid [OF assms(1)] simp: db' frames paid_in_def cheque_row_def)
    done
  have cash: ?thesis if "replace_by_cash t u p c q e db = Inr (db1, i)" for q
    using that unfolding replace_by_cash_def Let_def
    apply (elim bindE_InrE)
    subgoal premises prems for d1 d2
      using prems(3) create_payment_tables [OF prems(1)] create_receipt_tables [OF prems(2)]
      by (auto intro!: match_paid [OF assms(1)] simp: db' frames paid_in_def repeats_def cash_payment_row_def settle_contract_def)
    done
  show ?thesis using r cheque cash assms(1) by (auto simp: db' frames split: option.splits)
qed

lemma serve_receipts_match:
  assumes "ledger_inv db" and m: "receipts_match (payments db) (receipts db)" and "fee_payment_serve r db = Inr db'"
  shows "receipts_match (payments db') (receipts db')"
proof (cases r)
  case (CashRequest t u dto e)
  then show ?thesis using assms(3) cash_commit_match [OF m] by (auto simp: bindE_Inr recordCashPayment_def)
next
  case (ChequeRequest t u dto e)
  then have "\<exists>c :: StudentFeeContract. create_payment (cheque_row (uuid e 0) t u (fc_id c) (chq_installmentId dto) dto (chq_note dto)) db = Inr db'"
    using assms(3) by (auto simp: recordChequePayment_def split: option.splits if_splits)
  then obtain c :: StudentFeeContract where "create_payment (cheque_row (uuid e 0) t u (fc_id c) (chq_installmentId dto) dto (chq_note dto)) db = Inr db'"
    by blast
  from create_payment_tables [OF this] show ?thesis
    by (auto intro!: match_unpaid [OF m] simp: paid_in_def cheque_row_def)
next
  case (ChequeStatusRequest t i u dto e)
  with assms(3) obtain p c where check: "cheque_check t i dto db = Inr (p, c)"
    and commit: "cheque_commit t u dto p c e db = Inr db'"
    by (auto simp: bindE_Inr updateChequeStatus_def)
  note s = cheque_check_snapshot [OF check]
  have d: "distinct (map fp_id (payments db))" and money: "is_money (fp_amount p)"
    using assms(1) s(1) by (auto simp: ledger_defs list_all_iff payment_ok_def)
  have open_cheque: "fp_checkStatus p = Some CK_CASHED \<Longrightarrow> ucs_status dto = CK_CASHED" by (rule s(7))
  show ?thesis using commit
  proof (cases rule: cheque_commit_cases)
    case (cashed db1)
    note rows = create_receipt_tables [OF cashed(3) [unfolded cheque_cashed_def Let_def]]
    have "payments db1 = payments db" using rows(4) by simp
    moreover obtain q where q: "receipts db1 = receipts db @ [q]" "fr_paymentId q = Some (fp_id p)" "repeats p q"
      using rows(7) s money by (auto simp: repeats_def dec2_money)
    ultimately show ?thesis
      unfolding cashed(4) marked_row mark_cheque_grows_receipts using cashed(1,2) s(4)
      by (auto intro!: match_cashed [OF m d s(1)] simp: paid_in_def repeats_def)
  next
    case bounced
    have "payments (cheque_bounced t p c db) = payments db" "receipts (cheque_bounced t p c db) = receipts db"
      by (simp_all add: cheque_bounced_def)
    then show ?thesis unfolding bounced(2)
      by (intro match_marked) (use m d s bounced(1) open_cheque in auto)
  next
    case (replaced db1 j)
    from cheque_replaced_match [OF m replaced(2)] d s show ?thesis unfolding replaced(3)
      by (intro match_marked) (use replaced(1) open_cheque in auto)
  next
    case noted
    show ?thesis unfolding noted(2)
      by (intro match_marked m d s) (use noted(1) open_cheque in auto)
  qed
qed

section \<open>Queries\<close>

text \<open>\<open>contains\<close> of a Prisma string filter, as it is and with \<open>mode: 'insensitive'\<close> (ASCII letters).\<close>

record cheque_filters =
  cf_status :: "CheckStatus option"
  cf_search :: "string option"
  cf_studentId :: "id option"
  cf_fromDueDate :: "time option"
  cf_toDueDate :: "time option"

text \<open>The \<open>where\<close> clause of \<open>listCheques\<close>; a null column satisfies no comparison.\<close>

definition cheque_where :: "id \<Rightarrow> cheque_filters \<Rightarrow> fee_db \<Rightarrow> FeePayment \<Rightarrow> bool" where
  "cheque_where tenantId f db p \<longleftrightarrow>
     fp_tenantId p = tenantId \<and> fp_method p = CHEQUE
     \<and> (case cf_status f of None \<Rightarrow> True | Some s \<Rightarrow> fp_checkStatus p = Some s)
     \<and> (if truthy (cf_studentId f)
        then opt_holds (\<lambda>c. Some (fc_studentId c) = cf_studentId f)
               (find_row fc_id (fp_feeContractId p) (contracts db))
        else True)
     \<and> (case cf_fromDueDate f of None \<Rightarrow> True | Some d \<Rightarrow> opt_holds (\<lambda>x. d \<le> x) (fp_checkDueDate p))
     \<and> (case cf_toDueDate f of None \<Rightarrow> True | Some d \<Rightarrow> opt_holds (\<lambda>x. x \<le> d) (fp_checkDueDate p))
     \<and> (if truthy (cf_search f) then
          (let s = str_or (cf_search f) '''';
               user = (case find_row fc_id (fp_feeContractId p) (contracts db) of
                  None \<Rightarrow> None | Some c \<Rightarrow> studentUser db (fc_studentId c))
           in opt_holds (contains_ci s) (fp_checkNumber p)
              \<or> opt_holds (str_contains s) (fp_checkSayadId p)
              \<or> opt_holds (contains_ci s) (fp_bankName p)
              \<or> opt_holds (contains_ci s) (fp_checkOwnerName p)
              \<or> opt_holds (\<lambda>u. contains_ci s (su_firstName u) \<or> contains_ci s (su_lastName u)
                    \<or> opt_holds (str_contains s) (su_nationalId u)) user)
        else True)"

text \<open>\<open>orderBy: { checkDueDate: 'asc' }\<close>, with the nulls last as PostgreSQL sorts them.\<close>

definition due_le :: "FeePayment \<Rightarrow> FeePayment \<Rightarrow> bool" where
  "due_le p q = (case (fp_checkDueDate p, fp_checkDueDate q) of
     (_, None) \<Rightarrow> True | (None, Some _) \<Rightarrow> False | (Some a, Some b) \<Rightarrow> a \<le> b)"

fun insert_due :: "FeePayment \<Rightarrow> FeePayment list \<Rightarrow> FeePayment list" where
  "insert_due p [] = [p]"
| "insert_due p (q # qs) = (if due_le p q then p # q # qs else q # insert_due p qs)"

definition listCheques :: "id \<Rightarrow> cheque_filters \<Rightarrow> fee_db \<Rightarrow> FeePayment list" where
  "listCheques tenantId f db = foldr insert_due (filter (cheque_where tenantId f db) (payments db)) []"

record cheque_stats =
  totalCount :: nat
  totalAmount :: rat
  pendingCount :: nat
  pendingAmount :: rat
  cashedCount :: nat
  cashedAmount :: rat
  bouncedCount :: nat
  bouncedAmount :: rat
  replacedCount :: nat
  replacedAmount :: rat
  dueSoonCount :: nat

definition stats_step :: "time \<Rightarrow> cheque_stats \<Rightarrow> FeePayment \<Rightarrow> cheque_stats" where
  "stats_step t st chq =
     (let amt = fp_amount chq;
          st = st\<lparr>totalAmount := totalAmount st + amt\<rparr>
      in if fp_checkStatus chq = Some CK_PENDING then
           (let st = st\<lparr>pendingCount := pendingCount st + 1, pendingAmount := pendingAmount st + amt\<rparr>
            in if opt_holds (\<lambda>d. t \<le> d \<and> d \<le> t + 3 * 86400000) (fp_checkDueDate chq)
               then st\<lparr>dueSoonCount := dueSoonCount st + 1\<rparr> else st)
         else if fp_checkStatus chq = Some CK_CASHED then
           st\<lparr>cashedCount := cashedCount st + 1, cashedAmount := cashedAmount st + amt\<rparr>
         else if fp_checkStatus chq = Some CK_BOUNCED then
           st\<lparr>bouncedCount := bouncedCount st + 1, bouncedAmount := bouncedAmount st + amt\<rparr>
         else if fp_checkStatus chq = Some CK_REPLACED then
           st\<lparr>replacedCount := replacedCount st + 1, replacedAmount := replacedAmount st + amt\<rparr>
         else st)"

definition getChequeStats :: "id \<Rightarrow> time \<Rightarrow> fee_db \<Rightarrow> cheque_stats" where
  "getChequeStats tenantId t db =
     (let cheques = filter (\<lambda>p. fp_tenantId p = tenantId \<and> fp_method p = CHEQUE) (payments db)
      in foldl (stats_step t)
           \<lparr>totalCount = length cheques, totalAmount = 0, pendingCount = 0, pendingAmount = 0,
            cashedCount = 0, cashedAmount = 0, bouncedCount = 0, bouncedAmount = 0,
            replacedCount = 0, replacedAmount = 0, dueSoonCount = 0\<rparr> cheques)"

text \<open>What one status contributes: the number of its cheques and the sum of their amounts.\<close>

definition of_status :: "CheckStatus \<Rightarrow> FeePayment list \<Rightarrow> FeePayment list" where
  "of_status s = filter (\<lambda>p. fp_checkStatus p = Some s)"

definition amount_sum :: "FeePayment list \<Rightarrow> rat" where
  "amount_sum ps = sum_list (map fp_amount ps)"

lemma stats_fold:
  "foldl (stats_step t) st ps = st\<lparr>
     totalAmount := totalAmount st + amount_sum ps,
     pendingCount := pendingCount st + length (of_status CK_PENDING ps),
     pendingAmount := pendingAmount st + amount_sum (of_status CK_PENDING ps),
     cashedCount := cashedCount st + length (of_status CK_CASHED ps),
     cashedAmount := cashedAmount st + amount_sum (of_status CK_CASHED ps),
     bouncedCount := bouncedCount st + length (of_status CK_BOUNCED ps),
     bouncedAmount := bouncedAmount st + amount_sum (of_status CK_BOUNCED ps),
     replacedCount := replacedCount st + length (of_status CK_REPLACED ps),
     replacedAmount := replacedAmount st + amount_sum (of_status CK_REPLACED ps),
     dueSoonCount := dueSoonCount st + length (filter
       (\<lambda>p. opt_holds (\<lambda>d. t \<le> d \<and> d \<le> t + 3 * 86400000) (fp_checkDueDate p)) (of_status CK_PENDING ps))\<rparr>"
proof (induction ps arbitrary: st)
  case Nil
  then show ?case by (simp add: of_status_def amount_sum_def)
next
  case (Cons p ps)
  show ?case
    unfolding foldl.simps Cons.IH
    by (simp add: stats_step_def Let_def of_status_def amount_sum_def)
qed

lemma status_partition:
  "list_all (\<lambda>p. fp_checkStatus p \<noteq> None) ps \<Longrightarrow>
     length ps = length (of_status CK_PENDING ps) + length (of_status CK_CASHED ps)
       + length (of_status CK_BOUNCED ps) + length (of_status CK_REPLACED ps)
     \<and> amount_sum ps = amount_sum (of_status CK_PENDING ps) + amount_sum (of_status CK_CASHED ps)
       + amount_sum (of_status CK_BOUNCED ps) + amount_sum (of_status CK_REPLACED ps)"
proof (induction ps)
  case (Cons p ps)
  then obtain s where "fp_checkStatus p = Some s" by auto
  with Cons show ?case by (cases s) (auto simp: of_status_def amount_sum_def)
qed (simp add: of_status_def amount_sum_def)

text \<open>The listing is a sorted permutation of the cheques that satisfy the clause.\<close>

lemma due_le_total: "due_le p q \<or> due_le q p"
  by (auto simp: due_le_def split: option.splits)

lemma due_le_trans: "due_le p q \<Longrightarrow> due_le q r \<Longrightarrow> due_le p r"
  by (auto simp: due_le_def split: option.splits)

lemma insert_due_set [simp]: "set (insert_due p qs) = insert p (set qs)"
  by (induction qs) auto

lemma insert_due_mset [simp]: "mset (insert_due p qs) = add_mset p (mset qs)"
  by (induction qs) auto

lemma insert_due_sorted: "sorted_wrt due_le qs \<Longrightarrow> sorted_wrt due_le (insert_due p qs)"
  by (induction qs) (use due_le_total due_le_trans in \<open>fastforce+\<close>)

lemma sort_due_sorted: "sorted_wrt due_le (foldr insert_due ps [])"
  by (induction ps) (auto intro: insert_due_sorted)

lemma sort_due_mset: "mset (foldr insert_due ps []) = mset ps"
  by (induction ps) auto

end
