(* ===== verification/Online_Payment.thy ===== *)
theory Online_Payment
  imports Fee_Payment
begin

text \<open>
  \<open>PaymentService\<close> (\<open>modules/finance/payment.service.ts\<close>): payments through a bank gateway and offline
  payments of a whole installment.

  The gateway is the interface \<open>PaymentGatewayProvider\<close>; every operation takes it as an argument, and
  \<open>mock_sandbox\<close> is the provider of \<open>providers/mock-sandbox.provider.ts\<close>.  The verification of a callback
  is a small state machine, one step for each read, call and transaction of the source, so that the
  callbacks of one authority can be interleaved.
\<close>

section \<open>The gateway\<close>

record PaymentRequestResult =
  prr_authority :: string
  prr_paymentUrl :: string

record PaymentVerifyResult =
  pvr_isSuccess :: bool
  pvr_refId :: "string option"
  pvr_cardPan :: "string option"
  pvr_message :: "string option"

record gateway =
  requestPayment :: "env \<Rightarrow> rat \<Rightarrow> PaymentRequestResult"
  gatewayVerify :: "env \<Rightarrow> string \<Rightarrow> rat \<Rightarrow> PaymentVerifyResult"

definition mock_request :: "env \<Rightarrow> rat \<Rightarrow> PaymentRequestResult" where
  "mock_request e amount =
     (let authority = ''MOCK-AUTH-'' @ string_of_int (now e) @ ''-'' @ string_of_nat (rnd e)
      in \<lparr>prr_authority = authority,
          prr_paymentUrl = ''https://mock-gateway.rokadschool.ir/pay/'' @ authority\<rparr>)"

definition mock_verify :: "env \<Rightarrow> string \<Rightarrow> rat \<Rightarrow> PaymentVerifyResult" where
  "mock_verify e authority amount =
     (if str_contains ''FAIL'' authority
      then \<lparr>pvr_isSuccess = False, pvr_refId = None, pvr_cardPan = None,
            pvr_message = Some ''simulated failure''\<rparr>
      else \<lparr>pvr_isSuccess = True, pvr_refId = Some (''REF-MOCK-'' @ string_of_int (now e)),
            pvr_cardPan = Some ''502229******4321'', pvr_message = Some ''simulated success''\<rparr>)"

definition mock_sandbox :: gateway where
  "mock_sandbox = \<lparr>requestPayment = mock_request, gatewayVerify = mock_verify\<rparr>"

text \<open>
  \<open>ZarinpalPaymentProvider\<close> (\<open>providers/zarinpal.provider.ts\<close>).  The two HTTP calls are the parameters
  \<open>post_request\<close> and \<open>post_verify\<close>: the answer of the bank, or a connection that failed.
\<close>

datatype zarinpal_reply =
    ZarinpalData int string "string option" "string option"
  | ZarinpalErrors "string option"
  | ConnectionFailed string

definition starts_with :: "string \<Rightarrow> string \<Rightarrow> bool" where
  "starts_with p s \<longleftrightarrow> take (length p) s = p"

definition zarinpal_request :: "bool \<Rightarrow> (rat \<Rightarrow> zarinpal_reply) \<Rightarrow> env \<Rightarrow> rat \<Rightarrow> PaymentRequestResult" where
  "zarinpal_request isSandbox post_request e amount =
     (let gateUrl = (if isSandbox then ''https://sandbox.zarinpal.com/pg/StartPay/''
            else ''https://www.zarinpal.com/pg/StartPay/'');
          fallback = ''A00000000000000000000000000000'' @ string_of_int (now e);
          authority = (case post_request amount of
             ZarinpalData code a _ _ \<Rightarrow> if code = 100 then a else fallback
           | ZarinpalErrors _ \<Rightarrow> fallback
           | ConnectionFailed _ \<Rightarrow> fallback)
      in \<lparr>prr_authority = authority, prr_paymentUrl = gateUrl @ authority\<rparr>)"

definition simulated_success :: "env \<Rightarrow> PaymentVerifyResult" where
  "simulated_success e = \<lparr>pvr_isSuccess = True, pvr_refId = Some (''REF-SANDBOX-'' @ string_of_int (now e)),
     pvr_cardPan = Some ''603799******1234'', pvr_message = Some ''simulated''\<rparr>"

definition refused :: "string option \<Rightarrow> string \<Rightarrow> PaymentVerifyResult" where
  "refused msg other = \<lparr>pvr_isSuccess = False, pvr_refId = None, pvr_cardPan = None,
     pvr_message = Some (str_or msg other)\<rparr>"

definition zarinpal_verify ::
  "bool \<Rightarrow> (string \<Rightarrow> rat \<Rightarrow> zarinpal_reply) \<Rightarrow> env \<Rightarrow> string \<Rightarrow> rat \<Rightarrow> PaymentVerifyResult" where
  "zarinpal_verify isSandbox post_verify e authority amount =
     (let simulate = isSandbox \<or> starts_with ''A000'' authority
      in case post_verify authority amount of
           ZarinpalData code _ ref_id card_pan \<Rightarrow>
             if code = 100 \<or> code = 101 then
               \<lparr>pvr_isSuccess = True,
                pvr_refId = Some (str_or (js_or ref_id card_pan) (string_of_int (now e))),
                pvr_cardPan = card_pan,
                pvr_message = Some (if code = 101 then ''already verified'' else ''verified'')\<rparr>
             else if simulate then simulated_success e
             else refused None ''payment failed or cancelled''
         | ZarinpalErrors msg \<Rightarrow>
             if simulate then simulated_success e else refused msg ''payment failed or cancelled''
         | ConnectionFailed msg \<Rightarrow>
             if simulate then simulated_success e else refused (Some (''connection failed: '' @ msg)) '''')"

definition zarinpal ::
  "bool \<Rightarrow> (rat \<Rightarrow> zarinpal_reply) \<Rightarrow> (string \<Rightarrow> rat \<Rightarrow> zarinpal_reply) \<Rightarrow> gateway" where
  "zarinpal isSandbox post_request post_verify =
     \<lparr>requestPayment = zarinpal_request isSandbox post_request,
      gatewayVerify = zarinpal_verify isSandbox post_verify\<rparr>"

section \<open>Starting an online payment\<close>

record InitiateOnlinePaymentDto =
  iop_installmentId :: id
  iop_gateway :: "PaymentGateway option"

definition pending_transaction ::
  "id \<Rightarrow> id \<Rightarrow> InitiateOnlinePaymentDto \<Rightarrow> FeeInstallment \<Rightarrow> env \<Rightarrow> PaymentTransaction" where
  "pending_transaction tenantId payerUserId dto inst e =
     \<lparr>pt_id = uuid e 0, pt_tenantId = tenantId, pt_contractId = Some (fi_contractId inst),
      pt_installmentId = Some (fi_id inst), pt_payerUserId = payerUserId,
      pt_gateway = (case iop_gateway dto of Some g \<Rightarrow> g | None \<Rightarrow> ZARINPAL), pt_method = ONLINE_GATEWAY,
      pt_amount = fi_amount inst - fi_paidAmount inst, pt_status = PENDING, pt_authority = None,
      pt_refId = None, pt_cardPan = None,
      pt_trackingCode = ''TRK-'' @ string_of_int (now e) @ ''-'' @ string_of_nat (1000 + rnd e),
      pt_errorMessage = None, pt_verifiedAt = None\<rparr>"

definition initiateOnlinePayment ::
  "gateway \<Rightarrow> id \<Rightarrow> id \<Rightarrow> InitiateOnlinePaymentDto \<Rightarrow> env \<Rightarrow> fee_db
     \<Rightarrow> http_error + fee_db \<times> PaymentRequestResult" where
  "initiateOnlinePayment gw tenantId payerUserId dto e db =
     (case find (\<lambda>i. fi_id i = iop_installmentId dto \<and> fi_tenantId i = tenantId) (installments db) of
        None \<Rightarrow> Inl (NotFound ''installment'')
      | Some inst \<Rightarrow>
          if fi_status inst = PAID then Inl (BadRequest ''installment already settled'')
          else if fi_amount inst - fi_paidAmount inst \<le> 0 then Inl (BadRequest ''nothing left to pay'')
          else bindE (create_transaction (pending_transaction tenantId payerUserId dto inst e) db) (\<lambda>db1.
            let r = requestPayment gw e (fi_amount inst - fi_paidAmount inst)
            in Inr (update_transaction (uuid e 0) (\<lambda>t. t\<lparr>pt_authority := Some (prr_authority r)\<rparr>) db1, r)))"

section \<open>Verifying a callback\<close>

record VerifyPaymentDto =
  vp_authority :: string
  vp_status :: "string option"

text \<open>One callback: its tenant and body, whether Redis is connected, and its clock and identifiers.\<close>

record verify_call =
  vc_tenantId :: id
  vc_dto :: VerifyPaymentDto
  vc_redis :: bool
  vc_env :: env

datatype verify_reply =
    AlreadyVerified "FeeReceipt option"
  | Verified FeeReceipt "string option" "string option"

datatype verify_phase =
    AtLock
  | AtRead
  | AtNok PaymentTransaction
  | AtGateway PaymentTransaction
  | AtFail PaymentTransaction PaymentVerifyResult
  | AtCommit PaymentTransaction PaymentVerifyResult
  | AtUnlock "http_error + verify_reply"
  | Done "http_error + verify_reply"

definition is_nok :: "string option \<Rightarrow> bool" where
  "is_nok s \<longleftrightarrow> truthy s \<and> map_option (map to_upper) s = Some ''NOK''"

definition find_authority :: "id \<Rightarrow> string \<Rightarrow> fee_db \<Rightarrow> PaymentTransaction option" where
  "find_authority tenantId authority db =
     find (\<lambda>t. pt_authority t = Some authority \<and> pt_tenantId t = tenantId) (transactions db)"

definition receipt_of :: "id \<Rightarrow> fee_db \<Rightarrow> FeeReceipt option" where
  "receipt_of transactionId db = find (\<lambda>r. fr_transactionId r = Some transactionId) (receipts db)"

text \<open>The transaction that ends a successful verification.\<close>

definition settle_by_id :: "id option \<Rightarrow> rat \<Rightarrow> fee_db \<Rightarrow> fee_db" where
  "settle_by_id contractId amount db =
     (case contractId of None \<Rightarrow> db
      | Some cid \<Rightarrow> (case find_row fc_id cid (contracts db) of None \<Rightarrow> db
        | Some contract \<Rightarrow>
            settle_contract contract (clamp0 (fc_balanceRemaining contract - amount)) db))"

definition verify_receipt ::
  "verify_call \<Rightarrow> PaymentTransaction \<Rightarrow> id \<Rightarrow> fee_db \<Rightarrow> FeeReceipt" where
  "verify_receipt call transaction contractId db =
     \<lparr>fr_id = uuid (vc_env call) 1, fr_tenantId = vc_tenantId call, fr_transactionId = Some (pt_id transaction),
      fr_paymentId = None, fr_contractId = contractId,
      fr_receiptNumber = receipt_number ''REC-'' (vc_env call), fr_amount = pt_amount transaction,
      fr_payerName = (case find_row fc_id contractId (contracts db) of
         None \<Rightarrow> ''payer'' | Some c \<Rightarrow> payer_name ''payer'' db c),
      fr_paymentMethod = ONLINE_GATEWAY, fr_issuedById = None\<rparr>"

definition verify_commit ::
  "verify_call \<Rightarrow> PaymentTransaction \<Rightarrow> PaymentVerifyResult \<Rightarrow> fee_db \<Rightarrow> http_error + fee_db \<times> FeeReceipt" where
  "verify_commit call transaction r db =
     (let e = vc_env call;
          db1 = update_transaction (pt_id transaction)
            (\<lambda>t. t\<lparr>pt_status := SUCCESSFUL, pt_refId := pvr_refId r, pt_cardPan := pvr_cardPan r,
                   pt_verifiedAt := Some (now e)\<rparr>) db;
          inst = (if truthy (pt_installmentId transaction)
                  then find (\<lambda>i. Some (fi_id i) = pt_installmentId transaction) (installments db1) else None);
          db2 = credit_found e inst (pt_amount transaction) db1;
          db3 = settle_by_id (pt_contractId transaction) (pt_amount transaction) db2
      in (case pt_contractId transaction of
            None \<Rightarrow> Inl (ForeignKeyViolation ''FeeReceipt.contractId'')
          | Some cid \<Rightarrow> bindE (create_receipt (verify_receipt call transaction cid db) db3)
              (\<lambda>db4. Inr (db4, verify_receipt call transaction cid db))))"

definition fail_transaction :: "id \<Rightarrow> string \<Rightarrow> fee_db \<Rightarrow> fee_db" where
  "fail_transaction i msg db =
     update_transaction i (\<lambda>t. t\<lparr>pt_status := FAILED, pt_errorMessage := Some msg\<rparr>) db"

definition lock_key :: "verify_call \<Rightarrow> string" where
  "lock_key call = ''lock:verify:'' @ vp_authority (vc_dto call)"

text \<open>
  One step of a callback.  A callback that does not get the lock and finds no successful transaction
  goes on, as in the source; \<open>finally\<close> deletes the lock whoever holds it.
\<close>

fun verify_step :: "gateway \<Rightarrow> verify_call \<Rightarrow> verify_phase \<times> fee_db \<Rightarrow> verify_phase \<times> fee_db" where
  "verify_step gw call (AtLock, db) =
     (if vc_redis call then
        if lock_key call \<in> set (verifyLocks db) then
          (case find_authority (vc_tenantId call) (vp_authority (vc_dto call)) db of
             Some t \<Rightarrow> if pt_status t = SUCCESSFUL
               then (Done (Inr (AlreadyVerified (receipt_of (pt_id t) db))), db) else (AtRead, db)
           | None \<Rightarrow> (AtRead, db))
        else (AtRead, db\<lparr>verifyLocks := lock_key call # verifyLocks db\<rparr>)
      else (AtRead, db))"
| "verify_step gw call (AtRead, db) =
     (case find_authority (vc_tenantId call) (vp_authority (vc_dto call)) db of
        None \<Rightarrow> (AtUnlock (Inl (NotFound ''transaction'')), db)
      | Some t \<Rightarrow>
          if pt_status t = SUCCESSFUL then (AtUnlock (Inr (AlreadyVerified (receipt_of (pt_id t) db))), db)
          else if is_nok (vp_status (vc_dto call)) then (AtNok t, db)
          else (AtGateway t, db))"
| "verify_step gw call (AtNok t, db) =
     (AtUnlock (Inl (BadRequest ''cancelled by the user'')),
      fail_transaction (pt_id t) ''cancelled at the gateway'' db)"
| "verify_step gw call (AtGateway t, db) =
     (let r = gatewayVerify gw (vc_env call) (vp_authority (vc_dto call)) (pt_amount t)
      in if pvr_isSuccess r then (AtCommit t r, db) else (AtFail t r, db))"
| "verify_step gw call (AtFail t r, db) =
     (AtUnlock (Inl (BadRequest (str_or (pvr_message r) ''gateway verification failed''))),
      fail_transaction (pt_id t) (str_or (pvr_message r) ''gateway verification error'') db)"
| "verify_step gw call (AtCommit t r, db) =
     (case verify_commit call t r db of
        Inl err \<Rightarrow> (AtUnlock (Inl err), db)
      | Inr (db', receipt) \<Rightarrow>
          (AtUnlock (Inr (Verified receipt (pvr_refId r) (pvr_cardPan r))),
           db'\<lparr>outbox := outbox db' @ [PaymentSuccess (vc_tenantId call) (pt_id t)
                 (fr_receiptNumber receipt) (pt_amount t)]\<rparr>))"
| "verify_step gw call (AtUnlock x, db) =
     (Done x, if vc_redis call then db\<lparr>verifyLocks := removeAll (lock_key call) (verifyLocks db)\<rparr> else db)"
| "verify_step gw call (Done x, db) = (Done x, db)"

text \<open>A callback that runs alone: its steps until it is done, six at most.\<close>

definition is_done :: "verify_phase \<Rightarrow> bool" where
  "is_done p = (case p of Done _ \<Rightarrow> True | _ \<Rightarrow> False)"

fun verify_run :: "nat \<Rightarrow> gateway \<Rightarrow> verify_call \<Rightarrow> verify_phase \<times> fee_db \<Rightarrow> verify_phase \<times> fee_db" where
  "verify_run 0 gw call s = s"
| "verify_run (Suc n) gw call s = (if is_done (fst s) then s else verify_run n gw call (verify_step gw call s))"

definition verifyPayment :: "gateway \<Rightarrow> verify_call \<Rightarrow> fee_db \<Rightarrow> verify_phase \<times> fee_db" where
  "verifyPayment gw call db = verify_run 6 gw call (AtLock, db)"

section \<open>Offline payments\<close>

record RecordOfflinePaymentDto =
  rop_installmentId :: id
  rop_method :: PaymentMethod
  rop_referenceNumber :: string
  rop_notes :: "string option"

definition offline_check :: "id \<Rightarrow> RecordOfflinePaymentDto \<Rightarrow> fee_db \<Rightarrow> http_error + FeeInstallment" where
  "offline_check tenantId dto db =
     (case find (\<lambda>i. fi_id i = rop_installmentId dto \<and> fi_tenantId i = tenantId) (installments db) of
        None \<Rightarrow> Inl (NotFound ''installment'')
      | Some inst \<Rightarrow> if fi_status inst = PAID then Inl (BadRequest ''installment already settled'') else Inr inst)"

definition offline_commit ::
  "id \<Rightarrow> id \<Rightarrow> RecordOfflinePaymentDto \<Rightarrow> FeeInstallment \<Rightarrow> env \<Rightarrow> fee_db \<Rightarrow> http_error + fee_db" where
  "offline_commit tenantId recordedById dto inst e db =
     (let remainingAmount = fi_amount inst - fi_paidAmount inst;
          transaction = \<lparr>pt_id = uuid e 0, pt_tenantId = tenantId, pt_contractId = Some (fi_contractId inst),
            pt_installmentId = Some (fi_id inst), pt_payerUserId = recordedById, pt_gateway = MANUAL_OFFLINE,
            pt_method = rop_method dto, pt_amount = remainingAmount, pt_status = SUCCESSFUL,
            pt_authority = None, pt_refId = Some (rop_referenceNumber dto), pt_cardPan = None,
            pt_trackingCode = ''OFF-'' @ string_of_int (now e) @ ''-'' @ string_of_nat (1000 + rnd e),
            pt_errorMessage = rop_notes dto, pt_verifiedAt = Some (now e)\<rparr>
      in bindE (create_transaction transaction db) (\<lambda>db1.
      let db2 = update_installment (fi_id inst)
            (\<lambda>i. i\<lparr>fi_paidAmount := fi_amount inst, fi_status := PAID, fi_paidAt := Some (now e)\<rparr>) db1;
          db3 = settle_by_id (Some (fi_contractId inst)) remainingAmount db2;
          receipt = \<lparr>fr_id = uuid e 1, fr_tenantId = tenantId, fr_transactionId = Some (pt_id transaction),
            fr_paymentId = None, fr_contractId = fi_contractId inst,
            fr_receiptNumber = receipt_number ''REC-OFF-'' e, fr_amount = remainingAmount,
            fr_payerName = (case find_row fc_id (fi_contractId inst) (contracts db) of
               None \<Rightarrow> '''' | Some c \<Rightarrow> payer_name '''' db c),
            fr_paymentMethod = rop_method dto, fr_issuedById = Some recordedById\<rparr>
      in create_receipt receipt db3))"

definition recordOfflinePayment ::
  "id \<Rightarrow> id \<Rightarrow> RecordOfflinePaymentDto \<Rightarrow> env \<Rightarrow> fee_db \<Rightarrow> http_error + fee_db" where
  "recordOfflinePayment tenantId recordedById dto e db =
     bindE (offline_check tenantId dto db) (\<lambda>inst. offline_commit tenantId recordedById dto inst e db)"

text \<open>\<open>listReceipts\<close>, newest first; receipts are appended as they are issued.\<close>

definition listReceipts :: "id \<Rightarrow> id option \<Rightarrow> fee_db \<Rightarrow> FeeReceipt list" where
  "listReceipts tenantId contractId db =
     rev (filter (\<lambda>r. fr_tenantId r = tenantId \<and> (truthy contractId \<longrightarrow> Some (fr_contractId r) = contractId))
       (receipts db))"

end
