(* ===== verification/Online_Ledger.thy ===== *)
theory Online_Ledger
  imports Online_Payment
begin

text \<open>
  The payment service on the ledger: the installments and gateway transactions it relies on, the ledger
  invariant under each step of a callback, the whole finance desk as a ledger service, and the system of
  concurrent callbacks with its reachable states.
\<close>

section \<open>Installments and transactions\<close>

definition installment_ok :: "FeeInstallment \<Rightarrow> bool" where
  "installment_ok i \<longleftrightarrow> is_money (fi_amount i) \<and> (fi_status i \<noteq> PAID \<longrightarrow> fi_paidAmount i \<le> fi_amount i)"

definition insts_ok :: "fee_db \<Rightarrow> bool" where
  "insts_ok db \<longleftrightarrow> list_all installment_ok (installments db)"

definition trans_ok :: "fee_db \<Rightarrow> bool" where
  "trans_ok db \<longleftrightarrow> list_all (\<lambda>t. is_money (pt_amount t) \<and> 0 \<le> pt_amount t) (transactions db)"

definition finance_inv :: "fee_db \<Rightarrow> bool" where
  "finance_inv db \<longleftrightarrow> ledger_inv db \<and> insts_ok db \<and> trans_ok db \<and> receipts_once db"

lemma ledger_inv_cong:
  assumes "contracts db' = contracts db" "map fi_id (installments db') = map fi_id (installments db)"
    "payments db' = payments db" "receipts db' = receipts db"
  shows "ledger_inv db' = ledger_inv db"
  using assms by (simp add: ledger_defs received_def)

lemma insts_cong: "installments db' = installments db \<Longrightarrow> insts_ok db' = insts_ok db"
  by (simp add: insts_ok_def)

lemma trans_cong: "transactions db' = transactions db \<Longrightarrow> trans_ok db' = trans_ok db"
  by (simp add: trans_ok_def)

lemma installment_keys: "ledger_inv db \<Longrightarrow> distinct (map fi_id (installments db))"
  by (simp add: ledger_defs)

lemma insts_update:
  assumes "insts_ok db" and "distinct (map fi_id (installments db))" and "i \<in> set (installments db)"
    and "installment_ok (f i)"
  shows "insts_ok (update_installment (fi_id i) f db)"
  unfolding insts_ok_def list_all_iff
proof
  fix j assume "j \<in> set (installments (update_installment (fi_id i) f db))"
  then have "j \<in> set (update_row fi_id (fi_id i) f (installments db))" by (simp add: update_installment_def)
  then show "installment_ok j"
  proof (cases rule: update_row_memE)
    case same
    then show ?thesis using assms(1) by (simp add: insts_ok_def list_all_iff)
  next
    case (changed j0)
    then have "j0 = i" using distinct_key_inj [OF assms(2)] assms(3) by blast
    with changed(3) assms(4) show ?thesis by simp
  qed
qed

lemma credit_row_ok:
  assumes "installment_ok i"
  shows "installment_ok (i\<lparr>fi_paidAmount := dec2 (fi_paidAmount i + a),
    fi_status := (if fi_paidAmount i + a \<ge> fi_amount i then PAID else PARTIALLY_PAID), fi_paidAt := t\<rparr>)"
  using assms dec2_le_money [of "fi_amount i" "fi_paidAmount i + a"] by (auto simp: installment_ok_def)

lemma credit_insts:
  assumes "insts_ok db" and "distinct (map fi_id (installments db))"
    and "\<And>i. inst = Some i \<Longrightarrow> i \<in> set (installments db)"
  shows "insts_ok (credit_found e inst a db)"
proof (cases inst)
  case (Some i)
  then have i: "i \<in> set (installments db)" by (rule assms(3))
  then have "installment_ok i" using assms(1) by (simp add: insts_ok_def list_all_iff)
  then show ?thesis
    using insts_update [OF assms(1,2) i] credit_row_ok [of i _ a]
    by (simp add: Some credit_found_def credit_installment_def Let_def)
qed (use assms(1) in \<open>simp add: credit_found_def\<close>)

lemma create_payment_rest: "create_payment p db = Inr db' \<Longrightarrow>
    installments db' = installments db \<and> transactions db' = transactions db"
  using create_payment_tables(2,3) by blast

lemma create_receipt_rest: "create_receipt r db = Inr db' \<Longrightarrow>
    installments db' = installments db \<and> transactions db' = transactions db"
  using create_receipt_tables(2,3) by blast

text \<open>The requests of the fee payment service keep installments and transactions in order.\<close>

lemma cash_commit_insts:
  assumes "cash_commit t by dto c e db = Inr (db', b)" and "insts_ok db" and "ledger_inv db"
  shows "insts_ok db' \<and> transactions db' = transactions db"
  using assms(1) unfolding cash_commit_def Let_def
  apply (elim bindE_InrE)
  subgoal premises prems for s1 s4
  proof -
    note p = create_payment_tables [OF prems(1)] and r = create_receipt_tables [OF prems(2)]
    let ?i = "if truthy (cash_installmentId dto) then
      find (\<lambda>i. Some (fi_id i) = cash_installmentId dto \<and> fi_contractId i = fc_id c) (installments s1) else None"
    have "insts_ok s1" "distinct (map fi_id (installments s1))"
      using assms(2) installment_keys [OF assms(3)] p(2) by (simp_all add: insts_ok_def)
    then have "insts_ok (credit_found e ?i (cash_amount dto) s1)"
      by (rule credit_insts) (auto split: if_splits dest: find_Some_iff_mem)
    then show ?thesis using prems(3) p(3) r(2,3) by (simp add: insts_ok_def)
  qed
  done

lemma cheque_cashed_insts:
  assumes "cheque_cashed t by p c e db = Inr db'" and "insts_ok db" and "ledger_inv db"
  shows "insts_ok db' \<and> transactions db' = transactions db"
proof -
  note r = create_receipt_rest [OF assms(1) [unfolded cheque_cashed_def Let_def]]
  have "insts_ok (credit_found e (if truthy (fp_installmentId p) then
      find (\<lambda>i. Some (fi_id i) = fp_installmentId p) (installments d) else None) a d)"
    if "installments d = installments db" for d a
    by (rule credit_insts)
      (use that assms(2) installment_keys [OF assms(3)] in
        \<open>auto simp: insts_ok_def split: if_splits dest: find_Some_iff_mem\<close>)
  with r show ?thesis by (simp add: insts_ok_def)
qed

lemma cheque_replaced_insts:
  assumes "cheque_replaced t by p c dto e db = Inr (db', i)"
  shows "installments db' = installments db \<and> transactions db' = transactions db"
  using assms
  by (auto simp: cheque_replaced_def replace_by_cheque_def replace_by_cash_def Let_def release_hold_def
      split: option.splits if_splits elim!: bindE_InrE dest!: create_payment_rest create_receipt_rest)

lemma serve_insts:
  assumes "fee_payment_serve r db = Inr db'" and "insts_ok db" and "ledger_inv db"
  shows "insts_ok db' \<and> transactions db' = transactions db"
proof (cases r)
  case (CashRequest t u dto e)
  then show ?thesis using assms cash_commit_insts by (fastforce simp: bindE_Inr recordCashPayment_def)
next
  case (ChequeRequest t u dto e)
  then show ?thesis using assms(1,2) create_payment_tables(2,3)
    by (auto simp: recordChequePayment_def insts_ok_def split: option.splits if_splits)
next
  case (ChequeStatusRequest t i u dto e)
  with assms(1) obtain p c where "cheque_commit t u dto p c e db = Inr db'"
    by (auto simp: bindE_Inr updateChequeStatus_def)
  then show ?thesis
  proof (cases rule: cheque_commit_cases)
    case (cashed db1)
    then show ?thesis using cheque_cashed_insts [of t u p c e db db1] assms(2,3)
      by (simp add: mark_cheque_def insts_ok_def)
  next
    case (replaced db1 j)
    then show ?thesis using cheque_replaced_insts [of t u p c dto e db db1 j] assms(2)
      by (simp add: mark_cheque_def insts_ok_def)
  qed (use assms(2) in \<open>auto simp: mark_cheque_def cheque_bounced_def insts_ok_def\<close>)
qed

lemma counter_finance_inv:
  assumes "fee_request_valid r" and "finance_inv db" and "fee_payment_serve r db = Inr db'"
  shows "finance_inv db'"
  using assms serve_insts [OF assms(3)] fee_payment_serve_inv serve_receipts_once
  by (auto simp: finance_inv_def trans_ok_def)

section \<open>Gateway transactions\<close>

lemma create_transaction_tables:
  assumes "create_transaction t db = Inr db'"
  shows "contracts db' = contracts db" "installments db' = installments db" "payments db' = payments db"
    "receipts db' = receipts db" "verifyLocks db' = verifyLocks db"
    "transactions db' = transactions db @ [t\<lparr>pt_amount := dec2 (pt_amount t)\<rparr>]"
    "pt_id t \<notin> set (map pt_id (transactions db))" "fk_ok fc_id (contracts db) (pt_contractId t)"
  using assms by (auto simp: create_transaction_def split: if_splits)

lemma create_transaction_inv:
  assumes "create_transaction t db = Inr db'" and "finance_inv db" and "0 \<le> pt_amount t"
  shows "finance_inv db'"
  using assms(2,3) create_transaction_tables [OF assms(1)]
  by (simp add: finance_inv_def ledger_inv_cong [of db' db] insts_ok_def trans_ok_def receipts_once_def dec2_nonneg)

lemma update_transaction_inv:
  assumes "finance_inv db" and "\<And>t. pt_amount (f t) = pt_amount t"
  shows "finance_inv (update_transaction i f db)"
  using assms
  by (simp add: finance_inv_def ledger_inv_cong [of "update_transaction i f db" db] insts_ok_def receipts_once_def)
    (auto simp: trans_ok_def update_transaction_def list_all_iff set_update_row)

lemma outbox_inv [simp]:
  "finance_inv (db\<lparr>outbox := es\<rparr>) = finance_inv db"
  "finance_inv (db\<lparr>verifyLocks := ls\<rparr>) = finance_inv db"
  by (simp_all add: finance_inv_def ledger_inv_cong [of "db\<lparr>outbox := es\<rparr>" db]
      ledger_inv_cong [of "db\<lparr>verifyLocks := ls\<rparr>" db] insts_ok_def trans_ok_def receipts_once_def)

lemma finance_keys: "finance_inv db \<Longrightarrow> distinct (map fi_id (installments db))"
  using installment_keys by (simp add: finance_inv_def)

text \<open>The settlement of a contract that is looked up in the same transaction.\<close>

lemma settle_by_id_tables [simp]:
  "installments (settle_by_id i a db) = installments db"
  "payments (settle_by_id i a db) = payments db"
  "transactions (settle_by_id i a db) = transactions db"
  "receipts (settle_by_id i a db) = receipts db"
  "map fc_id (contracts (settle_by_id i a db)) = map fc_id (contracts db)"
  "debts (settle_by_id i a db) = debts db"
  by (auto simp: settle_by_id_def debts_update_contract settle_contract_def split: option.split)
    (auto simp: update_contract_def settled.map_key_update)

lemma find_row_ex: "k \<in> set (map key rs) \<Longrightarrow> \<exists>r. find_row key k rs = Some r"
  by (cases "find_row key k rs") (auto simp: find_row_def find_None_iff)

lemma settle_by_id_inv:
  assumes inv: "ledger_inv db" and a: "0 \<le> a"
    and mid: "contracts mid = contracts db" "map fi_id (installments mid) = map fi_id (installments db)"
      "payments mid = payments db" "receipts mid = receipts db"
    and r: "create_receipt r (settle_by_id (Some cid) a mid) = Inr db'" "fr_contractId r = cid" "fr_amount r = a"
  shows "ledger_inv db'"
proof -
  have inv': "ledger_inv mid" using inv ledger_inv_cong [OF mid] by blast
  have "cid \<in> set (map fc_id (contracts (settle_by_id (Some cid) a mid)))"
    using create_receipt_tables(11) [OF r(1)] r(2) by simp
  then have "cid \<in> set (map fc_id (contracts mid))" by (simp only: settle_by_id_tables)
  then obtain c where f: "find_row fc_id cid (contracts mid) = Some c" using find_row_ex by metis
  then have c: "c \<in> set (contracts mid)" "fc_id c = cid" using find_row_SomeD [OF f] by auto
  from r(1) f have "create_receipt r (settle_contract c (clamp0 (fc_balanceRemaining c - a)) mid) = Inr db'"
    by (simp add: settle_by_id_def)
  then show ?thesis using settle_contract_inv0 [OF inv' c(1) a refl _ _ r(3)] r(2) c(2) by simp
qed

definition verify_credited :: "verify_call \<Rightarrow> PaymentTransaction \<Rightarrow> PaymentVerifyResult \<Rightarrow> fee_db \<Rightarrow> fee_db" where
  "verify_credited call transaction r db =
     (let db1 = update_transaction (pt_id transaction)
            (\<lambda>t. t\<lparr>pt_status := SUCCESSFUL, pt_refId := pvr_refId r, pt_cardPan := pvr_cardPan r,
                   pt_verifiedAt := Some (now (vc_env call))\<rparr>) db
      in credit_found (vc_env call)
           (if truthy (pt_installmentId transaction)
            then find (\<lambda>i. Some (fi_id i) = pt_installmentId transaction) (installments db1) else None)
           (pt_amount transaction) db1)"

lemma verify_commit_Inr:
  "verify_commit call t r db = Inr (db', receipt) \<longleftrightarrow>
     (\<exists>cid. pt_contractId t = Some cid \<and> receipt = verify_receipt call t cid db
        \<and> create_receipt receipt (settle_by_id (Some cid) (pt_amount t) (verify_credited call t r db)) = Inr db')"
  by (auto simp: verify_commit_def verify_credited_def Let_def bindE_Inr split: option.splits)

lemma verify_credited_tables [simp]:
  "contracts (verify_credited call t r db) = contracts db"
  "payments (verify_credited call t r db) = payments db"
  "receipts (verify_credited call t r db) = receipts db"
  "map fi_id (installments (verify_credited call t r db)) = map fi_id (installments db)"
  by (simp_all add: verify_credited_def Let_def)

lemma verify_credited_inv:
  assumes "finance_inv db"
  shows "finance_inv (verify_credited call t r db)"
proof -
  let ?u = "update_transaction (pt_id t) (\<lambda>t. t\<lparr>pt_status := SUCCESSFUL, pt_refId := pvr_refId r,
    pt_cardPan := pvr_cardPan r, pt_verifiedAt := Some (now (vc_env call))\<rparr>) db"
  let ?i = "if truthy (pt_installmentId t)
    then find (\<lambda>i. Some (fi_id i) = pt_installmentId t) (installments ?u) else None"
  have u: "finance_inv ?u" by (rule update_transaction_inv [OF assms]) simp
  have "insts_ok (credit_found (vc_env call) ?i (pt_amount t) ?u)"
    by (rule credit_insts)
      (use u finance_keys [OF u] in \<open>auto simp: finance_inv_def split: if_splits dest: find_Some_iff_mem\<close>)
  moreover have "ledger_inv (credit_found (vc_env call) ?i (pt_amount t) ?u)"
    using u ledger_inv_cong [of "credit_found (vc_env call) ?i (pt_amount t) ?u" ?u]
    by (simp add: finance_inv_def)
  ultimately show ?thesis using u
    by (simp add: verify_credited_def Let_def finance_inv_def trans_ok_def)
qed

lemma verify_commit_inv:
  assumes "finance_inv db" and "0 \<le> pt_amount t" and "verify_commit call t r db = Inr (db', receipt)"
  shows "finance_inv db'"
proof -
  from assms(3) obtain cid where cid: "receipt = verify_receipt call t cid db"
    "create_receipt receipt (settle_by_id (Some cid) (pt_amount t) (verify_credited call t r db)) = Inr db'"
    by (auto simp: verify_commit_Inr)
  note f = verify_credited_inv [OF assms(1), of call t r]
  have "ledger_inv db'"
    by (rule settle_by_id_inv [OF _ assms(2) _ _ _ _ cid(2)])
      (use assms(1) cid(1) in \<open>simp_all add: finance_inv_def verify_receipt_def\<close>)
  moreover have "receipts_once db'"
    using create_receipt_once [OF cid(2)] assms(1) by (simp add: finance_inv_def receipts_once_def)
  ultimately show ?thesis
    using create_receipt_rest [OF cid(2)] f by (simp add: finance_inv_def insts_ok_def trans_ok_def)
qed

section \<open>Offline payments and the finance desk\<close>

lemma offline_check_snapshot:
  assumes "offline_check t dto db = Inr i"
  shows "i \<in> set (installments db)" "fi_id i = rop_installmentId dto" "fi_tenantId i = t" "fi_status i \<noteq> PAID"
  using assms by (auto simp: offline_check_def split: option.splits if_splits dest!: find_Some_iff_mem)

lemma offline_commit_inv:
  assumes "finance_inv db" and "i \<in> set (installments db)" and "fi_status i \<noteq> PAID"
    and "offline_commit t u dto i e db = Inr db'"
  shows "finance_inv db'"
  using assms(4) unfolding offline_commit_def Let_def
  apply (elim bindE_InrE)
  subgoal premises prems for db1
  proof -
    have i: "installment_ok i" using assms(1,2) by (simp add: finance_inv_def insts_ok_def list_all_iff)
    then have pos: "0 \<le> fi_amount i - fi_paidAmount i" using assms(3) by (simp add: installment_ok_def)
    note rows = create_transaction_tables [OF prems(1)]
    have inv1: "finance_inv db1"
      by (rule create_transaction_inv [OF prems(1) assms(1)]) (use pos in simp)
    let ?db2 = "update_installment (fi_id i)
      (\<lambda>j. j\<lparr>fi_paidAmount := fi_amount i, fi_status := PAID, fi_paidAt := Some (now e)\<rparr>) db1"
    have "insts_ok ?db2"
      by (rule insts_update)
        (use inv1 assms(2) rows(2) i finance_keys [OF inv1] in \<open>auto simp: finance_inv_def installment_ok_def\<close>)
    moreover have "ledger_inv db'"
      by (rule settle_by_id_inv [OF _ pos _ _ _ _ prems(2)])
        (use inv1 in \<open>simp_all add: finance_inv_def\<close>,
          simp add: update_installment_def credited.map_key_update)
    moreover have "receipts_once db'"
      using create_receipt_once [OF prems(2)] inv1 by (simp add: finance_inv_def receipts_once_def)
    ultimately show ?thesis
      using create_receipt_rest [OF prems(2)] inv1 by (simp add: finance_inv_def insts_ok_def trans_ok_def)
  qed
  done

lemma initiate_inv:
  assumes "finance_inv db" and "initiateOnlinePayment gw t u dto e db = Inr (db', x)"
  shows "finance_inv db'"
  using assms
  by (auto simp: initiateOnlinePayment_def Let_def pending_transaction_def split: option.splits if_splits
      elim!: bindE_InrE intro!: update_transaction_inv dest!: create_transaction_inv)

section \<open>The finance desk\<close>

text \<open>The requests of the counter and of the payment service that run in one piece.\<close>

datatype finance_request =
    Counter fee_request
  | Initiate id id InitiateOnlinePaymentDto env
  | Offline id id RecordOfflinePaymentDto env

fun finance_serve :: "gateway \<Rightarrow> finance_request \<Rightarrow> fee_db \<Rightarrow> http_error + fee_db" where
  "finance_serve gw (Counter r) db = fee_payment_serve r db"
| "finance_serve gw (Initiate t u dto e) db =
     bindE (initiateOnlinePayment gw t u dto e db) (\<lambda>(db', _). Inr db')"
| "finance_serve gw (Offline t u dto e) db = recordOfflinePayment t u dto e db"

fun finance_request_valid :: "finance_request \<Rightarrow> bool" where
  "finance_request_valid (Counter r) = fee_request_valid r"
| "finance_request_valid _ = True"

lemma finance_serve_inv:
  assumes "finance_request_valid r" and "finance_inv db" and "finance_serve gw r db = Inr db'"
  shows "finance_inv db'"
proof (cases r)
  case (Counter c)
  then show ?thesis using assms counter_finance_inv by simp
next
  case (Initiate t u dto e)
  then show ?thesis using assms initiate_inv by (auto simp: bindE_Inr)
next
  case (Offline t u dto e)
  with assms(3) obtain i where i: "offline_check t dto db = Inr i" "offline_commit t u dto i e db = Inr db'"
    by (auto simp: recordOfflinePayment_def bindE_Inr)
  show ?thesis
    by (rule offline_commit_inv [OF assms(2) _ _ i(2)]) (use offline_check_snapshot [OF i(1)] in simp_all)
qed

lemma create_transaction_rest: "create_transaction t db = Inr db' \<Longrightarrow>
    debts db' = debts db \<and> receipts db' = receipts db"
  using create_transaction_tables(1,4) [of t db db'] by (simp add: debts_eq [of db' db])

lemma debts_gateway [simp]:
  "debts (update_transaction i f db) = debts db"
  "debts (update_installment i f' db) = debts db"
  by (simp_all add: debts_eq [of "update_transaction i f db" db] debts_eq [of "update_installment i f' db" db])

lemma finance_serve_grows:
  assumes "finance_serve gw r db = Inr db'"
  shows "(\<exists>new. receipts db' = receipts db @ new) \<and> debts db' = debts db"
proof (cases r)
  case (Counter c)
  then show ?thesis using assms fee_payment_serve_grows by simp
next
  case (Initiate t u dto e)
  then show ?thesis using assms
    by (auto simp: bindE_Inr initiateOnlinePayment_def Let_def split: option.splits if_splits
        dest!: create_transaction_rest)
next
  case (Offline t u dto e)
  then show ?thesis using assms
    by (auto simp: recordOfflinePayment_def offline_commit_def Let_def ledger_grows_def elim!: bindE_InrE
        dest!: create_transaction_rest create_receipt_grows)
qed

interpretation finance_desk: ledger_service finance_inv "finance_serve gw" finance_request_valid for gw
proof unfold_locales
  fix db db' and r :: finance_request
  show "finance_inv db \<Longrightarrow> ledger_inv db" by (simp add: finance_inv_def)
  show "finance_request_valid r \<Longrightarrow> finance_inv db \<Longrightarrow> finance_serve gw r db = Inr db' \<Longrightarrow> finance_inv db'"
    by (rule finance_serve_inv)
  assume "finance_serve gw r db = Inr db'"
  from finance_serve_grows [OF this]
  show "\<exists>new. receipts db' = receipts db @ new" "\<exists>new. debts db' = debts db @ new" by simp_all
qed

section \<open>Receipts of gateway transactions\<close>

definition gateway_receipts :: "fee_db \<Rightarrow> FeeReceipt list" where
  "gateway_receipts db = filter (\<lambda>r. fr_transactionId r \<noteq> None) (receipts db)"

definition receipted :: "id \<Rightarrow> fee_db \<Rightarrow> bool" where
  "receipted i db \<longleftrightarrow> Some i \<in> set (map fr_transactionId (gateway_receipts db))"

definition trans_key :: "PaymentTransaction \<Rightarrow> id option \<times> rat \<times> id option" where
  "trans_key t = (Some (pt_id t), pt_amount t, pt_contractId t)"

definition receipt_key :: "FeeReceipt \<Rightarrow> id option \<times> rat \<times> id option" where
  "receipt_key r = (fr_transactionId r, fr_amount r, Some (fr_contractId r))"

text \<open>
  Every gateway receipt repeats the amount and the contract of its transaction, and every successful
  transaction has a receipt.
\<close>

definition backed :: "fee_db \<Rightarrow> bool" where
  "backed db \<longleftrightarrow> set (map receipt_key (gateway_receipts db)) \<subseteq> set (map trans_key (transactions db))
     \<and> list_all (\<lambda>t. pt_status t = SUCCESSFUL \<longrightarrow> receipted (pt_id t) db) (transactions db)"

lemma receipt_of_iff: "receipt_of i db \<noteq> None \<longleftrightarrow> receipted i db"
  by (force simp: receipt_of_def receipted_def gateway_receipts_def find_None_iff)

lemma receipt_of_ex: "(\<exists>r. receipt_of i db = Some r) \<longleftrightarrow> receipted i db"
  by (simp add: receipt_of_iff [symmetric])

lemma create_payment_gateway: "create_payment p db = Inr db' \<Longrightarrow> gateway_receipts db' = gateway_receipts db"
  using create_payment_tables(4) [of p db db'] by (simp add: gateway_receipts_def)

lemma create_receipt_gateway: "create_receipt r db = Inr db' \<Longrightarrow>
    gateway_receipts db' = gateway_receipts db
      @ (if fr_transactionId r = None then [] else [r\<lparr>fr_amount := dec2 (fr_amount r)\<rparr>])"
  using create_receipt_tables(7) [of r db db'] by (simp add: gateway_receipts_def)

lemma gateway_receipts_eq: "receipts db' = receipts db \<Longrightarrow> gateway_receipts db' = gateway_receipts db"
  by (simp add: gateway_receipts_def)

lemma gateway_receipts_steps [simp]:
  "gateway_receipts (settle_contract c b db) = gateway_receipts db"
  "gateway_receipts (settle_by_id cid b db) = gateway_receipts db"
  "gateway_receipts (credit_found e i a db) = gateway_receipts db"
  "gateway_receipts (update_contract k f db) = gateway_receipts db"
  "gateway_receipts (update_installment k g db) = gateway_receipts db"
  "gateway_receipts (update_transaction k h db) = gateway_receipts db"
  "gateway_receipts (mark_cheque u p dto j e db) = gateway_receipts db"
  "gateway_receipts (release_hold t p c db) = gateway_receipts db"
  "gateway_receipts (cheque_bounced t p c db) = gateway_receipts db"
  "gateway_receipts (verify_credited call t' r db) = gateway_receipts db"
  "gateway_receipts (db\<lparr>outbox := es\<rparr>) = gateway_receipts db"
  "gateway_receipts (db\<lparr>verifyLocks := ls\<rparr>) = gateway_receipts db"
  by (simp_all add: gateway_receipts_def release_hold_def cheque_bounced_def)

lemma cheque_commit_gateway:
  assumes "cheque_commit t u dto p c e db = Inr db'"
  shows "gateway_receipts db' = gateway_receipts db"
  using assms
proof (cases rule: cheque_commit_cases)
  case (cashed db1)
  then show ?thesis
    using create_receipt_gateway [OF cashed(3) [unfolded cheque_cashed_def Let_def]] by simp
next
  case (replaced db1 i)
  from replaced(2) have "gateway_receipts db1 = gateway_receipts db"
    by (auto simp: cheque_replaced_def replace_by_cheque_def replace_by_cash_def Let_def
        split: option.splits elim!: bindE_InrE dest!: create_payment_gateway create_receipt_gateway)
  with replaced(3) show ?thesis by simp
qed simp_all

lemma counter_gateway:
  assumes "fee_payment_serve r db = Inr db'"
  shows "gateway_receipts db' = gateway_receipts db"
proof (cases r)
  case (CashRequest t u dto e)
  then show ?thesis using assms
    by (auto simp: recordCashPayment_def cash_commit_def Let_def elim!: bindE_InrE
        dest!: create_payment_gateway create_receipt_gateway)
next
  case (ChequeRequest t u dto e)
  then show ?thesis using assms create_payment_gateway
    by (auto simp: recordChequePayment_def split: option.splits if_splits)
next
  case (ChequeStatusRequest t i u dto e)
  then show ?thesis using assms cheque_commit_gateway by (auto simp: bindE_Inr updateChequeStatus_def)
qed

end
