(* ===== verification/Calendar.thy ===== *)
theory Calendar
  imports Prelude
begin

text \<open>
  The part of \<open>Date\<close> the services use: a time is milliseconds since 1970-01-01 UTC, days are counted in
  the proleptic Gregorian calendar, and \<open>setMonth(getMonth() + n)\<close> keeps the day of the month and lets it
  run over into the next month.  The server's time zone is UTC.
\<close>

definition ms_per_day :: int where
  "ms_per_day = 86400000"

text \<open>The day number of a date, with the years starting in March.\<close>

definition days_from_civil :: "int \<Rightarrow> int \<Rightarrow> int \<Rightarrow> int" where
  "days_from_civil y m d =
     (let y' = (if m \<le> 2 then y - 1 else y);
          m' = (m + 9) mod 12
      in 365 * y' + y' div 4 - y' div 100 + y' div 400 + (153 * m' + 2) div 5 + d - 1 - 719468)"

text \<open>Year, month and day of a day number: the 400-year era, the year of the era, the day of the year.\<close>

definition civil_from_days :: "int \<Rightarrow> int \<times> int \<times> int" where
  "civil_from_days n =
     (let z = n + 719468;
          era = z div 146097;
          doe = z mod 146097;
          yoe = (doe - doe div 1460 + doe div 36524 - doe div 146096) div 365;
          doy = doe - (365 * yoe + yoe div 4 - yoe div 100);
          mp = (5 * doy + 2) div 153;
          d = doy - (153 * mp + 2) div 5 + 1;
          m = (if mp < 10 then mp + 3 else mp - 9);
          y = yoe + era * 400
      in (if m \<le> 2 then y + 1 else y, m, d))"

definition add_months :: "nat \<Rightarrow> time \<Rightarrow> time" where
  "add_months n t =
     (let (y, m, d) = civil_from_days (t div ms_per_day);
          m0 = m - 1 + int n
      in (days_from_civil (y + m0 div 12) (m0 mod 12 + 1) 1 + d - 1) * ms_per_day + t mod ms_per_day)"

text \<open>The day count starts at the epoch, and 31 January plus one month runs over into March.\<close>

lemma epoch: "days_from_civil 1970 1 1 = 0"
  by code_simp

lemma add_months_example:
  "add_months 1 (days_from_civil 2025 1 31 * ms_per_day) = days_from_civil 2025 3 3 * ms_per_day"
  by code_simp

text \<open>
  The two conversions are inverse on the dates of the calendar.  Within an era a year is split into its
  century, the four-year period of the century and the year of the period.
\<close>

definition is_leap :: "int \<Rightarrow> bool" where
  "is_leap y \<longleftrightarrow> y mod 4 = 0 \<and> (y mod 100 \<noteq> 0 \<or> y mod 400 = 0)"

definition month_length :: "int \<Rightarrow> int \<Rightarrow> int" where
  "month_length y m =
     (if m = 2 then (if is_leap y then 29 else 28)
      else if m = 4 \<or> m = 6 \<or> m = 9 \<or> m = 11 then 30 else 31)"

definition civil_date :: "int \<times> int \<times> int \<Rightarrow> bool" where
  "civil_date = (\<lambda>(y, m, d). 1 \<le> m \<and> m \<le> 12 \<and> 1 \<le> d \<and> d \<le> month_length y m)"

definition year_start :: "int \<Rightarrow> int" where
  "year_start k = 365 * k + k div 4 - k div 100"

lemma div_below_double: "0 \<le> (t :: int) \<Longrightarrow> 0 < b \<Longrightarrow> t < 2 * b \<Longrightarrow> t div b = (if t < b then 0 else 1)"
  by (simp add: div_pos_geq)

lemma is_leap_era: "is_leap (400 * e + x) = is_leap x"
proof -
  have "(4 * (100 * e) + x) mod 4 = x mod 4" "(100 * (4 * e) + x) mod 100 = x mod 100"
    "(400 * e + x) mod 400 = x mod 400" by (simp_all only: mod_mult_self4)
  then show ?thesis by (simp add: is_leap_def)
qed

lemma year_of_era:
  assumes k: "0 \<le> k" "k < 400" and e: "0 \<le> e" "e \<le> 365" "e = 365 \<Longrightarrow> is_leap (k + 1)"
    and x: "x = year_start k + e"
  shows "(x - x div 1460 + x div 36524 - x div 146096) div 365 = k"
proof (cases "k = 399 \<and> e = 365")
  case True
  with x show ?thesis by (simp add: year_start_def)
next
  case False
  define c p s where "c = k div 100" and "p = k mod 100 div 4" and "s = k mod 100 mod 4"
  have s: "0 \<le> s" "s \<le> 3" unfolding s_def by simp_all
  have k1: "k = 100 * c + k mod 100" and "0 \<le> k mod 100" "k mod 100 < 100" by (simp_all add: c_def)
  then have k2: "k mod 100 = 4 * p + s" and p: "0 \<le> p" "p \<le> 24" by (simp_all add: p_def s_def)
  from k1 k2 have k4: "k = 100 * c + 4 * p + s" by simp
  have c: "0 \<le> c" "c \<le> 3" using k unfolding c_def by simp_all
  have kd: "k div 4 = 25 * c + p" using s by (simp add: k4)
  have x1: "x = 36524 * c + (1461 * p + 365 * s + e)"
    unfolding x year_start_def kd c_def [symmetric] using k4 by simp
  have last: "s = 3 \<and> p \<noteq> 24" if "e = 365"
  proof -
    have "(k + 1) mod 4 = 0" using e(3) [OF that] by (simp add: is_leap_def)
    then have "(4 * (25 * c + p) + (s + 1)) mod 4 = 0" by (simp add: k4 algebra_simps)
    then have "(s + 1) mod 4 = 0" by (simp only: mod_mult_self4)
    with s have "s = 3" by (cases "s + 1 < 4") (auto simp: mod_pos_pos_trivial)
    moreover have "p \<noteq> 24"
    proof
      assume "p = 24"
      with \<open>s = 3\<close> have "k + 1 = 100 * (c + 1)" by (simp add: k4)
      moreover have "c = 0 \<or> c = 1 \<or> c = 2 \<or> c = 3" using c by presburger
      ultimately have "k + 1 = 100 \<or> k + 1 = 200 \<or> k + 1 = 300 \<or> k = 399" by auto
      with e(3) [OF that] False that show False by (auto simp: is_leap_def)
    qed
    ultimately show ?thesis by simp
  qed
  have "0 \<le> 1461 * p + 365 * s + e" "1461 * p + 365 * s + e < 36524"
    using last p s e by (cases "e = 365"; linarith)+
  then have d1: "x div 36524 = c" using x1 c by simp
  have d2: "x div 146096 = 0"
    using x1 c \<open>1461 * p + 365 * s + e < 36524\<close> p s e by simp
  define t where "t = 24 * c + p + 365 * s + e"
  have x2: "x = 1460 * (25 * c + p) + t" by (simp add: x1 t_def)
  have "x div 1460 = 25 * c + p + t div 1460" by (simp add: x2)
  moreover have "0 \<le> t" "t < 2920" using c p s e by (simp_all add: t_def)
  then have "t div 1460 = (if t < 1460 then 0 else 1)" using div_below_double [of t 1460] by simp
  ultimately have "x - x div 1460 + x div 36524 - x div 146096 = 365 * k + (e - (if t < 1460 then 0 else 1))"
    using d1 d2 k4 x1 by simp
  moreover have "0 \<le> e - (if t < 1460 then 0 else 1)" "e - (if t < 1460 then 0 else 1) < 365"
    using last c p s e by (cases "e = 365"; auto simp: t_def)+
  ultimately show ?thesis by simp
qed

lemma month_of_year:
  assumes "0 \<le> (i :: int)" "i \<le> 11" "1 \<le> d" "d \<le> 31"
    and "i = 1 \<or> i = 3 \<or> i = 6 \<or> i = 8 \<Longrightarrow> d \<le> 30" and "i = 11 \<Longrightarrow> d \<le> 29"
  shows "(5 * ((153 * i + 2) div 5 + d - 1) + 2) div 153 = i" (is ?mp)
    and "0 \<le> (153 * i + 2) div 5 + d - 1" (is ?lo)
    and "(153 * i + 2) div 5 + d - 1 \<le> (if i = 11 \<and> d = 29 then 365 else 364)" (is ?hi)
proof -
  have "i \<in> {0, 1, 2, 3, 4, 5, 6, 7, 8, 9, 10, 11}" unfolding insert_iff empty_iff using assms(1,2) by presburger
  then show ?mp ?lo ?hi using assms by (auto; presburger)+
qed

theorem civil_inverse:
  assumes "civil_date (y, m, d)"
  shows "civil_from_days (days_from_civil y m d) = (y, m, d)"
proof -
  define y' i where "y' = (if m \<le> 2 then y - 1 else y)" and "i = (m + 9) mod 12"
  define era k where "era = y' div 400" and "k = y' mod 400"
  define doy where "doy = (153 * i + 2) div 5 + d - 1"
  have md: "1 \<le> m" "m \<le> 12" "1 \<le> d" "d \<le> month_length y m" using assms by (auto simp: civil_date_def)
  have i3: "i = (if m \<le> 2 then m + 9 else m - 3)"
  proof (cases "m \<le> 2")
    case False
    have "(m - 3 + 12) mod 12 = (m - 3) mod 12" by (rule mod_add_self2)
    moreover have "m + 9 = m - 3 + 12" by simp
    ultimately show ?thesis using False md by (simp only: i_def) simp
  qed (use md in \<open>simp add: i_def\<close>)
  with md have i: "0 \<le> i" "i \<le> 11" "i = (if m \<le> 2 then m + 9 else m - 3)" by auto
  have d31: "d \<le> 31" "i = 1 \<or> i = 3 \<or> i = 6 \<or> i = 8 \<Longrightarrow> d \<le> 30" "i = 11 \<Longrightarrow> d \<le> 29"
    using md i(3) by (auto simp: month_length_def split: if_splits)
  note month = month_of_year [OF i(1,2) md(3) d31, folded doy_def]
  have leap: "is_leap (k + 1)" if "doy = 365"
  proof -
    from month(3) that have "i = 11" "d = 29" by (auto split: if_splits)
    with i(3) md have "m = 2" "is_leap y" by (auto simp: month_length_def split: if_splits)
    then have "y = y' + 1" by (simp add: y'_def)
    then have "y = 400 * era + (k + 1)" by (simp add: k_def era_def)
    with \<open>is_leap y\<close> show ?thesis by (simp only: is_leap_era)
  qed
  have k: "0 \<le> k" "k < 400" "y' = 400 * era + k" by (simp_all add: k_def era_def)
  have doy: "0 \<le> doy" "doy \<le> 365" using month(2,3) by (auto split: if_splits)
  define doe where "doe = year_start k + doy"
  have "y' = 4 * (100 * era) + k" "y' = 100 * (4 * era) + k" using k by simp_all
  then have "y' div 4 = 100 * era + k div 4" "y' div 100 = 4 * era + k div 100" "y' div 400 = era"
    using k by (simp_all only: div_mult_self4)
  then have z: "days_from_civil y m d + 719468 = 146097 * era + doe"
    by (simp add: days_from_civil_def Let_def y'_def [symmetric] i_def [symmetric] doe_def doy_def year_start_def k)
  have "0 \<le> k div 4" "k div 4 \<le> 99" "0 \<le> k div 100" "k div 100 \<le> 3" using k by simp_all
  then have "0 \<le> doe" "doe < 146097" using k doy unfolding doe_def year_start_def
    by (cases "k = 399"; cases "k = 0"; simp)+
  then have "(146097 * era + doe) div 146097 = era" "(146097 * era + doe) mod 146097 = doe" by simp_all
  moreover have "(doe - doe div 1460 + doe div 36524 - doe div 146096) div 365 = k"
    using year_of_era [OF k(1,2) doy leap doe_def] .
  moreover have "doe - (365 * k + k div 4 - k div 100) = doy" by (simp add: doe_def year_start_def)
  moreover have "doy - (153 * i + 2) div 5 + 1 = d" by (simp add: doy_def)
  ultimately have "civil_from_days (days_from_civil y m d) =
      (let m = if i < 10 then i + 3 else i - 9; y = k + era * 400 in (if m \<le> 2 then y + 1 else y, m, d))"
    by (simp only: civil_from_days_def Let_def z month(1))
  moreover have "k + era * 400 = y'" using k by simp
  moreover have "(if i < 10 then i + 3 else i - 9) = m" using i md by simp
  ultimately show ?thesis by (simp add: Let_def y'_def)
qed

end
