(* ===== verification/Fee_Plan.thy ===== *)
theory Fee_Plan
  imports Online_Ledger Calendar
begin

text \<open>
  \<open>FeeService\<close> (\<open>modules/finance/fee.service.ts\<close>): fee plans and their allocation to whole groups of
  students, individual contracts, and the overviews of staff, parents and students.

  The school's own tables (years, enrollments, profiles, family links) are read only here; together with
  the fee plans they form \<open>school\<close>.  Amounts that the source computes in floating point (percentages, the
  sum of the installments) are exact rationals.
\<close>

section \<open>The school\<close>

record FeePlanInstallmentConfigItem =
  pi_number :: nat
  pi_title :: string
  pi_percentOrAmount :: rat
  pi_dueMonthOffset :: nat

record FeePlan =
  pl_id :: id
  pl_tenantId :: id
  pl_academicYearId :: id
  pl_title :: string
  pl_amount :: rat
  pl_appliesTo :: FeePlanScope
  pl_educationalLevelId :: "id option"
  pl_classroomId :: "id option"
  pl_installmentCount :: nat
  pl_installmentConfig :: "FeePlanInstallmentConfigItem list"

record AcademicYear =
  ay_id :: id
  ay_tenantId :: id
  ay_name :: string

record ClassEnrollment =
  en_tenantId :: id
  en_academicYearId :: id
  en_classroomId :: id
  en_studentId :: id
  en_active :: bool

record StudentProfile =
  sp_id :: id
  sp_tenantId :: id
  sp_userId :: id
  sp_userNationalId :: "string option"
  sp_studentCode :: "string option"
  sp_nationalCode :: "string option"

record ParentProfile =
  pp_userId :: id
  pp_tenantId :: id
  pp_children :: "id list"

record school =
  feePlans :: "FeePlan list"
  academicYears :: "AcademicYear list"
  enrollments :: "ClassEnrollment list"
  classroomLevel :: "id \<Rightarrow> id option"
  studentProfiles :: "StudentProfile list"
  parentProfiles :: "ParentProfile list"

section \<open>New contracts and installments\<close>

text \<open>\<open>create\<close> under the keys of the schema, amounts rounded at their columns.\<close>

definition create_contract :: "StudentFeeContract \<Rightarrow> fee_db \<Rightarrow> http_error + fee_db" where
  "create_contract c db =
     (if fc_id c \<in> set (map fc_id (contracts db)) then Inl (UniqueViolation ''StudentFeeContract.id'')
      else if (fc_tenantId c, fc_contractNumber c)
          \<in> set (map (\<lambda>d. (fc_tenantId d, fc_contractNumber d)) (contracts db))
        then Inl (UniqueViolation ''StudentFeeContract.contractNumber'')
      else if (fc_tenantId c, fc_academicYearId c, fc_studentId c)
          \<in> set (map (\<lambda>d. (fc_tenantId d, fc_academicYearId d, fc_studentId d)) (contracts db))
        then Inl (UniqueViolation ''StudentFeeContract.studentId'')
      else Inr (db\<lparr>contracts := contracts db @
        [c\<lparr>fc_totalAmount := dec2 (fc_totalAmount c), fc_discountAmount := dec2 (fc_discountAmount c),
           fc_finalPayableAmount := dec2 (fc_finalPayableAmount c),
           fc_balanceRemaining := dec2 (fc_balanceRemaining c)\<rparr>]\<rparr>))"

definition create_installment :: "FeeInstallment \<Rightarrow> fee_db \<Rightarrow> http_error + fee_db" where
  "create_installment i db =
     (if fi_id i \<in> set (map fi_id (installments db)) then Inl (UniqueViolation ''FeeInstallment.id'')
      else if (fi_contractId i, fi_installmentNumber i)
          \<in> set (map (\<lambda>j. (fi_contractId j, fi_installmentNumber j)) (installments db))
        then Inl (UniqueViolation ''FeeInstallment.installmentNumber'')
      else if fi_contractId i \<notin> set (map fc_id (contracts db))
        then Inl (ForeignKeyViolation ''FeeInstallment.contractId'')
      else Inr (db\<lparr>installments := installments db @ [i\<lparr>fi_amount := dec2 (fi_amount i)\<rparr>]\<rparr>))"

definition new_installment :: "id \<Rightarrow> id \<Rightarrow> id \<Rightarrow> nat \<times> string \<times> time \<times> rat \<Rightarrow> FeeInstallment" where
  "new_installment i tenantId contractId = (\<lambda>(number, title, due, amount).
     \<lparr>fi_id = i, fi_tenantId = tenantId, fi_contractId = contractId, fi_installmentNumber = number,
      fi_title = title, fi_dueDate = due, fi_amount = amount, fi_paidAmount = 0, fi_status = UNPAID,
      fi_paidAt = None\<rparr>)"

text \<open>A contract and its installments; the rows take the fresh identifiers from \<open>uuid e k\<close> on.\<close>

definition create_with_installments ::
  "StudentFeeContract \<Rightarrow> (nat \<times> string \<times> time \<times> rat) list \<Rightarrow> nat \<Rightarrow> env \<Rightarrow> fee_db \<Rightarrow> http_error + fee_db" where
  "create_with_installments c items k e db =
     bindE (create_contract c db)
       (foldE (\<lambda>(j, item). create_installment (new_installment (uuid e (k + 1 + j)) (fc_tenantId c) (fc_id c) item))
          (zip [0..<length items] items))"

section \<open>Fee plans\<close>

record CreateFeePlanDto =
  cfp_academicYearId :: id
  cfp_title :: string
  cfp_amount :: rat
  cfp_appliesTo :: FeePlanScope
  cfp_educationalLevelId :: "id option"
  cfp_classroomId :: "id option"
  cfp_installmentCount :: "nat option"
  cfp_installmentConfig :: "FeePlanInstallmentConfigItem list option"

definition nat_or :: "nat \<Rightarrow> nat \<Rightarrow> nat" where
  "nat_or a b = (if a \<noteq> 0 then a else b)"

definition createFeePlan :: "id \<Rightarrow> CreateFeePlanDto \<Rightarrow> env \<Rightarrow> school \<Rightarrow> http_error + school" where
  "createFeePlan tenantId dto e s =
     (case find (\<lambda>y. ay_id y = cfp_academicYearId dto \<and> ay_tenantId y = tenantId) (academicYears s) of
        None \<Rightarrow> Inl (NotFound ''academic year'')
      | Some _ \<Rightarrow> Inr (s\<lparr>feePlans := feePlans s @
          [\<lparr>pl_id = uuid e 0, pl_tenantId = tenantId, pl_academicYearId = cfp_academicYearId dto,
            pl_title = cfp_title dto, pl_amount = dec2 (cfp_amount dto), pl_appliesTo = cfp_appliesTo dto,
            pl_educationalLevelId = cfp_educationalLevelId dto, pl_classroomId = cfp_classroomId dto,
            pl_installmentCount = nat_or (case cfp_installmentCount dto of Some n \<Rightarrow> n | None \<Rightarrow> 0)
              (nat_or (case cfp_installmentConfig dto of Some xs \<Rightarrow> length xs | None \<Rightarrow> 0) 1),
            pl_installmentConfig = (case cfp_installmentConfig dto of Some xs \<Rightarrow> xs | None \<Rightarrow> [])\<rparr>]\<rparr>))"

definition listFeePlans :: "id \<Rightarrow> id option \<Rightarrow> school \<Rightarrow> FeePlan list" where
  "listFeePlans tenantId academicYearId s =
     rev (filter (\<lambda>p. pl_tenantId p = tenantId
        \<and> (if truthy academicYearId then Some (pl_academicYearId p) = academicYearId else True)) (feePlans s))"

definition getFeePlan :: "id \<Rightarrow> id \<Rightarrow> school \<Rightarrow> http_error + FeePlan" where
  "getFeePlan tenantId i s =
     (case find (\<lambda>p. pl_id p = i \<and> pl_tenantId p = tenantId) (feePlans s) of
        None \<Rightarrow> Inl (NotFound ''fee plan'') | Some p \<Rightarrow> Inr p)"

section \<open>Group allocation\<close>

text \<open>The active enrollments in the plan's scope; a scope without its level or class selects nobody.\<close>

definition in_scope :: "FeePlan \<Rightarrow> school \<Rightarrow> ClassEnrollment \<Rightarrow> bool" where
  "in_scope plan s en =
     (case pl_appliesTo plan of
        ALL_SCHOOL \<Rightarrow> True
      | EDUCATIONAL_LEVEL \<Rightarrow> truthy (pl_educationalLevelId plan)
          \<and> classroomLevel s (en_classroomId en) = pl_educationalLevelId plan
      | CLASSROOM \<Rightarrow> truthy (pl_classroomId plan) \<and> Some (en_classroomId en) = pl_classroomId plan
      | INDIVIDUAL \<Rightarrow> False)"

definition scope_enrollments :: "id \<Rightarrow> FeePlan \<Rightarrow> school \<Rightarrow> ClassEnrollment list" where
  "scope_enrollments tenantId plan s =
     filter (\<lambda>en. en_tenantId en = tenantId \<and> en_academicYearId en = pl_academicYearId plan \<and> en_active en
        \<and> in_scope plan s en) (enrollments s)"

text \<open>The students of a list of enrollments, each at its first occurrence (the insertion order of a \<open>Map\<close>).\<close>

fun first_occurrences :: "id list \<Rightarrow> id list \<Rightarrow> id list" where
  "first_occurrences seen [] = []"
| "first_occurrences seen (x # xs) =
     (if x \<in> set seen then first_occurrences seen xs else x # first_occurrences (x # seen) xs)"

definition eligible_students :: "id \<Rightarrow> FeePlan \<Rightarrow> school \<Rightarrow> id list" where
  "eligible_students tenantId plan s = first_occurrences [] (map en_studentId (scope_enrollments tenantId plan s))"

definition contracted :: "id \<Rightarrow> id \<Rightarrow> fee_db \<Rightarrow> id \<Rightarrow> bool" where
  "contracted tenantId yearId db st \<longleftrightarrow>
     (tenantId, yearId, st) \<in> set (map (\<lambda>c. (fc_tenantId c, fc_academicYearId c, fc_studentId c)) (contracts db))"

record plan_preview =
  readyStudents :: "id list"
  alreadyAllocated :: "id list"
  totalEligibleCount :: nat

definition previewFeePlanAllocation :: "id \<Rightarrow> id \<Rightarrow> school \<Rightarrow> fee_db \<Rightarrow> http_error + plan_preview" where
  "previewFeePlanAllocation tenantId planId s db =
     bindE (getFeePlan tenantId planId s) (\<lambda>plan.
       let eligible = eligible_students tenantId plan s;
           contr = contracted tenantId (pl_academicYearId plan) db
       in Inr \<lparr>readyStudents = filter (\<lambda>st. \<not> contr st) eligible, alreadyAllocated = filter contr eligible,
               totalEligibleCount = length eligible\<rparr>)"

text \<open>\<open>(item.percentOrAmount || 100 / installmentConfig.length) / 100\<close>\<close>

definition item_share :: "FeePlanInstallmentConfigItem list \<Rightarrow> FeePlanInstallmentConfigItem \<Rightarrow> rat" where
  "item_share config item =
     (if pi_percentOrAmount item \<noteq> 0 then pi_percentOrAmount item else 100 / of_nat (length config)) / 100"

lemma item_share_nonneg: "0 \<le> pi_percentOrAmount item \<Longrightarrow> 0 \<le> item_share config item"
  by (simp add: item_share_def)

text \<open>The installments of a plan: by its configured percentages, or an even split every two months.\<close>

definition plan_items :: "FeePlan \<Rightarrow> time \<Rightarrow> (nat \<times> string \<times> time \<times> rat) list" where
  "plan_items plan t =
     (let config = pl_installmentConfig plan;
          n = nat_or (pl_installmentCount plan) 1
      in if config \<noteq> [] then
           map (\<lambda>item.
             (nat_or (pi_number item) 1,
              str_or (Some (pi_title item)) (''installment '' @ string_of_nat (pi_number item)),
              add_months (pi_dueMonthOffset item) t, pl_amount plan * item_share config item)) config
         else
           map (\<lambda>i. (i + 1, if i = 0 then ''down payment'' else ''installment '' @ string_of_nat (i + 1),
                     add_months (i * 2) t, pl_amount plan / of_nat n)) [0..<n])"

definition is_ascii_digit :: "char \<Rightarrow> bool" where
  "is_ascii_digit c \<longleftrightarrow> 48 \<le> (of_char c :: nat) \<and> (of_char c :: nat) \<le> 57"

definition plan_contract :: "id \<Rightarrow> FeePlan \<Rightarrow> string \<Rightarrow> id \<Rightarrow> nat \<Rightarrow> id \<Rightarrow> StudentFeeContract" where
  "plan_contract tenantId plan yearName i draw st =
     \<lparr>fc_id = i, fc_tenantId = tenantId, fc_academicYearId = pl_academicYearId plan, fc_studentId = st,
      fc_contractNumber = ''FEE-'' @ str_or (Some (filter is_ascii_digit yearName)) ''1404'' @ ''-''
         @ string_of_nat (1000 + draw),
      fc_totalAmount = pl_amount plan, fc_discountAmount = 0, fc_finalPayableAmount = pl_amount plan,
      fc_balanceRemaining = pl_amount plan, fc_status = FC_ACTIVE, fc_discountReason = None,
      fc_notes = None, fc_feePlanId = Some (pl_id plan), fc_isIndividual = False,
      fc_hasFinancialHold = False, fc_financialHoldReason = None\<rparr>"

text \<open>
  The transaction of \<open>applyFeePlan\<close>: one contract for every ready student; \<open>draw k\<close> is the random number
  drawn for the \<open>k\<close>-th, below 9000.
\<close>

definition allocate ::
  "id \<Rightarrow> FeePlan \<Rightarrow> string \<Rightarrow> (nat \<Rightarrow> nat) \<Rightarrow> env \<Rightarrow> nat \<times> id \<Rightarrow> fee_db \<Rightarrow> http_error + fee_db" where
  "allocate tenantId plan yearName draw e = (\<lambda>(k, st).
     let items = plan_items plan (now e);
         base = k * (length items + 1)
     in create_with_installments (plan_contract tenantId plan yearName (uuid e base) (draw k) st) items base e)"

definition year_name :: "FeePlan \<Rightarrow> school \<Rightarrow> string" where
  "year_name plan s = (case find (\<lambda>y. ay_id y = pl_academicYearId plan) (academicYears s) of
     None \<Rightarrow> '''' | Some y \<Rightarrow> ay_name y)"

definition applyFeePlan ::
  "id \<Rightarrow> id \<Rightarrow> (nat \<Rightarrow> nat) \<Rightarrow> env \<Rightarrow> school \<Rightarrow> fee_db \<Rightarrow> http_error + fee_db \<times> nat" where
  "applyFeePlan tenantId planId draw e s db =
     bindE (previewFeePlanAllocation tenantId planId s db) (\<lambda>preview.
     bindE (getFeePlan tenantId planId s) (\<lambda>plan.
       if readyStudents preview = [] then Inl (BadRequest ''no new student for this plan'')
       else bindE (foldE (allocate tenantId plan (year_name plan s) draw e)
                (zip [0..<length (readyStudents preview)] (readyStudents preview)) db)
              (\<lambda>db'. Inr (db', length (readyStudents preview)))))"

section \<open>Individual contracts\<close>

record CreateInstallmentItemDto =
  cii_installmentNumber :: nat
  cii_title :: string
  cii_dueDate :: time
  cii_amount :: rat

record CreateFeeContractDto =
  cfc_academicYearId :: id
  cfc_studentId :: id
  cfc_contractNumber :: string
  cfc_totalAmount :: rat
  cfc_discountAmount :: "rat option"
  cfc_discountReason :: "string option"
  cfc_notes :: "string option"
  cfc_feePlanId :: "id option"
  cfc_isIndividual :: "bool option"
  cfc_installments :: "CreateInstallmentItemDto list"

definition contract_payable :: "CreateFeeContractDto \<Rightarrow> rat" where
  "contract_payable dto = cfc_totalAmount dto - (case cfc_discountAmount dto of Some d \<Rightarrow> d | None \<Rightarrow> 0)"

definition contract_row :: "id \<Rightarrow> CreateFeeContractDto \<Rightarrow> env \<Rightarrow> StudentFeeContract" where
  "contract_row tenantId dto e =
     \<lparr>fc_id = uuid e 0, fc_tenantId = tenantId, fc_academicYearId = cfc_academicYearId dto,
      fc_studentId = cfc_studentId dto, fc_contractNumber = cfc_contractNumber dto,
      fc_totalAmount = cfc_totalAmount dto,
      fc_discountAmount = (case cfc_discountAmount dto of Some d \<Rightarrow> d | None \<Rightarrow> 0),
      fc_finalPayableAmount = contract_payable dto, fc_balanceRemaining = contract_payable dto,
      fc_status = FC_ACTIVE, fc_discountReason = cfc_discountReason dto, fc_notes = cfc_notes dto,
      fc_feePlanId = cfc_feePlanId dto,
      fc_isIndividual = (case cfc_isIndividual dto of Some b \<Rightarrow> b | None \<Rightarrow> \<not> truthy (cfc_feePlanId dto)),
      fc_hasFinancialHold = False, fc_financialHoldReason = None\<rparr>"

definition createContract :: "id \<Rightarrow> CreateFeeContractDto \<Rightarrow> env \<Rightarrow> school \<Rightarrow> fee_db \<Rightarrow> http_error + fee_db" where
  "createContract tenantId dto e s db =
     (case find (\<lambda>p. sp_id p = cfc_studentId dto \<and> sp_tenantId p = tenantId) (studentProfiles s) of
        None \<Rightarrow> Inl (NotFound ''student profile'')
      | Some _ \<Rightarrow>
          if contract_payable dto < 0 then Inl (BadRequest ''discount exceeds the total'')
          else if \<bar>sum_list (map cii_amount (cfc_installments dto)) - contract_payable dto\<bar> > 1
            then Inl (BadRequest ''installments do not add up'')
          else if find (\<lambda>c. fc_tenantId c = tenantId \<and> fc_contractNumber c = cfc_contractNumber dto) (contracts db) \<noteq> None
            then Inl (Conflict ''contract number'')
          else if contracted tenantId (cfc_academicYearId dto) db (cfc_studentId dto)
            then Inl (Conflict ''student already has a contract this year'')
          else create_with_installments (contract_row tenantId dto e)
            (map (\<lambda>i. (cii_installmentNumber i, cii_title i, cii_dueDate i, cii_amount i)) (cfc_installments dto))
            0 e db)"

section \<open>Overviews\<close>

record contract_filters =
  ctf_academicYearId :: "id option"
  ctf_studentId :: "id option"
  ctf_hasHold :: "bool option"

definition listContracts :: "id \<Rightarrow> contract_filters \<Rightarrow> fee_db \<Rightarrow> StudentFeeContract list" where
  "listContracts tenantId f db = rev (filter (\<lambda>c. fc_tenantId c = tenantId
     \<and> (if truthy (ctf_academicYearId f) then Some (fc_academicYearId c) = ctf_academicYearId f else True)
     \<and> (if truthy (ctf_studentId f) then Some (fc_studentId c) = ctf_studentId f else True)
     \<and> (case ctf_hasHold f of None \<Rightarrow> True | Some b \<Rightarrow> fc_hasFinancialHold c = b)) (contracts db))"

record contract_summary =
  cs_contract :: StudentFeeContract
  cs_installments :: "FeeInstallment list"
  cs_totalPaid :: rat
  cs_isFullyPaid :: bool

definition getContractDetails :: "id \<Rightarrow> id \<Rightarrow> fee_db \<Rightarrow> http_error + contract_summary" where
  "getContractDetails tenantId contractId db =
     (case find (\<lambda>c. fc_id c = contractId \<and> fc_tenantId c = tenantId) (contracts db) of
        None \<Rightarrow> Inl (NotFound ''contract'')
      | Some c \<Rightarrow> Inr \<lparr>cs_contract = c,
          cs_installments = sort_key fi_installmentNumber (filter (\<lambda>i. fi_contractId i = contractId) (installments db)),
          cs_totalPaid = fc_finalPayableAmount c - fc_balanceRemaining c,
          cs_isFullyPaid = (fc_balanceRemaining c = 0)\<rparr>)"

definition getParentChildren :: "id \<Rightarrow> id \<Rightarrow> school \<Rightarrow> http_error + id list" where
  "getParentChildren tenantId parentUserId s =
     (case find (\<lambda>p. pp_userId p = parentUserId \<and> pp_tenantId p = tenantId) (parentProfiles s) of
        None \<Rightarrow> Inl (NotFound ''parent profile'') | Some p \<Rightarrow> Inr (pp_children p))"

text \<open>The child asked for when it is one of the parent's, the first child otherwise.\<close>

definition getParentFeeOverview ::
  "id \<Rightarrow> id \<Rightarrow> id option \<Rightarrow> school \<Rightarrow> fee_db \<Rightarrow> http_error + id \<times> StudentFeeContract list" where
  "getParentFeeOverview tenantId parentUserId targetStudentId s db =
     bindE (getParentChildren tenantId parentUserId s) (\<lambda>children.
       case children of
         [] \<Rightarrow> Inl (NotFound ''no child linked to this account'')
       | child # rest \<Rightarrow>
           let selected = (if truthy targetStudentId
                 then (case find (\<lambda>c. Some c = targetStudentId) children of Some c \<Rightarrow> c | None \<Rightarrow> child)
                 else child)
           in Inr (selected, rev (filter (\<lambda>c. fc_tenantId c = tenantId \<and> fc_studentId c = selected) (contracts db))))"

definition getStudentContractsOverview :: "id \<Rightarrow> id \<Rightarrow> school \<Rightarrow> fee_db \<Rightarrow> StudentFeeContract list" where
  "getStudentContractsOverview tenantId userId s db =
     (case find (\<lambda>p. sp_userId p = userId) (studentProfiles s) of
        None \<Rightarrow> []
      | Some p \<Rightarrow> rev (filter (\<lambda>c. fc_tenantId c = tenantId \<and> fc_studentId c = sp_id p) (contracts db)))"

section \<open>The ledger under new contracts\<close>

lemma create_contract_tables:
  assumes "create_contract c db = Inr db'"
  shows "installments db' = installments db" "payments db' = payments db" "transactions db' = transactions db"
    "receipts db' = receipts db" "fc_id c \<notin> set (map fc_id (contracts db))"
    "contracts db' = contracts db @
        [c\<lparr>fc_totalAmount := dec2 (fc_totalAmount c), fc_discountAmount := dec2 (fc_discountAmount c),
           fc_finalPayableAmount := dec2 (fc_finalPayableAmount c),
           fc_balanceRemaining := dec2 (fc_balanceRemaining c)\<rparr>]"
    "(fc_tenantId c, fc_contractNumber c) \<notin> set (map (\<lambda>d. (fc_tenantId d, fc_contractNumber d)) (contracts db))"
    "\<not> contracted (fc_tenantId c) (fc_academicYearId c) db (fc_studentId c)"
  using assms by (auto simp: create_contract_def contracted_def split: if_splits)

lemma create_installment_tables:
  assumes "create_installment i db = Inr db'"
  shows "contracts db' = contracts db" "payments db' = payments db" "transactions db' = transactions db"
    "receipts db' = receipts db" "fi_id i \<notin> set (map fi_id (installments db))"
    "installments db' = installments db @ [i\<lparr>fi_amount := dec2 (fi_amount i)\<rparr>]"
  using assms by (auto simp: create_installment_def split: if_splits)

text \<open>Every receipt is for a contract of the table.\<close>

definition receipts_fk :: "fee_db \<Rightarrow> bool" where
  "receipts_fk db \<longleftrightarrow> set (map fr_contractId (receipts db)) \<subseteq> set (map fc_id (contracts db))"

definition office_inv :: "fee_db \<Rightarrow> bool" where
  "office_inv db \<longleftrightarrow> finance_inv db \<and> receipts_fk db"

lemma received_none: "receipts_fk db \<Longrightarrow> i \<notin> set (map fc_id (contracts db)) \<Longrightarrow> received i db = 0"
proof -
  assume "receipts_fk db" and "i \<notin> set (map fc_id (contracts db))"
  then have "filter (\<lambda>r. fr_contractId r = i) (receipts db) = []"
    by (auto simp: receipts_fk_def filter_empty_conv)
  then show ?thesis by (simp add: received_def)
qed

lemma hold_ok_append: "hold_ok X cs p \<Longrightarrow> hold_ok X (cs @ ds) p"
  by (auto simp: hold_ok_def)

lemma create_contract_inv:
  assumes "office_inv db" and "create_contract c db = Inr db'" and "0 \<le> fc_finalPayableAmount c"
    and "fc_balanceRemaining c = fc_finalPayableAmount c" and "fc_status c = FC_ACTIVE"
  shows "office_inv db'"
proof -
  note t = create_contract_tables [OF assms(2)]
  have inv: "ledger_inv db" "insts_ok db" "trans_ok db" "receipts_once db" "receipts_fk db"
    using assms(1) by (simp_all add: office_inv_def finance_inv_def)
  then have led: "keys_ok db" "contracts_ok db" "payments_ok db" "holds_ok {} db" "books (\<lambda>_. 0) db"
    by (simp_all add: ledger_inv_def ledger_but_def)
  have "holds_ok {} db'"
    using led(4) hold_ok_append by (simp add: holds_ok_def list_all_iff t(2,6))
  moreover have "books (\<lambda>_. 0) db'"
    using led(5) assms(4) received_none [OF inv(5) t(5)] received_eq [OF t(4)]
    by (auto simp: books_def t(6))
  moreover have "keys_ok db'" "contracts_ok db'" "payments_ok db'"
    using led(1-3) assms(3-5) t by (auto simp: keys_ok_def contracts_ok_def payments_ok_def contract_ok_def dec2_nonneg)
  ultimately show ?thesis
    using inv t(1,3,4,6)
    by (auto simp: office_inv_def finance_inv_def ledger_inv_def ledger_but_def insts_ok_def trans_ok_def
        receipts_once_def receipts_fk_def)
qed

lemma create_installment_inv:
  assumes "office_inv db" and "create_installment i db = Inr db'" and "0 \<le> fi_amount i" and "fi_paidAmount i = 0"
  shows "office_inv db'"
proof -
  note t = create_installment_tables [OF assms(2)]
  have "office_inv db \<Longrightarrow> keys_ok db'"
    using t by (auto simp: office_inv_def finance_inv_def ledger_inv_def ledger_but_def keys_ok_def)
  then show ?thesis
    using assms(1,3,4) t books_eq [OF t(1,4)] holds_eq [OF t(1,2)]
    by (auto simp: office_inv_def finance_inv_def ledger_inv_def ledger_but_def insts_ok_def trans_ok_def
        receipts_once_def receipts_fk_def contracts_ok_def payments_ok_def installment_ok_def dec2_nonneg)
qed

lemma create_with_installments_inv:
  assumes "office_inv db" and "create_with_installments c items k e db = Inr db'"
    and "0 \<le> fc_finalPayableAmount c" and "fc_balanceRemaining c = fc_finalPayableAmount c"
    and "fc_status c = FC_ACTIVE" and "\<forall>(_, _, _, a) \<in> set items. 0 \<le> a"
  shows "office_inv db'"
proof -
  from assms(2) obtain db1 where c: "create_contract c db = Inr db1"
    and r: "foldE (\<lambda>(j, item). create_installment (new_installment (uuid e (k + 1 + j)) (fc_tenantId c) (fc_id c) item))
          (zip [0..<length items] items) db1 = Inr db'"
    by (auto simp: create_with_installments_def bindE_Inr)
  have inv1: "office_inv db1" using create_contract_inv [OF assms(1) c assms(3-5)] .
  show ?thesis
  proof (rule foldE_invariant [where I = office_inv, OF _ inv1 r])
    fix x s s'
    assume mem: "x \<in> set (zip [0..<length items] items)" and s: "office_inv s" "(case x of (j, item) \<Rightarrow>
      create_installment (new_installment (uuid e (k + 1 + j)) (fc_tenantId c) (fc_id c) item)) s = Inr s'"
    obtain j n t d a where x: "x = (j, n, t, d, a)" by (cases x) auto
    have "(n, t, d, a) \<in> set items" using set_zip_rightD [OF mem [unfolded x]] .
    then have "0 \<le> a" using assms(6) by auto
    with s show "office_inv s'"
      by (auto simp: x new_installment_def intro: create_installment_inv)
  qed
qed

text \<open>What the transaction appends.\<close>

definition stored_installment :: "FeeInstallment \<Rightarrow> FeeInstallment" where
  "stored_installment i = i\<lparr>fi_amount := dec2 (fi_amount i)\<rparr>"

lemma foldE_create_installment:
  assumes "foldE (\<lambda>(j, item). create_installment (f j item)) (zip [m..<m + length items] items) db = Inr db'"
  shows "contracts db' = contracts db \<and> receipts db' = receipts db
    \<and> installments db' = installments db @ map2 (\<lambda>j item. stored_installment (f j item)) [m..<m + length items] items"
  using assms
proof (induction items arbitrary: m db)
  case Nil
  then show ?case by simp
next
  case (Cons x items)
  have z: "zip [m..<m + length (x # items)] (x # items) = (m, x) # zip [Suc m..<Suc m + length items] items"
    by (simp add: upt_rec)
  from Cons.prems obtain s where s: "create_installment (f m x) db = Inr s"
    and r: "foldE (\<lambda>(j, item). create_installment (f j item)) (zip [Suc m..<Suc m + length items] items) s = Inr db'"
    unfolding z by (auto simp: bindE_Inr)
  note t = create_installment_tables [OF s]
  show ?case
    using t(1,4,6) Cons.IH [OF r] unfolding z by (simp add: stored_installment_def)
qed

lemma create_with_installments_appends:
  assumes "create_with_installments c items k e db = Inr db'"
  shows "contracts db' = contracts db @
        [c\<lparr>fc_totalAmount := dec2 (fc_totalAmount c), fc_discountAmount := dec2 (fc_discountAmount c),
           fc_finalPayableAmount := dec2 (fc_finalPayableAmount c),
           fc_balanceRemaining := dec2 (fc_balanceRemaining c)\<rparr>]
    \<and> receipts db' = receipts db
    \<and> (\<exists>new. installments db' = installments db @ new
          \<and> map (\<lambda>i. (fi_installmentNumber i, fi_title i, fi_dueDate i, fi_amount i)) new
              = map (\<lambda>(n, t, d, a). (n, t, d, dec2 a)) items
          \<and> map fi_amount new = map (\<lambda>(_, _, _, a). dec2 a) items
          \<and> (\<forall>i \<in> set new. fi_contractId i = fc_id c \<and> fi_tenantId i = fc_tenantId c
               \<and> fi_paidAmount i = 0 \<and> fi_status i = UNPAID))"
proof -
  from assms obtain db1 where c: "create_contract c db = Inr db1"
    and r: "foldE (\<lambda>(j, item). create_installment (new_installment (uuid e (k + 1 + j)) (fc_tenantId c) (fc_id c) item))
          (zip [0..<0 + length items] items) db1 = Inr db'"
    by (auto simp: create_with_installments_def bindE_Inr)
  define new where "new = map2 (\<lambda>j item. stored_installment
    (new_installment (uuid e (k + 1 + j)) (fc_tenantId c) (fc_id c) item)) [0..<0 + length items] items"
  have rest: "contracts db' = contracts db1" "receipts db' = receipts db1" "installments db' = installments db1 @ new"
    using foldE_create_installment [OF r] by (simp_all add: new_def)
  have rows: "map (\<lambda>i. (fi_installmentNumber i, fi_title i, fi_dueDate i, fi_amount i)) new
      = map (\<lambda>(n, t, d, a). (n, t, d, dec2 a)) items"
    unfolding new_def
    by (rule nth_equalityI) (auto simp: new_installment_def stored_installment_def split: prod.split)
  have amounts: "map fi_amount new = map (\<lambda>(_, _, _, a). dec2 a) items"
    unfolding new_def
    by (rule nth_equalityI) (auto simp: new_installment_def stored_installment_def split: prod.split)
  have fresh: "\<forall>i \<in> set new. fi_contractId i = fc_id c \<and> fi_tenantId i = fc_tenantId c
      \<and> fi_paidAmount i = 0 \<and> fi_status i = UNPAID"
    unfolding new_def by (auto simp: new_installment_def stored_installment_def)
  show ?thesis using rest create_contract_tables [OF c] rows amounts fresh by auto
qed

section \<open>Allocation\<close>

definition plan_ok :: "FeePlan \<Rightarrow> bool" where
  "plan_ok plan \<longleftrightarrow> 0 \<le> pl_amount plan \<and> list_all (\<lambda>i. 0 \<le> pi_percentOrAmount i) (pl_installmentConfig plan)"

definition school_ok :: "school \<Rightarrow> bool" where
  "school_ok s \<longleftrightarrow> list_all plan_ok (feePlans s)"

lemma plan_items_nonneg: "plan_ok plan \<Longrightarrow> \<forall>(_, _, _, a) \<in> set (plan_items plan t). 0 \<le> a"
  by (auto simp: plan_items_def plan_ok_def list_all_iff Let_def item_share_nonneg)

lemma getFeePlan_mem: "getFeePlan t i s = Inr plan \<Longrightarrow> plan \<in> set (feePlans s) \<and> pl_tenantId plan = t \<and> pl_id plan = i"
  using find_Some_iff_mem [of _ "feePlans s"] by (auto simp: getFeePlan_def split: option.splits)

lemma allocate_inv:
  assumes "office_inv db" and "plan_ok plan" and "allocate t plan y draw e x db = Inr db'"
  shows "office_inv db'"
proof -
  obtain k st where x: "x = (k, st)" by (cases x)
  let ?b = "k * (length (plan_items plan (now e)) + 1)"
  have "create_with_installments (plan_contract t plan y (uuid e ?b) (draw k) st) (plan_items plan (now e)) ?b e db = Inr db'"
    using assms(3) by (simp add: allocate_def x Let_def)
  then show ?thesis
    by (rule create_with_installments_inv [OF assms(1)])
      (use assms(2) plan_items_nonneg in \<open>auto simp: plan_contract_def plan_ok_def\<close>)
qed

definition plan_amounts :: "FeePlan \<Rightarrow> time \<Rightarrow> rat list" where
  "plan_amounts plan t = map (\<lambda>(_, _, _, a). dec2 a) (plan_items plan t)"

definition plan_row :: "id \<Rightarrow> FeePlan \<Rightarrow> StudentFeeContract \<Rightarrow> bool" where
  "plan_row t plan c \<longleftrightarrow> fc_tenantId c = t \<and> fc_academicYearId c = pl_academicYearId plan
     \<and> fc_finalPayableAmount c = dec2 (pl_amount plan) \<and> fc_balanceRemaining c = dec2 (pl_amount plan)
     \<and> fc_status c = FC_ACTIVE \<and> fc_feePlanId c = Some (pl_id plan) \<and> \<not> fc_hasFinancialHold c"

definition installments_of :: "FeeInstallment list \<Rightarrow> id \<Rightarrow> rat list" where
  "installments_of is i = map fi_amount (filter (\<lambda>j. fi_contractId j = i) is)"

lemma allocate_fold:
  assumes "foldE (allocate t plan y draw e) (zip [m..<m + length sts] sts) db = Inr db'"
  shows "receipts db' = receipts db
    \<and> (\<exists>new newi. contracts db' = contracts db @ new \<and> map fc_studentId new = sts \<and> list_all (plan_row t plan) new
       \<and> installments db' = installments db @ newi
       \<and> (\<forall>c \<in> set new. fc_id c \<notin> set (map fc_id (contracts db)) \<and> installments_of newi (fc_id c) = plan_amounts plan (now e))
       \<and> (\<forall>i \<in> set newi. fi_contractId i \<in> set (map fc_id new)))"
  using assms
proof (induction sts arbitrary: m db)
  case Nil
  then show ?case by simp
next
  case (Cons st sts)
  have z: "zip [m..<m + length (st # sts)] (st # sts) = (m, st) # zip [Suc m..<Suc m + length sts] sts"
    by (simp add: upt_rec)
  from Cons.prems obtain s where s: "allocate t plan y draw e (m, st) db = Inr s"
    and r: "foldE (allocate t plan y draw e) (zip [Suc m..<Suc m + length sts] sts) s = Inr db'"
    unfolding z by (auto simp: bindE_Inr)
  let ?items = "plan_items plan (now e)"
  let ?b = "m * (length ?items + 1)"
  let ?c = "plan_contract t plan y (uuid e ?b) (draw m) st"
  have cw: "create_with_installments ?c ?items ?b e db = Inr s" using s by (simp add: allocate_def Let_def)
  define c where "c = ?c\<lparr>fc_totalAmount := dec2 (fc_totalAmount ?c), fc_discountAmount := dec2 (fc_discountAmount ?c),
           fc_finalPayableAmount := dec2 (fc_finalPayableAmount ?c), fc_balanceRemaining := dec2 (fc_balanceRemaining ?c)\<rparr>"
  obtain ni where first: "contracts s = contracts db @ [c]" "receipts s = receipts db" "installments s = installments db @ ni"
    "map fi_amount ni = plan_amounts plan (now e)" "\<forall>i \<in> set ni. fi_contractId i = fc_id c"
    using create_with_installments_appends [OF cw] by (auto simp: c_def plan_amounts_def)
  have fresh: "fc_id c \<notin> set (map fc_id (contracts db))"
    using cw create_contract_tables(5) by (fastforce simp: create_with_installments_def bindE_Inr c_def)
  have row: "plan_row t plan c" "fc_studentId c = st" by (simp_all add: c_def plan_row_def plan_contract_def)
  from Cons.IH [OF r] obtain new newi where rest: "receipts db' = receipts s" "contracts db' = contracts s @ new"
    "map fc_studentId new = sts" "list_all (plan_row t plan) new" "installments db' = installments s @ newi"
    "\<forall>c \<in> set new. fc_id c \<notin> set (map fc_id (contracts s)) \<and> installments_of newi (fc_id c) = plan_amounts plan (now e)"
    "\<forall>i \<in> set newi. fi_contractId i \<in> set (map fc_id new)" by blast
  have none: "installments_of newi (fc_id c) = []"
    using rest(6,7) first(1) by (fastforce simp: installments_of_def filter_empty_conv)
  have own: "installments_of (ni @ newi) (fc_id c) = plan_amounts plan (now e)"
  proof -
    have "filter (\<lambda>j. fi_contractId j = fc_id c) ni = ni" using first(5) by (simp add: filter_id_conv)
    then show ?thesis using none first(4) by (simp add: installments_of_def)
  qed
  have others: "installments_of (ni @ newi) (fc_id d) = plan_amounts plan (now e)" if "d \<in> set new" for d
  proof -
    have "fc_id d \<noteq> fc_id c" using rest(6) that first(1) by auto
    then have "filter (\<lambda>j. fi_contractId j = fc_id d) ni = []" using first(5) by (auto simp: filter_empty_conv)
    then show ?thesis using rest(6) that by (simp add: installments_of_def)
  qed
  show ?case
    using rest first row fresh own others
    by (intro conjI exI [of _ "c # new"] exI [of _ "ni @ newi"]) auto
qed

section \<open>The finance office\<close>

text \<open>The desk together with the requests of the fee service, over a fixed school.\<close>

datatype office_request =
    Desk finance_request
  | NewContract id CreateFeeContractDto env
  | ApplyPlan id id "nat \<Rightarrow> nat" env

fun office_serve :: "gateway \<Rightarrow> school \<Rightarrow> office_request \<Rightarrow> fee_db \<Rightarrow> http_error + fee_db" where
  "office_serve gw s (Desk r) db = finance_serve gw r db"
| "office_serve gw s (NewContract t dto e) db = createContract t dto e s db"
| "office_serve gw s (ApplyPlan t i draw e) db = bindE (applyFeePlan t i draw e s db) (\<lambda>(db', _). Inr db')"

fun office_valid :: "school \<Rightarrow> office_request \<Rightarrow> bool" where
  "office_valid s (Desk r) = finance_request_valid r"
| "office_valid s (NewContract t dto e) = list_all (\<lambda>i. 0 \<le> cii_amount i) (cfc_installments dto)"
| "office_valid s (ApplyPlan t i draw e) = school_ok s"

lemma applyFeePlan_Inr:
  assumes "applyFeePlan t i draw e s db = Inr (db', n)"
  obtains plan p where "getFeePlan t i s = Inr plan" and "previewFeePlanAllocation t i s db = Inr p"
    and "readyStudents p \<noteq> []" and "n = length (readyStudents p)"
    and "foldE (allocate t plan (year_name plan s) draw e) (zip [0..<0 + length (readyStudents p)] (readyStudents p)) db = Inr db'"
  using assms by (auto simp: applyFeePlan_def bindE_Inr split: if_splits)

lemma createContract_Inr:
  assumes "createContract t dto e s db = Inr db'"
  shows "0 \<le> contract_payable dto" "\<bar>sum_list (map cii_amount (cfc_installments dto)) - contract_payable dto\<bar> \<le> 1"
    "create_with_installments (contract_row t dto e)
      (map (\<lambda>i. (cii_installmentNumber i, cii_title i, cii_dueDate i, cii_amount i)) (cfc_installments dto)) 0 e db = Inr db'"
  using assms by (auto simp: createContract_def split: option.splits if_splits)

text \<open>Requests of the desk keep the contracts' identifiers, so every receipt still has its contract.\<close>

definition contract_ids :: "fee_db \<Rightarrow> id list" where
  "contract_ids db = map fc_id (contracts db)"

lemma receipts_fk_iff: "receipts_fk db \<longleftrightarrow> (\<forall>r \<in> set (receipts db). fr_contractId r \<in> set (contract_ids db))"
  by (auto simp: receipts_fk_def contract_ids_def)

lemma contract_ids_update: "(\<And>c. fc_id (f c) = fc_id c) \<Longrightarrow> contract_ids (update_contract i f db) = contract_ids db"
  by (simp add: contract_ids_def update_contract_def update_row_def)

lemma contract_ids_settle_by_id [simp]: "contract_ids (settle_by_id cid a db) = contract_ids db"
  unfolding contract_ids_def by (rule settle_by_id_tables)

lemma contract_ids_steps [simp]:
  "contract_ids (settle_contract c b db) = contract_ids db"
  "contract_ids (credit_found e i a db) = contract_ids db"
  "contract_ids (update_installment k g db) = contract_ids db"
  "contract_ids (update_transaction k h db) = contract_ids db"
  "contract_ids (mark_cheque u p dto j e db) = contract_ids db"
  "contract_ids (release_hold t p c db) = contract_ids db"
  by (simp_all add: settle_contract_def release_hold_def contract_ids_update)
    (simp_all add: contract_ids_def mark_cheque_def)

lemma contract_ids_bounced [simp]: "contract_ids (cheque_bounced t p c db) = contract_ids db"
  by (simp add: contract_ids_def cheque_bounced_def update_contract_def update_row_def)

lemma hold_receipts [simp]:
  "receipts (release_hold t p c db) = receipts db"
  "receipts (cheque_bounced t p c db) = receipts db"
  by (simp_all add: release_hold_def cheque_bounced_def)

lemma create_fk:
  "create_receipt r db = Inr db' \<Longrightarrow> contract_ids db' = contract_ids db \<and> fr_contractId r \<in> set (contract_ids db)
     \<and> receipts db' = receipts db @ [r\<lparr>fr_amount := dec2 (fr_amount r)\<rparr>]"
  using create_receipt_tables(1,7,11) [of r db db'] by (simp add: contract_ids_def)

lemma create_payment_fk: "create_payment p db = Inr db' \<Longrightarrow> contract_ids db' = contract_ids db \<and> receipts db' = receipts db"
  using create_payment_tables(1,4) [of p db db'] by (simp add: contract_ids_def)

lemma create_transaction_fk:
  "create_transaction p db = Inr db' \<Longrightarrow> contract_ids db' = contract_ids db \<and> receipts db' = receipts db"
  using create_transaction_tables(1,4) [of p db db'] by (simp add: contract_ids_def)

lemma cheque_cashed_fk:
  assumes "cheque_cashed t u p c e db = Inr db'" and "receipts_fk db"
  shows "receipts_fk db'"
  using create_fk [OF assms(1) [unfolded cheque_cashed_def Let_def]] assms(2)
  by (auto simp: receipts_fk_iff contract_ids_update)

lemma cheque_replaced_fk:
  assumes "cheque_replaced t u p c dto e db = Inr (db', i)" and "receipts_fk db"
  shows "receipts_fk db'"
  using assms
  by (auto simp: cheque_replaced_def replace_by_cheque_def replace_by_cash_def Let_def receipts_fk_iff
      split: option.splits elim!: bindE_InrE dest!: create_payment_fk create_fk)

lemma counter_fk:
  assumes "fee_payment_serve r db = Inr db'" and "receipts_fk db"
  shows "receipts_fk db'"
proof (cases r)
  case (CashRequest t u dto e)
  then show ?thesis using assms
    by (auto simp: recordCashPayment_def cash_commit_def Let_def receipts_fk_iff elim!: bindE_InrE
        dest!: create_payment_fk create_fk)
next
  case (ChequeRequest t u dto e)
  then show ?thesis using assms create_payment_fk
    by (auto simp: recordChequePayment_def receipts_fk_iff split: option.splits if_splits)
next
  case (ChequeStatusRequest t i u dto e)
  with assms(1) obtain p c where "cheque_commit t u dto p c e db = Inr db'"
    by (auto simp: bindE_Inr updateChequeStatus_def)
  then show ?thesis
  proof (cases rule: cheque_commit_cases)
    case (cashed db1)
    then show ?thesis using cheque_cashed_fk [OF cashed(3) assms(2)] by (simp add: receipts_fk_iff)
  next
    case (replaced db1 j)
    then show ?thesis using cheque_replaced_fk [OF replaced(2) assms(2)] by (simp add: receipts_fk_iff)
  qed (use assms(2) in \<open>auto simp: receipts_fk_iff\<close>)
qed

lemma desk_fk:
  assumes "finance_serve gw r db = Inr db'" and "receipts_fk db"
  shows "receipts_fk db'"
proof (cases r)
  case (Counter c)
  then show ?thesis using assms counter_fk by simp
next
  case (Initiate t u dto e)
  then show ?thesis using assms
    by (auto simp: bindE_Inr initiateOnlinePayment_def Let_def receipts_fk_iff split: option.splits if_splits
        dest!: create_transaction_fk)
next
  case (Offline t u dto e)
  then show ?thesis using assms
    by (auto simp: recordOfflinePayment_def offline_commit_def Let_def receipts_fk_iff elim!: bindE_InrE
        dest!: create_transaction_fk create_fk)
qed

lemma office_serve_inv:
  assumes "office_valid s r" and "office_inv db" and "office_serve gw s r db = Inr db'"
  shows "office_inv db'"
proof (cases r)
  case (Desk q)
  then show ?thesis using assms finance_serve_inv desk_fk by (auto simp: office_inv_def)
next
  case (NewContract t dto e)
  then have c: "createContract t dto e s db = Inr db'" using assms(3) by simp
  show ?thesis
    by (rule create_with_installments_inv [OF assms(2) createContract_Inr(3) [OF c]])
      (use createContract_Inr(1) [OF c] assms(1) NewContract in \<open>auto simp: contract_row_def list_all_iff\<close>)
next
  case (ApplyPlan t i draw e)
  then obtain n where a: "applyFeePlan t i draw e s db = Inr (db', n)" using assms(3) by (auto simp: bindE_Inr)
  from a obtain plan p where plan: "getFeePlan t i s = Inr plan"
    and "previewFeePlanAllocation t i s db = Inr p" "readyStudents p \<noteq> []" "n = length (readyStudents p)"
    and f: "foldE (allocate t plan (year_name plan s) draw e) (zip [0..<0 + length (readyStudents p)] (readyStudents p)) db = Inr db'"
    by (rule applyFeePlan_Inr)
  have "plan_ok plan" using getFeePlan_mem [OF plan] assms(1) ApplyPlan by (auto simp: school_ok_def list_all_iff)
  then show ?thesis
    using foldE_invariant [where I = office_inv, OF _ assms(2) f] allocate_inv by blast
qed

lemma office_serve_grows:
  assumes "office_serve gw s r db = Inr db'"
  shows "(\<exists>new. receipts db' = receipts db @ new) \<and> (\<exists>new. debts db' = debts db @ new)"
proof (cases r)
  case (Desk q)
  then show ?thesis using assms finance_serve_grows by simp
next
  case (NewContract t dto e)
  then have c: "createContract t dto e s db = Inr db'" using assms by simp
  then show ?thesis using create_with_installments_appends [OF createContract_Inr(3) [OF c]] by (auto simp: debts_def)
next
  case (ApplyPlan t i draw e)
  then obtain n where a: "applyFeePlan t i draw e s db = Inr (db', n)" using assms by (auto simp: bindE_Inr)
  from a obtain plan p where "getFeePlan t i s = Inr plan" "previewFeePlanAllocation t i s db = Inr p"
    "readyStudents p \<noteq> []" "n = length (readyStudents p)"
    and f: "foldE (allocate t plan (year_name plan s) draw e) (zip [0..<0 + length (readyStudents p)] (readyStudents p)) db = Inr db'"
    by (rule applyFeePlan_Inr)
  from allocate_fold [OF f] show ?thesis by (auto simp: debts_def)
qed

interpretation finance_office: ledger_service office_inv "office_serve gw s" "office_valid s" for gw s
proof unfold_locales
  fix db db' and r :: office_request
  show "office_inv db \<Longrightarrow> ledger_inv db" by (simp add: office_inv_def finance_inv_def)
  show "office_valid s r \<Longrightarrow> office_inv db \<Longrightarrow> office_serve gw s r db = Inr db' \<Longrightarrow> office_inv db'"
    by (rule office_serve_inv)
  assume "office_serve gw s r db = Inr db'"
  from office_serve_grows [OF this]
  show "\<exists>new. receipts db' = receipts db @ new" "\<exists>new. debts db' = debts db @ new" by simp_all
qed

end
