(* ===== verification/Fee_Import.thy ===== *)
theory Fee_Import
  imports Fee_Plan
begin

text \<open>
  \<open>FeeImportService\<close> (\<open>modules/finance/fee-import.service.ts\<close>): contracts and payments from a spreadsheet, each
  in two requests, a preview that validates the rows and a confirmation that writes the rows the client
  sends back.

  The spreadsheet library delivers rows of cells: a cell is blank, a text or a whole number.  The Persian
  words for cash and cheque stand as \<open>naghd\<close> and \<open>chek\<close>.  The generated templates are not modelled, nor is
  the text \<open>Infinity\<close>, which \<open>parseFloat\<close> accepts.
\<close>

section \<open>Cells\<close>

datatype cell = Blank | TextCell string | NumberCell int

fun cell_at :: "nat \<Rightarrow> cell list \<Rightarrow> cell" where
  "cell_at n [] = Blank"
| "cell_at 0 (c # cs) = c"
| "cell_at (Suc n) (c # cs) = cell_at n cs"

text \<open>\<open>String(c || '').trim()\<close>\<close>

fun cell_text :: "cell \<Rightarrow> string" where
  "cell_text Blank = ''''"
| "cell_text (TextCell s) = trim s"
| "cell_text (NumberCell n) = (if n = 0 then '''' else string_of_int n)"

fun int_of_digits :: "int \<Rightarrow> string \<Rightarrow> int" where
  "int_of_digits acc [] = acc"
| "int_of_digits acc (c # cs) = int_of_digits (10 * acc + ((of_char c :: int) - 48)) cs"

definition split_sign :: "string \<Rightarrow> bool \<times> string" where
  "split_sign s = (case s of
     c # cs \<Rightarrow> if c = CHR ''-'' then (True, cs) else if c = CHR ''+'' then (False, cs) else (False, s)
   | [] \<Rightarrow> (False, []))"

text \<open>The decimal exponent that follows a mantissa, if there is one.\<close>

definition parse_exponent :: "string \<Rightarrow> int" where
  "parse_exponent s = (case s of
     c # cs \<Rightarrow>
       if c = CHR ''e'' \<or> c = CHR ''E'' then
         (let (neg, r) = split_sign cs; ds = takeWhile is_ascii_digit r
          in if neg then - int_of_digits 0 ds else int_of_digits 0 ds)
       else 0
   | [] \<Rightarrow> 0)"

text \<open>\<open>parseFloat\<close>: the longest prefix that is a decimal number; \<open>None\<close> is \<open>NaN\<close>.\<close>

definition parse_float :: "string \<Rightarrow> rat option" where
  "parse_float s0 =
     (let (neg, s) = split_sign (dropWhile is_space s0);
          ip = takeWhile is_ascii_digit s;
          r1 = dropWhile is_ascii_digit s;
          point = (r1 \<noteq> [] \<and> hd r1 = CHR ''.'');
          fp = (if point then takeWhile is_ascii_digit (tl r1) else []);
          r2 = (if point then dropWhile is_ascii_digit (tl r1) else r1);
          e = parse_exponent r2 - int (length fp);
          m = (of_int (int_of_digits 0 (ip @ fp)) :: rat);
          x = (if e < 0 then m / 10 ^ nat (- e) else m * 10 ^ nat e)
      in if ip = [] \<and> fp = [] then None else Some (if neg then - x else x))"

text \<open>\<open>parseFloat(String(c || '0').replace(/,/g, ''))\<close>\<close>

fun cell_amount :: "cell \<Rightarrow> rat option" where
  "cell_amount Blank = Some 0"
| "cell_amount (TextCell s) =
     (if s = [] then Some 0 else parse_float (filter (\<lambda>c. c \<noteq> CHR '','') s))"
| "cell_amount (NumberCell n) = Some (of_int n)"

definition blank_row :: "cell list \<Rightarrow> bool" where
  "blank_row row \<longleftrightarrow> list_all (\<lambda>c. c = Blank \<or> c = TextCell '''') row"

section \<open>Looking up students\<close>

definition bind_key :: "string option \<Rightarrow> 'v \<Rightarrow> (string \<rightharpoonup> 'v) \<Rightarrow> (string \<rightharpoonup> 'v)" where
  "bind_key k v m = (if truthy k then m(trim (str_or k '''') \<mapsto> v) else m)"

text \<open>The preview's map: each student under the national id, the student code and the national code.\<close>

definition add_identifiers :: "StudentProfile \<Rightarrow> 'v \<Rightarrow> (string \<rightharpoonup> 'v) \<Rightarrow> (string \<rightharpoonup> 'v)" where
  "add_identifiers st v m =
     bind_key (sp_nationalCode st) v (bind_key (sp_studentCode st) v (bind_key (sp_userNationalId st) v m))"

definition student_map :: "id \<Rightarrow> school \<Rightarrow> (string \<rightharpoonup> StudentProfile)" where
  "student_map tenantId s =
     foldl (\<lambda>m st. add_identifiers st st m) Map.empty (filter (\<lambda>p. sp_tenantId p = tenantId) (studentProfiles s))"

text \<open>The confirmation's lookup: the first student with the identifier in one of the three columns.\<close>

definition find_student :: "id \<Rightarrow> string \<Rightarrow> school \<Rightarrow> StudentProfile option" where
  "find_student tenantId identifier s =
     find (\<lambda>p. sp_tenantId p = tenantId \<and> (sp_userNationalId p = Some identifier
        \<or> sp_studentCode p = Some identifier \<or> sp_nationalCode p = Some identifier)) (studentProfiles s)"

section \<open>Preview of contracts\<close>

datatype row_problem =
    NoIdentifier | UnknownStudent | HasContract | BadAmount | BadDiscount | DiscountTooLarge
  | UnknownMethod | BadSayad | DuplicateSayad

record allocation_row =
  ar_identifier :: string
  ar_studentId :: id
  ar_amount :: rat
  ar_discount :: rat
  ar_notes :: "string option"

record 'r import_preview =
  ip_total :: nat
  ip_valid :: "(nat \<times> 'r) list"
  ip_errors :: "(nat \<times> string \<times> row_problem) list"

definition check_allocation_row ::
  "id \<Rightarrow> id \<Rightarrow> school \<Rightarrow> fee_db \<Rightarrow> cell list \<Rightarrow> row_problem + allocation_row" where
  "check_allocation_row tenantId yearId s db row =
     (let ident = cell_text (cell_at 0 row);
          amount = cell_amount (cell_at 1 row);
          discount = cell_amount (cell_at 2 row);
          notes = cell_text (cell_at 3 row)
      in if ident = [] then Inl NoIdentifier
         else (case student_map tenantId s ident of None \<Rightarrow> Inl UnknownStudent
         | Some st \<Rightarrow>
             if contracted tenantId yearId db (sp_id st) then Inl HasContract
             else (case amount of None \<Rightarrow> Inl BadAmount | Some a \<Rightarrow>
               if a \<le> 0 then Inl BadAmount
               else (case discount of None \<Rightarrow> Inl BadDiscount | Some d \<Rightarrow>
                 if d < 0 then Inl BadDiscount
                 else if d > a then Inl DiscountTooLarge
                 else Inr \<lparr>ar_identifier = ident, ar_studentId = sp_id st, ar_amount = a, ar_discount = d,
                          ar_notes = (if notes = [] then None else Some notes)\<rparr>))))"

text \<open>The loop over the data rows: row numbers count from 2, blank rows are skipped.\<close>

fun check_rows ::
  "(cell list \<Rightarrow> row_problem + 'r) \<Rightarrow> nat \<Rightarrow> cell list list
     \<Rightarrow> (nat \<times> 'r) list \<times> (nat \<times> string \<times> row_problem) list" where
  "check_rows f i [] = ([], [])"
| "check_rows f i (row # rows) =
     (let (ok, bad) = check_rows f (Suc i) rows
      in if blank_row row then (ok, bad)
         else (case f row of Inl p \<Rightarrow> (ok, (i, cell_text (cell_at 0 row), p) # bad)
               | Inr r \<Rightarrow> ((i, r) # ok, bad)))"

definition preview_rows :: "(cell list \<Rightarrow> row_problem + 'r) \<Rightarrow> cell list list \<Rightarrow> http_error + 'r import_preview" where
  "preview_rows f sheet =
     (case sheet of
        header # r # rows \<Rightarrow>
          (let (ok, bad) = check_rows f 2 (r # rows)
           in Inr \<lparr>ip_total = length (r # rows), ip_valid = ok, ip_errors = bad\<rparr>)
      | _ \<Rightarrow> Inl (BadRequest ''empty sheet''))"

definition previewAllocationExcel ::
  "id \<Rightarrow> id \<Rightarrow> cell list list \<Rightarrow> school \<Rightarrow> fee_db \<Rightarrow> http_error + allocation_row import_preview" where
  "previewAllocationExcel tenantId yearId sheet s db = preview_rows (check_allocation_row tenantId yearId s db) sheet"

section \<open>Confirmation of contracts\<close>

record ImportFeeAllocationRowDto =
  ifa_identifier :: string
  ifa_amount :: rat
  ifa_discountAmount :: "rat option"
  ifa_notes :: "string option"

record ConfirmFeeAllocationImportDto =
  cfa_academicYearId :: id
  cfa_feePlanId :: "id option"
  cfa_rows :: "ImportFeeAllocationRowDto list"

definition last6 :: "string \<Rightarrow> string" where
  "last6 s = drop (length s - 6) s"

definition row_discount :: "ImportFeeAllocationRowDto \<Rightarrow> rat" where
  "row_discount row = (case ifa_discountAmount row of Some d \<Rightarrow> d | None \<Rightarrow> 0)"

definition import_contract ::
  "id \<Rightarrow> ConfirmFeeAllocationImportDto \<Rightarrow> ImportFeeAllocationRowDto \<Rightarrow> id \<Rightarrow> id \<Rightarrow> nat \<Rightarrow> env \<Rightarrow> StudentFeeContract" where
  "import_contract tenantId dto row i studentId draw e =
     \<lparr>fc_id = i, fc_tenantId = tenantId, fc_academicYearId = cfa_academicYearId dto, fc_studentId = studentId,
      fc_contractNumber = ''FEE-IMP-'' @ last6 (string_of_int (now e)) @ ''-'' @ string_of_nat (100 + draw),
      fc_totalAmount = ifa_amount row, fc_discountAmount = row_discount row,
      fc_finalPayableAmount = ifa_amount row - row_discount row,
      fc_balanceRemaining = ifa_amount row - row_discount row, fc_status = FC_ACTIVE,
      fc_discountReason = ifa_notes row, fc_notes = None, fc_feePlanId = cfa_feePlanId dto,
      fc_isIndividual = (\<not> truthy (cfa_feePlanId dto)), fc_hasFinancialHold = False,
      fc_financialHoldReason = None\<rparr>"

definition import_items ::
  "FeePlanInstallmentConfigItem list \<Rightarrow> rat \<Rightarrow> time \<Rightarrow> (nat \<times> string \<times> time \<times> rat) list" where
  "import_items config amount t =
     (if config \<noteq> [] then
        map (\<lambda>item.
          (nat_or (pi_number item) 1,
           str_or (Some (pi_title item)) (''installment '' @ string_of_nat (pi_number item)),
           add_months (pi_dueMonthOffset item) t, amount * item_share config item)) config
      else [(1, ''whole amount'', t + 30 * 86400000, amount)])"

definition plan_config :: "id \<Rightarrow> id option \<Rightarrow> school \<Rightarrow> FeePlanInstallmentConfigItem list" where
  "plan_config tenantId planId s =
     (if truthy planId then
        (case find (\<lambda>p. Some (pl_id p) = planId \<and> pl_tenantId p = tenantId) (feePlans s) of
           None \<Rightarrow> [] | Some p \<Rightarrow> pl_installmentConfig p)
      else [])"

definition import_allocation_row ::
  "id \<Rightarrow> ConfirmFeeAllocationImportDto \<Rightarrow> (nat \<Rightarrow> nat) \<Rightarrow> env \<Rightarrow> school \<Rightarrow> nat \<times> ImportFeeAllocationRowDto
     \<Rightarrow> fee_db \<times> nat \<Rightarrow> http_error + fee_db \<times> nat" where
  "import_allocation_row tenantId dto draw e s = (\<lambda>(k, row) (db, count).
     case find_student tenantId (ifa_identifier row) s of
       None \<Rightarrow> Inr (db, count)
     | Some st \<Rightarrow>
         if contracted tenantId (cfa_academicYearId dto) db (sp_id st) then Inr (db, count)
         else
           (let config = plan_config tenantId (cfa_feePlanId dto) s;
                items = import_items config (ifa_amount row - row_discount row) (now e);
                base = k * (length items + 1)
            in bindE (create_with_installments
                  (import_contract tenantId dto row (uuid e base) (sp_id st) (draw k) e) items base e db)
                 (\<lambda>db'. Inr (db', count + 1))))"

definition confirmAllocationImport ::
  "id \<Rightarrow> ConfirmFeeAllocationImportDto \<Rightarrow> (nat \<Rightarrow> nat) \<Rightarrow> env \<Rightarrow> school \<Rightarrow> fee_db \<Rightarrow> http_error + fee_db \<times> nat" where
  "confirmAllocationImport tenantId dto draw e s db =
     (if cfa_rows dto = [] then Inl (BadRequest ''no rows'')
      else foldE (import_allocation_row tenantId dto draw e s) (zip [0..<length (cfa_rows dto)] (cfa_rows dto)) (db, 0))"

section \<open>Preview of payments\<close>

record payment_row =
  pr_identifier :: string
  pr_contractId :: id
  pr_isCheque :: bool
  pr_amount :: rat
  pr_checkNumber :: "string option"
  pr_sayad :: "string option"

definition opt_text :: "string \<Rightarrow> string option" where
  "opt_text s = (if s = [] then None else Some s)"

text \<open>The active contracts of the tenant under the identifiers of their students.\<close>

definition contract_map :: "id \<Rightarrow> school \<Rightarrow> fee_db \<Rightarrow> (string \<rightharpoonup> StudentFeeContract)" where
  "contract_map tenantId s db =
     foldl (\<lambda>m c. case find (\<lambda>p. sp_id p = fc_studentId c) (studentProfiles s) of
              None \<Rightarrow> m | Some st \<Rightarrow> add_identifiers st c m) Map.empty
       (filter (\<lambda>c. fc_tenantId c = tenantId \<and> fc_status c = FC_ACTIVE) (contracts db))"

definition sayad_known :: "id \<Rightarrow> fee_db \<Rightarrow> string \<Rightarrow> bool" where
  "sayad_known tenantId db sayad \<longleftrightarrow> Some sayad \<in> set (map fp_checkSayadId
     (filter (\<lambda>p. fp_tenantId p = tenantId \<and> fp_method p = CHEQUE) (payments db)))"

definition check_payment_row :: "id \<Rightarrow> school \<Rightarrow> fee_db \<Rightarrow> cell list \<Rightarrow> row_problem + payment_row" where
  "check_payment_row tenantId s db row =
     (let ident = cell_text (cell_at 0 row);
          meth = map to_lower (cell_text (cell_at 1 row));
          amount = cell_amount (cell_at 2 row);
          sayad = filter is_ascii_digit (cell_text (cell_at 5 row));
          isCheque = (str_contains ''chek'' meth \<or> meth = ''cheque'' \<or> meth = ''check'');
          isCash = (str_contains ''naghd'' meth \<or> meth = ''cash'')
      in if ident = [] then Inl NoIdentifier
         else (case contract_map tenantId s db ident of None \<Rightarrow> Inl UnknownStudent
         | Some c \<Rightarrow> (case amount of None \<Rightarrow> Inl BadAmount | Some a \<Rightarrow>
             if a \<le> 0 then Inl BadAmount
             else if \<not> isCheque \<and> \<not> isCash then Inl UnknownMethod
             else if isCheque \<and> length sayad \<noteq> 16 then Inl BadSayad
             else if isCheque \<and> sayad_known tenantId db sayad then Inl DuplicateSayad
             else Inr \<lparr>pr_identifier = ident, pr_contractId = fc_id c, pr_isCheque = isCheque, pr_amount = a,
                      pr_checkNumber = opt_text (cell_text (cell_at 4 row)), pr_sayad = opt_text sayad\<rparr>)))"

definition previewPaymentExcel ::
  "id \<Rightarrow> cell list list \<Rightarrow> school \<Rightarrow> fee_db \<Rightarrow> http_error + payment_row import_preview" where
  "previewPaymentExcel tenantId sheet s db = preview_rows (check_payment_row tenantId s db) sheet"

section \<open>Confirmation of payments\<close>

record ImportFeePaymentRowDto =
  ifp_identifier :: string
  ifp_method :: string
  ifp_amount :: rat
  ifp_checkNumber :: "string option"
  ifp_checkSayadId :: "string option"
  ifp_bankName :: "string option"
  ifp_notes :: "string option"

definition import_cheque :: "id \<Rightarrow> id \<Rightarrow> id \<Rightarrow> id \<Rightarrow> ImportFeePaymentRowDto \<Rightarrow> env \<Rightarrow> FeePayment" where
  "import_cheque i tenantId recordedById contractId row e =
     \<lparr>fp_id = i, fp_tenantId = tenantId, fp_feeContractId = contractId, fp_installmentId = None,
      fp_method = CHEQUE, fp_amount = ifp_amount row, fp_recordedById = recordedById, fp_note = ifp_notes row,
      fp_cashReceivedAt = None,
      fp_checkNumber = Some (str_or (ifp_checkNumber row) ''imported cheque''),
      fp_checkSayadId = ifp_checkSayadId row,
      fp_bankName = Some (str_or (ifp_bankName row) ''unknown bank''), fp_branchName = None,
      fp_checkOwnerName = None, fp_checkDueDate = Some (now e + 60 * 86400000),
      fp_checkStatus = Some CK_PENDING, fp_checkStatusChangedAt = None, fp_checkStatusChangedById = None,
      fp_replacedByPaymentId = None\<rparr>"

definition import_cash ::
  "id \<Rightarrow> id \<Rightarrow> StudentFeeContract \<Rightarrow> ImportFeePaymentRowDto \<Rightarrow> nat \<Rightarrow> nat \<Rightarrow> env \<Rightarrow> fee_db \<Rightarrow> http_error + fee_db" where
  "import_cash tenantId recordedById contract row k draw e db =
     (let payment = cash_payment_row (uuid e (2 * k)) tenantId recordedById (fc_id contract) None
            (ifp_amount row) None (ifp_notes row) e
      in bindE (create_payment payment db) (\<lambda>db1.
      let finalBal = clamp0 (fc_balanceRemaining contract - ifp_amount row);
          db2 = settle_contract contract finalBal db1;
          receipt = \<lparr>fr_id = uuid e (2 * k + 1), fr_tenantId = tenantId, fr_transactionId = None,
            fr_paymentId = Some (fp_id payment), fr_contractId = fc_id contract,
            fr_receiptNumber = ''REC-CSH-IMP-'' @ last6 (string_of_int (now e)) @ ''-'' @ string_of_nat (100 + draw),
            fr_amount = ifp_amount row, fr_payerName = payer_name ''guardian'' db contract,
            fr_paymentMethod = CASH, fr_issuedById = Some recordedById\<rparr>
      in create_receipt receipt db2))"

definition is_cash_row :: "ImportFeePaymentRowDto \<Rightarrow> bool" where
  "is_cash_row row \<longleftrightarrow> ifp_method row = ''CASH'' \<or> ifp_method row = ''naghdi''"

definition import_payment_row ::
  "id \<Rightarrow> id \<Rightarrow> (nat \<Rightarrow> nat) \<Rightarrow> env \<Rightarrow> school \<Rightarrow> nat \<times> ImportFeePaymentRowDto \<Rightarrow> fee_db \<times> nat
     \<Rightarrow> http_error + fee_db \<times> nat" where
  "import_payment_row tenantId recordedById draw e s = (\<lambda>(k, row) (db, count).
     case find_student tenantId (ifp_identifier row) s of
       None \<Rightarrow> Inr (db, count)
     | Some st \<Rightarrow>
         (case find (\<lambda>c. fc_tenantId c = tenantId \<and> fc_studentId c = sp_id st \<and> fc_status c = FC_ACTIVE) (contracts db) of
            None \<Rightarrow> Inr (db, count)
          | Some contract \<Rightarrow>
              bindE (if is_cash_row row then import_cash tenantId recordedById contract row k (draw k) e db
                     else create_payment (import_cheque (uuid e (2 * k)) tenantId recordedById (fc_id contract) row e) db)
                (\<lambda>db'. Inr (db', count + 1))))"

definition confirmPaymentImport ::
  "id \<Rightarrow> id \<Rightarrow> ImportFeePaymentRowDto list \<Rightarrow> (nat \<Rightarrow> nat) \<Rightarrow> env \<Rightarrow> school \<Rightarrow> fee_db \<Rightarrow> http_error + fee_db \<times> nat" where
  "confirmPaymentImport tenantId recordedById rows draw e s db =
     (if rows = [] then Inl (BadRequest ''no rows'')
      else foldE (import_payment_row tenantId recordedById draw e s) (zip [0..<length rows] rows) (db, 0))"

section \<open>The ledger under an import\<close>

definition valid_allocation_row :: "ImportFeeAllocationRowDto \<Rightarrow> bool" where
  "valid_allocation_row row \<longleftrightarrow> row_discount row \<le> ifa_amount row"

definition valid_payment_row :: "ImportFeePaymentRowDto \<Rightarrow> bool" where
  "valid_payment_row row \<longleftrightarrow> 0 \<le> ifp_amount row"

lemma import_items_nonneg:
  assumes "0 \<le> a" and "list_all (\<lambda>i. 0 \<le> pi_percentOrAmount i) config"
  shows "\<forall>(_, _, _, x) \<in> set (import_items config a t). 0 \<le> x"
proof (cases config)
  case Nil
  then show ?thesis using assms(1) by (simp add: import_items_def)
next
  case (Cons c cs)
  have "0 \<le> a * item_share config i" if "i \<in> set config" for i
    using that assms by (simp add: list_all_iff item_share_nonneg)
  then show ?thesis using Cons by (simp add: import_items_def)
qed

lemma plan_config_ok:
  assumes "school_ok s"
  shows "list_all (\<lambda>i. 0 \<le> pi_percentOrAmount i) (plan_config t p s)"
proof (cases "find (\<lambda>q. Some (pl_id q) = p \<and> pl_tenantId q = t) (feePlans s)")
  case (Some q)
  then have "plan_ok q" using assms find_Some_iff_mem [OF Some] by (simp add: school_ok_def list_all_iff)
  then show ?thesis using Some by (simp add: plan_config_def plan_ok_def)
qed (simp add: plan_config_def)

lemma import_allocation_row_inv:
  assumes "office_inv db" and "school_ok s" and "valid_allocation_row row"
    and "import_allocation_row t dto draw e s (k, row) (db, n) = Inr (db', n')"
  shows "office_inv db'"
proof (cases "db' = db")
  case False
  define items where "items = import_items (plan_config t (cfa_feePlanId dto) s) (ifa_amount row - row_discount row) (now e)"
  from False assms(4) obtain st :: StudentProfile where st:
    "create_with_installments (import_contract t dto row (uuid e (k * (length items + 1))) (sp_id st) (draw k) e)
       items (k * (length items + 1)) e db = Inr db'"
    by (auto simp: import_allocation_row_def Let_def items_def bindE_Inr split: option.splits if_splits)
  have pos: "0 \<le> ifa_amount row - row_discount row" using assms(3) by (simp add: valid_allocation_row_def)
  have "\<forall>(_, _, _, x) \<in> set items. 0 \<le> x"
    unfolding items_def by (rule import_items_nonneg [OF pos plan_config_ok [OF assms(2)]])
  then show ?thesis
    by (intro create_with_installments_inv [OF assms(1) st]) (use pos in \<open>simp_all add: import_contract_def\<close>)
qed (use assms(1) in simp)

lemma import_cash_inv:
  assumes "office_inv db" and "c \<in> set (contracts db)" and "fc_tenantId c = t" and "0 \<le> ifp_amount row"
    and "import_cash t u c row k draw e db = Inr db'"
  shows "office_inv db' \<and> ledger_grows db db'"
  using assms(5) unfolding import_cash_def Let_def
  apply (elim bindE_InrE)
  subgoal premises prems for db1
  proof -
    note p = create_payment_tables [OF prems(1)] and r = create_receipt_tables [OF prems(2)]
    have inv: "ledger_inv db" "insts_ok db" "trans_ok db" "receipts_once db" "receipts_fk db"
      using assms(1) by (simp_all add: office_inv_def finance_inv_def)
    have "\<exists>d \<in> set (contracts db). fc_id d = fc_id c \<and> fc_tenantId d = t" using assms(2,3) by blast
    then have "holds_ok {} db1"
      by (intro create_payment_holds [OF prems(1)])
        (use inv(1) in \<open>simp_all add: ledger_inv_def ledger_but_def cash_payment_row_def\<close>)
    then have inv1: "ledger_inv db1"
      using create_payment_keeps [OF prems(1)] inv(1) assms(4)
      by (simp add: ledger_inv_def ledger_but_def cash_payment_row_def)
    have "ledger_inv db'"
      using assms(2,4) p(1) by (intro settle_contract_inv0 [OF inv1 _ _ refl prems(2)]) simp_all
    moreover have "receipts_once db'"
      using create_receipt_once [OF prems(2)] inv(4) create_payment_once [OF prems(1)] by simp
    moreover have "receipts_fk db'"
      using create_fk [OF prems(2)] create_payment_fk [OF prems(1)] inv(5) by (auto simp: receipts_fk_iff)
    moreover have "ledger_grows db db'"
      using create_payment_grows [OF prems(1)] create_receipt_grows [OF prems(2)] by (auto intro: ledger_grows_trans)
    ultimately show ?thesis
      using inv(2,3) p(2,3) r(2,3) by (simp add: office_inv_def finance_inv_def insts_ok_def trans_ok_def)
  qed
  done

lemma import_cheque_inv:
  assumes "office_inv db" and "c \<in> set (contracts db)" and "fc_tenantId c = t" and "0 \<le> ifp_amount row"
    and "create_payment (import_cheque i t u (fc_id c) row e) db = Inr db'"
  shows "office_inv db' \<and> ledger_grows db db'"
proof -
  note p = create_payment_tables [OF assms(5)]
  have inv: "ledger_inv db" using assms(1) by (simp add: office_inv_def finance_inv_def)
  have "\<exists>d \<in> set (contracts db). fc_id d = fc_id c \<and> fc_tenantId d = t" using assms(2,3) by blast
  then have "holds_ok {} db'"
    by (intro create_payment_holds [OF assms(5)])
      (use inv in \<open>simp_all add: ledger_inv_def ledger_but_def import_cheque_def\<close>)
  then have "ledger_inv db'"
    using create_payment_keeps [OF assms(5)] inv assms(4) by (simp add: ledger_inv_def ledger_but_def import_cheque_def)
  then show ?thesis
    using assms(1) p create_payment_grows [OF assms(5)] create_payment_once [OF assms(5)]
    by (simp add: office_inv_def finance_inv_def insts_ok_def trans_ok_def receipts_fk_def)
qed

text \<open>A payment row is skipped, or it is booked on an active contract of the student.\<close>

lemma import_payment_row_cases:
  assumes "import_payment_row t u draw e s (k, row) (db, n) = Inr (db', n')"
  obtains (skipped) "db' = db" "n' = n"
  | (cash) c where "c \<in> set (contracts db)" "fc_tenantId c = t" "is_cash_row row" "n' = Suc n"
      "import_cash t u c row k (draw k) e db = Inr db'"
  | (cheque) c where "c \<in> set (contracts db)" "fc_tenantId c = t" "\<not> is_cash_row row" "n' = Suc n"
      "create_payment (import_cheque (uuid e (2 * k)) t u (fc_id c) row e) db = Inr db'"
  using assms find_Some_iff_mem [of _ "contracts db"]
  by (auto simp: import_payment_row_def bindE_Inr split: option.splits if_splits)

lemma import_payment_row_inv:
  assumes "office_inv db" and "valid_payment_row row" and "import_payment_row t u draw e s (k, row) (db, n) = Inr (db', n')"
  shows "office_inv db'"
  using assms(3)
proof (cases rule: import_payment_row_cases)
  case (cash c)
  then show ?thesis using import_cash_inv assms(1,2) by (simp add: valid_payment_row_def)
next
  case (cheque c)
  then show ?thesis using import_cheque_inv assms(1,2) by (simp add: valid_payment_row_def)
qed (use assms(1) in simp)

datatype import_request =
    ImportContracts id ConfirmFeeAllocationImportDto "nat \<Rightarrow> nat" env
  | ImportPayments id id "ImportFeePaymentRowDto list" "nat \<Rightarrow> nat" env

fun import_serve :: "school \<Rightarrow> import_request \<Rightarrow> fee_db \<Rightarrow> http_error + fee_db" where
  "import_serve s (ImportContracts t dto draw e) db =
     bindE (confirmAllocationImport t dto draw e s db) (\<lambda>(db', _). Inr db')"
| "import_serve s (ImportPayments t u rows draw e) db =
     bindE (confirmPaymentImport t u rows draw e s db) (\<lambda>(db', _). Inr db')"

fun import_valid :: "school \<Rightarrow> import_request \<Rightarrow> bool" where
  "import_valid s (ImportContracts t dto draw e) \<longleftrightarrow> school_ok s \<and> list_all valid_allocation_row (cfa_rows dto)"
| "import_valid s (ImportPayments t u rows draw e) \<longleftrightarrow> list_all valid_payment_row rows"

lemma import_serve_inv:
  assumes "import_valid s r" and "office_inv db" and "import_serve s r db = Inr db'"
  shows "office_inv db'"
proof (cases r)
  case (ImportContracts t dto draw e)
  then obtain n where f: "foldE (import_allocation_row t dto draw e s) (zip [0..<length (cfa_rows dto)] (cfa_rows dto)) (db, 0)
      = Inr (db', n)"
    using assms(3) by (auto simp: confirmAllocationImport_def bindE_Inr split: if_splits)
  have "office_inv (fst (db', n))"
    by (rule foldE_invariant [OF _ _ f, where I = "\<lambda>x. office_inv (fst x)"])
      (use assms(1,2) ImportContracts import_allocation_row_inv in
        \<open>auto simp: list_all_iff split: prod.splits dest!: set_zip_rightD\<close>)
  then show ?thesis by simp
next
  case (ImportPayments t u rows draw e)
  then obtain n where f: "foldE (import_payment_row t u draw e s) (zip [0..<length rows] rows) (db, 0) = Inr (db', n)"
    using assms(3) by (auto simp: confirmPaymentImport_def bindE_Inr split: if_splits)
  have "office_inv (fst (db', n))"
    by (rule foldE_invariant [OF _ _ f, where I = "\<lambda>x. office_inv (fst x)"])
      (use assms(1,2) ImportPayments import_payment_row_inv in
        \<open>auto simp: list_all_iff split: prod.splits dest!: set_zip_rightD\<close>)
  then show ?thesis by simp
qed

lemma import_allocation_row_grows:
  assumes "import_allocation_row t dto draw e s (k, row) (db, n) = Inr (db', n')"
  shows "receipts db' = receipts db \<and> (\<exists>new. debts db' = debts db @ new)"
proof (cases "db' = db")
  case False
  define items where "items = import_items (plan_config t (cfa_feePlanId dto) s) (ifa_amount row - row_discount row) (now e)"
  from False assms obtain st :: StudentProfile where st:
    "create_with_installments (import_contract t dto row (uuid e (k * (length items + 1))) (sp_id st) (draw k) e)
       items (k * (length items + 1)) e db = Inr db'"
    by (auto simp: import_allocation_row_def Let_def items_def bindE_Inr split: option.splits if_splits)
  show ?thesis using create_with_installments_appends [OF st] by (auto simp: debts_def)
qed simp

lemma import_cash_grows: "import_cash t u c row k d e db = Inr db' \<Longrightarrow> ledger_grows db db'"
  unfolding import_cash_def Let_def
  by (auto elim!: bindE_InrE dest!: create_payment_grows create_receipt_grows intro: ledger_grows_trans)

lemma import_payment_row_grows:
  assumes "import_payment_row t u draw e s (k, row) (db, n) = Inr (db', n')"
  shows "ledger_grows db db'"
  using assms by (cases rule: import_payment_row_cases) (auto dest: create_payment_grows import_cash_grows)

definition only_grows :: "fee_db \<Rightarrow> fee_db \<Rightarrow> bool" where
  "only_grows db db' \<longleftrightarrow> (\<exists>new. receipts db' = receipts db @ new) \<and> (\<exists>new. debts db' = debts db @ new)"

lemma only_grows_refl [simp]: "only_grows db db"
  by (simp add: only_grows_def)

lemma only_grows_trans: "only_grows a b \<Longrightarrow> only_grows b c \<Longrightarrow> only_grows a c"
  unfolding only_grows_def by (metis append.assoc)

lemma import_serve_grows:
  assumes "import_serve s r db = Inr db'"
  shows "only_grows db db'"
proof (cases r)
  case (ImportContracts t dto draw e)
  then obtain n where f: "foldE (import_allocation_row t dto draw e s) (zip [0..<length (cfa_rows dto)] (cfa_rows dto)) (db, 0)
      = Inr (db', n)"
    using assms by (auto simp: confirmAllocationImport_def bindE_Inr split: if_splits)
  have "only_grows db (fst (db', n))"
  proof (rule foldE_invariant [OF _ _ f, where I = "\<lambda>x. only_grows db (fst x)"])
    fix x s1 s2
    assume "only_grows db (fst s1)" "import_allocation_row t dto draw e s x s1 = Inr s2"
    then show "only_grows db (fst s2)"
      using import_allocation_row_grows [of t dto draw e s "fst x" "snd x" "fst s1" "snd s1" "fst s2" "snd s2"]
      by (auto simp: only_grows_def)
  qed simp
  then show ?thesis by simp
next
  case (ImportPayments t u rows draw e)
  then obtain n where f: "foldE (import_payment_row t u draw e s) (zip [0..<length rows] rows) (db, 0) = Inr (db', n)"
    using assms by (auto simp: confirmPaymentImport_def bindE_Inr split: if_splits)
  have "only_grows db (fst (db', n))"
  proof (rule foldE_invariant [OF _ _ f, where I = "\<lambda>x. only_grows db (fst x)"])
    fix x s1 s2
    assume "only_grows db (fst s1)" "import_payment_row t u draw e s x s1 = Inr s2"
    then show "only_grows db (fst s2)"
      using import_payment_row_grows [of t u draw e s "fst x" "snd x" "fst s1" "snd s1" "fst s2" "snd s2"]
      by (auto simp: only_grows_def ledger_grows_def)
  qed simp
  then show ?thesis by simp
qed

interpretation fee_imports: ledger_service office_inv "import_serve s" "import_valid s" for s
proof unfold_locales
  fix db db' and r :: import_request
  show "office_inv db \<Longrightarrow> ledger_inv db" by (simp add: office_inv_def finance_inv_def)
  show "import_valid s r \<Longrightarrow> office_inv db \<Longrightarrow> import_serve s r db = Inr db' \<Longrightarrow> office_inv db'"
    by (rule import_serve_inv)
  assume "import_serve s r db = Inr db'"
  from import_serve_grows [OF this]
  show "\<exists>new. receipts db' = receipts db @ new" "\<exists>new. debts db' = debts db @ new"
    by (simp_all add: only_grows_def)
qed

section \<open>What the previews accept\<close>

definition allocation_row_ok :: "id \<Rightarrow> id \<Rightarrow> school \<Rightarrow> fee_db \<Rightarrow> allocation_row \<Rightarrow> bool" where
  "allocation_row_ok t y s db r \<longleftrightarrow> ar_identifier r \<noteq> [] \<and> 0 < ar_amount r \<and> 0 \<le> ar_discount r
     \<and> ar_discount r \<le> ar_amount r \<and> \<not> contracted t y db (ar_studentId r)
     \<and> ar_studentId r \<in> set (map sp_id (filter (\<lambda>p. sp_tenantId p = t) (studentProfiles s)))"

lemma bind_key_range: "bind_key k v m x = Some w \<Longrightarrow> w = v \<or> m x = Some w"
  by (auto simp: bind_key_def split: if_splits)

lemma add_identifiers_range: "add_identifiers st v m x = Some w \<Longrightarrow> w = v \<or> m x = Some w"
  unfolding add_identifiers_def by (auto dest!: bind_key_range)

lemma foldl_identifiers_range:
  assumes "foldl (\<lambda>m st. add_identifiers st st m) m sts x = Some w"
  shows "w \<in> set sts \<or> m x = Some w"
  using assms
proof (induction sts arbitrary: m)
  case (Cons st sts)
  then show ?case using add_identifiers_range [of st st m x w] by auto
qed simp

lemma student_map_range: "student_map t s x = Some st \<Longrightarrow> st \<in> set (studentProfiles s) \<and> sp_tenantId st = t"
  using foldl_identifiers_range by (fastforce simp: student_map_def)

lemma check_allocation_row_ok: "check_allocation_row t y s db row = Inr r \<Longrightarrow> allocation_row_ok t y s db r"
  using student_map_range
  by (fastforce simp: check_allocation_row_def Let_def allocation_row_ok_def split: option.splits if_splits)

lemma check_rows_ok:
  assumes "check_rows f i rows = (ok, bad)" and "\<And>row r. f row = Inr r \<Longrightarrow> P r"
  shows "list_all (\<lambda>(_, r). P r) ok \<and> length ok + length bad = length (filter (\<lambda>row. \<not> blank_row row) rows)
    \<and> distinct (map fst ok @ map fst bad) \<and> (\<forall>j \<in> set (map fst ok @ map fst bad). i \<le> j \<and> j < i + length rows)"
  using assms(1)
proof (induction rows arbitrary: i ok bad)
  case (Cons row rows)
  obtain ok1 bad1 where rec: "check_rows f (Suc i) rows = (ok1, bad1)" by fastforce
  note IH = Cons.IH [OF rec]
  have later: "i < j \<and> i \<le> j \<and> j < Suc (i + length rows)" if "j \<in> fst ` set ok1 \<union> fst ` set bad1" for j
  proof -
    have "Suc i \<le> j \<and> j < Suc i + length rows" using IH that by (simp only: set_append set_map)
    then show ?thesis by simp
  qed
  show ?case
  proof (cases "blank_row row")
    case True
    then have "ok = ok1" "bad = bad1" using Cons.prems rec by simp_all
    then show ?thesis using IH True later by simp
  next
    case False
    show ?thesis
    proof (cases "f row")
      case (Inl p)
      then have "ok = ok1" "bad = (i, cell_text (cell_at 0 row), p) # bad1" using Cons.prems rec False by simp_all
      then show ?thesis using IH later False by simp blast
    next
      case (Inr r)
      then have "ok = (i, r) # ok1" "bad = bad1" using Cons.prems rec False by simp_all
      then show ?thesis using IH later False assms(2) [OF Inr] by simp blast
    qed
  qed
qed simp

end
