(* ===== verification/Online_System.thy ===== *)
theory Online_System
  imports Online_Ledger
begin

text \<open>
  Concurrent gateway callbacks.  A state of the system is the phase of every callback together with the
  database; in one step a callback advances, a Redis lock expires, or the finance desk serves a request.
\<close>

section \<open>Backed receipts under each write\<close>

lemma backed_cong:
  "gateway_receipts db' = gateway_receipts db \<Longrightarrow> transactions db' = transactions db \<Longrightarrow> backed db' = backed db"
  by (simp add: backed_def receipted_def)

lemma backed_locks [simp]:
  "backed (db\<lparr>outbox := es\<rparr>) = backed db"
  "backed (db\<lparr>verifyLocks := ls\<rparr>) = backed db"
  by (simp_all add: backed_def receipted_def)

lemma trans_keys_update:
  assumes "\<And>t. trans_key (f t) = trans_key t"
  shows "map trans_key (update_row pt_id i f ts) = map trans_key ts"
  using assms by (simp add: update_row_def)

lemma backed_update_transaction:
  assumes "backed db" and "\<And>t. trans_key (f t) = trans_key t"
    and "\<And>t. pt_id t = i \<Longrightarrow> pt_status (f t) = SUCCESSFUL \<Longrightarrow> pt_status t = SUCCESSFUL \<or> receipted i db"
  shows "backed (update_transaction i f db)"
proof -
  have id: "pt_id (f t) = pt_id t" for t using assms(2) [of t] by (simp add: trans_key_def)
  have "\<forall>t \<in> set (update_row pt_id i f (transactions db)). pt_status t = SUCCESSFUL \<longrightarrow> receipted (pt_id t) db"
    using assms(1) assms(3) id unfolding backed_def list_all_iff set_update_row by (fastforce split: if_splits)
  then show ?thesis
    using assms(1) arg_cong [OF trans_keys_update [of f i "transactions db", OF assms(2)], of set]
    by (simp add: backed_def receipted_def list_all_iff) (simp add: update_transaction_def)
qed

lemma backed_create_transaction:
  assumes "create_transaction t db = Inr db'" and "backed db" and "pt_status t = PENDING"
  shows "backed db'"
  using assms(2,3) create_transaction_tables(6) [OF assms(1)]
    gateway_receipts_eq [OF create_transaction_tables(4) [OF assms(1)]]
  by (auto simp: backed_def receipted_def)

lemma backed_initiate:
  assumes "initiateOnlinePayment gw t u dto e db = Inr (db', x)" and "backed db"
  shows "backed db'"
  using assms
  by (auto simp: initiateOnlinePayment_def Let_def pending_transaction_def trans_key_def split: option.splits if_splits
      elim!: bindE_InrE intro!: backed_update_transaction dest!: backed_create_transaction)

lemma backed_offline:
  assumes "offline_commit t u dto i e db = Inr db'" and "backed db"
  shows "backed db'"
  using assms(1) unfolding offline_commit_def Let_def
  apply (elim bindE_InrE)
  subgoal premises prems for db1
    using assms(2) create_receipt_gateway [OF prems(2)] create_receipt_rest [OF prems(2)]
      create_transaction_tables(6) [OF prems(1)] gateway_receipts_eq [OF create_transaction_tables(4) [OF prems(1)]]
    by (auto simp: backed_def receipted_def receipt_key_def trans_key_def list_all_iff)
  done

lemma backed_desk:
  assumes "finance_serve gw r db = Inr db'" and "backed db" and "finance_inv db"
  shows "backed db'"
proof (cases r)
  case (Counter c)
  then show ?thesis
    using assms counter_gateway serve_insts by (simp add: finance_inv_def backed_cong [of db' db])
next
  case (Initiate t u dto e)
  then show ?thesis using assms backed_initiate by (auto simp: bindE_Inr)
next
  case (Offline t u dto e)
  then show ?thesis using assms backed_offline by (auto simp: recordOfflinePayment_def bindE_Inr)
qed

lemma verify_credited_transactions:
  "transactions (verify_credited call t r db) = update_row pt_id (pt_id t)
     (\<lambda>t. t\<lparr>pt_status := SUCCESSFUL, pt_refId := pvr_refId r, pt_cardPan := pvr_cardPan r,
            pt_verifiedAt := Some (now (vc_env call))\<rparr>) (transactions db)"
  by (simp add: verify_credited_def Let_def) (simp add: update_transaction_def)

lemma backed_verify:
  assumes "verify_commit call t r db = Inr (db', receipt)" and "backed db"
    and "trans_key t \<in> set (map trans_key (transactions db))" and "is_money (pt_amount t)"
  shows "backed db'"
proof -
  from assms(1) obtain cid where cid: "pt_contractId t = Some cid" "receipt = verify_receipt call t cid db"
    "create_receipt receipt (settle_by_id (Some cid) (pt_amount t) (verify_credited call t r db)) = Inr db'"
    by (auto simp: verify_commit_Inr)
  have rows: "gateway_receipts db' = gateway_receipts db @ [receipt\<lparr>fr_amount := pt_amount t\<rparr>]"
    "transactions db' = transactions (verify_credited call t r db)"
    using create_receipt_gateway [OF cid(3)] create_receipt_rest [OF cid(3)] assms(4)
    by (simp_all add: cid(2) verify_receipt_def dec2_money)
  have keys: "map trans_key (transactions db') = map trans_key (transactions db)"
    unfolding rows(2) verify_credited_transactions by (rule trans_keys_update) (simp add: trans_key_def)
  have "set (map receipt_key (gateway_receipts db')) \<subseteq> set (map trans_key (transactions db'))"
    using assms(2,3) unfolding rows(1) keys
    by (simp add: backed_def cid(2) receipt_key_def verify_receipt_def trans_key_def cid(1))
  moreover have "receipted i db' \<longleftrightarrow> receipted i db \<or> i = pt_id t" for i
    by (auto simp: receipted_def rows(1) cid(2) verify_receipt_def)
  then have "\<forall>x \<in> set (transactions db'). pt_status x = SUCCESSFUL \<longrightarrow> receipted (pt_id x) db'"
    using assms(2) unfolding rows(2) verify_credited_transactions set_update_row
    by (auto simp: backed_def list_all_iff split: if_splits)
  ultimately show ?thesis by (simp add: backed_def list_all_iff)
qed

section \<open>The system of callbacks\<close>

type_synonym system_state = "(nat \<Rightarrow> verify_phase) \<times> fee_db"

inductive system_step :: "gateway \<Rightarrow> (nat \<Rightarrow> verify_call) \<Rightarrow> system_state \<Rightarrow> system_state \<Rightarrow> bool"
  for gw :: gateway and calls :: "nat \<Rightarrow> verify_call" where
  callback: "verify_step gw (calls n) (ph n, db) = (p', db') \<Longrightarrow>
     system_step gw calls (ph, db) (ph(n := p'), db')"
| lock_expires: "system_step gw calls (ph, db) (ph, db\<lparr>verifyLocks := removeAll k (verifyLocks db)\<rparr>)"
| desk: "finance_request_valid r \<Longrightarrow> finance_serve gw r db = Inr db' \<Longrightarrow>
     system_step gw calls (ph, db) (ph, db')"

inductive system_reach :: "gateway \<Rightarrow> (nat \<Rightarrow> verify_call) \<Rightarrow> fee_db \<Rightarrow> system_state \<Rightarrow> bool"
  for gw :: gateway and calls :: "nat \<Rightarrow> verify_call" and db0 :: fee_db where
  start: "system_reach gw calls db0 (\<lambda>_. AtLock, db0)"
| step: "system_reach gw calls db0 s \<Longrightarrow> system_step gw calls s s' \<Longrightarrow> system_reach gw calls db0 s'"

text \<open>The transaction a callback has read.\<close>

fun snapshot :: "verify_phase \<Rightarrow> PaymentTransaction option" where
  "snapshot (AtNok t) = Some t"
| "snapshot (AtGateway t) = Some t"
| "snapshot (AtFail t r) = Some t"
| "snapshot (AtCommit t r) = Some t"
| "snapshot _ = None"

definition snapshot_ok :: "fee_db \<Rightarrow> PaymentTransaction \<Rightarrow> bool" where
  "snapshot_ok db t \<longleftrightarrow> trans_key t \<in> set (map trans_key (transactions db))
     \<and> is_money (pt_amount t) \<and> 0 \<le> pt_amount t"

definition phase_ok :: "fee_db \<Rightarrow> verify_phase \<Rightarrow> bool" where
  "phase_ok db p \<longleftrightarrow> (\<forall>t. snapshot p = Some t \<longrightarrow> snapshot_ok db t)"

definition system_inv :: "system_state \<Rightarrow> bool" where
  "system_inv s \<longleftrightarrow> finance_inv (snd s) \<and> backed (snd s) \<and> (\<forall>n. phase_ok (snd s) (fst s n))"

definition keys_grow :: "fee_db \<Rightarrow> fee_db \<Rightarrow> bool" where
  "keys_grow db db' \<longleftrightarrow> set (map trans_key (transactions db)) \<subseteq> set (map trans_key (transactions db'))"

lemma keys_grow_refl [simp]: "keys_grow db db"
  by (simp add: keys_grow_def)

lemma phase_ok_grow: "phase_ok db p \<Longrightarrow> keys_grow db db' \<Longrightarrow> phase_ok db' p"
  by (auto simp: phase_ok_def snapshot_ok_def keys_grow_def)

lemma keys_grow_update: "(\<And>t. trans_key (f t) = trans_key t) \<Longrightarrow> keys_grow db (update_transaction i f db)"
  using trans_keys_update [of f i "transactions db"] unfolding keys_grow_def update_transaction_def by simp

lemma keys_grow_verify:
  assumes "verify_commit call t r db = Inr (db', receipt)"
  shows "keys_grow db db'"
proof -
  from assms obtain cid where
    "create_receipt receipt (settle_by_id (Some cid) (pt_amount t) (verify_credited call t r db)) = Inr db'"
    by (auto simp: verify_commit_Inr)
  then have "transactions db' = transactions (verify_credited call t r db)"
    using create_receipt_rest by simp
  moreover have "map trans_key (update_row pt_id (pt_id t)
     (\<lambda>t. t\<lparr>pt_status := SUCCESSFUL, pt_refId := pvr_refId r, pt_cardPan := pvr_cardPan r,
            pt_verifiedAt := Some (now (vc_env call))\<rparr>) (transactions db)) = map trans_key (transactions db)"
    by (rule trans_keys_update) (simp add: trans_key_def)
  ultimately show ?thesis unfolding keys_grow_def verify_credited_transactions by simp
qed

lemma keys_grow_desk:
  assumes "finance_serve gw r db = Inr db'" and "finance_inv db"
  shows "keys_grow db db'"
proof (cases r)
  case (Counter c)
  then show ?thesis using assms serve_insts by (simp add: keys_grow_def finance_inv_def)
next
  case (Initiate t u dto e)
  with assms(1) obtain s tr x where s: "create_transaction tr db = Inr s"
    "db' = update_transaction (uuid e 0) (\<lambda>t. t\<lparr>pt_authority := Some x\<rparr>) s"
    by (auto simp: bindE_Inr initiateOnlinePayment_def Let_def split: option.splits if_splits)
  have "keys_grow db s" using create_transaction_tables(6) [OF s(1)] by (auto simp: keys_grow_def)
  moreover have "keys_grow s db'" unfolding s(2) by (rule keys_grow_update) (simp add: trans_key_def)
  ultimately show ?thesis by (auto simp: keys_grow_def)
next
  case (Offline t u dto e)
  with assms(1) obtain i where "offline_commit t u dto i e db = Inr db'"
    by (auto simp: recordOfflinePayment_def bindE_Inr)
  then show ?thesis
    by (auto simp: offline_commit_def Let_def keys_grow_def elim!: bindE_InrE
        dest!: create_transaction_tables(6) create_receipt_rest)
qed

lemma find_authority_ok:
  assumes "finance_inv db" and "find_authority t a db = Some x"
  shows "snapshot_ok db x"
  using assms find_Some_iff_mem [of _ "transactions db" x]
  by (auto simp: find_authority_def finance_inv_def trans_ok_def snapshot_ok_def list_all_iff)

lemma fail_transaction_keeps:
  assumes "finance_inv db" and "backed db"
  shows "finance_inv (fail_transaction i msg db) \<and> backed (fail_transaction i msg db)
    \<and> keys_grow db (fail_transaction i msg db)"
  unfolding fail_transaction_def
proof (intro conjI)
  let ?f = "\<lambda>t. t\<lparr>pt_status := FAILED, pt_errorMessage := Some msg\<rparr>"
  show "finance_inv (update_transaction i ?f db)" by (rule update_transaction_inv [OF assms(1)]) simp
  show "backed (update_transaction i ?f db)"
    by (rule backed_update_transaction [OF assms(2)]) (simp_all add: trans_key_def)
  show "keys_grow db (update_transaction i ?f db)" by (rule keys_grow_update) (simp add: trans_key_def)
qed

text \<open>One step of one callback keeps the invariant.\<close>

lemma verify_step_keeps:
  assumes "finance_inv db" and "backed db" and "phase_ok db p" and "verify_step gw call (p, db) = (p', db')"
  shows "finance_inv db' \<and> backed db' \<and> phase_ok db' p' \<and> keys_grow db db'"
proof (cases p)
  case AtLock
  then show ?thesis using assms
    by (auto simp: phase_ok_def keys_grow_def split: if_splits option.splits)
next
  case AtRead
  then show ?thesis using assms find_authority_ok [OF assms(1)]
    by (auto simp: phase_ok_def split: if_splits option.splits)
next
  case (AtNok t)
  then have "db' = fail_transaction (pt_id t) ''cancelled at the gateway'' db" and "snapshot p' = None"
    using assms(4) by auto
  then show ?thesis using fail_transaction_keeps [OF assms(1,2)] by (simp add: phase_ok_def)
next
  case (AtGateway t)
  then show ?thesis using assms by (auto simp: phase_ok_def Let_def split: if_splits)
next
  case (AtFail t r)
  then have "db' = fail_transaction (pt_id t) (str_or (pvr_message r) ''gateway verification error'') db"
    and "snapshot p' = None" using assms(4) by auto
  then show ?thesis using fail_transaction_keeps [OF assms(1,2)] by (simp add: phase_ok_def)
next
  case (AtCommit t r)
  show ?thesis
  proof (cases "verify_commit call t r db")
    case (Inl err)
    then show ?thesis using assms AtCommit by (auto simp: phase_ok_def)
  next
    case (Inr x)
    obtain db1 receipt where x: "x = (db1, receipt)" by (cases x)
    have t: "snapshot_ok db t" using assms(3) AtCommit by (simp add: phase_ok_def)
    have "finance_inv db1" "backed db1" "keys_grow db db1"
      using verify_commit_inv [OF assms(1)] backed_verify [OF _ assms(2)] keys_grow_verify Inr t
      by (auto simp: x snapshot_ok_def)
    then show ?thesis using assms(4) AtCommit Inr by (auto simp: x phase_ok_def keys_grow_def)
  qed
next
  case (AtUnlock x)
  then show ?thesis using assms by (auto simp: phase_ok_def keys_grow_def split: if_splits)
next
  case (Done x)
  then show ?thesis using assms by (auto simp: phase_ok_def)
qed

lemma system_step_inv:
  assumes "system_inv s" and "system_step gw calls s s'"
  shows "system_inv s'"
  using assms(2)
proof (cases rule: system_step.cases)
  case (callback n ph db p' db')
  have k: "finance_inv db' \<and> backed db' \<and> phase_ok db' p' \<and> keys_grow db db'"
    by (rule verify_step_keeps [OF _ _ _ callback(3)]) (use assms(1) callback(1) in \<open>simp_all add: system_inv_def\<close>)
  then show ?thesis
    using assms(1) callback(1,2) phase_ok_grow by (auto simp: system_inv_def)
next
  case (lock_expires ph db k)
  then show ?thesis using assms(1) by (simp add: system_inv_def phase_ok_def snapshot_ok_def)
next
  case (desk r db db' ph)
  then show ?thesis
    using assms(1) finance_serve_inv [OF desk(3) _ desk(4)] backed_desk [OF desk(4)]
      phase_ok_grow [OF _ keys_grow_desk [OF desk(4)]]
    by (auto simp: system_inv_def)
qed

lemma system_reach_inv:
  assumes "system_reach gw calls db0 s" and "finance_inv db0" and "backed db0"
  shows "system_inv s"
  using assms(1)
proof induction
  case start
  then show ?case using assms(2,3) by (simp add: system_inv_def phase_ok_def)
next
  case (step s s')
  then show ?case using system_step_inv by blast
qed

section \<open>A lone callback\<close>

text \<open>Every step brings a callback nearer to its end.\<close>

fun phase_rank :: "verify_phase \<Rightarrow> nat" where
  "phase_rank AtLock = 5"
| "phase_rank AtRead = 4"
| "phase_rank (AtGateway t) = 3"
| "phase_rank (AtNok t) = 2"
| "phase_rank (AtFail t r) = 2"
| "phase_rank (AtCommit t r) = 2"
| "phase_rank (AtUnlock x) = 1"
| "phase_rank (Done x) = 0"

lemma phase_rank_0: "phase_rank p = 0 \<longleftrightarrow> is_done p"
  by (cases p) (simp_all add: is_done_def)

lemma verify_step_rank:
  assumes "verify_step gw call (p, db) = (p', db')" and "\<not> is_done p"
  shows "phase_rank p' < phase_rank p"
  using assms
  by (cases p) (auto simp: Let_def is_done_def split: if_splits option.splits sum.splits)

lemma verify_run_done: "phase_rank (fst s) \<le> n \<Longrightarrow> is_done (fst (verify_run n gw call s))"
proof (induction n arbitrary: s)
  case 0
  then show ?case by (simp add: phase_rank_0)
next
  case (Suc n)
  obtain p db where s: "s = (p, db)" by (cases s)
  obtain p' db' where st: "verify_step gw call (p, db) = (p', db')" by fastforce
  show ?case
  proof (cases "is_done p")
    case False
    then have "phase_rank p' \<le> n" using verify_step_rank [OF st] Suc.prems by (simp add: s)
    with False Suc.IH [of "(p', db')"] show ?thesis by (simp add: s st)
  qed (simp add: s)
qed

lemma is_done_ex: "is_done p \<longleftrightarrow> (\<exists>x. p = Done x)"
  by (cases p) (simp_all add: is_done_def)

text \<open>What a callback that issued a receipt has gone through.\<close>

lemma run_from_unlock: "verify_run (Suc n) gw call (AtUnlock x, db) =
   (Done x, if vc_redis call then db\<lparr>verifyLocks := removeAll (lock_key call) (verifyLocks db)\<rparr> else db)"
  by (cases n) (simp_all add: is_done_def)

lemma run_from_commit:
  assumes "verify_run (Suc (Suc n)) gw call (AtCommit t r, db) = (Done (Inr x), db')"
  obtains db1 receipt where "verify_commit call t r db = Inr (db1, receipt)"
    and "x = Verified receipt (pvr_refId r) (pvr_cardPan r)" and "contracts db' = contracts db1"
    and "installments db' = installments db1" and "receipts db' = receipts db1"
    and "transactions db' = transactions db1"
  using assms run_from_unlock [of n gw call]
  by (auto simp: is_done_def split: sum.splits prod.splits if_splits)

lemma run_from_read:
  assumes "verify_run (Suc (Suc (Suc (Suc n)))) gw call (AtRead, db) = (Done (Inr (Verified rc ref pan)), db')"
  obtains t where "find_authority (vc_tenantId call) (vp_authority (vc_dto call)) db = Some t"
    and "pt_status t \<noteq> SUCCESSFUL" and "\<not> is_nok (vp_status (vc_dto call))"
    and "pvr_isSuccess (gatewayVerify gw (vc_env call) (vp_authority (vc_dto call)) (pt_amount t))"
    and "verify_run (Suc (Suc n)) gw call
      (AtCommit t (gatewayVerify gw (vc_env call) (vp_authority (vc_dto call)) (pt_amount t)), db)
        = (Done (Inr (Verified rc ref pan)), db')"
  using assms run_from_unlock [of "Suc n" gw call] run_from_unlock [of "Suc (Suc n)" gw call] run_from_unlock [of n gw call]
  by (auto simp: is_done_def Let_def split: option.splits if_splits)

end
