(* ===== verification/Fee_Props.thy ===== *)
theory Fee_Props
  imports Fee_Payment
begin

text \<open>
  The properties of the fee payment service, over whole runs of requests and over single operations,
  with a small school as the instance that shows their hypotheses can hold.
\<close>

section \<open>A small school\<close>

definition demo_env :: "nat \<Rightarrow> env" where
  "demo_env k = \<lparr>now = int k, rnd = 0, uuid = (\<lambda>n. string_of_nat (10 * k + n))\<rparr>"

definition demo_contract :: "id \<Rightarrow> rat \<Rightarrow> rat \<Rightarrow> StudentFeeContract" where
  "demo_contract i debt balance =
     \<lparr>fc_id = i, fc_tenantId = ''t1'', fc_academicYearId = ''y1'', fc_studentId = ''s1'',
      fc_contractNumber = ''FEE-1'', fc_totalAmount = debt, fc_discountAmount = 0,
      fc_finalPayableAmount = debt, fc_balanceRemaining = balance, fc_status = FC_ACTIVE,
      fc_discountReason = None, fc_notes = None, fc_feePlanId = None, fc_isIndividual = True,
      fc_hasFinancialHold = False, fc_financialHoldReason = None\<rparr>"

definition demo_db :: fee_db where
  "demo_db = \<lparr>contracts = [demo_contract ''c1'' 10000 10000], installments = [], payments = [],
     transactions = [], receipts = [], studentUser = (\<lambda>_. None), outbox = [], verifyLocks = []\<rparr>"

definition demo_cash :: "rat \<Rightarrow> RecordCashPaymentDto" where
  "demo_cash a = \<lparr>cash_contractId = ''c1'', cash_installmentId = None, cash_amount = a,
     cash_cashReceivedAt = None, cash_note = None\<rparr>"

definition demo_cheque :: "rat \<Rightarrow> RecordChequePaymentDto" where
  "demo_cheque a = \<lparr>chq_contractId = ''c1'', chq_installmentId = None, chq_amount = a,
     chq_checkNumber = ''77'', chq_checkSayadId = ''1234567890123456'', chq_bankName = ''Mellat'',
     chq_branchName = None, chq_checkOwnerName = None, chq_checkDueDate = 5000, chq_note = None\<rparr>"

definition demo_status :: "CheckStatus \<Rightarrow> RecordCashPaymentDto option \<Rightarrow> UpdateChequeStatusDto" where
  "demo_status s cash = \<lparr>ucs_status = s, ucs_note = None, ucs_replacementCheque = None,
     ucs_replacementCash = cash\<rparr>"

text \<open>Cash, then a cheque that bounces and is replaced by cash.\<close>

definition demo_run :: "fee_request list" where
  "demo_run =
    [CashRequest ''t1'' ''staff'' (demo_cash 2000) (demo_env 1),
     ChequeRequest ''t1'' ''staff'' (demo_cheque 5000) (demo_env 2),
     ChequeStatusRequest ''t1'' ''20'' ''staff'' (demo_status CK_BOUNCED None) (demo_env 3),
     ChequeStatusRequest ''t1'' ''20'' ''staff'' (demo_status CK_REPLACED (Some (demo_cash 5000))) (demo_env 4)]"

lemmas demo_defs = demo_db_def demo_contract_def demo_cash_def demo_cheque_def demo_status_def demo_env_def

lemma demo_inv: "ledger_inv demo_db"
  by (simp add: ledger_defs demo_defs contract_ok_def received_def)

lemma demo_run_valid: "list_all fee_request_valid demo_run"
  by (simp add: demo_run_def demo_defs valid_cash_dto_def valid_cheque_dto_def valid_update_dto_def
      valid_sayad_def is_digit_def)

lemmas fee_eval = recordCashPayment_def cash_check_def cash_commit_def Let_def create_payment_def
  create_receipt_def cash_payment_row_def fk_ok_def unique_opt_def credit_found_def credit_installment_def
  settle_contract_def update_contract_def update_payment_def update_installment_def update_row_def
  receipt_number_def string_of_int_def string_of_nat.simps digit_char_def payer_name_def
  recordChequePayment_def cheque_row_def valid_sayad_def is_digit_def updateChequeStatus_def
  cheque_check_def cheque_commit_def cheque_bounced_def cheque_cashed_def cheque_replaced_def
  replace_by_cash_def release_hold_def other_bounced_def mark_cheque_def clamp0_def find_row_def

text \<open>The state after the run: the debt of 10000 has 3000 left, and two receipts show the 7000.\<close>

lemma demo_run_result:
  "\<exists>db. foldE fee_payment_serve demo_run demo_db = Inr db
     \<and> map fc_balanceRemaining (contracts db) = [3000] \<and> map fr_amount (receipts db) = [2000, 5000]
     \<and> map fp_checkStatus (payments db) = [Some CK_PENDING, Some CK_REPLACED, Some CK_PENDING]
     \<and> map fc_hasFinancialHold (contracts db) = [False]"
  by (simp add: demo_run_def demo_defs fee_eval)

section \<open>Runs of requests\<close>

text \<open>After any run of validated requests the balance of every contract lies between zero and its
  debt, and the receipts of the contract cover the part of the debt that is gone.\<close>

theorem fee_run_accounts:
  assumes "list_all fee_request_valid rs" and "ledger_inv db" and "foldE fee_payment_serve rs db = Inr db'"
    and "c \<in> set (contracts db')"
  shows "0 \<le> fc_balanceRemaining c \<and> fc_balanceRemaining c \<le> fc_finalPayableAmount c
    \<and> fc_finalPayableAmount c - fc_balanceRemaining c \<le> received (fc_id c) db'"
  using fee_payments.run_accounts [OF assms] .

theorem fee_run_accounts_witness:
  "\<exists>db c. foldE fee_payment_serve demo_run demo_db = Inr db \<and> contracts db = [c]
     \<and> fc_balanceRemaining c = 3000 \<and> 7000 \<le> received (fc_id c) db"
proof -
  obtain db where db: "foldE fee_payment_serve demo_run demo_db = Inr db"
    and b: "map fc_balanceRemaining (contracts db) = [3000]"
    using demo_run_result by (elim exE conjE) (rule that)
  from b obtain c where c: "contracts db = [c]" "fc_balanceRemaining c = 3000"
    by (cases "contracts db") simp_all
  obtain new where "debts db = debts demo_db @ new" using fee_payments.run_debts [OF db] by blast
  then have "(fc_id c, fc_finalPayableAmount c) # [] = (''c1'', 10000) # new"
    unfolding debts_def c(1) by (simp add: demo_db_def demo_contract_def)
  then have f: "fc_finalPayableAmount c = 10000" by simp
  have "fc_finalPayableAmount c - fc_balanceRemaining c \<le> received (fc_id c) db"
    using fee_run_accounts [OF demo_run_valid demo_inv db, of c] c(1) by simp
  then have "7000 \<le> received (fc_id c) db" using f c(2) by simp
  with db c show ?thesis by blast
qed

text \<open>C1: After any run the contract of every bounced cheque exists, in the cheque's tenant, and is on
  financial hold.\<close>

theorem bounced_cheque_holds:
  assumes "list_all fee_request_valid rs" and "ledger_inv db" and "foldE fee_payment_serve rs db = Inr db'"
    and "p \<in> set (payments db')" and "fp_checkStatus p = Some CK_BOUNCED"
  shows "\<exists>c \<in> set (contracts db'). fc_id c = fp_feeContractId p \<and> fc_tenantId c = fp_tenantId p
    \<and> fc_hasFinancialHold c"
proof -
  have "ledger_inv db'" using fee_payments.run_inv assms(1-3) by blast
  with assms(4,5) show ?thesis by (auto simp: ledger_defs list_all_iff hold_ok_def)
qed

lemma demo_bounced:
  "\<exists>db. foldE fee_payment_serve (take 3 demo_run) demo_db = Inr db \<and> payments db \<noteq> []
     \<and> fp_checkStatus (last (payments db)) = Some CK_BOUNCED"
  by (simp add: demo_run_def demo_defs fee_eval)

theorem bounced_cheque_holds_witness:
  "\<exists>db. foldE fee_payment_serve (take 3 demo_run) demo_db = Inr db
     \<and> (\<exists>c \<in> set (contracts db). fc_hasFinancialHold c)"
proof -
  have v: "list_all fee_request_valid (take 3 demo_run)"
    using demo_run_valid by (auto simp: list_all_iff dest: in_set_takeD)
  obtain db where db: "foldE fee_payment_serve (take 3 demo_run) demo_db = Inr db" "payments db \<noteq> []"
    "fp_checkStatus (last (payments db)) = Some CK_BOUNCED" using demo_bounced by blast
  show ?thesis using bounced_cheque_holds [OF v demo_inv db(1) last_in_set [OF db(2)] db(3)] db(1) by blast
qed

text \<open>C2: A cashed cheque stays cashed: through any run its row keeps its amount, contract, method and
  its status \<open>CASHED\<close>.\<close>

theorem cashed_cheque_is_final:
  assumes "list_all fee_request_valid rs" and "ledger_inv db" and "foldE fee_payment_serve rs db = Inr db'"
    and "p \<in> set (payments db)" and "fp_checkStatus p = Some CK_CASHED"
  shows "\<exists>q \<in> set (payments db'). same_payment p q \<and> fp_checkStatus q = Some CK_CASHED"
proof -
  have "ledger_inv db' \<and> (\<exists>q \<in> set (payments db'). same_payment p q)"
  proof (rule foldE_invariant [OF _ _ assms(3)])
    show "ledger_inv db \<and> (\<exists>q \<in> set (payments db). same_payment p q)"
      using assms(2,4) by (auto simp: same_payment_def)
  next
    fix r s s'
    assume r: "r \<in> set rs" and s: "ledger_inv s \<and> (\<exists>q \<in> set (payments s). same_payment p q)"
      and step: "fee_payment_serve r s = Inr s'"
    have "fee_request_valid r" using assms(1) r by (simp add: list_all_iff)
    then have "ledger_inv s'" using fee_payment_serve_inv s step by blast
    moreover have "keys_ok s" using s by (simp add: ledger_inv_def ledger_but_def)
    ultimately show "ledger_inv s' \<and> (\<exists>q \<in> set (payments s'). same_payment p q)"
      using s serve_payment_stays [OF _ _ step] same_payment_trans by blast
  qed
  then show ?thesis using assms(5) by (auto simp: same_payment_def)
qed

definition demo_cashed_row :: FeePayment where
  "demo_cashed_row = (cheque_row ''20'' ''t1'' ''staff'' ''c1'' None (demo_cheque 5000) None)
     \<lparr>fp_checkStatus := Some CK_CASHED\<rparr>"

definition demo_cashed_db :: fee_db where
  "demo_cashed_db = demo_db\<lparr>payments := [demo_cashed_row]\<rparr>"

theorem cashed_cheque_is_final_witness:
  "\<exists>db q. foldE fee_payment_serve [CashRequest ''t1'' ''staff'' (demo_cash 2000) (demo_env 1)] demo_cashed_db = Inr db
     \<and> q \<in> set (payments db) \<and> fp_checkStatus q = Some CK_CASHED"
proof -
  let ?rs = "[CashRequest ''t1'' ''staff'' (demo_cash 2000) (demo_env 1)]"
  have v: "list_all fee_request_valid ?rs" by (simp add: valid_cash_dto_def demo_cash_def)
  have i: "ledger_inv demo_cashed_db"
    by (simp add: ledger_defs demo_defs demo_cashed_db_def demo_cashed_row_def cheque_row_def contract_ok_def
        received_def payment_ok_def hold_ok_def)
  have "\<exists>db. foldE fee_payment_serve ?rs demo_cashed_db = Inr db"
    by (simp add: demo_defs fee_eval demo_cashed_db_def demo_cashed_row_def)
  then obtain db where db: "foldE fee_payment_serve ?rs demo_cashed_db = Inr db" by blast
  have "\<exists>q \<in> set (payments db). same_payment demo_cashed_row q \<and> fp_checkStatus q = Some CK_CASHED"
    by (rule cashed_cheque_is_final [OF v i db]) (simp_all add: demo_cashed_db_def demo_cashed_row_def)
  then show ?thesis using db by blast
qed

text \<open>C4: The receipts follow the payments: if they do so at first, then after any run of fee requests every payment that is not a cheque
  and every cashed cheque has exactly one receipt, with its amount, contract, tenant and method, a cheque that is pending, bounced or
  replaced has none, and no receipt is for a payment that does not exist.\<close>

theorem receipts_match_payments:
  assumes "list_all fee_request_valid rs" and "ledger_inv db" and "receipts_match (payments db) (receipts db)"
    and "foldE fee_payment_serve rs db = Inr db'"
  shows "(\<forall>p \<in> set (payments db'). if fp_method p = CHEQUE \<and> fp_checkStatus p \<noteq> Some CK_CASHED
      then \<forall>r \<in> set (receipts db'). fr_paymentId r \<noteq> Some (fp_id p)
      else \<exists>r. filter (\<lambda>r. fr_paymentId r = Some (fp_id p)) (receipts db') = [r] \<and> fr_amount r = fp_amount p
        \<and> fr_contractId r = fp_feeContractId p \<and> fr_tenantId r = fp_tenantId p \<and> fr_paymentMethod r = fp_method p)
    \<and> (\<forall>r \<in> set (receipts db'). \<forall>i. fr_paymentId r = Some i \<longrightarrow> i \<in> set (map fp_id (payments db')))"
proof -
  have "ledger_inv db' \<and> receipts_match (payments db') (receipts db')"
  proof (rule foldE_invariant [OF _ _ assms(4)])
    show "ledger_inv db \<and> receipts_match (payments db) (receipts db)" using assms(2,3) by blast
  next
    fix r d d'
    assume r: "r \<in> set rs" and d: "ledger_inv d \<and> receipts_match (payments d) (receipts d)" and step: "fee_payment_serve r d = Inr d'"
    have "fee_request_valid r" using assms(1) r by (simp add: list_all_iff)
    then show "ledger_inv d' \<and> receipts_match (payments d') (receipts d')"
      using fee_payment_serve_inv [of r d d'] serve_receipts_match [of d r d'] d step by blast
  qed
  then show ?thesis
    by (simp add: receipts_match_def list_all_iff receipt_due_iff fk_ok_def split: option.splits)
qed

theorem receipts_match_payments_witness:
  "\<exists>db. foldE fee_payment_serve demo_run demo_db = Inr db
     \<and> (\<forall>p \<in> set (payments db). fp_method p = CHEQUE \<longrightarrow> fp_checkStatus p \<noteq> Some CK_CASHED
          \<longrightarrow> (\<forall>r \<in> set (receipts db). fr_paymentId r \<noteq> Some (fp_id p)))"
proof -
  obtain db where db: "foldE fee_payment_serve demo_run demo_db = Inr db"
    using demo_run_result by (elim exE conjE) (rule that)
  have "receipts_match (payments demo_db) (receipts demo_db)" by (simp add: receipts_match_def demo_db_def)
  from receipts_match_payments [OF demo_run_valid demo_inv this db] db show ?thesis by (auto split: if_splits)
qed

section \<open>Single operations\<close>

text \<open>C3: An accepted cash payment appends its payment row and one receipt of the same amount, lowers the
  balance of exactly its contract by that amount (completing it when nothing is left), and leaves every
  other contract as it was.\<close>

theorem cash_payment_settles:
  assumes "recordCashPayment t u dto e db = Inr (db', b)"
  shows "\<exists>c. find (\<lambda>c. fc_id c = cash_contractId dto \<and> fc_tenantId c = t) (contracts db) = Some c
    \<and> b = fc_balanceRemaining c - cash_amount dto \<and> 0 \<le> b \<and> b < fc_balanceRemaining c
    \<and> contracts db' = update_row fc_id (fc_id c)
        (\<lambda>d. d\<lparr>fc_balanceRemaining := dec2 b, fc_status := (if b = 0 then FC_COMPLETED else fc_status c)\<rparr>)
        (contracts db)
    \<and> (\<exists>p. payments db' = payments db @ [p] \<and> fp_method p = CASH \<and> fp_amount p = dec2 (cash_amount dto))
    \<and> (\<exists>r. receipts db' = receipts db @ [r] \<and> fr_amount r = dec2 (cash_amount dto)
          \<and> fr_contractId r = fc_id c \<and> fr_paymentId r = Some (uuid e 0))"
  using assms unfolding recordCashPayment_def cash_commit_def Let_def
  apply (elim bindE_InrE)
  subgoal premises prems for c db1 db4
    using prems(1) [unfolded cash_check_Inr] prems(4) create_payment_tables [OF prems(2)]
      create_receipt_tables [OF prems(3)]
    by (intro exI [of _ c])
      (simp add: settle_contract_def update_contract_def cash_payment_row_def)
  done

theorem cash_payment_settles_witness:
  "\<exists>db'. recordCashPayment ''t1'' ''staff'' (demo_cash 2000) (demo_env 1) demo_db = Inr (db', 8000)
     \<and> map fr_amount (receipts db') = [2000]"
proof -
  have "\<exists>x. recordCashPayment ''t1'' ''staff'' (demo_cash 2000) (demo_env 1) demo_db = Inr x"
    by (simp add: demo_defs fee_eval)
  then obtain db' b where r: "recordCashPayment ''t1'' ''staff'' (demo_cash 2000) (demo_env 1) demo_db = Inr (db', b)"
    by auto
  from cash_payment_settles [OF r] show ?thesis using r by (auto simp: demo_defs)
qed

text \<open>Registering a cheque is not a payment: no contract, installment or receipt changes, and the one
  new row is a cheque \<open>PENDING\<close> whose Sayad id has 16 digits and was not registered in the tenant.\<close>

theorem cheque_registration_pending:
  assumes "recordChequePayment t u dto e db = Inr db'"
  shows "contracts db' = contracts db \<and> installments db' = installments db \<and> receipts db' = receipts db
    \<and> valid_sayad (chq_checkSayadId dto)
    \<and> (\<forall>q \<in> set (payments db). \<not> (fp_tenantId q = t \<and> fp_checkSayadId q = Some (chq_checkSayadId dto)))
    \<and> (\<exists>p. payments db' = payments db @ [p] \<and> fp_method p = CHEQUE \<and> fp_checkStatus p = Some CK_PENDING
          \<and> fp_tenantId p = t \<and> fp_checkSayadId p = Some (chq_checkSayadId dto))"
proof -
  from assms obtain c where "find (\<lambda>c. fc_id c = chq_contractId dto \<and> fc_tenantId c = t) (contracts db) = Some c"
    by (auto simp: recordChequePayment_def split: option.splits)
  with assms have ok: "valid_sayad (chq_checkSayadId dto)"
    and dup: "find (\<lambda>p. fp_tenantId p = t \<and> fp_checkSayadId p = Some (chq_checkSayadId dto)) (payments db) = None"
    and p: "create_payment (cheque_row (uuid e 0) t u (fc_id c) (chq_installmentId dto) dto (chq_note dto)) db = Inr db'"
    by (simp_all add: recordChequePayment_def split: if_splits)
  show ?thesis
    using ok dup create_payment_tables [OF p] by (simp add: find_None_iff cheque_row_def)
qed

theorem cheque_registration_pending_witness:
  "\<exists>db'. recordChequePayment ''t1'' ''staff'' (demo_cheque 5000) (demo_env 2) demo_db = Inr db'
     \<and> contracts db' = contracts demo_db"
proof -
  have "\<exists>db'. recordChequePayment ''t1'' ''staff'' (demo_cheque 5000) (demo_env 2) demo_db = Inr db'"
    by (simp add: demo_defs fee_eval)
  then show ?thesis using cheque_registration_pending by blast
qed

section \<open>The cheque state machine\<close>

text \<open>When a cheque is cashed or replaced and no other cheque of the contract is bounced, the financial
  hold of the contract is lifted.\<close>

theorem last_bounced_cheque_released:
  assumes "cheque_check t i dto db = Inr (p, c)" and "cheque_commit t u dto p c e db = Inr db'"
    and "ucs_status dto = CK_CASHED \<and> fp_checkStatus p \<noteq> Some CK_CASHED \<or> ucs_status dto = CK_REPLACED"
    and "\<not> other_bounced t (fc_id c) (fp_id p) db" and "d \<in> set (contracts db')" and "fc_id d = fc_id c"
  shows "\<not> fc_hasFinancialHold d"
  using assms(2)
proof (cases rule: cheque_commit_cases)
  case (cashed db1)
  have "contracts db1 = update_row fc_id (fc_id c)
      (\<lambda>c'. c'\<lparr>fc_balanceRemaining := dec2 (clamp0 (fc_balanceRemaining c - fp_amount p)),
              fc_hasFinancialHold := False, fc_financialHoldReason := None,
              fc_status := (if clamp0 (fc_balanceRemaining c - fp_amount p) = 0 then FC_COMPLETED else fc_status c)\<rparr>)
      (contracts db)"
    using create_receipt_tables(1) [OF cashed(3) [unfolded cheque_cashed_def Let_def]] assms(4)
    by (simp add: update_contract_def)
  then show ?thesis using assms(5,6) cashed(4) by (auto simp: mark_cheque_def set_update_row split: if_splits)
next
  case (replaced db1 i)
  have "\<exists>db0 new. db1 = release_hold t p c db0 \<and> payments db0 = payments db @ new
      \<and> list_all (\<lambda>q. fp_checkStatus q = Some CK_PENDING) new"
    using replaced(2) unfolding cheque_replaced_def
    by (auto simp: replace_by_cheque_def replace_by_cash_def Let_def cheque_row_def cash_payment_row_def
        split: option.splits elim!: bindE_InrE dest!: create_payment_tables(7) create_receipt_tables(4))
  then obtain db0 new where db0: "db1 = release_hold t p c db0" "payments db0 = payments db @ new"
    "list_all (\<lambda>q. fp_checkStatus q = Some CK_PENDING) new" by blast
  then have "\<not> other_bounced t (fc_id c) (fp_id p) db0"
    using assms(4) by (auto simp: other_bounced_iff list_all_iff)
  then have "contracts db' = update_row fc_id (fc_id c)
      (\<lambda>c. c\<lparr>fc_hasFinancialHold := False, fc_financialHoldReason := None\<rparr>) (contracts db0)"
    by (simp add: replaced(3) mark_cheque_def db0(1) release_hold_def) (simp add: update_contract_def)
  then show ?thesis using assms(5,6) by (auto simp: set_update_row split: if_splits)
qed (use assms(3) in auto)

text \<open>The run above up to the bounced cheque, whose cheque is then replaced by cash.\<close>

lemma demo_release:
  "\<exists>db p c db' d. foldE fee_payment_serve (take 3 demo_run) demo_db = Inr db
     \<and> cheque_check ''t1'' ''20'' (demo_status CK_REPLACED (Some (demo_cash 5000))) db = Inr (p, c)
     \<and> fc_hasFinancialHold c
     \<and> cheque_commit ''t1'' ''staff'' (demo_status CK_REPLACED (Some (demo_cash 5000))) p c (demo_env 4) db = Inr db'
     \<and> \<not> other_bounced ''t1'' (fc_id c) (fp_id p) db \<and> contracts db' = [d] \<and> fc_id d = fc_id c"
  by (simp add: demo_run_def demo_defs fee_eval)

theorem last_bounced_cheque_released_witness:
  "\<exists>(c :: StudentFeeContract) d (db' :: fee_db).
     fc_hasFinancialHold c \<and> fc_id d = fc_id c \<and> contracts db' = [d] \<and> \<not> fc_hasFinancialHold d"
proof -
  obtain db p c db' d where
    a: "cheque_check ''t1'' ''20'' (demo_status CK_REPLACED (Some (demo_cash 5000))) db = Inr (p, c)"
    and h: "fc_hasFinancialHold c"
    and b: "cheque_commit ''t1'' ''staff'' (demo_status CK_REPLACED (Some (demo_cash 5000))) p c (demo_env 4) db = Inr db'"
    and o: "\<not> other_bounced ''t1'' (fc_id c) (fp_id p) db" and d: "contracts db' = [d]" "fc_id d = fc_id c"
    using demo_release by (elim exE conjE) (rule that)
  have "\<not> fc_hasFinancialHold d"
    by (rule last_bounced_cheque_released [OF a b _ o _ d(2)]) (simp_all add: demo_status_def d(1))
  with h d show ?thesis by blast
qed

text \<open>\<open>REPLACED\<close> is not terminal in the code: a replaced cheque may still be marked \<open>CASHED\<close>, and then its
  amount is taken off the debt although the payment that replaced it counts as well; the same write
  erases the link to that payment.\<close>

theorem replaced_cheque_can_be_cashed:
  assumes "find (\<lambda>p. fp_id p = i \<and> fp_tenantId p = t) (payments db) = Some p" and "fp_method p = CHEQUE"
    and "fp_checkStatus p = Some CK_REPLACED" and "find_row fc_id (fp_feeContractId p) (contracts db) = Some c"
    and "ucs_status dto = CK_CASHED" and "updateChequeStatus t i u dto e db = Inr db'"
  shows "(\<forall>d \<in> set (contracts db'). fc_id d = fc_id c \<longrightarrow>
            fc_balanceRemaining d = dec2 (clamp0 (fc_balanceRemaining c - fp_amount p)))
    \<and> (\<forall>q \<in> set (payments db'). fp_id q = i \<longrightarrow>
            fp_checkStatus q = Some CK_CASHED \<and> fp_replacedByPaymentId q = None)"
proof -
  have i: "fp_id p = i" using find_Some_iff_mem [OF assms(1)] by simp
  from assms have commit: "cheque_commit t u dto p c e db = Inr db'"
    by (simp add: updateChequeStatus_def cheque_check_def)
  then obtain db1 where db1: "cheque_cashed t u p c e db = Inr db1" "db' = mark_cheque u p dto None e db1"
    by (cases rule: cheque_commit_cases) (use assms(3,5) in auto)
  have rows: "contracts db' = contracts db1" "payments db' = update_row fp_id (fp_id p)
    (\<lambda>p'. p'\<lparr>fp_checkStatus := Some (ucs_status dto), fp_checkStatusChangedAt := Some (now e),
       fp_checkStatusChangedById := Some u,
       fp_note := (if truthy (ucs_note dto)
                 then Some (trim (str_or (fp_note p) '''' @ '' | '' @ show_opt (ucs_note dto)))
                 else fp_note p), fp_replacedByPaymentId := None\<rparr>) (payments db1)"
    by (simp_all add: db1(2) mark_cheque_def) (simp add: update_payment_def)
  show ?thesis
    using create_receipt_tables(1) [OF db1(1) [unfolded cheque_cashed_def Let_def]] i
    unfolding rows by (auto simp: update_contract_def set_update_row assms(5) split: if_splits)
qed

text \<open>The whole run, then the replaced cheque is cashed: the debt of 10000 is gone, 7000 were received in
  cash and the cheque of 5000 had been replaced.\<close>

lemma demo_double_credit:
  "\<exists>db p c db'. foldE fee_payment_serve demo_run demo_db = Inr db
     \<and> find (\<lambda>p. fp_id p = ''20'' \<and> fp_tenantId p = ''t1'') (payments db) = Some p
     \<and> fp_method p = CHEQUE \<and> fp_checkStatus p = Some CK_REPLACED \<and> fp_amount p = 5000
     \<and> find_row fc_id (fp_feeContractId p) (contracts db) = Some c \<and> fc_balanceRemaining c = 3000
     \<and> updateChequeStatus ''t1'' ''20'' ''staff'' (demo_status CK_CASHED None) (demo_env 5) db = Inr db'"
  by (simp add: demo_run_def demo_defs fee_eval)

theorem replaced_cheque_can_be_cashed_witness:
  "\<exists>db (c :: StudentFeeContract) (db' :: fee_db). foldE fee_payment_serve demo_run demo_db = Inr db
     \<and> fc_balanceRemaining c = 3000
     \<and> (\<forall>d \<in> set (contracts db'). fc_id d = fc_id c \<longrightarrow> fc_balanceRemaining d = 0)"
proof -
  obtain db p c db' where run: "foldE fee_payment_serve demo_run demo_db = Inr db"
    and f: "find (\<lambda>p. fp_id p = ''20'' \<and> fp_tenantId p = ''t1'') (payments db) = Some p"
      "fp_method p = CHEQUE" "fp_checkStatus p = Some CK_REPLACED" and a: "fp_amount p = 5000"
    and c: "find_row fc_id (fp_feeContractId p) (contracts db) = Some c" "fc_balanceRemaining c = 3000"
    and r: "updateChequeStatus ''t1'' ''20'' ''staff'' (demo_status CK_CASHED None) (demo_env 5) db = Inr db'"
    using demo_double_credit by (elim exE conjE) (rule that)
  have s: "ucs_status (demo_status CK_CASHED None) = CK_CASHED" by (simp add: demo_status_def)
  from replaced_cheque_can_be_cashed [OF f c(1) s r] a c(2)
  have "\<forall>d \<in> set (contracts db'). fc_id d = fc_id c \<longrightarrow> fc_balanceRemaining d = 0" by (simp add: clamp0_def)
  with run c(2) show ?thesis by blast
qed

section \<open>Two requests at the same time\<close>

text \<open>The balance is read outside the transaction that writes it.  When two cash payments read the same
  contract before either commits, both receipts are written but the balance only goes down by the amount
  of the one that commits last.\<close>

theorem cash_lost_update:
  assumes "cash_check t d1 db = Inr c" and "cash_check t d2 db = Inr c"
    and "cash_commit t u1 d1 c e1 db = Inr (db1, b1)" and "cash_commit t u2 d2 c e2 db1 = Inr (db2, b2)"
  shows "(\<forall>d \<in> set (contracts db2). fc_id d = fc_id c \<longrightarrow>
            fc_balanceRemaining d = dec2 (fc_balanceRemaining c - cash_amount d2))
    \<and> received (fc_id c) db2 = received (fc_id c) db + dec2 (cash_amount d1) + dec2 (cash_amount d2)"
proof -
  have step: "received (fc_id c) s' = received (fc_id c) s + dec2 (cash_amount d)
      \<and> (\<forall>x \<in> set (contracts s'). fc_id x = fc_id c \<longrightarrow>
            fc_balanceRemaining x = dec2 (fc_balanceRemaining c - cash_amount d))"
    if "cash_commit t u d c e s = Inr (s', b)" for u d e s s' b
    using that unfolding cash_commit_def Let_def
    apply (elim bindE_InrE)
    subgoal premises prems for s1 s4
      using prems(3) received_create [OF prems(2), of "fc_id c"] create_payment_tables(4) [OF prems(1)]
        create_receipt_tables(1) [OF prems(2)]
      by (auto simp: received_eq [of "settle_contract c b x" s1 for b x] received_def settle_contract_def
          update_contract_def set_update_row)
    done
  show ?thesis using step [OF assms(3)] step [OF assms(4)] by simp
qed

lemma demo_race:
  "\<exists>c db1 b1 db2 b2. cash_check ''t1'' (demo_cash 6000) demo_db = Inr c
     \<and> cash_check ''t1'' (demo_cash 2000) demo_db = Inr c \<and> fc_balanceRemaining c = 10000
     \<and> cash_commit ''t1'' ''a'' (demo_cash 6000) c (demo_env 1) demo_db = Inr (db1, b1)
     \<and> cash_commit ''t1'' ''b'' (demo_cash 2000) c (demo_env 2) db1 = Inr (db2, b2)"
  by (simp add: demo_defs fee_eval)

theorem cash_lost_update_witness:
  "\<exists>(c :: StudentFeeContract) db2. fc_balanceRemaining c = 10000 \<and> received (fc_id c) db2 = 8000
     \<and> (\<forall>d \<in> set (contracts db2). fc_id d = fc_id c \<longrightarrow> fc_balanceRemaining d = 8000)"
proof -
  obtain c db1 b1 db2 b2 where r: "cash_check ''t1'' (demo_cash 6000) demo_db = Inr c"
    "cash_check ''t1'' (demo_cash 2000) demo_db = Inr c"
    and b: "fc_balanceRemaining c = 10000"
    and w: "cash_commit ''t1'' ''a'' (demo_cash 6000) c (demo_env 1) demo_db = Inr (db1, b1)"
      "cash_commit ''t1'' ''b'' (demo_cash 2000) c (demo_env 2) db1 = Inr (db2, b2)"
    using demo_race by (elim exE conjE) (rule that)
  have "received (fc_id c) demo_db = 0" by (simp add: received_def demo_db_def)
  with cash_lost_update [OF r w] b
  have "received (fc_id c) db2 = 8000"
    "\<forall>d \<in> set (contracts db2). fc_id d = fc_id c \<longrightarrow> fc_balanceRemaining d = 8000"
    by (simp_all add: demo_cash_def)
  with b show ?thesis by blast
qed

section \<open>Queries\<close>

text \<open>The ledger summary counts every cheque of the tenant once, under its status: the four counts and
  the four amounts are those of the cheques of each status and add up to the totals.\<close>

theorem cheque_stats_partition:
  assumes "cheques = filter (\<lambda>p. fp_tenantId p = tenantId \<and> fp_method p = CHEQUE) (payments db)"
    and "list_all (\<lambda>p. fp_checkStatus p \<noteq> None) cheques"
  shows "let st = getChequeStats tenantId t db in
      bouncedCount st = length (of_status CK_BOUNCED cheques)
    \<and> bouncedAmount st = amount_sum (of_status CK_BOUNCED cheques)
    \<and> pendingAmount st = amount_sum (of_status CK_PENDING cheques)
    \<and> cashedAmount st = amount_sum (of_status CK_CASHED cheques)
    \<and> totalCount st = pendingCount st + cashedCount st + bouncedCount st + replacedCount st
    \<and> totalAmount st = pendingAmount st + cashedAmount st + bouncedAmount st + replacedAmount st
    \<and> dueSoonCount st \<le> pendingCount st"
  using status_partition [OF assms(2)]
  by (simp add: getChequeStats_def Let_def assms(1) [symmetric] stats_fold)

theorem cheque_stats_partition_witness:
  "bouncedCount (getChequeStats ''t1'' 0 demo_cashed_db) = 0 \<and> cashedAmount (getChequeStats ''t1'' 0 demo_cashed_db) = 5000"
proof -
  have c: "[demo_cashed_row] = filter (\<lambda>p. fp_tenantId p = ''t1'' \<and> fp_method p = CHEQUE) (payments demo_cashed_db)"
    by (simp add: demo_cashed_db_def demo_cashed_row_def cheque_row_def)
  show ?thesis
    using cheque_stats_partition [OF c, of 0]
    by (simp add: Let_def) (simp add: demo_cashed_row_def of_status_def amount_sum_def cheque_row_def demo_cheque_def)
qed

text \<open>The cheque register lists exactly the payments its filter selects, each as often as it occurs, by
  due date.\<close>

theorem cheque_register_sorted:
  "mset (listCheques t f db) = mset (filter (cheque_where t f db) (payments db))
   \<and> sorted_wrt due_le (listCheques t f db)"
  by (simp add: listCheques_def sort_due_mset sort_due_sorted)

end
