(* ===== verification/Online_Props.thy ===== *)
theory Online_Props
  imports Online_System Fee_Props
begin

text \<open>
  The properties of the payment service: a lone callback, concurrent callbacks and offline payments.
  The witnesses run on one contract with one installment and a pending transaction for it.
\<close>

section \<open>The instance\<close>

definition demo_installment :: FeeInstallment where
  "demo_installment = \<lparr>fi_id = ''i1'', fi_tenantId = ''t1'', fi_contractId = ''c1'', fi_installmentNumber = 1,
     fi_title = ''first'', fi_dueDate = 1, fi_amount = 4000, fi_paidAmount = 0, fi_status = UNPAID,
     fi_paidAt = None\<rparr>"

definition demo_transaction :: PaymentTransaction where
  "demo_transaction = \<lparr>pt_id = ''x1'', pt_tenantId = ''t1'', pt_contractId = Some ''c1'',
     pt_installmentId = Some ''i1'', pt_payerUserId = ''p1'', pt_gateway = ZARINPAL,
     pt_method = ONLINE_GATEWAY, pt_amount = 4000, pt_status = PENDING, pt_authority = Some ''A0001'',
     pt_refId = None, pt_cardPan = None, pt_trackingCode = ''TRK'', pt_errorMessage = None,
     pt_verifiedAt = None\<rparr>"

definition pay_db :: fee_db where
  "pay_db = demo_db\<lparr>installments := [demo_installment], transactions := [demo_transaction]\<rparr>"

definition demo_call :: "string option \<Rightarrow> nat \<Rightarrow> verify_call" where
  "demo_call status k = \<lparr>vc_tenantId = ''t1'', vc_dto = \<lparr>vp_authority = ''A0001'', vp_status = status\<rparr>,
     vc_redis = True, vc_env = demo_env k\<rparr>"

text \<open>Callback 1 is cancelled by the user, all others report success.\<close>

definition demo_calls :: "nat \<Rightarrow> verify_call" where
  "demo_calls n = demo_call (if n = 1 then Some ''NOK'' else Some ''OK'') n"

lemmas pay_defs = pay_db_def demo_db_def demo_contract_def demo_installment_def demo_transaction_def
  demo_call_def demo_calls_def demo_env_def mock_sandbox_def mock_verify_def

lemmas pay_eval = Let_def find_authority_def receipt_of_def is_nok_def to_upper_def lock_key_def
  verify_commit_def verify_receipt_def settle_by_id_def fail_transaction_def update_transaction_def
  credit_found_def credit_installment_def settle_contract_def update_contract_def update_installment_def
  update_row_def find_row_def clamp0_def create_receipt_def unique_opt_def receipt_number_def
  string_of_int_def string_of_nat.simps digit_char_def payer_name_def is_done_def

lemma pay_inv: "finance_inv pay_db" "backed pay_db"
  by (simp_all add: finance_inv_def ledger_defs contract_ok_def received_def insts_ok_def installment_ok_def
      trans_ok_def receipts_once_def backed_def gateway_receipts_def pay_defs)

definition advance :: "gateway \<Rightarrow> (nat \<Rightarrow> verify_call) \<Rightarrow> nat \<Rightarrow> system_state \<Rightarrow> system_state" where
  "advance gw calls n s = (let (p', db') = verify_step gw (calls n) (fst s n, snd s) in ((fst s)(n := p'), db'))"

lemma reach_advance:
  "system_reach gw calls db0 (fold (advance gw calls) ns (\<lambda>_. AtLock, db0))"
proof (induction ns rule: rev_induct)
  case Nil
  show ?case by (simp add: system_reach.start)
next
  case (snoc n ns)
  obtain ph db where s: "fold (advance gw calls) ns (\<lambda>_. AtLock, db0) = (ph, db)" by fastforce
  obtain p' db' where v: "verify_step gw (calls n) (ph n, db) = (p', db')" by fastforce
  have "system_step gw calls (ph, db) (ph(n := p'), db')" using v by (rule system_step.callback [where n = n])
  moreover have "advance gw calls n (ph, db) = (ph(n := p'), db')" by (simp add: advance_def v)
  ultimately show ?case using snoc.IH by (simp add: s) (rule system_reach.step)
qed

text \<open>Two successful callbacks and a cancelled one, all reading the transaction before any writes.\<close>

definition demo_schedule :: "nat list" where
  "demo_schedule = [0, 0, 1, 1, 2, 2, 0, 2, 0, 2, 1]"

lemma demo_schedule_run:
  "\<exists>ph db. fold (advance mock_sandbox demo_calls) demo_schedule (\<lambda>_. AtLock, pay_db) = (ph, db)
     \<and> map fc_balanceRemaining (contracts db) = [6000] \<and> map fr_amount (receipts db) = [4000]
     \<and> map fr_contractId (receipts db) = [''c1''] \<and> map fc_id (contracts db) = [''c1'']
     \<and> map fc_finalPayableAmount (contracts db) = [10000]
     \<and> map fr_transactionId (receipts db) = [Some ''x1''] \<and> map pt_status (transactions db) = [FAILED]"
  by (simp add: demo_schedule_def advance_def pay_defs pay_eval)

section \<open>Concurrent callbacks\<close>

text \<open>C5: In every reachable state of the system, whatever callbacks of whatever authorities are in flight,
  whichever locks have expired and whatever the desk served meanwhile, each balance lies between zero and
  the debt and the receipts of the contract cover the part of the debt that is gone.\<close>

theorem concurrent_callbacks_account:
  assumes "finance_inv db0" and "backed db0" and "system_reach gw calls db0 (ph, db)" and "c \<in> set (contracts db)"
  shows "0 \<le> fc_balanceRemaining c \<and> fc_balanceRemaining c \<le> fc_finalPayableAmount c
    \<and> fc_finalPayableAmount c - fc_balanceRemaining c \<le> received (fc_id c) db"
proof -
  have "ledger_inv db" using system_reach_inv [OF assms(3,1,2)] by (simp add: system_inv_def finance_inv_def)
  then have "contract_ok c" "fc_finalPayableAmount c \<le> fc_balanceRemaining c + received (fc_id c) db + 0"
    using assms(4) by (auto simp: ledger_defs list_all_iff)
  then show ?thesis by (auto simp: contract_ok_def)
qed

theorem concurrent_callbacks_account_witness:
  "\<exists>(c :: StudentFeeContract) (db :: fee_db). fc_balanceRemaining c = 6000 \<and> 4000 \<le> received (fc_id c) db"
proof -
  obtain ph db where run: "fold (advance mock_sandbox demo_calls) demo_schedule (\<lambda>_. AtLock, pay_db) = (ph, db)"
    and b: "map fc_balanceRemaining (contracts db) = [6000]" and f: "map fc_finalPayableAmount (contracts db) = [10000]"
    using demo_schedule_run by (elim exE conjE) (rule that)
  from b obtain c where c: "contracts db = [c]" "fc_balanceRemaining c = 6000" by (cases "contracts db") simp_all
  have "system_reach mock_sandbox demo_calls pay_db (ph, db)"
    using reach_advance [of mock_sandbox demo_calls pay_db demo_schedule] unfolding run .
  from concurrent_callbacks_account [OF pay_inv this, of c] c f have "4000 \<le> received (fc_id c) db" by simp
  with c(2) show ?thesis by blast
qed

text \<open>C6: In every reachable state no gateway transaction has two receipts, every gateway receipt repeats
  the amount and the contract of its transaction, and a transaction marked \<open>SUCCESSFUL\<close> has a receipt.\<close>

theorem gateway_receipts_backed:
  assumes "finance_inv db0" and "backed db0" and "system_reach gw calls db0 (ph, db)"
  shows "distinct (map fr_transactionId (gateway_receipts db))
    \<and> (\<forall>r \<in> set (gateway_receipts db). \<exists>t \<in> set (transactions db). fr_transactionId r = Some (pt_id t)
          \<and> fr_amount r = pt_amount t \<and> pt_contractId t = Some (fr_contractId r))
    \<and> (\<forall>t \<in> set (transactions db). pt_status t = SUCCESSFUL \<longrightarrow> receipt_of (pt_id t) db \<noteq> None)"
proof -
  have inv: "receipts_once db" "backed db"
    using system_reach_inv [OF assms(3,1,2)] by (simp_all add: system_inv_def finance_inv_def)
  have "map fr_transactionId (gateway_receipts db) = filter (\<lambda>x. x \<noteq> None) (map fr_transactionId (receipts db))"
    by (simp add: gateway_receipts_def filter_map comp_def)
  then have "distinct (map fr_transactionId (gateway_receipts db))" using inv(1) by (simp add: receipts_once_def)
  moreover have "\<exists>t \<in> set (transactions db). fr_transactionId r = Some (pt_id t)
          \<and> fr_amount r = pt_amount t \<and> pt_contractId t = Some (fr_contractId r)" if "r \<in> set (gateway_receipts db)" for r
  proof -
    have "receipt_key r \<in> trans_key ` set (transactions db)" using inv(2) that by (auto simp: backed_def)
    then show ?thesis by (auto simp: receipt_key_def trans_key_def)
  qed
  ultimately show ?thesis using inv(2) by (auto simp: receipt_of_ex backed_def list_all_iff)
qed

theorem gateway_receipts_backed_witness:
  "\<exists>ph db. fold (advance mock_sandbox demo_calls) demo_schedule (\<lambda>_. AtLock, pay_db) = (ph, db)
     \<and> distinct (map fr_transactionId (gateway_receipts db))"
proof -
  obtain ph db where run: "fold (advance mock_sandbox demo_calls) demo_schedule (\<lambda>_. AtLock, pay_db) = (ph, db)"
    using demo_schedule_run by (elim exE conjE) (rule that)
  have "system_reach mock_sandbox demo_calls pay_db (ph, db)"
    using reach_advance [of mock_sandbox demo_calls pay_db demo_schedule] unfolding run .
  from gateway_receipts_backed [OF pay_inv this] run show ?thesis by blast
qed

text \<open>The Redis lock does not serialise callbacks: one that finds the lock taken and the transaction not
  yet successful goes on to read it.  What keeps the money right is the unique \<open>transactionId\<close> of the
  receipts: a commit for a transaction that already has a receipt fails and changes nothing.\<close>

theorem second_commit_rolls_back:
  assumes "receipt_of (pt_id t) db \<noteq> None"
  shows "\<exists>err. verify_step gw call (AtCommit t r, db) = (AtUnlock (Inl err), db)"
proof (cases "verify_commit call t r db")
  case (Inr x)
  obtain db' receipt where x: "x = (db', receipt)" by (cases x)
  from Inr obtain cid where "receipt = verify_receipt call t cid db"
    and c: "create_receipt receipt (settle_by_id (Some cid) (pt_amount t) (verify_credited call t r db)) = Inr db'"
    by (auto simp: x verify_commit_Inr)
  then have "Some (pt_id t) \<notin> set (map fr_transactionId (receipts db))"
    using create_receipt_tables(10) [OF c] by (simp add: unique_opt_def verify_receipt_def)
  moreover have "Some (pt_id t) \<in> set (map fr_transactionId (receipts db))"
    using assms [unfolded receipt_of_iff] by (auto simp: receipted_def gateway_receipts_def)
  ultimately show ?thesis by contradiction
qed simp

lemma demo_receipted:
  "\<exists>ph db. fold (advance mock_sandbox demo_calls) [0, 0, 2, 2, 0, 2, 0] (\<lambda>_. AtLock, pay_db) = (ph, db)
     \<and> ph 2 = AtCommit demo_transaction (mock_verify (demo_env 2) ''A0001'' 4000)
     \<and> receipt_of (pt_id demo_transaction) db \<noteq> None"
  by (simp add: advance_def pay_defs pay_eval)

theorem second_commit_rolls_back_witness:
  "\<exists>ph db err. fold (advance mock_sandbox demo_calls) [0, 0, 2, 2, 0, 2, 0] (\<lambda>_. AtLock, pay_db) = (ph, db)
     \<and> verify_step mock_sandbox (demo_calls 2) (ph 2, db) = (AtUnlock (Inl err), db)"
proof -
  obtain ph db where run: "fold (advance mock_sandbox demo_calls) [0, 0, 2, 2, 0, 2, 0] (\<lambda>_. AtLock, pay_db) = (ph, db)"
    and p: "ph 2 = AtCommit demo_transaction (mock_verify (demo_env 2) ''A0001'' 4000)"
    and r: "receipt_of (pt_id demo_transaction) db \<noteq> None"
    using demo_receipted by (elim exE conjE) (rule that)
  from second_commit_rolls_back [OF r, of mock_sandbox "demo_calls 2" "mock_verify (demo_env 2) ''A0001'' 4000"]
  obtain err where "verify_step mock_sandbox (demo_calls 2) (ph 2, db) = (AtUnlock (Inl err), db)"
    unfolding p by blast
  with run show ?thesis by blast
qed

text \<open>A cancelled callback that has read the transaction before another callback settled it still writes
  \<open>FAILED\<close>: afterwards the transaction is failed although its receipt is issued and the balance is down.\<close>

theorem late_cancel_marks_paid_failed:
  assumes "verify_step gw c1 (AtCommit t r, db) = (AtUnlock (Inr x), db1)"
    and "verify_step gw c2 (AtNok t, db1) = (p, db2)"
  shows "(\<forall>y \<in> set (transactions db2). pt_id y = pt_id t \<longrightarrow> pt_status y = FAILED)
    \<and> receipt_of (pt_id t) db2 \<noteq> None \<and> contracts db2 = contracts db1"
proof -
  from assms(1) obtain db0 receipt where v: "verify_commit c1 t r db = Inr (db0, receipt)"
    and db1: "db1 = db0\<lparr>outbox := outbox db0 @ [PaymentSuccess (vc_tenantId c1) (pt_id t)
        (fr_receiptNumber receipt) (pt_amount t)]\<rparr>"
    by (auto split: sum.splits prod.splits)
  from v obtain cid where "receipt = verify_receipt c1 t cid db"
    and c: "create_receipt receipt (settle_by_id (Some cid) (pt_amount t) (verify_credited c1 t r db)) = Inr db0"
    by (auto simp: verify_commit_Inr)
  then have "receipted (pt_id t) db0"
    using create_receipt_gateway [OF c] by (simp add: receipted_def verify_receipt_def)
  moreover have "db2 = fail_transaction (pt_id t) ''cancelled at the gateway'' db1" using assms(2) by simp
  ultimately show ?thesis
    by (simp add: receipt_of_ex receipted_def db1 fail_transaction_def)
      (auto simp: update_transaction_def set_update_row split: if_splits)
qed

lemma demo_late_cancel:
  "\<exists>db1 db2 x. verify_step mock_sandbox (demo_calls 0)
       (AtCommit demo_transaction (mock_verify (demo_env 0) ''A0001'' 4000), pay_db) = (AtUnlock (Inr x), db1)
     \<and> verify_step mock_sandbox (demo_calls 1) (AtNok demo_transaction, db1)
         = (AtUnlock (Inl (BadRequest ''cancelled by the user'')), db2)"
  by (simp add: pay_defs pay_eval)

theorem late_cancel_marks_paid_failed_witness:
  "\<exists>db1 db2 x. verify_step mock_sandbox (demo_calls 0)
       (AtCommit demo_transaction (mock_verify (demo_env 0) ''A0001'' 4000), pay_db) = (AtUnlock (Inr x), db1)
     \<and> snd (verify_step mock_sandbox (demo_calls 1) (AtNok demo_transaction, db1)) = db2
     \<and> receipt_of (pt_id demo_transaction) db2 \<noteq> None"
proof -
  obtain db1 db2 x where a: "verify_step mock_sandbox (demo_calls 0)
       (AtCommit demo_transaction (mock_verify (demo_env 0) ''A0001'' 4000), pay_db) = (AtUnlock (Inr x), db1)"
    and b: "verify_step mock_sandbox (demo_calls 1) (AtNok demo_transaction, db1)
       = (AtUnlock (Inl (BadRequest ''cancelled by the user'')), db2)"
    using demo_late_cancel by (elim exE conjE) (rule that)
  from late_cancel_marks_paid_failed [OF a b] a b show ?thesis by (metis snd_conv)
qed

section \<open>A lone callback\<close>

text \<open>A callback always comes to an end: the run of its steps reaches \<open>Done\<close>, whatever the gateway says.\<close>

theorem verification_returns: "\<exists>x db'. verifyPayment gw call db = (Done x, db')"
proof -
  have "is_done (fst (verifyPayment gw call db))"
    unfolding verifyPayment_def by (rule verify_run_done) simp
  then show ?thesis by (cases "verifyPayment gw call db") (simp add: is_done_ex)
qed

text \<open>C7: A callback that answers with a new receipt found a transaction of its tenant and authority that was
  not successful, got the gateway's word for its amount, marked it successful, took the amount off the
  contract (down to zero, completing it) and appended exactly that receipt.\<close>

theorem verified_callback_settles:
  assumes "verifyPayment gw call db = (Done (Inr (Verified receipt ref pan)), db')"
  shows "\<exists>t c. find_authority (vc_tenantId call) (vp_authority (vc_dto call)) db = Some t
    \<and> pt_status t \<noteq> SUCCESSFUL
    \<and> pvr_isSuccess (gatewayVerify gw (vc_env call) (vp_authority (vc_dto call)) (pt_amount t))
    \<and> find_row fc_id (fc_id c) (contracts db) = Some c \<and> pt_contractId t = Some (fc_id c)
    \<and> contracts db' = update_row fc_id (fc_id c)
        (\<lambda>d. d\<lparr>fc_balanceRemaining := dec2 (clamp0 (fc_balanceRemaining c - pt_amount t)),
              fc_status := (if clamp0 (fc_balanceRemaining c - pt_amount t) = 0 then FC_COMPLETED else fc_status c)\<rparr>)
        (contracts db)
    \<and> receipts db' = receipts db @ [receipt\<lparr>fr_amount := dec2 (pt_amount t)\<rparr>]
    \<and> fr_transactionId receipt = Some (pt_id t) \<and> fr_contractId receipt = fc_id c
    \<and> (\<forall>x \<in> set (transactions db'). pt_id x = pt_id t \<longrightarrow> pt_status x = SUCCESSFUL)"
proof -
  have six: "(6::nat) = Suc (Suc (Suc (Suc (Suc 1))))" by simp
  have same: "db\<lparr>verifyLocks := verifyLocks db\<rparr> = db" by simp
  from assms obtain ls where run: "verify_run (Suc (Suc (Suc (Suc 1)))) gw call (AtRead, db\<lparr>verifyLocks := ls\<rparr>)
      = (Done (Inr (Verified receipt ref pan)), db')"
    using that [of "verifyLocks db"] that [of "lock_key call # verifyLocks db"]
    unfolding verifyPayment_def six same
    by (simp only: verify_run.simps(2) [of "Suc (Suc (Suc (Suc 1)))"] verify_step.simps(1))
      (auto simp: is_done_def simp del: verify_run.simps split: option.splits if_splits,
        auto simp: is_done_def)
  let ?d = "db\<lparr>verifyLocks := ls\<rparr>"
  from run_from_read [OF run] obtain t where t: "find_authority (vc_tenantId call) (vp_authority (vc_dto call)) ?d = Some t"
    "pt_status t \<noteq> SUCCESSFUL" "pvr_isSuccess (gatewayVerify gw (vc_env call) (vp_authority (vc_dto call)) (pt_amount t))"
    and c: "verify_run (Suc (Suc 1)) gw call
      (AtCommit t (gatewayVerify gw (vc_env call) (vp_authority (vc_dto call)) (pt_amount t)), ?d)
        = (Done (Inr (Verified receipt ref pan)), db')" by blast
  let ?r = "gatewayVerify gw (vc_env call) (vp_authority (vc_dto call)) (pt_amount t)"
  from run_from_commit [OF c] obtain db1 where v: "verify_commit call t ?r ?d = Inr (db1, receipt)"
    and rows: "contracts db' = contracts db1" "receipts db' = receipts db1" "transactions db' = transactions db1"
    by (metis verify_reply.inject(2))
  from v obtain cid where cid: "pt_contractId t = Some cid" "receipt = verify_receipt call t cid ?d"
    and cr: "create_receipt receipt (settle_by_id (Some cid) (pt_amount t) (verify_credited call t ?r ?d)) = Inr db1"
    by (auto simp: verify_commit_Inr)
  have "cid \<in> set (map fc_id (contracts (settle_by_id (Some cid) (pt_amount t) (verify_credited call t ?r ?d))))"
    using create_receipt_tables(11) [OF cr] cid(2) by (simp add: verify_receipt_def)
  then have "cid \<in> set (map fc_id (contracts db))" unfolding settle_by_id_tables by simp
  then obtain ct where ct: "find_row fc_id cid (contracts db) = Some ct" "fc_id ct = cid"
    using find_row_ex find_row_SomeD by metis
  have "contracts db1 = contracts (settle_contract ct (clamp0 (fc_balanceRemaining ct - pt_amount t)) (verify_credited call t ?r ?d))"
    using create_receipt_tables(1) [OF cr] ct(1) by (simp add: settle_by_id_def)
  moreover have "transactions db1 = transactions (verify_credited call t ?r ?d)"
    using create_receipt_rest [OF cr] by simp
  ultimately show ?thesis
    using t cid ct create_receipt_tables(7) [OF cr] rows
    by (intro exI [of _ t] exI [of _ ct])
      (auto simp: find_authority_def verify_receipt_def settle_contract_def update_contract_def
        verify_credited_transactions set_update_row split: if_splits)
qed

lemma demo_lone:
  "\<exists>receipt ref pan db'. verifyPayment mock_sandbox (demo_calls 0) pay_db = (Done (Inr (Verified receipt ref pan)), db')"
proof -
  have six: "(6::nat) = Suc (Suc (Suc (Suc (Suc 1))))" by simp
  show ?thesis unfolding verifyPayment_def six by (simp add: pay_defs pay_eval)
qed

theorem verified_callback_settles_witness:
  "\<exists>db'. snd (verifyPayment mock_sandbox (demo_calls 0) pay_db) = db' \<and> map fc_balanceRemaining (contracts db') = [6000]"
proof -
  obtain receipt ref pan db' where
    r: "verifyPayment mock_sandbox (demo_calls 0) pay_db = (Done (Inr (Verified receipt ref pan)), db')"
    using demo_lone by blast
  from verified_callback_settles [OF r] obtain t c where
    t: "find_authority (vc_tenantId (demo_calls 0)) (vp_authority (vc_dto (demo_calls 0))) pay_db = Some t"
    and c: "find_row fc_id (fc_id c) (contracts pay_db) = Some c"
    and u: "contracts db' = update_row fc_id (fc_id c)
        (\<lambda>d. d\<lparr>fc_balanceRemaining := dec2 (clamp0 (fc_balanceRemaining c - pt_amount t)),
              fc_status := (if clamp0 (fc_balanceRemaining c - pt_amount t) = 0 then FC_COMPLETED else fc_status c)\<rparr>)
        (contracts pay_db)" by blast
  from t have "pt_amount t = 4000" by (auto simp: pay_defs find_authority_def)
  moreover have "c = demo_contract ''c1'' 10000 10000"
    using find_row_SomeD [OF c] by (simp add: pay_db_def demo_db_def)
  ultimately have "map fc_balanceRemaining (contracts db') = [6000]"
    by (simp add: u pay_db_def demo_db_def update_row_def clamp0_def demo_contract_def)
  with r show ?thesis by simp
qed

section \<open>The Zarinpal provider\<close>

text \<open>The bank did not confirm: an error, no connection, or a code other than 100 and 101.\<close>

definition not_confirmed :: "zarinpal_reply \<Rightarrow> bool" where
  "not_confirmed r = (case r of ZarinpalData code _ _ _ \<Rightarrow> code \<noteq> 100 \<and> code \<noteq> 101 | _ \<Rightarrow> True)"

text \<open>The bank did not accept the request: an error, no connection, or a code other than 100.\<close>

definition not_accepted :: "zarinpal_reply \<Rightarrow> bool" where
  "not_accepted r = (case r of ZarinpalData code _ _ _ \<Rightarrow> code \<noteq> 100 | _ \<Rightarrow> True)"

text \<open>C8: In production too, an authority that begins with \<open>A000\<close> is reported as paid when the bank refuses the verification or cannot
  be reached, whatever became of the request; and every request the bank does not accept, by a refusal, another code or no
  connection, gets such an authority.\<close>

theorem zarinpal_accepts_unconfirmed:
  shows "(starts_with ''A000'' authority \<and> not_confirmed (post_verify authority amount)
      \<longrightarrow> pvr_isSuccess (gatewayVerify (zarinpal False post_request post_verify) e authority amount))
    \<and> (not_accepted (post_request amount)
      \<longrightarrow> starts_with ''A000'' (prr_authority (requestPayment (zarinpal False post_request post_verify) e amount)))"
  by (cases "post_verify authority amount"; cases "post_request amount")
    (simp_all add: zarinpal_def zarinpal_verify_def zarinpal_request_def not_confirmed_def not_accepted_def simulated_success_def
      starts_with_def Let_def)

theorem zarinpal_accepts_unconfirmed_witness:
  "pvr_isSuccess (gatewayVerify (zarinpal False (\<lambda>_. ZarinpalData 7 '''' None None) (\<lambda>_ _. ZarinpalErrors None))
     (demo_env 1) ''A0000000'' 500)
   \<and> starts_with ''A000'' (prr_authority (requestPayment (zarinpal False (\<lambda>_. ZarinpalData 7 '''' None None) (\<lambda>_ _. ZarinpalErrors None))
       (demo_env 1) 500))"
proof -
  have "starts_with ''A000'' ''A0000000''" "not_confirmed (ZarinpalErrors None)" "not_accepted (ZarinpalData 7 '''' None None)"
    by (simp_all add: starts_with_def not_confirmed_def not_accepted_def)
  then show ?thesis
    using zarinpal_accepts_unconfirmed [of "''A0000000''" "\<lambda>_ _. ZarinpalErrors None" 500
        "\<lambda>_. ZarinpalData 7 '''' None None" "demo_env 1"] by simp
qed

section \<open>Offline payments\<close>

text \<open>An accepted offline payment closes its installment: paid in full, with one receipt and one successful
  transaction over what was left of it, which is not negative and is taken off the contract.\<close>

theorem offline_payment_closes_installment:
  assumes "finance_inv db" and "recordOfflinePayment t u dto e db = Inr db'"
  shows "\<exists>i. i \<in> set (installments db) \<and> fi_id i = rop_installmentId dto \<and> fi_tenantId i = t
    \<and> 0 \<le> fi_amount i - fi_paidAmount i
    \<and> (\<forall>j \<in> set (installments db'). fi_id j = fi_id i \<longrightarrow> fi_status j = PAID \<and> fi_paidAmount j = fi_amount i)
    \<and> (\<exists>x. transactions db' = transactions db @ [x] \<and> pt_status x = SUCCESSFUL
          \<and> pt_amount x = dec2 (fi_amount i - fi_paidAmount i))
    \<and> (\<exists>r. receipts db' = receipts db @ [r] \<and> fr_amount r = dec2 (fi_amount i - fi_paidAmount i)
          \<and> fr_transactionId r = Some (uuid e 0))
    \<and> contracts db' = contracts (settle_by_id (Some (fi_contractId i)) (fi_amount i - fi_paidAmount i) db)"
proof -
  from assms(2) obtain i where check: "offline_check t dto db = Inr i" and commit: "offline_commit t u dto i e db = Inr db'"
    by (auto simp: recordOfflinePayment_def bindE_Inr)
  note s = offline_check_snapshot [OF check]
  have "installment_ok i" using assms(1) s(1) by (simp add: finance_inv_def insts_ok_def list_all_iff)
  then have pos: "0 \<le> fi_amount i - fi_paidAmount i" using s(4) by (simp add: installment_ok_def)
  have settle: "contracts (settle_by_id cid a d) = contracts (settle_by_id cid a d')"
    if "contracts d = contracts d'" for cid a and d d' :: fee_db
    using that by (auto simp: settle_by_id_def settle_contract_def update_contract_def split: option.split)
  show ?thesis
    using commit unfolding offline_commit_def Let_def
    apply (elim bindE_InrE)
    subgoal premises prems for db1
      using s pos create_transaction_tables [OF prems(1)] create_receipt_tables [OF prems(2)]
      by (intro exI [of _ i])
        (auto simp: update_installment_def set_update_row intro!: settle split: if_splits)
    done
qed

lemma demo_offline:
  "\<exists>db'. recordOfflinePayment ''t1'' ''staff'' \<lparr>rop_installmentId = ''i1'', rop_method = CASH,
     rop_referenceNumber = ''9'', rop_notes = None\<rparr> (demo_env 3) pay_db = Inr db'"
proof -
  let ?dto = "\<lparr>rop_installmentId = ''i1'', rop_method = CASH, rop_referenceNumber = ''9'', rop_notes = None\<rparr>"
  have "offline_check ''t1'' ?dto pay_db = Inr demo_installment"
    by (simp add: offline_check_def pay_db_def) (simp add: demo_installment_def)
  moreover have "\<exists>db'. offline_commit ''t1'' ''staff'' ?dto demo_installment (demo_env 3) pay_db = Inr db'"
    by (simp add: offline_commit_def create_transaction_def fk_ok_def pay_defs pay_eval)
  ultimately show ?thesis by (simp add: recordOfflinePayment_def)
qed

theorem offline_payment_closes_installment_witness:
  "\<exists>db'. recordOfflinePayment ''t1'' ''staff'' \<lparr>rop_installmentId = ''i1'', rop_method = CASH,
     rop_referenceNumber = ''9'', rop_notes = None\<rparr> (demo_env 3) pay_db = Inr db'
     \<and> map fr_amount (receipts db') = [4000]"
proof -
  obtain db' where r: "recordOfflinePayment ''t1'' ''staff'' \<lparr>rop_installmentId = ''i1'', rop_method = CASH,
     rop_referenceNumber = ''9'', rop_notes = None\<rparr> (demo_env 3) pay_db = Inr db'"
    using demo_offline by blast
  from offline_payment_closes_installment [OF pay_inv(1) r] obtain i x where
    i: "i \<in> set (installments pay_db)" and x: "receipts db' = receipts pay_db @ [x]"
      "fr_amount x = dec2 (fi_amount i - fi_paidAmount i)" by (elim exE conjE) (rule that)
  have "i = demo_installment" using i by (simp add: pay_db_def)
  then have "map fr_amount (receipts db') = [4000]"
    using x by (simp add: pay_db_def demo_db_def demo_installment_def)
  with r show ?thesis by (intro exI [of _ db'] conjI)
qed

end
