(* ===== verification/Plan_Props.thy ===== *)
theory Plan_Props
  imports Fee_Plan Online_Props
begin

text \<open>
  The properties of the fee service: allocation of a plan to a group, individual contracts, the parents'
  overview, and whole runs of the finance office.
\<close>

section \<open>A school with two students\<close>

definition demo_plan :: FeePlan where
  "demo_plan = \<lparr>pl_id = ''pl1'', pl_tenantId = ''t1'', pl_academicYearId = ''y1'', pl_title = ''plan'',
     pl_amount = 100, pl_appliesTo = ALL_SCHOOL, pl_educationalLevelId = None, pl_classroomId = None,
     pl_installmentCount = 3, pl_installmentConfig = []\<rparr>"

definition demo_school :: school where
  "demo_school = \<lparr>feePlans = [demo_plan], academicYears = [\<lparr>ay_id = ''y1'', ay_tenantId = ''t1'', ay_name = ''1404''\<rparr>],
     enrollments = map (\<lambda>(st, cl). \<lparr>en_tenantId = ''t1'', en_academicYearId = ''y1'', en_classroomId = cl,
         en_studentId = st, en_active = True\<rparr>) [(''s2'', ''k1''), (''s3'', ''k1''), (''s2'', ''k2'')],
     classroomLevel = (\<lambda>_. None), studentProfiles = [\<lparr>sp_id = ''s2'', sp_tenantId = ''t1'', sp_userId = ''u2'',
         sp_userNationalId = Some ''0012'', sp_studentCode = None, sp_nationalCode = None\<rparr>],
     parentProfiles = [\<lparr>pp_userId = ''p1'', pp_tenantId = ''t1'', pp_children = [''s2'', ''s3'']\<rparr>]\<rparr>"

lemmas school_defs = demo_school_def demo_plan_def

lemma demo_eligible: "eligible_students ''t1'' demo_plan demo_school = [''s2'', ''s3'']"
  by (simp add: eligible_students_def scope_enrollments_def in_scope_def school_defs)

lemma demo_getFeePlan: "getFeePlan ''t1'' ''pl1'' demo_school = Inr demo_plan"
  by (simp add: getFeePlan_def school_defs)

lemma demo_preview:
  "\<exists>p. previewFeePlanAllocation ''t1'' ''pl1'' demo_school demo_db = Inr p \<and> readyStudents p = [''s2'', ''s3'']"
  by (simp add: previewFeePlanAllocation_def demo_getFeePlan Let_def demo_eligible contracted_def)
    (simp add: demo_plan_def demo_db_def demo_contract_def)

section \<open>Group allocation\<close>

lemma first_occurrences_set: "set (first_occurrences seen xs) = set xs - set seen"
  by (induction seen xs rule: first_occurrences.induct) auto

lemma first_occurrences_distinct: "distinct (first_occurrences seen xs)"
  by (induction seen xs rule: first_occurrences.induct) (auto simp: first_occurrences_set)

text \<open>The preview splits the students with an active enrollment in the plan's scope, each counted once,
  into those who have a contract for the plan's year and those who get one.\<close>

theorem preview_partition:
  assumes "getFeePlan t i s = Inr plan" and "previewFeePlanAllocation t i s db = Inr p"
  shows "distinct (readyStudents p @ alreadyAllocated p)
    \<and> set (readyStudents p @ alreadyAllocated p)
        = {en_studentId en | en. en \<in> set (enrollments s) \<and> en_tenantId en = t
             \<and> en_academicYearId en = pl_academicYearId plan \<and> en_active en \<and> in_scope plan s en}
    \<and> list_all (\<lambda>st. \<not> contracted t (pl_academicYearId plan) db st) (readyStudents p)
    \<and> list_all (contracted t (pl_academicYearId plan) db) (alreadyAllocated p)
    \<and> totalEligibleCount p = length (readyStudents p) + length (alreadyAllocated p)"
proof -
  let ?e = "eligible_students t plan s" and ?c = "contracted t (pl_academicYearId plan) db"
  have p: "readyStudents p = filter (\<lambda>st. \<not> ?c st) ?e" "alreadyAllocated p = filter ?c ?e" "totalEligibleCount p = length ?e"
    using assms by (auto simp: previewFeePlanAllocation_def Let_def)
  have d: "distinct ?e" by (simp add: eligible_students_def first_occurrences_distinct)
  have "set ?e = en_studentId ` {en \<in> set (enrollments s). en_tenantId en = t
      \<and> en_academicYearId en = pl_academicYearId plan \<and> en_active en \<and> in_scope plan s en}"
    by (simp add: eligible_students_def first_occurrences_set scope_enrollments_def)
  moreover have "set (readyStudents p @ alreadyAllocated p) = set ?e" using p by auto
  moreover have "distinct (readyStudents p @ alreadyAllocated p)" using p d by auto
  moreover have "length (filter (\<lambda>st. \<not> ?c st) ?e) + length (filter ?c ?e) = length ?e"
    using sum_length_filter_compl [of ?c ?e] by (simp add: add.commute)
  ultimately show ?thesis using p by (auto simp: list_all_iff)
qed

theorem preview_partition_witness:
  "\<exists>p. previewFeePlanAllocation ''t1'' ''pl1'' demo_school demo_db = Inr p \<and> distinct (readyStudents p)"
proof -
  obtain p where p: "previewFeePlanAllocation ''t1'' ''pl1'' demo_school demo_db = Inr p" using demo_preview by blast
  from preview_partition [OF demo_getFeePlan p] have "distinct (readyStudents p)" by simp
  with p show ?thesis by (intro exI conjI)
qed



lemma plan_items_3: "plan_items demo_plan t = [(1, ''down payment'', add_months 0 t, 100 / 3),
    (2, ''installment 2'', add_months 2 t, 100 / 3), (3, ''installment 3'', add_months 4 t, 100 / 3)]"
  by (simp add: plan_items_def demo_plan_def nat_or_def Let_def upt_rec string_of_nat.simps digit_char_def)



lemma allocate_draws:
  assumes "foldE (allocate t plan y draw e) (zip [m..<m + length sts] sts) db = Inr db'"
    and "m \<le> i" and "i < m + length sts"
  shows "(t, fc_contractNumber (plan_contract t plan y [] (draw i) []))
      \<notin> set (map (\<lambda>d. (fc_tenantId d, fc_contractNumber d)) (contracts db))
    \<and> (\<forall>j. i < j \<and> j < m + length sts \<longrightarrow> draw j \<noteq> draw i)"
  using assms
proof (induction sts arbitrary: m db i)
  case Nil
  then show ?case by simp
next
  case (Cons st sts)
  have z: "zip [m..<m + length (st # sts)] (st # sts) = (m, st) # zip [Suc m..<Suc m + length sts] sts"
    by (simp add: upt_rec)
  from Cons.prems(1) obtain s where s: "allocate t plan y draw e (m, st) db = Inr s"
    and r: "foldE (allocate t plan y draw e) (zip [Suc m..<Suc m + length sts] sts) s = Inr db'"
    unfolding z by (auto simp: bindE_Inr)
  let ?b = "m * (length (plan_items plan (now e)) + 1)"
  let ?c = "plan_contract t plan y (uuid e ?b) (draw m) st"
  have cw: "create_with_installments ?c (plan_items plan (now e)) ?b e db = Inr s"
    using s by (simp add: allocate_def Let_def)
  have num: "fc_contractNumber ?c = fc_contractNumber (plan_contract t plan y [] (draw m) [])"
    by (simp add: plan_contract_def)
  have fresh: "(t, fc_contractNumber ?c) \<notin> set (map (\<lambda>d. (fc_tenantId d, fc_contractNumber d)) (contracts db))"
    using cw create_contract_tables(7) by (fastforce simp: create_with_installments_def bindE_Inr plan_contract_def)
  have grown: "set (map (\<lambda>d. (fc_tenantId d, fc_contractNumber d)) (contracts s))
      = insert (t, fc_contractNumber ?c) (set (map (\<lambda>d. (fc_tenantId d, fc_contractNumber d)) (contracts db)))"
    using create_with_installments_appends [OF cw] by (auto simp: plan_contract_def)
  have later: "(t, fc_contractNumber (plan_contract t plan y [] (draw j) []))
      \<notin> set (map (\<lambda>d. (fc_tenantId d, fc_contractNumber d)) (contracts s))
    \<and> (\<forall>k. j < k \<and> k < Suc m + length sts \<longrightarrow> draw k \<noteq> draw j)" if "Suc m \<le> j" "j < Suc m + length sts" for j
    using Cons.IH [OF r that] .
  show ?case
  proof (cases "i = m")
    case True
    have "draw j \<noteq> draw m" if "m < j" "j < Suc m + length sts" for j
      using later [of j] that grown num by (auto simp: plan_contract_def)
    then show ?thesis using fresh True num by (auto simp: plan_contract_def)
  next
    case False
    then have "Suc m \<le> i" "i < Suc m + length sts" using Cons.prems(2,3) by simp_all
    from later [OF this] show ?thesis using grown by auto
  qed
qed

text \<open>The contract numbers of a group are drawn from 9000 values without a retry: when two students of
  the group draw the same number the application of the plan fails for the whole group.\<close>

theorem plan_draw_collision:
  assumes "previewFeePlanAllocation t i s db = Inr p" and "a < b" and "b < length (readyStudents p)"
    and "draw a = draw b"
  shows "\<exists>err. applyFeePlan t i draw e s db = Inl err"
proof (cases "applyFeePlan t i draw e s db")
  case (Inr x)
  obtain db' n where "x = (db', n)" by (cases x)
  with Inr have "applyFeePlan t i draw e s db = Inr (db', n)" by simp
  then obtain plan q where "getFeePlan t i s = Inr plan" and q: "previewFeePlanAllocation t i s db = Inr q"
    and "readyStudents q \<noteq> []" "n = length (readyStudents q)"
    and f: "foldE (allocate t plan (year_name plan s) draw e) (zip [0..<0 + length (readyStudents q)] (readyStudents q)) db = Inr db'"
    by (rule applyFeePlan_Inr)
  have "p = q" using assms(1) q by simp
  then show ?thesis using allocate_draws [OF f, of a] assms(2-4) by auto
qed simp

theorem plan_draw_collision_witness:
  "\<exists>err. applyFeePlan ''t1'' ''pl1'' (\<lambda>_. 5) (demo_env 1) demo_school demo_db = Inl err"
proof -
  obtain p where p: "previewFeePlanAllocation ''t1'' ''pl1'' demo_school demo_db = Inr p"
    and r: "readyStudents p = [''s2'', ''s3'']" using demo_preview by (elim exE conjE) (rule that)
  show ?thesis by (rule plan_draw_collision [OF p, of 0 1]) (simp_all add: r)
qed

lemma round_away_bounds: "y - 1 / 2 \<le> of_int (round_away y)" "of_int (round_away y) \<le> y + 1 / 2"
  unfolding round_away_def by (cases "y < 0"; simp; linarith)+

lemma dec2_bounds: "x - 1 / 200 \<le> dec2 x" "dec2 x \<le> x + 1 / 200"
  using round_away_bounds [of "x * 100"] by (simp_all add: dec2_def)

lemma dec2_sum_bounds:
  "sum_list xs - of_nat (length xs) / 200 \<le> sum_list (map dec2 xs)
   \<and> sum_list (map dec2 xs) \<le> sum_list xs + of_nat (length xs) / 200"
proof (induction xs)
  case (Cons x xs)
  have "of_nat (length (x # xs)) / 200 = (of_nat (length xs) / 200 + 1 / 200 :: rat)"
    by (simp add: add_divide_distrib)
  with Cons dec2_bounds [of x] show ?case
    by (simp only: list.map sum_list.Cons) linarith
qed simp

lemma even_amounts: "pl_installmentConfig plan = [] \<Longrightarrow>
    plan_amounts plan t = map dec2 (replicate (nat_or (pl_installmentCount plan) 1)
       (pl_amount plan / of_nat (nat_or (pl_installmentCount plan) 1)))"
  by (simp add: plan_amounts_def plan_items_def Let_def comp_def map_replicate_const)

text \<open>An even split is off by at most half a hundredth per installment, and it is not exact: 100 split in
  three asks for 99.99 only, so paying every installment never completes the contract.\<close>

theorem even_split_error:
  assumes "pl_installmentConfig plan = []"
  shows "\<bar>sum_list (plan_amounts plan t) - pl_amount plan\<bar> \<le> of_nat (nat_or (pl_installmentCount plan) 1) / 200"
proof -
  let ?n = "nat_or (pl_installmentCount plan) 1"
  let ?xs = "replicate ?n (pl_amount plan / of_nat ?n)"
  have "sum_list ?xs = pl_amount plan" by (simp add: sum_list_replicate nat_or_def)
  moreover have "plan_amounts plan t = map dec2 ?xs" by (rule even_amounts [OF assms])
  moreover have "length ?xs = ?n" by simp
  ultimately show ?thesis using dec2_sum_bounds [of ?xs] by (simp only: abs_le_iff) linarith
qed

theorem even_split_error_witness:
  "\<bar>sum_list (plan_amounts demo_plan 0) - 100\<bar> \<le> 3 / 200 \<and> sum_list (plan_amounts demo_plan 0) = 9999 / 100"
proof -
  have e: "pl_installmentConfig demo_plan = []" by (simp add: demo_plan_def)
  have "dec2 (100 / 3) = 3333 / 100" by (simp add: dec2_def round_away_def floor_unique)
  then have "sum_list (plan_amounts demo_plan 0) = 9999 / 100"
    by (simp add: even_amounts [OF e]) (simp add: demo_plan_def nat_or_def numeral_3_eq_3)
  then show ?thesis using even_split_error [OF e, of 0] by (simp add: demo_plan_def nat_or_def)
qed

section \<open>Individual contracts\<close>

text \<open>C10: An accepted contract is for a student of the tenant who had none that year, under a new number; its
  debt is the total less the discount, all of it open; with it go the installments of the request, one unpaid row for each, in
  order, with its number, title, due date and amount (at two decimals); the amounts asked for add up to the debt within 1.\<close>

theorem contract_created:
  assumes "createContract t dto e s db = Inr db'"
  shows "\<exists>c. contracts db' = contracts db @ [c] \<and> fc_tenantId c = t
    \<and> fc_studentId c \<in> set (map sp_id (filter (\<lambda>p. sp_tenantId p = t) (studentProfiles s)))
    \<and> \<not> contracted t (fc_academicYearId c) db (fc_studentId c)
    \<and> fc_contractNumber c \<notin> set (map fc_contractNumber (filter (\<lambda>d. fc_tenantId d = t) (contracts db)))
    \<and> fc_balanceRemaining c = dec2 (contract_payable dto) \<and> fc_finalPayableAmount c = fc_balanceRemaining c
    \<and> 0 \<le> fc_balanceRemaining c
    \<and> (\<exists>new. installments db' = installments db @ new
         \<and> map (\<lambda>i. (fi_installmentNumber i, fi_title i, fi_dueDate i, fi_amount i)) new
             = map (\<lambda>i. (cii_installmentNumber i, cii_title i, cii_dueDate i, dec2 (cii_amount i))) (cfc_installments dto)
         \<and> (\<forall>i \<in> set new. fi_contractId i = fc_id c \<and> fi_tenantId i = t \<and> fi_paidAmount i = 0 \<and> fi_status i = UNPAID))
    \<and> \<bar>sum_list (map cii_amount (cfc_installments dto)) - contract_payable dto\<bar> \<le> 1"
proof -
  note c = createContract_Inr [OF assms]
  obtain st where f: "find (\<lambda>p. sp_id p = cfc_studentId dto \<and> sp_tenantId p = t) (studentProfiles s) = Some st"
    using assms by (auto simp: createContract_def split: option.splits)
  have st: "cfc_studentId dto \<in> set (map sp_id (filter (\<lambda>p. sp_tenantId p = t) (studentProfiles s)))"
    using find_Some_iff_mem [OF f] by force
  obtain db1 where db1: "create_contract (contract_row t dto e) db = Inr db1"
    using c(3) by (auto simp: create_with_installments_def bindE_Inr)
  show ?thesis
    using c(1,2) st create_contract_tables(7,8) [OF db1] create_with_installments_appends [OF c(3)]
    by (auto simp: contract_row_def dec2_nonneg image_iff)
qed

definition demo_contract_dto :: CreateFeeContractDto where
  "demo_contract_dto = \<lparr>cfc_academicYearId = ''y1'', cfc_studentId = ''s2'', cfc_contractNumber = ''FEE-2'',
     cfc_totalAmount = 9000, cfc_discountAmount = Some 1000, cfc_discountReason = None, cfc_notes = None,
     cfc_feePlanId = None, cfc_isIndividual = None,
     cfc_installments = [\<lparr>cii_installmentNumber = 1, cii_title = ''all'', cii_dueDate = 1, cii_amount = 8000\<rparr>]\<rparr>"

lemma demo_create: "\<exists>db'. createContract ''t1'' demo_contract_dto (demo_env 2) demo_school demo_db = Inr db'"
  by (simp add: createContract_def contracted_def create_with_installments_def create_contract_def
      create_installment_def new_installment_def contract_row_def contract_payable_def demo_contract_dto_def
      demo_school_def demo_db_def demo_contract_def demo_env_def string_of_nat.simps digit_char_def)

theorem contract_created_witness:
  "\<exists>db' c. createContract ''t1'' demo_contract_dto (demo_env 2) demo_school demo_db = Inr db'
     \<and> contracts db' = contracts demo_db @ [c] \<and> fc_balanceRemaining c = 8000"
proof -
  obtain db' where c: "createContract ''t1'' demo_contract_dto (demo_env 2) demo_school demo_db = Inr db'"
    using demo_create by (elim exE) (rule that)
  have "dec2 (contract_payable demo_contract_dto) = 8000" by (simp add: contract_payable_def demo_contract_dto_def)
  then show ?thesis using contract_created [OF c] c by (elim exE conjE) (intro exI conjI, assumption+, simp)
qed

section \<open>The parents' overview\<close>

text \<open>A parent is shown the contracts of one of the children linked to the account, in the parent's tenant,
  and of no other student, whatever student the request names.\<close>

theorem parent_sees_own_children:
  assumes "getParentFeeOverview t user target s db = Inr (child, cs)"
  shows "\<exists>p \<in> set (parentProfiles s). pp_userId p = user \<and> pp_tenantId p = t \<and> child \<in> set (pp_children p)
    \<and> set cs = {c \<in> set (contracts db). fc_tenantId c = t \<and> fc_studentId c = child}"
proof -
  from assms obtain p where p: "find (\<lambda>p. pp_userId p = user \<and> pp_tenantId p = t) (parentProfiles s) = Some p"
    by (auto simp: getParentFeeOverview_def getParentChildren_def bindE_Inr split: option.splits)
  have "child \<in> set (pp_children p) \<and> set cs = {c \<in> set (contracts db). fc_tenantId c = t \<and> fc_studentId c = child}"
    using assms p find_Some_iff_mem [of _ "pp_children p"]
    by (fastforce simp: getParentFeeOverview_def getParentChildren_def Let_def split: list.splits option.splits if_splits)
  then show ?thesis using find_Some_iff_mem [OF p] by blast
qed

theorem parent_sees_own_children_witness:
  "\<exists>child cs. getParentFeeOverview ''t1'' ''p1'' (Some ''s1'') demo_school demo_db = Inr (child, cs)
     \<and> child \<in> {''s2'', ''s3''}"
proof -
  have "\<exists>child cs. getParentFeeOverview ''t1'' ''p1'' (Some ''s1'') demo_school demo_db = Inr (child, cs)"
    by (simp add: getParentFeeOverview_def getParentChildren_def demo_school_def Let_def)
  then obtain child cs where r: "getParentFeeOverview ''t1'' ''p1'' (Some ''s1'') demo_school demo_db = Inr (child, cs)"
    by (elim exE) (rule that)
  from parent_sees_own_children [OF r] have "child \<in> {''s2'', ''s3''}" by (simp add: demo_school_def)
  with r show ?thesis by (intro exI conjI)
qed

section \<open>Whole runs of the finance office\<close>

text \<open>C11: Through any run of contracts, plan allocations, cash, cheques and offline payments, debts only ever
  get added, and the balance of every contract, old or new, lies between zero and its debt and is
  accounted for by its receipts.\<close>

theorem office_run_accounts:
  assumes "list_all (office_valid s) rs" and "office_inv db" and "foldE (office_serve gw s) rs db = Inr db'"
    and "c \<in> set (contracts db')"
  shows "0 \<le> fc_balanceRemaining c \<and> fc_balanceRemaining c \<le> fc_finalPayableAmount c
    \<and> fc_finalPayableAmount c - fc_balanceRemaining c \<le> received (fc_id c) db'
    \<and> (\<exists>new. debts db' = debts db @ new)"
  using finance_office.run_accounts [OF assms] finance_office.run_debts [OF assms(3)] by blast

lemma demo_office_inv: "office_inv demo_db"
  by (simp add: office_inv_def receipts_fk_def finance_inv_def demo_inv insts_ok_def trans_ok_def receipts_once_def)
    (simp add: demo_db_def)

theorem office_run_accounts_witness:
  "\<exists>db. foldE (office_serve mock_sandbox demo_school) [NewContract ''t1'' demo_contract_dto (demo_env 2)] demo_db = Inr db
     \<and> (\<exists>new. debts db = debts demo_db @ new)"
proof -
  obtain db where c: "createContract ''t1'' demo_contract_dto (demo_env 2) demo_school demo_db = Inr db"
    using demo_create by (elim exE) (rule that)
  then have r: "foldE (office_serve mock_sandbox demo_school) [NewContract ''t1'' demo_contract_dto (demo_env 2)] demo_db = Inr db"
    by simp
  have v: "list_all (office_valid demo_school) [NewContract ''t1'' demo_contract_dto (demo_env 2)]"
    by (simp add: demo_contract_dto_def)
  have "contracts db \<noteq> []" using create_with_installments_appends [OF createContract_Inr(3) [OF c]] by auto
  then obtain x where "x \<in> set (contracts db)" by (cases "contracts db") auto
  from office_run_accounts [OF v demo_office_inv r this] have "\<exists>new. debts db = debts demo_db @ new" by simp
  with r show ?thesis by (intro exI [of _ db] conjI)
qed

end
