(* ===== verification/Import_Props.thy ===== *)
theory Import_Props
  imports Fee_Import Plan_Props
begin

text \<open>
  The properties of the spreadsheet imports: what a preview lets through, what confirmed rows do to the
  ledger, and what happens to rows no preview has seen.
\<close>

section \<open>Previews\<close>

definition demo_sheet :: "cell list list" where
  "demo_sheet = [[TextCell ''id''], [TextCell '' 0012 '', TextCell ''36,000,000.50'', NumberCell 5],
     [Blank], [TextCell ''99'', NumberCell 1]]"

lemma demo_parse: "cell_amount (TextCell ''36,000,000.50'') = Some (72000001 / 2)"
  by code_simp

lemma demo_preview_ok: "\<exists>p. previewAllocationExcel ''t1'' ''y1'' demo_sheet demo_school demo_db = Inr p"
proof -
  have "\<exists>h r rows. demo_sheet = h # r # rows" by (simp add: demo_sheet_def)
  then obtain h r rows where sheet: "demo_sheet = h # r # rows" by (elim exE) (rule that)
  obtain ok bad where "check_rows (check_allocation_row ''t1'' ''y1'' demo_school demo_db) 2 (r # rows) = (ok, bad)"
    by (cases "check_rows (check_allocation_row ''t1'' ''y1'' demo_school demo_db) 2 (r # rows)") (rule that)
  then show ?thesis unfolding previewAllocationExcel_def preview_rows_def sheet by (simp del: check_rows.simps)
qed

text \<open>C12: The preview of a fee sheet accepts a row only for a student of the tenant without a contract in that
  year, with a positive amount and a discount between zero and the amount; every row that is not blank
  is either accepted or reported, once, under its row number in the sheet.\<close>

theorem preview_allocation_sound:
  assumes "previewAllocationExcel t y sheet s db = Inr p"
  shows "list_all (\<lambda>(_, r). allocation_row_ok t y s db r) (ip_valid p)
    \<and> length (ip_valid p) + length (ip_errors p) = length (filter (\<lambda>row. \<not> blank_row row) (tl sheet))
    \<and> ip_total p = length sheet - 1
    \<and> distinct (map fst (ip_valid p) @ map fst (ip_errors p))
    \<and> (\<forall>j \<in> set (map fst (ip_valid p) @ map fst (ip_errors p)). 2 \<le> j \<and> j \<le> length sheet)"
proof -
  from assms obtain h r rows ok bad where sheet: "sheet = h # r # rows"
    and c: "check_rows (check_allocation_row t y s db) 2 (r # rows) = (ok, bad)"
    and p: "p = \<lparr>ip_total = length (r # rows), ip_valid = ok, ip_errors = bad\<rparr>"
    by (auto simp: previewAllocationExcel_def preview_rows_def Let_def split: list.splits prod.splits)
  have "list_all (\<lambda>(_, r). allocation_row_ok t y s db r) ok
    \<and> length ok + length bad = length (filter (\<lambda>row. \<not> blank_row row) (r # rows))
    \<and> distinct (map fst ok @ map fst bad)
    \<and> (\<forall>j \<in> set (map fst ok @ map fst bad). 2 \<le> j \<and> j < 2 + length (r # rows))"
    by (rule check_rows_ok [OF c]) (rule check_allocation_row_ok)
  then show ?thesis unfolding sheet p by (simp add: less_Suc_eq_le)
qed

theorem preview_allocation_sound_witness:
  "\<exists>p. previewAllocationExcel ''t1'' ''y1'' demo_sheet demo_school demo_db = Inr p
     \<and> length (ip_valid p) + length (ip_errors p) = 2"
proof -
  obtain p where p: "previewAllocationExcel ''t1'' ''y1'' demo_sheet demo_school demo_db = Inr p"
    using demo_preview_ok by (elim exE) (rule that)
  from preview_allocation_sound [OF p] have "length (ip_valid p) + length (ip_errors p) = 2"
    by (simp add: demo_sheet_def blank_row_def)
  with p show ?thesis by (intro exI conjI)
qed

section \<open>Confirmed rows\<close>

text \<open>Imports of rows whose amounts are not negative and whose discounts do not exceed them keep the books:
  debts are only added, and every balance lies between zero and its debt, covered by receipts.\<close>

theorem import_run_accounts:
  assumes "list_all (import_valid s) rs" and "office_inv db" and "foldE (import_serve s) rs db = Inr db'"
    and "c \<in> set (contracts db')"
  shows "0 \<le> fc_balanceRemaining c \<and> fc_balanceRemaining c \<le> fc_finalPayableAmount c
    \<and> fc_finalPayableAmount c - fc_balanceRemaining c \<le> received (fc_id c) db'
    \<and> (\<exists>new. debts db' = debts db @ new)"
  using fee_imports.run_accounts [OF assms] fee_imports.run_debts [OF assms(3)] by blast

definition demo_payment_row :: "rat \<Rightarrow> ImportFeePaymentRowDto" where
  "demo_payment_row a = \<lparr>ifp_identifier = ''0012'', ifp_method = ''CASH'', ifp_amount = a,
     ifp_checkNumber = None, ifp_checkSayadId = None, ifp_bankName = None, ifp_notes = None\<rparr>"

definition import_db :: fee_db where
  "import_db = demo_db\<lparr>contracts := [(demo_contract ''c1'' 10000 10000)\<lparr>fc_studentId := ''s2''\<rparr>]\<rparr>"

lemma import_db_inv: "office_inv import_db"
  by (simp add: office_inv_def receipts_fk_def finance_inv_def insts_ok_def trans_ok_def receipts_once_def
      ledger_defs contract_ok_def received_def import_db_def demo_db_def demo_contract_def)

lemma demo_import: "\<not> isl (confirmPaymentImport ''t1'' ''u'' [demo_payment_row 4000] (\<lambda>_. 0) (demo_env 1) demo_school import_db)"
  by code_simp

lemma demo_import_serve:
  "\<exists>db. foldE (import_serve demo_school) [ImportPayments ''t1'' ''u'' [demo_payment_row 4000] (\<lambda>_. 0) (demo_env 1)] import_db = Inr db"
  using demo_import
  by (cases "confirmPaymentImport ''t1'' ''u'' [demo_payment_row 4000] (\<lambda>_. 0) (demo_env 1) demo_school import_db") auto

theorem import_run_accounts_witness:
  "\<exists>db. foldE (import_serve demo_school) [ImportPayments ''t1'' ''u'' [demo_payment_row 4000] (\<lambda>_. 0) (demo_env 1)] import_db = Inr db
     \<and> (\<exists>new. debts db = debts import_db @ new)"
proof -
  obtain db where r: "foldE (import_serve demo_school)
      [ImportPayments ''t1'' ''u'' [demo_payment_row 4000] (\<lambda>_. 0) (demo_env 1)] import_db = Inr db"
    using demo_import_serve by (elim exE) (rule that)
  have v: "list_all (import_valid demo_school) [ImportPayments ''t1'' ''u'' [demo_payment_row 4000] (\<lambda>_. 0) (demo_env 1)]"
    by (simp add: valid_payment_row_def demo_payment_row_def)
  obtain new where "debts db = debts import_db @ new" using fee_imports.run_debts [OF r] by (elim exE) (rule that)
  then have "contracts db \<noteq> []" by (auto simp: debts_def import_db_def)
  then obtain x where "x \<in> set (contracts db)" by (cases "contracts db") auto
  from import_run_accounts [OF v import_db_inv r this] have "\<exists>new. debts db = debts import_db @ new" by simp
  with r show ?thesis by (intro exI [of _ db] conjI)
qed

text \<open>The confirmation does not check the rows it gets: a cash row with a negative amount is booked, and it
  raises the balance by that amount, above the debt when nothing had been paid.\<close>

theorem import_negative_cash_accepted:
  assumes "import_cash t u c row k d e db = Inr db'" and "ifp_amount row < 0" and "contract_ok c"
  shows "(\<forall>x \<in> set (contracts db'). fc_id x = fc_id c \<longrightarrow>
            fc_balanceRemaining x = dec2 (fc_balanceRemaining c - ifp_amount row)
            \<and> fc_balanceRemaining c \<le> fc_balanceRemaining x)
    \<and> received (fc_id c) db' = received (fc_id c) db + dec2 (ifp_amount row)"
proof -
  have "0 \<le> fc_balanceRemaining c" "is_money (fc_balanceRemaining c)" using assms(3) by (simp_all add: contract_ok_def)
  then have pos: "clamp0 (fc_balanceRemaining c - ifp_amount row) = fc_balanceRemaining c - ifp_amount row"
    and le: "fc_balanceRemaining c \<le> dec2 (fc_balanceRemaining c - ifp_amount row)"
    using assms(2) dec2_ge_money by (simp_all add: clamp0_def)
  show ?thesis
    using assms(1) unfolding import_cash_def Let_def pos
    apply (elim bindE_InrE)
    subgoal premises prems for db1
      using received_create [OF prems(2), of "fc_id c"] create_payment_tables(4) [OF prems(1)]
        create_receipt_tables(1) [OF prems(2)] le
      by (auto simp: received_eq [of "settle_contract c b db1" db1 for b] received_def settle_contract_def
          update_contract_def set_update_row)
    done
qed

lemma demo_negative: "\<not> isl (import_cash ''t1'' ''u'' (demo_contract ''c1'' 10000 10000) (demo_payment_row (- 500)) 0 0 (demo_env 1) demo_db)"
  by code_simp

theorem import_negative_cash_accepted_witness:
  "\<exists>db'. import_cash ''t1'' ''u'' (demo_contract ''c1'' 10000 10000) (demo_payment_row (- 500)) 0 0 (demo_env 1) demo_db = Inr db'
     \<and> received ''c1'' db' = - 500"
proof -
  obtain db' where r: "import_cash ''t1'' ''u'' (demo_contract ''c1'' 10000 10000) (demo_payment_row (- 500)) 0 0 (demo_env 1) demo_db = Inr db'"
    using demo_negative
    by (cases "import_cash ''t1'' ''u'' (demo_contract ''c1'' 10000 10000) (demo_payment_row (- 500)) 0 0 (demo_env 1) demo_db") auto
  have n: "ifp_amount (demo_payment_row (- 500)) < 0" by (simp add: demo_payment_row_def)
  have ok: "contract_ok (demo_contract ''c1'' 10000 10000)" by (simp add: contract_ok_def demo_contract_def)
  have "dec2 (- 500) = - 500" by (simp add: dec2_money is_money_of_int [of "- 500", simplified])
  then have "received ''c1'' db' = - 500"
    using import_negative_cash_accepted [OF r n ok]
    by (simp add: demo_contract_def demo_payment_row_def received_def demo_db_def)
  with r show ?thesis by (intro exI conjI)
qed

end
