(* ===== verification/Jalali.thy ===== *)
theory Jalali
  imports Calendar
begin

text \<open>
  The Jalali date helpers (\<open>common/utils/jalali.util.ts\<close>).

  Texts here carry Persian letters and digits, so a text is the list of its UTF-16 code units.  The
  conversion itself is the package \<open>jalaali-js\<close>, which is not part of the repository: its four functions
  are the record \<open>jalaali\<close>, an argument of the definitions.  The offset of Tehran from UTC at a time, in
  milliseconds, comes from the time zone database of the runtime and is an argument as well.
\<close>

section \<open>Texts\<close>

type_synonym utext = "nat list"

definition PERSIAN_DIGITS :: "nat \<Rightarrow> nat" where
  "PERSIAN_DIGITS i = 1776 + i"

definition ARABIC_DIGITS :: "nat \<Rightarrow> nat" where
  "ARABIC_DIGITS i = 1632 + i"

definition PERSIAN_MONTH_NAMES :: "utext list" where
  "PERSIAN_MONTH_NAMES =
     [[1601, 1585, 1608, 1585, 1583, 1740, 1606],
      [1575, 1585, 1583, 1740, 1576, 1607, 1588, 1578],
      [1582, 1585, 1583, 1575, 1583],
      [1578, 1740, 1585],
      [1605, 1585, 1583, 1575, 1583],
      [1588, 1607, 1585, 1740, 1608, 1585],
      [1605, 1607, 1585],
      [1570, 1576, 1575, 1606],
      [1570, 1584, 1585],
      [1583, 1740],
      [1576, 1607, 1605, 1606],
      [1575, 1587, 1601, 1606, 1583]]"

text \<open>\<open>replace\<close> of every occurrence of one code unit by another.\<close>

definition replace_unit :: "nat \<Rightarrow> nat \<Rightarrow> utext \<Rightarrow> utext" where
  "replace_unit a b s = map (\<lambda>c. if c = a then b else c) s"

text \<open>The white space \<open>String.prototype.trim\<close> removes.\<close>

definition is_uspace :: "nat \<Rightarrow> bool" where
  "is_uspace c \<longleftrightarrow> (9 \<le> c \<and> c \<le> 13) \<or> c = 32 \<or> c = 160 \<or> c = 5760 \<or> (8192 \<le> c \<and> c \<le> 8202)
     \<or> c = 8232 \<or> c = 8233 \<or> c = 8239 \<or> c = 8287 \<or> c = 12288 \<or> c = 65279"

definition utrim :: "utext \<Rightarrow> utext" where
  "utrim s = rev (dropWhile is_uspace (rev (dropWhile is_uspace s)))"

text \<open>\<open>String(n)\<close> and \<open>padStart(2, '0')\<close> of a natural number.\<close>

fun udigits :: "nat \<Rightarrow> utext" where
  "udigits n = (if n < 10 then [48 + n] else udigits (n div 10) @ [48 + n mod 10])"

declare udigits.simps [simp del]

definition pad2 :: "nat \<Rightarrow> utext" where
  "pad2 n = replicate (2 - length (udigits n)) 48 @ udigits n"

definition normalizePersianDigits :: "utext option \<Rightarrow> utext" where
  "normalizePersianDigits str = (case str of None \<Rightarrow> []
     | Some s \<Rightarrow> utrim (foldl (\<lambda>r i. replace_unit (ARABIC_DIGITS i) (48 + i) (replace_unit (PERSIAN_DIGITS i) (48 + i) r))
         s [0..<10]))"

definition toPersianDigits :: "utext option \<Rightarrow> utext" where
  "toPersianDigits str = (case str of None \<Rightarrow> []
     | Some s \<Rightarrow> foldl (\<lambda>r i. replace_unit (48 + i) (PERSIAN_DIGITS i) r) s [0..<10])"

section \<open>Dates\<close>

record jalaali =
  jalaaliMonthLength :: "nat \<Rightarrow> nat \<Rightarrow> nat"
  isValidJalaaliDate :: "nat \<Rightarrow> nat \<Rightarrow> nat \<Rightarrow> bool"
  toGregorian :: "nat \<Rightarrow> nat \<Rightarrow> nat \<Rightarrow> int \<times> int \<times> int"
  toJalaali :: "int \<Rightarrow> int \<Rightarrow> int \<Rightarrow> nat \<times> nat \<times> nat"

definition udigit :: "nat \<Rightarrow> bool" where
  "udigit c \<longleftrightarrow> 48 \<le> c \<and> c \<le> 57"

definition unumber :: "utext \<Rightarrow> nat" where
  "unumber s = foldl (\<lambda>n c. 10 * n + (c - 48)) 0 s"

definition usep :: "nat \<Rightarrow> bool" where
  "usep c \<longleftrightarrow> c = 45 \<or> c = 47"

text \<open>\<open>0?[1-9]|1[0-2]\<close> and \<open>0?[1-9]|[12]\d|3[01]\<close>\<close>

fun month_group :: "utext \<Rightarrow> bool" where
  "month_group [a] = (49 \<le> a \<and> a \<le> 57)"
| "month_group [a, b] = (a = 48 \<and> 49 \<le> b \<and> b \<le> 57 \<or> a = 49 \<and> 48 \<le> b \<and> b \<le> 50)"
| "month_group _ = False"

fun day_group :: "utext \<Rightarrow> bool" where
  "day_group [a] = (49 \<le> a \<and> a \<le> 57)"
| "day_group [a, b] = (a = 48 \<and> 49 \<le> b \<and> b \<le> 57 \<or> (a = 49 \<or> a = 50) \<and> udigit b \<or> a = 51 \<and> (b = 48 \<or> b = 49))"
| "day_group _ = False"

text \<open>
  The regular expression both functions match: four digits, a separator, the month, a separator, the day.
  A separator is not a digit, so the month ends at the first one.
\<close>

definition match_date :: "utext \<Rightarrow> (nat \<times> nat \<times> nat) option" where
  "match_date s =
     (let year = take 4 s; r = drop 4 s; month = takeWhile udigit (tl r); r' = dropWhile udigit (tl r); day = tl r'
      in if length year = 4 \<and> list_all udigit year \<and> r \<noteq> [] \<and> usep (hd r) \<and> month_group month
            \<and> r' \<noteq> [] \<and> usep (hd r') \<and> day_group day
         then Some (unumber year, unumber month, unumber day) else None)"

definition isValidJalaliDate :: "jalaali \<Rightarrow> utext \<Rightarrow> bool" where
  "isValidJalaliDate lib dateStr =
     (if dateStr = [] then False
      else (case match_date (normalizePersianDigits (Some dateStr)) of
        None \<Rightarrow> False
      | Some (jy, jm, jd) \<Rightarrow>
          if jy < 1200 \<or> jy > 1700 then False
          else if jm < 1 \<or> jm > 12 then False
          else if jd < 1 \<or> jd > jalaaliMonthLength lib jy jm then False
          else isValidJalaaliDate lib jy jm jd))"

datatype day_part = DayStart | Noon | DayEnd

text \<open>\<open>Date.UTC\<close> of a day (which may be 0) and a time of day; years below 100 count from 1900.\<close>

definition date_utc :: "int \<Rightarrow> int \<Rightarrow> int \<Rightarrow> int \<Rightarrow> time" where
  "date_utc y m d ms = days_from_civil (if 0 \<le> y \<and> y \<le> 99 then 1900 + y else y) m d * ms_per_day + ms"

definition jalaliToGregorianDate :: "jalaali \<Rightarrow> utext \<Rightarrow> day_part \<Rightarrow> string + time" where
  "jalaliToGregorianDate lib jalaliStr part =
     (let normalized = normalizePersianDigits (Some jalaliStr)
      in case match_date normalized of
           None \<Rightarrow> Inl ''invalid Jalali date''
         | Some (jy, jm, jd) \<Rightarrow>
             if \<not> isValidJalaliDate lib normalized then Inl ''invalid day or month''
             else (let (gy, gm, gd) = toGregorian lib jy jm jd
                   in Inr (case part of
                        DayStart \<Rightarrow> date_utc gy gm (gd - 1) 73800000
                      | DayEnd \<Rightarrow> date_utc gy gm gd 73799999
                      | Noon \<Rightarrow> date_utc gy gm gd 30600000)))"

record StandardJalaliDateResponse =
  sj_gregorian :: time
  sj_jalali :: utext
  sj_jalaliDisplay :: utext

definition canonical_date :: "nat \<times> nat \<times> nat \<Rightarrow> utext" where
  "canonical_date = (\<lambda>(jy, jm, jd). udigits jy @ [45] @ pad2 jm @ [45] @ pad2 jd)"

definition display_date :: "nat \<times> nat \<times> nat \<Rightarrow> utext" where
  "display_date = (\<lambda>(jy, jm, jd). toPersianDigits (Some (udigits jd)) @ [32] @ PERSIAN_MONTH_NAMES ! (jm - 1) @ [32]
     @ toPersianDigits (Some (udigits jy)))"

text \<open>The civil date in Tehran at a time.\<close>

definition tehran_date :: "(time \<Rightarrow> int) \<Rightarrow> time \<Rightarrow> int \<times> int \<times> int" where
  "tehran_date tehran t = civil_from_days ((t + tehran t) div ms_per_day)"

definition gregorianToJalali :: "jalaali \<Rightarrow> (time \<Rightarrow> int) \<Rightarrow> time option \<Rightarrow> StandardJalaliDateResponse option" where
  "gregorianToJalali lib tehran dateInput = (case dateInput of
     None \<Rightarrow> None
   | Some date \<Rightarrow>
       (let (gy, gm, gd) = tehran_date tehran date; j = toJalaali lib gy gm gd
        in Some \<lparr>sj_gregorian = date, sj_jalali = canonical_date j, sj_jalaliDisplay = display_date j\<rparr>))"

text \<open>The day of the week counted from Saturday, and whether it is Friday; the name of the day is left out.\<close>

definition getTehranDayOfWeek :: "(time \<Rightarrow> int) \<Rightarrow> time \<Rightarrow> int \<times> bool" where
  "getTehranDayOfWeek tehran date =
     (let (y, m, d) = tehran_date tehran date;
          tehranDay = (days_from_civil y m d + 4) mod 7;
          dayIndex = (tehranDay + 1) mod 7
      in (dayIndex, dayIndex = 6))"

definition getDefaultAcademicYearBoundaries :: "jalaali \<Rightarrow> nat \<Rightarrow> string + time \<times> time \<times> utext" where
  "getDefaultAcademicYearBoundaries lib jalaliYear =
     bindE (jalaliToGregorianDate lib (udigits jalaliYear @ [45, 48, 55, 45, 48, 49]) DayStart) (\<lambda>startDate.
     bindE (jalaliToGregorianDate lib (udigits (jalaliYear + 1) @ [45, 48, 51, 45, 51, 49]) DayEnd) (\<lambda>endDate.
     Inr (startDate, endDate,
       toPersianDigits (Some (udigits jalaliYear)) @ [45] @ toPersianDigits (Some (udigits (jalaliYear + 1))))))"

section \<open>Reading and writing dates\<close>

lemma unumber_snoc: "unumber (s @ [c]) = 10 * unumber s + (c - 48)"
  by (simp add: unumber_def)

lemma udigits_all: "list_all udigit (udigits n)"
proof (induction n rule: udigits.induct)
  case (1 n)
  show ?case by (subst udigits.simps) (use 1 in \<open>cases "n < 10"; simp; simp add: udigit_def\<close>)
qed

lemma unumber_udigits: "unumber (udigits n) = n"
proof (induction n rule: udigits.induct)
  case (1 n)
  show ?case
  proof (cases "n < 10")
    case True
    then show ?thesis by (subst udigits.simps) (simp add: unumber_def)
  next
    case False
    with 1 show ?thesis by (subst udigits.simps) (simp add: unumber_snoc)
  qed
qed

lemma udigits_eval [simp]:
  "n < 10 \<Longrightarrow> udigits n = [48 + n]"
  "10 \<le> n \<Longrightarrow> udigits n = udigits (n div 10) @ [48 + n mod 10]"
  by (subst udigits.simps, simp)+

lemma length_year: "1000 \<le> n \<Longrightarrow> n < 10000 \<Longrightarrow> length (udigits n) = 4"
proof -
  assume n: "1000 \<le> n" "n < 10000"
  define a b c where "a = n div 10" and "b = a div 10" and "c = b div 10"
  have "100 \<le> a" "a < 1000" "10 \<le> b" "b < 100" "1 \<le> c" "c < 10"
    using n unfolding a_def b_def c_def by linarith+
  then show ?thesis using n a_def b_def c_def by simp
qed

lemma pad2_checked:
  "list_all (\<lambda>m. month_group (pad2 m) \<and> unumber (pad2 m) = m) [1..<13]"
  "list_all (\<lambda>d. day_group (pad2 d) \<and> unumber (pad2 d) = d) [1..<32]"
  by code_simp+

lemma pad2_month: "1 \<le> m \<Longrightarrow> m \<le> 12 \<Longrightarrow> month_group (pad2 m) \<and> unumber (pad2 m) = m"
  using pad2_checked(1) by (simp add: list_all_iff)

lemma pad2_day: "1 \<le> d \<Longrightarrow> d \<le> 31 \<Longrightarrow> day_group (pad2 d) \<and> unumber (pad2 d) = d"
  using pad2_checked(2) by (simp add: list_all_iff)

lemma month_group_digits: "month_group ms \<Longrightarrow> list_all udigit ms"
  by (induction ms rule: month_group.induct) (auto simp: udigit_def)

lemma match_date_parts:
  assumes "length ys = 4" and "list_all udigit ys" and "month_group ms" and "day_group ds"
  shows "match_date (ys @ [45] @ ms @ [45] @ ds) = Some (unumber ys, unumber ms, unumber ds)"
proof -
  have "list_all udigit ms" using assms(3) by (rule month_group_digits)
  then have "takeWhile udigit (ms @ 45 # ds) = ms" "dropWhile udigit (ms @ 45 # ds) = 45 # ds"
    by (auto simp: list_all_iff udigit_def takeWhile_append2 dropWhile_append2)
  moreover have "\<not> udigit 45" by (simp add: udigit_def)
  ultimately show ?thesis using assms by (simp add: match_date_def Let_def usep_def)
qed

lemma match_canonical:
  assumes "1000 \<le> jy" "jy < 10000" "1 \<le> jm" "jm \<le> 12" "1 \<le> jd" "jd \<le> 31"
  shows "match_date (canonical_date (jy, jm, jd)) = Some (jy, jm, jd)"
  using match_date_parts [OF length_year [OF assms(1,2)] udigits_all, of "pad2 jm" "pad2 jd"]
    pad2_month [OF assms(3,4)] pad2_day [OF assms(5,6)]
  by (simp add: canonical_date_def unumber_udigits del: udigits_eval)

section \<open>Digits\<close>

text \<open>What the ten passes amount to: one pass that maps each digit.\<close>

definition latin_digit :: "nat \<Rightarrow> nat" where
  "latin_digit c = (if 1776 \<le> c \<and> c \<le> 1785 then c - 1728 else if 1632 \<le> c \<and> c \<le> 1641 then c - 1584 else c)"

definition persian_digit :: "nat \<Rightarrow> nat" where
  "persian_digit c = (if udigit c then c + 1728 else c)"

lemma normalize_passes:
  "n \<le> 10 \<Longrightarrow> foldl (\<lambda>r i. replace_unit (ARABIC_DIGITS i) (48 + i) (replace_unit (PERSIAN_DIGITS i) (48 + i) r)) s [0..<n]
     = map (\<lambda>c. if 1776 \<le> c \<and> c < 1776 + n then c - 1728 else if 1632 \<le> c \<and> c < 1632 + n then c - 1584 else c) s"
proof (induction n)
  case (Suc n)
  then show ?case
    by (auto simp: replace_unit_def ARABIC_DIGITS_def PERSIAN_DIGITS_def)
qed (simp, rule sym, rule map_idI, auto)

lemma persian_passes:
  "n \<le> 10 \<Longrightarrow> foldl (\<lambda>r i. replace_unit (48 + i) (PERSIAN_DIGITS i) r) s [0..<n]
     = map (\<lambda>c. if 48 \<le> c \<and> c < 48 + n then c + 1728 else c) s"
proof (induction n)
  case (Suc n)
  then show ?case by (auto simp: replace_unit_def PERSIAN_DIGITS_def)
qed (simp, rule sym, rule map_idI, auto)

lemma normalize_map: "normalizePersianDigits (Some s) = utrim (map latin_digit s)"
proof -
  have "(\<lambda>c. if 1776 \<le> c \<and> c < 1776 + 10 then c - 1728 else if 1632 \<le> c \<and> c < 1632 + 10 then c - 1584 else c)
      = latin_digit" by (auto simp: latin_digit_def fun_eq_iff)
  with normalize_passes [of 10 s] show ?thesis by (simp add: normalizePersianDigits_def)
qed

lemma to_persian_map: "toPersianDigits (Some s) = map persian_digit s"
proof -
  have "(\<lambda>c. if 48 \<le> c \<and> c < 48 + 10 then c + 1728 else c) = persian_digit"
    by (auto simp: persian_digit_def udigit_def fun_eq_iff)
  with persian_passes [of 10 s] show ?thesis by (simp add: toPersianDigits_def)
qed

lemma latin_persian: "latin_digit (persian_digit c) = latin_digit c"
  by (auto simp: latin_digit_def persian_digit_def udigit_def)

lemma latin_id: "\<not> is_uspace c \<Longrightarrow> c < 1632 \<Longrightarrow> latin_digit c = c"
  by (auto simp: latin_digit_def)

lemma dropWhile_none: "list_all (\<lambda>c. \<not> P c) s \<Longrightarrow> dropWhile P s = s"
  by (cases s) auto

lemma utrim_id: "list_all (\<lambda>c. \<not> is_uspace c) s \<Longrightarrow> utrim s = s"
  by (simp add: utrim_def dropWhile_none list_all_rev)

text \<open>A plain date text, in Latin or in Persian digits, is its own normal form.\<close>

definition plain :: "utext \<Rightarrow> bool" where
  "plain s = list_all (\<lambda>c. udigit c \<or> usep c) s"

lemma normalize_plain: "plain s \<Longrightarrow> normalizePersianDigits (Some s) = s"
proof -
  assume s: "plain s"
  have "map latin_digit s = s" using s
    by (intro map_idI) (auto simp: plain_def list_all_iff latin_digit_def udigit_def usep_def)
  moreover have "utrim s = s" using s
    by (intro utrim_id) (auto simp: plain_def list_all_iff udigit_def usep_def is_uspace_def)
  ultimately show ?thesis by (simp add: normalize_map)
qed

lemma plain_canonical: "plain (canonical_date (jy, jm, jd))"
proof -
  have "list_all udigit (pad2 n)" for n using udigits_all [of n] by (auto simp: pad2_def udigit_def list_all_iff)
  with udigits_all [of jy] show ?thesis
    by (auto simp: plain_def canonical_date_def usep_def list_all_iff)
qed

section \<open>Valid dates\<close>

lemma day_group_bounds: "day_group ds \<Longrightarrow> list_all udigit ds \<and> 1 \<le> unumber ds \<and> unumber ds \<le> 31"
  by (induction ds rule: day_group.induct) (auto simp: udigit_def unumber_def)

lemma match_date_SomeD:
  assumes "match_date s = Some (jy, jm, jd)"
  shows "plain s" and "1 \<le> jd" and "jd \<le> 31"
proof -
  define r where "r = drop 4 s"
  define r' where "r' = dropWhile udigit (tl r)"
  have r: "list_all udigit (take 4 s)" "r \<noteq> []" "usep (hd r)" "month_group (takeWhile udigit (tl r))"
      "r' \<noteq> []" "usep (hd r')" "day_group (tl r')" "jd = unumber (tl r')"
    using assms by (auto simp: match_date_def Let_def r_def r'_def split: if_splits)
  obtain h t h' t' where ht: "r = h # t" "r' = h' # t'" using r(2,5) by (cases r; cases r') auto
  then have "s = take 4 s @ [h] @ takeWhile udigit t @ [h'] @ t'"
    by (metis append_Cons append_Nil append_take_drop_id list.sel(3) r'_def r_def takeWhile_dropWhile_id)
  moreover have "plain (take 4 s @ [h] @ takeWhile udigit t @ [h'] @ t')"
    using r month_group_digits [OF r(4)] day_group_bounds [OF r(7)]
    by (auto simp: ht plain_def list_all_iff)
  ultimately show "plain s" by simp
  show "1 \<le> jd" "jd \<le> 31" using day_group_bounds [OF r(7)] r(8) by simp_all
qed

lemma valid_dateE:
  assumes "isValidJalaliDate lib s"
  obtains jy jm jd where "match_date (normalizePersianDigits (Some s)) = Some (jy, jm, jd)"
    and "1200 \<le> jy" "jy \<le> 1700" "1 \<le> jm" "jm \<le> 12" "1 \<le> jd" "jd \<le> 31"
    and "jd \<le> jalaaliMonthLength lib jy jm" "isValidJalaaliDate lib jy jm jd"
  using assms match_date_SomeD
  by (fastforce simp: isValidJalaliDate_def split: if_splits option.splits prod.splits)

lemma normalize_normal:
  assumes "match_date (normalizePersianDigits (Some s)) = Some j"
  shows "normalizePersianDigits (Some (normalizePersianDigits (Some s))) = normalizePersianDigits (Some s)"
  using assms match_date_SomeD(1) by (cases j) (auto intro: normalize_plain)

lemma normal_ne: "match_date s = Some j \<Longrightarrow> s \<noteq> []"
  by (auto simp: match_date_def Let_def)

lemma valid_normalized:
  assumes "match_date (normalizePersianDigits (Some s)) = Some j"
  shows "isValidJalaliDate lib (normalizePersianDigits (Some s)) = isValidJalaliDate lib s"
proof -
  have "s \<noteq> []" using normal_ne [OF assms] by (auto simp: normalize_map utrim_def)
  with normal_ne [OF assms] show ?thesis
    by (simp add: isValidJalaliDate_def normalize_normal [OF assms])
qed

definition time_of_part :: "int \<times> int \<times> int \<Rightarrow> day_part \<Rightarrow> time" where
  "time_of_part g part = (let (gy, gm, gd) = g in case part of
     DayStart \<Rightarrow> date_utc gy gm (gd - 1) 73800000
   | DayEnd \<Rightarrow> date_utc gy gm gd 73799999
   | Noon \<Rightarrow> date_utc gy gm gd 30600000)"

lemma conversion_cases:
  "jalaliToGregorianDate lib s part =
     (case match_date (normalizePersianDigits (Some s)) of
        None \<Rightarrow> Inl ''invalid Jalali date''
      | Some (jy, jm, jd) \<Rightarrow> if isValidJalaliDate lib s then Inr (time_of_part (toGregorian lib jy jm jd) part)
          else Inl ''invalid day or month'')"
  by (auto simp: jalaliToGregorianDate_def Let_def valid_normalized time_of_part_def split: option.splits prod.splits day_part.splits)

text \<open>The day in Tehran of the three times of a date, by the offset in force.\<close>

lemma days_from_civil_day: "days_from_civil y m (d + k) = days_from_civil y m d + k"
  by (simp add: days_from_civil_def Let_def)

lemma days_from_civil_before: "days_from_civil y m (d - k) = days_from_civil y m d - k"
  by (simp add: days_from_civil_def Let_def)

lemma tehran_day:
  assumes "100 \<le> gy" and "t = time_of_part (gy, gm, gd) part"
  shows "tehran t = 12600000 \<Longrightarrow> (t + tehran t) div ms_per_day = days_from_civil gy gm gd"
    and "tehran t = 16200000 \<Longrightarrow> (t + tehran t) div ms_per_day
      = days_from_civil gy gm gd + (if part = DayEnd then 1 else 0)"
proof -
  have [simp]: "(k * 86400000 + r) div 86400000 = k + r div 86400000" for k r :: int by simp
  define D where "D = days_from_civil gy gm gd"
  have t: "t = D * 86400000 + (case part of DayStart \<Rightarrow> -12600000 | Noon \<Rightarrow> 30600000 | DayEnd \<Rightarrow> 73799999)"
    using assms by (cases part) (simp_all add: time_of_part_def date_utc_def ms_per_day_def
      days_from_civil_before D_def algebra_simps)
  show "(t + tehran t) div ms_per_day = days_from_civil gy gm gd" if "tehran t = 12600000"
    using that unfolding ms_per_day_def D_def [symmetric] by (cases part) (simp_all add: t)
  show "(t + tehran t) div ms_per_day = days_from_civil gy gm gd + (if part = DayEnd then 1 else 0)"
    if "tehran t = 16200000"
    using that unfolding ms_per_day_def D_def [symmetric] by (cases part) (simp_all add: t)
qed

end
