(* ===== verification/Payroll.thy ===== *)
theory Payroll
  imports Jalali
begin

text \<open>
  The payroll of the staff: \<open>PayrollService\<close> (\<open>modules/payroll/payroll.service.ts\<close>) and
  \<open>TeacherContractService\<close> (\<open>modules/payroll/teacher-contract.service.ts\<close>).

  The columns of type \<open>Decimal(15, 0)\<close> hold whole Tomans and are integers.  Percentages and fractional
  amounts that the source computes in floating point are exact rationals, rounded where the source or the
  column rounds.  The titles of the items of a slip are the cases of \<open>item_title\<close>, with the values the
  Persian sentences interpolate; items are never referred to by their identifier, which is left out.
\<close>

section \<open>Tables\<close>

datatype PayrollStatus = PS_DRAFT | PS_REVIEWED | PS_ISSUED | PS_SETTLED | PS_APPROVED | PS_PAID | PS_CANCELLED

datatype PayRateType = HOURLY | PER_SESSION

datatype AdjustmentStatus = AD_PENDING | AD_APPLIED | AD_CANCELLED

datatype PayrollItemType =
    BASE_SALARY | HOURLY_TEACHING | BONUS | OVERTIME | INSURANCE_DEDUCTION | TAX_DEDUCTION
  | ADVANCE_DEDUCTION | ADJUSTMENT | OTHER

datatype ContractType = FULL_TIME_SALARY | HOURLY_TEACHER | CONTRACTUAL

record StaffPayrollProfile =
  sf_tenantId :: id
  sf_userId :: id
  sf_contractType :: ContractType
  sf_baseMonthlySalary :: int
  sf_hourlyRate :: int
  sf_bankAccountNumber :: "string option"
  sf_bankShebaNumber :: "string option"
  sf_bankName :: "string option"
  sf_insuranceNumber :: "string option"
  sf_isActive :: bool

record TeacherContract =
  tc_id :: id
  tc_tenantId :: id
  tc_teacherId :: id
  tc_academicYearId :: id
  tc_rateType :: PayRateType
  tc_rateAmount :: int
  tc_monthlyHourCap :: "nat option"
  tc_baseSalary :: "int option"
  tc_effectiveFrom :: time
  tc_effectiveTo :: "time option"
  tc_createdById :: id

record PayrollAdjustment =
  pa_id :: id
  pa_tenantId :: id
  pa_teacherId :: id
  pa_originalSlipId :: "id option"
  pa_amount :: int
  pa_reason :: string
  pa_status :: AdjustmentStatus
  pa_appliedToSlipId :: "id option"
  pa_createdById :: id
  pa_appliedAt :: "time option"

text \<open>The text of a cap warning interpolates the sessions or hours worked and the cap.\<close>

record PayrollSlip =
  ps_id :: id
  ps_tenantId :: id
  ps_userId :: id
  ps_year :: nat
  ps_month :: nat
  ps_slipNumber :: string
  ps_calculatedAmount :: int
  ps_finalAmount :: int
  ps_grossPay :: int
  ps_totalDeductions :: int
  ps_netPay :: int
  ps_status :: PayrollStatus
  ps_editReason :: "string option"
  ps_editedById :: "id option"
  ps_editedAt :: "time option"
  ps_cancelReason :: "string option"
  ps_cancelledById :: "id option"
  ps_cancelledAt :: "time option"
  ps_sourceSessionCount :: nat
  ps_sourceHours :: "rat option"
  ps_capWarning :: "(rat \<times> nat) option"
  ps_paidAt :: "time option"
  ps_paidById :: "id option"
  ps_paymentRefNumber :: "string option"

datatype item_title =
    BaseSalaryTitle "utext option" nat
  | TeachingTitle PayRateType rat
  | AdjustmentTitle string
  | InsuranceTitle
  | TaxTitle
  | CustomTitle string

record PayrollItem =
  it_tenantId :: id
  it_slipId :: id
  it_type :: PayrollItemType
  it_title :: item_title
  it_amount :: int
  it_multiplierOrHours :: "rat option"
  it_notes :: "string option"

text \<open>The columns of other tables the payroll reads.\<close>

record payroll_user =
  pu_id :: id
  pu_tenantId :: id
  pu_teacherProfileId :: "id option"

datatype TeacherAttendanceStatus = TA_PRESENT | TA_ABSENT | TA_LEAVE_AUTHORIZED | TA_LEAVE_UNAUTHORIZED

record TeacherAttendance =
  ta_tenantId :: id
  ta_teacherId :: id
  ta_date :: string
  ta_status :: TeacherAttendanceStatus

record payroll_db =
  staffPayrollProfiles :: "StaffPayrollProfile list"
  teacherContracts :: "TeacherContract list"
  payrollAdjustments :: "PayrollAdjustment list"
  payrollSlips :: "PayrollSlip list"
  payrollItems :: "PayrollItem list"
  staffUsers :: "payroll_user list"
  teacherAttendances :: "TeacherAttendance list"
  yearsOfTenants :: "(id \<times> id) list"

definition create_slip :: "PayrollSlip \<Rightarrow> payroll_db \<Rightarrow> http_error + payroll_db" where
  "create_slip s db =
     (if ps_id s \<in> set (map ps_id (payrollSlips db)) then Inl (UniqueViolation ''PayrollSlip.id'')
      else if (ps_tenantId s, ps_userId s, ps_year s, ps_month s)
          \<in> set (map (\<lambda>q. (ps_tenantId q, ps_userId q, ps_year q, ps_month q)) (payrollSlips db))
        then Inl (UniqueViolation ''PayrollSlip.month'')
      else if (ps_tenantId s, ps_slipNumber s) \<in> set (map (\<lambda>q. (ps_tenantId q, ps_slipNumber q)) (payrollSlips db))
        then Inl (UniqueViolation ''PayrollSlip.slipNumber'')
      else Inr (db\<lparr>payrollSlips := payrollSlips db @ [s]\<rparr>))"

definition update_slip :: "id \<Rightarrow> (PayrollSlip \<Rightarrow> PayrollSlip) \<Rightarrow> payroll_db \<Rightarrow> payroll_db" where
  "update_slip i f db = db\<lparr>payrollSlips := update_row ps_id i f (payrollSlips db)\<rparr>"

definition slip_of_month :: "id \<Rightarrow> id \<Rightarrow> nat \<Rightarrow> nat \<Rightarrow> payroll_db \<Rightarrow> PayrollSlip option" where
  "slip_of_month tenantId userId year month db =
     find (\<lambda>q. ps_tenantId q = tenantId \<and> ps_userId q = userId \<and> ps_year q = year \<and> ps_month q = month) (payrollSlips db)"

section \<open>Profiles of the staff\<close>

record UpdateStaffPayrollProfileDto =
  usp_contractType :: ContractType
  usp_baseMonthlySalary :: int
  usp_hourlyRate :: "int option"
  usp_bankAccountNumber :: "string option"
  usp_bankShebaNumber :: "string option"
  usp_bankName :: "string option"
  usp_insuranceNumber :: "string option"
  usp_isActive :: "bool option"

definition find_user :: "id \<Rightarrow> id \<Rightarrow> payroll_db \<Rightarrow> payroll_user option" where
  "find_user tenantId userId db = find (\<lambda>u. pu_id u = userId \<and> pu_tenantId u = tenantId) (staffUsers db)"

text \<open>
  The upsert finds the profile by the user alone.  An absent text leaves a column of an existing row as it
  is and creates a null in a new one.
\<close>

definition upsertStaffProfile ::
  "id \<Rightarrow> id \<Rightarrow> UpdateStaffPayrollProfileDto \<Rightarrow> payroll_db \<Rightarrow> http_error + payroll_db" where
  "upsertStaffProfile tenantId userId dto db =
     (case find_user tenantId userId db of
        None \<Rightarrow> Inl (NotFound ''staff user'')
      | Some _ \<Rightarrow>
          (let keep = (\<lambda>a b. case a of None \<Rightarrow> b | Some x \<Rightarrow> Some x);
               rate = (case usp_hourlyRate dto of Some r \<Rightarrow> r | None \<Rightarrow> 0);
               active = (case usp_isActive dto of Some b \<Rightarrow> b | None \<Rightarrow> True)
           in if userId \<in> set (map sf_userId (staffPayrollProfiles db)) then
                Inr (db\<lparr>staffPayrollProfiles := update_row sf_userId userId (\<lambda>p. p\<lparr>
                  sf_contractType := usp_contractType dto, sf_baseMonthlySalary := usp_baseMonthlySalary dto,
                  sf_hourlyRate := rate,
                  sf_bankAccountNumber := keep (usp_bankAccountNumber dto) (sf_bankAccountNumber p),
                  sf_bankShebaNumber := keep (usp_bankShebaNumber dto) (sf_bankShebaNumber p),
                  sf_bankName := keep (usp_bankName dto) (sf_bankName p),
                  sf_insuranceNumber := keep (usp_insuranceNumber dto) (sf_insuranceNumber p),
                  sf_isActive := active\<rparr>) (staffPayrollProfiles db)\<rparr>)
              else Inr (db\<lparr>staffPayrollProfiles := staffPayrollProfiles db @
                [\<lparr>sf_tenantId = tenantId, sf_userId = userId, sf_contractType = usp_contractType dto,
                  sf_baseMonthlySalary = usp_baseMonthlySalary dto, sf_hourlyRate = rate,
                  sf_bankAccountNumber = usp_bankAccountNumber dto, sf_bankShebaNumber = usp_bankShebaNumber dto,
                  sf_bankName = usp_bankName dto, sf_insuranceNumber = usp_insuranceNumber dto,
                  sf_isActive = active\<rparr>]\<rparr>)))"

definition getStaffProfile :: "id \<Rightarrow> id \<Rightarrow> payroll_db \<Rightarrow> http_error + StaffPayrollProfile" where
  "getStaffProfile tenantId userId db =
     (case find (\<lambda>p. sf_userId p = userId \<and> sf_tenantId p = tenantId) (staffPayrollProfiles db) of
        None \<Rightarrow> Inl (NotFound ''payroll profile'') | Some p \<Rightarrow> Inr p)"

definition listStaffProfiles :: "id \<Rightarrow> payroll_db \<Rightarrow> StaffPayrollProfile list" where
  "listStaffProfiles tenantId db = rev (filter (\<lambda>p. sf_tenantId p = tenantId) (staffPayrollProfiles db))"

section \<open>Teacher contracts\<close>

text \<open>A text that is not a date parses to no time.\<close>

record CreateTeacherContractDto =
  ctc_teacherId :: id
  ctc_academicYearId :: id
  ctc_rateType :: PayRateType
  ctc_rateAmount :: int
  ctc_monthlyHourCap :: "nat option"
  ctc_baseSalary :: "int option"
  ctc_effectiveFrom :: "time option"
  ctc_effectiveTo :: "time option option"

text \<open>The earlier contracts of the teacher in the year that have no end or end after the new start.\<close>

definition overlaps_start :: "id \<Rightarrow> CreateTeacherContractDto \<Rightarrow> time \<Rightarrow> TeacherContract \<Rightarrow> bool" where
  "overlaps_start tenantId dto from c \<longleftrightarrow>
     tc_tenantId c = tenantId \<and> tc_teacherId c = ctc_teacherId dto \<and> tc_academicYearId c = ctc_academicYearId dto
     \<and> (case tc_effectiveTo c of None \<Rightarrow> True | Some t \<Rightarrow> t > from)"

definition new_contract :: "id \<Rightarrow> id \<Rightarrow> id \<Rightarrow> CreateTeacherContractDto \<Rightarrow> time \<Rightarrow> time option \<Rightarrow> TeacherContract" where
  "new_contract i tenantId createdById dto from ends =
     \<lparr>tc_id = i, tc_tenantId = tenantId, tc_teacherId = ctc_teacherId dto,
      tc_academicYearId = ctc_academicYearId dto, tc_rateType = ctc_rateType dto,
      tc_rateAmount = ctc_rateAmount dto,
      tc_monthlyHourCap = (case ctc_monthlyHourCap dto of Some 0 \<Rightarrow> None | cap \<Rightarrow> cap),
      tc_baseSalary = ctc_baseSalary dto, tc_effectiveFrom = from, tc_effectiveTo = ends,
      tc_createdById = createdById\<rparr>"

definition createTeacherContract ::
  "id \<Rightarrow> id \<Rightarrow> CreateTeacherContractDto \<Rightarrow> env \<Rightarrow> payroll_db \<Rightarrow> http_error + payroll_db" where
  "createTeacherContract tenantId createdById dto e db =
     (case find_user tenantId (ctc_teacherId dto) db of
        None \<Rightarrow> Inl (NotFound ''teacher'')
      | Some _ \<Rightarrow>
      if (ctc_academicYearId dto, tenantId) \<notin> set (yearsOfTenants db) then Inl (NotFound ''academic year'')
      else (case ctc_effectiveFrom dto of
        None \<Rightarrow> Inl (BadRequest ''start date'')
      | Some from \<Rightarrow>
      (case ctc_effectiveTo dto of
        Some None \<Rightarrow> Inl (BadRequest ''end date'')
      | ends \<Rightarrow>
          if uuid e 0 \<in> set (map tc_id (teacherContracts db)) then Inl (UniqueViolation ''TeacherContract.id'')
          else Inr (db\<lparr>teacherContracts :=
            update_where (overlaps_start tenantId dto from) (\<lambda>c. c\<lparr>tc_effectiveTo := Some from\<rparr>) (teacherContracts db) @
            [new_contract (uuid e 0) tenantId createdById dto from (case ends of None \<Rightarrow> None | Some t \<Rightarrow> t)]\<rparr>))))"

definition contract_covers :: "TeacherContract \<Rightarrow> time \<Rightarrow> bool" where
  "contract_covers c t \<longleftrightarrow> tc_effectiveFrom c \<le> t \<and> (case tc_effectiveTo c of None \<Rightarrow> True | Some u \<Rightarrow> u \<ge> t)"

text \<open>\<open>orderBy: { effectiveFrom: 'desc' }\<close>\<close>

definition latest_first :: "TeacherContract list \<Rightarrow> TeacherContract list" where
  "latest_first cs = sort_key (\<lambda>c. - tc_effectiveFrom c) cs"

definition getContracts :: "id \<Rightarrow> id option \<Rightarrow> id option \<Rightarrow> payroll_db \<Rightarrow> TeacherContract list" where
  "getContracts tenantId academicYearId teacherId db =
     latest_first (filter (\<lambda>c. tc_tenantId c = tenantId
       \<and> (truthy academicYearId \<longrightarrow> Some (tc_academicYearId c) = academicYearId)
       \<and> (truthy teacherId \<longrightarrow> Some (tc_teacherId c) = teacherId)) (teacherContracts db))"

definition getActiveContract :: "id \<Rightarrow> id \<Rightarrow> time \<Rightarrow> payroll_db \<Rightarrow> TeacherContract option" where
  "getActiveContract tenantId teacherId targetDate db =
     (case latest_first (filter (\<lambda>c. tc_tenantId c = tenantId \<and> tc_teacherId c = teacherId
         \<and> contract_covers c targetDate) (teacherContracts db)) of
        [] \<Rightarrow> None | c # _ \<Rightarrow> Some c)"

definition deleteContract :: "id \<Rightarrow> id \<Rightarrow> payroll_db \<Rightarrow> http_error + payroll_db" where
  "deleteContract tenantId contractId db =
     (case find (\<lambda>c. tc_id c = contractId \<and> tc_tenantId c = tenantId) (teacherContracts db) of
        None \<Rightarrow> Inl (NotFound ''contract'')
      | Some _ \<Rightarrow> Inr (db\<lparr>teacherContracts := filter (\<lambda>c. tc_id c \<noteq> contractId) (teacherContracts db)\<rparr>))"

section \<open>The calculation of a month\<close>

text \<open>Texts of dates: \<open>YYYY-MM-DD\<close>, and the comparison of the database.\<close>

definition pad2s :: "nat \<Rightarrow> string" where
  "pad2s n = (if n < 10 then CHR ''0'' # string_of_nat n else string_of_nat n)"

definition jalali_day :: "nat \<Rightarrow> nat \<Rightarrow> nat \<Rightarrow> string" where
  "jalali_day year month d = string_of_nat year @ ''-'' @ pad2s month @ ''-'' @ pad2s d"

text \<open>\<open>toISOString().slice(0, 10)\<close>: the date in UTC, for the years 1000 to 9999.\<close>

definition iso_day :: "time \<Rightarrow> string" where
  "iso_day t = (let (y, m, d) = civil_from_days (t div ms_per_day)
     in string_of_nat (nat y) @ ''-'' @ pad2s (nat m) @ ''-'' @ pad2s (nat d))"

definition utext_of :: "string \<Rightarrow> utext" where
  "utext_of s = map of_char s"

record month_range =
  mr_start :: time
  mr_end :: time
  mr_startStr :: string
  mr_endStr :: string

definition month_range_of :: "jalaali \<Rightarrow> nat \<Rightarrow> nat \<Rightarrow> http_error + month_range" where
  "month_range_of lib year month =
     (let startStr = jalali_day year month 1;
          endStr = jalali_day year month (jalaaliMonthLength lib year month)
      in case jalaliToGregorianDate lib (utext_of startStr) DayStart of
           Inl m \<Rightarrow> Inl (BadRequest m)
         | Inr s \<Rightarrow> (case jalaliToGregorianDate lib (utext_of endStr) DayEnd of
             Inl m \<Rightarrow> Inl (BadRequest m)
           | Inr t \<Rightarrow> Inr \<lparr>mr_start = s, mr_end = t, mr_startStr = startStr, mr_endStr = endStr\<rparr>))"

definition in_month :: "month_range \<Rightarrow> string \<Rightarrow> bool" where
  "in_month r date \<longleftrightarrow> str_le (mr_startStr r) date \<and> str_le date (mr_endStr r)
     \<or> str_le (iso_day (mr_start r)) date \<and> str_le date (iso_day (mr_end r))"

definition session_count :: "id \<Rightarrow> id \<Rightarrow> month_range \<Rightarrow> payroll_db \<Rightarrow> nat" where
  "session_count tenantId teacherId r db = length (filter (\<lambda>a. ta_tenantId a = tenantId \<and> ta_teacherId a = teacherId
     \<and> ta_status a = TA_PRESENT \<and> in_month r (ta_date a)) (teacherAttendances db))"

definition contracts_of_month :: "id \<Rightarrow> month_range \<Rightarrow> payroll_db \<Rightarrow> TeacherContract list" where
  "contracts_of_month tenantId r db = filter (\<lambda>c. tc_tenantId c = tenantId \<and> tc_effectiveFrom c \<le> mr_end r
     \<and> (case tc_effectiveTo c of None \<Rightarrow> True | Some t \<Rightarrow> t \<ge> mr_start r)) (teacherContracts db)"

text \<open>\<open>Math.round\<close>: halves go up.\<close>

definition math_round :: "rat \<Rightarrow> int" where
  "math_round x = \<lfloor>x + 1 / 2\<rfloor>"

definition base_salary :: "TeacherContract \<Rightarrow> int" where
  "base_salary c = (case tc_baseSalary c of Some b \<Rightarrow> b | None \<Rightarrow> 0)"

definition source_hours :: "TeacherContract \<Rightarrow> nat \<Rightarrow> rat option" where
  "source_hours c n = (case tc_rateType c of PER_SESSION \<Rightarrow> None | HOURLY \<Rightarrow> Some (of_nat n * 3 / 2))"

definition work_done :: "TeacherContract \<Rightarrow> nat \<Rightarrow> rat" where
  "work_done c n = (case source_hours c n of None \<Rightarrow> of_nat n | Some h \<Rightarrow> h)"

definition calculated_amount :: "TeacherContract \<Rightarrow> nat \<Rightarrow> int" where
  "calculated_amount c n = (case source_hours c n of
     None \<Rightarrow> int n * tc_rateAmount c + base_salary c
   | Some h \<Rightarrow> math_round (h * of_int (tc_rateAmount c) + of_int (base_salary c)))"

definition cap_warning :: "TeacherContract \<Rightarrow> nat \<Rightarrow> (rat \<times> nat) option" where
  "cap_warning c n = (case tc_monthlyHourCap c of
     Some cap \<Rightarrow> if cap \<noteq> 0 \<and> work_done c n > of_nat cap then Some (work_done c n, cap) else None
   | None \<Rightarrow> None)"

definition pending_adjustments :: "id \<Rightarrow> id \<Rightarrow> payroll_db \<Rightarrow> PayrollAdjustment list" where
  "pending_adjustments tenantId teacherId db = filter (\<lambda>a. pa_tenantId a = tenantId \<and> pa_teacherId a = teacherId
     \<and> pa_status a = AD_PENDING) (payrollAdjustments db)"

definition initial_final :: "TeacherContract \<Rightarrow> nat \<Rightarrow> PayrollAdjustment list \<Rightarrow> int" where
  "initial_final c n adjs = max 0 (calculated_amount c n + sum_list (map pa_amount adjs))"

definition slip_number :: "nat \<Rightarrow> nat \<Rightarrow> id \<Rightarrow> string" where
  "slip_number year month userId =
     ''PAY-'' @ string_of_nat year @ ''-'' @ pad2s month @ ''-'' @ map to_upper (take 5 userId)"

text \<open>The columns the calculation writes, for a new slip and for one that is recalculated.\<close>

definition frozen_status :: "PayrollStatus \<Rightarrow> bool" where
  "frozen_status s \<longleftrightarrow> s = PS_ISSUED \<or> s = PS_SETTLED \<or> s = PS_PAID"

definition calculated_columns :: "TeacherContract \<Rightarrow> nat \<Rightarrow> PayrollAdjustment list \<Rightarrow> PayrollSlip \<Rightarrow> PayrollSlip" where
  "calculated_columns c n adjs s = s\<lparr>ps_calculatedAmount := calculated_amount c n,
     ps_finalAmount := initial_final c n adjs, ps_grossPay := initial_final c n adjs, ps_totalDeductions := 0,
     ps_netPay := initial_final c n adjs, ps_sourceSessionCount := n, ps_sourceHours := source_hours c n,
     ps_capWarning := cap_warning c n, ps_status := PS_DRAFT\<rparr>"

definition blank_slip :: "id \<Rightarrow> id \<Rightarrow> id \<Rightarrow> nat \<Rightarrow> nat \<Rightarrow> PayrollSlip" where
  "blank_slip i tenantId userId year month =
     \<lparr>ps_id = i, ps_tenantId = tenantId, ps_userId = userId, ps_year = year, ps_month = month,
      ps_slipNumber = slip_number year month userId, ps_calculatedAmount = 0, ps_finalAmount = 0,
      ps_grossPay = 0, ps_totalDeductions = 0, ps_netPay = 0, ps_status = PS_DRAFT, ps_editReason = None,
      ps_editedById = None, ps_editedAt = None, ps_cancelReason = None, ps_cancelledById = None,
      ps_cancelledAt = None, ps_sourceSessionCount = 0, ps_sourceHours = None, ps_capWarning = None,
      ps_paidAt = None, ps_paidById = None, ps_paymentRefNumber = None\<rparr>"

definition calculated_items ::
  "id \<Rightarrow> id \<Rightarrow> nat \<Rightarrow> TeacherContract \<Rightarrow> nat \<Rightarrow> PayrollAdjustment list \<Rightarrow> PayrollItem list" where
  "calculated_items tenantId slipId month c n adjs =
     (let base = base_salary c; teaching = calculated_amount c n - base
      in (if base > 0 then [\<lparr>it_tenantId = tenantId, it_slipId = slipId, it_type = BASE_SALARY,
            it_title = BaseSalaryTitle (Some (PERSIAN_MONTH_NAMES ! (month - 1))) month, it_amount = base,
            it_multiplierOrHours = None, it_notes = None\<rparr>] else [])
       @ (if teaching > 0 then [\<lparr>it_tenantId = tenantId, it_slipId = slipId, it_type = HOURLY_TEACHING,
            it_title = TeachingTitle (tc_rateType c) (work_done c n), it_amount = teaching,
            it_multiplierOrHours = Some (work_done c n), it_notes = None\<rparr>] else [])
       @ map (\<lambda>a. \<lparr>it_tenantId = tenantId, it_slipId = slipId, it_type = ADJUSTMENT,
            it_title = AdjustmentTitle (pa_reason a), it_amount = pa_amount a,
            it_multiplierOrHours = None, it_notes = None\<rparr>) adjs)"

definition drop_items :: "id \<Rightarrow> payroll_db \<Rightarrow> payroll_db" where
  "drop_items slipId db = db\<lparr>payrollItems := filter (\<lambda>i. it_slipId i \<noteq> slipId) (payrollItems db)\<rparr>"

text \<open>The items are written and the adjustments linked to the slip; they stay pending.\<close>

definition add_items :: "PayrollItem list \<Rightarrow> payroll_db \<Rightarrow> payroll_db" where
  "add_items is db = db\<lparr>payrollItems := payrollItems db @ is\<rparr>"

definition link_adjustments :: "id \<Rightarrow> PayrollAdjustment list \<Rightarrow> payroll_db \<Rightarrow> payroll_db" where
  "link_adjustments slipId adjs db = db\<lparr>payrollAdjustments :=
     update_where (\<lambda>a. pa_id a \<in> pa_id ` set adjs) (\<lambda>a. a\<lparr>pa_appliedToSlipId := Some slipId\<rparr>) (payrollAdjustments db)\<rparr>"

text \<open>The slip of the month: skipped when it is issued, rewritten as a draft or created.\<close>

definition place_slip ::
  "id \<Rightarrow> nat \<Rightarrow> nat \<Rightarrow> id \<Rightarrow> TeacherContract \<Rightarrow> nat \<Rightarrow> PayrollAdjustment list \<Rightarrow> payroll_db
     \<Rightarrow> http_error + (id \<times> payroll_db) option" where
  "place_slip tenantId year month i c n adjs db =
     (case slip_of_month tenantId (tc_teacherId c) year month db of
        Some s \<Rightarrow>
          if frozen_status (ps_status s) then Inr None
          else Inr (Some (ps_id s, drop_items (ps_id s) (update_slip (ps_id s) (calculated_columns c n adjs) db)))
      | None \<Rightarrow> bindE (create_slip (calculated_columns c n adjs (blank_slip i tenantId (tc_teacherId c) year month)) db)
          (\<lambda>db'. Inr (Some (i, db'))))"

definition sessions_of :: "id \<Rightarrow> month_range \<Rightarrow> TeacherContract \<Rightarrow> payroll_db \<Rightarrow> nat" where
  "sessions_of tenantId r c db =
     (case find (\<lambda>u. pu_id u = tc_teacherId c) (staffUsers db) of
        None \<Rightarrow> 0
      | Some u \<Rightarrow> (case pu_teacherProfileId u of None \<Rightarrow> 0 | Some p \<Rightarrow> session_count tenantId p r db))"

definition calculate_contract ::
  "id \<Rightarrow> nat \<Rightarrow> nat \<Rightarrow> month_range \<Rightarrow> env \<Rightarrow> nat \<times> TeacherContract \<Rightarrow> payroll_db \<times> id list
     \<Rightarrow> http_error + payroll_db \<times> id list" where
  "calculate_contract tenantId year month r e = (\<lambda>(k, c) (db, generated).
     (let n = sessions_of tenantId r c db;
          adjs = pending_adjustments tenantId (tc_teacherId c) db
      in bindE (place_slip tenantId year month (uuid e k) c n adjs db) (\<lambda>placed. case placed of
           None \<Rightarrow> Inr (db, generated)
         | Some (slipId, db1) \<Rightarrow>
             Inr (link_adjustments slipId adjs (add_items (calculated_items tenantId slipId month c n adjs) db1),
                  generated @ [slipId]))))"

definition calculateMonthlyPayroll ::
  "jalaali \<Rightarrow> id \<Rightarrow> nat \<Rightarrow> nat \<Rightarrow> env \<Rightarrow> payroll_db \<Rightarrow> http_error + payroll_db \<times> nat" where
  "calculateMonthlyPayroll lib tenantId year month e db =
     bindE (month_range_of lib year month) (\<lambda>r.
       (let cs = contracts_of_month tenantId r db
        in if cs = [] then Inl (BadRequest ''no contract in the month'')
           else bindE (foldE (calculate_contract tenantId year month r e) (zip [0..<length cs] cs) (db, []))
                  (\<lambda>(db', generated). Inr (db', length generated))))"

section \<open>The life of a slip\<close>

definition find_slip :: "id \<Rightarrow> id \<Rightarrow> payroll_db \<Rightarrow> PayrollSlip option" where
  "find_slip tenantId slipId db = find (\<lambda>s. ps_id s = slipId \<and> ps_tenantId s = tenantId) (payrollSlips db)"

definition reviewAndEditSlip ::
  "id \<Rightarrow> id \<Rightarrow> int \<Rightarrow> string \<Rightarrow> id \<Rightarrow> env \<Rightarrow> payroll_db \<Rightarrow> http_error + payroll_db" where
  "reviewAndEditSlip tenantId slipId finalAmount editReason adminId e db =
     (case find_slip tenantId slipId db of
        None \<Rightarrow> Inl (NotFound ''slip'')
      | Some s \<Rightarrow>
          if frozen_status (ps_status s) then Inl (BadRequest ''slip issued'')
          else if ps_status s = PS_CANCELLED then Inl (BadRequest ''slip cancelled'')
          else Inr (update_slip slipId (\<lambda>s. s\<lparr>ps_finalAmount := finalAmount, ps_netPay := finalAmount,
            ps_grossPay := finalAmount, ps_status := PS_REVIEWED, ps_editReason := Some (trim editReason),
            ps_editedById := Some adminId, ps_editedAt := Some (now e)\<rparr>) db))"

record payroll_admin =
  adm_id :: id
  adm_isPlatformAdmin :: bool
  adm_permissions :: "string list option"

definition cancelSlip ::
  "id \<Rightarrow> id \<Rightarrow> string \<Rightarrow> payroll_admin \<Rightarrow> env \<Rightarrow> payroll_db \<Rightarrow> http_error + payroll_db" where
  "cancelSlip tenantId slipId cancelReason admin e db =
     (case find_slip tenantId slipId db of
        None \<Rightarrow> Inl (NotFound ''slip'')
      | Some s \<Rightarrow>
          if ps_status s = PS_SETTLED \<or> ps_status s = PS_PAID then Inl (BadRequest ''slip settled'')
          else if ps_status s = PS_ISSUED \<and> \<not> adm_isPlatformAdmin admin
              \<and> \<not> (case adm_permissions admin of None \<Rightarrow> False | Some ps \<Rightarrow> ''finance.payroll.finalize'' \<in> set ps)
            then Inl (Forbidden ''finalize permission'')
          else Inr (update_slip slipId (\<lambda>s. s\<lparr>ps_status := PS_CANCELLED, ps_cancelReason := Some (trim cancelReason),
            ps_cancelledById := Some (adm_id admin), ps_cancelledAt := Some (now e)\<rparr>) db))"

definition active_slips :: "id \<Rightarrow> nat \<Rightarrow> nat \<Rightarrow> payroll_db \<Rightarrow> PayrollSlip list" where
  "active_slips tenantId year month db = filter (\<lambda>s. ps_tenantId s = tenantId \<and> ps_year s = year \<and> ps_month s = month
     \<and> (ps_status s = PS_DRAFT \<or> ps_status s = PS_REVIEWED)) (payrollSlips db)"

definition finalizeMonthlySlips ::
  "id \<Rightarrow> nat \<Rightarrow> nat \<Rightarrow> env \<Rightarrow> payroll_db \<Rightarrow> http_error + payroll_db \<times> nat" where
  "finalizeMonthlySlips tenantId year month e db =
     (let active = active_slips tenantId year month db; slipIds = map ps_id active
      in if active = [] then Inl (BadRequest ''no draft slip'')
         else Inr (db\<lparr>
           payrollSlips := update_where (\<lambda>s. ps_id s \<in> set slipIds) (\<lambda>s. s\<lparr>ps_status := PS_ISSUED\<rparr>) (payrollSlips db),
           payrollAdjustments := update_where
             (\<lambda>a. (case pa_appliedToSlipId a of None \<Rightarrow> False | Some i \<Rightarrow> i \<in> set slipIds) \<and> pa_status a = AD_PENDING)
             (\<lambda>a. a\<lparr>pa_status := AD_APPLIED, pa_appliedAt := Some (now e)\<rparr>) (payrollAdjustments db)\<rparr>,
           length active))"

record CreatePayrollAdjustmentDto =
  cpa_teacherId :: id
  cpa_originalSlipId :: "id option"
  cpa_amount :: int
  cpa_reason :: string

definition createAdjustment ::
  "id \<Rightarrow> id \<Rightarrow> CreatePayrollAdjustmentDto \<Rightarrow> env \<Rightarrow> payroll_db \<Rightarrow> http_error + payroll_db" where
  "createAdjustment tenantId createdById dto e db =
     (case find_user tenantId (cpa_teacherId dto) db of
        None \<Rightarrow> Inl (NotFound ''teacher'')
      | Some _ \<Rightarrow>
          (let orig = (if truthy (cpa_originalSlipId dto) then cpa_originalSlipId dto else None)
           in if uuid e 0 \<in> set (map pa_id (payrollAdjustments db)) then Inl (UniqueViolation ''PayrollAdjustment.id'')
              else if (case orig of None \<Rightarrow> False | Some i \<Rightarrow> i \<notin> set (map ps_id (payrollSlips db)))
                then Inl (ForeignKeyViolation ''PayrollAdjustment.originalSlipId'')
              else Inr (db\<lparr>payrollAdjustments := payrollAdjustments db @
                [\<lparr>pa_id = uuid e 0, pa_tenantId = tenantId, pa_teacherId = cpa_teacherId dto,
                  pa_originalSlipId = orig, pa_amount = cpa_amount dto, pa_reason = trim (cpa_reason dto),
                  pa_status = AD_PENDING, pa_appliedToSlipId = None, pa_createdById = createdById,
                  pa_appliedAt = None\<rparr>]\<rparr>)))"

definition getAdjustments :: "id \<Rightarrow> id option \<Rightarrow> payroll_db \<Rightarrow> PayrollAdjustment list" where
  "getAdjustments tenantId teacherId db =
     rev (filter (\<lambda>a. pa_tenantId a = tenantId \<and> (truthy teacherId \<longrightarrow> Some (pa_teacherId a) = teacherId)) (payrollAdjustments db))"

text \<open>The order of the listings: year and month descending, then the newest first.\<close>

definition month_first :: "PayrollSlip list \<Rightarrow> PayrollSlip list" where
  "month_first ss = sort_key (\<lambda>s. - int (ps_year s)) (sort_key (\<lambda>s. - int (ps_month s)) ss)"

definition opt_filter :: "'a option \<Rightarrow> 'a \<Rightarrow> bool" where
  "opt_filter f x \<longleftrightarrow> (case f of None \<Rightarrow> True | Some y \<Rightarrow> x = y)"

definition listPayrollSlips ::
  "id \<Rightarrow> nat option \<Rightarrow> nat option \<Rightarrow> PayrollStatus option \<Rightarrow> id option \<Rightarrow> payroll_db \<Rightarrow> PayrollSlip list" where
  "listPayrollSlips tenantId year month status userId db =
     month_first (rev (filter (\<lambda>s. ps_tenantId s = tenantId
       \<and> (year \<noteq> Some 0 \<longrightarrow> opt_filter year (ps_year s)) \<and> (month \<noteq> Some 0 \<longrightarrow> opt_filter month (ps_month s))
       \<and> opt_filter status (ps_status s) \<and> (truthy userId \<longrightarrow> Some (ps_userId s) = userId)) (payrollSlips db)))"

definition items_of :: "id \<Rightarrow> payroll_db \<Rightarrow> PayrollItem list" where
  "items_of slipId db = filter (\<lambda>i. it_slipId i = slipId) (payrollItems db)"

definition getSlipById :: "id \<Rightarrow> id \<Rightarrow> payroll_db \<Rightarrow> http_error + PayrollSlip \<times> PayrollItem list
    \<times> PayrollAdjustment list \<times> PayrollAdjustment list" where
  "getSlipById tenantId slipId db =
     (case find_slip tenantId slipId db of
        None \<Rightarrow> Inl (NotFound ''slip'')
      | Some s \<Rightarrow> Inr (s, items_of slipId db,
          filter (\<lambda>a. pa_originalSlipId a = Some slipId) (payrollAdjustments db),
          filter (\<lambda>a. pa_appliedToSlipId a = Some slipId) (payrollAdjustments db)))"

definition approveAndDisburse :: "id \<Rightarrow> id \<Rightarrow> id \<Rightarrow> string \<Rightarrow> env \<Rightarrow> payroll_db \<Rightarrow> http_error + payroll_db" where
  "approveAndDisburse tenantId slipId approverUserId paymentRefNumber e db =
     (case find_slip tenantId slipId db of
        None \<Rightarrow> Inl (NotFound ''slip'')
      | Some _ \<Rightarrow> Inr (update_slip slipId (\<lambda>s. s\<lparr>ps_status := PS_PAID, ps_paidAt := Some (now e),
          ps_paidById := Some approverUserId, ps_paymentRefNumber := Some paymentRefNumber\<rparr>) db))"

definition getMyPayrollSlips :: "id \<Rightarrow> id \<Rightarrow> payroll_db \<Rightarrow> (PayrollSlip \<times> PayrollItem list) list" where
  "getMyPayrollSlips tenantId userId db =
     map (\<lambda>s. (s, items_of (ps_id s) db))
       (month_first (filter (\<lambda>s. ps_tenantId s = tenantId \<and> ps_userId s = userId \<and> frozen_status (ps_status s)) (payrollSlips db)))"

section \<open>A slip from the profile\<close>

record CreatePayrollItemDto =
  cpi_type :: PayrollItemType
  cpi_title :: string
  cpi_amount :: rat
  cpi_multiplierOrHours :: "rat option"
  cpi_notes :: "string option"

text \<open>Gross pay, deductions, net pay and the items: the given ones, or salary, insurance and tax.\<close>

definition custom_pay :: "CreatePayrollItemDto list \<Rightarrow> rat \<times> rat \<times> rat" where
  "custom_pay custom =
     (let gross = sum_list (filter (\<lambda>a. a > 0) (map cpi_amount custom));
          deductions = \<bar>sum_list (filter (\<lambda>a. a < 0) (map cpi_amount custom))\<bar>
      in (gross, deductions, max 0 (gross - deductions)))"

definition insurance_deduction :: "int \<Rightarrow> int" where
  "insurance_deduction gross = math_round (of_int gross * 7 / 100)"

definition tax_deduction :: "int \<Rightarrow> int" where
  "tax_deduction gross = (let taxable = max 0 (gross - 15000000)
     in if taxable > 0 then math_round (of_int taxable / 10) else 0)"

definition profile_pay :: "int \<Rightarrow> int \<times> int \<times> int" where
  "profile_pay gross = (let d = insurance_deduction gross + tax_deduction gross in (gross, d, max 0 (gross - d)))"

text \<open>\<open>PERSIAN_MONTH_NAMES[dto.month]\<close>: no name beyond the last index.\<close>

definition month_name_at :: "nat \<Rightarrow> utext option" where
  "month_name_at k = (if k < length PERSIAN_MONTH_NAMES then Some (PERSIAN_MONTH_NAMES ! k) else None)"

definition profile_items :: "id \<Rightarrow> id \<Rightarrow> nat \<Rightarrow> int \<Rightarrow> PayrollItem list" where
  "profile_items tenantId slipId month gross =
     [\<lparr>it_tenantId = tenantId, it_slipId = slipId, it_type = BASE_SALARY,
       it_title = BaseSalaryTitle (month_name_at month) month, it_amount = gross,
       it_multiplierOrHours = None, it_notes = None\<rparr>]
     @ (if insurance_deduction gross > 0 then [\<lparr>it_tenantId = tenantId, it_slipId = slipId,
          it_type = INSURANCE_DEDUCTION, it_title = InsuranceTitle, it_amount = - insurance_deduction gross,
          it_multiplierOrHours = None, it_notes = None\<rparr>] else [])
     @ (if tax_deduction gross > 0 then [\<lparr>it_tenantId = tenantId, it_slipId = slipId,
          it_type = TAX_DEDUCTION, it_title = TaxTitle, it_amount = - tax_deduction gross,
          it_multiplierOrHours = None, it_notes = None\<rparr>] else [])"

definition custom_items :: "id \<Rightarrow> id \<Rightarrow> CreatePayrollItemDto list \<Rightarrow> PayrollItem list" where
  "custom_items tenantId slipId custom = map (\<lambda>ci. \<lparr>it_tenantId = tenantId, it_slipId = slipId,
     it_type = cpi_type ci, it_title = CustomTitle (cpi_title ci), it_amount = round_away (cpi_amount ci),
     it_multiplierOrHours = cpi_multiplierOrHours ci, it_notes = cpi_notes ci\<rparr>) custom"

definition profile_columns :: "int \<times> int \<times> int \<Rightarrow> PayrollSlip \<Rightarrow> PayrollSlip" where
  "profile_columns pay s = (let (gross, deductions, net) = pay in s\<lparr>ps_calculatedAmount := gross,
     ps_finalAmount := net, ps_grossPay := gross, ps_totalDeductions := deductions, ps_netPay := net,
     ps_status := PS_DRAFT\<rparr>)"

definition generateSlipForUser ::
  "id \<Rightarrow> id \<Rightarrow> nat \<Rightarrow> nat \<Rightarrow> CreatePayrollItemDto list option \<Rightarrow> env \<Rightarrow> payroll_db \<Rightarrow> http_error + payroll_db" where
  "generateSlipForUser tenantId userId year month customItems e db =
     (case find (\<lambda>p. sf_tenantId p = tenantId \<and> sf_userId p = userId) (staffPayrollProfiles db) of
        None \<Rightarrow> Inl (NotFound ''payroll profile'')
      | Some profile \<Rightarrow>
          (let custom = (case customItems of None \<Rightarrow> [] | Some xs \<Rightarrow> xs);
               gross = sf_baseMonthlySalary profile;
               pay = (if custom = [] then profile_pay gross
                      else (let (g, d, n) = custom_pay custom in (round_away g, round_away d, round_away n)));
               its = (\<lambda>slipId. if custom = [] then profile_items tenantId slipId month gross
                      else custom_items tenantId slipId custom)
           in case slip_of_month tenantId userId year month db of
                Some s \<Rightarrow> Inr (add_items (its (ps_id s))
                  (update_slip (ps_id s) (profile_columns pay) (drop_items (ps_id s) db)))
              | None \<Rightarrow> bindE (create_slip (profile_columns pay (blank_slip (uuid e 0) tenantId userId year month)) db)
                  (\<lambda>db'. Inr (add_items (its (uuid e 0)) db'))))"

end
