(* ===== verification/Payroll_Laws.thy ===== *)
theory Payroll_Laws
  imports Payroll
begin

text \<open>
  What the operations of the payroll keep: the keys of the tables, the slips that have been issued or paid,
  and the adjustments that have been applied.  \<open>payroll_office\<close> states this as the interface of a service
  and draws its consequences for runs; \<open>payroll_serve\<close>, the requests the controllers hand to the services,
  provides it.
\<close>

section \<open>The invariant of the tables\<close>

definition slip_key :: "PayrollSlip \<Rightarrow> id \<times> id \<times> nat \<times> nat" where
  "slip_key s = (ps_tenantId s, ps_userId s, ps_year s, ps_month s)"

definition payroll_inv :: "payroll_db \<Rightarrow> bool" where
  "payroll_inv db \<longleftrightarrow> distinct (map ps_id (payrollSlips db)) \<and> distinct (map slip_key (payrollSlips db))
     \<and> distinct (map pa_id (payrollAdjustments db))
     \<and> (\<forall>i \<in> set (payrollItems db). it_slipId i \<in> set (map ps_id (payrollSlips db)))"

definition slip_amounts :: "PayrollSlip \<Rightarrow> int \<times> int \<times> int \<times> int \<times> int" where
  "slip_amounts s = (ps_calculatedAmount s, ps_finalAmount s, ps_grossPay s, ps_totalDeductions s, ps_netPay s)"

definition settled :: "PayrollStatus \<Rightarrow> bool" where
  "settled s \<longleftrightarrow> s = PS_SETTLED \<or> s = PS_PAID"

definition status_step :: "PayrollStatus \<Rightarrow> PayrollStatus \<Rightarrow> bool" where
  "status_step a b \<longleftrightarrow> (settled a \<longrightarrow> settled b) \<and> (b = a \<or> b = PS_PAID \<or> b = PS_CANCELLED)"

lemma status_step_refl [simp]: "status_step a a"
  by (simp add: status_step_def)

lemma status_step_trans: "settled a \<Longrightarrow> status_step a b \<Longrightarrow> status_step b c \<Longrightarrow> status_step a c \<and> settled b"
  by (auto simp: status_step_def settled_def)

text \<open>An issued slip keeps its key, its amounts and its items, and can only be paid or cancelled.\<close>

definition slip_kept :: "PayrollSlip \<Rightarrow> payroll_db \<Rightarrow> payroll_db \<Rightarrow> bool" where
  "slip_kept s db db' \<longleftrightarrow> (\<exists>s' \<in> set (payrollSlips db'). ps_id s' = ps_id s \<and> slip_key s' = slip_key s
     \<and> slip_amounts s' = slip_amounts s \<and> items_of (ps_id s) db' = items_of (ps_id s) db
     \<and> status_step (ps_status s) (ps_status s'))"

definition issued_kept :: "payroll_db \<Rightarrow> payroll_db \<Rightarrow> bool" where
  "issued_kept db db' \<longleftrightarrow> (\<forall>s \<in> set (payrollSlips db). frozen_status (ps_status s) \<longrightarrow> slip_kept s db db')"

text \<open>Adjustments are never removed, keep their amounts, and stay as they are once they are applied.\<close>

definition adjustment_kept :: "PayrollAdjustment \<Rightarrow> payroll_db \<Rightarrow> bool" where
  "adjustment_kept a db' \<longleftrightarrow> (\<exists>a' \<in> set (payrollAdjustments db'). pa_id a' = pa_id a \<and> pa_amount a' = pa_amount a
     \<and> pa_teacherId a' = pa_teacherId a \<and> pa_tenantId a' = pa_tenantId a \<and> (pa_status a \<noteq> AD_PENDING \<longrightarrow> a' = a))"

definition adjustments_kept :: "payroll_db \<Rightarrow> payroll_db \<Rightarrow> bool" where
  "adjustments_kept db db' \<longleftrightarrow> (\<forall>a \<in> set (payrollAdjustments db). adjustment_kept a db')"

lemma slip_kept_refl: "s \<in> set (payrollSlips db) \<Longrightarrow> slip_kept s db db"
  unfolding slip_kept_def by (rule bexI [of _ s]) simp_all

lemma issued_kept_refl: "issued_kept db db"
  by (simp add: issued_kept_def slip_kept_refl)

lemma adjustments_kept_refl: "adjustments_kept db db"
  unfolding adjustments_kept_def adjustment_kept_def by blast

lemma adjustments_kept_trans: "adjustments_kept a b \<Longrightarrow> adjustments_kept b c \<Longrightarrow> adjustments_kept a c"
  unfolding adjustments_kept_def adjustment_kept_def by metis

text \<open>A paid slip stays paid and unchanged over two steps.\<close>

lemma slip_kept_trans:
  assumes "slip_kept s a b" and "issued_kept b c" and "settled (ps_status s)"
  shows "slip_kept s a c"
proof -
  from assms(1) obtain s' where s': "s' \<in> set (payrollSlips b)" "ps_id s' = ps_id s" "slip_key s' = slip_key s"
      "slip_amounts s' = slip_amounts s" "items_of (ps_id s) b = items_of (ps_id s) a"
      "status_step (ps_status s) (ps_status s')" by (auto simp: slip_kept_def)
  with assms(3) have "frozen_status (ps_status s')" by (auto simp: status_step_def settled_def frozen_status_def)
  with assms(2) s'(1) obtain s2 where s2: "s2 \<in> set (payrollSlips c)" "ps_id s2 = ps_id s'" "slip_key s2 = slip_key s'"
      "slip_amounts s2 = slip_amounts s'" "items_of (ps_id s') c = items_of (ps_id s') b"
      "status_step (ps_status s') (ps_status s2)" by (auto simp: issued_kept_def slip_kept_def)
  show ?thesis unfolding slip_kept_def
    using s' s2 status_step_trans [OF assms(3) s'(6) s2(6)] by (intro bexI [of _ s2]) simp_all
qed

section \<open>The interface\<close>

locale payroll_office =
  fixes inv :: "payroll_db \<Rightarrow> bool" and serve :: "'req \<Rightarrow> payroll_db \<Rightarrow> http_error + payroll_db"
    and gentle :: "'req \<Rightarrow> bool"
  assumes inv_kept: "inv db \<Longrightarrow> serve r db = Inr db' \<Longrightarrow> inv db'"
    and issued: "inv db \<Longrightarrow> gentle r \<Longrightarrow> serve r db = Inr db' \<Longrightarrow> issued_kept db db'"
    and applied: "inv db \<Longrightarrow> serve r db = Inr db' \<Longrightarrow> adjustments_kept db db'"
begin

lemma run_inv: "inv db \<Longrightarrow> foldE serve rs db = Inr db' \<Longrightarrow> inv db'"
  by (rule foldE_invariant [of rs inv serve db]) (auto intro: inv_kept)

lemma run_adjustments: "inv db \<Longrightarrow> foldE serve rs db = Inr db' \<Longrightarrow> adjustments_kept db db'"
proof (induction rs arbitrary: db)
  case Nil
  then show ?case by (simp add: adjustments_kept_refl)
next
  case (Cons r rs)
  from Cons.prems(2) obtain d where "serve r db = Inr d" "foldE serve rs d = Inr db'" by (auto simp: bindE_Inr)
  with Cons show ?case by (blast intro: adjustments_kept_trans applied inv_kept)
qed

lemma run_settled:
  "inv db \<Longrightarrow> list_all gentle rs \<Longrightarrow> foldE serve rs db = Inr db' \<Longrightarrow> s \<in> set (payrollSlips db)
     \<Longrightarrow> settled (ps_status s) \<Longrightarrow> slip_kept s db db'"
proof (induction rs arbitrary: db' rule: rev_induct)
  case Nil
  then show ?case by (simp add: slip_kept_refl)
next
  case (snoc r rs)
  from snoc.prems(3) obtain d where d: "foldE serve rs db = Inr d" "serve r d = Inr db'"
    by (auto simp: foldE_append bindE_Inr)
  with snoc.prems have "inv d" "gentle r" by (auto intro: run_inv)
  with d snoc show ?case by (auto intro: slip_kept_trans issued)
qed

end

section \<open>Steps that touch one slip\<close>

text \<open>Everything but the slip \<open>i\<close> and its items is as before; the slip \<open>i\<close> has not been issued.\<close>

definition only_slip :: "id \<Rightarrow> payroll_db \<Rightarrow> payroll_db \<Rightarrow> bool" where
  "only_slip i db db' \<longleftrightarrow> (\<forall>s \<in> set (payrollSlips db). ps_id s \<noteq> i \<longrightarrow> s \<in> set (payrollSlips db'))
     \<and> (\<forall>j. j \<noteq> i \<longrightarrow> items_of j db' = items_of j db)"

definition open_slip :: "id \<Rightarrow> payroll_db \<Rightarrow> bool" where
  "open_slip i db \<longleftrightarrow> (\<forall>s \<in> set (payrollSlips db). ps_id s = i \<longrightarrow> \<not> frozen_status (ps_status s))"

definition issued_same :: "payroll_db \<Rightarrow> payroll_db \<Rightarrow> bool" where
  "issued_same db db' \<longleftrightarrow> (\<forall>s \<in> set (payrollSlips db). frozen_status (ps_status s)
     \<longrightarrow> s \<in> set (payrollSlips db') \<and> items_of (ps_id s) db' = items_of (ps_id s) db)"

lemma issued_same_refl: "issued_same db db"
  by (simp add: issued_same_def)

lemma issued_same_trans: "issued_same a b \<Longrightarrow> issued_same b c \<Longrightarrow> issued_same a c"
  by (simp add: issued_same_def)

lemma issued_same_kept: "issued_same db db' \<Longrightarrow> issued_kept db db'"
  unfolding issued_same_def issued_kept_def slip_kept_def
  by (intro ballI impI) (rule bexI, auto)

lemma only_slip_issued: "only_slip i db db' \<Longrightarrow> open_slip i db \<Longrightarrow> issued_same db db'"
  by (auto simp: only_slip_def open_slip_def issued_same_def)

lemma only_slip_trans: "only_slip i a b \<Longrightarrow> only_slip i b c \<Longrightarrow> only_slip i a c"
  by (simp add: only_slip_def)

lemma items_of_add: "items_of j (add_items is db) = items_of j db @ filter (\<lambda>i. it_slipId i = j) is"
  by (simp add: items_of_def add_items_def)

lemma items_of_drop: "items_of j (drop_items i db) = (if j = i then [] else items_of j db)"
  by (auto simp: items_of_def drop_items_def filter_empty_conv intro: filter_cong)

lemma items_of_update [simp]: "items_of j (update_slip i f db) = items_of j db"
  by (simp add: items_of_def update_slip_def)

lemma slips_of_ops [simp]:
  "payrollSlips (add_items is db) = payrollSlips db" "payrollSlips (drop_items i db) = payrollSlips db"
  "payrollSlips (link_adjustments i adjs db) = payrollSlips db"
  "payrollSlips (update_slip i f db) = update_row ps_id i f (payrollSlips db)"
  by (simp_all add: add_items_def drop_items_def link_adjustments_def update_slip_def)

lemma adjustments_of_ops [simp]:
  "payrollAdjustments (add_items is db) = payrollAdjustments db"
  "payrollAdjustments (drop_items i db) = payrollAdjustments db"
  "payrollAdjustments (update_slip i f db) = payrollAdjustments db"
  by (simp_all add: add_items_def drop_items_def update_slip_def)

lemma items_of_link [simp]: "items_of j (link_adjustments i adjs db) = items_of j db"
  by (simp add: items_of_def link_adjustments_def)

text \<open>Changes of the columns that are no keys.\<close>

definition keeps_key :: "(PayrollSlip \<Rightarrow> PayrollSlip) \<Rightarrow> bool" where
  "keeps_key f \<longleftrightarrow> (\<forall>s. ps_id (f s) = ps_id s \<and> slip_key (f s) = slip_key s)"

lemma slip_columns_keep_key:
  "keeps_key (calculated_columns c n adjs)" "keeps_key (profile_columns pay)"
  by (auto simp: keeps_key_def slip_key_def calculated_columns_def profile_columns_def split: prod.splits)

lemma map_update_row: "(\<And>s. g (f s) = g s) \<Longrightarrow> map g (update_row ps_id i f ss) = map g ss"
  by (auto simp: update_row_def)

lemma inv_update_slip: "keeps_key f \<Longrightarrow> payroll_inv db \<Longrightarrow> payroll_inv (update_slip i f db)"
  by (simp add: payroll_inv_def keeps_key_def map_update_row) (simp add: update_slip_def)

lemma inv_drop_items: "payroll_inv db \<Longrightarrow> payroll_inv (drop_items i db)"
  by (auto simp: payroll_inv_def drop_items_def)

lemma inv_add_items:
  "payroll_inv db \<Longrightarrow> \<forall>it \<in> set is. it_slipId it = i \<Longrightarrow> i \<in> ps_id ` set (payrollSlips db) \<Longrightarrow> payroll_inv (add_items is db)"
  by (auto simp: payroll_inv_def add_items_def)

lemma inv_link: "payroll_inv db \<Longrightarrow> payroll_inv (link_adjustments i adjs db)"
  by (simp add: payroll_inv_def link_adjustments_def update_where_def comp_def if_distrib cong: if_cong)

lemma only_update_slip: "only_slip i db (update_slip i f db)"
  by (auto simp: only_slip_def set_update_row image_iff)

lemma only_drop_items: "only_slip i db (drop_items i db)"
  by (simp add: only_slip_def items_of_drop)

lemma only_add_items: "\<forall>it \<in> set is. it_slipId it = i \<Longrightarrow> only_slip i db (add_items is db)"
  by (auto simp: only_slip_def items_of_add filter_empty_conv)

lemma only_link: "only_slip i db (link_adjustments j adjs db)"
  by (simp add: only_slip_def)

lemma items_belong:
  "\<forall>it \<in> set (calculated_items tenantId i month c n adjs). it_slipId it = i"
  "\<forall>it \<in> set (profile_items tenantId i month gross). it_slipId it = i"
  "\<forall>it \<in> set (custom_items tenantId i custom). it_slipId it = i"
  by (auto simp: calculated_items_def profile_items_def custom_items_def Let_def)

section \<open>The operations\<close>

lemma create_slipD:
  assumes "create_slip s db = Inr db'" and "payroll_inv db"
  shows "db' = db\<lparr>payrollSlips := payrollSlips db @ [s]\<rparr>" and "ps_id s \<notin> ps_id ` set (payrollSlips db)"
    and "payroll_inv db'" and "open_slip (ps_id s) db" and "only_slip (ps_id s) db db'"
    and "items_of (ps_id s) db = []"
proof -
  show e: "db' = db\<lparr>payrollSlips := payrollSlips db @ [s]\<rparr>" and n: "ps_id s \<notin> ps_id ` set (payrollSlips db)"
    using assms(1) by (auto simp: create_slip_def split: if_splits)
  show "payroll_inv db'" using assms unfolding e
    by (auto simp: create_slip_def payroll_inv_def slip_key_def comp_def split: if_splits)
  show "open_slip (ps_id s) db" using n by (auto simp: open_slip_def image_iff)
  show "only_slip (ps_id s) db db'" by (simp add: e only_slip_def items_of_def)
  show "items_of (ps_id s) db = []" using n assms(2)
    by (auto simp: items_of_def payroll_inv_def filter_empty_conv image_iff) (metis)
qed

lemma create_slip_adjustments: "create_slip s db = Inr db' \<Longrightarrow> payrollAdjustments db' = payrollAdjustments db"
  by (auto simp: create_slip_def split: if_splits)

lemma slip_of_monthD:
  assumes "slip_of_month tenantId userId year month db = Some s"
  shows "s \<in> set (payrollSlips db)" and "slip_key s = (tenantId, userId, year, month)"
  using find_Some_iff_mem [OF assms [unfolded slip_of_month_def]] by (simp_all add: slip_key_def)

lemma open_slipI: "payroll_inv db \<Longrightarrow> s \<in> set (payrollSlips db) \<Longrightarrow> \<not> frozen_status (ps_status s) \<Longrightarrow> open_slip (ps_id s) db"
  unfolding payroll_inv_def open_slip_def using distinct_key_inj by metis

lemma mem_update_row: "s \<in> set ss \<Longrightarrow> ps_id s = i \<Longrightarrow> f s \<in> set (update_row ps_id i f ss)"
  by (auto simp: set_update_row)

text \<open>The slip of the month after it has been placed: open before, without items now, the only one touched.\<close>

lemma place_slipD:
  assumes "place_slip tenantId year month i c n adjs db = Inr (Some (sid, db'))" and "payroll_inv db"
  obtains s where "payroll_inv db'" and "open_slip sid db" and "only_slip sid db db'" and "items_of sid db' = []"
    and "payrollAdjustments db' = payrollAdjustments db"
    and "calculated_columns c n adjs s \<in> set (payrollSlips db')" and "ps_id s = sid"
    and "slip_key s = (tenantId, tc_teacherId c, year, month)"
proof (cases "slip_of_month tenantId (tc_teacherId c) year month db")
  case None
  let ?s = "blank_slip i tenantId (tc_teacherId c) year month"
  let ?c = "calculated_columns c n adjs ?s"
  have ci: "ps_id ?c = i" by (simp add: calculated_columns_def blank_slip_def)
  from assms(1) None have "create_slip ?c db = Inr db'" "sid = i" by (auto simp: place_slip_def bindE_Inr)
  note cs = create_slipD [OF this(1) assms(2), unfolded ci] create_slip_adjustments [OF this(1)] this(2)
  show thesis
  proof (rule that [of ?s])
    show "items_of sid db' = []" using cs(1,6,8) by (simp add: items_of_def)
  qed (use cs in \<open>simp_all add: blank_slip_def slip_key_def\<close>)
next
  case (Some s)
  from assms(1) Some have r: "\<not> frozen_status (ps_status s)" "sid = ps_id s"
      "db' = drop_items sid (update_slip sid (calculated_columns c n adjs) db)"
    by (auto simp: place_slip_def split: if_splits)
  note sm = slip_of_monthD [OF Some]
  show thesis
  proof (rule that [of s])
    show "payroll_inv db'" unfolding r(3)
      by (intro inv_drop_items inv_update_slip slip_columns_keep_key assms(2))
    show "open_slip sid db" unfolding r(2) by (rule open_slipI [OF assms(2) sm(1) r(1)])
    show "only_slip sid db db'" unfolding r(3)
      by (rule only_slip_trans [OF only_update_slip only_drop_items])
    show "items_of sid db' = []" by (simp add: r(3) items_of_drop)
    show "calculated_columns c n adjs s \<in> set (payrollSlips db')"
      using mem_update_row [OF sm(1) r(2) [symmetric], of "calculated_columns c n adjs"] by (simp add: r(3))
  qed (use r sm in simp_all)
qed

lemma pending_mem: "a \<in> set (pending_adjustments tenantId teacherId db) \<Longrightarrow> a \<in> set (payrollAdjustments db) \<and> pa_status a = AD_PENDING"
  by (simp add: pending_adjustments_def)

text \<open>Linking pending adjustments leaves every other adjustment alone and only sets the link.\<close>

lemma link_keeps:
  assumes "distinct (map pa_id (payrollAdjustments db))"
    and "payrollAdjustments db' = payrollAdjustments db"
    and "\<forall>a \<in> set adjs. a \<in> set (payrollAdjustments db) \<and> pa_status a = AD_PENDING"
  shows "adjustments_kept db (link_adjustments i adjs db')"
  unfolding adjustments_kept_def adjustment_kept_def
proof
  fix a assume a: "a \<in> set (payrollAdjustments db)"
  let ?a = "if pa_id a \<in> pa_id ` set adjs then a\<lparr>pa_appliedToSlipId := Some i\<rparr> else a"
  have "?a = a" if "pa_status a \<noteq> AD_PENDING"
  proof -
    have "pa_id a \<notin> pa_id ` set adjs"
      using that a assms(3) distinct_key_inj [OF assms(1) a] by (metis imageE)
    then show ?thesis by simp
  qed
  moreover have "?a \<in> set (payrollAdjustments (link_adjustments i adjs db'))"
    using a by (auto simp: link_adjustments_def update_where_def assms(2))
  ultimately show "\<exists>a'\<in>set (payrollAdjustments (link_adjustments i adjs db')). pa_id a' = pa_id a \<and> pa_amount a' = pa_amount a
     \<and> pa_teacherId a' = pa_teacherId a \<and> pa_tenantId a' = pa_tenantId a \<and> (pa_status a \<noteq> AD_PENDING \<longrightarrow> a' = a)"
    by (intro bexI [of _ ?a]) auto
qed

definition gentle_step :: "payroll_db \<Rightarrow> payroll_db \<Rightarrow> bool" where
  "gentle_step db db' \<longleftrightarrow> payroll_inv db' \<and> issued_same db db' \<and> adjustments_kept db db'"

lemma gentle_refl: "payroll_inv db \<Longrightarrow> gentle_step db db"
  by (simp add: gentle_step_def issued_same_refl adjustments_kept_refl)

lemma gentle_trans: "gentle_step a b \<Longrightarrow> gentle_step b c \<Longrightarrow> gentle_step a c"
  unfolding gentle_step_def using issued_same_trans adjustments_kept_trans by blast

lemma adjustments_same_kept: "payrollAdjustments db' = payrollAdjustments db \<Longrightarrow> adjustments_kept db db'"
  unfolding adjustments_kept_def adjustment_kept_def by auto

lemma calculate_contractE:
  assumes "calculate_contract tenantId year month r e (k, c) (db, g) = Inr (db', g')"
  obtains (frozen) "db' = db" "g' = g" "place_slip tenantId year month (uuid e k) c (sessions_of tenantId r c db)
        (pending_adjustments tenantId (tc_teacherId c) db) db = Inr None"
  | (placed) sid db1 where "place_slip tenantId year month (uuid e k) c (sessions_of tenantId r c db)
        (pending_adjustments tenantId (tc_teacherId c) db) db = Inr (Some (sid, db1))"
      and "db' = link_adjustments sid (pending_adjustments tenantId (tc_teacherId c) db)
        (add_items (calculated_items tenantId sid month c (sessions_of tenantId r c db)
           (pending_adjustments tenantId (tc_teacherId c) db)) db1)"
      and "g' = g @ [sid]"
proof -
  let ?adjs = "pending_adjustments tenantId (tc_teacherId c) db" and ?n = "sessions_of tenantId r c db"
  from assms obtain x where x: "place_slip tenantId year month (uuid e k) c ?n ?adjs db = Inr x"
    "(case x of None \<Rightarrow> Inr (db, g)
       | Some (slipId, db1) \<Rightarrow> Inr (link_adjustments slipId ?adjs (add_items (calculated_items tenantId slipId month c ?n ?adjs) db1),
           g @ [slipId])) = (Inr (db', g') :: http_error + payroll_db \<times> id list)"
    unfolding calculate_contract_def Let_def by (auto simp: bindE_Inr)
  show thesis
  proof (cases x)
    case None
    with x show thesis by (auto intro: frozen)
  next
    case (Some p)
    with x show thesis by (cases p) (auto intro: placed)
  qed
qed

lemma calculate_contract_gentle:
  assumes "calculate_contract tenantId year month r e (k, c) (db, g) = Inr (db', g')" and "payroll_inv db"
  shows "gentle_step db db'"
  using assms(1)
proof (cases rule: calculate_contractE)
  case frozen
  with assms(2) show ?thesis by (simp add: gentle_refl)
next
  case (placed sid db1)
  let ?adjs = "pending_adjustments tenantId (tc_teacherId c) db"
  from placed(1) assms(2) obtain s where s: "payroll_inv db1" "open_slip sid db" "only_slip sid db db1"
      "payrollAdjustments db1 = payrollAdjustments db"
      "calculated_columns c (sessions_of tenantId r c db) ?adjs s \<in> set (payrollSlips db1)" "ps_id s = sid"
    by (rule place_slipD)
  have "ps_id (calculated_columns c (sessions_of tenantId r c db) ?adjs s) = sid"
    using s(6) slip_columns_keep_key(1) by (simp add: keeps_key_def)
  with s(5) have "sid \<in> ps_id ` set (payrollSlips db1)" by (metis imageI)
  with s(1) have "payroll_inv db'" unfolding placed(2)
    by (intro inv_link inv_add_items [where i = sid] items_belong) simp_all
  moreover have "only_slip sid db db'" unfolding placed(2)
    by (rule only_slip_trans [OF s(3) only_slip_trans [OF only_add_items only_link]]) (rule items_belong)
  then have "issued_same db db'" using s(2) by (rule only_slip_issued)
  moreover have "adjustments_kept db db'" unfolding placed(2)
    by (rule link_keeps) (use assms(2) s(4) pending_mem in \<open>auto simp: payroll_inv_def\<close>)
  ultimately show ?thesis by (simp add: gentle_step_def)
qed

lemma calculate_gentle:
  assumes "calculateMonthlyPayroll lib tenantId year month e db = Inr (db', n)" and "payroll_inv db"
  shows "gentle_step db db'"
proof -
  from assms(1) obtain r g where g: "foldE (calculate_contract tenantId year month r e)
      (zip [0..<length (contracts_of_month tenantId r db)] (contracts_of_month tenantId r db)) (db, []) = Inr (db', g)"
    by (auto simp: calculateMonthlyPayroll_def bindE_Inr Let_def split: if_splits)
  have "gentle_step db (fst (db', g))"
  proof (rule foldE_invariant [where I = "\<lambda>p. gentle_step db (fst p)", OF _ _ g])
    show "gentle_step db (fst (db, []))" using assms(2) by (simp add: gentle_refl)
    fix x p p'
    assume "gentle_step db (fst p)" "calculate_contract tenantId year month r e x p = Inr p'"
    moreover from this have "gentle_step (fst p) (fst p')"
      using calculate_contract_gentle [of tenantId year month r e "fst x" "snd x" "fst p" "snd p" "fst p'" "snd p'"]
      by (simp add: gentle_step_def)
    ultimately show "gentle_step db (fst p')" by (blast intro: gentle_trans)
  qed
  then show ?thesis by simp
qed

lemma find_slipD:
  assumes "find_slip tenantId slipId db = Some s"
  shows "s \<in> set (payrollSlips db)" and "ps_id s = slipId" and "ps_tenantId s = tenantId"
  using find_Some_iff_mem [OF assms [unfolded find_slip_def]] by simp_all

lemma review_gentle:
  assumes "reviewAndEditSlip tenantId slipId amount reason adminId e db = Inr db'" and "payroll_inv db"
  shows "gentle_step db db'"
proof -
  from assms(1) obtain s where s: "find_slip tenantId slipId db = Some s" "\<not> frozen_status (ps_status s)"
    "db' = update_slip slipId (\<lambda>s. s\<lparr>ps_finalAmount := amount, ps_netPay := amount,
            ps_grossPay := amount, ps_status := PS_REVIEWED, ps_editReason := Some (trim reason),
            ps_editedById := Some adminId, ps_editedAt := Some (now e)\<rparr>) db"
    by (auto simp: reviewAndEditSlip_def split: option.splits if_splits)
  have "open_slip slipId db" using open_slipI [OF assms(2) find_slipD(1) [OF s(1)] s(2)] find_slipD(2) [OF s(1)] by simp
  with assms(2) show ?thesis unfolding gentle_step_def s(3)
    by (intro conjI inv_update_slip only_slip_issued [OF only_update_slip] adjustments_same_kept)
      (simp_all add: keeps_key_def slip_key_def)
qed

lemma payroll_inv_cong:
  "payrollSlips db' = payrollSlips db \<Longrightarrow> payrollItems db' = payrollItems db
     \<Longrightarrow> distinct (map pa_id (payrollAdjustments db')) \<Longrightarrow> payroll_inv db \<Longrightarrow> payroll_inv db'"
  by (simp add: payroll_inv_def)

lemma create_adjustment_gentle:
  assumes "createAdjustment tenantId createdById dto e db = Inr db'" and "payroll_inv db"
  shows "gentle_step db db'"
proof -
  from assms(1) obtain a where a: "db' = db\<lparr>payrollAdjustments := payrollAdjustments db @ [a]\<rparr>"
      "pa_id a \<notin> set (map pa_id (payrollAdjustments db))"
    by (auto simp: createAdjustment_def Let_def split: option.splits if_splits)
  have "payroll_inv db'" by (rule payroll_inv_cong [OF _ _ _ assms(2)]) (use assms(2) a in \<open>auto simp: payroll_inv_def\<close>)
  moreover have "adjustments_kept db db'" by (auto simp: a adjustments_kept_def adjustment_kept_def)
  ultimately show ?thesis by (simp add: gentle_step_def a issued_same_def items_of_def)
qed

lemma update_slip_issued:
  assumes "payroll_inv db" and "find_slip tenantId slipId db = Some s" and "keeps_key f"
    and "slip_amounts (f s) = slip_amounts s" and "status_step (ps_status s) (ps_status (f s))"
  shows "issued_kept db (update_slip slipId f db)"
  unfolding issued_kept_def
proof (intro ballI impI)
  fix q assume q: "q \<in> set (payrollSlips db)"
  note fs = find_slipD [OF assms(2)]
  have "q = s" if "ps_id q = slipId"
    using that fs q assms(1) distinct_key_inj unfolding payroll_inv_def by metis
  then show "slip_kept q db (update_slip slipId f db)" unfolding slip_kept_def
    using assms(3-5) q
    by (intro bexI [of _ "if ps_id q = slipId then f q else q"]) (auto simp: keeps_key_def set_update_row)
qed

lemma cancel_keeps:
  assumes "cancelSlip tenantId slipId reason admin e db = Inr db'" and "payroll_inv db"
  shows "payroll_inv db' \<and> issued_kept db db' \<and> adjustments_kept db db'"
proof -
  let ?f = "\<lambda>s. s\<lparr>ps_status := PS_CANCELLED, ps_cancelReason := Some (trim reason),
            ps_cancelledById := Some (adm_id admin), ps_cancelledAt := Some (now e)\<rparr>"
  from assms(1) obtain s where s: "find_slip tenantId slipId db = Some s" "\<not> settled (ps_status s)"
      "db' = update_slip slipId ?f db"
    by (auto simp: cancelSlip_def settled_def split: option.splits if_splits)
  have k: "keeps_key ?f" by (simp add: keeps_key_def slip_key_def)
  show ?thesis unfolding s(3)
    by (intro conjI inv_update_slip [OF k] assms(2) update_slip_issued [OF assms(2) s(1) k] adjustments_same_kept)
      (use s(2) in \<open>simp_all add: slip_amounts_def status_step_def\<close>)
qed

lemma disburse_keeps:
  assumes "approveAndDisburse tenantId slipId approver ref e db = Inr db'" and "payroll_inv db"
  shows "payroll_inv db' \<and> issued_kept db db' \<and> adjustments_kept db db'"
proof -
  let ?f = "\<lambda>s. s\<lparr>ps_status := PS_PAID, ps_paidAt := Some (now e),
          ps_paidById := Some approver, ps_paymentRefNumber := Some ref\<rparr>"
  from assms(1) obtain s where s: "find_slip tenantId slipId db = Some s" "db' = update_slip slipId ?f db"
    by (auto simp: approveAndDisburse_def split: option.splits)
  have k: "keeps_key ?f" by (simp add: keeps_key_def slip_key_def)
  show ?thesis unfolding s(2)
    by (intro conjI inv_update_slip [OF k] assms(2) update_slip_issued [OF assms(2) s(1) k] adjustments_same_kept)
      (simp_all add: slip_amounts_def status_step_def settled_def)
qed

lemma update_where_mem: "a \<in> set rs \<Longrightarrow> (if p a then f a else a) \<in> set (update_where p f rs)"
  by (auto simp: update_where_def)

lemma map_update_where: "(\<And>r. g (f r) = g r) \<Longrightarrow> map g (update_where p f rs) = map g rs"
  by (auto simp: update_where_def)

lemma finalize_gentle:
  assumes "finalizeMonthlySlips tenantId year month e db = Inr (db', n)" and "payroll_inv db"
  shows "gentle_step db db'"
proof -
  define active where "active = map ps_id (active_slips tenantId year month db)"
  define linked where "linked = (\<lambda>a :: PayrollAdjustment. (case pa_appliedToSlipId a of None \<Rightarrow> False | Some i \<Rightarrow> i \<in> set active) \<and> pa_status a = AD_PENDING)"
  have db': "db' = db\<lparr>payrollSlips := update_where (\<lambda>s. ps_id s \<in> set active) (\<lambda>s. s\<lparr>ps_status := PS_ISSUED\<rparr>) (payrollSlips db),
      payrollAdjustments := update_where linked (\<lambda>a. a\<lparr>pa_status := AD_APPLIED, pa_appliedAt := Some (now e)\<rparr>) (payrollAdjustments db)\<rparr>"
    using assms(1) unfolding finalizeMonthlySlips_def Let_def linked_def active_def
    by (simp split: if_splits)
  have act: "ps_id s \<notin> set active" if s: "s \<in> set (payrollSlips db)" "frozen_status (ps_status s)" for s
  proof
    assume "ps_id s \<in> set active"
    then obtain q where "q \<in> set (payrollSlips db)" "ps_id q = ps_id s" "\<not> frozen_status (ps_status q)"
      by (auto simp: active_def active_slips_def frozen_status_def)
    with s show False using distinct_key_inj assms(2) unfolding payroll_inv_def by metis
  qed
  have "payroll_inv db'" using assms(2)
    by (simp add: db' payroll_inv_def map_update_where slip_key_def)
  moreover have "issued_same db db'" unfolding issued_same_def
    using act update_where_mem [of _ "payrollSlips db" "\<lambda>s. ps_id s \<in> set active" "\<lambda>s. s\<lparr>ps_status := PS_ISSUED\<rparr>"]
    by (fastforce simp: db' items_of_def)
  moreover have "adjustments_kept db db'" unfolding adjustments_kept_def adjustment_kept_def
  proof
    fix a assume "a \<in> set (payrollAdjustments db)"
    from update_where_mem [OF this, of linked "\<lambda>a. a\<lparr>pa_status := AD_APPLIED, pa_appliedAt := Some (now e)\<rparr>"]
    show "\<exists>a'\<in>set (payrollAdjustments db'). pa_id a' = pa_id a \<and> pa_amount a' = pa_amount a
      \<and> pa_teacherId a' = pa_teacherId a \<and> pa_tenantId a' = pa_tenantId a \<and> (pa_status a \<noteq> AD_PENDING \<longrightarrow> a' = a)"
      by (intro bexI [of _ "if linked a then a\<lparr>pa_status := AD_APPLIED, pa_appliedAt := Some (now e)\<rparr> else a"])
        (auto simp: db' linked_def)
  qed
  ultimately show ?thesis by (simp add: gentle_step_def)
qed

lemma generate_keeps:
  assumes "generateSlipForUser tenantId userId year month custom e db = Inr db'" and "payroll_inv db"
  shows "payroll_inv db' \<and> adjustments_kept db db'"
proof -
  from assms(1) obtain profile where p: "find (\<lambda>p. sf_tenantId p = tenantId \<and> sf_userId p = userId) (staffPayrollProfiles db) = Some profile"
    by (auto simp: generateSlipForUser_def split: option.splits)
  define cs where "cs = (case custom of None \<Rightarrow> [] | Some xs \<Rightarrow> xs)"
  define its where "its = (\<lambda>slipId. if cs = [] then profile_items tenantId slipId month (sf_baseMonthlySalary profile)
                      else custom_items tenantId slipId cs)"
  define pay where "pay = (if cs = [] then profile_pay (sf_baseMonthlySalary profile)
                      else (let (g, d, n) = custom_pay cs in (round_away g, round_away d, round_away n)))"
  have its: "\<forall>it \<in> set (its i). it_slipId it = i" for i by (simp add: its_def items_belong)
  have r: "(case slip_of_month tenantId userId year month db of
        Some s \<Rightarrow> Inr (add_items (its (ps_id s)) (update_slip (ps_id s) (profile_columns pay) (drop_items (ps_id s) db)))
      | None \<Rightarrow> bindE (create_slip (profile_columns pay (blank_slip (uuid e 0) tenantId userId year month)) db)
          (\<lambda>db'. Inr (add_items (its (uuid e 0)) db'))) = (Inr db' :: http_error + payroll_db)"
    using assms(1) unfolding generateSlipForUser_def p option.case Let_def cs_def [symmetric] its_def pay_def .
  show ?thesis
  proof (cases "slip_of_month tenantId userId year month db")
    case None
    let ?s = "profile_columns pay (blank_slip (uuid e 0) tenantId userId year month)"
    have ci: "ps_id ?s = uuid e 0" by (simp add: profile_columns_def blank_slip_def split: prod.splits)
    from r None obtain d where d: "create_slip ?s db = Inr d" "db' = add_items (its (uuid e 0)) d"
      by (auto simp: bindE_Inr)
    note cs = create_slipD [OF d(1) assms(2), unfolded ci]
    have "payroll_inv db'" unfolding d(2) using cs(1) ci
      by (intro inv_add_items [OF cs(3) its]) simp
    then show ?thesis using create_slip_adjustments [OF d(1)] by (simp add: d(2) adjustments_same_kept)
  next
    case (Some s)
    with r have d: "db' = add_items (its (ps_id s)) (update_slip (ps_id s) (profile_columns pay) (drop_items (ps_id s) db))"
      by simp
    have "ps_id s \<in> ps_id ` set (payrollSlips (update_slip (ps_id s) (profile_columns pay) (drop_items (ps_id s) db)))"
      using mem_update_row [OF slip_of_monthD(1) [OF Some] refl, of "profile_columns pay"] slip_columns_keep_key(2) [of pay]
      unfolding keeps_key_def slips_of_ops by (metis imageI)
    then have "payroll_inv db'" unfolding d
      by (intro inv_add_items [OF _ its] inv_update_slip slip_columns_keep_key inv_drop_items assms(2))
    then show ?thesis by (simp add: d adjustments_same_kept)
  qed
qed

section \<open>The requests\<close>

datatype payroll_request =
    SetProfile id id UpdateStaffPayrollProfileDto
  | NewContract id id CreateTeacherContractDto
  | DropContract id id
  | Calculate id nat nat
  | Review id id int string id
  | Cancel id id string payroll_admin
  | Finalize id nat nat
  | Adjust id id CreatePayrollAdjustmentDto
  | Disburse id id id string
  | Generate id id nat nat "CreatePayrollItemDto list option"

fun payroll_serve :: "jalaali \<Rightarrow> payroll_request \<times> env \<Rightarrow> payroll_db \<Rightarrow> http_error + payroll_db" where
  "payroll_serve lib (SetProfile t u dto, e) db = upsertStaffProfile t u dto db"
| "payroll_serve lib (NewContract t by dto, e) db = createTeacherContract t by dto e db"
| "payroll_serve lib (DropContract t c, e) db = deleteContract t c db"
| "payroll_serve lib (Calculate t y m, e) db = bindE (calculateMonthlyPayroll lib t y m e db) (\<lambda>(db', _). Inr db')"
| "payroll_serve lib (Review t s a r by, e) db = reviewAndEditSlip t s a r by e db"
| "payroll_serve lib (Cancel t s r adm, e) db = cancelSlip t s r adm e db"
| "payroll_serve lib (Finalize t y m, e) db = bindE (finalizeMonthlySlips t y m e db) (\<lambda>(db', _). Inr db')"
| "payroll_serve lib (Adjust t by dto, e) db = createAdjustment t by dto e db"
| "payroll_serve lib (Disburse t s by ref, e) db = approveAndDisburse t s by ref e db"
| "payroll_serve lib (Generate t u y m items, e) db = generateSlipForUser t u y m items e db"

text \<open>Every request but the generation of a slip from the profile respects what has been issued.\<close>

fun respects_issued :: "payroll_request \<times> env \<Rightarrow> bool" where
  "respects_issued (Generate t u y m items, e) = False"
| "respects_issued _ = True"

definition payroll_tables :: "payroll_db \<Rightarrow> PayrollSlip list \<times> PayrollItem list \<times> PayrollAdjustment list" where
  "payroll_tables db = (payrollSlips db, payrollItems db, payrollAdjustments db)"

lemma other_tables_gentle:
  assumes "payroll_tables db' = payroll_tables db" and "payroll_inv db"
  shows "gentle_step db db'"
  using assms by (simp add: gentle_step_def payroll_tables_def payroll_inv_def issued_same_def items_of_def
    adjustments_same_kept)

lemma contract_tables:
  "upsertStaffProfile t u p db = Inr db' \<Longrightarrow> payroll_tables db' = payroll_tables db"
  "createTeacherContract t by dto e db = Inr db' \<Longrightarrow> payroll_tables db' = payroll_tables db"
  "deleteContract t c db = Inr db' \<Longrightarrow> payroll_tables db' = payroll_tables db"
  by (auto simp: upsertStaffProfile_def createTeacherContract_def deleteContract_def payroll_tables_def Let_def
      split: option.splits if_splits)

lemma serve_gentle:
  assumes "payroll_serve lib (r, e) db = Inr db'" and "payroll_inv db"
  shows "payroll_inv db'" and "respects_issued (r, e) \<Longrightarrow> issued_kept db db'" and "adjustments_kept db db'"
proof -
  have "payroll_inv db' \<and> (respects_issued (r, e) \<longrightarrow> issued_kept db db') \<and> adjustments_kept db db'"
  proof (cases r)
    case (Cancel t s q a)
    with assms show ?thesis by (auto dest: cancel_keeps)
  next
    case (Disburse t s b q)
    with assms show ?thesis by (auto dest: disburse_keeps)
  next
    case (Generate t u y m its)
    with assms show ?thesis by (auto dest: generate_keeps)
  next
    case (Calculate t y m)
    with assms have "gentle_step db db'" by (auto simp: bindE_Inr dest: calculate_gentle)
    then show ?thesis by (simp add: gentle_step_def issued_same_kept)
  next
    case (Finalize t y m)
    with assms have "gentle_step db db'" by (auto simp: bindE_Inr dest: finalize_gentle)
    then show ?thesis by (simp add: gentle_step_def issued_same_kept)
  next
    case (SetProfile t u dto)
    with assms have "gentle_step db db'" by (auto intro: other_tables_gentle contract_tables)
    then show ?thesis by (simp add: gentle_step_def issued_same_kept)
  next
    case (NewContract t b dto)
    with assms have "gentle_step db db'" by (auto intro: other_tables_gentle contract_tables)
    then show ?thesis by (simp add: gentle_step_def issued_same_kept)
  next
    case (DropContract t c)
    with assms have "gentle_step db db'" by (auto intro: other_tables_gentle contract_tables)
    then show ?thesis by (simp add: gentle_step_def issued_same_kept)
  next
    case (Review t s a q b)
    with assms have "gentle_step db db'" by (auto intro: review_gentle)
    then show ?thesis by (simp add: gentle_step_def issued_same_kept)
  next
    case (Adjust t b dto)
    with assms have "gentle_step db db'" by (auto intro: create_adjustment_gentle)
    then show ?thesis by (simp add: gentle_step_def issued_same_kept)
  qed
  then show "payroll_inv db'" "respects_issued (r, e) \<Longrightarrow> issued_kept db db'" "adjustments_kept db db'" by simp_all
qed

interpretation payroll: payroll_office payroll_inv "payroll_serve lib" respects_issued for lib
proof
  fix db db' and r :: "payroll_request \<times> env"
  assume a: "payroll_inv db" "payroll_serve lib r db = Inr db'"
  obtain q e where r: "r = (q, e)" by (cases r)
  note s = serve_gentle [OF a(2) [unfolded r] a(1)]
  show "payroll_inv db'" and "adjustments_kept db db'" by (rule s)+
  show "respects_issued r \<Longrightarrow> issued_kept db db'" using s(2) by (simp add: r)
qed

end
