(* ===== verification/Payroll_Month.thy ===== *)
theory Payroll_Month
  imports Payroll_Laws
begin

text \<open>
  What one calculation of a month leaves for a teacher: the slip of the last of the teacher's contracts in
  the month, whatever the calculation did for the contracts before it and for the other teachers.
\<close>

section \<open>Adjustments up to their link\<close>

definition unlinked :: "PayrollAdjustment \<Rightarrow> PayrollAdjustment" where
  "unlinked a = a\<lparr>pa_appliedToSlipId := None\<rparr>"

lemma unlinked_map:
  assumes "map unlinked as = map unlinked bs" and f: "\<And>a. f (unlinked a) = f a"
  shows "map f as = map f bs"
proof -
  have e: "map f (map unlinked xs) = map f xs" for xs by (simp add: f)
  have "map f as = map f (map unlinked as)" by (rule e [symmetric])
  also have "\<dots> = map f (map unlinked bs)" by (simp only: assms(1))
  also have "\<dots> = map f bs" by (rule e)
  finally show ?thesis .
qed

lemma initial_final_cong:
  assumes "map unlinked as = map unlinked bs"
  shows "initial_final c n as = initial_final c n bs"
  unfolding initial_final_def using unlinked_map [OF assms, of pa_amount] by (simp add: unlinked_def)

lemma calculated_items_cong:
  assumes "map unlinked as = map unlinked bs"
  shows "calculated_items t i m c n as = calculated_items t i m c n bs"
  unfolding calculated_items_def Let_def
  by (intro arg_cong2 [where f = "(@)"] refl unlinked_map [OF assms]) (simp add: unlinked_def)

lemma calculated_columns_cong:
  assumes "map unlinked as = map unlinked bs"
  shows "calculated_columns c n as s = calculated_columns c n bs s"
  unfolding calculated_columns_def initial_final_cong [OF assms] by (rule refl)

lemma pending_link:
  "map unlinked (pending_adjustments t u (link_adjustments i adjs db)) = map unlinked (pending_adjustments t u db)"
proof -
  have "map unlinked (filter P (update_where Q (\<lambda>a. a\<lparr>pa_appliedToSlipId := Some i\<rparr>) as)) = map unlinked (filter P as)"
    if "\<And>a. P (a\<lparr>pa_appliedToSlipId := Some i\<rparr>) = P a" for P Q as
    using that by (induction as) (auto simp: update_where_def unlinked_def)
  then show ?thesis by (simp add: pending_adjustments_def link_adjustments_def)
qed

section \<open>What a step reads\<close>

definition same_inputs :: "payroll_db \<Rightarrow> payroll_db \<Rightarrow> bool" where
  "same_inputs db db' \<longleftrightarrow> staffUsers db' = staffUsers db \<and> teacherAttendances db' = teacherAttendances db"

lemma sessions_same: "same_inputs db db' \<Longrightarrow> sessions_of t r c db' = sessions_of t r c db"
  by (simp add: sessions_of_def session_count_def same_inputs_def cong: option.case_cong)

lemma inputs_of_ops [simp]:
  "same_inputs d (add_items is db) = same_inputs d db" "same_inputs d (drop_items i db) = same_inputs d db"
  "same_inputs d (link_adjustments i adjs db) = same_inputs d db" "same_inputs d (update_slip i f db) = same_inputs d db"
  by (simp_all add: same_inputs_def add_items_def drop_items_def link_adjustments_def update_slip_def)

lemma place_slip_inputs:
  "place_slip tenantId year month i c n adjs db = Inr (Some (sid, db')) \<Longrightarrow> same_inputs db db'"
  by (auto simp: place_slip_def bindE_Inr create_slip_def split: option.splits if_splits)
    (auto simp: same_inputs_def drop_items_def update_slip_def)

lemma pending_of_ops [simp]:
  "pending_adjustments t u (add_items is db) = pending_adjustments t u db"
  by (simp add: pending_adjustments_def)

lemma step_inputs:
  assumes "calculate_contract tenantId year month r e (k, c) (db, g) = Inr (db', g')" and "payroll_inv db"
  shows "same_inputs db db' \<and> map unlinked (pending_adjustments t u db') = map unlinked (pending_adjustments t u db)"
  using assms(1)
proof (cases rule: calculate_contractE)
  case frozen
  then show ?thesis by (simp add: same_inputs_def)
next
  case (placed sid db1)
  from placed(1) assms(2) have "payrollAdjustments db1 = payrollAdjustments db" by (rule place_slipD)
  then have "pending_adjustments t u db1 = pending_adjustments t u db" by (simp add: pending_adjustments_def)
  with place_slip_inputs [OF placed(1)] show ?thesis by (simp add: placed(2) pending_link)
qed

section \<open>The slip of one teacher\<close>

lemma find_map_same:
  "(\<And>x. x \<in> set xs \<Longrightarrow> P (g x) = P x \<and> (P x \<longrightarrow> g x = x)) \<Longrightarrow> find P (map g xs) = find P xs"
  by (induction xs) auto

lemma find_snoc_other: "\<not> P a \<Longrightarrow> find P (xs @ [a]) = find P xs"
  by (induction xs) auto

lemma slip_of_month_key:
  "slip_of_month t u y m db = find (\<lambda>q. slip_key q = (t, u, y, m)) (payrollSlips db)"
  by (simp add: slip_of_month_def slip_key_def)

lemma slip_of_monthI:
  assumes "payroll_inv db" and "s \<in> set (payrollSlips db)" and "slip_key s = (t, u, y, m)"
  shows "slip_of_month t u y m db = Some s"
  using distinct_find [of slip_key "payrollSlips db" s] assms
  by (simp add: slip_of_month_key payroll_inv_def find_row_def)

text \<open>Placing the slip of another teacher.\<close>

lemma slip_of_month_cong: "payrollSlips db' = payrollSlips db \<Longrightarrow> slip_of_month t u y m db' = slip_of_month t u y m db"
  by (simp add: slip_of_month_def)

lemma place_other:
  assumes "place_slip tenantId year month i c n adjs db = Inr (Some (sid, db'))" and "payroll_inv db"
    and "(tc_teacherId c, year, month) \<noteq> (u, y, m)"
  shows "slip_of_month tenantId u y m db' = slip_of_month tenantId u y m db"
proof (cases "slip_of_month tenantId (tc_teacherId c) year month db")
  case None
  let ?s = "calculated_columns c n adjs (blank_slip i tenantId (tc_teacherId c) year month)"
  from assms(1) None obtain d where "create_slip ?s db = Inr d" "db' = d" by (auto simp: place_slip_def bindE_Inr)
  with create_slipD(1) [OF this(1) assms(2)] have "payrollSlips db' = payrollSlips db @ [?s]" by simp
  moreover have "slip_key ?s = (tenantId, tc_teacherId c, year, month)"
    by (simp add: slip_key_def calculated_columns_def blank_slip_def)
  ultimately show ?thesis using assms(3)
    by (simp add: slip_of_month_key find_snoc_other)
next
  case (Some s)
  from assms(1) Some have r: "db' = drop_items (ps_id s) (update_slip (ps_id s) (calculated_columns c n adjs) db)"
    by (auto simp: place_slip_def split: if_splits)
  note sm = slip_of_monthD [OF Some]
  have "find (\<lambda>q. slip_key q = (tenantId, u, y, m)) (payrollSlips db')
      = find (\<lambda>q. slip_key q = (tenantId, u, y, m)) (payrollSlips db)"
    unfolding r slips_of_ops update_row_def
  proof (rule find_map_same)
    fix q assume q: "q \<in> set (payrollSlips db)"
    have "q = s" if "ps_id q = ps_id s"
      using that q sm(1) assms(2) distinct_key_inj unfolding payroll_inv_def by metis
    then show "(slip_key (if ps_id q = ps_id s then calculated_columns c n adjs q else q) = (tenantId, u, y, m))
        = (slip_key q = (tenantId, u, y, m))
      \<and> (slip_key q = (tenantId, u, y, m) \<longrightarrow> (if ps_id q = ps_id s then calculated_columns c n adjs q else q) = q)"
      using sm(2) assms(3) slip_columns_keep_key(1) [of c n adjs] by (auto simp: keeps_key_def)
  qed
  then show ?thesis by (simp add: slip_of_month_key)
qed

section \<open>One step of the calculation\<close>

definition slip_open :: "id \<Rightarrow> id \<Rightarrow> nat \<Rightarrow> nat \<Rightarrow> payroll_db \<Rightarrow> bool" where
  "slip_open t u y m db \<longleftrightarrow> (case slip_of_month t u y m db of None \<Rightarrow> True | Some s \<Rightarrow> \<not> frozen_status (ps_status s))"

lemma place_not_None:
  assumes "slip_open tenantId (tc_teacherId c) year month db"
  shows "place_slip tenantId year month i c n adjs db \<noteq> Inr None"
  using assms by (auto simp: slip_open_def place_slip_def bindE_Inr split: option.splits)

lemma filter_own: "\<forall>it \<in> set is. it_slipId it = i \<Longrightarrow> filter (\<lambda>it. it_slipId it = i) is = is"
  by (induction "is") auto

text \<open>The step of one of the teacher's own contracts writes the slip and its items.\<close>

lemma own_step:
  assumes "calculate_contract tenantId year month r e (k, c) (db, g) = Inr (db', g')" and "payroll_inv db"
    and "slip_open tenantId (tc_teacherId c) year month db"
    and n: "n = sessions_of tenantId r c db" and adjs: "adjs = pending_adjustments tenantId (tc_teacherId c) db"
  shows "\<exists>s. slip_of_month tenantId (tc_teacherId c) year month db' = Some (calculated_columns c n adjs s)
    \<and> items_of (ps_id s) db' = calculated_items tenantId (ps_id s) month c n adjs"
  using assms(1)
proof (cases rule: calculate_contractE)
  case frozen
  with place_not_None [OF assms(3)] show ?thesis by blast
next
  case (placed sid db1)
  note p = placed [folded n adjs]
  from p(1) assms(2) obtain s where s: "payroll_inv db1" "items_of sid db1 = []" "calculated_columns c n adjs s \<in> set (payrollSlips db1)"
      "ps_id s = sid" "slip_key s = (tenantId, tc_teacherId c, year, month)" by (rule place_slipD)
  have "payroll_inv db'" using calculate_contract_gentle [OF assms(1,2)] by (simp add: gentle_step_def)
  moreover have "calculated_columns c n adjs s \<in> set (payrollSlips db')" using s(3) by (simp add: p(2))
  moreover have "slip_key (calculated_columns c n adjs s) = (tenantId, tc_teacherId c, year, month)"
    using s(5) slip_columns_keep_key(1) by (simp add: keeps_key_def)
  ultimately have "slip_of_month tenantId (tc_teacherId c) year month db' = Some (calculated_columns c n adjs s)"
    by (rule slip_of_monthI)
  moreover have "items_of (ps_id s) db' = calculated_items tenantId (ps_id s) month c n adjs"
    using s(2) by (simp add: p(2) items_of_add s(4) filter_own items_belong)
  ultimately show ?thesis by blast
qed

text \<open>The step of another teacher's contract leaves the slip and its items.\<close>

lemma other_step:
  assumes "calculate_contract tenantId year month r e (k, c) (db, g) = Inr (db', g')" and "payroll_inv db"
    and "(tc_teacherId c, year, month) \<noteq> (u, y', m')"
  shows "slip_of_month tenantId u y' m' db' = slip_of_month tenantId u y' m' db"
    and "slip_of_month tenantId u y' m' db = Some s \<Longrightarrow> items_of (ps_id s) db' = items_of (ps_id s) db"
proof -
  have "slip_of_month tenantId u y' m' db' = slip_of_month tenantId u y' m' db
    \<and> (\<forall>s. slip_of_month tenantId u y' m' db = Some s \<longrightarrow> items_of (ps_id s) db' = items_of (ps_id s) db)"
    using assms(1)
  proof (cases rule: calculate_contractE)
    case (placed sid db1)
    let ?n = "sessions_of tenantId r c db" and ?adjs = "pending_adjustments tenantId (tc_teacherId c) db"
    from placed(1) assms(2) obtain q where q: "payroll_inv db1" "only_slip sid db db1"
        "calculated_columns c ?n ?adjs q \<in> set (payrollSlips db1)" "ps_id q = sid"
        "slip_key q = (tenantId, tc_teacherId c, year, month)" by (rule place_slipD)
    have same: "slip_of_month tenantId u y' m' db1 = slip_of_month tenantId u y' m' db"
      by (rule place_other [OF placed(1) assms(2,3)])
    have "items_of (ps_id s) db' = items_of (ps_id s) db" if s: "slip_of_month tenantId u y' m' db = Some s" for s
    proof -
      note s1 = slip_of_monthD [OF s [folded same]]
      have "ps_id s \<noteq> sid"
      proof
        assume "ps_id s = sid"
        then have "ps_id s = ps_id (calculated_columns c ?n ?adjs q)"
          using q(4) slip_columns_keep_key(1) [of c ?n ?adjs] by (simp add: keeps_key_def)
        then have "s = calculated_columns c ?n ?adjs q"
          using distinct_key_inj s1(1) q(1,3) unfolding payroll_inv_def by metis
        then have "slip_key s = slip_key q" using slip_columns_keep_key(1) [of c ?n ?adjs] by (simp add: keeps_key_def)
        with s1(2) q(5) assms(3) show False by simp
      qed
      with q(2) show ?thesis
        by (simp add: placed(2) items_of_add only_slip_def filter_empty_conv items_belong)
    qed
    then show ?thesis using same slip_of_month_cong [of db' db1 tenantId u y' m'] by (simp add: placed(2))
  qed simp
  then show "slip_of_month tenantId u y' m' db' = slip_of_month tenantId u y' m' db"
    and "slip_of_month tenantId u y' m' db = Some s \<Longrightarrow> items_of (ps_id s) db' = items_of (ps_id s) db" by blast+
qed

section \<open>The whole month\<close>

lemma zip_split:
  "zip [0..<length (xs @ c # ys)] (xs @ c # ys)
     = zip [0..<length xs] xs @ (length xs, c) # zip [Suc (length xs)..<length xs + Suc (length ys)] ys"
proof -
  have "[0..<length (xs @ c # ys)] = [0..<length xs] @ length xs # [Suc (length xs)..<length xs + Suc (length ys)]"
    using upt_add_eq_append [of 0 "length xs" "Suc (length ys)"] by (simp add: upt_conv_Cons del: upt_Suc)
  then show ?thesis by (simp del: upt_Suc)
qed

definition before_last :: "payroll_db \<Rightarrow> id \<Rightarrow> id \<Rightarrow> nat \<Rightarrow> nat \<Rightarrow> payroll_db \<Rightarrow> bool" where
  "before_last db t u y m d \<longleftrightarrow> payroll_inv d \<and> same_inputs db d \<and> slip_open t u y m d
     \<and> map unlinked (pending_adjustments t u d) = map unlinked (pending_adjustments t u db)"

lemma before_last_step:
  assumes "calculate_contract t y m r e (k, c) (d, g) = Inr (d', g')" and "before_last db t u y m d"
  shows "before_last db t u y m d'"
proof -
  from assms(2) have b: "payroll_inv d" "same_inputs db d" "slip_open t u y m d"
    "map unlinked (pending_adjustments t u d) = map unlinked (pending_adjustments t u db)" by (simp_all add: before_last_def)
  note i = step_inputs [OF assms(1) b(1), of t u] calculate_contract_gentle [OF assms(1) b(1)]
  have "slip_open t u y m d'"
  proof (cases "tc_teacherId c = u")
    case True
    from own_step [OF assms(1) b(1) _ refl refl] b(3) True obtain s where
      "slip_of_month t u y m d' = Some (calculated_columns c (sessions_of t r c d) (pending_adjustments t u d) s)" by auto
    then show ?thesis by (simp add: slip_open_def calculated_columns_def frozen_status_def)
  next
    case False
    with other_step(1) [OF assms(1) b(1), of u y m] b(3) show ?thesis by (simp add: slip_open_def)
  qed
  with b i show ?thesis by (auto simp: before_last_def gentle_step_def same_inputs_def)
qed

lemma month_slip:
  assumes "calculateMonthlyPayroll lib t y m e db = Inr (db', count)" and inv: "payroll_inv db"
    and r: "month_range_of lib y m = Inr r" and cs: "contracts_of_month t r db = xs @ c # ys"
    and last: "\<forall>d \<in> set ys. tc_teacherId d \<noteq> u" and u: "tc_teacherId c = u"
    and "slip_open t u y m db"
    and n: "n = sessions_of t r c db" and adjs: "adjs = pending_adjustments t u db"
  shows "\<exists>s. slip_of_month t u y m db' = Some (calculated_columns c n adjs s)
    \<and> items_of (ps_id s) db' = calculated_items t (ps_id s) m c n adjs"
proof -
  let ?f = "calculate_contract t y m r e"
  from assms(1) r cs obtain g where "foldE ?f (zip [0..<length (xs @ c # ys)] (xs @ c # ys)) (db, []) = Inr (db', g)"
    by (auto simp: calculateMonthlyPayroll_def bindE_Inr Let_def simp del: length_append)
  then obtain p1 p2 where p1: "foldE ?f (zip [0..<length xs] xs) (db, []) = Inr p1"
    and p2: "?f (length xs, c) p1 = Inr p2"
    and p3: "foldE ?f (zip [Suc (length xs)..<length xs + Suc (length ys)] ys) p2 = Inr (db', g)"
    unfolding zip_split by (auto simp: foldE_append bindE_Inr)
  have "before_last db t u y m (fst p1)"
  proof (rule foldE_invariant [where I = "\<lambda>p. before_last db t u y m (fst p)", OF _ _ p1])
    show "before_last db t u y m (fst (db, []))" using inv assms(7) by (simp add: before_last_def same_inputs_def)
    fix x p p' assume "before_last db t u y m (fst p)" "?f x p = Inr p'"
    then show "before_last db t u y m (fst p')"
      using before_last_step [of t y m r e "fst x" "snd x" "fst p" "snd p" "fst p'" "snd p'" db u] by simp
  qed
  then have b: "payroll_inv (fst p1)" "same_inputs db (fst p1)" "slip_open t u y m (fst p1)"
    "map unlinked (pending_adjustments t u (fst p1)) = map unlinked adjs" by (simp_all add: before_last_def adjs)
  have step: "?f (length xs, c) (fst p1, snd p1) = Inr (fst p2, snd p2)" using p2 by simp
  from own_step [OF step b(1) _ refl refl] b(3) u obtain s where s:
    "slip_of_month t u y m (fst p2) = Some (calculated_columns c n adjs s)"
    "items_of (ps_id s) (fst p2) = calculated_items t (ps_id s) m c n adjs"
    by (auto simp: sessions_same [OF b(2)] n [symmetric] calculated_columns_cong [OF b(4)] calculated_items_cong [OF b(4)])
  let ?s = "calculated_columns c n adjs s"
  have id: "ps_id ?s = ps_id s" using slip_columns_keep_key(1) by (simp add: keeps_key_def)
  let ?I = "\<lambda>p :: payroll_db \<times> id list. payroll_inv (fst p) \<and> slip_of_month t u y m (fst p) = Some ?s
    \<and> items_of (ps_id s) (fst p) = calculated_items t (ps_id s) m c n adjs"
  have "?I (db', g)"
  proof (rule foldE_invariant [where I = ?I, OF _ _ p3])
    show "?I p2" using s calculate_contract_gentle [OF step b(1)] by (simp add: gentle_step_def)
    fix x p p' assume x: "x \<in> set (zip [Suc (length xs)..<length xs + Suc (length ys)] ys)" and I: "?I p" and "?f x p = Inr p'"
    then have st: "?f (fst x, snd x) (fst p, snd p) = Inr (fst p', snd p')" by simp
    have "snd x \<in> set ys" using x by (metis prod.collapse set_zip_rightD)
    with last have "(tc_teacherId (snd x), y, m) \<noteq> (u, y, m)" by blast
    from other_step [OF st _ this] I calculate_contract_gentle [OF st]
    show "?I p'" unfolding id [symmetric] by (auto simp: gentle_step_def)
  qed
  then show ?thesis by auto
qed

text \<open>The items add up to the pay and the adjustments.\<close>

lemma math_round_int: "math_round (x + of_int k) = math_round x + k"
proof -
  have "\<lfloor>x + of_int k + 1 / 2\<rfloor> = \<lfloor>(x + 1 / 2) + of_int k\<rfloor>" by (simp add: algebra_simps)
  then show ?thesis by (simp add: math_round_def)
qed

lemma math_round_nonneg: "0 \<le> x \<Longrightarrow> 0 \<le> math_round x"
  by (simp add: math_round_def)

lemma teaching_nonneg:
  assumes "0 \<le> tc_rateAmount c"
  shows "base_salary c \<le> calculated_amount c n"
proof (cases "source_hours c n")
  case None
  with assms show ?thesis by (simp add: calculated_amount_def)
next
  case (Some h)
  then have "0 \<le> h" by (auto simp: source_hours_def split: PayRateType.splits)
  with assms have "0 \<le> math_round (h * of_int (tc_rateAmount c))" by (intro math_round_nonneg) simp
  with Some show ?thesis by (simp add: calculated_amount_def math_round_int)
qed

lemma items_sum:
  assumes "0 \<le> tc_rateAmount c" and "0 \<le> base_salary c"
  shows "sum_list (map it_amount (calculated_items t i m c n adjs)) = calculated_amount c n + sum_list (map pa_amount adjs)"
  using teaching_nonneg [OF assms(1), of n] assms(2)
  by (auto simp: calculated_items_def Let_def comp_def)

section \<open>Several months\<close>

lemma calculate_fold:
  assumes "calculateMonthlyPayroll lib t y m e db = Inr (db', count)"
  obtains r g where "month_range_of lib y m = Inr r"
    and "foldE (calculate_contract t y m r e)
      (zip [0..<length (contracts_of_month t r db)] (contracts_of_month t r db)) (db, []) = Inr (db', g)"
  using assms by (auto simp: calculateMonthlyPayroll_def bindE_Inr Let_def split: if_splits)

lemma other_month:
  assumes "calculateMonthlyPayroll lib t y2 m2 e db = Inr (db', count)" and "payroll_inv db"
    and "(y2, m2) \<noteq> (y, m)" and "slip_of_month t u y m db = x"
  shows "slip_of_month t u y m db' = x" and "x = Some s \<Longrightarrow> items_of (ps_id s) db' = items_of (ps_id s) db"
    and "map unlinked (pending_adjustments t u db') = map unlinked (pending_adjustments t u db)"
proof -
  from assms(1) obtain r g where g: "foldE (calculate_contract t y2 m2 r e)
      (zip [0..<length (contracts_of_month t r db)] (contracts_of_month t r db)) (db, []) = Inr (db', g)"
    by (rule calculate_fold)
  let ?I = "\<lambda>p :: payroll_db \<times> id list. payroll_inv (fst p) \<and> slip_of_month t u y m (fst p) = x
    \<and> (\<forall>s. x = Some s \<longrightarrow> items_of (ps_id s) (fst p) = items_of (ps_id s) db)
    \<and> map unlinked (pending_adjustments t u (fst p)) = map unlinked (pending_adjustments t u db)"
  have "?I (db', g)"
  proof (rule foldE_invariant [where I = ?I, OF _ _ g])
    show "?I (db, [])" using assms by simp
    fix z p p' assume I: "?I p" and "calculate_contract t y2 m2 r e z p = Inr p'"
    then have st: "calculate_contract t y2 m2 r e (fst z, snd z) (fst p, snd p) = Inr (fst p', snd p')" by simp
    have "(tc_teacherId (snd z), y2, m2) \<noteq> (u, y, m)" using assms(3) by auto
    from other_step [OF st _ this] step_inputs [OF st, of t u] I calculate_contract_gentle [OF st]
    show "?I p'" by (auto simp: gentle_step_def)
  qed
  then show "slip_of_month t u y m db' = x" and "x = Some s \<Longrightarrow> items_of (ps_id s) db' = items_of (ps_id s) db"
    and "map unlinked (pending_adjustments t u db') = map unlinked (pending_adjustments t u db)" by simp_all
qed

definition adjustment_item :: "id \<Rightarrow> id \<Rightarrow> PayrollAdjustment \<Rightarrow> PayrollItem" where
  "adjustment_item t slipId a = \<lparr>it_tenantId = t, it_slipId = slipId, it_type = ADJUSTMENT,
     it_title = AdjustmentTitle (pa_reason a), it_amount = pa_amount a, it_multiplierOrHours = None, it_notes = None\<rparr>"

lemma adjustment_items:
  assumes "map unlinked as = map unlinked bs" and "a \<in> set as"
  shows "adjustment_item t i a \<in> set (calculated_items t i m c n bs)"
proof -
  have "adjustment_item t i a \<in> set (calculated_items t i m c n as)"
    using assms(2) by (auto simp: calculated_items_def adjustment_item_def Let_def)
  then show ?thesis by (simp only: calculated_items_cong [OF assms(1)])
qed

lemma last_contract:
  assumes "d \<in> set cs" and "tc_teacherId d = u"
  obtains xs c ys where "cs = xs @ c # ys" and "tc_teacherId c = u" and "\<forall>d \<in> set ys. tc_teacherId d \<noteq> u"
  using split_list_last_prop [of cs "\<lambda>d. tc_teacherId d = u"] assms by blast

text \<open>Every slip the calculation leaves for a teacher with a contract in the month carries all the pending
adjustments of the teacher, whatever they are linked to.\<close>

lemma month_carries_adjustments:
  assumes "calculateMonthlyPayroll lib t y m e db = Inr (db', count)" and "payroll_inv db"
    and "month_range_of lib y m = Inr r" and "d \<in> set (contracts_of_month t r db)" and "tc_teacherId d = u"
    and "slip_open t u y m db"
    and "map unlinked as = map unlinked (pending_adjustments t u db)" and "a \<in> set as"
  obtains s where "slip_of_month t u y m db' = Some s" and "ps_status s = PS_DRAFT"
    and "adjustment_item t (ps_id s) a \<in> set (items_of (ps_id s) db')"
proof -
  from assms(4,5) obtain xs c ys where cs: "contracts_of_month t r db = xs @ c # ys" "tc_teacherId c = u"
    "\<forall>d \<in> set ys. tc_teacherId d \<noteq> u" by (rule last_contract)
  from month_slip [OF assms(1-3) cs(1,3,2) assms(6) refl refl] obtain s where
    s: "slip_of_month t u y m db' = Some (calculated_columns c (sessions_of t r c db) (pending_adjustments t u db) s)"
      "items_of (ps_id s) db' = calculated_items t (ps_id s) m c (sessions_of t r c db) (pending_adjustments t u db)"
    by blast
  have id: "ps_id (calculated_columns c n x s) = ps_id s" for n x using slip_columns_keep_key(1) by (simp add: keeps_key_def)
  show thesis
  proof (rule that [OF s(1)])
    show "ps_status (calculated_columns c (sessions_of t r c db) (pending_adjustments t u db) s) = PS_DRAFT"
      by (simp add: calculated_columns_def)
    show "adjustment_item t (ps_id (calculated_columns c (sessions_of t r c db) (pending_adjustments t u db) s)) a
      \<in> set (items_of (ps_id (calculated_columns c (sessions_of t r c db) (pending_adjustments t u db) s)) db')"
      using adjustment_items [OF assms(7,8)] by (simp add: id s(2))
  qed
qed

section \<open>Issuing a month\<close>

lemma finalize_slips:
  assumes "finalizeMonthlySlips t y m e db = Inr (db', n)" and "payroll_inv db"
  shows "payrollSlips db' = map (\<lambda>s. if s \<in> set (active_slips t y m db) then s\<lparr>ps_status := PS_ISSUED\<rparr> else s) (payrollSlips db)"
    and "payrollItems db' = payrollItems db"
proof -
  have mem: "ps_id s \<in> ps_id ` set (active_slips t y m db) \<longleftrightarrow> s \<in> set (active_slips t y m db)"
    if "s \<in> set (payrollSlips db)" for s
  proof
    assume "ps_id s \<in> ps_id ` set (active_slips t y m db)"
    then obtain q where "q \<in> set (active_slips t y m db)" "ps_id q = ps_id s" by auto
    moreover from this have "q = s"
      using that assms(2) distinct_key_inj [of ps_id "payrollSlips db" q s] by (simp add: payroll_inv_def active_slips_def)
    ultimately show "s \<in> set (active_slips t y m db)" by simp
  qed simp
  show "payrollSlips db' = map (\<lambda>s. if s \<in> set (active_slips t y m db) then s\<lparr>ps_status := PS_ISSUED\<rparr> else s) (payrollSlips db)"
    using assms(1) mem by (auto simp: finalizeMonthlySlips_def Let_def update_where_def split: if_splits)
  show "payrollItems db' = payrollItems db"
    using assms(1) by (auto simp: finalizeMonthlySlips_def Let_def split: if_splits)
qed

lemma finalize_slip_of_month:
  assumes "finalizeMonthlySlips t y m e db = Inr (db', n)" and "payroll_inv db"
    and "slip_of_month t u y' m' db = Some s"
  shows "slip_of_month t u y' m' db' = Some (if s \<in> set (active_slips t y m db) then s\<lparr>ps_status := PS_ISSUED\<rparr> else s)"
proof (rule slip_of_monthI)
  show "payroll_inv db'" using finalize_gentle [OF assms(1,2)] by (simp add: gentle_step_def)
  show "(if s \<in> set (active_slips t y m db) then s\<lparr>ps_status := PS_ISSUED\<rparr> else s) \<in> set (payrollSlips db')"
    using slip_of_monthD(1) [OF assms(3)] by (auto simp: finalize_slips(1) [OF assms(1,2)])
  show "slip_key (if s \<in> set (active_slips t y m db) then s\<lparr>ps_status := PS_ISSUED\<rparr> else s) = (t, u, y', m')"
    using slip_of_monthD(2) [OF assms(3)] by (simp add: slip_key_def)
qed

lemma active_slip:
  "slip_of_month t u y m db = Some s \<Longrightarrow> ps_status s = PS_DRAFT \<Longrightarrow> s \<in> set (active_slips t y m db)"
  using slip_of_monthD [of t u y m db s] by (simp add: active_slips_def slip_key_def)

end
