(* ===== verification/Payroll_Contracts.thy ===== *)
theory Payroll_Contracts
  imports Payroll_Laws
begin

text \<open>
  The history of a teacher's contracts: the contracts of a year never overlap, and a new one takes over
  from its start.
\<close>

definition ends_by :: "TeacherContract \<Rightarrow> time \<Rightarrow> bool" where
  "ends_by c t \<longleftrightarrow> (case tc_effectiveTo c of None \<Rightarrow> False | Some u \<Rightarrow> u \<le> t)"

definition same_track :: "TeacherContract \<Rightarrow> TeacherContract \<Rightarrow> bool" where
  "same_track c d \<longleftrightarrow> tc_tenantId c = tc_tenantId d \<and> tc_teacherId c = tc_teacherId d
     \<and> tc_academicYearId c = tc_academicYearId d"

text \<open>One ends before the other starts, or one of the two is empty.\<close>

definition apart :: "TeacherContract \<Rightarrow> TeacherContract \<Rightarrow> bool" where
  "apart c d \<longleftrightarrow> ends_by c (tc_effectiveFrom d) \<or> ends_by d (tc_effectiveFrom c)
     \<or> ends_by c (tc_effectiveFrom c) \<or> ends_by d (tc_effectiveFrom d)"

definition contracts_apart :: "payroll_db \<Rightarrow> bool" where
  "contracts_apart db \<longleftrightarrow> distinct (map tc_id (teacherContracts db))
     \<and> (\<forall>c \<in> set (teacherContracts db). \<forall>d \<in> set (teacherContracts db).
          tc_id c \<noteq> tc_id d \<longrightarrow> same_track c d \<longrightarrow> apart c d)"

lemma apart_sym: "apart c d \<Longrightarrow> apart d c"
  by (auto simp: apart_def)

text \<open>Closing a contract that is open at \<open>t\<close>: the end moves forward to \<open>t\<close>.\<close>

definition cut :: "(TeacherContract \<Rightarrow> bool) \<Rightarrow> time \<Rightarrow> TeacherContract \<Rightarrow> TeacherContract" where
  "cut p t c = (if p c then c\<lparr>tc_effectiveTo := Some t\<rparr> else c)"

lemma cut_fields [simp]:
  "tc_id (cut p t c) = tc_id c" "tc_tenantId (cut p t c) = tc_tenantId c" "tc_teacherId (cut p t c) = tc_teacherId c"
  "tc_academicYearId (cut p t c) = tc_academicYearId c" "tc_effectiveFrom (cut p t c) = tc_effectiveFrom c"
  by (simp_all add: cut_def)

lemma cut_ends:
  assumes "\<And>c. p c \<Longrightarrow> (case tc_effectiveTo c of None \<Rightarrow> True | Some u \<Rightarrow> u > t)"
  shows "ends_by c x \<Longrightarrow> ends_by (cut p t c) x"
  using assms [of c] by (auto simp: ends_by_def cut_def split: option.splits)

lemma cut_apart:
  assumes "\<And>c. p c \<Longrightarrow> (case tc_effectiveTo c of None \<Rightarrow> True | Some u \<Rightarrow> u > t)" and "apart c d"
  shows "apart (cut p t c) (cut p t d)"
  using assms(2) cut_ends [of p t, OF assms(1)] by (auto simp: apart_def)

lemma create_contractE:
  assumes "createTeacherContract tenantId createdBy dto e db = Inr db'"
  obtains start ends where "ctc_effectiveFrom dto = Some start"
    and "uuid e 0 \<notin> set (map tc_id (teacherContracts db))"
    and "ends = (case ctc_effectiveTo dto of None \<Rightarrow> None | Some t \<Rightarrow> t)"
    and "teacherContracts db' = map (cut (overlaps_start tenantId dto start) start) (teacherContracts db)
          @ [new_contract (uuid e 0) tenantId createdBy dto start ends]"
proof -
  have u: "update_where p (\<lambda>c. c\<lparr>tc_effectiveTo := Some t\<rparr>) cs = map (cut p t) cs" for p t cs
    by (simp add: update_where_def cut_def)
  from assms show thesis
    unfolding createTeacherContract_def u by (auto split: option.splits if_splits intro: that)
qed

lemma new_contract_fields [simp]:
  "tc_id (new_contract i t by dto start ends) = i" "tc_tenantId (new_contract i t by dto start ends) = t"
  "tc_teacherId (new_contract i t by dto start ends) = ctc_teacherId dto"
  "tc_academicYearId (new_contract i t by dto start ends) = ctc_academicYearId dto"
  "tc_effectiveFrom (new_contract i t by dto start ends) = start"
  "tc_effectiveTo (new_contract i t by dto start ends) = ends"
  by (simp_all add: new_contract_def)

lemma new_contract_apart:
  assumes "createTeacherContract tenantId createdBy dto e db = Inr db'" and "contracts_apart db"
  shows "contracts_apart db'"
proof -
  from assms(1) obtain start ends where n: "uuid e 0 \<notin> set (map tc_id (teacherContracts db))"
      "teacherContracts db' = map (cut (overlaps_start tenantId dto start) start) (teacherContracts db)
          @ [new_contract (uuid e 0) tenantId createdBy dto start ends]" by (rule create_contractE)
  define c where "c = new_contract (uuid e 0) tenantId createdBy dto start ends"
  have c: "uuid e 0 \<notin> set (map tc_id (teacherContracts db))" "tc_id c = uuid e 0"
      "teacherContracts db' = map (cut (overlaps_start tenantId dto start) start) (teacherContracts db) @ [c]"
      "tc_tenantId c = tenantId" "tc_teacherId c = ctc_teacherId dto" "tc_academicYearId c = ctc_academicYearId dto"
      "tc_effectiveFrom c = start" using n by (simp_all add: c_def)
  let ?p = "overlaps_start tenantId dto start"
  have open_end: "?p d \<Longrightarrow> (case tc_effectiveTo d of None \<Rightarrow> True | Some u \<Rightarrow> u > start)" for d
    by (simp add: overlaps_start_def)
  have old: "apart (cut ?p start d) c" if "same_track (cut ?p start d) c" for d
    using that c(4-7) by (auto simp: apart_def same_track_def ends_by_def cut_def overlaps_start_def
      split: option.splits if_splits)
  have tr: "same_track (cut ?p start a) (cut ?p start b) = same_track a b" for a b by (simp add: same_track_def)
  have "apart x y" if x: "x \<in> set (teacherContracts db')" and y: "y \<in> set (teacherContracts db')"
    and n: "tc_id x \<noteq> tc_id y" and s: "same_track x y" for x y
  proof -
    from x c(3) consider (new) "x = c" | (old) a where "a \<in> set (teacherContracts db)" "x = cut ?p start a" by auto
    then show ?thesis
    proof cases
      case new
      with y n c(3) obtain b where "y = cut ?p start b" by auto
      with old [of b] s new show ?thesis by (auto intro: apart_sym simp: same_track_def)
    next
      case (old a)
      note a = this
      from y c(3) consider "y = c" | b where "b \<in> set (teacherContracts db)" "y = cut ?p start b" by auto
      then show ?thesis
      proof cases
        case 1
        with s a \<open>\<And>d. same_track (cut ?p start d) c \<Longrightarrow> apart (cut ?p start d) c\<close> show ?thesis by simp
      next
        case (2 b)
        with a n s assms(2) have "apart a b" by (auto simp: contracts_apart_def tr)
        then show ?thesis using a 2 cut_apart [of ?p start, OF open_end] by simp
      qed
    qed
  qed
  moreover have "distinct (map tc_id (teacherContracts db'))"
    using assms(2) c(1-3) by (simp add: contracts_apart_def comp_def)
  ultimately show ?thesis unfolding contracts_apart_def by blast
qed

lemma drop_contract_apart:
  assumes "deleteContract tenantId i db = Inr db'" and "contracts_apart db"
  shows "contracts_apart db'"
proof -
  have db': "db' = db\<lparr>teacherContracts := filter (\<lambda>c. tc_id c \<noteq> i) (teacherContracts db)\<rparr>"
    using assms(1) by (auto simp: deleteContract_def split: option.splits)
  show ?thesis using assms(2) by (auto simp: db' contracts_apart_def distinct_map_filter)
qed
text \<open>The other requests do not touch the contracts.\<close>

lemma create_slip_contracts: "create_slip s db = Inr db' \<Longrightarrow> teacherContracts db' = teacherContracts db"
  by (auto simp: create_slip_def split: if_splits)

lemma contracts_of_ops [simp]:
  "teacherContracts (add_items is db) = teacherContracts db" "teacherContracts (drop_items i db) = teacherContracts db"
  "teacherContracts (link_adjustments i adjs db) = teacherContracts db"
  "teacherContracts (update_slip i f db) = teacherContracts db"
  by (simp_all add: add_items_def drop_items_def link_adjustments_def update_slip_def)

lemma place_slip_contracts:
  "place_slip tenantId year month i c n adjs db = Inr (Some (sid, db')) \<Longrightarrow> teacherContracts db' = teacherContracts db"
  by (auto simp: place_slip_def bindE_Inr create_slip_contracts split: option.splits if_splits)

lemma calculate_contract_contracts:
  assumes "calculate_contract tenantId year month r e (k, c) (db, g) = Inr (db', g')"
  shows "teacherContracts db' = teacherContracts db"
  using assms by (cases rule: calculate_contractE) (auto dest: place_slip_contracts)

lemma calculate_contracts:
  assumes "calculateMonthlyPayroll lib tenantId year month e db = Inr (db', n)"
  shows "teacherContracts db' = teacherContracts db"
proof -
  from assms obtain r g where g: "foldE (calculate_contract tenantId year month r e)
      (zip [0..<length (contracts_of_month tenantId r db)] (contracts_of_month tenantId r db)) (db, []) = Inr (db', g)"
    by (auto simp: calculateMonthlyPayroll_def bindE_Inr Let_def split: if_splits)
  have "teacherContracts (fst (db', g)) = teacherContracts db"
  proof (rule foldE_invariant [where I = "\<lambda>p. teacherContracts (fst p) = teacherContracts db", OF _ _ g])
    fix x p p'
    assume "teacherContracts (fst p) = teacherContracts db" "calculate_contract tenantId year month r e x p = Inr p'"
    then show "teacherContracts (fst p') = teacherContracts db"
      using calculate_contract_contracts [of tenantId year month r e "fst x" "snd x" "fst p" "snd p" "fst p'" "snd p'"]
      by simp
  qed simp
  then show ?thesis by simp
qed

lemma serve_apart:
  assumes "payroll_serve lib (r, e) db = Inr db'" and "contracts_apart db"
  shows "contracts_apart db'"
proof -
  have same: "teacherContracts db' = teacherContracts db \<Longrightarrow> ?thesis" using assms(2) by (simp add: contracts_apart_def)
  show ?thesis
  proof (cases r)
    case (NewContract t b dto)
    with assms show ?thesis by (auto intro: new_contract_apart)
  next
    case (DropContract t c)
    with assms show ?thesis by (auto intro: drop_contract_apart)
  next
    case (Calculate t y m)
    with assms(1) show ?thesis by (intro same) (auto simp: bindE_Inr dest: calculate_contracts)
  next
    case (Finalize t y m)
    with assms(1) show ?thesis
      by (intro same) (auto simp: bindE_Inr finalizeMonthlySlips_def Let_def split: if_splits)
  next
    case (SetProfile t u dto)
    with assms(1) show ?thesis
      by (intro same) (auto simp: upsertStaffProfile_def Let_def split: option.splits if_splits)
  next
    case (Review t s a q b)
    with assms(1) show ?thesis by (intro same) (auto simp: reviewAndEditSlip_def split: option.splits if_splits)
  next
    case (Cancel t s q a)
    with assms(1) show ?thesis by (intro same) (auto simp: cancelSlip_def split: option.splits if_splits)
  next
    case (Adjust t b dto)
    with assms(1) show ?thesis
      by (intro same) (auto simp: createAdjustment_def Let_def split: option.splits if_splits)
  next
    case (Disburse t s b q)
    with assms(1) show ?thesis by (intro same) (auto simp: approveAndDisburse_def split: option.splits)
  next
    case (Generate t u y m its)
    with assms(1) show ?thesis
      by (intro same) (auto simp: generateSlipForUser_def Let_def bindE_Inr create_slip_contracts
        split: option.splits if_splits)
  qed
qed

text \<open>The latest contract comes first.\<close>

lemma latest_first_hd:
  assumes "c \<in> set cs" and "\<And>d. d \<in> set cs \<Longrightarrow> d \<noteq> c \<Longrightarrow> tc_effectiveFrom d < tc_effectiveFrom c"
  shows "\<exists>ds. latest_first cs = c # ds"
proof -
  let ?s = "latest_first cs"
  have set: "set ?s = set cs" by (simp add: latest_first_def)
  have "?s \<noteq> []" using assms(1) set by (metis empty_iff empty_set)
  then obtain d ds where d: "?s = d # ds" by (cases ?s) auto
  have "sorted (map (\<lambda>c. - tc_effectiveFrom c) ?s)" unfolding latest_first_def by simp
  then have "\<forall>x \<in> set ds. tc_effectiveFrom x \<le> tc_effectiveFrom d" by (simp add: d)
  moreover have "c \<in> set (d # ds)" "d \<in> set cs" using assms(1) set d by auto
  ultimately have "d = c" using assms(2) [of d] by fastforce
  with d show ?thesis by simp
qed

end
