(* ===== verification/Date_Props.thy ===== *)
theory Date_Props
  imports Jalali
begin

text \<open>
  Properties of the Jalali date helpers, with a sample of the conversion package that is exact for the
  year 1404.
\<close>

definition sample_jalaali :: jalaali where
  "sample_jalaali = \<lparr>jalaaliMonthLength = (\<lambda>y m. if m \<le> 6 then 31 else if m \<le> 11 then 30 else 29),
     isValidJalaaliDate = (\<lambda>y m d. y = 1404 \<and> 1 \<le> m \<and> m \<le> 12 \<and> 1 \<le> d \<and> d \<le> (if m \<le> 6 then 31 else if m \<le> 11 then 30 else 29)),
     toGregorian = (\<lambda>y m d. civil_from_days
        (days_from_civil 2025 3 20 + int (if m \<le> 7 then 31 * (m - 1) else 30 * (m - 1) + 6) + int d)),
     toJalaali = (\<lambda>gy gm gd. let k = nat (days_from_civil gy gm gd - days_from_civil 2025 3 21)
        in if k < 186 then (1404, k div 31 + 1, k mod 31 + 1) else (1404, (k - 186) div 30 + 7, (k - 186) mod 30 + 1))\<rparr>"

text \<open>15 Aban 1404 in Persian digits with slashes and without padding.\<close>

definition sample_text :: utext where
  "sample_text = [1777, 1780, 1776, 1780, 47, 1784, 47, 1777, 1781]"

lemma sample_match: "match_date (normalizePersianDigits (Some sample_text)) = Some (1404, 8, 15)"
  by (simp add: normalize_map sample_text_def latin_digit_def utrim_def is_uspace_def match_date_def udigit_def
    usep_def unumber_def Let_def)

lemma sample_there: "toGregorian sample_jalaali 1404 8 15 = (2025, 11, 6)"
proof -
  have "days_from_civil 2025 3 20 + 216 + 15 = days_from_civil 2025 11 6" by (simp add: days_from_civil_def)
  then have "toGregorian sample_jalaali 1404 8 15 = civil_from_days (days_from_civil 2025 11 6)"
    by (simp add: sample_jalaali_def)
  moreover have "civil_date (2025, 11, 6)" by (simp add: civil_date_def month_length_def)
  ultimately show ?thesis by (simp add: civil_inverse)
qed

lemma sample_back: "toJalaali sample_jalaali 2025 11 6 = (1404, 8, 15)"
  by (simp add: sample_jalaali_def days_from_civil_def)

lemma sample_valid: "isValidJalaliDate sample_jalaali sample_text"
proof -
  have "isValidJalaaliDate sample_jalaali 1404 8 15" "15 \<le> jalaaliMonthLength sample_jalaali 1404 8"
    by (simp_all add: sample_jalaali_def)
  then show ?thesis by (simp add: isValidJalaliDate_def sample_match) (simp add: sample_text_def)
qed

lemma sample_time:
  "jalaliToGregorianDate sample_jalaali sample_text part = Inr (time_of_part (2025, 11, 6) part)"
  by (simp add: conversion_cases sample_match sample_valid sample_there)

lemma sample_noon: "time_of_part (2025, 11, 6) Noon = days_from_civil 2025 11 6 * 86400000 + 30600000"
  and sample_end: "time_of_part (2025, 11, 6) DayEnd = days_from_civil 2025 11 6 * 86400000 + 73799999"
  by (simp_all add: time_of_part_def date_utc_def ms_per_day_def)

text \<open>A date text is converted to a time exactly when the validator accepts it, whatever the part of the day;
every other text is refused with an error.\<close>

theorem jalali_conversion_accepts:
  "isl (jalaliToGregorianDate lib s part) \<longleftrightarrow> \<not> isValidJalaliDate lib s"
proof (cases "match_date (normalizePersianDigits (Some s))")
  case None
  then show ?thesis by (auto simp: conversion_cases isValidJalaliDate_def)
next
  case (Some j)
  then show ?thesis by (simp add: conversion_cases split: prod.splits)
qed

text \<open>Writing a text in Persian digits does not change what the normalisation of its digits reads.\<close>

theorem persian_digits_roundtrip:
  "normalizePersianDigits (Some (toPersianDigits (Some s))) = normalizePersianDigits (Some s)"
  by (simp add: normalize_map to_persian_map latin_persian comp_def)

text \<open>C13: A valid Jalali date, in any digits and any notation, comes back from its time in canonical notation whatever the part of the
day, and the canonical text denotes the same time again, whether Tehran is three and a half or, as in the summers up to 1401, four and a half
hours ahead; with one exception that the comment of the conversion rules out: the end of a day in summer time falls on the following day.
The conversion package is assumed to convert that date to a date of the Gregorian calendar, from the year 100 on, and back.\<close>

theorem jalali_roundtrip:
  assumes "jalaliToGregorianDate lib s part = Inr t"
    and "match_date (normalizePersianDigits (Some s)) = Some (jy, jm, jd)"
    and "toGregorian lib jy jm jd = (gy, gm, gd)" and "civil_date (gy, gm, gd)" and "100 \<le> gy"
    and "toJalaali lib gy gm gd = (jy, jm, jd)"
    and "tehran t \<in> {12600000, 16200000}"
  shows "if tehran t = 16200000 \<and> part = DayEnd
    then tehran_date tehran t = civil_from_days (days_from_civil gy gm gd + 1)
    else \<exists>r. gregorianToJalali lib tehran (Some t) = Some r \<and> sj_jalali r = canonical_date (jy, jm, jd)
      \<and> jalaliToGregorianDate lib (sj_jalali r) part = Inr t"
proof -
  have v: "isValidJalaliDate lib s" and t: "t = time_of_part (gy, gm, gd) part"
    using assms(1,2,3) by (auto simp: conversion_cases split: if_splits)
  from v obtain b: "1200 \<le> jy" "jy \<le> 1700" "1 \<le> jm" "jm \<le> 12" "1 \<le> jd" "jd \<le> 31"
      "jd \<le> jalaaliMonthLength lib jy jm" "isValidJalaaliDate lib jy jm jd"
    by (elim valid_dateE) (use assms(2) in auto)
  define c where "c = canonical_date (jy, jm, jd)"
  have c: "normalizePersianDigits (Some c) = c" unfolding c_def by (rule normalize_plain, rule plain_canonical)
  have m: "match_date c = Some (jy, jm, jd)" unfolding c_def by (rule match_canonical) (use b in auto)
  have vc: "isValidJalaliDate lib c" using b normal_ne [OF m] by (simp add: isValidJalaliDate_def c m)
  have there: "jalaliToGregorianDate lib c part = Inr t" using vc assms(3) t by (simp add: conversion_cases c m)
  have day: "tehran_date tehran t
      = civil_from_days (days_from_civil gy gm gd + (if tehran t = 16200000 \<and> part = DayEnd then 1 else 0))"
    using assms(7) tehran_day [of gy t gm gd part tehran, OF assms(5) t] by (auto simp: tehran_date_def)
  show ?thesis
  proof (cases "tehran t = 16200000 \<and> part = DayEnd")
    case True
    with day show ?thesis by simp
  next
    case False
    have "tehran_date tehran t = (gy, gm, gd)" using day False civil_inverse [OF assms(4)] by simp
    then show ?thesis unfolding if_not_P [OF False] using there assms(6) by (simp add: gregorianToJalali_def Let_def c_def)
  qed
qed

theorem jalali_roundtrip_witness:
  "(\<exists>r. gregorianToJalali sample_jalaali (\<lambda>_. 12600000) (Some (days_from_civil 2025 11 6 * 86400000 + 30600000)) = Some r
     \<and> sj_jalali r = canonical_date (1404, 8, 15)
     \<and> jalaliToGregorianDate sample_jalaali (sj_jalali r) Noon = Inr (days_from_civil 2025 11 6 * 86400000 + 30600000))
   \<and> tehran_date (\<lambda>_. 16200000) (days_from_civil 2025 11 6 * 86400000 + 73799999)
       = civil_from_days (days_from_civil 2025 11 6 + 1)"
proof -
  have c: "civil_date (2025, 11, 6)" by code_simp
  show ?thesis
    using jalali_roundtrip [OF sample_time [of Noon] sample_match sample_there c _ sample_back, of "\<lambda>_. 12600000"]
      jalali_roundtrip [OF sample_time [of DayEnd] sample_match sample_there c _ sample_back, of "\<lambda>_. 16200000"]
    by (simp add: sample_noon sample_end)
qed

text \<open>In the half of the year in which Tehran is four and a half hours ahead, the start and the noon of a date
still fall on that date, but its end falls on the following day.\<close>

theorem jalali_summer_time:
  assumes "jalaliToGregorianDate lib s part = Inr t"
    and "match_date (normalizePersianDigits (Some s)) = Some (jy, jm, jd)"
    and "toGregorian lib jy jm jd = (gy, gm, gd)" and "100 \<le> gy"
    and "tehran t = 16200000"
  shows "tehran_date tehran t = civil_from_days (days_from_civil gy gm gd + (if part = DayEnd then 1 else 0))"
proof -
  have "t = time_of_part (gy, gm, gd) part" using assms(1,2,3) by (auto simp: conversion_cases split: if_splits)
  from tehran_day(2) [of gy t gm gd part tehran, OF assms(4) this assms(5)] show ?thesis by (simp add: tehran_date_def)
qed

theorem jalali_summer_time_witness:
  "tehran_date (\<lambda>_. 16200000) (days_from_civil 2025 11 6 * 86400000 + 73799999)
     = civil_from_days (days_from_civil 2025 11 6 + (if DayEnd = DayEnd then 1 else 0))"
  by (rule jalali_summer_time [OF _ sample_match sample_there]) (simp_all add: sample_time sample_end)

end
