(* ===== verification/Payroll_Props.thy ===== *)
theory Payroll_Props
  imports Payroll_Month Payroll_Contracts Date_Props "HOL-Library.Code_Target_Nat"
begin

text \<open>
  The properties of the payroll.  The concrete runs calculate Mehr and Aban 1404 with the sample of the
  calendar package, which is exact in that year.
\<close>

section \<open>A small school\<close>

definition demo_teacher :: payroll_user where
  "demo_teacher = \<lparr>pu_id = ''teacher'', pu_tenantId = ''t'', pu_teacherProfileId = Some ''tp''\<rparr>"

definition teaching_contract :: "id \<Rightarrow> int \<Rightarrow> time \<Rightarrow> TeacherContract" where
  "teaching_contract i rate start = \<lparr>tc_id = i, tc_tenantId = ''t'', tc_teacherId = ''teacher'',
     tc_academicYearId = ''y'', tc_rateType = PER_SESSION, tc_rateAmount = rate, tc_monthlyHourCap = None,
     tc_baseSalary = Some 5000000, tc_effectiveFrom = start, tc_effectiveTo = None, tc_createdById = ''admin''\<rparr>"

definition demo_adjustment :: PayrollAdjustment where
  "demo_adjustment = \<lparr>pa_id = ''a1'', pa_tenantId = ''t'', pa_teacherId = ''teacher'', pa_originalSlipId = None,
     pa_amount = 500000, pa_reason = ''missed session'', pa_status = AD_PENDING, pa_appliedToSlipId = None,
     pa_createdById = ''admin'', pa_appliedAt = None\<rparr>"

text \<open>One session on 30 Mehr, entered as the Gregorian date 22 October 2025; two contracts.\<close>

definition payday_db :: payroll_db where
  "payday_db = \<lparr>staffPayrollProfiles = [], teacherContracts = [teaching_contract ''c1'' 300000 0, teaching_contract ''c2'' 400000 0],
     payrollAdjustments = [demo_adjustment], payrollSlips = [], payrollItems = [], staffUsers = [demo_teacher],
     teacherAttendances = [\<lparr>ta_tenantId = ''t'', ta_teacherId = ''tp'', ta_date = ''2025-10-22'', ta_status = TA_PRESENT\<rparr>],
     yearsOfTenants = [(''y'', ''t'')]\<rparr>"

definition pay_env :: "string \<Rightarrow> env" where
  "pay_env s = \<lparr>now = 1000, rnd = 0, uuid = (\<lambda>k. s @ string_of_nat k)\<rparr>"

lemma payday_inv: "payroll_inv payday_db"
  by (simp add: payroll_inv_def payday_db_def)

definition mehr :: month_range where
  "mehr = \<lparr>mr_start = time_of_part (2025, 9, 23) DayStart, mr_end = time_of_part (2025, 10, 22) DayEnd,
     mr_startStr = ''1404-07-01'', mr_endStr = ''1404-07-30''\<rparr>"

definition aban :: month_range where
  "aban = \<lparr>mr_start = time_of_part (2025, 10, 23) DayStart, mr_end = time_of_part (2025, 11, 21) DayEnd,
     mr_startStr = ''1404-08-01'', mr_endStr = ''1404-08-30''\<rparr>"

lemma isl_Inr: "\<not> isl x \<Longrightarrow> x = Inr (case x of Inr r \<Rightarrow> r)"
  by (cases x) auto

lemma sample_day:
  assumes "plain (utext_of s)" and "match_date (utext_of s) = Some (1404, jm, jd)"
    and "1 \<le> jm" "jm \<le> 12" "1 \<le> jd" "jd \<le> 30" "jm \<le> 11"
    and "civil_date (gy, gm, gd)"
    and "days_from_civil 2025 3 20 + int (if jm \<le> 7 then 31 * (jm - 1) else 30 * (jm - 1) + 6) + int jd = days_from_civil gy gm gd"
  shows "jalaliToGregorianDate sample_jalaali (utext_of s) part = Inr (time_of_part (gy, gm, gd) part)"
proof -
  have n: "normalizePersianDigits (Some (utext_of s)) = utext_of s" by (rule normalize_plain [OF assms(1)])
  have "isValidJalaliDate sample_jalaali (utext_of s)" using assms(3-7) normal_ne [OF assms(2)]
    by (simp add: isValidJalaliDate_def n assms(2)) (simp add: sample_jalaali_def)
  moreover have "toGregorian sample_jalaali 1404 jm jd = civil_from_days (days_from_civil gy gm gd)"
    by (simp only: sample_jalaali_def jalaali.simps assms(9))
  ultimately show ?thesis using civil_inverse [OF assms(8)] by (simp add: conversion_cases n assms(2))
qed

lemma utext_of_days:
  "utext_of ''1404-07-01'' = [49, 52, 48, 52, 45, 48, 55, 45, 48, 49]"
  "utext_of ''1404-07-30'' = [49, 52, 48, 52, 45, 48, 55, 45, 51, 48]"
  "utext_of ''1404-08-01'' = [49, 52, 48, 52, 45, 48, 56, 45, 48, 49]"
  "utext_of ''1404-08-30'' = [49, 52, 48, 52, 45, 48, 56, 45, 51, 48]"
  by (simp_all add: utext_of_def)

lemmas day_evaluation = utext_of_days plain_def udigit_def usep_def match_date_def unumber_def Let_def civil_date_def
  month_length_def days_from_civil_def

lemma mehr_first: "jalaliToGregorianDate sample_jalaali (utext_of ''1404-07-01'') DayStart = Inr (time_of_part (2025, 9, 23) DayStart)"
  by (rule sample_day [where jm = 7 and jd = 1]) (simp_all add: day_evaluation)

lemma mehr_last: "jalaliToGregorianDate sample_jalaali (utext_of ''1404-07-30'') DayEnd = Inr (time_of_part (2025, 10, 22) DayEnd)"
  by (rule sample_day [where jm = 7 and jd = 30]) (simp_all add: day_evaluation)

lemma aban_first: "jalaliToGregorianDate sample_jalaali (utext_of ''1404-08-01'') DayStart = Inr (time_of_part (2025, 10, 23) DayStart)"
  by (rule sample_day [where jm = 8 and jd = 1]) (simp_all add: day_evaluation)

lemma aban_last: "jalaliToGregorianDate sample_jalaali (utext_of ''1404-08-30'') DayEnd = Inr (time_of_part (2025, 11, 21) DayEnd)"
  by (rule sample_day [where jm = 8 and jd = 30]) (simp_all add: day_evaluation)

lemmas sample_days = mehr_first mehr_last aban_first aban_last

lemma month_texts:
  "jalali_day 1404 7 1 = ''1404-07-01''" "jalali_day 1404 7 30 = ''1404-07-30''"
  "jalali_day 1404 8 1 = ''1404-08-01''" "jalali_day 1404 8 30 = ''1404-08-30''"
  by code_simp+

lemma sample_month: "7 \<le> m \<Longrightarrow> m \<le> 11 \<Longrightarrow> jalaaliMonthLength sample_jalaali y m = 30"
  by (simp add: sample_jalaali_def)

lemma mehr: "month_range_of sample_jalaali 1404 7 = Inr mehr"
  by (simp add: month_range_of_def Let_def sample_month month_texts sample_days mehr_def del: One_nat_def)

lemma aban: "month_range_of sample_jalaali 1404 8 = Inr aban"
  by (simp add: month_range_of_def Let_def sample_month month_texts sample_days aban_def del: One_nat_def)

text \<open>The calculation of a month once its range is known.\<close>

definition calculate_in :: "id \<Rightarrow> nat \<Rightarrow> nat \<Rightarrow> month_range \<Rightarrow> env \<Rightarrow> payroll_db \<Rightarrow> http_error + payroll_db \<times> nat" where
  "calculate_in tenantId year month r e db = (let cs = contracts_of_month tenantId r db
     in if cs = [] then Inl (BadRequest ''no contract in the month'')
        else bindE (foldE (calculate_contract tenantId year month r e) (zip [0..<length cs] cs) (db, []))
               (\<lambda>(db', generated). Inr (db', length generated)))"

lemma calculate_in_mehr: "calculateMonthlyPayroll sample_jalaali t 1404 7 e db = calculate_in t 1404 7 mehr e db"
  and calculate_in_aban: "calculateMonthlyPayroll sample_jalaali t 1404 8 e db = calculate_in t 1404 8 aban e db"
  by (simp_all add: calculateMonthlyPayroll_def mehr aban calculate_in_def)

definition after_mehr :: "payroll_db \<times> nat" where
  "after_mehr = (case calculate_in ''t'' 1404 7 mehr (pay_env ''m'') payday_db of Inr x \<Rightarrow> x)"

lemma calculate_mehr:
  "calculateMonthlyPayroll sample_jalaali ''t'' 1404 7 (pay_env ''m'') payday_db = Inr (fst after_mehr, snd after_mehr)"
  unfolding calculate_in_mehr prod.collapse after_mehr_def by (rule isl_Inr) code_simp

lemma contracts_in_mehr: "contracts_of_month ''t'' mehr payday_db = [teaching_contract ''c1'' 300000 0, teaching_contract ''c2'' 400000 0]"
  by code_simp

lemma contracts_in_aban: "teaching_contract ''c2'' 400000 0 \<in> set (contracts_of_month ''t'' aban payday_db)"
  by code_simp

section \<open>Properties\<close>

text \<open>C14: When the calculation of a month leaves it a slip to write - the teacher has none yet, or one that is not
ISSUED, SETTLED or PAID, so an APPROVED or CANCELLED one too, although the comment in the source speaks of DRAFT and REVIEWED
only -, the slip is afterwards a draft computed from the last of the teacher's contracts in the month alone: its
calculated amount is the base salary and the rate for every session held (for an hourly rate, 1.5 hours for each session,
where \<open>salary.md\<close> has the length of the period in \<open>ClassSchedule\<close>), also when the slip had one before, which by \<open>salary.md\<close>
never changes; its final amount is the larger of zero and the sum of its items, which are the base salary, the sessions at that
contract's rate and every pending adjustment of the teacher.\<close>

theorem month_slip_formula:
  assumes "calculateMonthlyPayroll lib t y m e db = Inr (db', count)" and "payroll_inv db"
    and "month_range_of lib y m = Inr r" and "contracts_of_month t r db = xs @ c # ys"
    and "\<forall>d \<in> set ys. tc_teacherId d \<noteq> tc_teacherId c"
    and "slip_open t (tc_teacherId c) y m db"
    and "0 \<le> tc_rateAmount c" and "0 \<le> base_salary c"
  shows "\<exists>s. slip_of_month t (tc_teacherId c) y m db' = Some s \<and> ps_status s = PS_DRAFT
    \<and> ps_calculatedAmount s = calculated_amount c (sessions_of t r c db)
    \<and> items_of (ps_id s) db' = calculated_items t (ps_id s) m c (sessions_of t r c db)
        (pending_adjustments t (tc_teacherId c) db)
    \<and> ps_finalAmount s = max 0 (sum_list (map it_amount (items_of (ps_id s) db')))"
proof -
  let ?n = "sessions_of t r c db" and ?a = "pending_adjustments t (tc_teacherId c) db"
  from month_slip [OF assms(1-5) refl assms(6) refl refl] obtain s where
    s: "slip_of_month t (tc_teacherId c) y m db' = Some (calculated_columns c ?n ?a s)"
      "items_of (ps_id s) db' = calculated_items t (ps_id s) m c ?n ?a" by blast
  have id: "ps_id (calculated_columns c ?n ?a s) = ps_id s" using slip_columns_keep_key(1) by (simp add: keeps_key_def)
  show ?thesis using s items_sum [OF assms(7,8), of t "ps_id s" m ?n ?a] unfolding id [symmetric]
    by (intro exI conjI) (assumption, simp_all add: calculated_columns_def initial_final_def)
qed

theorem month_slip_formula_witness:
  "\<exists>s. slip_of_month ''t'' ''teacher'' 1404 7 (fst after_mehr) = Some s \<and> ps_status s = PS_DRAFT
    \<and> ps_calculatedAmount s = 5400000
    \<and> ps_finalAmount s = max 0 (sum_list (map it_amount (items_of (ps_id s) (fst after_mehr))))"
proof -
  have "sessions_of ''t'' mehr (teaching_contract ''c2'' 400000 0) payday_db = 1" by code_simp
  then show ?thesis
    using month_slip_formula [OF calculate_mehr payday_inv mehr, of "[teaching_contract ''c1'' 300000 0]"
      "teaching_contract ''c2'' 400000 0" "[]"] contracts_in_mehr
    by (auto simp: teaching_contract_def base_salary_def slip_open_def slip_of_month_def payday_db_def
      calculated_amount_def source_hours_def)
qed

text \<open>C15: Through any run of requests other than the generation of a slip from the profile, a slip that has been
paid stays paid, with its amounts and its items.\<close>

theorem paid_slips_kept:
  assumes "payroll_inv db" and "list_all respects_issued rs" and "foldE (payroll_serve lib) rs db = Inr db'"
    and "s \<in> set (payrollSlips db)" and "settled (ps_status s)"
  shows "slip_kept s db db' \<and> payroll_inv db'"
  using payroll.run_settled [OF assms] payroll.run_inv [OF assms(1,3)] by (rule conjI)

definition paid_slip :: PayrollSlip where
  "paid_slip = (blank_slip ''s1'' ''t'' ''teacher'' 1404 7)\<lparr>ps_status := PS_PAID, ps_finalAmount := 7, ps_paidAt := Some 5\<rparr>"

definition paid_db :: payroll_db where
  "paid_db = payday_db\<lparr>payrollSlips := [paid_slip],
     staffPayrollProfiles := [\<lparr>sf_tenantId = ''t'', sf_userId = ''teacher'', sf_contractType = FULL_TIME_SALARY,
       sf_baseMonthlySalary = 20000000, sf_hourlyRate = 0, sf_bankAccountNumber = None, sf_bankShebaNumber = None,
       sf_bankName = None, sf_insuranceNumber = None, sf_isActive = True\<rparr>]\<rparr>"

lemma paid_inv: "payroll_inv paid_db"
  by (simp add: payroll_inv_def paid_db_def payday_db_def)

lemma isl_bindE: "isl (bindE x f) \<longleftrightarrow> (case x of Inl _ \<Rightarrow> True | Inr y \<Rightarrow> isl (f y))"
  by (cases x) auto

lemma paid_slip_in: "paid_slip \<in> set (payrollSlips paid_db)" "settled (ps_status paid_slip)"
  by (simp_all add: paid_db_def paid_slip_def settled_def)

definition paid_run :: "(payroll_request \<times> env) list" where
  "paid_run = [(Disburse ''t'' ''s1'' ''admin'' ''ref'', pay_env ''x''), (Calculate ''t'' 1404 7, pay_env ''y'')]"

theorem paid_slips_kept_witness:
  "\<exists>db'. foldE (payroll_serve sample_jalaali) paid_run paid_db = Inr db' \<and> slip_kept paid_slip paid_db db'"
proof -
  have "\<not> isl (bindE (payroll_serve sample_jalaali (Disburse ''t'' ''s1'' ''admin'' ''ref'', pay_env ''x'') paid_db)
      (\<lambda>db. calculate_in ''t'' 1404 7 mehr (pay_env ''y'') db))" by code_simp
  then have "\<not> isl (foldE (payroll_serve sample_jalaali) paid_run paid_db)"
    by (auto simp: paid_run_def calculate_in_mehr isl_bindE bindE_Inl split: prod.splits sum.splits)
  then obtain db' where db': "foldE (payroll_serve sample_jalaali) paid_run paid_db = Inr db'" using isl_Inr by blast
  have "list_all respects_issued paid_run" by (simp add: paid_run_def)
  from paid_slips_kept [OF paid_inv this db' paid_slip_in] db' show ?thesis by blast
qed
text \<open>Generating a slip from the profile for a month that already has one makes the slip a draft with new
amounts and items whatever its status was: a slip that has been paid can be rewritten, and keeps its payment data.\<close>

theorem generation_reopens_slip:
  assumes "generateSlipForUser t u y m None e db = Inr db'" and "payroll_inv db"
    and "slip_of_month t u y m db = Some s"
  shows "\<exists>gross. slip_of_month t u y m db' = Some (profile_columns (profile_pay gross) s)
    \<and> ps_status (profile_columns (profile_pay gross) s) = PS_DRAFT
    \<and> ps_paidAt (profile_columns (profile_pay gross) s) = ps_paidAt s
    \<and> items_of (ps_id s) db' = profile_items t (ps_id s) m gross"
proof -
  from assms(1,3) obtain p :: StaffPayrollProfile where p: "db' = add_items (profile_items t (ps_id s) m (sf_baseMonthlySalary p))
      (update_slip (ps_id s) (profile_columns (profile_pay (sf_baseMonthlySalary p))) (drop_items (ps_id s) db))"
    by (auto simp: generateSlipForUser_def Let_def split: option.splits)
  let ?f = "profile_columns (profile_pay (sf_baseMonthlySalary p))"
  note sm = slip_of_monthD [OF assms(3)]
  have "payroll_inv db'" using generate_keeps [OF assms(1,2)] by simp
  moreover have "?f s \<in> set (payrollSlips db')" using mem_update_row [OF sm(1) refl, of ?f] by (simp add: p)
  moreover have "slip_key (?f s) = (t, u, y, m)" using sm(2) slip_columns_keep_key(2) by (simp add: keeps_key_def)
  ultimately have "slip_of_month t u y m db' = Some (?f s)" by (rule slip_of_monthI)
  moreover have "items_of (ps_id s) db' = profile_items t (ps_id s) m (sf_baseMonthlySalary p)"
    by (simp add: p items_of_add items_of_drop filter_own items_belong)
  ultimately show ?thesis
    by (intro exI conjI) (assumption, simp_all add: profile_columns_def split: prod.splits)
qed

theorem generation_reopens_slip_witness:
  "\<exists>db' gross. generateSlipForUser ''t'' ''teacher'' 1404 7 None (pay_env ''g'') paid_db = Inr db'
    \<and> slip_of_month ''t'' ''teacher'' 1404 7 db' = Some (profile_columns (profile_pay gross) paid_slip)
    \<and> ps_status (profile_columns (profile_pay gross) paid_slip) = PS_DRAFT"
proof -
  have "\<not> isl (generateSlipForUser ''t'' ''teacher'' 1404 7 None (pay_env ''g'') paid_db)" by code_simp
  then obtain db' where db': "generateSlipForUser ''t'' ''teacher'' 1404 7 None (pay_env ''g'') paid_db = Inr db'"
    using isl_Inr by blast
  have "slip_of_month ''t'' ''teacher'' 1404 7 paid_db = Some paid_slip"
    by (simp add: slip_of_month_def paid_db_def paid_slip_def blank_slip_def)
  from generation_reopens_slip [OF db' paid_inv this] db' show ?thesis by blast
qed

text \<open>The disbursement pays a slip whatever its status, cancelled and draft slips included: it succeeds
exactly when the slip exists in the tenant.\<close>

theorem disburse_any_status:
  "(\<exists>db'. approveAndDisburse t slipId by ref e db = Inr db'
      \<and> (\<forall>s \<in> set (payrollSlips db'). ps_id s = slipId \<longrightarrow> ps_status s = PS_PAID))
   \<longleftrightarrow> (\<exists>s \<in> set (payrollSlips db). ps_id s = slipId \<and> ps_tenantId s = t)"
proof -
  have "find_slip t slipId db = None \<longleftrightarrow> \<not> (\<exists>s \<in> set (payrollSlips db). ps_id s = slipId \<and> ps_tenantId s = t)"
    by (auto simp: find_slip_def find_None_iff)
  then show ?thesis
    by (auto simp: approveAndDisburse_def set_update_row split: option.splits)
qed

theorem disburse_any_status_witness:
  "\<exists>db'. approveAndDisburse ''t'' ''s1'' ''admin'' ''ref'' (pay_env ''x'')
       (paid_db\<lparr>payrollSlips := [paid_slip\<lparr>ps_status := PS_CANCELLED\<rparr>]\<rparr>) = Inr db'
     \<and> (\<forall>s \<in> set (payrollSlips db'). ps_id s = ''s1'' \<longrightarrow> ps_status s = PS_PAID)"
  by (subst disburse_any_status) (simp add: paid_slip_def blank_slip_def)

text \<open>Issuing a month issues exactly the draft and reviewed slips of the tenant's month, leaves the amounts, the
items and every other slip alone, counts them, and leaves none of their linked adjustments pending.\<close>

theorem finalize_issues_month:
  assumes "finalizeMonthlySlips t y m e db = Inr (db', n)" and "payroll_inv db"
  shows "payrollSlips db' = map (\<lambda>s. if s \<in> set (active_slips t y m db) then s\<lparr>ps_status := PS_ISSUED\<rparr> else s) (payrollSlips db)
    \<and> payrollItems db' = payrollItems db \<and> n = length (active_slips t y m db) \<and> active_slips t y m db' = []
    \<and> (\<forall>a \<in> set (payrollAdjustments db'). \<forall>s \<in> set (active_slips t y m db).
         pa_appliedToSlipId a = Some (ps_id s) \<longrightarrow> pa_status a \<noteq> AD_PENDING)
    \<and> adjustments_kept db db'"
proof (intro conjI)
  note fs = finalize_slips [OF assms]
  show "payrollSlips db' = map (\<lambda>s. if s \<in> set (active_slips t y m db) then s\<lparr>ps_status := PS_ISSUED\<rparr> else s) (payrollSlips db)"
    and "payrollItems db' = payrollItems db" by (rule fs)+
  show "n = length (active_slips t y m db)" using assms(1)
    by (auto simp: finalizeMonthlySlips_def Let_def split: if_splits)
  show "active_slips t y m db' = []"
    by (auto simp: active_slips_def [of _ _ _ db'] fs(1) filter_empty_conv) (auto simp: active_slips_def)
  show "\<forall>a \<in> set (payrollAdjustments db'). \<forall>s \<in> set (active_slips t y m db).
      pa_appliedToSlipId a = Some (ps_id s) \<longrightarrow> pa_status a \<noteq> AD_PENDING"
    using assms(1) by (auto simp: finalizeMonthlySlips_def Let_def update_where_def split: if_splits)
  show "adjustments_kept db db'" using finalize_gentle [OF assms] by (simp add: gentle_step_def)
qed

lemma mehr_inv: "payroll_inv (fst after_mehr)"
  using calculate_gentle [OF calculate_mehr payday_inv] by (simp add: gentle_step_def)

theorem finalize_issues_month_witness:
  "\<exists>db'. finalizeMonthlySlips ''t'' 1404 7 (pay_env ''f'') (fst after_mehr) = Inr (db', 1) \<and> active_slips ''t'' 1404 7 db' = []"
proof -
  have "map_sum (\<lambda>_. ()) snd (finalizeMonthlySlips ''t'' 1404 7 (pay_env ''f'') (fst after_mehr)) = Inr 1"
    unfolding after_mehr_def by code_simp
  then obtain db' where db': "finalizeMonthlySlips ''t'' 1404 7 (pay_env ''f'') (fst after_mehr) = Inr (db', 1)"
    by (cases "finalizeMonthlySlips ''t'' 1404 7 (pay_env ''f'') (fst after_mehr)") auto
  from finalize_issues_month [OF db' mehr_inv] db' show ?thesis by blast
qed

lemma three_runs:
  assumes "\<not> isl (bindE x (\<lambda>(a, _). bindE (f a) (\<lambda>(b, _). g b)))"
  obtains a i b j c k where "x = Inr (a, i)" and "f a = Inr (b, j)" and "g b = Inr (c, k)"
proof -
  from isl_Inr [OF assms] obtain z where "bindE x (\<lambda>(a, _). bindE (f a) (\<lambda>(b, _). g b)) = Inr z" by blast
  then obtain p where p: "x = Inr p" "(\<lambda>(a, _). bindE (f a) (\<lambda>(b, _). g b)) p = Inr z" by (rule bindE_InrE)
  obtain a i where "p = (a, i)" by (cases p)
  with p obtain q where "x = Inr (a, i)" "f a = Inr q" "(\<lambda>(b, _). g b) q = Inr z" by (auto elim: bindE_InrE)
  with that show thesis by (cases q; cases z) auto
qed

text \<open>An adjustment that is pending when two months are calculated before either is issued ends up in the issued
slips of both months.\<close>

theorem adjustment_in_two_slips:
  assumes "payroll_inv db" and "(y1, m1) \<noteq> (y2, m2)" and "a \<in> set (pending_adjustments t u db)"
    and "month_range_of lib y1 m1 = Inr r1" and "month_range_of lib y2 m2 = Inr r2"
    and "c1 \<in> set (contracts_of_month t r1 db)" and "tc_teacherId c1 = u"
    and "c2 \<in> set (contracts_of_month t r2 db)" and "tc_teacherId c2 = u"
    and "slip_open t u y1 m1 db" and "slip_open t u y2 m2 db"
    and "calculateMonthlyPayroll lib t y1 m1 e1 db = Inr (db1, n1)"
    and "calculateMonthlyPayroll lib t y2 m2 e2 db1 = Inr (db2, n2)"
    and "finalizeMonthlySlips t y1 m1 e3 db2 = Inr (db3, n3)"
    and "finalizeMonthlySlips t y2 m2 e4 db3 = Inr (db4, n4)"
  shows "\<exists>s1 s2. slip_of_month t u y1 m1 db4 = Some s1 \<and> slip_of_month t u y2 m2 db4 = Some s2
    \<and> ps_status s1 = PS_ISSUED \<and> ps_status s2 = PS_ISSUED
    \<and> adjustment_item t (ps_id s1) a \<in> set (items_of (ps_id s1) db4)
    \<and> adjustment_item t (ps_id s2) a \<in> set (items_of (ps_id s2) db4)"
proof -
  note i1 = calculate_gentle [OF assms(12,1)]
  then have inv1: "payroll_inv db1" by (simp add: gentle_step_def)
  have inv2: "payroll_inv db2" using calculate_gentle [OF assms(13) inv1] by (simp add: gentle_step_def)
  have inv3: "payroll_inv db3" using finalize_gentle [OF assms(14) inv2] by (simp add: gentle_step_def)
  note om1 = other_month [OF assms(12,1,2) refl, of u]
  from month_carries_adjustments [OF assms(12,1,4,6,7,10) refl assms(3)] obtain s1 where
    s1: "slip_of_month t u y1 m1 db1 = Some s1" "ps_status s1 = PS_DRAFT"
      "adjustment_item t (ps_id s1) a \<in> set (items_of (ps_id s1) db1)" .
  have c2: "c2 \<in> set (contracts_of_month t r2 db1)"
    using assms(8) calculate_contracts [OF assms(12)] by (simp add: contracts_of_month_def)
  have o2: "slip_open t u y2 m2 db1" using assms(11) om1(1) by (simp add: slip_open_def)
  from month_carries_adjustments [OF assms(13) inv1 assms(5) c2 assms(9) o2 om1(3) [symmetric] assms(3)] obtain s2 where
    s2: "slip_of_month t u y2 m2 db2 = Some s2" "ps_status s2 = PS_DRAFT"
      "adjustment_item t (ps_id s2) a \<in> set (items_of (ps_id s2) db2)" .
  note om2 = other_month [OF assms(13) inv1 assms(2) [symmetric] s1(1)]
  have f1: "slip_of_month t u y1 m1 db3 = Some (s1\<lparr>ps_status := PS_ISSUED\<rparr>)"
    using finalize_slip_of_month [OF assms(14) inv2 om2(1)] active_slip [OF om2(1) s1(2)] by simp
  have n1: "s2 \<notin> set (active_slips t y1 m1 db2)"
    using slip_of_monthD(2) [OF s2(1)] assms(2) by (auto simp: active_slips_def slip_key_def)
  have f2: "slip_of_month t u y2 m2 db3 = Some s2"
    using finalize_slip_of_month [OF assms(14) inv2 s2(1)] n1 by simp
  have "slip_of_month t u y2 m2 db4 = Some (s2\<lparr>ps_status := PS_ISSUED\<rparr>)"
    using finalize_slip_of_month [OF assms(15) inv3 f2] active_slip [OF f2 s2(2)] by simp
  moreover have "slip_of_month t u y1 m1 db4 = Some (s1\<lparr>ps_status := PS_ISSUED\<rparr>)"
    using finalize_slip_of_month [OF assms(15) inv3 f1] by (auto simp: active_slips_def)
  moreover have "items_of j db4 = items_of j db2" for j
    using finalize_slips(2) [OF assms(14) inv2] finalize_slips(2) [OF assms(15) inv3] by (simp add: items_of_def)
  ultimately show ?thesis using s1(3) s2(3) om2(2) by auto
qed

theorem adjustment_in_two_slips_witness:
  "\<exists>db4 s1 s2. slip_of_month ''t'' ''teacher'' 1404 7 db4 = Some s1 \<and> slip_of_month ''t'' ''teacher'' 1404 8 db4 = Some s2
    \<and> ps_status s1 = PS_ISSUED \<and> ps_status s2 = PS_ISSUED
    \<and> adjustment_item ''t'' (ps_id s1) demo_adjustment \<in> set (items_of (ps_id s1) db4)
    \<and> adjustment_item ''t'' (ps_id s2) demo_adjustment \<in> set (items_of (ps_id s2) db4)"
proof -
  have "\<not> isl (bindE (calculateMonthlyPayroll sample_jalaali ''t'' 1404 8 (pay_env ''n'') (fst after_mehr)) (\<lambda>(db2, _).
      bindE (finalizeMonthlySlips ''t'' 1404 7 (pay_env ''f'') db2) (\<lambda>(db3, _).
      finalizeMonthlySlips ''t'' 1404 8 (pay_env ''g'') db3)))"
    unfolding calculate_in_aban after_mehr_def by code_simp
  then obtain db2 n2 db3 n3 db4 n4 where
    r: "calculateMonthlyPayroll sample_jalaali ''t'' 1404 8 (pay_env ''n'') (fst after_mehr) = Inr (db2, n2)"
      "finalizeMonthlySlips ''t'' 1404 7 (pay_env ''f'') db2 = Inr (db3, n3)"
      "finalizeMonthlySlips ''t'' 1404 8 (pay_env ''g'') db3 = Inr (db4, n4)"
    by (rule three_runs)
  have a: "demo_adjustment \<in> set (pending_adjustments ''t'' ''teacher'' payday_db)"
    by (simp add: pending_adjustments_def payday_db_def demo_adjustment_def)
  have c: "teaching_contract ''c2'' 400000 0 \<in> set (contracts_of_month ''t'' mehr payday_db)"
    by (simp add: contracts_in_mehr)
  have o: "slip_open ''t'' ''teacher'' y m payday_db" for y m
    by (simp add: slip_open_def slip_of_month_def payday_db_def)
  have u: "tc_teacherId (teaching_contract ''c2'' 400000 0) = ''teacher''" by (simp add: teaching_contract_def)
  have ne: "(1404 :: nat, 7 :: nat) \<noteq> (1404, 8)" by simp
  show ?thesis
    by (rule exI [of _ db4], rule adjustment_in_two_slips [OF payday_inv ne a mehr aban c u contracts_in_aban u o o calculate_mehr r])
qed

text \<open>C16: Through any run of requests the contracts of a teacher within an academic year never overlap.\<close>

theorem teacher_contracts_apart:
  assumes "contracts_apart db" and "foldE (payroll_serve lib) rs db = Inr db'"
  shows "contracts_apart db'"
proof (rule foldE_invariant [where I = contracts_apart, OF _ assms])
  fix r d d' assume "contracts_apart d" "payroll_serve lib r d = Inr d'"
  then show "contracts_apart d'" using serve_apart [of lib "fst r" "snd r"] by simp
qed

definition rate_change :: CreateTeacherContractDto where
  "rate_change = \<lparr>ctc_teacherId = ''teacher'', ctc_academicYearId = ''y'', ctc_rateType = PER_SESSION,
     ctc_rateAmount = 450000, ctc_monthlyHourCap = None, ctc_baseSalary = None, ctc_effectiveFrom = Some 100,
     ctc_effectiveTo = None\<rparr>"

definition one_contract_db :: payroll_db where
  "one_contract_db = payday_db\<lparr>teacherContracts := [teaching_contract ''c1'' 300000 0]\<rparr>"

lemma rate_change_ok: "\<not> isl (createTeacherContract ''t'' ''admin'' rate_change (pay_env ''c'') one_contract_db)"
  by code_simp

lemma one_contract_apart: "contracts_apart one_contract_db"
  by (simp add: contracts_apart_def one_contract_db_def)

theorem teacher_contracts_apart_witness:
  "\<exists>db'. foldE (payroll_serve sample_jalaali) [(NewContract ''t'' ''admin'' rate_change, pay_env ''c'')] one_contract_db = Inr db'
     \<and> contracts_apart db'"
proof -
  have "\<not> isl (foldE (payroll_serve sample_jalaali) [(NewContract ''t'' ''admin'' rate_change, pay_env ''c'')] one_contract_db)"
    by code_simp
  then obtain db' where "foldE (payroll_serve sample_jalaali) [(NewContract ''t'' ''admin'' rate_change, pay_env ''c'')] one_contract_db = Inr db'"
    using isl_Inr by blast
  with teacher_contracts_apart [OF one_contract_apart this] show ?thesis by blast
qed

section \<open>The days of a month\<close>

lemma utext_append [simp]: "utext_of (s @ t) = utext_of s @ utext_of t"
  by (simp add: utext_of_def)

lemma utext_digit: "d < 10 \<Longrightarrow> utext_of [digit_char d] = [48 + d]"
proof -
  have "list_all (\<lambda>d. utext_of [digit_char d] = [48 + d]) [0, 1, 2, 3, 4, 5, 6, 7, 8, 9]" by code_simp
  moreover assume "d < 10"
  then have "d = 0 \<or> d = 1 \<or> d = 2 \<or> d = 3 \<or> d = 4 \<or> d = 5 \<or> d = 6 \<or> d = 7 \<or> d = 8 \<or> d = 9" by presburger
  ultimately show ?thesis by auto
qed

lemma utext_string_of_nat: "utext_of (string_of_nat n) = udigits n"
proof (induction n rule: string_of_nat.induct)
  case (1 n)
  then show ?case
    by (subst string_of_nat.simps, subst udigits.simps) (simp add: utext_digit del: udigits_eval)
qed

lemma utext_pad2: "utext_of (pad2s n) = pad2 n"
proof -
  have 0: "utext_of (CHR ''0'' # s) = 48 # utext_of s" for s by (simp add: utext_of_def)
  have "n < 10 \<Longrightarrow> length (udigits n) = 1" by simp
  moreover have "10 \<le> n \<Longrightarrow> 2 \<le> length (udigits n)"
  proof -
    assume "10 \<le> n"
    moreover have "udigits (n div 10) \<noteq> []" by (subst udigits.simps) simp
    then have "0 < length (udigits (n div 10))" by simp
    ultimately show ?thesis by (simp add: Suc_le_eq)
  qed
  ultimately show ?thesis by (cases "n < 10") (simp_all add: pad2s_def pad2_def utext_string_of_nat 0 del: udigits_eval)
qed

lemma utext_jalali_day: "utext_of (jalali_day y m d) = canonical_date (y, m, d)"
proof -
  have "utext_of (CHR ''-'' # s) = 45 # utext_of s" for s by (simp add: utext_of_def)
  then show ?thesis by (simp add: jalali_day_def canonical_date_def utext_string_of_nat utext_pad2 del: udigits_eval)
qed

lemma month_rangeD:
  assumes "month_range_of lib y m = Inr r" and "1000 \<le> y" "y < 10000" "1 \<le> m" "m \<le> 12"
    and "1 \<le> jalaaliMonthLength lib y m" "jalaaliMonthLength lib y m \<le> 31"
  shows "mr_start r = time_of_part (toGregorian lib y m 1) DayStart"
    and "mr_end r = time_of_part (toGregorian lib y m (jalaaliMonthLength lib y m)) DayEnd"
proof -
  have c: "jalaliToGregorianDate lib (utext_of (jalali_day y m d)) part = Inr t
      \<Longrightarrow> t = time_of_part (toGregorian lib y m d) part" if "1 \<le> d" "d \<le> 31" for d part t
    using match_canonical [OF assms(2-5) that] normalize_plain [OF plain_canonical, of y m d]
    by (simp add: conversion_cases utext_jalali_day split: if_splits)
  from assms(1) show "mr_start r = time_of_part (toGregorian lib y m 1) DayStart"
    and "mr_end r = time_of_part (toGregorian lib y m (jalaaliMonthLength lib y m)) DayEnd"
    using c [of 1] c [of "jalaaliMonthLength lib y m"] assms(6,7)
    by (auto simp: month_range_of_def Let_def split: sum.splits)
qed

lemma str_le_refl: "str_le s s"
  by (induction s) auto

text \<open>The session of a teacher on the last day of a month, entered with the Gregorian date, counts in that
month and in the next one: the month is taken to begin on the evening before its first day, in UTC.\<close>

theorem boundary_session_counted_twice:
  assumes "month_range_of lib y m = Inr r" and "month_range_of lib y2 m2 = Inr r2"
    and "1000 \<le> y" "y < 10000" "1 \<le> m" "m \<le> 12" and "1000 \<le> y2" "y2 < 10000" "1 \<le> m2" "m2 \<le> 12"
    and "1 \<le> jalaaliMonthLength lib y m" "jalaaliMonthLength lib y m \<le> 31"
    and "1 \<le> jalaaliMonthLength lib y2 m2" "jalaaliMonthLength lib y2 m2 \<le> 31"
    and "toGregorian lib y m (jalaaliMonthLength lib y m) = (gy, gm, gd)" and "toGregorian lib y2 m2 1 = (ky, km, kd)"
    and "100 \<le> gy" and "100 \<le> ky" and "days_from_civil ky km kd = days_from_civil gy gm gd + 1"
    and "a \<in> set (teacherAttendances db)" and "ta_status a = TA_PRESENT" and "ta_date a = iso_day (mr_end r)"
    and "str_le (iso_day (mr_start r)) (ta_date a)" and "str_le (ta_date a) (iso_day (mr_end r2))"
  shows "1 \<le> session_count (ta_tenantId a) (ta_teacherId a) r db
    \<and> 1 \<le> session_count (ta_tenantId a) (ta_teacherId a) r2 db"
proof -
  have "mr_end r = days_from_civil gy gm gd * 86400000 + 73799999"
    using month_rangeD(2) [OF assms(1,3-6,11,12)] assms(15,17) by (simp add: time_of_part_def date_utc_def ms_per_day_def)
  then have "mr_end r div ms_per_day = days_from_civil gy gm gd" by (simp add: ms_per_day_def)
  moreover have "mr_start r2 = (days_from_civil ky km kd - 1) * 86400000 + 73800000"
    using month_rangeD(1) [OF assms(2,7-10,13,14)] assms(16,18)
    by (simp add: time_of_part_def date_utc_def ms_per_day_def days_from_civil_before)
  then have "mr_start r2 div ms_per_day = days_from_civil ky km kd - 1" by (simp add: ms_per_day_def)
  ultimately have "iso_day (mr_start r2) = iso_day (mr_end r)" using assms(19) by (simp add: iso_day_def)
  then have "in_month r (ta_date a)" "in_month r2 (ta_date a)"
    using assms(22-24) str_le_refl by (auto simp: in_month_def)
  then have "filter (\<lambda>b. ta_tenantId b = ta_tenantId a \<and> ta_teacherId b = ta_teacherId a \<and> ta_status b = TA_PRESENT
      \<and> in_month r (ta_date b)) (teacherAttendances db) \<noteq> []"
    "filter (\<lambda>b. ta_tenantId b = ta_tenantId a \<and> ta_teacherId b = ta_teacherId a \<and> ta_status b = TA_PRESENT
      \<and> in_month r2 (ta_date b)) (teacherAttendances db) \<noteq> []"
    using assms(20,21) by (auto simp: filter_empty_conv)
  then show ?thesis by (simp add: session_count_def Suc_le_eq)
qed

definition boundary_session :: TeacherAttendance where
  "boundary_session = \<lparr>ta_tenantId = ''t'', ta_teacherId = ''tp'', ta_date = ''2025-10-22'', ta_status = TA_PRESENT\<rparr>"

theorem boundary_session_counted_twice_witness:
  "1 \<le> session_count ''t'' ''tp'' mehr payday_db \<and> 1 \<le> session_count ''t'' ''tp'' aban payday_db"
proof -
  have "civil_date (2025, 10, 22)" "civil_date (2025, 10, 23)" by (simp_all add: civil_date_def month_length_def)
  then have g: "toGregorian sample_jalaali 1404 7 30 = (2025, 10, 22)" "toGregorian sample_jalaali 1404 8 1 = (2025, 10, 23)"
    using civil_inverse [of 2025 10 22] civil_inverse [of 2025 10 23]
    by (simp_all add: sample_jalaali_def days_from_civil_def)
  have "iso_day (mr_end mehr) = ''2025-10-22''" "str_le (iso_day (mr_start mehr)) ''2025-10-22''"
    "str_le ''2025-10-22'' (iso_day (mr_end aban))" by code_simp+
  then show ?thesis
    using boundary_session_counted_twice [OF mehr aban, of 2025 10 22 2025 10 23 boundary_session payday_db] g
    by (simp add: sample_month boundary_session_def payday_db_def days_from_civil_def)
qed

end
