(* ===== verification/Rbac.thy ===== *)
theory Rbac
  imports Prelude
begin

text \<open>
  Roles and permissions of a school: \<open>RbacService\<close> (\<open>modules/rbac/rbac.service.ts\<close>), the catalog of
  permissions and the guards that ask for them.

  The service queries \<open>PrismaService\<close> itself; the extension that hides soft-deleted rows and confines
  queries to a tenant is only installed on its property \<open>client\<close>, which nothing uses.  A query therefore
  filters by its own \<open>where\<close> clause and by nothing else.  The Persian labels of the catalog are left out.
  The cache entries of Redis hold a list of permissions as JSON text, here the list itself; their keys are
  determined by the tenant and the user.
\<close>

section \<open>The catalog\<close>

datatype permission_category = ERP_ACADEMIC | LMS | OPERATIONS | FINANCE | RBAC

record PermissionCatalogItem =
  pc_code :: string
  pc_category :: permission_category
  pc_isSensitive :: bool
  pc_icon :: string

definition catalog_item :: "string \<Rightarrow> permission_category \<Rightarrow> bool \<Rightarrow> string \<Rightarrow> PermissionCatalogItem" where
  "catalog_item c k s i = \<lparr>pc_code = c, pc_category = k, pc_isSensitive = s, pc_icon = i\<rparr>"

definition PERMISSION_CATEGORIES :: "permission_category list" where
  "PERMISSION_CATEGORIES = [ERP_ACADEMIC, LMS, OPERATIONS, FINANCE, RBAC]"

definition PERMISSION_CATALOG :: "PermissionCatalogItem list" where
  "PERMISSION_CATALOG =
     [catalog_item ''academic.year.read'' ERP_ACADEMIC False ''Calendar'',
      catalog_item ''academic.year.write'' ERP_ACADEMIC False ''Calendar'',
      catalog_item ''academic.level.write'' ERP_ACADEMIC False ''Layers'',
      catalog_item ''academic.field.write'' ERP_ACADEMIC False ''Compass'',
      catalog_item ''lesson.read'' ERP_ACADEMIC False ''BookOpen'',
      catalog_item ''lesson.write'' ERP_ACADEMIC False ''BookOpen'',
      catalog_item ''classroom.read'' ERP_ACADEMIC False ''Building2'',
      catalog_item ''classroom.write'' ERP_ACADEMIC False ''Building2'',
      catalog_item ''schedule.read'' ERP_ACADEMIC False ''Clock'',
      catalog_item ''schedule.write'' ERP_ACADEMIC False ''Clock'',
      catalog_item ''enrollment.write'' ERP_ACADEMIC False ''UserPlus'',
      catalog_item ''student.read'' ERP_ACADEMIC False ''Users'',
      catalog_item ''student.write'' ERP_ACADEMIC False ''UserPlus'',
      catalog_item ''teacher.read'' ERP_ACADEMIC False ''UserCheck'',
      catalog_item ''teacher.write'' ERP_ACADEMIC False ''UserCheck'',
      catalog_item ''coach.read'' ERP_ACADEMIC False ''Target'',
      catalog_item ''coach.write'' ERP_ACADEMIC False ''Target'',
      catalog_item ''staff.read'' ERP_ACADEMIC False ''Users'',
      catalog_item ''staff.write'' ERP_ACADEMIC False ''Users'',
      catalog_item ''parent.read'' ERP_ACADEMIC False ''HeartHandshake'',
      catalog_item ''parent.write'' ERP_ACADEMIC False ''HeartHandshake'',
      catalog_item ''parent.student.link'' ERP_ACADEMIC False ''Link'',
      catalog_item ''exam.read'' LMS False ''HelpCircle'',
      catalog_item ''exam.write'' LMS False ''HelpCircle'',
      catalog_item ''grades.read'' LMS False ''BarChart3'',
      catalog_item ''grades.write'' LMS False ''BarChart3'',
      catalog_item ''attendance.read'' OPERATIONS False ''UserCheck'',
      catalog_item ''attendance.write'' OPERATIONS False ''UserCheck'',
      catalog_item ''homework.read'' OPERATIONS False ''FileCheck'',
      catalog_item ''homework.write'' OPERATIONS False ''FileCheck'',
      catalog_item ''calendar.write'' OPERATIONS False ''CalendarDays'',
      catalog_item ''coaching.read'' OPERATIONS False ''Target'',
      catalog_item ''coaching.write'' OPERATIONS False ''Target'',
      catalog_item ''blog.write'' OPERATIONS False ''Sparkles'',
      catalog_item ''blog.publish'' OPERATIONS False ''Sparkles'',
      catalog_item ''school.profile.write'' OPERATIONS False ''Building2'',
      catalog_item ''message.broadcast'' OPERATIONS False ''Megaphone'',
      catalog_item ''message.class.write'' OPERATIONS False ''MessageSquare'',
      catalog_item ''finance.fee.read'' FINANCE True ''Receipt'',
      catalog_item ''finance.fee.write'' FINANCE True ''Receipt'',
      catalog_item ''finance.check.manage'' FINANCE True ''FileCheck'',
      catalog_item ''finance.fee.import'' FINANCE True ''FileSpreadsheet'',
      catalog_item ''finance.payroll.read'' FINANCE True ''Wallet'',
      catalog_item ''finance.payroll.write'' FINANCE True ''Wallet'',
      catalog_item ''role.read'' RBAC False ''Shield'',
      catalog_item ''role.write'' RBAC True ''Sliders'',
      catalog_item ''role.assign'' RBAC True ''UserCheck'',
      catalog_item ''rbac.manage'' RBAC True ''ShieldCheck'']"

definition all_codes :: "string list" where
  "all_codes = map pc_code PERMISSION_CATALOG"

section \<open>Tables\<close>

datatype UserRole = SUPER_ADMIN | SCHOOL_ADMIN | TEACHER | STUDENT | PARENT | STAFF | COACH

datatype UserStatus = USER_ACTIVE | USER_SUSPENDED | USER_PENDING_ACTIVATION

record User =
  au_id :: id
  au_tenantId :: id
  au_firstName :: string
  au_lastName :: string
  au_phone :: "string option"
  au_nationalId :: "string option"
  au_username :: "string option"
  au_role :: UserRole
  au_isPlatformAdmin :: bool
  au_status :: UserStatus

record Permission =
  pm_id :: id
  pm_code :: string

record SchoolRole =
  sr_id :: id
  sr_tenantId :: id
  sr_name :: string
  sr_description :: "string option"
  sr_isSystem :: bool
  sr_deletedAt :: "time option"

record RolePermission =
  rp_schoolRoleId :: id
  rp_permissionId :: id

record UserSchoolRole =
  ur_tenantId :: id
  ur_userId :: id
  ur_schoolRoleId :: id

datatype PermissionOverrideEffect = GRANT | REVOKE

record UserPermissionOverride =
  ov_id :: id
  ov_tenantId :: id
  ov_userId :: id
  ov_permissionCode :: string
  ov_effect :: PermissionOverrideEffect
  ov_grantedById :: id
  ov_reason :: "string option"
  ov_deletedAt :: "time option"

text \<open>An entry of the audit log: tenant, actor, action, entity and its identifier.\<close>

type_synonym audit_entry = "id \<times> id \<times> string \<times> string \<times> id"

text \<open>A cache entry is the list and the time at which it expires.\<close>

record access_db =
  accessUsers :: "User list"
  permissionRows :: "Permission list"
  schoolRoles :: "SchoolRole list"
  rolePermissions :: "RolePermission list"
  userSchoolRoles :: "UserSchoolRole list"
  permissionOverrides :: "UserPermissionOverride list"
  permissionCache :: "id \<Rightarrow> id \<Rightarrow> (string list \<times> time) option"
  redisReady :: bool
  auditTrail :: "audit_entry list"

definition record_audit :: "audit_entry \<Rightarrow> access_db \<Rightarrow> access_db" where
  "record_audit a db = db\<lparr>auditTrail := auditTrail db @ [a]\<rparr>"

definition invalidateUserPermissionsCache :: "id \<Rightarrow> id \<Rightarrow> access_db \<Rightarrow> access_db" where
  "invalidateUserPermissionsCache tenantId userId db =
     (if redisReady db then db\<lparr>permissionCache := (permissionCache db)(tenantId := (permissionCache db tenantId)(userId := None))\<rparr>
      else db)"

definition cache_get :: "id \<Rightarrow> id \<Rightarrow> time \<Rightarrow> access_db \<Rightarrow> string list option" where
  "cache_get tenantId userId t db =
     (if redisReady db then (case permissionCache db tenantId userId of
        Some (v, expires) \<Rightarrow> if t < expires then Some v else None | None \<Rightarrow> None) else None)"

definition cache_set :: "id \<Rightarrow> id \<Rightarrow> string list \<Rightarrow> time \<Rightarrow> access_db \<Rightarrow> access_db" where
  "cache_set tenantId userId v t db =
     (if redisReady db then db\<lparr>permissionCache := (permissionCache db)(tenantId :=
        (permissionCache db tenantId)(userId := Some (v, t + 600 * 1000)))\<rparr>
      else db)"

section \<open>Effective permissions\<close>

fun getBaseRolePermissions :: "UserRole \<Rightarrow> string list" where
  "getBaseRolePermissions TEACHER = [''lesson.read'', ''attendance.write'', ''attendance.read'', ''homework.write'',
     ''homework.read'', ''grades.write'', ''grades.read'', ''schedule.read'', ''student.read'', ''exam.read'',
     ''exam.write'', ''blog.write'']"
| "getBaseRolePermissions STUDENT = [''lesson.read'', ''schedule.read'', ''attendance.read'', ''homework.read'',
     ''grades.read'', ''exam.read'', ''coaching.read'']"
| "getBaseRolePermissions PARENT = [''student.read'', ''attendance.read'', ''grades.read'', ''homework.read'',
     ''schedule.read'', ''finance.fee.read'', ''coaching.read'']"
| "getBaseRolePermissions COACH = [''coaching.read'', ''coaching.write'', ''student.read'', ''blog.write'', ''schedule.read'']"
| "getBaseRolePermissions STAFF = [''attendance.read'', ''attendance.write'', ''student.read'', ''teacher.read'',
     ''calendar.write'', ''blog.write'']"
| "getBaseRolePermissions _ = []"

text \<open>A JavaScript \<open>Set\<close> keeps its elements in the order of their first insertion.\<close>

definition set_add :: "'a \<Rightarrow> 'a list \<Rightarrow> 'a list" where
  "set_add x xs = (if x \<in> set xs then xs else xs @ [x])"

definition set_delete :: "'a \<Rightarrow> 'a list \<Rightarrow> 'a list" where
  "set_delete x xs = filter (\<lambda>y. y \<noteq> x) xs"

definition role_codes :: "id \<Rightarrow> access_db \<Rightarrow> string list" where
  "role_codes roleId db = concat (map (\<lambda>rp. case find (\<lambda>p. pm_id p = rp_permissionId rp) (permissionRows db) of
       None \<Rightarrow> [] | Some p \<Rightarrow> [pm_code p])
     (filter (\<lambda>rp. rp_schoolRoleId rp = roleId) (rolePermissions db)))"

definition roles_of_user :: "id \<Rightarrow> access_db \<Rightarrow> id list" where
  "roles_of_user userId db = map ur_schoolRoleId (filter (\<lambda>ur. ur_userId ur = userId) (userSchoolRoles db))"

definition overrides_of_user :: "id \<Rightarrow> access_db \<Rightarrow> UserPermissionOverride list" where
  "overrides_of_user userId db = filter (\<lambda>ov. ov_userId ov = userId) (permissionOverrides db)"

definition apply_override :: "UserPermissionOverride \<Rightarrow> string list \<Rightarrow> string list" where
  "apply_override ov ps = (case ov_effect ov of GRANT \<Rightarrow> set_add (ov_permissionCode ov) ps
     | REVOKE \<Rightarrow> set_delete (ov_permissionCode ov) ps)"

definition is_admin_role :: "UserRole \<Rightarrow> bool" where
  "is_admin_role r \<longleftrightarrow> r = SUPER_ADMIN \<or> r = SCHOOL_ADMIN"

definition compute_permissions :: "User \<Rightarrow> access_db \<Rightarrow> string list" where
  "compute_permissions u db =
     (if is_admin_role (au_role u) then all_codes
      else fold apply_override (overrides_of_user (au_id u) db)
             (fold set_add (concat (map (\<lambda>r. role_codes r db) (roles_of_user (au_id u) db)))
               (fold set_add (getBaseRolePermissions (au_role u)) [])))"

definition access_user :: "id \<Rightarrow> id \<Rightarrow> access_db \<Rightarrow> User option" where
  "access_user tenantId userId db = find (\<lambda>u. au_id u = userId \<and> au_tenantId u = tenantId) (accessUsers db)"

definition getUserPermissions :: "id \<Rightarrow> id \<Rightarrow> env \<Rightarrow> access_db \<Rightarrow> string list \<times> access_db" where
  "getUserPermissions tenantId userId e db =
     (case cache_get tenantId userId (now e) db of
        Some ps \<Rightarrow> (ps, db)
      | None \<Rightarrow> (case access_user tenantId userId db of
          None \<Rightarrow> ([], db)
        | Some u \<Rightarrow> (let ps = compute_permissions u db in (ps, cache_set tenantId userId ps (now e) db))))"

definition hasPermission :: "id \<Rightarrow> id \<Rightarrow> string \<Rightarrow> env \<Rightarrow> access_db \<Rightarrow> bool \<times> access_db" where
  "hasPermission tenantId userId code e db =
     (let (ps, db') = getUserPermissions tenantId userId e db in (code \<in> set ps, db'))"

section \<open>The catalog in the database\<close>

text \<open>The missing permissions of the catalog are created; the identifiers are fresh.\<close>

definition missing_items :: "access_db \<Rightarrow> PermissionCatalogItem list" where
  "missing_items db = filter (\<lambda>i. pc_code i \<notin> set (map pm_code (permissionRows db))) PERMISSION_CATALOG"

definition ensureCatalogPermissionsInDb :: "env \<Rightarrow> access_db \<Rightarrow> access_db" where
  "ensureCatalogPermissionsInDb e db = (let missing = missing_items db
     in db\<lparr>permissionRows := permissionRows db @
          map (\<lambda>(k, i). \<lparr>pm_id = uuid e k, pm_code = pc_code i\<rparr>) (zip [0..<length missing] missing)\<rparr>)"

definition listPermissions :: "env \<Rightarrow> access_db \<Rightarrow> (permission_category list \<times> PermissionCatalogItem list \<times> nat) \<times> access_db" where
  "listPermissions e db =
     ((PERMISSION_CATEGORIES, PERMISSION_CATALOG, length PERMISSION_CATALOG), ensureCatalogPermissionsInDb e db)"

section \<open>Roles\<close>

definition users_of_role :: "id \<Rightarrow> access_db \<Rightarrow> id list" where
  "users_of_role roleId db = map ur_userId (filter (\<lambda>ur. ur_schoolRoleId ur = roleId) (userSchoolRoles db))"

definition catalog_lookup :: "string \<Rightarrow> PermissionCatalogItem option" where
  "catalog_lookup c = find (\<lambda>i. pc_code i = c) (rev PERMISSION_CATALOG)"

text \<open>Identifier, name, system flag, number of users and the permissions with their sensitivity.\<close>

definition listRoles :: "id \<Rightarrow> access_db \<Rightarrow> (SchoolRole \<times> nat \<times> (string \<times> bool) list) list" where
  "listRoles tenantId db =
     (let rs = rev (filter (\<lambda>r. sr_tenantId r = tenantId) (schoolRoles db));
          ordered = filter sr_isSystem rs @ filter (\<lambda>r. \<not> sr_isSystem r) rs
      in map (\<lambda>r. (r, length (users_of_role (sr_id r) db),
           map (\<lambda>c. (c, case catalog_lookup c of None \<Rightarrow> False | Some i \<Rightarrow> pc_isSensitive i)) (role_codes (sr_id r) db))) ordered)"

definition permissions_with_codes :: "string list \<Rightarrow> access_db \<Rightarrow> Permission list" where
  "permissions_with_codes codes db = filter (\<lambda>p. pm_code p \<in> set codes) (permissionRows db)"

definition grant_to_role :: "id \<Rightarrow> Permission list \<Rightarrow> access_db \<Rightarrow> access_db" where
  "grant_to_role roleId ps db = db\<lparr>rolePermissions := rolePermissions db @
     map (\<lambda>p. \<lparr>rp_schoolRoleId = roleId, rp_permissionId = pm_id p\<rparr>) ps\<rparr>"

definition clear_role :: "id \<Rightarrow> access_db \<Rightarrow> access_db" where
  "clear_role roleId db = db\<lparr>rolePermissions := filter (\<lambda>rp. rp_schoolRoleId rp \<noteq> roleId) (rolePermissions db)\<rparr>"

definition update_role_row :: "id \<Rightarrow> (SchoolRole \<Rightarrow> SchoolRole) \<Rightarrow> access_db \<Rightarrow> access_db" where
  "update_role_row roleId f db = db\<lparr>schoolRoles := update_row sr_id roleId f (schoolRoles db)\<rparr>"

record CreateSchoolRoleDto =
  cr_name :: string
  cr_description :: "string option"
  cr_permissionCodes :: "string list"

text \<open>An undefined description leaves the column alone.\<close>

definition keep_undefined :: "'a option \<Rightarrow> 'a option \<Rightarrow> 'a option" where
  "keep_undefined new old = (case new of None \<Rightarrow> old | Some x \<Rightarrow> Some x)"

definition createRole ::
  "id \<Rightarrow> id \<Rightarrow> CreateSchoolRoleDto \<Rightarrow> env \<Rightarrow> access_db \<Rightarrow> http_error + access_db" where
  "createRole tenantId adminId dto e db =
     (let name = trim (cr_name dto); description = map_option trim (cr_description dto)
      in case find (\<lambda>r. sr_tenantId r = tenantId \<and> sr_name r = name) (schoolRoles db) of
        Some existing \<Rightarrow>
          if sr_deletedAt existing = None then Inl (Conflict ''role name'')
          else
            (let db1 = ensureCatalogPermissionsInDb e db;
                 ps = permissions_with_codes (cr_permissionCodes dto) db1;
                 db2 = update_role_row (sr_id existing) (\<lambda>r. r\<lparr>sr_deletedAt := None,
                   sr_description := keep_undefined description (sr_description r)\<rparr>) db1;
                 db3 = grant_to_role (sr_id existing) ps (clear_role (sr_id existing) db2)
             in Inr (record_audit (tenantId, adminId, ''RESTORE_AND_UPDATE_ROLE'', ''SchoolRole'', sr_id existing) db3))
      | None \<Rightarrow>
          (let db1 = ensureCatalogPermissionsInDb e db;
               ps = permissions_with_codes (cr_permissionCodes dto) db1;
               i = uuid e (length PERMISSION_CATALOG);
               role = \<lparr>sr_id = i, sr_tenantId = tenantId, sr_name = name, sr_description = description,
                 sr_isSystem = False, sr_deletedAt = None\<rparr>
           in if i \<in> set (map sr_id (schoolRoles db)) then Inl (UniqueViolation ''SchoolRole.id'')
              else Inr (record_audit (tenantId, adminId, ''CREATE_ROLE'', ''SchoolRole'', i)
                (grant_to_role i ps (db1\<lparr>schoolRoles := schoolRoles db1 @ [role]\<rparr>)))))"

record UpdateSchoolRoleDto =
  us_name :: "string option"
  us_description :: "string option"
  us_permissionCodes :: "string list option"

definition find_role :: "id \<Rightarrow> id \<Rightarrow> access_db \<Rightarrow> SchoolRole option" where
  "find_role tenantId roleId db = find (\<lambda>r. sr_id r = roleId \<and> sr_tenantId r = tenantId) (schoolRoles db)"

definition updateRole ::
  "id \<Rightarrow> id \<Rightarrow> id \<Rightarrow> UpdateSchoolRoleDto \<Rightarrow> env \<Rightarrow> access_db \<Rightarrow> http_error + access_db" where
  "updateRole tenantId adminId roleId dto e db =
     (case find_role tenantId roleId db of
        None \<Rightarrow> Inl (NotFound ''role'')
      | Some role \<Rightarrow>
          (let name = trim (str_or (us_name dto) '''')
           in if truthy (us_name dto) \<and> name \<noteq> sr_name role
                \<and> find (\<lambda>r. sr_tenantId r = tenantId \<and> sr_name r = name \<and> sr_id r \<noteq> roleId) (schoolRoles db) \<noteq> None
              then Inl (Conflict ''role name'')
              else
                (let db1 = update_role_row roleId (\<lambda>r. r\<lparr>sr_name := (if truthy (us_name dto) then name else sr_name r),
                       sr_description := keep_undefined (map_option trim (us_description dto)) (sr_description r)\<rparr>) db;
                     db2 = (case us_permissionCodes dto of
                        None \<Rightarrow> db1
                      | Some codes \<Rightarrow> grant_to_role roleId (permissions_with_codes codes db1) (clear_role roleId db1));
                     db3 = fold (invalidateUserPermissionsCache tenantId) (users_of_role roleId db) db2
                 in Inr (record_audit (tenantId, adminId, ''UPDATE_ROLE'', ''SchoolRole'', roleId) db3))))"

definition deleteRole :: "id \<Rightarrow> id \<Rightarrow> id \<Rightarrow> env \<Rightarrow> access_db \<Rightarrow> http_error + access_db" where
  "deleteRole tenantId adminId roleId e db =
     (case find_role tenantId roleId db of
        None \<Rightarrow> Inl (NotFound ''role'')
      | Some role \<Rightarrow>
          if sr_isSystem role then Inl (Forbidden ''system role'')
          else if length (users_of_role roleId db) > 0 then Inl (Conflict ''role in use'')
          else Inr (record_audit (tenantId, adminId, ''DELETE_ROLE'', ''SchoolRole'', roleId)
            (update_role_row roleId (\<lambda>r. r\<lparr>sr_deletedAt := Some (now e)\<rparr>) db)))"

definition restoreRole :: "id \<Rightarrow> id \<Rightarrow> id \<Rightarrow> env \<Rightarrow> access_db \<Rightarrow> http_error + access_db" where
  "restoreRole tenantId adminId roleId e db =
     (case find (\<lambda>r. sr_id r = roleId \<and> sr_tenantId r = tenantId \<and> sr_deletedAt r \<noteq> None) (schoolRoles db) of
        None \<Rightarrow> Inl (NotFound ''deleted role'')
      | Some role \<Rightarrow> Inr (record_audit (tenantId, adminId, ''RESTORE_ROLE'', ''SchoolRole'', roleId)
          (update_role_row roleId (\<lambda>r. r\<lparr>sr_deletedAt := None\<rparr>) db)))"

section \<open>The members and their access\<close>

definition role_rank :: "UserRole \<Rightarrow> nat" where
  "role_rank r = (case r of SUPER_ADMIN \<Rightarrow> 0 | SCHOOL_ADMIN \<Rightarrow> 1 | TEACHER \<Rightarrow> 2 | STUDENT \<Rightarrow> 3 | PARENT \<Rightarrow> 4
     | STAFF \<Rightarrow> 5 | COACH \<Rightarrow> 6)"

definition member_matches :: "string option \<Rightarrow> User \<Rightarrow> bool" where
  "member_matches search u = (case search of None \<Rightarrow> True
     | Some s0 \<Rightarrow> (let s = trim s0 in s = [] \<or> contains_ci s (au_firstName u) \<or> contains_ci s (au_lastName u)
         \<or> opt_holds (str_contains s) (au_phone u) \<or> opt_holds (str_contains s) (au_nationalId u)
         \<or> opt_holds (contains_ci s) (au_username u)))"

text \<open>The user, the assigned roles with the number of their permissions, and the overrides.\<close>

definition listTenantMembersWithAccess ::
  "id \<Rightarrow> string option \<Rightarrow> bool \<Rightarrow> access_db \<Rightarrow> (User \<times> (id \<times> nat) list \<times> UserPermissionOverride list) list" where
  "listTenantMembersWithAccess tenantId search staffOnly db =
     (let us = filter (\<lambda>u. au_tenantId u = tenantId \<and> au_status u = USER_ACTIVE
          \<and> (staffOnly \<longrightarrow> au_role u \<in> {TEACHER, STAFF, SCHOOL_ADMIN, COACH, SUPER_ADMIN})
          \<and> member_matches search u) (accessUsers db)
      in map (\<lambda>u. (u, map (\<lambda>r. (r, length (role_codes r db))) (roles_of_user (au_id u) db), overrides_of_user (au_id u) db))
           (sort_by (\<lambda>u v. role_rank (au_role u) \<le> role_rank (au_role v))
             (sort_by (\<lambda>u v. str_le (au_lastName u) (au_lastName v)) us)))"

datatype permission_source = NO_SOURCE | OVERRIDE_GRANT | OVERRIDE_REVOKE | SCHOOL_ROLE | BASE_ROLE

record permission_detail =
  pd_item :: PermissionCatalogItem
  pd_isEffective :: bool
  pd_source :: permission_source
  pd_grantingRoles :: "string list"
  pd_overrideEffect :: "PermissionOverrideEffect option"

text \<open>The names of the roles that grant a code, in the order of the assignments; a map keeps the last override of a code.\<close>

definition role_name :: "id \<Rightarrow> access_db \<Rightarrow> string" where
  "role_name roleId db = (case find (\<lambda>r. sr_id r = roleId) (schoolRoles db) of None \<Rightarrow> '''' | Some r \<Rightarrow> sr_name r)"

definition granting_roles :: "id \<Rightarrow> string \<Rightarrow> access_db \<Rightarrow> string list" where
  "granting_roles userId code db =
     concat (map (\<lambda>r. map (\<lambda>_. role_name r db) (filter (\<lambda>c. c = code) (role_codes r db))) (roles_of_user userId db))"

definition override_of :: "id \<Rightarrow> string \<Rightarrow> access_db \<Rightarrow> PermissionOverrideEffect option" where
  "override_of userId code db =
     map_option ov_effect (find (\<lambda>ov. ov_permissionCode ov = code) (rev (overrides_of_user userId db)))"

text \<open>The codes of the overrides map, in the order of their first insertion.\<close>

definition override_codes :: "id \<Rightarrow> access_db \<Rightarrow> string list" where
  "override_codes userId db = fold (\<lambda>ov. set_add (ov_permissionCode ov)) (overrides_of_user userId db) []"

definition detail_effective_set :: "User \<Rightarrow> access_db \<Rightarrow> string list" where
  "detail_effective_set u db =
     fold (\<lambda>c ps. case override_of (au_id u) c db of Some GRANT \<Rightarrow> set_add c ps | Some REVOKE \<Rightarrow> set_delete c ps | None \<Rightarrow> ps)
       (override_codes (au_id u) db)
       (fold set_add (concat (map (\<lambda>r. role_codes r db) (roles_of_user (au_id u) db)))
         (fold set_add (getBaseRolePermissions (au_role u)) []))"

definition detail_of :: "User \<Rightarrow> access_db \<Rightarrow> PermissionCatalogItem \<Rightarrow> permission_detail" where
  "detail_of u db item =
     (let code = pc_code item; roles = granting_roles (au_id u) code db; ov = override_of (au_id u) code db
      in \<lparr>pd_item = item, pd_isEffective = (code \<in> set (detail_effective_set u db)),
          pd_source = (case ov of Some GRANT \<Rightarrow> OVERRIDE_GRANT | Some REVOKE \<Rightarrow> OVERRIDE_REVOKE
            | None \<Rightarrow> if roles \<noteq> [] then SCHOOL_ROLE
                else if code \<in> set (getBaseRolePermissions (au_role u)) then BASE_ROLE else NO_SOURCE),
          pd_grantingRoles = roles, pd_overrideEffect = ov\<rparr>)"

definition getUserEffectivePermissionsDetail ::
  "id \<Rightarrow> id \<Rightarrow> access_db \<Rightarrow> http_error + User \<times> id list \<times> nat \<times> permission_detail list" where
  "getUserEffectivePermissionsDetail tenantId userId db =
     (case access_user tenantId userId db of
        None \<Rightarrow> Inl (NotFound ''user'')
      | Some u \<Rightarrow> Inr (u, roles_of_user userId db, length (detail_effective_set u db),
          map (detail_of u db) PERMISSION_CATALOG))"

section \<open>Assigning roles and overrides\<close>

definition senior :: "User option \<Rightarrow> bool" where
  "senior u \<longleftrightarrow> (case u of None \<Rightarrow> False | Some a \<Rightarrow> is_admin_role (au_role a))"

definition assign_roles :: "id \<Rightarrow> id \<Rightarrow> id list \<Rightarrow> access_db \<Rightarrow> access_db" where
  "assign_roles tenantId userId roleIds db = db\<lparr>userSchoolRoles :=
     filter (\<lambda>ur. \<not> (ur_tenantId ur = tenantId \<and> ur_userId ur = userId)) (userSchoolRoles db)
     @ map (\<lambda>r. \<lparr>ur_tenantId = tenantId, ur_userId = userId, ur_schoolRoleId = r\<rparr>) roleIds\<rparr>"

definition syncUserRoles ::
  "id \<Rightarrow> id \<Rightarrow> id \<Rightarrow> id list \<Rightarrow> env \<Rightarrow> access_db \<Rightarrow> http_error + access_db" where
  "syncUserRoles tenantId adminId targetUserId schoolRoleIds e db =
     (let adminUser = access_user tenantId adminId db
      in case access_user tenantId targetUserId db of
        None \<Rightarrow> Inl (NotFound ''user'')
      | Some _ \<Rightarrow>
          (let targetRoles = filter (\<lambda>r. sr_id r \<in> set schoolRoleIds \<and> sr_tenantId r = tenantId) (schoolRoles db);
               grantsRbacManage = list_ex (\<lambda>r. ''rbac.manage'' \<in> set (role_codes (sr_id r) db)) targetRoles
           in if length targetRoles \<noteq> length schoolRoleIds then Inl (NotFound ''role'')
              else if grantsRbacManage \<and> \<not> senior adminUser then Inl (Forbidden ''rbac.manage'')
              else
                (let (locked, db1) =
                   (if adminId = targetUserId \<and> \<not> senior adminUser then
                      (let (has, d) = hasPermission tenantId adminId ''rbac.manage'' e db in (has \<and> \<not> grantsRbacManage, d))
                    else (False, db))
                 in if locked then Inl (Forbidden ''self lockout'')
                    else Inr (record_audit (tenantId, adminId, ''SYNC_USER_ROLES'', ''User'', targetUserId)
                      (invalidateUserPermissionsCache tenantId targetUserId
                        (assign_roles tenantId targetUserId schoolRoleIds db1))))))"

record SetUserOverrideDto =
  so_permissionCode :: string
  so_effect :: PermissionOverrideEffect
  so_reason :: "string option"

definition is_override :: "id \<Rightarrow> id \<Rightarrow> string \<Rightarrow> UserPermissionOverride \<Rightarrow> bool" where
  "is_override tenantId userId code ov \<longleftrightarrow> ov_tenantId ov = tenantId \<and> ov_userId ov = userId \<and> ov_permissionCode ov = code"

definition upsert_override ::
  "id \<Rightarrow> id \<Rightarrow> id \<Rightarrow> SetUserOverrideDto \<Rightarrow> env \<Rightarrow> access_db \<Rightarrow> access_db \<times> id" where
  "upsert_override tenantId adminId userId dto e db =
     (let reason = map_option trim (so_reason dto)
      in case find (is_override tenantId userId (so_permissionCode dto)) (permissionOverrides db) of
        Some ov \<Rightarrow> (db\<lparr>permissionOverrides := update_where (is_override tenantId userId (so_permissionCode dto))
            (\<lambda>ov. ov\<lparr>ov_effect := so_effect dto, ov_reason := keep_undefined reason (ov_reason ov), ov_grantedById := adminId\<rparr>)
            (permissionOverrides db)\<rparr>, ov_id ov)
      | None \<Rightarrow> (db\<lparr>permissionOverrides := permissionOverrides db @
            [\<lparr>ov_id = uuid e 0, ov_tenantId = tenantId, ov_userId = userId, ov_permissionCode = so_permissionCode dto,
              ov_effect = so_effect dto, ov_grantedById = adminId, ov_reason = reason, ov_deletedAt = None\<rparr>]\<rparr>, uuid e 0))"

definition setUserOverride ::
  "id \<Rightarrow> id \<Rightarrow> id \<Rightarrow> SetUserOverrideDto \<Rightarrow> env \<Rightarrow> access_db \<Rightarrow> http_error + access_db" where
  "setUserOverride tenantId adminId targetUserId dto e db =
     (case access_user tenantId targetUserId db of
        None \<Rightarrow> Inl (NotFound ''user'')
      | Some _ \<Rightarrow>
          if adminId = targetUserId \<and> so_permissionCode dto = ''rbac.manage'' \<and> so_effect dto = REVOKE
            then Inl (Forbidden ''self lockout'')
          else if so_permissionCode dto = ''rbac.manage'' \<and> so_effect dto = GRANT
              \<and> \<not> senior (access_user tenantId adminId db)
            then Inl (Forbidden ''rbac.manage'')
          else (let (db1, i) = upsert_override tenantId adminId targetUserId dto e db
                in Inr (record_audit (tenantId, adminId, ''SET_PERMISSION_OVERRIDE'', ''UserPermissionOverride'', i)
                     (invalidateUserPermissionsCache tenantId targetUserId db1))))"

definition stamp_override :: "id \<Rightarrow> time option \<Rightarrow> access_db \<Rightarrow> access_db" where
  "stamp_override i t db = db\<lparr>permissionOverrides := update_row ov_id i (\<lambda>ov. ov\<lparr>ov_deletedAt := t\<rparr>) (permissionOverrides db)\<rparr>"

definition removeUserOverride :: "id \<Rightarrow> id \<Rightarrow> id \<Rightarrow> string \<Rightarrow> env \<Rightarrow> access_db \<Rightarrow> http_error + access_db" where
  "removeUserOverride tenantId adminId targetUserId code e db =
     (case find (is_override tenantId targetUserId code) (permissionOverrides db) of
        None \<Rightarrow> Inr db
      | Some existing \<Rightarrow>
          Inr (record_audit (tenantId, adminId, ''REMOVE_PERMISSION_OVERRIDE'', ''UserPermissionOverride'', ov_id existing)
            (invalidateUserPermissionsCache tenantId targetUserId (stamp_override (ov_id existing) (Some (now e)) db))))"

definition restoreUserOverride :: "id \<Rightarrow> id \<Rightarrow> id \<Rightarrow> string \<Rightarrow> env \<Rightarrow> access_db \<Rightarrow> http_error + access_db" where
  "restoreUserOverride tenantId adminId targetUserId code e db =
     (case find (\<lambda>ov. is_override tenantId targetUserId code ov \<and> ov_deletedAt ov \<noteq> None) (permissionOverrides db) of
        None \<Rightarrow> Inl (NotFound ''deleted override'')
      | Some existing \<Rightarrow>
          Inr (record_audit (tenantId, adminId, ''RESTORE_PERMISSION_OVERRIDE'', ''UserPermissionOverride'', ov_id existing)
            (invalidateUserPermissionsCache tenantId targetUserId (stamp_override (ov_id existing) None db))))"

section \<open>The guards\<close>

text \<open>The user of a request as its token describes it.\<close>

record request_user =
  rq_id :: id
  rq_role :: UserRole
  rq_isPlatformAdmin :: bool
  rq_tenantId :: "id option"

definition rolesGuard :: "UserRole list \<Rightarrow> request_user option \<Rightarrow> http_error + unit" where
  "rolesGuard required user =
     (if required = [] then Inr ()
      else case user of None \<Rightarrow> Inl (Forbidden ''not authenticated'')
        | Some u \<Rightarrow> if rq_isPlatformAdmin u \<or> rq_role u = SUPER_ADMIN then Inr ()
            else if rq_role u \<in> set required then Inr () else Inl (Forbidden ''role''))"

definition permissionsGuard ::
  "string list \<Rightarrow> request_user option \<Rightarrow> id option \<Rightarrow> env \<Rightarrow> access_db \<Rightarrow> http_error + access_db" where
  "permissionsGuard required user requestTenant e db =
     (if required = [] then Inr db
      else case user of None \<Rightarrow> Inl (Forbidden ''not authenticated'')
        | Some u \<Rightarrow>
            if rq_isPlatformAdmin u \<or> rq_role u = SUPER_ADMIN \<or> rq_role u = SCHOOL_ADMIN \<or> rq_role u = STAFF then Inr db
            else (case js_or requestTenant (rq_tenantId u) of
                None \<Rightarrow> Inl (Forbidden ''no tenant'')
              | Some [] \<Rightarrow> Inl (Forbidden ''no tenant'')
              | Some tenantId \<Rightarrow>
                  (let (ps, db') = getUserPermissions tenantId (rq_id u) e db
                   in if list_all (\<lambda>p. p \<in> set ps) required then Inr db' else Inl (Forbidden ''permissions''))))"

text \<open>The step-up guard; \<open>verify2FAToken\<close> is the two-factor service, \<open>code\<close> the header with an immediate code.\<close>

record two_factor_state =
  tf_enabled :: bool
  tf_lastStepUpAt :: "time option"

datatype step_up_denial = NotLoggedIn | WrongCode | SetupRequired | StepUpRequired

definition STEP_UP_WINDOW_MS :: time where
  "STEP_UP_WINDOW_MS = 10 * 60 * 1000"

definition stepUpGuard ::
  "(string \<Rightarrow> bool) \<Rightarrow> bool \<Rightarrow> string option \<Rightarrow> time \<Rightarrow> two_factor_state option \<Rightarrow> step_up_denial + two_factor_state option" where
  "stepUpGuard verify2FAToken loggedIn code t st =
     (if \<not> loggedIn then Inl NotLoggedIn
      else if truthy code then
        (if verify2FAToken (str_or code '''') then Inr (map_option (\<lambda>s. s\<lparr>tf_lastStepUpAt := Some t\<rparr>) st) else Inl WrongCode)
      else (case st of
          None \<Rightarrow> Inl SetupRequired
        | Some s \<Rightarrow> if \<not> tf_enabled s then Inl SetupRequired
            else if t - (case tf_lastStepUpAt s of Some l \<Rightarrow> l | None \<Rightarrow> 0) < STEP_UP_WINDOW_MS then Inr st
            else Inl StepUpRequired))"

end
