(* ===== verification/Rbac_Laws.thy ===== *)
theory Rbac_Laws
  imports Rbac
begin

text \<open>
  The effective permissions as a set, the invariant of the tables of access control, and the cache:
  \<open>cached_reads\<close> states what a service with a cache has to do at every request, and \<open>access_serve\<close>, the
  requests of the role administration, provides it.
\<close>

section \<open>Permission sets\<close>

lemma set_set_add [simp]: "set (set_add x xs) = insert x (set xs)"
  by (auto simp: set_add_def)

lemma set_set_delete [simp]: "set (set_delete x xs) = set xs - {x}"
  by (auto simp: set_delete_def)

lemma set_fold_add [simp]: "set (fold set_add ys xs) = set ys \<union> set xs"
  by (induction ys arbitrary: xs) auto

lemma distinct_set_add [simp]: "distinct xs \<Longrightarrow> distinct (set_add x xs)"
  by (simp add: set_add_def)

lemma distinct_set_delete [simp]: "distinct xs \<Longrightarrow> distinct (set_delete x xs)"
  by (simp add: set_delete_def)

lemma distinct_fold_add: "distinct xs \<Longrightarrow> distinct (fold set_add ys xs)"
  by (induction ys arbitrary: xs) auto

definition codes_with :: "PermissionOverrideEffect \<Rightarrow> UserPermissionOverride list \<Rightarrow> string set" where
  "codes_with f ovs = {ov_permissionCode ov | ov. ov \<in> set ovs \<and> ov_effect ov = f}"

lemma codes_with_simps [simp]:
  "codes_with f [] = {}"
  "codes_with f (ov # ovs) = (if ov_effect ov = f then insert (ov_permissionCode ov) (codes_with f ovs) else codes_with f ovs)"
  by (auto simp: codes_with_def)

text \<open>With at most one override for each code the order of the overrides does not matter.\<close>

lemma set_fold_override:
  "distinct (map ov_permissionCode ovs)
     \<Longrightarrow> set (fold apply_override ovs ps) = (set ps \<union> codes_with GRANT ovs) - codes_with REVOKE ovs"
proof (induction ovs arbitrary: ps)
  case (Cons ov ovs)
  then have "ov_permissionCode ov \<notin> codes_with f ovs" for f by (auto simp: codes_with_def)
  with Cons show ?case by (cases "ov_effect ov") (auto simp: apply_override_def)
qed simp

section \<open>The invariant\<close>

definition access_inv :: "access_db \<Rightarrow> bool" where
  "access_inv db \<longleftrightarrow> distinct (map au_id (accessUsers db)) \<and> distinct (map sr_id (schoolRoles db))
     \<and> distinct (map (\<lambda>ov. (ov_userId ov, ov_permissionCode ov)) (permissionOverrides db))
     \<and> (\<forall>ov \<in> set (permissionOverrides db). \<forall>u \<in> set (accessUsers db). au_id u = ov_userId ov \<longrightarrow> au_tenantId u = ov_tenantId ov)
     \<and> (\<forall>rp \<in> set (rolePermissions db). rp_permissionId rp \<in> set (map pm_id (permissionRows db))
          \<and> rp_schoolRoleId rp \<in> set (map sr_id (schoolRoles db)))
     \<and> (\<forall>ur \<in> set (userSchoolRoles db). ur_schoolRoleId ur \<in> set (map sr_id (schoolRoles db)))
     \<and> (\<forall>ur \<in> set (userSchoolRoles db). \<forall>r \<in> set (schoolRoles db). \<forall>u \<in> set (accessUsers db).
          sr_id r = ur_schoolRoleId ur \<longrightarrow> au_id u = ur_userId ur \<longrightarrow> sr_tenantId r = au_tenantId u)
     \<and> redisReady db"

lemma override_codes_distinct:
  assumes "access_inv db"
  shows "distinct (map ov_permissionCode (overrides_of_user userId db))"
proof -
  have k: "distinct (map (\<lambda>ov. (ov_userId ov, ov_permissionCode ov)) ovs)
     \<Longrightarrow> distinct (map ov_permissionCode (filter (\<lambda>ov. ov_userId ov = userId) ovs))" for ovs
    by (induction ovs) (auto, metis (mono_tags, lifting) image_eqI)
  from assms show ?thesis unfolding access_inv_def overrides_of_user_def by (blast intro: k)
qed

lemma access_userD:
  assumes "access_user tenantId userId db = Some u"
  shows "u \<in> set (accessUsers db)" and "au_id u = userId" and "au_tenantId u = tenantId"
  using find_Some_iff_mem [OF assms [unfolded access_user_def]] by simp_all

text \<open>The formula of the comment: base role, school roles and grants, without the revocations.\<close>

lemma compute_set:
  assumes "access_inv db" and "\<not> is_admin_role (au_role u)"
  shows "set (compute_permissions u db) =
    (set (getBaseRolePermissions (au_role u)) \<union> (\<Union>r \<in> set (roles_of_user (au_id u) db). set (role_codes r db))
       \<union> codes_with GRANT (overrides_of_user (au_id u) db)) - codes_with REVOKE (overrides_of_user (au_id u) db)"
  using assms set_fold_override [OF override_codes_distinct [OF assms(1)]]
  by (auto simp: compute_permissions_def)

section \<open>The cache\<close>

locale cached_reads =
  fixes inv :: "'db \<Rightarrow> bool" and serve :: "'req \<Rightarrow> 'db \<Rightarrow> 'e + 'db" and covered :: "'req \<Rightarrow> bool"
    and entry :: "'db \<Rightarrow> 'k \<Rightarrow> 'v option" and value_of :: "'db \<Rightarrow> 'k \<Rightarrow> 'v option"
  assumes inv_kept: "inv db \<Longrightarrow> serve r db = Inr db' \<Longrightarrow> inv db'"
    and dropped_or_same: "inv db \<Longrightarrow> covered r \<Longrightarrow> serve r db = Inr db' \<Longrightarrow>
      entry db' k = None \<or> entry db' k = value_of db' k \<or> entry db' k = entry db k \<and> value_of db' k = value_of db k"
begin

definition coherent :: "'db \<Rightarrow> bool" where
  "coherent db \<longleftrightarrow> (\<forall>k. entry db k \<noteq> None \<longrightarrow> entry db k = value_of db k)"

lemma step_coherent: "inv db \<Longrightarrow> covered r \<Longrightarrow> serve r db = Inr db' \<Longrightarrow> coherent db \<Longrightarrow> coherent db'"
  unfolding coherent_def using dropped_or_same by metis

lemma run_coherent:
  assumes "inv db" and "coherent db" and "list_all covered rs" and "foldE serve rs db = Inr db'"
  shows "coherent db'"
proof -
  have "inv db' \<and> coherent db'"
    by (rule foldE_invariant [where I = "\<lambda>d. inv d \<and> coherent d", OF _ _ assms(4)])
      (use assms in \<open>auto simp: list_all_iff intro: inv_kept step_coherent\<close>)
  then show ?thesis by simp
qed

lemma coherentD: "coherent db \<Longrightarrow> entry db k = Some v \<Longrightarrow> value_of db k = Some v"
  unfolding coherent_def by force

end

section \<open>The requests of the role administration\<close>

datatype access_request =
    ListPermissions env
  | CreateRole id id CreateSchoolRoleDto env
  | UpdateRole id id id UpdateSchoolRoleDto env
  | DeleteRole id id id env
  | RestoreRole id id id env
  | SyncUserRoles id id id "id list" env
  | SetUserOverride id id id SetUserOverrideDto env
  | RemoveUserOverride id id id string env
  | RestoreUserOverride id id id string env
  | GetUserPermissions id id env

fun access_serve :: "access_request \<Rightarrow> access_db \<Rightarrow> http_error + access_db" where
  "access_serve (ListPermissions e) db = Inr (snd (listPermissions e db))"
| "access_serve (CreateRole t a dto e) db = createRole t a dto e db"
| "access_serve (UpdateRole t a r dto e) db = updateRole t a r dto e db"
| "access_serve (DeleteRole t a r e) db = deleteRole t a r e db"
| "access_serve (RestoreRole t a r e) db = restoreRole t a r e db"
| "access_serve (SyncUserRoles t a k rs e) db = syncUserRoles t a k rs e db"
| "access_serve (SetUserOverride t a k dto e) db = setUserOverride t a k dto e db"
| "access_serve (RemoveUserOverride t a k c e) db = removeUserOverride t a k c e db"
| "access_serve (RestoreUserOverride t a k c e) db = restoreUserOverride t a k c e db"
| "access_serve (GetUserPermissions t k e) db = Inr (snd (getUserPermissions t k e db))"

fun invalidates :: "access_request \<Rightarrow> bool" where
  "invalidates (CreateRole _ _ _ _) = False"
| "invalidates _ = True"

text \<open>What the cache holds for a user of a tenant, and what it should hold.\<close>

definition access_entry :: "access_db \<Rightarrow> id \<times> id \<Rightarrow> string list option" where
  "access_entry db k = map_option fst (permissionCache db (fst k) (snd k))"

definition access_value :: "access_db \<Rightarrow> id \<times> id \<Rightarrow> string list option" where
  "access_value db k = map_option (\<lambda>u. compute_permissions u db) (access_user (fst k) (snd k) db)"

lemma compute_cong:
  assumes "overrides_of_user (au_id u) db' = overrides_of_user (au_id u) db"
    and "roles_of_user (au_id u) db' = roles_of_user (au_id u) db"
    and "\<And>r. r \<in> set (roles_of_user (au_id u) db) \<Longrightarrow> role_codes r db' = role_codes r db"
  shows "compute_permissions u db' = compute_permissions u db"
proof -
  have "map (\<lambda>r. role_codes r db') (roles_of_user (au_id u) db) = map (\<lambda>r. role_codes r db) (roles_of_user (au_id u) db)"
    using assms(3) by simp
  then show ?thesis unfolding compute_permissions_def assms(1,2) by (simp only:)
qed

lemma access_value_cong:
  assumes "accessUsers db' = accessUsers db"
    and "\<And>u. access_user t k db = Some u \<Longrightarrow> overrides_of_user k db' = overrides_of_user k db
      \<and> roles_of_user k db' = roles_of_user k db \<and> (\<forall>r \<in> set (roles_of_user k db). role_codes r db' = role_codes r db)"
  shows "access_value db' (t, k) = access_value db (t, k)"
proof -
  have same: "access_user t k db' = access_user t k db" by (simp add: access_user_def assms(1))
  show ?thesis
  proof (cases "access_user t k db")
    case (Some u)
    with assms(2) [OF Some] access_userD(2) [OF Some] have "compute_permissions u db' = compute_permissions u db"
      by (intro compute_cong) auto
    with Some same show ?thesis by (simp add: access_value_def)
  qed (simp add: access_value_def same)
qed

section \<open>Frames\<close>

text \<open>The cache and the audit log do not enter the permissions.\<close>

lemma cache_frame [simp]:
  "accessUsers (permissionCache_update f db) = accessUsers db" "accessUsers (auditTrail_update g db) = accessUsers db"
  "overrides_of_user k (permissionCache_update f db) = overrides_of_user k db"
  "overrides_of_user k (auditTrail_update g db) = overrides_of_user k db"
  "roles_of_user k (permissionCache_update f db) = roles_of_user k db"
  "roles_of_user k (auditTrail_update g db) = roles_of_user k db"
  "role_codes r (permissionCache_update f db) = role_codes r db" "role_codes r (auditTrail_update g db) = role_codes r db"
  "access_user t k (permissionCache_update f db) = access_user t k db"
  "access_user t k (auditTrail_update g db) = access_user t k db"
  "access_inv (permissionCache_update f db) = access_inv db" "access_inv (auditTrail_update g db) = access_inv db"
  by (simp_all add: overrides_of_user_def roles_of_user_def role_codes_def access_user_def access_inv_def)

lemma cache_frame_values [simp]:
  "compute_permissions u (permissionCache_update f db) = compute_permissions u db"
  "compute_permissions u (auditTrail_update g db) = compute_permissions u db"
  by (simp_all add: compute_permissions_def)

lemma cache_frame_access_value [simp]:
  "access_value (permissionCache_update f db) p = access_value db p"
  "access_value (auditTrail_update g db) p = access_value db p"
  by (simp_all add: access_value_def)

lemma record_audit_frame [simp]:
  "access_value (record_audit a db) p = access_value db p" "access_inv (record_audit a db) = access_inv db"
  "access_entry (record_audit a db) p = access_entry db p"
  by (simp_all add: record_audit_def access_entry_def)

lemma invalidate_frame [simp]:
  "access_value (invalidateUserPermissionsCache t k db) p = access_value db p"
  "access_inv (invalidateUserPermissionsCache t k db) = access_inv db"
  "redisReady (invalidateUserPermissionsCache t k db) = redisReady db"
  by (simp_all add: invalidateUserPermissionsCache_def)

lemma invalidate_entry:
  "redisReady db \<Longrightarrow> access_entry (invalidateUserPermissionsCache t k db) p = (if p = (t, k) then None else access_entry db p)"
  by (cases p) (auto simp: invalidateUserPermissionsCache_def access_entry_def)

lemma fold_invalidate:
  "access_value (fold (invalidateUserPermissionsCache t) ks db) p = access_value db p"
  "access_inv (fold (invalidateUserPermissionsCache t) ks db) = access_inv db"
  "redisReady db \<Longrightarrow> access_entry (fold (invalidateUserPermissionsCache t) ks db) p =
     (if fst p = t \<and> snd p \<in> set ks then None else access_entry db p)"
  by (induction ks arbitrary: db) (auto simp: invalidate_entry prod_eq_iff)

lemma get_permissions_cases:
  "snd (getUserPermissions t k e db) = db
   \<or> (\<exists>u. access_user t k db = Some u \<and> snd (getUserPermissions t k e db) = cache_set t k (compute_permissions u db) (now e) db)"
  by (simp add: getUserPermissions_def Let_def split: option.splits)

lemma cache_set_frame [simp]:
  "access_value (cache_set t k v n db) p = access_value db p" "access_inv (cache_set t k v n db) = access_inv db"
  by (simp_all add: cache_set_def)

lemma get_permissions_frame [simp]:
  "access_value (snd (getUserPermissions t k e db)) p = access_value db p"
  "access_inv (snd (getUserPermissions t k e db)) = access_inv db"
  using get_permissions_cases [of t k e db] by auto

lemma get_permissions_entry:
  "access_entry (snd (getUserPermissions t k e db)) p = access_entry db p
   \<or> access_entry (snd (getUserPermissions t k e db)) p = access_value db p"
  using get_permissions_cases [of t k e db]
  by (cases p) (auto simp: cache_set_def access_entry_def access_value_def)

section \<open>What each write changes\<close>

definition cache_follows :: "access_db \<Rightarrow> access_db \<Rightarrow> id \<times> id \<Rightarrow> bool" where
  "cache_follows db db' p \<longleftrightarrow> access_entry db' p = None \<or> access_entry db' p = access_value db' p
     \<or> access_entry db' p = access_entry db p \<and> access_value db' p = access_value db p"

lemma invalidated_step:
  assumes "redisReady db2"
    and "\<And>p. \<not> (fst p = t \<and> snd p \<in> set ks) \<Longrightarrow> access_value db2 p = access_value db p"
    and "\<And>p. access_entry db2 p = access_entry db p \<or> access_entry db2 p = access_value db p"
  shows "cache_follows db (record_audit a (fold (invalidateUserPermissionsCache t) ks db2)) p"
  using assms(2,3) [of p] fold_invalidate(3) [OF assms(1), of t ks p]
  by (auto simp: cache_follows_def fold_invalidate)

lemma invalidated_one:
  assumes "redisReady db2"
    and "\<And>p. p \<noteq> (t, k) \<Longrightarrow> access_value db2 p = access_value db p"
    and "\<And>p. access_entry db2 p = access_entry db p \<or> access_entry db2 p = access_value db p"
  shows "cache_follows db (record_audit a (invalidateUserPermissionsCache t k db2)) p"
proof -
  have "cache_follows db (record_audit a (fold (invalidateUserPermissionsCache t) [k] db2)) p"
    by (rule invalidated_step [OF assms(1) _ assms(3)]) (rule assms(2), auto)
  then show ?thesis by simp
qed

lemma access_user_unique:
  assumes "access_inv db" and "access_user t k db = Some u" and "access_user t' k db = Some u'"
  shows "t' = t"
  using assms access_userD [OF assms(2)] access_userD [OF assms(3)] distinct_key_inj [of au_id "accessUsers db" u u']
  by (auto simp: access_inv_def)

lemma access_inv_keys:
  "access_inv db \<Longrightarrow> distinct (map au_id (accessUsers db))" "access_inv db \<Longrightarrow> distinct (map sr_id (schoolRoles db))"
  "access_inv db \<Longrightarrow> redisReady db"
  by (simp_all add: access_inv_def)

text \<open>Column changes of a role do not touch any permission.\<close>

lemma update_role_row_frame [simp]:
  "accessUsers (update_role_row r f db) = accessUsers db" "access_user t k (update_role_row r f db) = access_user t k db"
  "overrides_of_user k (update_role_row r f db) = overrides_of_user k db"
  "roles_of_user k (update_role_row r f db) = roles_of_user k db"
  "role_codes q (update_role_row r f db) = role_codes q db"
  "access_entry (update_role_row r f db) p = access_entry db p"
  "redisReady (update_role_row r f db) = redisReady db"
  "users_of_role q (update_role_row r f db) = users_of_role q db"
  by (simp_all add: update_role_row_def access_user_def overrides_of_user_def roles_of_user_def role_codes_def access_entry_def
      users_of_role_def)

lemma update_role_row_value [simp]: "access_value (update_role_row r f db) p = access_value db p"
  by (cases p, simp, rule access_value_cong) simp_all

text \<open>Replacing the permissions of a role touches its holders only.\<close>

definition set_role_permissions :: "id \<Rightarrow> Permission list \<Rightarrow> access_db \<Rightarrow> access_db" where
  "set_role_permissions r ps db = grant_to_role r ps (clear_role r db)"

lemma set_role_permissions_frame [simp]:
  "accessUsers (set_role_permissions r ps db) = accessUsers db"
  "access_user t k (set_role_permissions r ps db) = access_user t k db"
  "overrides_of_user k (set_role_permissions r ps db) = overrides_of_user k db"
  "roles_of_user k (set_role_permissions r ps db) = roles_of_user k db"
  "access_entry (set_role_permissions r ps db) p = access_entry db p"
  "redisReady (set_role_permissions r ps db) = redisReady db"
  by (simp_all add: set_role_permissions_def grant_to_role_def clear_role_def access_user_def overrides_of_user_def
      roles_of_user_def access_entry_def)

lemma set_role_permissions_codes: "q \<noteq> r \<Longrightarrow> role_codes q (set_role_permissions r ps db) = role_codes q db"
  by (simp add: set_role_permissions_def grant_to_role_def clear_role_def role_codes_def filter_filter conj_commute
      cong: conj_cong)

lemma find_roleD:
  assumes "find_role t r db = Some role"
  shows "role \<in> set (schoolRoles db)" and "sr_id role = r" and "sr_tenantId role = t"
  using find_Some_iff_mem [OF assms [unfolded find_role_def]] by simp_all

lemma holders_in_tenant:
  assumes "access_inv db" and "find_role t r db = Some role" and "access_user t' k db = Some u" and "r \<in> set (roles_of_user k db)"
  shows "t' = t \<and> k \<in> set (users_of_role r db)"
proof -
  from assms(4) obtain ur where ur: "ur \<in> set (userSchoolRoles db)" "ur_userId ur = k" "ur_schoolRoleId ur = r"
    by (auto simp: roles_of_user_def)
  have "sr_tenantId role = au_tenantId u"
    using assms(1) ur find_roleD [OF assms(2)] access_userD [OF assms(3)] unfolding access_inv_def by metis
  with ur find_roleD [OF assms(2)] access_userD [OF assms(3)] show ?thesis
    by (auto simp: users_of_role_def)
qed

lemma set_role_permissions_value:
  assumes "access_inv db" and "find_role t r db = Some role" and "\<not> (fst p = t \<and> snd p \<in> set (users_of_role r db))"
  shows "access_value (set_role_permissions r ps db) p = access_value db p"
proof (cases p)
  case (Pair t' k)
  have "access_value (set_role_permissions r ps db) (t', k) = access_value db (t', k)"
  proof (rule access_value_cong)
    fix u assume "access_user t' k db = Some u"
    with assms Pair have "r \<notin> set (roles_of_user k db)" using holders_in_tenant by fastforce
    then show "overrides_of_user k (set_role_permissions r ps db) = overrides_of_user k db
      \<and> roles_of_user k (set_role_permissions r ps db) = roles_of_user k db
      \<and> (\<forall>q \<in> set (roles_of_user k db). role_codes q (set_role_permissions r ps db) = role_codes q db)"
      by (auto intro: set_role_permissions_codes)
  qed simp
  with Pair show ?thesis by simp
qed

text \<open>Replacing the roles of a user touches that user only.\<close>

lemma assign_roles_frame [simp]:
  "accessUsers (assign_roles t k rs db) = accessUsers db" "access_user t' j (assign_roles t k rs db) = access_user t' j db"
  "overrides_of_user j (assign_roles t k rs db) = overrides_of_user j db"
  "role_codes q (assign_roles t k rs db) = role_codes q db" "redisReady (assign_roles t k rs db) = redisReady db"
  "access_entry (assign_roles t k rs db) p = access_entry db p"
  by (simp_all add: assign_roles_def access_user_def overrides_of_user_def role_codes_def access_entry_def)

lemma assign_roles_others: "j \<noteq> k \<Longrightarrow> roles_of_user j (assign_roles t k rs db) = roles_of_user j db"
proof -
  assume j: "j \<noteq> k"
  have "filter (\<lambda>ur. ur_userId ur = j) (filter (\<lambda>ur. \<not> (ur_tenantId ur = t \<and> ur_userId ur = k)) xs)
      = filter (\<lambda>ur. ur_userId ur = j) xs" for xs :: "UserSchoolRole list"
    using j by (induction xs) auto
  with j show ?thesis by (simp add: assign_roles_def roles_of_user_def)
qed

text \<open>A change that leaves everything but the roles and overrides of one user of a tenant.\<close>

lemma value_of_others:
  assumes "access_inv db" and "access_user t k db = Some u" and "p \<noteq> (t, k)" and "accessUsers db' = accessUsers db"
    and "\<And>j. j \<noteq> k \<Longrightarrow> overrides_of_user j db' = overrides_of_user j db \<and> roles_of_user j db' = roles_of_user j db"
    and "\<And>q. role_codes q db' = role_codes q db"
  shows "access_value db' p = access_value db p"
proof (cases p)
  case (Pair t' j)
  have "access_value db' (t', j) = access_value db (t', j)"
  proof (rule access_value_cong [OF assms(4)])
    fix v assume v: "access_user t' j db = Some v"
    with assms(1,2,3) Pair have "j \<noteq> k" using access_user_unique by blast
    with assms(5,6) show "overrides_of_user j db' = overrides_of_user j db \<and> roles_of_user j db' = roles_of_user j db
       \<and> (\<forall>r \<in> set (roles_of_user j db). role_codes r db' = role_codes r db)" by simp
  qed
  with Pair show ?thesis by simp
qed

lemma upsert_override_frame:
  "accessUsers (fst (upsert_override t a k dto e db)) = accessUsers db"
  "roles_of_user j (fst (upsert_override t a k dto e db)) = roles_of_user j db"
  "role_codes q (fst (upsert_override t a k dto e db)) = role_codes q db"
  "redisReady (fst (upsert_override t a k dto e db)) = redisReady db"
  "access_entry (fst (upsert_override t a k dto e db)) p = access_entry db p"
  by (simp_all add: upsert_override_def Let_def roles_of_user_def role_codes_def access_entry_def split: option.splits)

lemma upsert_override_others:
  assumes "j \<noteq> k"
  shows "overrides_of_user j (fst (upsert_override t a k dto e db)) = overrides_of_user j db"
proof -
  have "filter (\<lambda>ov. ov_userId ov = j) (update_where (is_override t k c)
       (\<lambda>ov. ov\<lparr>ov_effect := f, ov_reason := g ov, ov_grantedById := h\<rparr>) ovs) = filter (\<lambda>ov. ov_userId ov = j) ovs"
    for c f g h ovs
    using assms by (induction ovs) (auto simp: update_where_def is_override_def)
  with assms show ?thesis
    by (simp add: upsert_override_def Let_def overrides_of_user_def split: option.splits)
qed

text \<open>The deletion mark of an override has no influence on the permissions.\<close>

lemma stamp_override_fold:
  "fold apply_override (filter (\<lambda>ov. ov_userId ov = k) (update_row ov_id i (\<lambda>ov. ov\<lparr>ov_deletedAt := t\<rparr>) ovs)) ps
   = fold apply_override (filter (\<lambda>ov. ov_userId ov = k) ovs) ps"
  by (induction ovs arbitrary: ps) (auto simp: update_row_def apply_override_def split: PermissionOverrideEffect.split)

lemma stamp_override_compute [simp]: "compute_permissions u (stamp_override i t db) = compute_permissions u db"
proof -
  have "roles_of_user (au_id u) (stamp_override i t db) = roles_of_user (au_id u) db"
    and "role_codes r (stamp_override i t db) = role_codes r db" for r
    by (simp_all add: stamp_override_def roles_of_user_def role_codes_def)
  then show ?thesis
    by (simp add: compute_permissions_def overrides_of_user_def) (simp add: stamp_override_def stamp_override_fold)
qed

lemma stamp_override_frame [simp]:
  "access_value (stamp_override i t db) p = access_value db p" "access_entry (stamp_override i t db) p = access_entry db p"
  "redisReady (stamp_override i t db) = redisReady db" "access_user t' k (stamp_override i t db) = access_user t' k db"
proof -
  show 1: "access_user t' k (stamp_override i t db) = access_user t' k db" for t' k
    by (simp add: stamp_override_def access_user_def)
  show "access_value (stamp_override i t db) p = access_value db p" by (simp add: access_value_def 1)
qed (simp_all add: access_entry_def stamp_override_def)

text \<open>New permission rows do not change what the roles grant.\<close>

lemma find_append: "find P (xs @ ys) = (case find P xs of None \<Rightarrow> find P ys | Some x \<Rightarrow> Some x)"
  by (induction xs) auto

lemma ensure_catalog_frame [simp]:
  "accessUsers (ensureCatalogPermissionsInDb e db) = accessUsers db"
  "access_user t k (ensureCatalogPermissionsInDb e db) = access_user t k db"
  "overrides_of_user k (ensureCatalogPermissionsInDb e db) = overrides_of_user k db"
  "roles_of_user k (ensureCatalogPermissionsInDb e db) = roles_of_user k db"
  "access_entry (ensureCatalogPermissionsInDb e db) p = access_entry db p"
  "redisReady (ensureCatalogPermissionsInDb e db) = redisReady db"
  by (simp_all add: ensureCatalogPermissionsInDb_def Let_def access_user_def overrides_of_user_def roles_of_user_def access_entry_def)

lemma ensure_catalog_codes:
  assumes "access_inv db"
  shows "role_codes r (ensureCatalogPermissionsInDb e db) = role_codes r db"
proof -
  define new where "new = map (\<lambda>(k, i). \<lparr>pm_id = uuid e k, pm_code = pc_code i\<rparr>) (zip [0..<length (missing_items db)] (missing_items db))"
  have "find (\<lambda>p. pm_id p = rp_permissionId rp) (permissionRows db @ new) = find (\<lambda>p. pm_id p = rp_permissionId rp) (permissionRows db)"
    if "rp \<in> set (rolePermissions db)" for rp
  proof -
    from assms that have "rp_permissionId rp \<in> set (map pm_id (permissionRows db))" unfolding access_inv_def by blast
    then have "find (\<lambda>p. pm_id p = rp_permissionId rp) (permissionRows db) \<noteq> None" by (auto simp: find_None_iff)
    then show ?thesis by (auto simp: find_append)
  qed
  then show ?thesis unfolding role_codes_def ensureCatalogPermissionsInDb_def Let_def new_def [symmetric]
    by (intro arg_cong [where f = concat] map_cong) simp_all
qed

lemma ensure_catalog_value: "access_inv db \<Longrightarrow> access_value (ensureCatalogPermissionsInDb e db) p = access_value db p"
  by (cases p, simp, rule access_value_cong) (simp_all add: ensure_catalog_codes)

section \<open>The invariant is kept\<close>

lemma ensure_catalog_inv: "access_inv db \<Longrightarrow> access_inv (ensureCatalogPermissionsInDb e db)"
  by (auto simp: access_inv_def ensureCatalogPermissionsInDb_def Let_def)

lemma update_role_row_inv:
  assumes "access_inv db" and "\<And>x. sr_id (f x) = sr_id x" and "\<And>x. sr_tenantId (f x) = sr_tenantId x"
  shows "access_inv (update_role_row r f db)"
proof -
  have ids: "map sr_id (update_row sr_id r f (schoolRoles db)) = map sr_id (schoolRoles db)"
    by (simp add: update_row_def assms(2) if_distrib [of sr_id] cong: if_cong)
  have "\<exists>y \<in> set (schoolRoles db). sr_id x = sr_id y \<and> sr_tenantId x = sr_tenantId y"
    if "x \<in> set (update_row sr_id r f (schoolRoles db))" for x
    using that by (rule update_row_memE) (auto simp: assms(2,3))
  then have "sr_tenantId x = au_tenantId v"
    if "x \<in> set (update_row sr_id r f (schoolRoles db))" "ur \<in> set (userSchoolRoles db)" "v \<in> set (accessUsers db)"
      "sr_id x = ur_schoolRoleId ur" "au_id v = ur_userId ur" for x ur v
    using that assms(1) unfolding access_inv_def by metis
  with assms(1) show ?thesis unfolding access_inv_def update_role_row_def by (simp add: ids del: set_map)
qed

lemma set_role_permissions_inv:
  assumes "access_inv db" and "set ps \<subseteq> set (permissionRows db)" and "r \<in> set (map sr_id (schoolRoles db))"
  shows "access_inv (set_role_permissions r ps db)"
  using assms by (auto simp: access_inv_def set_role_permissions_def grant_to_role_def clear_role_def)

lemma grant_to_role_inv:
  assumes "access_inv db" and "set ps \<subseteq> set (permissionRows db)" and "r \<in> set (map sr_id (schoolRoles db))"
  shows "access_inv (grant_to_role r ps db)"
  using assms by (auto simp: access_inv_def grant_to_role_def)

lemma permissions_with_codes_subset: "set (permissions_with_codes cs db) \<subseteq> set (permissionRows db)"
  by (auto simp: permissions_with_codes_def)

lemma assign_roles_inv:
  assumes "access_inv db" and "access_user t k db = Some u"
    and "\<And>r. r \<in> set rs \<Longrightarrow> \<exists>x \<in> set (schoolRoles db). sr_id x = r \<and> sr_tenantId x = t"
  shows "access_inv (assign_roles t k rs db)"
proof -
  have known: "r \<in> set (map sr_id (schoolRoles db))" if "r \<in> set rs" for r using assms(3) [OF that] by auto
  have tenant: "sr_tenantId x = au_tenantId v"
    if "r \<in> set rs" "x \<in> set (schoolRoles db)" "v \<in> set (accessUsers db)" "sr_id x = r" "au_id v = k" for r x v
  proof -
    from assms(3) [OF that(1)] obtain y where y: "y \<in> set (schoolRoles db)" "sr_id y = r" "sr_tenantId y = t" by blast
    with that access_inv_keys [OF assms(1)] have "y = x" using distinct_key_inj [of sr_id] by metis
    moreover have "v = u" using that access_userD [OF assms(2)] access_inv_keys [OF assms(1)] distinct_key_inj [of au_id] by metis
    ultimately show ?thesis using y access_userD [OF assms(2)] by simp
  qed
  define urs where "urs = userSchoolRoles (assign_roles t k rs db)"
  have urs: "ur \<in> set urs \<Longrightarrow> ur \<in> set (userSchoolRoles db) \<or> ur_userId ur = k \<and> ur_schoolRoleId ur \<in> set rs" for ur
    by (auto simp: urs_def assign_roles_def)
  have "ur_schoolRoleId ur \<in> set (map sr_id (schoolRoles db))" if "ur \<in> set urs" for ur
    using urs [OF that] known assms(1) unfolding access_inv_def by blast
  moreover have "sr_tenantId r = au_tenantId v"
    if "ur \<in> set urs" "r \<in> set (schoolRoles db)" "v \<in> set (accessUsers db)" "sr_id r = ur_schoolRoleId ur" "au_id v = ur_userId ur" for ur r v
    using urs [OF that(1)]
  proof
    assume "ur \<in> set (userSchoolRoles db)"
    with that assms(1) show ?thesis unfolding access_inv_def by blast
  qed (use that in \<open>auto intro: tenant\<close>)
  moreover have "assign_roles t k rs db = db\<lparr>userSchoolRoles := urs\<rparr>" by (simp add: urs_def assign_roles_def)
  ultimately show ?thesis using assms(1) unfolding access_inv_def by (simp del: set_map)
qed

lemma upsert_override_inv:
  assumes "access_inv db" and "access_user t k db = Some u"
  shows "access_inv (fst (upsert_override t a k dto e db))"
proof (cases "find (is_override t k (so_permissionCode dto)) (permissionOverrides db)")
  case (Some ov)
  have keys: "map (\<lambda>ov. (ov_userId ov, ov_permissionCode ov)) (update_where q
      (\<lambda>ov. ov\<lparr>ov_effect := f, ov_reason := g ov, ov_grantedById := h\<rparr>) ovs) = map (\<lambda>ov. (ov_userId ov, ov_permissionCode ov)) ovs"
    for q f g h and ovs :: "UserPermissionOverride list"
    by (simp add: update_where_def)
  from Some assms(1) show ?thesis
    by (simp add: upsert_override_def Let_def access_inv_def keys) (auto simp: update_where_def)
next
  case None
  have "(k, so_permissionCode dto) \<noteq> (ov_userId ov, ov_permissionCode ov)" if "ov \<in> set (permissionOverrides db)" for ov
  proof
    assume eq: "(k, so_permissionCode dto) = (ov_userId ov, ov_permissionCode ov)"
    with assms that access_userD [OF assms(2)] have "ov_tenantId ov = t" unfolding access_inv_def by auto
    with eq that None show False by (auto simp: find_None_iff is_override_def)
  qed
  moreover have "au_tenantId v = t" if "v \<in> set (accessUsers db)" "au_id v = k" for v
    using that access_userD [OF assms(2)] access_inv_keys [OF assms(1)] distinct_key_inj [of au_id] by metis
  ultimately show ?thesis using None assms(1)
    by (simp add: upsert_override_def Let_def access_inv_def) auto
qed

lemma stamp_override_inv: "access_inv db \<Longrightarrow> access_inv (stamp_override i t db)"
proof -
  assume inv: "access_inv db"
  have "map (\<lambda>ov. (ov_userId ov, ov_permissionCode ov)) (update_row ov_id i (\<lambda>ov. ov\<lparr>ov_deletedAt := t\<rparr>) ovs)
      = map (\<lambda>ov. (ov_userId ov, ov_permissionCode ov)) ovs" for ovs :: "UserPermissionOverride list"
    by (simp add: update_row_def)
  with inv show ?thesis
    by (simp add: stamp_override_def access_inv_def) (auto simp: set_update_row)
qed

section \<open>Every request\<close>

definition good_step :: "access_request \<Rightarrow> access_db \<Rightarrow> access_db \<Rightarrow> bool" where
  "good_step r db db' \<longleftrightarrow> access_inv db' \<and> (invalidates r \<longrightarrow> (\<forall>p. cache_follows db db' p))"

lemma updateRole_step:
  assumes "access_inv db" and "updateRole t a r dto e db = Inr db'"
  shows "access_inv db'" and "cache_follows db db' p"
proof -
  define f where "f = (\<lambda>x. x\<lparr>sr_name := (if truthy (us_name dto) then trim (str_or (us_name dto) '''') else sr_name x),
    sr_description := keep_undefined (map_option trim (us_description dto)) (sr_description x)\<rparr> :: SchoolRole)"
  have f: "sr_id (f x) = sr_id x" "sr_tenantId (f x) = sr_tenantId x" for x by (simp_all add: f_def)
  from assms(2) obtain role where role: "find_role t r db = Some role"
    and db': "db' = record_audit (t, a, ''UPDATE_ROLE'', ''SchoolRole'', r) (fold (invalidateUserPermissionsCache t) (users_of_role r db)
       (case us_permissionCodes dto of None \<Rightarrow> update_role_row r f db
        | Some codes \<Rightarrow> set_role_permissions r (permissions_with_codes codes (update_role_row r f db)) (update_role_row r f db)))"
    unfolding updateRole_def Let_def set_role_permissions_def f_def [symmetric]
    by (auto split: option.splits if_splits)
  note inv1 = update_role_row_inv [OF assms(1), of f r, OF f]
  have known: "r \<in> set (map sr_id (schoolRoles (update_role_row r f db)))"
    using find_roleD [OF role] f by (force simp: update_role_row_def update_row_def)
  have role1: "\<exists>x. find_role t r (update_role_row r f db) = Some x"
    using find_roleD [OF role] f by (auto simp: find_role_def find_None_iff update_role_row_def set_update_row simp flip: not_None_eq)
  show "access_inv db'"
    using inv1 known by (auto simp: db' fold_invalidate set_role_permissions_inv permissions_with_codes_subset split: option.split)
  show "cache_follows db db' p"
    unfolding db'
  proof (rule invalidated_step)
    fix p assume p: "\<not> (fst p = t \<and> snd p \<in> set (users_of_role r db))"
    from role1 obtain x where x: "find_role t r (update_role_row r f db) = Some x" ..
    from p have "access_value (set_role_permissions r ps (update_role_row r f db)) p = access_value db p" for ps
      using set_role_permissions_value [OF inv1 x, of p ps] by simp
    then show "access_value (case us_permissionCodes dto of None \<Rightarrow> update_role_row r f db
        | Some codes \<Rightarrow> set_role_permissions r (permissions_with_codes codes (update_role_row r f db)) (update_role_row r f db)) p
      = access_value db p" by (simp split: option.split)
  qed (use access_inv_keys(3) [OF assms(1)] in \<open>simp_all split: option.split\<close>)
qed

lemma role_stamp_step:
  assumes "access_inv db"
  shows "access_inv (record_audit b (update_role_row r (\<lambda>x. x\<lparr>sr_deletedAt := d\<rparr>) db))"
    and "cache_follows db (record_audit b (update_role_row r (\<lambda>x. x\<lparr>sr_deletedAt := d\<rparr>) db)) p"
  using assms by (simp_all add: update_role_row_inv cache_follows_def)

lemma role_stamp_shapes:
  "deleteRole t a r e db = Inr db' \<Longrightarrow> \<exists>b d. db' = record_audit b (update_role_row r (\<lambda>x. x\<lparr>sr_deletedAt := d\<rparr>) db)"
  "restoreRole t a r e db = Inr db' \<Longrightarrow> \<exists>b d. db' = record_audit b (update_role_row r (\<lambda>x. x\<lparr>sr_deletedAt := d\<rparr>) db)"
  by (auto simp: deleteRole_def restoreRole_def simp del: split_paired_Ex split: option.splits if_splits)

lemma new_role_inv:
  assumes "access_inv db" and "sr_id role \<notin> set (map sr_id (schoolRoles db))"
  shows "access_inv (db\<lparr>schoolRoles := schoolRoles db @ [role]\<rparr>)"
proof -
  from assms have "sr_id role \<noteq> ur_schoolRoleId ur" if "ur \<in> set (userSchoolRoles db)" for ur
    using that unfolding access_inv_def by metis
  with assms show ?thesis unfolding access_inv_def by auto
qed

lemma createRole_inv:
  assumes "access_inv db" and "createRole t a dto e db = Inr db'"
  shows "access_inv db'"
proof -
  note base = ensure_catalog_inv [OF assms(1)]
  have roles: "schoolRoles (ensureCatalogPermissionsInDb e db) = schoolRoles db"
    by (simp add: ensureCatalogPermissionsInDb_def Let_def)
  show ?thesis
  proof (cases "find (\<lambda>r. sr_tenantId r = t \<and> sr_name r = trim (cr_name dto)) (schoolRoles db)")
    case None
    let ?i = "uuid e (length PERMISSION_CATALOG)" and ?db1 = "ensureCatalogPermissionsInDb e db"
    define role :: SchoolRole where "role = \<lparr>sr_id = ?i, sr_tenantId = t, sr_name = trim (cr_name dto),
      sr_description = map_option trim (cr_description dto), sr_isSystem = False, sr_deletedAt = None\<rparr>"
    have id: "sr_id role = ?i" by (simp add: role_def)
    from assms(2) None have new: "?i \<notin> set (map sr_id (schoolRoles db))"
      and db': "db' = record_audit (t, a, ''CREATE_ROLE'', ''SchoolRole'', ?i)
        (grant_to_role ?i (permissions_with_codes (cr_permissionCodes dto) ?db1) (?db1\<lparr>schoolRoles := schoolRoles ?db1 @ [role]\<rparr>))"
      by (simp_all add: createRole_def Let_def role_def split: if_splits del: set_map)
    note new = new id
    have "access_inv (?db1\<lparr>schoolRoles := schoolRoles ?db1 @ [role]\<rparr>)"
      using base new by (intro new_role_inv) (simp_all add: roles del: set_map)
    then show ?thesis
      using new by (auto simp: db' intro!: grant_to_role_inv simp: permissions_with_codes_def)
  next
    case (Some x)
    let ?db1 = "ensureCatalogPermissionsInDb e db"
    from Some have x: "x \<in> set (schoolRoles db)" using find_Some_iff_mem by metis
    define f where "f = (\<lambda>r. r\<lparr>sr_deletedAt := None,
      sr_description := keep_undefined (map_option trim (cr_description dto)) (sr_description r)\<rparr> :: SchoolRole)"
    have f: "sr_id (f r) = sr_id r" "sr_tenantId (f r) = sr_tenantId r" for r by (simp_all add: f_def)
    from assms(2) Some have db': "db' = record_audit (t, a, ''RESTORE_AND_UPDATE_ROLE'', ''SchoolRole'', sr_id x)
        (set_role_permissions (sr_id x) (permissions_with_codes (cr_permissionCodes dto) ?db1) (update_role_row (sr_id x) f ?db1))"
      by (simp add: createRole_def Let_def set_role_permissions_def f_def split: if_splits)
    have "access_inv (update_role_row (sr_id x) f ?db1)" by (rule update_role_row_inv [OF base f])
    moreover have "sr_id x \<in> set (map sr_id (schoolRoles (update_role_row (sr_id x) f ?db1)))"
      using x f by (force simp: update_role_row_def update_row_def roles)
    ultimately show ?thesis
      by (auto simp: db' permissions_with_codes_def update_role_row_def intro!: set_role_permissions_inv)
  qed
qed

lemma target_roles_complete:
  assumes "access_inv db" and "length (filter (\<lambda>r. sr_id r \<in> set ids \<and> sr_tenantId r = t) (schoolRoles db)) = length ids"
    and "i \<in> set ids"
  shows "\<exists>x \<in> set (schoolRoles db). sr_id x = i \<and> sr_tenantId x = t"
proof -
  define rs where "rs = filter (\<lambda>r. sr_id r \<in> set ids \<and> sr_tenantId r = t) (schoolRoles db)"
  have "distinct (map sr_id rs)" using access_inv_keys(2) [OF assms(1)] by (simp add: rs_def distinct_map_filter)
  then have "card (set (map sr_id rs)) = length (map sr_id rs)" by (rule distinct_card)
  then have "card (set ids) \<le> card (set (map sr_id rs))"
    using assms(2) card_length [of ids] by (simp add: rs_def del: set_map)
  moreover have "set (map sr_id rs) \<subseteq> set ids" by (auto simp: rs_def)
  ultimately have "set (map sr_id rs) = set ids" by (intro card_seteq) simp_all
  with assms(3) have "i \<in> set (map sr_id rs)" by simp
  then show ?thesis by (auto simp: rs_def)
qed

lemma get_permissions_tables:
  "accessUsers (snd (getUserPermissions t k e db)) = accessUsers db"
  "schoolRoles (snd (getUserPermissions t k e db)) = schoolRoles db"
  "access_user t' j (snd (getUserPermissions t k e db)) = access_user t' j db"
  "roles_of_user j (snd (getUserPermissions t k e db)) = roles_of_user j db"
  "overrides_of_user j (snd (getUserPermissions t k e db)) = overrides_of_user j db"
  "role_codes q (snd (getUserPermissions t k e db)) = role_codes q db"
  "redisReady (snd (getUserPermissions t k e db)) = redisReady db"
  using get_permissions_cases [of t k e db] by (cases "redisReady db"; force simp: cache_set_def)+

text \<open>An accepted assignment: possibly a look at the own permissions, then the write.\<close>

lemma syncUserRoles_shape:
  assumes "syncUserRoles t a k ids e db = Inr db'"
  obtains u db1 where "access_user t k db = Some u" and "db1 = db \<or> db1 = snd (getUserPermissions t a e db)"
    and "length (filter (\<lambda>r. sr_id r \<in> set ids \<and> sr_tenantId r = t) (schoolRoles db)) = length ids"
    and "(\<exists>r \<in> set (schoolRoles db). sr_id r \<in> set ids \<and> sr_tenantId r = t \<and> ''rbac.manage'' \<in> set (role_codes (sr_id r) db))
      \<longrightarrow> senior (access_user t a db)"
    and "db' = record_audit (t, a, ''SYNC_USER_ROLES'', ''User'', k) (invalidateUserPermissionsCache t k (assign_roles t k ids db1))"
proof (cases "access_user t k db")
  case (Some u)
  define rs where "rs = filter (\<lambda>r. sr_id r \<in> set ids \<and> sr_tenantId r = t) (schoolRoles db)"
  define g where "g = list_ex (\<lambda>r. ''rbac.manage'' \<in> set (role_codes (sr_id r) db)) rs"
  define db1 where "db1 = (if a = k \<and> \<not> senior (access_user t a db) then snd (getUserPermissions t a e db) else db)"
  have "length rs = length ids" and "g \<longrightarrow> senior (access_user t a db)"
    and "db' = record_audit (t, a, ''SYNC_USER_ROLES'', ''User'', k) (invalidateUserPermissionsCache t k (assign_roles t k ids db1))"
    using assms Some unfolding syncUserRoles_def Let_def rs_def [symmetric] g_def [symmetric]
    by (auto simp: db1_def hasPermission_def Let_def split: if_splits prod.splits)
  moreover have "g \<longleftrightarrow> (\<exists>r \<in> set (schoolRoles db). sr_id r \<in> set ids \<and> sr_tenantId r = t \<and> ''rbac.manage'' \<in> set (role_codes (sr_id r) db))"
    by (auto simp: g_def rs_def list_ex_iff)
  moreover have "db1 = db \<or> db1 = snd (getUserPermissions t a e db)" by (simp add: db1_def)
  ultimately show thesis using Some unfolding rs_def by (intro that [of u db1]) simp_all
qed (use assms in \<open>simp add: syncUserRoles_def Let_def\<close>)

lemma syncUserRoles_step:
  assumes "access_inv db" and "syncUserRoles t a k ids e db = Inr db'"
  shows "access_inv db'" and "cache_follows db db' p"
proof -
  from syncUserRoles_shape [OF assms(2)] obtain u db1 where u: "access_user t k db = Some u"
    and db1: "db1 = db \<or> db1 = snd (getUserPermissions t a e db)"
    and ids: "length (filter (\<lambda>r. sr_id r \<in> set ids \<and> sr_tenantId r = t) (schoolRoles db)) = length ids"
    and db': "db' = record_audit (t, a, ''SYNC_USER_ROLES'', ''User'', k) (invalidateUserPermissionsCache t k (assign_roles t k ids db1))"
    by (rule syncUserRoles_shape [OF assms(2)], rule that; assumption)
  have inv1: "access_inv db1" and u1: "access_user t k db1 = Some u" and roles1: "schoolRoles db1 = schoolRoles db"
    and ready: "redisReady db1" and val: "access_value db1 q = access_value db q"
    and ent: "access_entry db1 q = access_entry db q \<or> access_entry db1 q = access_value db q" for q
    using db1 assms(1) u access_inv_keys(3) [OF assms(1)] get_permissions_entry [of t a e db q] by (auto simp: get_permissions_tables)
  have "access_inv (assign_roles t k ids db1)"
    by (rule assign_roles_inv [OF inv1 u1]) (use target_roles_complete [OF assms(1) ids] roles1 in simp)
  then show "access_inv db'" by (simp add: db')
  have others: "access_value (assign_roles t k ids db1) q = access_value db q" if "q \<noteq> (t, k)" for q
    using value_of_others [OF inv1 u1 that, of "assign_roles t k ids db1"] by (simp add: assign_roles_others val)
  show "cache_follows db db' p"
    unfolding db' by (rule invalidated_one [OF _ others]) (use ready ent in simp_all)
qed

lemma setUserOverride_shape:
  assumes "setUserOverride t a k dto e db = Inr db'"
  obtains u b where "access_user t k db = Some u"
    and "so_permissionCode dto = ''rbac.manage'' \<and> so_effect dto = GRANT \<longrightarrow> senior (access_user t a db)"
    and "db' = record_audit b (invalidateUserPermissionsCache t k (fst (upsert_override t a k dto e db)))"
  using assms by (auto simp: setUserOverride_def Let_def split: option.splits if_splits prod.splits)

lemma setUserOverride_step:
  assumes "access_inv db" and "setUserOverride t a k dto e db = Inr db'"
  shows "access_inv db'" and "cache_follows db db' p"
proof -
  from setUserOverride_shape [OF assms(2)] obtain u b where u: "access_user t k db = Some u"
    and db': "db' = record_audit b (invalidateUserPermissionsCache t k (fst (upsert_override t a k dto e db)))"
    by (rule setUserOverride_shape [OF assms(2)], rule that; assumption)
  show "access_inv db'" by (simp add: db' upsert_override_inv [OF assms(1) u])
  have others: "access_value (fst (upsert_override t a k dto e db)) q = access_value db q" if "q \<noteq> (t, k)" for q
    by (rule value_of_others [OF assms(1) u that]) (simp_all add: upsert_override_frame upsert_override_others)
  show "cache_follows db db' p"
    unfolding db' by (rule invalidated_one [OF _ others])
      (use access_inv_keys(3) [OF assms(1)] in \<open>simp_all add: upsert_override_frame\<close>)
qed

lemma stamp_shapes:
  "removeUserOverride t a k c e db = Inr db' \<Longrightarrow> db' = db \<or>
     (\<exists>b i d. db' = record_audit b (invalidateUserPermissionsCache t k (stamp_override i d db)))"
  "restoreUserOverride t a k c e db = Inr db' \<Longrightarrow> db' = db \<or>
     (\<exists>b i d. db' = record_audit b (invalidateUserPermissionsCache t k (stamp_override i d db)))"
  by (auto simp: removeUserOverride_def restoreUserOverride_def simp del: split_paired_Ex split: option.splits)

lemma stamp_step:
  assumes "access_inv db" and "db' = db \<or> (\<exists>b i d. db' = record_audit b (invalidateUserPermissionsCache t k (stamp_override i d db)))"
  shows "access_inv db'" and "cache_follows db db' p"
  using assms(2)
proof (atomize (full), elim disjE exE)
  fix b i d assume db': "db' = record_audit b (invalidateUserPermissionsCache t k (stamp_override i d db))"
  have "cache_follows db db' p"
    unfolding db' by (rule invalidated_one) (use access_inv_keys(3) [OF assms(1)] in simp_all)
  with db' assms(1) show "access_inv db' \<and> cache_follows db db' p" by (simp add: stamp_override_inv)
qed (use assms(1) in \<open>simp add: cache_follows_def\<close>)

lemma list_permissions_step:
  assumes "access_inv db"
  shows "access_inv (snd (listPermissions e db))" and "cache_follows db (snd (listPermissions e db)) p"
  using assms by (simp_all add: listPermissions_def ensure_catalog_inv ensure_catalog_value cache_follows_def)

lemma get_permissions_step:
  "cache_follows db (snd (getUserPermissions t k e db)) p"
  using get_permissions_entry [of t k e db p] by (auto simp: cache_follows_def)

lemma access_serve_step:
  assumes inv: "access_inv db" and "access_serve r db = Inr db'"
  shows "good_step r db db'"
proof -
  have stamped: "access_inv db' \<and> (\<forall>p. cache_follows db db' p)"
    if "\<exists>b d. db' = record_audit b (update_role_row i (\<lambda>x. x\<lparr>sr_deletedAt := d\<rparr>) db)" for i
    using that role_stamp_step [OF inv] by blast
  show ?thesis
  proof (cases r)
    case (UpdateRole t a i dto e)
    with assms updateRole_step [OF inv, of t a i dto e db'] show ?thesis by (simp add: good_step_def)
  next
    case (SyncUserRoles t a k ids e)
    with assms syncUserRoles_step [OF inv, of t a k ids e db'] show ?thesis by (simp add: good_step_def)
  next
    case (SetUserOverride t a k dto e)
    with assms setUserOverride_step [OF inv, of t a k dto e db'] show ?thesis by (simp add: good_step_def)
  next
    case (RemoveUserOverride t a k c e)
    with assms stamp_step [OF inv stamp_shapes(1) [of t a k c e db db']] show ?thesis by (simp add: good_step_def)
  next
    case (RestoreUserOverride t a k c e)
    with assms stamp_step [OF inv stamp_shapes(2) [of t a k c e db db']] show ?thesis by (simp add: good_step_def)
  next
    case (DeleteRole t a i e)
    with assms stamped [OF role_stamp_shapes(1) [of t a i e db db']] show ?thesis by (simp add: good_step_def)
  next
    case (RestoreRole t a i e)
    with assms stamped [OF role_stamp_shapes(2) [of t a i e db db']] show ?thesis by (simp add: good_step_def)
  next
    case (CreateRole t a dto e)
    with assms createRole_inv [OF inv, of t a dto e db'] show ?thesis by (simp add: good_step_def)
  next
    case (ListPermissions e)
    with assms list_permissions_step [OF inv, of e] show ?thesis by (auto simp: good_step_def)
  next
    case (GetUserPermissions t k e)
    with assms get_permissions_step [of db t k e] show ?thesis by (auto simp: good_step_def)
  qed
qed

interpretation access: cached_reads access_inv access_serve invalidates access_entry access_value
proof
  fix db db' r
  assume "access_inv db" and "access_serve r db = Inr db'"
  then show "access_inv db'" using access_serve_step by (auto simp: good_step_def)
next
  fix db db' r k
  assume "access_inv db" and "invalidates r" and "access_serve r db = Inr db'"
  then show "access_entry db' k = None \<or> access_entry db' k = access_value db' k
      \<or> access_entry db' k = access_entry db k \<and> access_value db' k = access_value db k"
    using access_serve_step unfolding good_step_def cache_follows_def by blast
qed

end
