(* ===== verification/Rbac_Props.thy ===== *)
theory Rbac_Props
  imports Rbac_Laws
begin

text \<open>
  What access control guarantees: the formula of the effective permissions, the agreement of the
  administrator's overview with it, the cache, the guard rails around \<open>rbac.manage\<close> and the guard of the
  routes.
\<close>

section \<open>The permissions of a user\<close>

lemma get_permissions_miss:
  assumes "access_entry db (t, k) = None" and "access_user t k db = Some u"
  shows "fst (getUserPermissions t k e db) = compute_permissions u db"
  using assms by (auto simp: getUserPermissions_def cache_get_def access_entry_def Let_def)

lemma get_permissions_hit_or_computed:
  assumes "\<forall>v. access_entry db (t, k) = Some v \<longrightarrow> access_value db (t, k) = Some v"
  shows "fst (getUserPermissions t k e db) = (case access_user t k db of None \<Rightarrow> [] | Some u \<Rightarrow> compute_permissions u db)"
proof -
  have "access_value db (t, k) = Some v" if "cache_get t k (now e) db = Some v" for v
    using that assms by (auto simp: cache_get_def access_entry_def split: option.splits if_splits)
  then show ?thesis
    by (auto simp: getUserPermissions_def Let_def access_value_def split: option.split)
qed

section \<open>The overview\<close>

lemma override_of_None: "override_of k c db = None \<longleftrightarrow> c \<notin> ov_permissionCode ` set (overrides_of_user k db)"
  by (auto simp: override_of_def find_None_iff)

lemma override_of_Some:
  assumes "distinct (map ov_permissionCode (overrides_of_user k db))"
  shows "override_of k c db = Some f \<longleftrightarrow> c \<in> codes_with f (overrides_of_user k db)"
proof -
  let ?ovs = "overrides_of_user k db"
  have "find (\<lambda>ov. ov_permissionCode ov = c) (rev ?ovs) = Some ov \<longleftrightarrow> ov \<in> set ?ovs \<and> ov_permissionCode ov = c" for ov
    using assms distinct_find [of ov_permissionCode "rev ?ovs" ov] find_Some_iff_mem [of _ "rev ?ovs" ov]
    by (auto simp: find_row_def rev_map [symmetric])
  then show ?thesis by (auto simp: override_of_def codes_with_def)
qed

lemma set_override_codes: "set (override_codes k db) = ov_permissionCode ` set (overrides_of_user k db)"
  and distinct_override_codes: "distinct (override_codes k db)"
proof -
  have "set (fold (\<lambda>ov. set_add (ov_permissionCode ov)) ovs ps) = set ps \<union> ov_permissionCode ` set ovs"
    and "distinct ps \<Longrightarrow> distinct (fold (\<lambda>ov. set_add (ov_permissionCode ov)) ovs ps)"
    for ovs :: "UserPermissionOverride list" and ps
    by (induction ovs arbitrary: ps) auto
  then show "set (override_codes k db) = ov_permissionCode ` set (overrides_of_user k db)"
    and "distinct (override_codes k db)" by (simp_all add: override_codes_def)
qed

lemma set_fold_codes:
  assumes "distinct cs"
  shows "set (fold (\<lambda>c ps. case f c of Some GRANT \<Rightarrow> set_add c ps | Some REVOKE \<Rightarrow> set_delete c ps | None \<Rightarrow> ps) cs ps) =
    (set ps \<union> {c \<in> set cs. f c = Some GRANT}) - {c \<in> set cs. f c = Some REVOKE}"
  using assms
proof (induction cs arbitrary: ps)
  case (Cons c cs)
  then show ?case by (cases "f c"; (cases "the (f c)")?) auto
qed simp

lemma set_detail_effective:
  assumes "access_inv db"
  shows "set (detail_effective_set u db) =
    (set (getBaseRolePermissions (au_role u)) \<union> (\<Union>r \<in> set (roles_of_user (au_id u) db). set (role_codes r db))
       \<union> codes_with GRANT (overrides_of_user (au_id u) db)) - codes_with REVOKE (overrides_of_user (au_id u) db)"
proof -
  let ?ovs = "overrides_of_user (au_id u) db"
  note d = override_codes_distinct [OF assms, of "au_id u"]
  have "{c \<in> set (override_codes (au_id u) db). override_of (au_id u) c db = Some f} = codes_with f ?ovs" for f
    using override_of_Some [OF d] by (auto simp: set_override_codes codes_with_def)
  then show ?thesis
    unfolding detail_effective_set_def using set_fold_codes [OF distinct_override_codes] by auto
qed
section \<open>Grants of rbac.manage\<close>

lemma rbac_manage_no_base: "''rbac.manage'' \<notin> set (getBaseRolePermissions r)"
  by (cases r) simp_all

lemma codes_with_stamp:
  "codes_with f (filter (\<lambda>ov. ov_userId ov = k) (update_row ov_id i (\<lambda>ov. ov\<lparr>ov_deletedAt := d\<rparr>) ovs))
   = codes_with f (filter (\<lambda>ov. ov_userId ov = k) ovs)"
  by (induction ovs) (auto simp: update_row_def)

lemma compute_rbac_manage:
  assumes "access_inv db" and "\<not> is_admin_role (au_role u)"
  shows "''rbac.manage'' \<in> set (compute_permissions u db) \<longleftrightarrow>
    ((\<exists>r \<in> set (roles_of_user (au_id u) db). ''rbac.manage'' \<in> set (role_codes r db))
      \<or> ''rbac.manage'' \<in> codes_with GRANT (overrides_of_user (au_id u) db))
    \<and> ''rbac.manage'' \<notin> codes_with REVOKE (overrides_of_user (au_id u) db)"
  by (simp add: compute_set [OF assms] rbac_manage_no_base)

lemma codes_with_upsert:
  assumes "''rbac.manage'' \<notin> codes_with GRANT (overrides_of_user j db)"
    and "so_permissionCode dto = ''rbac.manage'' \<longrightarrow> so_effect dto \<noteq> GRANT"
  shows "''rbac.manage'' \<notin> codes_with GRANT (overrides_of_user j (fst (upsert_override t a k dto e db)))"
  using assms
  by (auto simp: upsert_override_def Let_def overrides_of_user_def codes_with_def update_where_def is_override_def
      split: option.split if_splits)

lemma upsert_keeps_row:
  assumes "ov \<in> set (permissionOverrides db)"
  shows "\<exists>ov' \<in> set (permissionOverrides (fst (upsert_override t a k dto e db))). ov_userId ov' = ov_userId ov
    \<and> ov_permissionCode ov' = ov_permissionCode ov \<and> ov_deletedAt ov' = ov_deletedAt ov
    \<and> (ov_effect ov' = ov_effect ov \<or> ov_effect ov' = so_effect dto \<and> ov_permissionCode ov = so_permissionCode dto)"
proof (cases "find (is_override t k (so_permissionCode dto)) (permissionOverrides db)")
  case (Some x)
  define g where "g = (\<lambda>ov. ov\<lparr>ov_effect := so_effect dto, ov_reason := keep_undefined (map_option trim (so_reason dto)) (ov_reason ov),
     ov_grantedById := a\<rparr> :: UserPermissionOverride)"
  have g: "ov_userId (g y) = ov_userId y" "ov_permissionCode (g y) = ov_permissionCode y" "ov_effect (g y) = so_effect dto"
    "ov_deletedAt (g y) = ov_deletedAt y" for y
    by (simp_all add: g_def)
  let ?ov' = "if is_override t k (so_permissionCode dto) ov then g ov else ov"
  have "permissionOverrides (fst (upsert_override t a k dto e db)) =
      update_where (is_override t k (so_permissionCode dto)) g (permissionOverrides db)"
    using Some by (simp add: upsert_override_def Let_def g_def)
  then have "?ov' \<in> set (permissionOverrides (fst (upsert_override t a k dto e db)))"
    using assms by (simp add: update_where_def)
  then show ?thesis by (rule rev_bexI) (simp add: g is_override_def)
qed (use assms in \<open>auto simp: upsert_override_def Let_def\<close>)

lemma revoked_stays_upsert:
  assumes "''rbac.manage'' \<in> codes_with REVOKE (overrides_of_user j db)"
    and "so_permissionCode dto = ''rbac.manage'' \<longrightarrow> so_effect dto \<noteq> GRANT"
  shows "''rbac.manage'' \<in> codes_with REVOKE (overrides_of_user j (fst (upsert_override t a k dto e db)))"
proof -
  from assms(1) obtain ov where ov: "ov \<in> set (permissionOverrides db)" "ov_userId ov = j"
    "ov_permissionCode ov = ''rbac.manage''" "ov_effect ov = REVOKE"
    by (auto simp: codes_with_def overrides_of_user_def)
  from assms(2) have "so_permissionCode dto = ''rbac.manage'' \<longrightarrow> so_effect dto = REVOKE"
    by (cases "so_effect dto") simp_all
  with ov upsert_keeps_row [OF ov(1), of t a k dto e]
  obtain ov' where "ov' \<in> set (permissionOverrides (fst (upsert_override t a k dto e db)))" "ov_userId ov' = j"
    "ov_permissionCode ov' = ''rbac.manage''" "ov_effect ov' = REVOKE" by metis
  then show ?thesis by (force simp: codes_with_def overrides_of_user_def)
qed

text \<open>The requests with a guard rail, made by someone who is no administrator of the tenant.\<close>

fun guarded_request :: "access_request \<Rightarrow> access_db \<Rightarrow> bool" where
  "guarded_request (SyncUserRoles t a k rs e) db = (\<not> senior (access_user t a db))"
| "guarded_request (SetUserOverride t a k dto e) db = (\<not> senior (access_user t a db))"
| "guarded_request (RemoveUserOverride t a k c e) db = True"
| "guarded_request (RestoreUserOverride t a k c e) db = True"
| "guarded_request (GetUserPermissions t k e) db = True"
| "guarded_request (DeleteRole t a r e) db = True"
| "guarded_request (RestoreRole t a r e) db = True"
| "guarded_request (ListPermissions e) db = True"
| "guarded_request _ db = False"

lemma compute_frames:
  "compute_permissions u (record_audit b db) = compute_permissions u db"
  "compute_permissions u (invalidateUserPermissionsCache t k db) = compute_permissions u db"
  "compute_permissions u (update_role_row r f db) = compute_permissions u db"
  "compute_permissions u (snd (getUserPermissions t k e db)) = compute_permissions u db"
  using compute_cong [of u "update_role_row r f db" db] compute_cong [of u "snd (getUserPermissions t k e db)" db]
  by (simp_all add: record_audit_def invalidateUserPermissionsCache_def get_permissions_tables)

lemma sync_grants_nothing:
  assumes "access_inv db" and "syncUserRoles t a k ids e db = Inr db'" and "\<not> senior (access_user t a db)"
    and "\<not> is_admin_role (au_role u)" and "''rbac.manage'' \<in> set (compute_permissions u db')"
  shows "''rbac.manage'' \<in> set (compute_permissions u db)"
proof -
  from assms(2) obtain v db1 where v: "access_user t k db = Some v" and db1: "db1 = db \<or> db1 = snd (getUserPermissions t a e db)"
    and n: "length (filter (\<lambda>r. sr_id r \<in> set ids \<and> sr_tenantId r = t) (schoolRoles db)) = length ids"
    and g: "(\<exists>r \<in> set (schoolRoles db). sr_id r \<in> set ids \<and> sr_tenantId r = t \<and> ''rbac.manage'' \<in> set (role_codes (sr_id r) db))
      \<longrightarrow> senior (access_user t a db)"
    and db': "db' = record_audit (t, a, ''SYNC_USER_ROLES'', ''User'', k) (invalidateUserPermissionsCache t k (assign_roles t k ids db1))"
    by (rule syncUserRoles_shape) (rule that; assumption)
  have codes: "role_codes q db1 = role_codes q db" and ovs: "overrides_of_user j db1 = overrides_of_user j db"
    and rs: "roles_of_user j db1 = roles_of_user j db" for q j
    using db1 by (auto simp: get_permissions_tables)
  have harmless: "''rbac.manage'' \<notin> set (role_codes i db)" if "i \<in> set ids" for i
    using target_roles_complete [OF assms(1) n that] g assms(3) that by auto
  have "roles_of_user (au_id u) (assign_roles t k ids db1) = roles_of_user (au_id u) db1 \<or>
      set (roles_of_user (au_id u) (assign_roles t k ids db1)) \<subseteq> set (roles_of_user (au_id u) db1) \<union> set ids"
    by (cases "au_id u = k") (auto simp: assign_roles_others assign_roles_def roles_of_user_def)
  moreover have "access_inv db'" using syncUserRoles_step(1) [OF assms(1,2)] .
  then have "access_inv (assign_roles t k ids db1)" by (simp add: db')
  ultimately show ?thesis
    using assms(5) harmless
    by (auto simp: db' compute_frames compute_rbac_manage [OF _ assms(4)] assms(1) codes ovs rs)
qed

text \<open>
  The reading the documentation promises (\<open>removeUserOverride\<close>, \<open>PROJECT_UNDERSTANDING.md\<close>): removed overrides and deleted
  roles no longer count.
\<close>

definition live_overrides :: "id \<Rightarrow> access_db \<Rightarrow> UserPermissionOverride list" where
  "live_overrides k db = filter (\<lambda>ov. ov_deletedAt ov = None) (overrides_of_user k db)"

definition live_roles :: "id \<Rightarrow> access_db \<Rightarrow> id list" where
  "live_roles k db = filter (\<lambda>i. \<forall>r \<in> set (schoolRoles db). sr_id r = i \<longrightarrow> sr_deletedAt r = None) (roles_of_user k db)"

definition documented_permissions :: "User \<Rightarrow> access_db \<Rightarrow> string list" where
  "documented_permissions u db =
     (if is_admin_role (au_role u) then all_codes
      else fold apply_override (live_overrides (au_id u) db)
             (fold set_add (concat (map (\<lambda>r. role_codes r db) (live_roles (au_id u) db)))
               (fold set_add (getBaseRolePermissions (au_role u)) [])))"

lemma documented_rbac_manage:
  assumes "access_inv db" and "\<not> is_admin_role (au_role u)"
  shows "''rbac.manage'' \<in> set (documented_permissions u db) \<longleftrightarrow>
    ((\<exists>r \<in> set (live_roles (au_id u) db). ''rbac.manage'' \<in> set (role_codes r db))
      \<or> ''rbac.manage'' \<in> codes_with GRANT (live_overrides (au_id u) db))
    \<and> ''rbac.manage'' \<notin> codes_with REVOKE (live_overrides (au_id u) db)"
proof -
  have "distinct (map ov_permissionCode (live_overrides (au_id u) db))"
    using override_codes_distinct [OF assms(1)] by (simp add: live_overrides_def distinct_map_filter)
  from set_fold_override [OF this] assms(2) rbac_manage_no_base [of "au_role u"] show ?thesis
    by (auto simp: documented_permissions_def)
qed

lemma live_frames:
  "live_overrides k (record_audit b db) = live_overrides k db" "live_roles k (record_audit b db) = live_roles k db"
  "live_overrides k (invalidateUserPermissionsCache t j db) = live_overrides k db"
  "live_roles k (invalidateUserPermissionsCache t j db) = live_roles k db"
  "live_overrides k (update_role_row i f db) = live_overrides k db"
  "live_roles k (fst (upsert_override t a j dto e db)) = live_roles k db"
  "live_overrides k (assign_roles t j ids db) = live_overrides k db"
  by (simp_all add: live_overrides_def live_roles_def record_audit_def invalidateUserPermissionsCache_def get_permissions_tables
      overrides_of_user_def roles_of_user_def update_role_row_def upsert_override_def assign_roles_def Let_def split: option.split)

lemma role_frames:
  "role_codes q (record_audit b db) = role_codes q db" "role_codes q (invalidateUserPermissionsCache t j db) = role_codes q db"
  "role_codes q (stamp_override i d db) = role_codes q db" "live_roles k (stamp_override i d db) = live_roles k db"
  "roles_of_user k (record_audit b db) = roles_of_user k db" "roles_of_user k (invalidateUserPermissionsCache t j db) = roles_of_user k db"
  by (simp_all add: role_codes_def live_roles_def roles_of_user_def record_audit_def invalidateUserPermissionsCache_def stamp_override_def)

lemma live_look:
  "live_overrides k (snd (getUserPermissions t j e db)) = live_overrides k db"
  "live_roles k (snd (getUserPermissions t j e db)) = live_roles k db"
  by (simp_all add: live_overrides_def live_roles_def get_permissions_tables)

lemma live_grant_upsert:
  assumes "''rbac.manage'' \<notin> codes_with GRANT (live_overrides j db)"
    and "so_permissionCode dto = ''rbac.manage'' \<longrightarrow> so_effect dto \<noteq> GRANT"
  shows "''rbac.manage'' \<notin> codes_with GRANT (live_overrides j (fst (upsert_override t a k dto e db)))"
  using assms
  by (auto simp: upsert_override_def Let_def live_overrides_def overrides_of_user_def codes_with_def update_where_def is_override_def
      split: option.split if_splits)

lemma live_revoke_upsert:
  assumes "''rbac.manage'' \<in> codes_with REVOKE (live_overrides j db)"
    and "so_permissionCode dto = ''rbac.manage'' \<longrightarrow> so_effect dto \<noteq> GRANT"
  shows "''rbac.manage'' \<in> codes_with REVOKE (live_overrides j (fst (upsert_override t a k dto e db)))"
proof -
  from assms(1) obtain ov where ov: "ov \<in> set (permissionOverrides db)" "ov_userId ov = j" "ov_deletedAt ov = None"
    "ov_permissionCode ov = ''rbac.manage''" "ov_effect ov = REVOKE"
    by (auto simp: codes_with_def live_overrides_def overrides_of_user_def)
  from assms(2) have "so_permissionCode dto = ''rbac.manage'' \<longrightarrow> so_effect dto = REVOKE"
    by (cases "so_effect dto") simp_all
  with ov upsert_keeps_row [OF ov(1), of t a k dto e]
  obtain ov' where "ov' \<in> set (permissionOverrides (fst (upsert_override t a k dto e db)))" "ov_userId ov' = j" "ov_deletedAt ov' = None"
    "ov_permissionCode ov' = ''rbac.manage''" "ov_effect ov' = REVOKE" by metis
  then show ?thesis by (force simp: codes_with_def live_overrides_def overrides_of_user_def)
qed

text \<open>The requests that bring something back under that reading.\<close>

fun undoes_removal :: "access_request \<Rightarrow> bool" where
  "undoes_removal (RemoveUserOverride t a k c e) = True"
| "undoes_removal (RestoreUserOverride t a k c e) = True"
| "undoes_removal (RestoreRole t a r e) = True"
| "undoes_removal _ = False"

lemma codes_with_filter: "codes_with f ovs = set (map ov_permissionCode (filter (\<lambda>ov. ov_effect ov = f) ovs))"
  by (auto simp: codes_with_def)

section \<open>Requests without an administrator\<close>

lemma guarded_request_harmless:
  assumes "access_inv db" and "guarded_request r db" and "access_serve r db = Inr db'"
    and "''rbac.manage'' \<in> set (compute_permissions u db')"
  shows "''rbac.manage'' \<in> set (compute_permissions u db)"
proof (cases "is_admin_role (au_role u)")
  case True
  with assms(4) show ?thesis by (simp add: compute_permissions_def)
next
  case False
  have stamped: ?thesis if "db' = db \<or> (\<exists>b i d t k. db' = record_audit b (invalidateUserPermissionsCache t k (stamp_override i d db)))"
    using that assms(4) by (auto simp: compute_frames)
  have row: ?thesis if "\<exists>b d. db' = record_audit b (update_role_row i (\<lambda>x. x\<lparr>sr_deletedAt := d\<rparr>) db)" for i
    using that assms(4) by (auto simp: compute_frames)
  show ?thesis
  proof (cases r)
    case (SyncUserRoles t a k ids e)
    with assms False show ?thesis using sync_grants_nothing [of db t a k ids e db' u] by simp
  next
    case (SetUserOverride t a k dto e)
    from SetUserOverride assms(3) have "setUserOverride t a k dto e db = Inr db'" by simp
    then obtain v b where v: "access_user t k db = Some v"
      and g: "so_permissionCode dto = ''rbac.manage'' \<and> so_effect dto = GRANT \<longrightarrow> senior (access_user t a db)"
      and db': "db' = record_audit b (invalidateUserPermissionsCache t k (fst (upsert_override t a k dto e db)))"
      by (rule setUserOverride_shape) (rule that; assumption)
    let ?db1 = "fst (upsert_override t a k dto e db)"
    have inv1: "access_inv ?db1" by (rule upsert_override_inv [OF assms(1) v])
    have no: "so_permissionCode dto = ''rbac.manage'' \<longrightarrow> so_effect dto \<noteq> GRANT" using g SetUserOverride assms(2) by auto
    from assms(4) show ?thesis
      using codes_with_upsert [OF _ no] revoked_stays_upsert [OF _ no]
      by (auto simp: db' compute_frames compute_rbac_manage [OF inv1 False] compute_rbac_manage [OF assms(1) False] upsert_override_frame)
  next
    case (RemoveUserOverride t a k c e)
    with stamped stamp_shapes(1) [of t a k c e db db'] assms(3) show ?thesis by fastforce
  next
    case (RestoreUserOverride t a k c e)
    with stamped stamp_shapes(2) [of t a k c e db db'] assms(3) show ?thesis by fastforce
  next
    case (DeleteRole t a i e)
    with row role_stamp_shapes(1) [of t a i e db db'] assms(3) show ?thesis by fastforce
  next
    case (RestoreRole t a i e)
    with row role_stamp_shapes(2) [of t a i e db db'] assms(3) show ?thesis by fastforce
  next
    case (ListPermissions e)
    with assms(3,4) have "''rbac.manage'' \<in> set (compute_permissions u (ensureCatalogPermissionsInDb e db))"
      by (simp add: listPermissions_def)
    then show ?thesis
      using compute_cong [of u "ensureCatalogPermissionsInDb e db" db] by (simp add: ensure_catalog_codes [OF assms(1)])
  qed (use assms in \<open>auto simp: compute_frames\<close>)
qed

lemma sync_documented:
  assumes "access_inv db" and "syncUserRoles t a k ids e db = Inr db'" and "\<not> senior (access_user t a db)"
    and "\<not> is_admin_role (au_role u)" and "''rbac.manage'' \<in> set (documented_permissions u db')"
  shows "''rbac.manage'' \<in> set (documented_permissions u db)"
proof -
  from assms(2) obtain v db1 where v: "access_user t k db = Some v" and db1: "db1 = db \<or> db1 = snd (getUserPermissions t a e db)"
    and n: "length (filter (\<lambda>r. sr_id r \<in> set ids \<and> sr_tenantId r = t) (schoolRoles db)) = length ids"
    and g: "(\<exists>r \<in> set (schoolRoles db). sr_id r \<in> set ids \<and> sr_tenantId r = t \<and> ''rbac.manage'' \<in> set (role_codes (sr_id r) db))
      \<longrightarrow> senior (access_user t a db)"
    and db': "db' = record_audit (t, a, ''SYNC_USER_ROLES'', ''User'', k) (invalidateUserPermissionsCache t k (assign_roles t k ids db1))"
    by (rule syncUserRoles_shape) (rule that; assumption)
  have harmless: "''rbac.manage'' \<notin> set (role_codes i db)" if "i \<in> set ids" for i
    using target_roles_complete [OF assms(1) n that] g assms(3) that by auto
  have codes: "role_codes q db' = role_codes q db" for q
    using db1 by (auto simp: db' get_permissions_tables record_audit_def invalidateUserPermissionsCache_def)
  have ovs: "live_overrides j db' = live_overrides j db" for j
    using db1 by (auto simp: db' live_frames live_look)
  have "set (roles_of_user j (assign_roles t k ids d)) \<subseteq> set (roles_of_user j d) \<union> set ids" for j d
    by (auto simp: assign_roles_def roles_of_user_def)
  moreover have "roles_of_user j db1 = roles_of_user j db" "schoolRoles db1 = schoolRoles db" for j
    using db1 by (auto simp: get_permissions_tables)
  ultimately have "set (roles_of_user j db') \<subseteq> set (roles_of_user j db) \<union> set ids" for j
    unfolding db' role_frames by metis
  moreover have "schoolRoles db' = schoolRoles db"
    using \<open>schoolRoles db1 = schoolRoles db\<close> by (simp add: db' record_audit_def invalidateUserPermissionsCache_def assign_roles_def)
  ultimately have "set (live_roles j db') \<subseteq> set (live_roles j db) \<union> set ids" for j by (auto simp: live_roles_def)
  with assms(5) harmless show ?thesis
    unfolding documented_rbac_manage [OF syncUserRoles_step(1) [OF assms(1,2)] assms(4)] documented_rbac_manage [OF assms(1,4)] codes ovs
    by blast
qed

lemma guarded_request_documented:
  assumes "access_inv db" and "guarded_request r db" and "access_serve r db = Inr db'" and "\<not> undoes_removal r"
    and "''rbac.manage'' \<in> set (documented_permissions u db')"
  shows "''rbac.manage'' \<in> set (documented_permissions u db)"
proof (cases "is_admin_role (au_role u)")
  case True
  with assms(5) show ?thesis by (simp add: documented_permissions_def)
next
  case False
  have inv': "access_inv db'" by (rule access.inv_kept [OF assms(1,3)])
  note doc = documented_rbac_manage [OF inv' False] documented_rbac_manage [OF assms(1) False]
  show ?thesis
  proof (cases r)
    case (SyncUserRoles t a k ids e)
    with assms False show ?thesis using sync_documented [of db t a k ids e db' u] by simp
  next
    case (SetUserOverride t a k dto e)
    from SetUserOverride assms(3) have "setUserOverride t a k dto e db = Inr db'" by simp
    then obtain v b where v: "access_user t k db = Some v"
      and g: "so_permissionCode dto = ''rbac.manage'' \<and> so_effect dto = GRANT \<longrightarrow> senior (access_user t a db)"
      and db': "db' = record_audit b (invalidateUserPermissionsCache t k (fst (upsert_override t a k dto e db)))"
      by (rule setUserOverride_shape) (rule that; assumption)
    have no: "so_permissionCode dto = ''rbac.manage'' \<longrightarrow> so_effect dto \<noteq> GRANT" using g SetUserOverride assms(2) by auto
    have codes: "role_codes q db' = role_codes q db" for q
      by (simp add: db' upsert_override_frame role_frames)
    from assms(5) show ?thesis
      unfolding doc codes using live_grant_upsert [OF _ no] live_revoke_upsert [OF _ no] by (auto simp: db' live_frames)
  next
    case (DeleteRole t a i e)
    with assms(3) obtain b d where db': "db' = record_audit b (update_role_row i (\<lambda>x. x\<lparr>sr_deletedAt := Some d\<rparr>) db)"
      by (auto simp: deleteRole_def split: option.splits if_splits)
    let ?f = "\<lambda>x. x\<lparr>sr_deletedAt := Some d\<rparr> :: SchoolRole"
    have rows: "(if sr_id q = i then ?f q else q) \<in> set (schoolRoles db')" if "q \<in> set (schoolRoles db)" for q
      using that by (auto simp: db' record_audit_def update_role_row_def set_update_row)
    have "roles_of_user j db' = roles_of_user j db" for j
      by (simp add: db' role_frames)
    then have "set (live_roles j db') \<subseteq> set (live_roles j db)" for j
      using rows by (fastforce simp: live_roles_def split: if_splits)
    moreover have "role_codes q db' = role_codes q db" for q by (simp add: db' role_frames)
    moreover have "live_overrides j db' = live_overrides j db" for j by (simp add: db' live_frames)
    ultimately show ?thesis using assms(5) unfolding doc by auto
  next
    case (ListPermissions e)
    with assms(3) have db': "db' = ensureCatalogPermissionsInDb e db" by (simp add: listPermissions_def)
    have "live_roles j db' = live_roles j db" "live_overrides j db' = live_overrides j db" for j
      by (simp_all add: db' live_roles_def live_overrides_def ensureCatalogPermissionsInDb_def Let_def roles_of_user_def overrides_of_user_def)
    then show ?thesis using assms(5) unfolding doc by (simp add: db' ensure_catalog_codes [OF assms(1)])
  next
    case (GetUserPermissions t k e)
    with assms(3) have db': "db' = snd (getUserPermissions t k e db)" by simp
    show ?thesis using assms(5) unfolding doc by (simp add: db' live_look get_permissions_tables)
  qed (use assms in auto)
qed

section \<open>The properties\<close>

text \<open>A school for the witnesses: an administrator, a teacher with a role and overrides, an employee.\<close>

definition school_user :: "id \<Rightarrow> UserRole \<Rightarrow> User" where
  "school_user i r = \<lparr>au_id = i, au_tenantId = ''t'', au_firstName = i, au_lastName = i, au_phone = None, au_nationalId = None,
     au_username = None, au_role = r, au_isPlatformAdmin = False, au_status = USER_ACTIVE\<rparr>"

definition school_override :: "id \<Rightarrow> string \<Rightarrow> PermissionOverrideEffect \<Rightarrow> UserPermissionOverride" where
  "school_override i c f = \<lparr>ov_id = i, ov_tenantId = ''t'', ov_userId = ''teacher'', ov_permissionCode = c, ov_effect = f,
     ov_grantedById = ''admin'', ov_reason = None, ov_deletedAt = None\<rparr>"

definition school_access :: access_db where
  "school_access = \<lparr>
     accessUsers = [school_user ''admin'' SCHOOL_ADMIN, school_user ''teacher'' TEACHER, school_user ''clerk'' STAFF],
     permissionRows = [\<lparr>pm_id = ''p1'', pm_code = ''finance.fee.read''\<rparr>, \<lparr>pm_id = ''p2'', pm_code = ''rbac.manage''\<rparr>],
     schoolRoles = [\<lparr>sr_id = ''r1'', sr_tenantId = ''t'', sr_name = ''accountant'', sr_description = None,
       sr_isSystem = False, sr_deletedAt = None\<rparr>],
     rolePermissions = [\<lparr>rp_schoolRoleId = ''r1'', rp_permissionId = ''p1''\<rparr>],
     userSchoolRoles = [\<lparr>ur_tenantId = ''t'', ur_userId = ''teacher'', ur_schoolRoleId = ''r1''\<rparr>],
     permissionOverrides = [school_override ''o1'' ''coach.read'' GRANT, school_override ''o2'' ''exam.write'' REVOKE],
     permissionCache = (\<lambda>_ _. None), redisReady = True, auditTrail = []\<rparr>"

definition school_env :: env where
  "school_env = \<lparr>now = 1000, rnd = 0, uuid = (\<lambda>k. replicate (Suc k) CHR ''u'')\<rparr>"

lemma school_access_inv: "access_inv school_access"
  by (simp add: access_inv_def school_access_def school_user_def school_override_def)

lemma school_access_teacher: "access_user ''t'' ''teacher'' school_access = Some (school_user ''teacher'' TEACHER)"
  by (simp add: access_user_def school_access_def school_user_def)

lemma school_access_coherent: "access.coherent school_access"
  by (simp add: access.coherent_def access_entry_def school_access_def)

lemma school_entry: "access_entry school_access p = None"
  by (simp add: access_entry_def school_access_def)

text \<open>C17: What a user who is no administrator may do, when nothing is cached for the user: the permissions of the base role, of the
  school roles and of the grants, without the revocations, which win over both.  Overrides that were removed are among them: contrary
  to the documentation of \<open>removeUserOverride\<close> and of soft deletion, a removed grant is still held and a removed revocation still revokes.\<close>

theorem effective_permissions_formula:
  assumes "access_inv db" and "access_user t k db = Some u" and "\<not> is_admin_role (au_role u)"
    and "access_entry db (t, k) = None"
  shows "set (fst (getUserPermissions t k e db)) =
    (set (getBaseRolePermissions (au_role u)) \<union> (\<Union>r \<in> set (roles_of_user k db). set (role_codes r db))
      \<union> set (map ov_permissionCode (filter (\<lambda>ov. ov_effect ov = GRANT) (overrides_of_user k db))))
    - set (map ov_permissionCode (filter (\<lambda>ov. ov_effect ov = REVOKE) (overrides_of_user k db)))
    \<and> (\<forall>ov \<in> set (overrides_of_user k db). ov_deletedAt ov \<noteq> None \<longrightarrow>
         (ov_permissionCode ov \<in> set (fst (getUserPermissions t k e db)) \<longleftrightarrow> ov_effect ov = GRANT))"
proof -
  have formula: "set (fst (getUserPermissions t k e db)) =
    (set (getBaseRolePermissions (au_role u)) \<union> (\<Union>r \<in> set (roles_of_user k db). set (role_codes r db))
      \<union> codes_with GRANT (overrides_of_user k db)) - codes_with REVOKE (overrides_of_user k db)"
    using compute_set [OF assms(1,3)] access_userD(2) [OF assms(2)] by (simp add: get_permissions_miss [OF assms(4,2)])
  have "ov_permissionCode ov \<in> codes_with f (overrides_of_user k db) \<longleftrightarrow> ov_effect ov = f" if "ov \<in> set (overrides_of_user k db)" for ov f
    using distinct_key_inj [OF override_codes_distinct [OF assms(1)] _ that] that by (auto simp: codes_with_def)
  then have "ov_permissionCode ov \<in> set (fst (getUserPermissions t k e db)) \<longleftrightarrow> ov_effect ov = GRANT" if "ov \<in> set (overrides_of_user k db)" for ov
    using that unfolding formula by (cases "ov_effect ov") auto
  with formula show ?thesis by (simp add: codes_with_filter)
qed

theorem effective_permissions_formula_witness:
  "''exam.write'' \<notin> set (fst (getUserPermissions ''t'' ''teacher'' school_env school_access))
   \<and> ''coach.read'' \<in> set (fst (getUserPermissions ''t'' ''teacher'' school_env school_access))
   \<and> ''finance.fee.read'' \<in> set (fst (getUserPermissions ''t'' ''teacher'' school_env school_access))"
  by (subst (1 2 3) conjunct1 [OF effective_permissions_formula [OF school_access_inv school_access_teacher _ school_entry]])
    (simp_all add: school_user_def is_admin_role_def roles_of_user_def role_codes_def overrides_of_user_def school_override_def
      school_access_def)

text \<open>The overview of the administration marks exactly those catalog permissions as effective that an
  ordinary user holds; for a school administrator it only shows assigned permissions although all are held.\<close>

theorem overview_agrees:
  assumes "access_inv db" and "getUserEffectivePermissionsDetail t k db = Inr (u, roles, n, ds)"
  shows "map pd_item ds = PERMISSION_CATALOG
    \<and> (\<not> is_admin_role (au_role u) \<longrightarrow> n = card (set (compute_permissions u db))
         \<and> (\<forall>d \<in> set ds. pd_isEffective d \<longleftrightarrow> pc_code (pd_item d) \<in> set (compute_permissions u db)))
    \<and> (is_admin_role (au_role u) \<and> roles = [] \<and> overrides_of_user k db = [] \<longrightarrow>
         (\<forall>d \<in> set ds. \<not> pd_isEffective d \<and> pc_code (pd_item d) \<in> set (compute_permissions u db)))"
proof -
  from assms(2) have u: "access_user t k db = Some u" and roles: "roles = roles_of_user k db"
    and n: "n = length (detail_effective_set u db)" and ds: "ds = map (detail_of u db) PERMISSION_CATALOG"
    by (auto simp: getUserEffectivePermissionsDetail_def split: option.splits)
  note k = access_userD(2) [OF u]
  have items: "map pd_item ds = PERMISSION_CATALOG" by (simp add: ds detail_of_def Let_def o_def)
  have eff: "pd_isEffective d \<longleftrightarrow> pc_code (pd_item d) \<in> set (detail_effective_set u db)" if "d \<in> set ds" for d
    using that by (auto simp: ds detail_of_def Let_def)
  have "distinct (fold (\<lambda>c ps. case f c of Some GRANT \<Rightarrow> set_add c ps | Some REVOKE \<Rightarrow> set_delete c ps | None \<Rightarrow> ps) cs ps)"
    if "distinct ps" for f and cs ps :: "string list"
    using that by (induction cs arbitrary: ps) (auto split: option.split PermissionOverrideEffect.split)
  then have "distinct (detail_effective_set u db)"
    unfolding detail_effective_set_def by (simp add: distinct_fold_add)
  then have card: "n = card (set (detail_effective_set u db))" by (simp add: n distinct_card)
  have held: "pc_code (pd_item d) \<in> set all_codes" if "d \<in> set ds" for d
    using that items by (metis all_codes_def image_eqI image_set)
  have ordinary: "set (detail_effective_set u db) = set (compute_permissions u db)" if "\<not> is_admin_role (au_role u)"
    using that by (simp add: set_detail_effective [OF assms(1)] compute_set [OF assms(1)])
  have admin: "set (detail_effective_set u db) = {} \<and> compute_permissions u db = all_codes"
    if "is_admin_role (au_role u)" "roles = []" "overrides_of_user k db = []"
    using that roles k by (auto simp: set_detail_effective [OF assms(1)] is_admin_role_def compute_permissions_def)
  show ?thesis using items eff card held ordinary admin by simp
qed

theorem overview_agrees_witness:
  "getUserEffectivePermissionsDetail ''t'' ''admin'' school_access \<noteq> Inl (NotFound ''user'')
   \<and> (\<exists>r :: User \<times> id list \<times> nat \<times> permission_detail list. getUserEffectivePermissionsDetail ''t'' ''admin'' school_access = Inr r
        \<and> (\<forall>d \<in> set (snd (snd (snd r))). \<not> pd_isEffective d))"
proof -
  have r: "getUserEffectivePermissionsDetail ''t'' ''admin'' school_access =
     Inr (school_user ''admin'' SCHOOL_ADMIN, [], 0, map (detail_of (school_user ''admin'' SCHOOL_ADMIN) school_access) PERMISSION_CATALOG)"
    by (simp add: getUserEffectivePermissionsDetail_def access_user_def school_access_def school_user_def roles_of_user_def
        detail_effective_set_def override_codes_def overrides_of_user_def school_override_def)
  moreover have "overrides_of_user ''admin'' school_access = []"
    by (simp add: overrides_of_user_def school_access_def school_override_def)
  ultimately show ?thesis
    using overview_agrees [OF school_access_inv r] by (auto simp: school_user_def is_admin_role_def)
qed

text \<open>Removing an override of a user does not change what anybody may do: a grant that was removed is still
  held at the next look, because the removal only marks the row and the permissions do not read the mark.\<close>

theorem removed_grant_still_held:
  assumes "access_inv db" and "access_user t k db = Some u" and "\<not> is_admin_role (au_role u)"
    and "find (is_override t k c) (permissionOverrides db) = Some ov" and "ov_effect ov = GRANT"
    and "removeUserOverride t a k c e db = Inr db'"
  shows "(\<forall>v. compute_permissions v db' = compute_permissions v db)
    \<and> (\<exists>d. \<exists>ov' \<in> set (permissionOverrides db'). ov_id ov' = ov_id ov \<and> ov_deletedAt ov' = Some d)
    \<and> c \<in> set (fst (getUserPermissions t k e' db'))"
proof -
  let ?db1 = "stamp_override (ov_id ov) (Some (now e)) db"
  from assms(4,6) have db': "db' = record_audit (t, a, ''REMOVE_PERMISSION_OVERRIDE'', ''UserPermissionOverride'', ov_id ov)
      (invalidateUserPermissionsCache t k ?db1)" by (simp add: removeUserOverride_def)
  have same: "compute_permissions v db' = compute_permissions v db" for v by (simp add: db' compute_frames)
  note ov = find_Some_iff_mem [OF assms(4)]
  have "ov\<lparr>ov_deletedAt := Some (now e)\<rparr> \<in> set (permissionOverrides db')"
    using ov by (force simp: db' record_audit_def invalidateUserPermissionsCache_def stamp_override_def set_update_row)
  then have marked: "\<exists>d. \<exists>ov' \<in> set (permissionOverrides db'). ov_id ov' = ov_id ov \<and> ov_deletedAt ov' = Some d"
    by (intro exI [of _ "now e"] bexI [where x = "ov\<lparr>ov_deletedAt := Some (now e)\<rparr>"]) simp_all
  have held: "c \<in> codes_with GRANT (overrides_of_user (au_id u) db)"
    using ov assms(5) access_userD(2) [OF assms(2)] by (auto simp: codes_with_def overrides_of_user_def is_override_def)
  have "c \<notin> codes_with REVOKE (overrides_of_user (au_id u) db)"
    using held override_of_Some [OF override_codes_distinct [OF assms(1)]] by (metis PermissionOverrideEffect.distinct(1) option.inject)
  with held have "c \<in> set (compute_permissions u db)" by (simp add: compute_set [OF assms(1,3)])
  moreover have "access_entry db' (t, k) = None"
    using access_inv_keys(3) [OF assms(1)] by (simp add: db' invalidate_entry)
  moreover have "access_user t k db' = Some u"
    using assms(2) by (simp add: db' record_audit_def invalidateUserPermissionsCache_def)
  ultimately show ?thesis using marked same by (simp add: get_permissions_miss)
qed

theorem removed_grant_still_held_witness:
  "\<exists>db' :: access_db. removeUserOverride ''t'' ''admin'' ''teacher'' ''coach.read'' school_env school_access = Inr db'
     \<and> ''coach.read'' \<in> set (fst (getUserPermissions ''t'' ''teacher'' school_env db'))"
proof -
  have f: "find (is_override ''t'' ''teacher'' ''coach.read'') (permissionOverrides school_access) = Some (school_override ''o1'' ''coach.read'' GRANT)"
    by (simp add: school_access_def is_override_def school_override_def)
  then obtain db' where r: "removeUserOverride ''t'' ''admin'' ''teacher'' ''coach.read'' school_env school_access = Inr db'"
    by (simp add: removeUserOverride_def)
  have "\<not> is_admin_role (au_role (school_user ''teacher'' TEACHER))" "ov_effect (school_override ''o1'' ''coach.read'' GRANT) = GRANT"
    by (simp_all add: school_user_def school_override_def is_admin_role_def)
  with r removed_grant_still_held [OF school_access_inv school_access_teacher _ f _ r, of school_env] show ?thesis by blast
qed

text \<open>C19: Whatever somebody who is no administrator of the tenant does with role assignments, overrides, the deletion or restoration of
  roles and overrides, nobody gains the permission to manage access control; for the removal and restoration of overrides and the restoration of
  roles this is so only because the code still counts what was removed: by the documentation, where removed overrides and
  deleted roles no longer count, it holds of all these requests but those three, which have no guard.\<close>

theorem rbac_manage_guarded:
  assumes "access_inv db" and "guarded_request r db" and "access_serve r db = Inr db'"
  shows "(''rbac.manage'' \<in> set (compute_permissions u db') \<longrightarrow> ''rbac.manage'' \<in> set (compute_permissions u db))
    \<and> (\<not> undoes_removal r \<longrightarrow> ''rbac.manage'' \<in> set (documented_permissions u db')
         \<longrightarrow> ''rbac.manage'' \<in> set (documented_permissions u db))"
  using guarded_request_harmless [OF assms] guarded_request_documented [OF assms] by blast

definition school_granted :: access_db where
  "school_granted = school_access\<lparr>permissionOverrides := [school_override ''o1'' ''rbac.manage'' GRANT]\<rparr>"

lemma school_granted_inv: "access_inv school_granted"
  by (simp add: access_inv_def school_granted_def school_access_def school_user_def school_override_def)

theorem rbac_manage_guarded_witness:
  "\<exists>db' :: access_db. access_serve (SyncUserRoles ''t'' ''clerk'' ''teacher'' [] school_env) school_granted = Inr db'
     \<and> ''rbac.manage'' \<in> set (compute_permissions (school_user ''teacher'' TEACHER) school_granted)"
proof -
  let ?r = "SyncUserRoles ''t'' ''clerk'' ''teacher'' [] school_env"
  let ?db' = "record_audit (''t'', ''clerk'', ''SYNC_USER_ROLES'', ''User'', ''teacher'')
    (invalidateUserPermissionsCache ''t'' ''teacher'' (assign_roles ''t'' ''teacher'' [] school_granted))"
  have run: "access_serve ?r school_granted = Inr ?db'"
    by (simp add: syncUserRoles_def access_user_def school_granted_def school_access_def school_user_def Let_def)
  have g: "guarded_request ?r school_granted"
    by (simp add: senior_def access_user_def school_granted_def school_access_def school_user_def is_admin_role_def)
  have "''rbac.manage'' \<in> set (compute_permissions (school_user ''teacher'' TEACHER) (assign_roles ''t'' ''teacher'' [] school_granted))"
    by (simp add: compute_permissions_def assign_roles_def school_granted_def school_access_def school_user_def
        school_override_def is_admin_role_def roles_of_user_def overrides_of_user_def apply_override_def)
  then have "''rbac.manage'' \<in> set (compute_permissions (school_user ''teacher'' TEACHER) ?db')" by (simp add: compute_frames)
  with rbac_manage_guarded [OF school_granted_inv g run] run show ?thesis by blast
qed




text \<open>The guard rail does not cover the update of a role: whoever may call it gives \<open>rbac.manage\<close> to every
  ordinary holder of the role who has no revocation of it, the caller included.\<close>

theorem update_role_grants_rbac_manage:
  assumes "access_inv db" and "updateRole t a r dto e db = Inr db'"
    and "us_permissionCodes dto = Some codes" and "''rbac.manage'' \<in> set codes"
    and "''rbac.manage'' \<in> set (map pm_code (permissionRows db))"
    and "u \<in> set (accessUsers db)" and "r \<in> set (roles_of_user (au_id u) db)" and "\<not> is_admin_role (au_role u)"
    and "''rbac.manage'' \<notin> set (map ov_permissionCode (filter (\<lambda>ov. ov_effect ov = REVOKE) (overrides_of_user (au_id u) db)))"
    and "distinct (map pm_id (permissionRows db))"
  shows "''rbac.manage'' \<in> set (compute_permissions u db')"
proof -
  define f where "f = (\<lambda>x. x\<lparr>sr_name := (if truthy (us_name dto) then trim (str_or (us_name dto) '''') else sr_name x),
    sr_description := keep_undefined (map_option trim (us_description dto)) (sr_description x)\<rparr> :: SchoolRole)"
  let ?db1 = "update_role_row r f db"
  let ?ps = "permissions_with_codes codes ?db1"
  let ?db2 = "set_role_permissions r ?ps ?db1"
  from assms(2,3) have db': "db' = record_audit (t, a, ''UPDATE_ROLE'', ''SchoolRole'', r)
      (fold (invalidateUserPermissionsCache t) (users_of_role r db) ?db2)"
    unfolding updateRole_def Let_def set_role_permissions_def f_def [symmetric] by (auto split: option.splits if_splits)
  have fold_compute: "compute_permissions u (fold (invalidateUserPermissionsCache t) ks d) = compute_permissions u d" for ks d
    by (induction ks arbitrary: d) (simp_all add: compute_frames)
  obtain p where p: "p \<in> set (permissionRows db)" "pm_code p = ''rbac.manage''" using assms(5) by auto
  have rows: "permissionRows ?db2 = permissionRows db" "permissionRows ?db1 = permissionRows db"
    by (simp_all add: set_role_permissions_def grant_to_role_def clear_role_def update_role_row_def)
  have found: "find (\<lambda>q. pm_id q = pm_id p) (permissionRows db) = Some p"
    using distinct_find [OF assms(10) p(1)] by (simp add: find_row_def)
  have inv2: "access_inv ?db2"
    using updateRole_step(1) [OF assms(1,2)] by (simp add: db' fold_invalidate)
  have same: "overrides_of_user (au_id u) ?db2 = overrides_of_user (au_id u) db"
    "roles_of_user (au_id u) ?db2 = roles_of_user (au_id u) db" by simp_all
  have "''rbac.manage'' \<in> set (role_codes r ?db2)"
  proof -
    have "\<lparr>rp_schoolRoleId = r, rp_permissionId = pm_id p\<rparr> \<in> set (rolePermissions ?db2)"
      using p assms(4) by (force simp: set_role_permissions_def grant_to_role_def permissions_with_codes_def rows)
    then show ?thesis using found p(2) by (force simp: role_codes_def rows)
  qed
  with assms(7,9) show ?thesis
    by (auto simp: db' compute_frames fold_compute compute_rbac_manage [OF inv2 assms(8)] same codes_with_filter)
qed

theorem update_role_grants_rbac_manage_witness:
  "\<exists>db' :: access_db. updateRole ''t'' ''teacher'' ''r1''
       \<lparr>us_name = None, us_description = None, us_permissionCodes = Some [''rbac.manage'']\<rparr> school_env school_access = Inr db'
     \<and> ''rbac.manage'' \<in> set (compute_permissions (school_user ''teacher'' TEACHER) db')"
proof -
  let ?dto = "\<lparr>us_name = None, us_description = None, us_permissionCodes = Some [''rbac.manage'']\<rparr>"
  have "find_role ''t'' ''r1'' school_access = Some (hd (schoolRoles school_access))"
    by (simp add: find_role_def school_access_def)
  then obtain db' where r: "updateRole ''t'' ''teacher'' ''r1'' ?dto school_env school_access = Inr db'"
    by (simp add: updateRole_def Let_def)
  have "''rbac.manage'' \<in> set (compute_permissions (school_user ''teacher'' TEACHER) db')"
    by (rule update_role_grants_rbac_manage [OF school_access_inv r, where codes = "[''rbac.manage'']"])
      (simp_all add: school_access_def school_user_def roles_of_user_def overrides_of_user_def school_override_def is_admin_role_def)
  with r show ?thesis by blast
qed

text \<open>The service with its cache refines the service without: after any requests but the creation of a role
  a look at the permissions of a user returns what the tables say at that moment, whether it is cached or not.\<close>

theorem cache_refines_tables:
  assumes "access_inv db" and "access.coherent db" and "list_all invalidates rs"
    and "foldE access_serve rs db = Inr db'"
  shows "fst (getUserPermissions t k e db') = (case access_user t k db' of None \<Rightarrow> [] | Some u \<Rightarrow> compute_permissions u db')"
  by (rule get_permissions_hit_or_computed)
    (use access.coherentD [OF access.run_coherent [OF assms]] in blast)

definition school_requests :: "access_request list" where
  "school_requests = [GetUserPermissions ''t'' ''teacher'' school_env,
     UpdateRole ''t'' ''admin'' ''r1'' \<lparr>us_name = None, us_description = None, us_permissionCodes = Some []\<rparr> school_env]"

theorem cache_refines_tables_witness:
  "\<exists>db' :: access_db. foldE access_serve school_requests school_access = Inr db'
     \<and> fst (getUserPermissions ''t'' ''teacher'' school_env db')
       = (case access_user ''t'' ''teacher'' db' of None \<Rightarrow> [] | Some u \<Rightarrow> compute_permissions u db')"
proof -
  have "schoolRoles (snd (getUserPermissions ''t'' ''teacher'' school_env school_access)) = schoolRoles school_access"
    by (rule get_permissions_tables)
  then have "find_role ''t'' ''r1'' (snd (getUserPermissions ''t'' ''teacher'' school_env school_access)) \<noteq> None"
    by (simp add: find_role_def school_access_def)
  then obtain db' where r: "foldE access_serve school_requests school_access = Inr db'"
    by (auto simp: school_requests_def updateRole_def Let_def)
  have "list_all invalidates school_requests" by (simp add: school_requests_def)
  with r cache_refines_tables [OF school_access_inv school_access_coherent _ r] show ?thesis by blast
qed

text \<open>With a coherent cache the guard of a route that asks for permissions lets exactly those through who
  are administrators or staff by their token, or who hold every permission asked for.\<close>

theorem permissions_guard_decides:
  assumes "access.coherent db" and "required \<noteq> []"
  shows "(\<exists>db'. permissionsGuard required (Some ru) tenant e db = Inr db') \<longleftrightarrow>
    rq_isPlatformAdmin ru \<or> rq_role ru \<in> {SUPER_ADMIN, SCHOOL_ADMIN, STAFF}
    \<or> (\<exists>t. js_or tenant (rq_tenantId ru) = Some t \<and> t \<noteq> []
        \<and> (\<exists>u. access_user t (rq_id ru) db = Some u \<and> set required \<subseteq> set (compute_permissions u db)))"
proof -
  have look: "fst (getUserPermissions t k e db) = (case access_user t k db of None \<Rightarrow> [] | Some u \<Rightarrow> compute_permissions u db)" for t k
    by (rule get_permissions_hit_or_computed) (use access.coherentD [OF assms(1)] in blast)
  have "list_all (\<lambda>p. p \<in> set (fst (getUserPermissions t k e db))) required \<longleftrightarrow>
      (\<exists>u. access_user t k db = Some u \<and> set required \<subseteq> set (compute_permissions u db))" for t k
    using assms(2) by (cases "access_user t k db"; cases required) (auto simp: look list_all_iff)
  then show ?thesis
    using assms(2) by (auto simp: permissionsGuard_def Let_def split_beta split: option.splits list.splits)
qed

theorem permissions_guard_decides_witness:
  "\<not> (\<exists>db'. permissionsGuard [''exam.write''] (Some \<lparr>rq_id = ''teacher'', rq_role = TEACHER, rq_isPlatformAdmin = False,
       rq_tenantId = Some ''t''\<rparr>) None school_env school_access = Inr db')"
  by (subst permissions_guard_decides [OF school_access_coherent])
    (simp_all add: school_access_teacher compute_set [OF school_access_inv], simp add: school_user_def is_admin_role_def
      compute_permissions_def overrides_of_user_def school_access_def school_override_def apply_override_def)

end
