(* ===== verification/Club_Model.thy ===== *)
theory Club_Model
  imports Rbac
begin

text \<open>
  The business club of a school (\<open>modules/club/club.service.ts\<close>): the tables, and the operations of the
  students.  The long Persian texts of the entrance challenges are replaced by short keys, a JSON value by
  the part the service looks into: the attachments of a submission are an opaque rest and, when it is an
  array, the list \<open>reports\<close>.  Foreign keys to tenants and lessons are not modelled.
\<close>

section \<open>Tables\<close>

datatype ClubDepartment = ENGINEER | ARTIST | JACK_OF_ALL_TRADES

datatype ClubGrade = GRADE_A | GRADE_B | GRADE_C

datatype ClubMembershipStatus = CM_LOCKED | CM_IN_ROADMAP | CM_ACTIVE_MEMBER | CM_STUDIO_READY | CM_SUSPENDED

datatype ClubMilestoneType = TEACHER_APPROVAL | PLACEMENT_CHALLENGE | ADMIN_CHECKLIST | LESSON_GRADE

datatype ClubMilestoneStatus = MS_PENDING | MS_APPROVED | MS_REJECTED

datatype ClubChallengeType = PLACEMENT | GRADE_UPGRADE | MONTHLY_MISSION

datatype ClubSubmissionStatus = CS_IN_PROGRESS | CS_SUBMITTED | CS_GRADED | CS_EXPIRED

record ClubMembership =
  cm_id :: id
  cm_tenantId :: id
  cm_userId :: id
  cm_status :: ClubMembershipStatus
  cm_department :: "ClubDepartment option"
  cm_grade :: "ClubGrade option"
  cm_joinedAt :: "time option"
  cm_promotedToGradeAAt :: "time option"
  cm_adminNotes :: "string option"

record ClubRoadmapMilestone =
  ml_id :: id
  ml_tenantId :: id
  ml_title :: string
  ml_orderIndex :: int
  ml_weight :: int
  ml_type :: ClubMilestoneType
  ml_lessonId :: "id option"
  ml_isRequired :: bool

text \<open>A note is written by somebody, or by the grading of a placement challenge with its score and title.\<close>

datatype milestone_note = NoteText string | AutoApproved rat string

record ClubStudentMilestoneProgress =
  mp_id :: id
  mp_tenantId :: id
  mp_milestoneId :: id
  mp_studentId :: id
  mp_status :: ClubMilestoneStatus
  mp_approvedAt :: "time option"
  mp_approvedById :: "id option"
  mp_notes :: "milestone_note option"

record ClubChallenge =
  ch_id :: id
  ch_tenantId :: id
  ch_title :: string
  ch_slug :: string
  ch_description :: string
  ch_missionBrief :: string
  ch_rules :: "string option"
  ch_department :: ClubDepartment
  ch_type :: ClubChallengeType
  ch_minGrade :: "ClubGrade option"
  ch_maxDays :: int
  ch_maxScore :: int
  ch_isPublished :: bool

record ClubSubmissionReport =
  cr_id :: id
  cr_tenantId :: id
  cr_submissionId :: id
  cr_studentId :: id
  cr_reportDate :: time
  cr_title :: string
  cr_content :: string
  cr_workDuration :: "int option"

type_synonym submission_attachments = "string \<times> ClubSubmissionReport list option"

record ClubChallengeSubmission =
  su_id :: id
  su_tenantId :: id
  su_challengeId :: id
  su_studentId :: id
  su_status :: ClubSubmissionStatus
  su_startedAt :: time
  su_submittedAt :: "time option"
  su_deadlineAt :: time
  su_repositoryUrl :: "string option"
  su_figmaUrl :: "string option"
  su_demoUrl :: "string option"
  su_submissionNotes :: "string option"
  su_attachments :: "submission_attachments option"
  su_score :: "rat option"
  su_feedback :: "string option"
  su_awardedGrade :: "ClubGrade option"
  su_gradedAt :: "time option"
  su_gradedById :: "id option"

text \<open>The lessons of a teacher are those of the profile; an account without a profile has no entry.\<close>

record club_db =
  clubUsers :: "User list"
  clubTeacherLessons :: "(id \<times> id list) list"
  clubMemberships :: "ClubMembership list"
  clubMilestones :: "ClubRoadmapMilestone list"
  milestoneProgress :: "ClubStudentMilestoneProgress list"
  clubChallenges :: "ClubChallenge list"
  clubSubmissions :: "ClubChallengeSubmission list"
  clubReports :: "ClubSubmissionReport list"

definition club_user_exists :: "id \<Rightarrow> club_db \<Rightarrow> bool" where
  "club_user_exists userId db \<longleftrightarrow> userId \<in> set (map au_id (clubUsers db))"

definition create_membership :: "ClubMembership \<Rightarrow> club_db \<Rightarrow> http_error + club_db" where
  "create_membership m db =
     (if cm_userId m \<in> set (map cm_userId (clubMemberships db)) then Inl (UniqueViolation ''ClubMembership.userId'')
      else if \<not> club_user_exists (cm_userId m) db then Inl (ForeignKeyViolation ''ClubMembership.userId'')
      else Inr (db\<lparr>clubMemberships := clubMemberships db @ [m]\<rparr>))"

definition create_submission :: "ClubChallengeSubmission \<Rightarrow> club_db \<Rightarrow> http_error + club_db" where
  "create_submission s db =
     (if su_id s \<in> set (map su_id (clubSubmissions db)) then Inl (UniqueViolation ''ClubChallengeSubmission.id'')
      else if su_challengeId s \<notin> set (map ch_id (clubChallenges db)) then Inl (ForeignKeyViolation ''ClubChallengeSubmission.challengeId'')
      else if \<not> club_user_exists (su_studentId s) db then Inl (ForeignKeyViolation ''ClubChallengeSubmission.studentId'')
      else Inr (db\<lparr>clubSubmissions := clubSubmissions db @ [s]\<rparr>))"

definition create_challenge :: "ClubChallenge \<Rightarrow> club_db \<Rightarrow> http_error + club_db" where
  "create_challenge c db =
     (if ch_id c \<in> set (map ch_id (clubChallenges db)) then Inl (UniqueViolation ''ClubChallenge.id'')
      else if ch_slug c \<in> set (map ch_slug (clubChallenges db)) then Inl (UniqueViolation ''ClubChallenge.slug'')
      else Inr (db\<lparr>clubChallenges := clubChallenges db @ [c]\<rparr>))"

definition progress_key :: "ClubStudentMilestoneProgress \<Rightarrow> id \<times> id \<times> id" where
  "progress_key p = (mp_tenantId p, mp_studentId p, mp_milestoneId p)"

definition create_progress :: "ClubStudentMilestoneProgress \<Rightarrow> club_db \<Rightarrow> http_error + club_db" where
  "create_progress p db =
     (if progress_key p \<in> set (map progress_key (milestoneProgress db)) then Inl (UniqueViolation ''ClubStudentMilestoneProgress'')
      else if mp_milestoneId p \<notin> set (map ml_id (clubMilestones db)) then Inl (ForeignKeyViolation ''ClubStudentMilestoneProgress.milestoneId'')
      else if \<not> club_user_exists (mp_studentId p) db then Inl (ForeignKeyViolation ''ClubStudentMilestoneProgress.studentId'')
      else Inr (db\<lparr>milestoneProgress := milestoneProgress db @ [p]\<rparr>))"

definition blank_membership :: "id \<Rightarrow> id \<Rightarrow> id \<Rightarrow> ClubMembership" where
  "blank_membership i tenantId userId = \<lparr>cm_id = i, cm_tenantId = tenantId, cm_userId = userId, cm_status = CM_IN_ROADMAP,
     cm_department = None, cm_grade = None, cm_joinedAt = None, cm_promotedToGradeAAt = None, cm_adminNotes = None\<rparr>"

section \<open>The portal of a student\<close>

definition find_membership :: "id \<Rightarrow> club_db \<Rightarrow> ClubMembership option" where
  "find_membership userId db = find (\<lambda>m. cm_userId m = userId) (clubMemberships db)"

definition ordered_milestones :: "id \<Rightarrow> club_db \<Rightarrow> ClubRoadmapMilestone list" where
  "ordered_milestones tenantId db =
     sort_by (\<lambda>a b. ml_orderIndex a \<le> ml_orderIndex b) (filter (\<lambda>m. ml_tenantId m = tenantId) (clubMilestones db))"

text \<open>The quotient of two small integers, rounded half up, at most a hundred.\<close>

definition progress_percent :: "int \<Rightarrow> int \<Rightarrow> int" where
  "progress_percent completedWeight totalWeight =
     (if totalWeight > 0 then min 100 \<lfloor>of_int completedWeight / of_int totalWeight * 100 + (1 / 2 :: rat)\<rfloor> else 0)"

definition progress_on :: "id \<Rightarrow> id \<Rightarrow> id \<Rightarrow> club_db \<Rightarrow> ClubStudentMilestoneProgress option" where
  "progress_on tenantId userId milestoneId db =
     find (\<lambda>p. mp_milestoneId p = milestoneId)
       (rev (filter (\<lambda>p. mp_tenantId p = tenantId \<and> mp_studentId p = userId) (milestoneProgress db)))"

definition is_approved :: "ClubStudentMilestoneProgress option \<Rightarrow> bool" where
  "is_approved p \<longleftrightarrow> (case p of None \<Rightarrow> False | Some q \<Rightarrow> mp_status q = MS_APPROVED)"

definition submissions_of :: "id \<Rightarrow> id \<Rightarrow> club_db \<Rightarrow> ClubChallengeSubmission list" where
  "submissions_of tenantId userId db = filter (\<lambda>s. su_tenantId s = tenantId \<and> su_studentId s = userId) (clubSubmissions db)"

definition active_submissions :: "id \<Rightarrow> id \<Rightarrow> club_db \<Rightarrow> ClubChallengeSubmission list" where
  "active_submissions tenantId userId db = filter (\<lambda>s. su_status s = CS_IN_PROGRESS) (submissions_of tenantId userId db)"

record club_status =
  cs_membership :: ClubMembership
  cs_roadmap :: "(ClubRoadmapMilestone \<times> ClubStudentMilestoneProgress option) list"
  cs_progressPercentage :: int
  cs_activeSubmissions :: "ClubChallengeSubmission list"
  cs_recentSubmissions :: "ClubChallengeSubmission list"
  cs_canStartNewChallenge :: bool
  cs_isStudioReady :: bool

definition status_view :: "id \<Rightarrow> id \<Rightarrow> ClubMembership \<Rightarrow> club_db \<Rightarrow> club_status" where
  "status_view userId tenantId m db =
     (let roadmap = map (\<lambda>x. (x, progress_on tenantId userId (ml_id x) db)) (ordered_milestones tenantId db);
          totalWeight = sum_list (map (ml_weight \<circ> fst) roadmap);
          completedWeight = sum_list (map (ml_weight \<circ> fst) (filter (is_approved \<circ> snd) roadmap));
          active = active_submissions tenantId userId db
      in \<lparr>cs_membership = m, cs_roadmap = roadmap, cs_progressPercentage = progress_percent completedWeight totalWeight,
          cs_activeSubmissions = active, cs_recentSubmissions = take 5 (rev (submissions_of tenantId userId db)),
          cs_canStartNewChallenge = (length active < 2), cs_isStudioReady = (cm_grade m = Some GRADE_A)\<rparr>)"

definition getMyClubStatus :: "id \<Rightarrow> id \<Rightarrow> env \<Rightarrow> club_db \<Rightarrow> http_error + club_status \<times> club_db" where
  "getMyClubStatus userId tenantId e db =
     (case find_membership userId db of
        Some m \<Rightarrow> Inr (status_view userId tenantId m db, db)
      | None \<Rightarrow> (let m = blank_membership (uuid e 0) tenantId userId
          in bindE (create_membership m db) (\<lambda>db1. Inr (status_view userId tenantId m db1, db1))))"

section \<open>Challenges\<close>

definition challenge_rank :: "ClubChallengeType \<Rightarrow> nat" where
  "challenge_rank t = (case t of PLACEMENT \<Rightarrow> 0 | GRADE_UPGRADE \<Rightarrow> 1 | MONTHLY_MISSION \<Rightarrow> 2)"

definition latest_submission :: "id \<Rightarrow> id \<Rightarrow> club_db \<Rightarrow> ClubChallengeSubmission option" where
  "latest_submission challengeId userId db =
     find (\<lambda>s. su_challengeId s = challengeId \<and> su_studentId s = userId) (rev (clubSubmissions db))"

definition in_status :: "ClubSubmissionStatus \<Rightarrow> ClubChallengeSubmission option \<Rightarrow> bool" where
  "in_status st s \<longleftrightarrow> (case s of None \<Rightarrow> False | Some x \<Rightarrow> su_status x = st)"

text \<open>The number of active challenges, whether another may start, and for each challenge the latest
  submission, whether it is running and whether it is graded.\<close>

definition getChallenges :: "id \<Rightarrow> id \<Rightarrow> ClubDepartment option \<Rightarrow> club_db
    \<Rightarrow> nat \<times> bool \<times> (ClubChallenge \<times> ClubChallengeSubmission option \<times> bool \<times> bool) list" where
  "getChallenges userId tenantId department db =
     (let cs = sort_by (\<lambda>a b. challenge_rank (ch_type a) \<le> challenge_rank (ch_type b))
            (rev (filter (\<lambda>c. ch_tenantId c = tenantId \<and> ch_isPublished c
               \<and> (case department of None \<Rightarrow> True | Some d \<Rightarrow> ch_department c = d)) (clubChallenges db)));
          activeCount = length (active_submissions tenantId userId db)
      in (activeCount, activeCount < 2,
          map (\<lambda>c. let s = latest_submission (ch_id c) userId db in (c, s, in_status CS_IN_PROGRESS s, in_status CS_GRADED s)) cs))"

definition getChallengeById :: "id \<Rightarrow> id \<Rightarrow> id \<Rightarrow> club_db
    \<Rightarrow> http_error + ClubChallenge \<times> ClubChallengeSubmission option \<times> nat \<times> bool" where
  "getChallengeById i userId tenantId db =
     (case find (\<lambda>c. ch_id c = i \<and> ch_tenantId c = tenantId) (clubChallenges db) of
        None \<Rightarrow> Inl (NotFound ''challenge'')
      | Some c \<Rightarrow> (let s = latest_submission i userId db; activeCount = length (active_submissions tenantId userId db)
          in Inr (c, s, activeCount, activeCount < 2 \<and> \<not> in_status CS_IN_PROGRESS s)))"

definition new_submission :: "id \<Rightarrow> id \<Rightarrow> id \<Rightarrow> id \<Rightarrow> time \<Rightarrow> time \<Rightarrow> ClubChallengeSubmission" where
  "new_submission i tenantId challengeId userId startedAt deadlineAt =
     \<lparr>su_id = i, su_tenantId = tenantId, su_challengeId = challengeId, su_studentId = userId, su_status = CS_IN_PROGRESS,
      su_startedAt = startedAt, su_submittedAt = None, su_deadlineAt = deadlineAt, su_repositoryUrl = None, su_figmaUrl = None,
      su_demoUrl = None, su_submissionNotes = None, su_attachments = None, su_score = None, su_feedback = None,
      su_awardedGrade = None, su_gradedAt = None, su_gradedById = None\<rparr>"

definition day_ms :: time where
  "day_ms = 24 * 60 * 60 * 1000"

definition startChallenge :: "id \<Rightarrow> id \<Rightarrow> id \<Rightarrow> env \<Rightarrow> club_db \<Rightarrow> http_error + ClubChallengeSubmission \<times> club_db" where
  "startChallenge challengeId userId tenantId e db =
     (case find (\<lambda>c. ch_id c = challengeId \<and> ch_tenantId c = tenantId \<and> ch_isPublished c) (clubChallenges db) of
        None \<Rightarrow> Inl (NotFound ''challenge'')
      | Some c \<Rightarrow>
          if length (active_submissions tenantId userId db) \<ge> 2 then Inl (BadRequest ''two challenges are active'')
          else (case find (\<lambda>s. su_challengeId s = challengeId) (active_submissions tenantId userId db) of
              Some s \<Rightarrow> Inr (s, db)
            | None \<Rightarrow> (let s = new_submission (uuid e 0) tenantId challengeId userId (now e) (now e + ch_maxDays c * day_ms)
                in bindE (create_submission s db) (\<lambda>db1. Inr (s, db1)))))"

record SubmitChallengeDto =
  sc_repositoryUrl :: "string option"
  sc_figmaUrl :: "string option"
  sc_demoUrl :: "string option"
  sc_submissionNotes :: "string option"
  sc_attachments :: "submission_attachments option"

definition update_submission :: "id \<Rightarrow> (ClubChallengeSubmission \<Rightarrow> ClubChallengeSubmission) \<Rightarrow> club_db \<Rightarrow> club_db" where
  "update_submission i f db = db\<lparr>clubSubmissions := update_row su_id i f (clubSubmissions db)\<rparr>"

definition submitted :: "SubmitChallengeDto \<Rightarrow> time \<Rightarrow> ClubChallengeSubmission \<Rightarrow> ClubChallengeSubmission" where
  "submitted dto t s = s\<lparr>su_status := CS_SUBMITTED, su_submittedAt := Some t,
     su_repositoryUrl := keep_undefined (sc_repositoryUrl dto) (su_repositoryUrl s),
     su_figmaUrl := keep_undefined (sc_figmaUrl dto) (su_figmaUrl s),
     su_demoUrl := keep_undefined (sc_demoUrl dto) (su_demoUrl s),
     su_submissionNotes := keep_undefined (sc_submissionNotes dto) (su_submissionNotes s),
     su_attachments := keep_undefined (sc_attachments dto) (su_attachments s)\<rparr>"

definition submitChallenge :: "id \<Rightarrow> id \<Rightarrow> id \<Rightarrow> SubmitChallengeDto \<Rightarrow> env \<Rightarrow> club_db \<Rightarrow> http_error + club_db" where
  "submitChallenge challengeId userId tenantId dto e db =
     (case find (\<lambda>s. su_challengeId s = challengeId) (active_submissions tenantId userId db) of
        None \<Rightarrow> Inl (BadRequest ''no active challenge'')
      | Some s \<Rightarrow> Inr (update_submission (su_id s) (submitted dto (now e)) db))"

end
