(* ===== verification/Club.thy ===== *)
theory Club
  imports Club_Model
begin

text \<open>
  The business club: the approvals of teachers, the administration of members, milestones and challenges,
  the grading, and the entrance challenges with their progress reports.
\<close>

section \<open>Approvals of teachers\<close>

definition lessons_of_teacher :: "id \<Rightarrow> club_db \<Rightarrow> id list" where
  "lessons_of_teacher userId db = (case find (\<lambda>p. fst p = userId) (clubTeacherLessons db) of None \<Rightarrow> [] | Some p \<Rightarrow> snd p)"

definition getTeacherPendingApprovals :: "id \<Rightarrow> id \<Rightarrow> club_db \<Rightarrow> ClubStudentMilestoneProgress list" where
  "getTeacherPendingApprovals teacherUserId tenantId db =
     (let lessonIds = lessons_of_teacher teacherUserId db;
          ofTenant = filter (\<lambda>m. ml_tenantId m = tenantId \<and> ml_type m = TEACHER_APPROVAL) (clubMilestones db);
          own = filter (\<lambda>m. lessonIds \<noteq> [] \<longrightarrow> (case ml_lessonId m of None \<Rightarrow> True | Some l \<Rightarrow> l \<in> set lessonIds)) ofTenant;
          milestoneIds = map ml_id (if own = [] then ofTenant else own)
      in rev (filter (\<lambda>p. mp_tenantId p = tenantId \<and> mp_milestoneId p \<in> set milestoneIds) (milestoneProgress db)))"

record TeacherApprovalDto =
  ta_status :: ClubMilestoneStatus
  ta_notes :: "string option"

definition update_progress :: "id \<Rightarrow> (ClubStudentMilestoneProgress \<Rightarrow> ClubStudentMilestoneProgress) \<Rightarrow> club_db \<Rightarrow> club_db" where
  "update_progress i f db = db\<lparr>milestoneProgress := update_row mp_id i f (milestoneProgress db)\<rparr>"

definition submitTeacherApproval :: "id \<Rightarrow> id \<Rightarrow> id \<Rightarrow> TeacherApprovalDto \<Rightarrow> env \<Rightarrow> club_db \<Rightarrow> http_error + club_db" where
  "submitTeacherApproval progressId teacherUserId tenantId dto e db =
     (case find (\<lambda>p. mp_id p = progressId \<and> mp_tenantId p = tenantId) (milestoneProgress db) of
        None \<Rightarrow> Inl (NotFound ''approval'')
      | Some _ \<Rightarrow> Inr (update_progress progressId (\<lambda>p. p\<lparr>mp_status := TeacherApprovalDto.ta_status dto,
          mp_notes := keep_undefined (map_option NoteText (ta_notes dto)) (mp_notes p),
          mp_approvedAt := Some (now e), mp_approvedById := Some teacherUserId\<rparr>) db))"

section \<open>Members\<close>

text \<open>The filters for department and grade are accepted and not used.\<close>

record member_filter =
  mf_department :: "ClubDepartment option"
  mf_grade :: "ClubGrade option"
  mf_search :: "string option"

record club_member =
  mb_user :: User
  mb_membership :: "ClubMembership option"
  mb_progressPercentage :: int
  mb_completedMilestonesCount :: nat
  mb_totalMilestonesCount :: nat
  mb_recentSubmissions :: "ClubChallengeSubmission list"

definition milestone_weight :: "id \<Rightarrow> club_db \<Rightarrow> int" where
  "milestone_weight i db = (case find (\<lambda>m. ml_id m = i) (clubMilestones db) of None \<Rightarrow> 0 | Some m \<Rightarrow> ml_weight m)"

definition member_row :: "id \<Rightarrow> club_db \<Rightarrow> User \<Rightarrow> club_member" where
  "member_row tenantId db u =
     (let milestones = ordered_milestones tenantId db;
          approved = filter (\<lambda>p. mp_studentId p = au_id u \<and> mp_status p = MS_APPROVED) (milestoneProgress db)
      in \<lparr>mb_user = u, mb_membership = find_membership (au_id u) db,
          mb_progressPercentage = progress_percent (sum_list (map (\<lambda>p. milestone_weight (mp_milestoneId p) db) approved))
            (sum_list (map ml_weight milestones)),
          mb_completedMilestonesCount = length approved, mb_totalMilestonesCount = length milestones,
          mb_recentSubmissions = take 3 (rev (filter (\<lambda>s. su_studentId s = au_id u) (clubSubmissions db)))\<rparr>)"

definition getAdminMembers :: "id \<Rightarrow> member_filter \<Rightarrow> club_db \<Rightarrow> club_member list" where
  "getAdminMembers tenantId f db =
     map (member_row tenantId db)
       (sort_by (\<lambda>a b. str_le (au_lastName a) (au_lastName b))
         (filter (\<lambda>u. au_tenantId u = tenantId \<and> au_role u = STUDENT \<and> au_status u = USER_ACTIVE
            \<and> (truthy (mf_search f) \<longrightarrow> (let s = str_or (mf_search f) '''' in contains_ci s (au_firstName u)
                 \<or> contains_ci s (au_lastName u) \<or> opt_holds (str_contains s) (au_username u)))) (clubUsers db)))"

record UpdateClubMembershipDto =
  um_status :: "ClubMembershipStatus option"
  um_department :: "ClubDepartment option"
  um_grade :: "ClubGrade option"
  um_adminNotes :: "string option"

definition membership_changes :: "UpdateClubMembershipDto \<Rightarrow> time \<Rightarrow> ClubMembership option \<Rightarrow> ClubMembership \<Rightarrow> ClubMembership" where
  "membership_changes dto t existing m =
     (let promoted = um_grade dto = Some GRADE_A \<and> (case existing of None \<Rightarrow> True | Some x \<Rightarrow> cm_grade x \<noteq> Some GRADE_A);
          joining = um_status dto = Some CM_ACTIVE_MEMBER \<and> (case existing of None \<Rightarrow> True | Some x \<Rightarrow> cm_joinedAt x = None);
          m1 = m\<lparr>cm_status := (case um_status dto of None \<Rightarrow> cm_status m | Some s \<Rightarrow> s),
             cm_department := keep_undefined (um_department dto) (cm_department m),
             cm_grade := keep_undefined (um_grade dto) (cm_grade m),
             cm_adminNotes := keep_undefined (um_adminNotes dto) (cm_adminNotes m)\<rparr>;
          m2 = (if promoted then m1\<lparr>cm_promotedToGradeAAt := Some t, cm_status := CM_STUDIO_READY\<rparr> else m1)
      in if joining then m2\<lparr>cm_joinedAt := Some t\<rparr> else m2)"

definition update_membership :: "id \<Rightarrow> (ClubMembership \<Rightarrow> ClubMembership) \<Rightarrow> club_db \<Rightarrow> club_db" where
  "update_membership userId f db = db\<lparr>clubMemberships := update_row cm_userId userId f (clubMemberships db)\<rparr>"

definition updateMemberStatus :: "id \<Rightarrow> id \<Rightarrow> UpdateClubMembershipDto \<Rightarrow> env \<Rightarrow> club_db \<Rightarrow> http_error + club_db" where
  "updateMemberStatus studentId tenantId dto e db =
     (case find (\<lambda>u. au_id u = studentId \<and> au_tenantId u = tenantId) (clubUsers db) of
        None \<Rightarrow> Inl (NotFound ''student'')
      | Some _ \<Rightarrow> (let existing = find_membership studentId db
          in case existing of
              Some _ \<Rightarrow> Inr (update_membership studentId (membership_changes dto (now e) existing) db)
            | None \<Rightarrow> create_membership (membership_changes dto (now e) None (blank_membership (uuid e 0) tenantId studentId)) db))"

definition find_progress :: "id \<Rightarrow> id \<Rightarrow> id \<Rightarrow> club_db \<Rightarrow> ClubStudentMilestoneProgress option" where
  "find_progress tenantId studentId milestoneId db =
     find (\<lambda>p. progress_key p = (tenantId, studentId, milestoneId)) (milestoneProgress db)"

definition approved_progress :: "id \<Rightarrow> id \<Rightarrow> id \<Rightarrow> id \<Rightarrow> id \<Rightarrow> time \<Rightarrow> milestone_note option \<Rightarrow> ClubStudentMilestoneProgress" where
  "approved_progress i tenantId studentId milestoneId approver t note =
     \<lparr>mp_id = i, mp_tenantId = tenantId, mp_milestoneId = milestoneId, mp_studentId = studentId, mp_status = MS_APPROVED,
      mp_approvedAt = Some t, mp_approvedById = Some approver, mp_notes = note\<rparr>"

definition toggleStudentMilestone :: "id \<Rightarrow> id \<Rightarrow> id \<Rightarrow> id \<Rightarrow> env \<Rightarrow> club_db \<Rightarrow> http_error + club_db" where
  "toggleStudentMilestone studentId milestoneId tenantId adminUserId e db =
     (if find (\<lambda>u. au_id u = studentId \<and> au_tenantId u = tenantId) (clubUsers db) = None then Inl (NotFound ''student'')
      else if find (\<lambda>m. ml_id m = milestoneId \<and> ml_tenantId m = tenantId) (clubMilestones db) = None then Inl (NotFound ''milestone'')
      else (case find_progress tenantId studentId milestoneId db of
          Some p \<Rightarrow> if mp_status p = MS_APPROVED
            then Inr (update_progress (mp_id p) (\<lambda>p. p\<lparr>mp_status := MS_PENDING, mp_approvedAt := None, mp_approvedById := None\<rparr>) db)
            else Inr (update_progress (mp_id p)
              (\<lambda>p. p\<lparr>mp_status := MS_APPROVED, mp_approvedAt := Some (now e), mp_approvedById := Some adminUserId\<rparr>) db)
        | None \<Rightarrow> create_progress (approved_progress (uuid e 0) tenantId studentId milestoneId adminUserId (now e) None) db))"

section \<open>Milestones and challenges\<close>

record CreateClubMilestoneDto =
  cmd_title :: string
  cmd_orderIndex :: "int option"
  cmd_weight :: "int option"
  cmd_type :: ClubMilestoneType
  cmd_lessonId :: "id option"
  cmd_isRequired :: "bool option"

definition default :: "'a \<Rightarrow> 'a option \<Rightarrow> 'a" where
  "default d x = (case x of None \<Rightarrow> d | Some y \<Rightarrow> y)"

definition createMilestone :: "id \<Rightarrow> CreateClubMilestoneDto \<Rightarrow> env \<Rightarrow> club_db \<Rightarrow> club_db" where
  "createMilestone tenantId dto e db = db\<lparr>clubMilestones := clubMilestones db @
     [\<lparr>ml_id = uuid e 0, ml_tenantId = tenantId, ml_title = cmd_title dto, ml_orderIndex = default 1 (cmd_orderIndex dto),
       ml_weight = default 25 (cmd_weight dto), ml_type = cmd_type dto, ml_lessonId = cmd_lessonId dto,
       ml_isRequired = default True (cmd_isRequired dto)\<rparr>]\<rparr>"

record UpdateClubMilestoneDto =
  umd_title :: "string option"
  umd_orderIndex :: "int option"
  umd_weight :: "int option"
  umd_type :: "ClubMilestoneType option"
  umd_lessonId :: "id option"
  umd_isRequired :: "bool option"

definition updateMilestone :: "id \<Rightarrow> id \<Rightarrow> UpdateClubMilestoneDto \<Rightarrow> club_db \<Rightarrow> http_error + club_db" where
  "updateMilestone i tenantId dto db =
     (case find (\<lambda>m. ml_id m = i \<and> ml_tenantId m = tenantId) (clubMilestones db) of
        None \<Rightarrow> Inl (NotFound ''milestone'')
      | Some _ \<Rightarrow> Inr (db\<lparr>clubMilestones := update_row ml_id i (\<lambda>m. m\<lparr>ml_title := default (ml_title m) (umd_title dto),
          ml_orderIndex := default (ml_orderIndex m) (umd_orderIndex dto), ml_weight := default (ml_weight m) (umd_weight dto),
          ml_type := default (ml_type m) (umd_type dto), ml_lessonId := keep_undefined (umd_lessonId dto) (ml_lessonId m),
          ml_isRequired := default (ml_isRequired m) (umd_isRequired dto)\<rparr>) (clubMilestones db)\<rparr>))"

text \<open>Deleting cascades to the progress of the students.\<close>

definition deleteMilestone :: "id \<Rightarrow> id \<Rightarrow> club_db \<Rightarrow> http_error + club_db" where
  "deleteMilestone i tenantId db =
     (case find (\<lambda>m. ml_id m = i \<and> ml_tenantId m = tenantId) (clubMilestones db) of
        None \<Rightarrow> Inl (NotFound ''milestone'')
      | Some _ \<Rightarrow> Inr (db\<lparr>clubMilestones := filter (\<lambda>m. ml_id m \<noteq> i) (clubMilestones db),
          milestoneProgress := filter (\<lambda>p. mp_milestoneId p \<noteq> i) (milestoneProgress db)\<rparr>))"

fun base36 :: "nat \<Rightarrow> string" where
  "base36 n = (if n < 36 then [''0123456789abcdefghijklmnopqrstuvwxyz'' ! n]
     else base36 (n div 36) @ [''0123456789abcdefghijklmnopqrstuvwxyz'' ! (n mod 36)])"

declare base36.simps [simp del]

definition department_slug :: "ClubDepartment \<Rightarrow> string" where
  "department_slug d = (case d of ENGINEER \<Rightarrow> ''engineer'' | ARTIST \<Rightarrow> ''artist'' | JACK_OF_ALL_TRADES \<Rightarrow> ''jack_of_all_trades'')"

record CreateClubChallengeDto =
  cc_title :: string
  cc_description :: string
  cc_missionBrief :: string
  cc_rules :: "string option"
  cc_department :: ClubDepartment
  cc_type :: "ClubChallengeType option"
  cc_minGrade :: "ClubGrade option"
  cc_maxDays :: "int option"
  cc_maxScore :: "int option"
  cc_isPublished :: "bool option"

definition createChallenge :: "id \<Rightarrow> CreateClubChallengeDto \<Rightarrow> env \<Rightarrow> club_db \<Rightarrow> http_error + club_db" where
  "createChallenge tenantId dto e db =
     create_challenge \<lparr>ch_id = uuid e 0, ch_tenantId = tenantId, ch_title = cc_title dto,
       ch_slug = department_slug (cc_department dto) @ ''-'' @ base36 (nat (now e)), ch_description = cc_description dto,
       ch_missionBrief = cc_missionBrief dto, ch_rules = cc_rules dto, ch_department = cc_department dto,
       ch_type = default PLACEMENT (cc_type dto), ch_minGrade = cc_minGrade dto, ch_maxDays = default 7 (cc_maxDays dto),
       ch_maxScore = default 100 (cc_maxScore dto), ch_isPublished = default True (cc_isPublished dto)\<rparr> db"

record UpdateClubChallengeDto =
  uc_title :: "string option"
  uc_description :: "string option"
  uc_missionBrief :: "string option"
  uc_rules :: "string option"
  uc_department :: "ClubDepartment option"
  uc_type :: "ClubChallengeType option"
  uc_minGrade :: "ClubGrade option"
  uc_maxDays :: "int option"
  uc_maxScore :: "int option"
  uc_isPublished :: "bool option"

definition updateChallenge :: "id \<Rightarrow> id \<Rightarrow> UpdateClubChallengeDto \<Rightarrow> club_db \<Rightarrow> http_error + club_db" where
  "updateChallenge i tenantId dto db =
     (case find (\<lambda>c. ch_id c = i \<and> ch_tenantId c = tenantId) (clubChallenges db) of
        None \<Rightarrow> Inl (NotFound ''challenge'')
      | Some _ \<Rightarrow> Inr (db\<lparr>clubChallenges := update_row ch_id i (\<lambda>c. c\<lparr>ch_title := default (ch_title c) (uc_title dto),
          ch_description := default (ch_description c) (uc_description dto),
          ch_missionBrief := default (ch_missionBrief c) (uc_missionBrief dto), ch_rules := keep_undefined (uc_rules dto) (ch_rules c),
          ch_department := default (ch_department c) (uc_department dto), ch_type := default (ch_type c) (uc_type dto),
          ch_minGrade := keep_undefined (uc_minGrade dto) (ch_minGrade c), ch_maxDays := default (ch_maxDays c) (uc_maxDays dto),
          ch_maxScore := default (ch_maxScore c) (uc_maxScore dto), ch_isPublished := default (ch_isPublished c) (uc_isPublished dto)\<rparr>)
          (clubChallenges db)\<rparr>))"

text \<open>Deleting a challenge cascades to its submissions and their reports.\<close>

definition deleteChallenge :: "id \<Rightarrow> id \<Rightarrow> club_db \<Rightarrow> http_error + club_db" where
  "deleteChallenge i tenantId db =
     (case find (\<lambda>c. ch_id c = i \<and> ch_tenantId c = tenantId) (clubChallenges db) of
        None \<Rightarrow> Inl (NotFound ''challenge'')
      | Some _ \<Rightarrow> (let gone = map su_id (filter (\<lambda>s. su_challengeId s = i) (clubSubmissions db))
          in Inr (db\<lparr>clubChallenges := filter (\<lambda>c. ch_id c \<noteq> i) (clubChallenges db),
               clubSubmissions := filter (\<lambda>s. su_challengeId s \<noteq> i) (clubSubmissions db),
               clubReports := filter (\<lambda>r. cr_submissionId r \<notin> set gone) (clubReports db)\<rparr>)))"

definition department_rank :: "ClubDepartment \<Rightarrow> nat" where
  "department_rank d = (case d of ENGINEER \<Rightarrow> 0 | ARTIST \<Rightarrow> 1 | JACK_OF_ALL_TRADES \<Rightarrow> 2)"

definition getAdminChallenges :: "id \<Rightarrow> club_db \<Rightarrow> (ClubChallenge \<times> nat) list" where
  "getAdminChallenges tenantId db =
     map (\<lambda>c. (c, length (filter (\<lambda>s. su_challengeId s = ch_id c) (clubSubmissions db))))
       (sort_by (\<lambda>a b. department_rank (ch_department a) \<le> department_rank (ch_department b))
         (rev (filter (\<lambda>c. ch_tenantId c = tenantId) (clubChallenges db))))"

text \<open>In a descending order PostgreSQL puts the missing times first.\<close>

definition time_desc :: "time option \<Rightarrow> time option \<Rightarrow> bool" where
  "time_desc a b = (case a of None \<Rightarrow> True | Some s \<Rightarrow> (case b of None \<Rightarrow> False | Some t \<Rightarrow> t \<le> s))"

definition getAdminSubmissions :: "id \<Rightarrow> ClubSubmissionStatus option \<Rightarrow> club_db \<Rightarrow> ClubChallengeSubmission list" where
  "getAdminSubmissions tenantId status db =
     sort_by (\<lambda>a b. time_desc (su_submittedAt a) (su_submittedAt b))
       (filter (\<lambda>s. su_tenantId s = tenantId \<and> (case status of None \<Rightarrow> True | Some st \<Rightarrow> su_status s = st)) (clubSubmissions db))"

section \<open>Grading\<close>

record GradeSubmissionDto =
  gs_score :: rat
  gs_feedback :: "string option"
  gs_overrideGrade :: "ClubGrade option"

definition grade_of_score :: "rat \<Rightarrow> ClubGrade" where
  "grade_of_score score = (if score \<ge> 80 then GRADE_A else if score \<ge> 50 then GRADE_B else GRADE_C)"

definition final_grade :: "GradeSubmissionDto \<Rightarrow> ClubGrade" where
  "final_grade dto = (case gs_overrideGrade dto of Some g \<Rightarrow> g | None \<Rightarrow> grade_of_score (gs_score dto))"

definition graded :: "GradeSubmissionDto \<Rightarrow> id \<Rightarrow> time \<Rightarrow> ClubChallengeSubmission \<Rightarrow> ClubChallengeSubmission" where
  "graded dto adminUserId t s = s\<lparr>su_score := Some (dec2 (gs_score dto)), su_feedback := keep_undefined (gs_feedback dto) (su_feedback s),
     su_awardedGrade := Some (final_grade dto), su_gradedAt := Some t, su_gradedById := Some adminUserId, su_status := CS_GRADED\<rparr>"

definition grade_membership :: "ClubDepartment \<Rightarrow> ClubGrade \<Rightarrow> time \<Rightarrow> ClubMembership \<Rightarrow> ClubMembership" where
  "grade_membership d g t m =
     (let m1 = m\<lparr>cm_department := Some d, cm_grade := Some g,
        cm_status := (if g = GRADE_A then CM_STUDIO_READY else CM_ACTIVE_MEMBER),
        cm_joinedAt := (case cm_joinedAt m of None \<Rightarrow> Some t | Some j \<Rightarrow> Some j)\<rparr>
      in if g = GRADE_A then m1\<lparr>cm_promotedToGradeAAt := Some t\<rparr> else m1)"

definition upsert_membership :: "id \<Rightarrow> id \<Rightarrow> id \<Rightarrow> (ClubMembership \<Rightarrow> ClubMembership) \<Rightarrow> club_db \<Rightarrow> http_error + club_db" where
  "upsert_membership i tenantId userId f db =
     (case find_membership userId db of
        Some _ \<Rightarrow> Inr (update_membership userId f db)
      | None \<Rightarrow> create_membership (f (blank_membership i tenantId userId)) db)"

definition approve_placement :: "id \<Rightarrow> id \<Rightarrow> id \<Rightarrow> GradeSubmissionDto \<Rightarrow> ClubChallenge \<Rightarrow> env \<Rightarrow> club_db \<Rightarrow> http_error + club_db" where
  "approve_placement tenantId studentId adminUserId dto c e db =
     (if ch_type c \<noteq> PLACEMENT then Inr db
      else (case find (\<lambda>m. ml_tenantId m = tenantId \<and> ml_type m = PLACEMENT_CHALLENGE) (clubMilestones db) of
          None \<Rightarrow> Inr db
        | Some m \<Rightarrow> (let note = Some (AutoApproved (gs_score dto) (ch_title c))
            in case find_progress tenantId studentId (ml_id m) db of
                Some p \<Rightarrow> Inr (update_progress (mp_id p) (\<lambda>p. p\<lparr>mp_status := MS_APPROVED, mp_approvedAt := Some (now e),
                  mp_approvedById := Some adminUserId, mp_notes := note\<rparr>) db)
              | None \<Rightarrow> create_progress (approved_progress (uuid e 1) tenantId studentId (ml_id m) adminUserId (now e) note) db)))"

definition gradeSubmission :: "id \<Rightarrow> id \<Rightarrow> id \<Rightarrow> GradeSubmissionDto \<Rightarrow> env \<Rightarrow> club_db \<Rightarrow> http_error + club_db" where
  "gradeSubmission submissionId tenantId adminUserId dto e db =
     (case find (\<lambda>s. su_id s = submissionId \<and> su_tenantId s = tenantId) (clubSubmissions db) of
        None \<Rightarrow> Inl (NotFound ''submission'')
      | Some s \<Rightarrow> (case find (\<lambda>c. ch_id c = su_challengeId s) (clubChallenges db) of
          None \<Rightarrow> Inl (ForeignKeyViolation ''ClubChallengeSubmission.challengeId'')
        | Some c \<Rightarrow>
            bindE (upsert_membership (uuid e 0) tenantId (su_studentId s) (grade_membership (ch_department c) (final_grade dto) (now e))
                (update_submission submissionId (graded dto adminUserId (now e)) db))
              (approve_placement tenantId (su_studentId s) adminUserId dto c e)))"

section \<open>Entrance challenges\<close>

text \<open>The texts of the nine challenges are keys; the link to the package is kept as its presence.\<close>

record EntranceChallengeDef =
  ec_slug :: string
  ec_title :: string
  ec_description :: string
  ec_department :: ClubDepartment
  ec_packageFile :: string
  ec_missionBrief :: string
  ec_rules :: string
  ec_maxDays :: int
  ec_maxScore :: int
  ec_type :: ClubChallengeType

definition entrance_def :: "string \<Rightarrow> string \<Rightarrow> ClubDepartment \<Rightarrow> EntranceChallengeDef" where
  "entrance_def slug title department = \<lparr>ec_slug = slug, ec_title = title, ec_description = title @ '': description'',
     ec_department = department, ec_packageFile = slug @ ''.zip'', ec_missionBrief = title @ '': brief'', ec_rules = title @ '': rules'',
     ec_maxDays = 10, ec_maxScore = 100, ec_type = PLACEMENT\<rparr>"

definition ENTRANCE_CHALLENGES :: "EntranceChallengeDef list" where
  "ENTRANCE_CHALLENGES =
     [entrance_def ''project-01-nestly-landing'' ''frontend programming'' ENGINEER,
      entrance_def ''project-02-leaderboard-api'' ''backend programming'' ENGINEER,
      entrance_def ''project-03-wordpress-club-site'' ''wordpress site'' ENGINEER,
      entrance_def ''project-04-mahalleh-yar'' ''programming with AI'' ENGINEER,
      entrance_def ''project-05-intro-video'' ''videography'' ARTIST,
      entrance_def ''project-06-figma-product'' ''UI/UX design'' ARTIST,
      entrance_def ''project-07-visual-identity'' ''visual identity'' ARTIST,
      entrance_def ''project-08-scriptwriting'' ''scriptwriting'' JACK_OF_ALL_TRADES,
      entrance_def ''project-09-content-series'' ''content series'' JACK_OF_ALL_TRADES]"

definition nonzero :: "int \<Rightarrow> int \<Rightarrow> int" where
  "nonzero x d = (if x = 0 then d else x)"

definition entrance_row :: "EntranceChallengeDef \<Rightarrow> id \<Rightarrow> id \<Rightarrow> ClubChallenge" where
  "entrance_row item i tenantId = \<lparr>ch_id = i, ch_tenantId = tenantId, ch_title = ec_title item, ch_slug = ec_slug item,
     ch_description = ec_description item, ch_missionBrief = ec_missionBrief item, ch_rules = Some (ec_rules item),
     ch_department = ec_department item, ch_type = ec_type item, ch_minGrade = None, ch_maxDays = nonzero (ec_maxDays item) 10,
     ch_maxScore = nonzero (ec_maxScore item) 100, ch_isPublished = True\<rparr>"

text \<open>When the database refuses, the caller gets an unsaved challenge with the slug as its identifier.\<close>

definition ensureEntranceChallengeInDb :: "EntranceChallengeDef \<Rightarrow> id \<Rightarrow> id \<Rightarrow> club_db \<Rightarrow> ClubChallenge \<times> club_db" where
  "ensureEntranceChallengeInDb item tenantId i db =
     (case find (\<lambda>c. ch_slug c = ec_slug item) (clubChallenges db) of
        None \<Rightarrow> (case create_challenge (entrance_row item i tenantId) db of
            Inr db1 \<Rightarrow> (entrance_row item i tenantId, db1)
          | Inl _ \<Rightarrow> (entrance_row item (ec_slug item) tenantId, db))
      | Some c \<Rightarrow>
          if ch_title c \<noteq> ec_title item \<or> ch_department c \<noteq> ec_department item \<or> ch_description c \<noteq> ec_description item then
            (let f = (\<lambda>c. c\<lparr>ch_title := ec_title item, ch_department := ec_department item, ch_description := ec_description item,
                  ch_missionBrief := ec_missionBrief item, ch_rules := Some (ec_rules item), ch_maxDays := nonzero (ec_maxDays item) 10\<rparr>)
             in (f c, db\<lparr>clubChallenges := update_row ch_id (ch_id c) f (clubChallenges db)\<rparr>))
          else (c, db))"

definition startEntranceChallenge :: "string \<Rightarrow> id \<Rightarrow> id \<Rightarrow> env \<Rightarrow> club_db \<Rightarrow> http_error + ClubChallengeSubmission \<times> club_db" where
  "startEntranceChallenge idOrSlug userId tenantId e db =
     (let (challenge, db1) = (case find (\<lambda>c. ch_id c = idOrSlug \<or> ch_slug c = idOrSlug) (clubChallenges db) of
            Some c \<Rightarrow> (Some c, db)
          | None \<Rightarrow> (case find (\<lambda>d. ec_slug d = idOrSlug \<or> ec_title d = idOrSlug) ENTRANCE_CHALLENGES of
              None \<Rightarrow> (None, db)
            | Some item \<Rightarrow> map_prod Some id (ensureEntranceChallengeInDb item tenantId (uuid e 1) db)))
      in case challenge of
           None \<Rightarrow> Inl (NotFound ''challenge'')
         | Some c \<Rightarrow>
             if length (active_submissions tenantId userId db1) \<ge> 2 then Inl (BadRequest ''two challenges are active'')
             else (case find (\<lambda>s. su_challengeId s = ch_id c \<and> su_studentId s = userId) (clubSubmissions db1) of
                 Some s \<Rightarrow> Inr (s, db1)
               | None \<Rightarrow> (let s = new_submission (uuid e 0) tenantId (ch_id c) userId (now e) (now e + nonzero (ch_maxDays c) 14 * day_ms)
                   in bindE (create_submission s db1) (\<lambda>db2. Inr (s, db2)))))"

section \<open>Progress reports\<close>

record CreateClubReportDto =
  rd_reportDate :: "time option"
  rd_title :: "string option"
  rd_content :: string
  rd_workDuration :: "int option"

definition report_of :: "id \<Rightarrow> ClubChallengeSubmission \<Rightarrow> id \<Rightarrow> CreateClubReportDto \<Rightarrow> env \<Rightarrow> ClubSubmissionReport" where
  "report_of tenantId s userId dto e = \<lparr>cr_id = ''rep_'' @ uuid e 0, cr_tenantId = str_or (Some (su_tenantId s)) tenantId,
     cr_submissionId = su_id s, cr_studentId = userId, cr_reportDate = default (now e) (rd_reportDate dto),
     cr_title = str_or (rd_title dto) ''progress report'', cr_content = rd_content dto,
     cr_workDuration = (if rd_workDuration dto = Some 0 then None else rd_workDuration dto)\<rparr>"

definition add_report_json :: "ClubSubmissionReport \<Rightarrow> submission_attachments option \<Rightarrow> submission_attachments option" where
  "add_report_json r a = (case a of None \<Rightarrow> Some ('''', Some [r]) | Some (rest, rs) \<Rightarrow> Some (rest, Some (r # default [] rs)))"

text \<open>The report goes into the attachments first and then into the table of reports; a refusal of the table
  is ignored.\<close>

definition create_report :: "ClubSubmissionReport \<Rightarrow> club_db \<Rightarrow> club_db" where
  "create_report r db = (if cr_id r \<in> set (map cr_id (clubReports db)) \<or> cr_submissionId r \<notin> set (map su_id (clubSubmissions db))
       \<or> \<not> club_user_exists (cr_studentId r) db then db
     else db\<lparr>clubReports := clubReports db @ [r]\<rparr>)"

definition addSubmissionReport :: "id \<Rightarrow> id \<Rightarrow> id \<Rightarrow> CreateClubReportDto \<Rightarrow> env \<Rightarrow> club_db
    \<Rightarrow> http_error + ClubSubmissionReport \<times> club_db" where
  "addSubmissionReport submissionId userId tenantId dto e db =
     (case find (\<lambda>s. su_id s = submissionId) (clubSubmissions db) of
        None \<Rightarrow> Inl (NotFound ''submission'')
      | Some s \<Rightarrow>
          if su_studentId s \<noteq> userId then Inl (Forbidden ''submission'')
          else (let r = report_of tenantId s userId dto e
                in Inr (r, create_report r
                     (update_submission submissionId (\<lambda>x. x\<lparr>su_attachments := add_report_json r (su_attachments s)\<rparr>) db))))"

definition newest_first :: "ClubSubmissionReport list \<Rightarrow> ClubSubmissionReport list" where
  "newest_first rs = sort_by (\<lambda>a b. cr_reportDate b \<le> cr_reportDate a) rs"

definition json_reports :: "ClubChallengeSubmission \<Rightarrow> ClubSubmissionReport list" where
  "json_reports s = (case su_attachments s of Some (_, Some rs) \<Rightarrow> rs | _ \<Rightarrow> [])"

definition add_missing :: "ClubSubmissionReport list \<Rightarrow> ClubSubmissionReport list \<Rightarrow> ClubSubmissionReport list" where
  "add_missing extra rs = fold (\<lambda>a acc. if list_ex (\<lambda>r. cr_id r = cr_id a) acc then acc else acc @ [a]) extra rs"

definition combined_reports :: "ClubChallengeSubmission \<Rightarrow> ClubSubmissionReport list \<Rightarrow> ClubSubmissionReport list" where
  "combined_reports s rows = newest_first (add_missing (json_reports s) (filter (\<lambda>r. cr_submissionId r = su_id s) rows))"

definition getSubmissionReports :: "id \<Rightarrow> id \<Rightarrow> bool \<Rightarrow> club_db
    \<Rightarrow> http_error + ClubChallengeSubmission \<times> ClubSubmissionReport list" where
  "getSubmissionReports submissionId userId isAdmin db =
     (case find (\<lambda>s. su_id s = submissionId) (clubSubmissions db) of
        None \<Rightarrow> Inl (NotFound ''submission'')
      | Some s \<Rightarrow>
          if \<not> isAdmin \<and> su_studentId s \<noteq> userId then Inl (Forbidden ''submission'')
          else Inr (s, combined_reports s (newest_first (clubReports db))))"

definition latest_start :: "ClubChallengeSubmission list \<Rightarrow> ClubChallengeSubmission list" where
  "latest_start ss = sort_by (\<lambda>a b. su_startedAt b \<le> su_startedAt a) ss"

text \<open>The nine challenges are looked up, or created, one after the other.\<close>

fun ensure_all :: "EntranceChallengeDef list \<Rightarrow> id \<Rightarrow> (nat \<Rightarrow> id) \<Rightarrow> nat \<Rightarrow> club_db \<Rightarrow> (EntranceChallengeDef \<times> ClubChallenge) list \<times> club_db" where
  "ensure_all [] tenantId u k db = ([], db)"
| "ensure_all (d # ds) tenantId u k db =
     (let (c, db1) = ensureEntranceChallengeInDb d tenantId (u k) db; (cs, db2) = ensure_all ds tenantId u (Suc k) db1
      in ((d, c) # cs, db2))"

definition getEntranceChallenges :: "id \<Rightarrow> id \<Rightarrow> env \<Rightarrow> club_db
    \<Rightarrow> ((EntranceChallengeDef \<times> ClubChallenge \<times> (ClubChallengeSubmission \<times> ClubSubmissionReport list) option) list \<times> nat \<times> bool) \<times> club_db" where
  "getEntranceChallenges userId tenantId e db =
     (let mine = latest_start (filter (\<lambda>s. su_studentId s = userId \<and> (tenantId \<noteq> [] \<longrightarrow> su_tenantId s = tenantId)) (clubSubmissions db));
          activeCount = length (filter (\<lambda>s. su_status s = CS_IN_PROGRESS) mine);
          reports = newest_first (filter (\<lambda>r. cr_studentId r = userId) (clubReports db));
          (cs, db1) = ensure_all ENTRANCE_CHALLENGES tenantId (uuid e) 0 db;
          slugOf = (\<lambda>s. map_option ch_slug (find (\<lambda>c. ch_id c = su_challengeId s) (clubChallenges db)))
      in ((map (\<lambda>(d, c). (d, c, map_option (\<lambda>s. (s, combined_reports s reports))
              (find (\<lambda>s. su_challengeId s = ch_id c \<or> slugOf s = Some (ec_slug d)) mine))) cs, activeCount, activeCount < 2), db1))"

record enrolled_projects =
  ep_projects :: "(ClubChallengeSubmission \<times> ClubSubmissionReport list \<times> time option) list"
  ep_totalEnrolled :: nat
  ep_activeProjects :: nat
  ep_submittedProjects :: nat
  ep_gradedProjects :: nat
  ep_totalReports :: nat

definition getAdminEnrolledProjects :: "id \<Rightarrow> club_db \<Rightarrow> enrolled_projects" where
  "getAdminEnrolledProjects tenantId db =
     (let rows = newest_first (filter (\<lambda>r. tenantId \<noteq> [] \<longrightarrow> cr_tenantId r = tenantId) (clubReports db));
          projects = map (\<lambda>s. let rs = combined_reports s rows
              in (s, rs, case rs of [] \<Rightarrow> None | r # _ \<Rightarrow> Some (cr_reportDate r)))
            (latest_start (filter (\<lambda>s. tenantId \<noteq> [] \<longrightarrow> su_tenantId s = tenantId) (clubSubmissions db)));
          inState = (\<lambda>st. length (filter (\<lambda>(s, _). su_status s = st) projects))
      in \<lparr>ep_projects = projects, ep_totalEnrolled = length projects, ep_activeProjects = inState CS_IN_PROGRESS,
          ep_submittedProjects = inState CS_SUBMITTED, ep_gradedProjects = inState CS_GRADED,
          ep_totalReports = sum_list (map (\<lambda>(s, rs, d). length rs) projects)\<rparr>)"

section \<open>The requests of the club\<close>

datatype club_request =
    MyStatus id id env
  | StartChallenge id id id env
  | SubmitChallenge id id id SubmitChallengeDto env
  | TeacherApproval id id id TeacherApprovalDto env
  | UpdateMember id id UpdateClubMembershipDto env
  | ToggleMilestone id id id id env
  | CreateMilestone id CreateClubMilestoneDto env
  | UpdateMilestone id id UpdateClubMilestoneDto
  | DeleteMilestone id id
  | CreateChallenge id CreateClubChallengeDto env
  | UpdateChallenge id id UpdateClubChallengeDto
  | DeleteChallenge id id
  | GradeSubmission id id id GradeSubmissionDto env
  | EntranceChallenges id id env
  | StartEntrance string id id env
  | AddReport id id id CreateClubReportDto env

fun club_serve :: "club_request \<Rightarrow> club_db \<Rightarrow> http_error + club_db" where
  "club_serve (MyStatus u t e) db = map_sum id snd (getMyClubStatus u t e db)"
| "club_serve (StartChallenge c u t e) db = map_sum id snd (startChallenge c u t e db)"
| "club_serve (SubmitChallenge c u t dto e) db = submitChallenge c u t dto e db"
| "club_serve (TeacherApproval p u t dto e) db = submitTeacherApproval p u t dto e db"
| "club_serve (UpdateMember s t dto e) db = updateMemberStatus s t dto e db"
| "club_serve (ToggleMilestone s m t a e) db = toggleStudentMilestone s m t a e db"
| "club_serve (CreateMilestone t dto e) db = Inr (createMilestone t dto e db)"
| "club_serve (UpdateMilestone i t dto) db = updateMilestone i t dto db"
| "club_serve (DeleteMilestone i t) db = deleteMilestone i t db"
| "club_serve (CreateChallenge t dto e) db = createChallenge t dto e db"
| "club_serve (UpdateChallenge i t dto) db = updateChallenge i t dto db"
| "club_serve (DeleteChallenge i t) db = deleteChallenge i t db"
| "club_serve (GradeSubmission s t a dto e) db = gradeSubmission s t a dto e db"
| "club_serve (EntranceChallenges u t e) db = Inr (snd (getEntranceChallenges u t e db))"
| "club_serve (StartEntrance c u t e) db = map_sum id snd (startEntranceChallenge c u t e db)"
| "club_serve (AddReport s u t dto e) db = map_sum id snd (addSubmissionReport s u t dto e db)"

end
