(* ===== verification/Club_Laws.thy ===== *)
theory Club_Laws
  imports Club
begin

text \<open>
  The invariants of the club: the shape of its rows, at most two running challenges for a student, and the
  survival of the progress reports; each is shown for the writes first and then for every request.
\<close>

section \<open>Well-formed rows\<close>

definition membership_ok :: "ClubMembership \<Rightarrow> bool" where
  "membership_ok m \<longleftrightarrow> (cm_grade m = Some GRADE_A \<longrightarrow> cm_promotedToGradeAAt m \<noteq> None)"

definition progress_ok :: "ClubStudentMilestoneProgress \<Rightarrow> bool" where
  "progress_ok p \<longleftrightarrow> (mp_status p = MS_APPROVED \<longrightarrow> mp_approvedAt p \<noteq> None \<and> mp_approvedById p \<noteq> None)"

definition submission_ok :: "ClubChallengeSubmission \<Rightarrow> bool" where
  "submission_ok s \<longleftrightarrow> (su_status s = CS_SUBMITTED \<longrightarrow> su_submittedAt s \<noteq> None)
     \<and> (su_status s = CS_GRADED \<longrightarrow> su_score s \<noteq> None \<and> su_awardedGrade s \<noteq> None \<and> su_gradedAt s \<noteq> None)"

definition club_wf :: "club_db \<Rightarrow> bool" where
  "club_wf db \<longleftrightarrow> distinct (map cm_userId (clubMemberships db)) \<and> list_all membership_ok (clubMemberships db)
     \<and> distinct (map progress_key (milestoneProgress db)) \<and> list_all progress_ok (milestoneProgress db)
     \<and> (\<forall>p \<in> set (milestoneProgress db). mp_milestoneId p \<in> set (map ml_id (clubMilestones db)))
     \<and> distinct (map su_id (clubSubmissions db)) \<and> list_all submission_ok (clubSubmissions db)
     \<and> (\<forall>s \<in> set (clubSubmissions db). su_challengeId s \<in> set (map ch_id (clubChallenges db)))
     \<and> distinct (map ch_id (clubChallenges db)) \<and> distinct (map ch_slug (clubChallenges db))"

lemma map_update_same: "(\<And>x. g (f x) = g x) \<Longrightarrow> map g (update_row key k f rs) = map g rs"
  by (simp add: update_row_def)

lemma list_all_update:
  "list_all P rs \<Longrightarrow> (\<And>x. x \<in> set rs \<Longrightarrow> key x = k \<Longrightarrow> P x \<Longrightarrow> P (f x)) \<Longrightarrow> list_all P (update_row key k f rs)"
  by (auto simp: update_row_def list_all_iff)

lemma ball_update:
  "(\<forall>x \<in> set rs. P x) \<Longrightarrow> (\<And>x. P x \<Longrightarrow> P (f x)) \<Longrightarrow> \<forall>x \<in> set (update_row key k f rs). P x"
  by (auto simp: update_row_def)

lemma create_membership_wf:
  "club_wf db \<Longrightarrow> membership_ok m \<Longrightarrow> create_membership m db = Inr db' \<Longrightarrow> club_wf db'"
  by (auto simp: create_membership_def club_wf_def split: if_splits)

lemma create_submission_wf:
  "club_wf db \<Longrightarrow> submission_ok s \<Longrightarrow> create_submission s db = Inr db' \<Longrightarrow> club_wf db'"
  by (auto simp: create_submission_def club_wf_def split: if_splits)

lemma create_challenge_wf: "club_wf db \<Longrightarrow> create_challenge c db = Inr db' \<Longrightarrow> club_wf db'"
  by (auto simp: create_challenge_def club_wf_def split: if_splits)

lemma create_progress_wf:
  "club_wf db \<Longrightarrow> progress_ok p \<Longrightarrow> create_progress p db = Inr db' \<Longrightarrow> club_wf db'"
  by (auto simp: create_progress_def club_wf_def split: if_splits)

lemma update_membership_wf:
  assumes "club_wf db" and "\<And>m. cm_userId (f m) = cm_userId m"
    and "\<And>m. m \<in> set (clubMemberships db) \<Longrightarrow> cm_userId m = k \<Longrightarrow> membership_ok m \<Longrightarrow> membership_ok (f m)"
  shows "club_wf (update_membership k f db)"
  using assms by (auto simp: club_wf_def update_membership_def map_update_same intro!: list_all_update)

lemma update_submission_wf:
  assumes "club_wf db" and "\<And>s. su_id (f s) = su_id s" and "\<And>s. su_challengeId (f s) = su_challengeId s"
    and "\<And>s. submission_ok s \<Longrightarrow> submission_ok (f s)"
  shows "club_wf (update_submission i f db)"
proof -
  have "\<forall>s \<in> set (update_row su_id i f (clubSubmissions db)). su_challengeId s \<in> set (map ch_id (clubChallenges db))"
    by (rule ball_update) (use assms(1,3) in \<open>simp_all add: club_wf_def\<close>)
  with assms show ?thesis by (auto simp: club_wf_def update_submission_def map_update_same intro!: list_all_update)
qed

lemma update_progress_wf:
  assumes "club_wf db" and "\<And>p. progress_key (f p) = progress_key p" and "\<And>p. progress_ok p \<Longrightarrow> progress_ok (f p)"
  shows "club_wf (update_progress i f db)"
proof -
  have "mp_milestoneId (f p) = mp_milestoneId p" for p using assms(2) [of p] by (simp add: progress_key_def)
  then have "\<forall>p \<in> set (update_row mp_id i f (milestoneProgress db)). mp_milestoneId p \<in> set (map ml_id (clubMilestones db))"
    by (intro ball_update) (use assms(1) in \<open>simp_all add: club_wf_def\<close>)
  with assms show ?thesis by (auto simp: club_wf_def update_progress_def map_update_same intro!: list_all_update)
qed

lemma update_challenge_wf:
  assumes "club_wf db" and "\<And>c. ch_id (f c) = ch_id c" and "\<And>c. ch_slug (f c) = ch_slug c"
  shows "club_wf (db\<lparr>clubChallenges := update_row ch_id i f (clubChallenges db)\<rparr>)"
proof -
  have "map ch_id (update_row ch_id i f (clubChallenges db)) = map ch_id (clubChallenges db)"
    and "map ch_slug (update_row ch_id i f (clubChallenges db)) = map ch_slug (clubChallenges db)"
    by (rule map_update_same, rule assms)+
  with assms(1) show ?thesis by (simp add: club_wf_def del: set_map)
qed

lemma create_report_wf: "club_wf db \<Longrightarrow> club_wf (create_report r db)"
  by (simp add: club_wf_def create_report_def)

section \<open>Two running challenges\<close>

definition active_limit :: "club_db \<Rightarrow> bool" where
  "active_limit db \<longleftrightarrow> (\<forall>t u. length (active_submissions t u db) \<le> 2)"

definition running :: "id \<Rightarrow> id \<Rightarrow> ClubChallengeSubmission \<Rightarrow> bool" where
  "running t u s \<longleftrightarrow> su_tenantId s = t \<and> su_studentId s = u \<and> su_status s = CS_IN_PROGRESS"

lemma active_filter: "active_submissions t u db = filter (running t u) (clubSubmissions db)"
  unfolding active_submissions_def submissions_of_def running_def filter_filter by (rule filter_cong) auto

lemma active_limit_same0: "clubSubmissions db' = clubSubmissions db \<Longrightarrow> active_limit db \<Longrightarrow> active_limit db'"
  by (simp add: active_limit_def active_filter)

lemma length_filter_update:
  assumes "\<And>x. P (f x) \<Longrightarrow> P x"
  shows "length (filter P (update_row key k f rs)) \<le> length (filter P rs)"
  using assms by (induction rs) (auto simp: update_row_def intro: le_SucI)

lemma update_submission_limit:
  assumes "active_limit db" and "\<And>s t u. running t u (f s) \<Longrightarrow> running t u s"
  shows "active_limit (update_submission i f db)"
  unfolding active_limit_def active_filter
proof (intro allI)
  fix t u
  have "length (filter (running t u) (update_row su_id i f (clubSubmissions db))) \<le> length (filter (running t u) (clubSubmissions db))"
    by (rule length_filter_update) (rule assms(2))
  moreover have "length (filter (running t u) (clubSubmissions db)) \<le> 2" using assms(1) by (simp add: active_limit_def active_filter)
  ultimately show "length (filter (running t u) (clubSubmissions (update_submission i f db))) \<le> 2"
    by (simp add: update_submission_def)
qed

lemma create_submission_limit:
  assumes "active_limit db" and "length (active_submissions (su_tenantId s) (su_studentId s) db) < 2"
    and "create_submission s db = Inr db'"
  shows "active_limit db'"
  using assms by (auto simp: create_submission_def active_limit_def active_filter running_def split: if_splits)

section \<open>Every request\<close>

text \<open>Most writes leave the submissions and the reports alone.\<close>

definition same_work :: "club_db \<Rightarrow> club_db \<Rightarrow> bool" where
  "same_work db db' \<longleftrightarrow> clubSubmissions db' = clubSubmissions db \<and> clubReports db' = clubReports db"

lemma same_work_refl [simp]: "same_work db db"
  by (simp add: same_work_def)

lemma active_limit_same: "same_work db db' \<Longrightarrow> active_limit db \<Longrightarrow> active_limit db'"
  by (rule active_limit_same0) (simp_all add: same_work_def)

lemma same_work_trans: "same_work db db1 \<Longrightarrow> same_work db1 db2 \<Longrightarrow> same_work db db2"
  by (simp add: same_work_def)

lemmas club_creates = create_membership_def create_challenge_def create_progress_def

lemma creates_submissions:
  "create_membership m db = Inr db' \<Longrightarrow> same_work db db'"
  "create_challenge c db = Inr db' \<Longrightarrow> same_work db db'"
  "create_progress p db = Inr db' \<Longrightarrow> same_work db db'"
  by (auto simp: club_creates same_work_def split: if_splits)

lemma ensure_submissions: "same_work db (snd (ensureEntranceChallengeInDb d t i db))"
  using creates_submissions(2)
  by (auto simp: ensureEntranceChallengeInDb_def Let_def same_work_def [of db "clubChallenges_update _ db"] split: option.split sum.split)

lemma ensure_all_submissions: "ensure_all ds t u k db = (cs, db') \<Longrightarrow> same_work db db'"
proof (induction ds arbitrary: k db cs db')
  case (Cons d ds)
  from Cons.prems show ?case
    using Cons.IH ensure_submissions [of db d t "u k"] by (fastforce split: prod.splits intro: same_work_trans)
qed simp

lemma ensure_wf: "club_wf db \<Longrightarrow> club_wf (snd (ensureEntranceChallengeInDb d t i db))"
  by (auto simp: ensureEntranceChallengeInDb_def Let_def create_challenge_wf update_challenge_wf split: option.split sum.split)

lemma ensure_all_wf: "club_wf db \<Longrightarrow> ensure_all ds t u k db = (cs, db') \<Longrightarrow> club_wf db'"
proof (induction ds arbitrary: k db cs db')
  case (Cons d ds)
  from Cons.prems(2) show ?case
    using Cons.IH ensure_wf [OF Cons.prems(1), of d t "u k"] by (fastforce split: prod.splits)
qed simp

lemma updates_submissions [simp]:
  "same_work db (update_membership k f db)" "same_work db (update_progress i g db)" "same_work db (createMilestone t dto e db)"
  by (simp_all add: same_work_def update_membership_def update_progress_def createMilestone_def)

lemma upsert_membership_submissions:
  "upsert_membership i t k f db = Inr db' \<Longrightarrow> same_work db db'"
  by (auto simp: upsert_membership_def creates_submissions(1) split: option.splits)

lemma approve_placement_submissions:
  "approve_placement t k a dto c e db = Inr db' \<Longrightarrow> same_work db db'"
  by (auto simp: approve_placement_def Let_def creates_submissions(3) split: option.splits if_splits)
text \<open>What starting a challenge does, for both ways in: nothing, or one submission more for a student with
  at most one running.\<close>

lemma start_shape:
  assumes "startChallenge c u t e db = Inr (s, db')"
  shows "db' = db \<or> create_submission s db = Inr db' \<and> submission_ok s
    \<and> su_tenantId s = t \<and> su_studentId s = u \<and> length (active_submissions t u db) < 2"
  using assms
  by (auto simp: startChallenge_def Let_def bindE_Inr new_submission_def submission_ok_def split: option.splits if_splits)

lemma start_entrance_shape:
  assumes "startEntranceChallenge c u t e db = Inr (s, db')"
  shows "\<exists>db1. (db1 = db \<or> (\<exists>d i. db1 = snd (ensureEntranceChallengeInDb d t i db)))
    \<and> (db' = db1 \<or> create_submission s db1 = Inr db' \<and> submission_ok s
       \<and> su_tenantId s = t \<and> su_studentId s = u \<and> length (active_submissions t u db1) < 2)"
proof -
  define found where "found = (case find (\<lambda>x. ch_id x = c \<or> ch_slug x = c) (clubChallenges db) of
      Some x \<Rightarrow> (Some x, db)
    | None \<Rightarrow> (case find (\<lambda>d. ec_slug d = c \<or> ec_title d = c) ENTRANCE_CHALLENGES of
        None \<Rightarrow> (None, db)
      | Some item \<Rightarrow> map_prod Some id (ensureEntranceChallengeInDb item t (uuid e 1) db)))"
  obtain ch db1 where f: "found = (ch, db1)" by (cases found)
  have "snd found = db \<or> (\<exists>d i. snd found = snd (ensureEntranceChallengeInDb d t i db))"
    by (auto simp: found_def split: option.split)
  with f have "db1 = db \<or> (\<exists>d i. db1 = snd (ensureEntranceChallengeInDb d t i db))" by simp
  moreover from assms f have "db' = db1 \<or> create_submission s db1 = Inr db' \<and> submission_ok s
       \<and> su_tenantId s = t \<and> su_studentId s = u \<and> length (active_submissions t u db1) < 2"
    unfolding startEntranceChallenge_def found_def [symmetric] Let_def
    by (auto simp: bindE_Inr new_submission_def submission_ok_def split: option.splits if_splits)
  ultimately show ?thesis by blast
qed

lemma add_report_shape:
  assumes "addSubmissionReport i u t dto e db = Inr (r, db')"
  obtains s where "s \<in> set (clubSubmissions db)" and "su_id s = i" and "su_studentId s = u" and "r = report_of t s u dto e"
    and "db' = create_report r (update_submission i (\<lambda>x. x\<lparr>su_attachments := add_report_json r (su_attachments s)\<rparr>) db)"
proof -
  from assms obtain s where s: "find (\<lambda>s. su_id s = i) (clubSubmissions db) = Some s" "su_studentId s = u"
    "r = report_of t s u dto e"
    "db' = create_report r (update_submission i (\<lambda>x. x\<lparr>su_attachments := add_report_json r (su_attachments s)\<rparr>) db)"
    by (auto simp: addSubmissionReport_def Let_def split: option.splits if_splits)
  from find_Some_iff_mem [OF s(1)] s show thesis by (intro that) auto
qed

lemma grade_shape:
  assumes "gradeSubmission i t a dto e db = Inr db'"
  obtains s c db1 where "find (\<lambda>s. su_id s = i \<and> su_tenantId s = t) (clubSubmissions db) = Some s"
    and "find (\<lambda>c. ch_id c = su_challengeId s) (clubChallenges db) = Some c"
    and "upsert_membership (uuid e 0) t (su_studentId s) (grade_membership (ch_department c) (final_grade dto) (now e))
           (update_submission i (graded dto a (now e)) db) = Inr db1"
    and "approve_placement t (su_studentId s) a dto c e db1 = Inr db'"
  using assms by (auto simp: gradeSubmission_def bindE_Inr split: option.splits)

lemma create_report_submissions [simp]: "clubSubmissions (create_report r db) = clubSubmissions db"
  by (simp add: create_report_def)

lemma membership_changes_ok:
  assumes "membership_ok m" and "existing = Some m \<or> existing = None \<and> cm_grade m = None"
  shows "membership_ok (membership_changes dto t existing m)"
  using assms by (cases "um_grade dto"; cases "um_status dto") (auto simp: membership_changes_def membership_ok_def keep_undefined_def Let_def)

lemma membership_changes_user [simp]: "cm_userId (membership_changes dto t existing m) = cm_userId m"
  by (simp add: membership_changes_def Let_def)

lemma grade_membership_user [simp]: "cm_userId (grade_membership d g t m) = cm_userId m"
  by (simp add: grade_membership_def Let_def)

lemma grade_membership_ok: "membership_ok (grade_membership d g t m)"
  by (simp add: grade_membership_def membership_ok_def Let_def)

lemma update_member_wf:
  assumes "club_wf db" and "updateMemberStatus k t dto e db = Inr db'"
  shows "club_wf db'"
proof (cases "find_membership k db")
  case None
  have "membership_ok (membership_changes dto (now e) None (blank_membership (uuid e 0) t k))"
    by (rule membership_changes_ok) (simp_all add: blank_membership_def membership_ok_def)
  with None assms show ?thesis
    by (auto simp: updateMemberStatus_def intro: create_membership_wf split: option.splits)
next
  case (Some m)
  have "x = m" if "x \<in> set (clubMemberships db)" "cm_userId x = k" for x
    using that find_Some_iff_mem [OF Some [unfolded find_membership_def]] distinct_key_inj [of cm_userId "clubMemberships db" x m]
      assms(1) by (auto simp: club_wf_def)
  then have "club_wf (update_membership k (membership_changes dto (now e) (Some m)) db)"
    using assms(1) by (intro update_membership_wf) (auto intro: membership_changes_ok)
  with Some assms(2) show ?thesis by (auto simp: updateMemberStatus_def split: option.splits)
qed

lemma upsert_membership_wf:
  assumes "club_wf db" and "upsert_membership i t k (grade_membership d g n) db = Inr db'"
  shows "club_wf db'"
  using assms create_membership_wf [OF assms(1) grade_membership_ok]
  by (auto simp: upsert_membership_def grade_membership_ok intro!: update_membership_wf split: option.splits)

lemma approve_placement_wf:
  assumes "club_wf db" and "approve_placement t k a dto c e db = Inr db'"
  shows "club_wf db'"
  using assms
  by (auto simp: approve_placement_def approved_progress_def progress_ok_def progress_key_def Let_def
      intro!: update_progress_wf elim!: create_progress_wf [rotated 2] split: option.splits if_splits)

lemma toggle_wf:
  assumes "club_wf db" and "toggleStudentMilestone k m t a e db = Inr db'"
  shows "club_wf db'"
  using assms
  by (auto simp: toggleStudentMilestone_def approved_progress_def progress_ok_def progress_key_def
      intro!: update_progress_wf elim!: create_progress_wf [rotated 2] split: option.splits if_splits)

lemma grade_wf:
  assumes "club_wf db" and "gradeSubmission i t a dto e db = Inr db'"
  shows "club_wf db'"
proof (rule grade_shape [OF assms(2)])
  fix s c db1
  assume up: "upsert_membership (uuid e 0) t (su_studentId s) (grade_membership (ch_department c) (final_grade dto) (now e))
      (update_submission i (graded dto a (now e)) db) = Inr db1" and ap: "approve_placement t (su_studentId s) a dto c e db1 = Inr db'"
  have "club_wf (update_submission i (graded dto a (now e)) db)"
    using assms(1) by (rule update_submission_wf) (simp_all add: graded_def submission_ok_def)
  from approve_placement_wf [OF upsert_membership_wf [OF this up] ap] show "club_wf db'" .
qed

lemma image_filter_ne: "x \<in> f ` A \<Longrightarrow> x \<noteq> i \<Longrightarrow> x \<in> f ` {y \<in> A. f y \<noteq> i}"
  by auto

lemma deletes_wf:
  "club_wf db \<Longrightarrow> deleteMilestone i t db = Inr db' \<Longrightarrow> club_wf db'"
  "club_wf db \<Longrightarrow> deleteChallenge i t db = Inr db' \<Longrightarrow> club_wf db'"
  by (auto simp: deleteMilestone_def deleteChallenge_def club_wf_def Let_def distinct_map_filter list_all_iff
      intro!: image_filter_ne split: option.splits)

lemma milestones_wf:
  "club_wf db \<Longrightarrow> club_wf (createMilestone t cdto e db)"
  "club_wf db \<Longrightarrow> updateMilestone i t dto db = Inr db' \<Longrightarrow> club_wf db'"
proof -
  have ids: "map ml_id (update_row ml_id i f rs) = map ml_id rs" if "\<And>m. ml_id (f m) = ml_id m" for f rs
    using that by (rule map_update_same)
  show "club_wf db \<Longrightarrow> club_wf (createMilestone t cdto e db)" by (auto simp: createMilestone_def club_wf_def)
  show "club_wf db \<Longrightarrow> updateMilestone i t dto db = Inr db' \<Longrightarrow> club_wf db'"
    by (auto simp: updateMilestone_def club_wf_def ids simp del: set_map split: option.splits)
qed

lemma entrance_wf: "club_wf db \<Longrightarrow> club_wf (snd (getEntranceChallenges u t e db))"
  by (auto simp: getEntranceChallenges_def Let_def ensure_all_wf split: prod.split)

lemma entrance_submissions [simp]: "same_work db (snd (getEntranceChallenges u t e db))"
  by (auto simp: getEntranceChallenges_def Let_def ensure_all_submissions split: prod.split)

lemma start_entrance_wf:
  assumes "club_wf db" and "startEntranceChallenge c u t e db = Inr (s, db')"
  shows "club_wf db'"
  using start_entrance_shape [OF assms(2)] create_submission_wf ensure_wf [OF assms(1)] assms(1) by blast

lemma start_wf:
  assumes "club_wf db" and "startChallenge c u t e db = Inr (s, db')"
  shows "club_wf db'"
  using start_shape [OF assms(2)] create_submission_wf assms(1) by blast

lemma my_status_wf:
  assumes "club_wf db" and "getMyClubStatus u t e db = Inr (v, db')"
  shows "club_wf db'"
  using assms create_membership_wf [OF assms(1), of "blank_membership (uuid e 0) t u" db']
  by (auto simp: getMyClubStatus_def Let_def bindE_Inr blank_membership_def membership_ok_def split: option.splits)

lemma add_report_wf:
  assumes "club_wf db" and "addSubmissionReport i u t dto e db = Inr (r, db')"
  shows "club_wf db'"
  by (rule add_report_shape [OF assms(2)])
    (use assms(1) in \<open>auto intro!: create_report_wf update_submission_wf simp: submission_ok_def\<close>)

lemma submit_wf:
  assumes "club_wf db" and "submitChallenge c u t dto e db = Inr db'"
  shows "club_wf db'"
  using assms by (auto simp: submitChallenge_def submitted_def submission_ok_def intro!: update_submission_wf split: option.splits)

lemma approval_wf:
  assumes "club_wf db" and "submitTeacherApproval i a t dto e db = Inr db'"
  shows "club_wf db'"
  using assms by (auto simp: submitTeacherApproval_def progress_ok_def progress_key_def intro!: update_progress_wf split: option.splits)

lemma update_challenge_request_wf:
  assumes "club_wf db" and "updateChallenge i t dto db = Inr db'"
  shows "club_wf db'"
  using assms by (auto simp: updateChallenge_def intro!: update_challenge_wf split: option.splits)

lemma map_sum_Inr: "map_sum id f x = Inr y \<Longrightarrow> \<exists>z. x = Inr z \<and> y = f z"
  by (cases x) auto

lemma club_serve_wf:
  assumes "club_wf db" and "club_serve r db = Inr db'"
  shows "club_wf db'"
  using assms
proof (cases r)
  case (CreateChallenge t dto e)
  with assms show ?thesis by (auto simp: createChallenge_def intro: create_challenge_wf)
qed (use assms(2) in \<open>auto dest!: map_sum_Inr dest: my_status_wf [OF assms(1)] start_wf [OF assms(1)] submit_wf [OF assms(1)]
  approval_wf [OF assms(1)] update_member_wf [OF assms(1)] toggle_wf [OF assms(1)] milestones_wf(2) [OF assms(1)]
  deletes_wf [OF assms(1)] update_challenge_request_wf [OF assms(1)] grade_wf [OF assms(1)] start_entrance_wf [OF assms(1)]
  add_report_wf [OF assms(1)] simp: milestones_wf(1) [OF assms(1)] entrance_wf [OF assms(1)]\<close>)

section \<open>The limit is kept\<close>

lemma member_submissions:
  "updateMemberStatus k t dto e db = Inr db' \<Longrightarrow> same_work db db'"
  by (auto simp: updateMemberStatus_def Let_def creates_submissions(1) split: option.splits)

lemma milestone_submissions:
  "toggleStudentMilestone k m t a e db = Inr db' \<Longrightarrow> same_work db db'"
  "submitTeacherApproval i a t adto e db = Inr db' \<Longrightarrow> same_work db db'"
  by (auto simp: toggleStudentMilestone_def submitTeacherApproval_def creates_submissions(3) split: option.splits if_splits)

lemma admin_submissions:
  "updateMilestone i t mdto db = Inr db' \<Longrightarrow> same_work db db'"
  "deleteMilestone i t db = Inr db' \<Longrightarrow> same_work db db'"
  "updateChallenge i t cdto db = Inr db' \<Longrightarrow> same_work db db'"
  "createChallenge t ndto e db = Inr db' \<Longrightarrow> same_work db db'"
  by (auto simp: updateMilestone_def deleteMilestone_def updateChallenge_def createChallenge_def same_work_def
      dest!: creates_submissions(2) split: option.splits)

lemma status_submissions:
  "getMyClubStatus u t e db = Inr (v, db') \<Longrightarrow> same_work db db'"
  by (auto simp: getMyClubStatus_def Let_def bindE_Inr creates_submissions(1) split: option.splits)

lemma start_limit:
  "active_limit db \<Longrightarrow> startChallenge c u t e db = Inr (s, db') \<Longrightarrow> active_limit db'"
  using start_shape [of c u t e db s db'] create_submission_limit [of db s db'] by auto

lemma start_entrance_limit:
  assumes "active_limit db" and "startEntranceChallenge c u t e db = Inr (s, db')"
  shows "active_limit db'"
proof -
  from start_entrance_shape [OF assms(2)] obtain db1 where "db1 = db \<or> (\<exists>d i. db1 = snd (ensureEntranceChallengeInDb d t i db))"
    and step: "db' = db1 \<or> create_submission s db1 = Inr db' \<and> submission_ok s
       \<and> su_tenantId s = t \<and> su_studentId s = u \<and> length (active_submissions t u db1) < 2" by blast
  then have "active_limit db1" using assms(1) active_limit_same [OF ensure_submissions assms(1)] by auto
  with step show ?thesis using create_submission_limit [of db1 s db'] by auto
qed

lemma grade_limit:
  assumes "active_limit db" and "gradeSubmission i t a dto e db = Inr db'"
  shows "active_limit db'"
proof (rule grade_shape [OF assms(2)])
  fix s c db1
  assume up: "upsert_membership (uuid e 0) t (su_studentId s) (grade_membership (ch_department c) (final_grade dto) (now e))
      (update_submission i (graded dto a (now e)) db) = Inr db1" and ap: "approve_placement t (su_studentId s) a dto c e db1 = Inr db'"
  have "active_limit (update_submission i (graded dto a (now e)) db)"
    using assms(1) by (rule update_submission_limit) (simp add: running_def graded_def)
  then show "active_limit db'"
    using active_limit_same [OF approve_placement_submissions [OF ap]] active_limit_same [OF upsert_membership_submissions [OF up]] by blast
qed

lemma delete_challenge_limit:
  assumes "active_limit db" and "deleteChallenge i t db = Inr db'"
  shows "active_limit db'"
proof -
  have "length (filter P (filter Q xs)) \<le> length (filter P xs)" for P Q and xs :: "ClubChallengeSubmission list"
    by (induction xs) auto
  with assms show ?thesis
    by (fastforce simp: deleteChallenge_def active_limit_def active_filter Let_def intro: order_trans split: option.splits)
qed

lemma add_report_limit:
  assumes "active_limit db" and "addSubmissionReport i u t dto e db = Inr (r, db')"
  shows "active_limit db'"
  by (rule add_report_shape [OF assms(2)])
    (use assms(1) in \<open>auto intro!: active_limit_same0 [of _ "update_submission i _ db"] update_submission_limit simp: running_def\<close>)

lemma submit_limit:
  assumes "active_limit db" and "submitChallenge c u t dto e db = Inr db'"
  shows "active_limit db'"
  using assms by (auto simp: submitChallenge_def submitted_def running_def intro!: update_submission_limit split: option.splits)

lemma club_serve_limit:
  assumes "active_limit db" and "club_serve r db = Inr db'"
  shows "active_limit db'"
proof -
  note same = active_limit_same [OF _ assms(1)]
  show ?thesis
    using assms(2)
    by (cases r)
      (auto dest!: map_sum_Inr dest: start_limit [OF assms(1)] start_entrance_limit [OF assms(1)] grade_limit [OF assms(1)]
        delete_challenge_limit [OF assms(1)] add_report_limit [OF assms(1)] submit_limit [OF assms(1)]
        same [OF member_submissions] same [OF milestone_submissions(1)] same [OF milestone_submissions(2)]
        same [OF admin_submissions(1)] same [OF admin_submissions(2)] same [OF admin_submissions(3)]
        same [OF admin_submissions(4)] same [OF status_submissions]
        simp: same [OF entrance_submissions] same [OF updates_submissions(3)])
qed

section \<open>Reports survive\<close>

text \<open>A request of this kind keeps every report and every submission with its challenge and its student.\<close>

definition work_key :: "ClubChallengeSubmission \<Rightarrow> id \<times> id \<times> id" where
  "work_key s = (su_id s, su_challengeId s, su_studentId s)"

definition keeps_work :: "club_db \<Rightarrow> club_db \<Rightarrow> bool" where
  "keeps_work db db' \<longleftrightarrow> set (clubReports db) \<subseteq> set (clubReports db')
     \<and> set (map work_key (clubSubmissions db)) \<subseteq> set (map work_key (clubSubmissions db'))"

lemma keeps_same: "same_work db db' \<Longrightarrow> keeps_work db db'"
  by (auto simp: keeps_work_def same_work_def)

lemma keeps_trans: "keeps_work db db1 \<Longrightarrow> keeps_work db1 db2 \<Longrightarrow> keeps_work db db2"
  unfolding keeps_work_def by (meson subset_trans)

lemma keeps_update:
  assumes "\<And>s. work_key (f s) = work_key s"
  shows "keeps_work db (update_submission i f db)"
  using assms by (simp add: keeps_work_def update_submission_def map_update_same del: set_map)

lemma keeps_create: "create_submission s db = Inr db' \<Longrightarrow> keeps_work db db'"
  by (auto simp: keeps_work_def create_submission_def split: if_splits)

lemma keeps_report: "keeps_work db (create_report r db)"
  by (auto simp: keeps_work_def create_report_def)

lemma grade_keeps: "gradeSubmission i t a dto e db = Inr db' \<Longrightarrow> keeps_work db db'"
proof (erule grade_shape)
  fix s c db1
  assume up: "upsert_membership (uuid e 0) t (su_studentId s) (grade_membership (ch_department c) (final_grade dto) (now e))
      (update_submission i (graded dto a (now e)) db) = Inr db1" and ap: "approve_placement t (su_studentId s) a dto c e db1 = Inr db'"
  have "keeps_work db (update_submission i (graded dto a (now e)) db)" by (rule keeps_update) (simp add: graded_def work_key_def)
  then show "keeps_work db db'"
    using keeps_same [OF upsert_membership_submissions [OF up]] keeps_same [OF approve_placement_submissions [OF ap]] keeps_trans by blast
qed

lemma start_keeps:
  "startChallenge c u t e db = Inr (s, db') \<Longrightarrow> keeps_work db db'"
  "startEntranceChallenge c u t e db = Inr (s, db') \<Longrightarrow> keeps_work db db'"
  using start_shape [of c u t e db s db'] start_entrance_shape [of c u t e db s db'] keeps_create keeps_same [OF same_work_refl]
    keeps_same [OF ensure_submissions] keeps_trans by blast+

lemma add_report_keeps:
  assumes "addSubmissionReport i u t dto e db = Inr (r, db')"
  shows "keeps_work db db'"
  by (rule add_report_shape [OF assms]) (auto intro!: keeps_trans [OF keeps_update keeps_report] simp: work_key_def)

lemma submit_keeps: "submitChallenge c u t dto e db = Inr db' \<Longrightarrow> keeps_work db db'"
  by (auto simp: submitChallenge_def submitted_def work_key_def intro!: keeps_update split: option.splits)

lemma club_serve_keeps:
  assumes "club_serve r db = Inr db'" and "\<And>c t. r \<noteq> DeleteChallenge c t"
  shows "keeps_work db db'"
  using assms
  by (cases r)
    (auto dest!: map_sum_Inr dest: start_keeps grade_keeps add_report_keeps submit_keeps keeps_same [OF member_submissions]
      keeps_same [OF milestone_submissions(1)] keeps_same [OF milestone_submissions(2)] keeps_same [OF admin_submissions(1)]
      keeps_same [OF admin_submissions(2)] keeps_same [OF admin_submissions(3)] keeps_same [OF admin_submissions(4)]
      keeps_same [OF status_submissions] simp: keeps_same [OF entrance_submissions] keeps_same [OF updates_submissions(3)])

text \<open>A report that is in the table together with its submission for a challenge and a student.\<close>

definition report_filed :: "ClubSubmissionReport \<Rightarrow> id \<Rightarrow> id \<Rightarrow> club_db \<Rightarrow> bool" where
  "report_filed r c u db \<longleftrightarrow> r \<in> set (clubReports db)
     \<and> (cr_submissionId r, c, u) \<in> set (map work_key (clubSubmissions db))"

lemma delete_other_challenge:
  assumes "club_wf db" and "report_filed r c u db" and "deleteChallenge i t db = Inr db'" and "i \<noteq> c"
  shows "report_filed r c u db'"
proof -
  from assms(2) obtain s where s: "s \<in> set (clubSubmissions db)" "work_key s = (cr_submissionId r, c, u)"
    and r: "r \<in> set (clubReports db)" by (auto simp: report_filed_def)
  from assms(3) have db': "clubSubmissions db' = filter (\<lambda>s. su_challengeId s \<noteq> i) (clubSubmissions db)"
    "clubReports db' = filter (\<lambda>r. cr_submissionId r \<notin> su_id ` {x \<in> set (clubSubmissions db). su_challengeId x = i}) (clubReports db)"
    by (auto simp: deleteChallenge_def Let_def split: option.splits)
  have "s \<in> set (clubSubmissions db')" using s assms(4) by (simp add: db' work_key_def)
  moreover have "r \<in> set (clubReports db')"
  proof -
    have "su_challengeId x \<noteq> i" if "x \<in> set (clubSubmissions db)" "cr_submissionId r = su_id x" for x
    proof -
      have "x = s" using that s assms(1) by (intro distinct_key_inj [of su_id "clubSubmissions db"]) (simp_all add: club_wf_def work_key_def)
      with s assms(4) show ?thesis by (simp add: work_key_def)
    qed
    with r show ?thesis by (auto simp: db')
  qed
  ultimately show ?thesis using s(2) unfolding report_filed_def by force
qed

lemma report_filed_step:
  assumes "club_wf db" and "report_filed r c u db" and "club_serve rq db = Inr db'" and "\<And>t. rq \<noteq> DeleteChallenge c t"
  shows "report_filed r c u db'"
proof (cases "\<exists>i t. rq = DeleteChallenge i t")
  case True
  then obtain i t where rq: "rq = DeleteChallenge i t" by blast
  with assms(4) have "i \<noteq> c" by blast
  with rq assms(3) delete_other_challenge [OF assms(1,2)] show ?thesis by simp
next
  case False
  with club_serve_keeps [OF assms(3)] assms(2) show ?thesis
    unfolding report_filed_def keeps_work_def by blast
qed

end
