(* ===== verification/Club_Props.thy ===== *)
theory Club_Props
  imports Club_Laws
begin

text \<open>The properties of the club.\<close>

section \<open>A club for the witnesses\<close>

definition pupil :: User where
  "pupil = \<lparr>au_id = ''pupil'', au_tenantId = ''t'', au_firstName = ''P'', au_lastName = ''P'', au_phone = None, au_nationalId = None,
     au_username = None, au_role = STUDENT, au_isPlatformAdmin = False, au_status = USER_ACTIVE\<rparr>"

definition club_env :: "string \<Rightarrow> env" where
  "club_env s = \<lparr>now = 1000, rnd = 0, uuid = (\<lambda>k. s @ string_of_nat k)\<rparr>"

definition small_challenge :: "id \<Rightarrow> ClubChallenge" where
  "small_challenge i = \<lparr>ch_id = i, ch_tenantId = ''t'', ch_title = i, ch_slug = i, ch_description = i, ch_missionBrief = i,
     ch_rules = None, ch_department = ENGINEER, ch_type = PLACEMENT, ch_minGrade = None, ch_maxDays = 7, ch_maxScore = 100,
     ch_isPublished = True\<rparr>"

definition placement_milestone :: ClubRoadmapMilestone where
  "placement_milestone = \<lparr>ml_id = ''m1'', ml_tenantId = ''t'', ml_title = ''placement'', ml_orderIndex = 1, ml_weight = 25,
     ml_type = PLACEMENT_CHALLENGE, ml_lessonId = None, ml_isRequired = True\<rparr>"

definition club0 :: club_db where
  "club0 = \<lparr>clubUsers = [pupil], clubTeacherLessons = [], clubMemberships = [], clubMilestones = [placement_milestone],
     milestoneProgress = [], clubChallenges = [small_challenge ''c1'', small_challenge ''c2'', small_challenge ''c3''],
     clubSubmissions = [new_submission ''s1'' ''t'' ''c1'' ''pupil'' 0 1000], clubReports = []\<rparr>"

lemma club0_wf: "club_wf club0"
  by (simp add: club_wf_def club0_def small_challenge_def new_submission_def submission_ok_def)

lemma club0_limit: "active_limit club0"
  by (simp add: active_limit_def active_filter club0_def)

section \<open>The properties\<close>

text \<open>C21: Through any sequence of requests no student of a school ever has more than two running challenges.\<close>

theorem two_running_challenges:
  assumes "\<forall>t u. length (active_submissions t u db) \<le> 2" and "foldE club_serve rs db = Inr db'"
  shows "\<forall>t u. length (active_submissions t u db') \<le> 2"
proof -
  have "active_limit db'"
    by (rule foldE_invariant [where I = active_limit, OF _ _ assms(2)]) (use assms(1) in \<open>auto simp: active_limit_def [of db] intro: club_serve_limit\<close>)
  then show ?thesis by (simp add: active_limit_def)
qed

definition club_run :: "club_request list" where
  "club_run = [StartChallenge ''c2'' ''pupil'' ''t'' (club_env ''a''), GradeSubmission ''s1'' ''t'' ''admin''
     \<lparr>gs_score = 90, gs_feedback = None, gs_overrideGrade = None\<rparr> (club_env ''b''), StartChallenge ''c3'' ''pupil'' ''t'' (club_env ''c'')]"

lemma not_isl_Inr: "\<not> isl x \<Longrightarrow> \<exists>r. x = Inr r"
  by (cases x) auto

lemma club_run_ends: "\<exists>db'. foldE club_serve club_run club0 = Inr db'"
  by (rule not_isl_Inr) code_simp

theorem two_running_challenges_witness:
  "\<exists>db' :: club_db. foldE club_serve club_run club0 = Inr db' \<and> length (active_submissions ''t'' ''pupil'' db') \<le> 2"
proof -
  obtain db' where r: "foldE club_serve club_run club0 = Inr db'" using club_run_ends by blast
  have "\<forall>t u. length (active_submissions t u club0) \<le> 2" using club0_limit by (simp add: active_limit_def)
  from two_running_challenges [OF this r] r show ?thesis by blast
qed

text \<open>C22: The rows of the club stay well formed through any requests: one membership for a user, one progress
  row for a student and milestone, no submission without its challenge, and every member of grade A has the
  time of the promotion, every approval its approver, every graded submission its score and grade.\<close>

theorem club_rows_well_formed:
  assumes "club_wf db" and "foldE club_serve rs db = Inr db'"
  shows "club_wf db'"
  by (rule foldE_invariant [where I = club_wf, OF _ _ assms(2)]) (use assms(1) in \<open>auto intro: club_serve_wf\<close>)

theorem club_rows_well_formed_witness:
  "\<exists>db' :: club_db. foldE club_serve club_run club0 = Inr db' \<and> club_wf db'"
proof -
  obtain db' where r: "foldE club_serve club_run club0 = Inr db'" using club_run_ends by blast
  from club_rows_well_formed [OF club0_wf r] r show ?thesis by blast
qed
lemma find_update_row_same:
  assumes "find (\<lambda>r. key r = k) rs = Some r" and "\<And>r. key (f r) = key r"
  shows "find (\<lambda>r. key r = k) (update_row key k f rs) = Some (f r)"
  using assms by (induction rs) (auto simp: update_row_def)

lemma upsert_membership_found:
  assumes "upsert_membership i t k (grade_membership d g n) db = Inr db'"
  shows "find_membership k db' = Some (grade_membership d g n (default (blank_membership i t k) (find_membership k db)))"
proof (cases "find_membership k db")
  case None
  with assms show ?thesis
    by (auto simp: upsert_membership_def create_membership_def find_membership_def default_def blank_membership_def
        intro!: find_append_new split: if_splits)
next
  case (Some m)
  with assms show ?thesis
    by (auto simp: upsert_membership_def update_membership_def find_membership_def default_def intro!: find_update_row_same)
qed

lemma approve_placement_members:
  "approve_placement t k a dto c e db = Inr db' \<Longrightarrow> clubMemberships db' = clubMemberships db"
  by (auto simp: approve_placement_def update_progress_def create_progress_def Let_def split: option.splits if_splits)

lemma progress_id_unique:
  assumes "find_progress t k m db = Some p" and "distinct (map mp_id (milestoneProgress db))"
  shows "find_row mp_id (mp_id p) (milestoneProgress db) = Some p"
  using assms find_Some_iff_mem [of _ "milestoneProgress db" p] by (intro distinct_find) (auto simp: find_progress_def)

lemma approve_placement_approves:
  assumes "approve_placement t k a dto c e db = Inr db'" and "ch_type c = PLACEMENT"
    and "find (\<lambda>m. ml_tenantId m = t \<and> ml_type m = PLACEMENT_CHALLENGE) (clubMilestones db) = Some m"
  shows "\<exists>p \<in> set (milestoneProgress db'). progress_key p = (t, k, ml_id m) \<and> mp_status p = MS_APPROVED
     \<and> mp_approvedById p = Some a \<and> mp_approvedAt p = Some (now e)"
proof (cases "find_progress t k (ml_id m) db")
  case (Some p)
  let ?f = "\<lambda>p. p\<lparr>mp_status := MS_APPROVED, mp_approvedAt := Some (now e), mp_approvedById := Some a,
     mp_notes := Some (AutoApproved (gs_score dto) (ch_title c))\<rparr>"
  from Some assms have "db' = update_progress (mp_id p) ?f db" by (simp add: approve_placement_def Let_def)
  moreover have "p \<in> set (milestoneProgress db) \<and> progress_key p = (t, k, ml_id m)"
    using find_Some_iff_mem [OF Some [unfolded find_progress_def]] .
  ultimately have "?f p \<in> set (milestoneProgress db')" "progress_key (?f p) = (t, k, ml_id m)"
    by (auto simp: update_progress_def set_update_row progress_key_def)
  then show ?thesis by (intro bexI [of _ "?f p"]) simp_all
next
  case None
  with assms show ?thesis
    by (auto simp: approve_placement_def create_progress_def approved_progress_def progress_key_def Let_def split: if_splits)
qed

text \<open>What an accepted grading leaves: the submission carries the score and the grade, the membership of the
  student has that grade, is ready for the studio exactly with grade A and keeps the day of joining, and a
  placement challenge approves the placement milestone of the school.\<close>

theorem grading_sets_membership:
  assumes "club_wf db" and "gradeSubmission i t a dto e db = Inr db'"
  shows "\<exists>s c m. s \<in> set (clubSubmissions db) \<and> su_id s = i \<and> su_tenantId s = t \<and> ch_id c = su_challengeId s \<and> c \<in> set (clubChallenges db)
    \<and> graded dto a (now e) s \<in> set (clubSubmissions db')
    \<and> find_membership (su_studentId s) db' = Some m \<and> cm_grade m = Some (final_grade dto) \<and> cm_department m = Some (ch_department c)
    \<and> (cm_status m = CM_STUDIO_READY \<longleftrightarrow> final_grade dto = GRADE_A)
    \<and> (\<forall>old d. find_membership (su_studentId s) db = Some old \<longrightarrow> cm_joinedAt old = Some d \<longrightarrow> cm_joinedAt m = Some d)
    \<and> (ch_type c = PLACEMENT \<longrightarrow> (\<forall>x. find (\<lambda>m. ml_tenantId m = t \<and> ml_type m = PLACEMENT_CHALLENGE) (clubMilestones db) = Some x
         \<longrightarrow> (\<exists>p \<in> set (milestoneProgress db'). progress_key p = (t, su_studentId s, ml_id x) \<and> mp_status p = MS_APPROVED)))"
proof (rule grade_shape [OF assms(2)])
  fix s and c :: ClubChallenge and db1
  let ?db0 = "update_submission i (graded dto a (now e)) db"
  let ?g = "grade_membership (ch_department c) (final_grade dto) (now e)"
  assume s: "find (\<lambda>s. su_id s = i \<and> su_tenantId s = t) (clubSubmissions db) = Some s"
    and c: "find (\<lambda>c. ch_id c = su_challengeId s) (clubChallenges db) = Some c"
    and up: "upsert_membership (uuid e 0) t (su_studentId s) ?g ?db0 = Inr db1"
    and ap: "approve_placement t (su_studentId s) a dto c e db1 = Inr db'"
  note sm = find_Some_iff_mem [OF s] and cm = find_Some_iff_mem [OF c]
  have subs: "clubSubmissions db' = clubSubmissions ?db0"
    using upsert_membership_submissions [OF up] approve_placement_submissions [OF ap] by (simp add: same_work_def)
  have in_subs: "graded dto a (now e) s \<in> set (clubSubmissions db')"
    using sm by (force simp: subs update_submission_def set_update_row)
  define old where "old = default (blank_membership (uuid e 0) t (su_studentId s)) (find_membership (su_studentId s) db)"
  have "find_membership (su_studentId s) ?db0 = find_membership (su_studentId s) db"
    by (simp add: find_membership_def update_submission_def)
  then have found: "find_membership (su_studentId s) db' = Some (?g old)"
    using upsert_membership_found [OF up] approve_placement_members [OF ap] by (simp add: old_def find_membership_def)
  have mil: "clubMilestones db1 = clubMilestones db"
    using up by (auto simp: upsert_membership_def update_membership_def create_membership_def update_submission_def split: option.splits if_splits)
  have placement: "\<exists>p \<in> set (milestoneProgress db'). progress_key p = (t, su_studentId s, ml_id x) \<and> mp_status p = MS_APPROVED"
    if "ch_type c = PLACEMENT" "find (\<lambda>m. ml_tenantId m = t \<and> ml_type m = PLACEMENT_CHALLENGE) (clubMilestones db) = Some x" for x
    using approve_placement_approves [OF ap that(1), of x] that(2) mil by auto
  have joined: "cm_joinedAt (?g old) = Some d" if "find_membership (su_studentId s) db = Some m" "cm_joinedAt m = Some d" for m d
    using that by (simp add: old_def default_def grade_membership_def Let_def)
  have cols: "cm_grade (?g old) = Some (final_grade dto)" "cm_department (?g old) = Some (ch_department c)"
    "cm_status (?g old) = CM_STUDIO_READY \<longleftrightarrow> final_grade dto = GRADE_A"
    by (simp_all add: grade_membership_def Let_def)
  show ?thesis
    by (rule exI [of _ s], rule exI [of _ c], rule exI [of _ "?g old"]) (use sm cm in_subs found cols joined placement in blast)
qed

theorem grading_sets_membership_witness:
  "\<exists>db' :: club_db. gradeSubmission ''s1'' ''t'' ''admin'' \<lparr>gs_score = 90, gs_feedback = None, gs_overrideGrade = None\<rparr> (club_env ''b'') club0 = Inr db'
     \<and> (\<exists>m. find_membership ''pupil'' db' = Some m \<and> cm_status m = CM_STUDIO_READY)"
proof -
  let ?dto = "\<lparr>gs_score = 90, gs_feedback = None, gs_overrideGrade = None\<rparr>"
  have "\<exists>db'. gradeSubmission ''s1'' ''t'' ''admin'' ?dto (club_env ''b'') club0 = Inr db'"
    by (rule not_isl_Inr) code_simp
  then obtain db' where r: "gradeSubmission ''s1'' ''t'' ''admin'' ?dto (club_env ''b'') club0 = Inr db'" by blast
  have "s \<in> set (clubSubmissions club0) \<Longrightarrow> su_studentId s = ''pupil''" for s by (simp add: club0_def new_submission_def)
  moreover have "final_grade ?dto = GRADE_A" by (simp add: final_grade_def grade_of_score_def)
  ultimately show ?thesis using grading_sets_membership [OF club0_wf r] r by metis
qed

text \<open>The progress shown is between 0 and 100; it is 100 when everything is approved, but also, because it is
  rounded, as soon as the approved part is 99.5 percent of the weight.\<close>

theorem progress_percent_bounds:
  assumes "0 \<le> completed" and "completed \<le> whole"
  shows "0 \<le> progress_percent completed whole \<and> progress_percent completed whole \<le> 100
    \<and> (progress_percent completed whole = 100 \<longleftrightarrow> 0 < whole \<and> 199 * whole \<le> 200 * completed)"
proof (cases "0 < whole")
  case True
  define q where "q = of_int completed / of_int whole * 100 + (1 / 2 :: rat)"
  define k where "k = \<lfloor>q\<rfloor>"
  have "100 \<le> k \<longleftrightarrow> (100 :: rat) \<le> q" by (simp add: k_def le_floor_iff)
  also have "\<dots> \<longleftrightarrow> (of_int (199 * whole) :: rat) \<le> of_int (200 * completed)" using True by (simp add: q_def field_simps)
  also have "\<dots> \<longleftrightarrow> 199 * whole \<le> 200 * completed" by (rule of_int_le_iff)
  finally have full: "100 \<le> k \<longleftrightarrow> 199 * whole \<le> 200 * completed" .
  have "0 \<le> k" using assms True by (simp add: k_def q_def)
  moreover have "progress_percent completed whole = min 100 k" using True by (simp add: progress_percent_def k_def q_def)
  ultimately show ?thesis using full True by (auto simp: min_def)
qed (simp add: progress_percent_def)

theorem progress_percent_bounds_witness: "progress_percent 199 200 = 100"
  using progress_percent_bounds [of 199 200] by simp

lemma set_add_missing: "set rs \<subseteq> set (add_missing extra rs)"
proof (induction extra arbitrary: rs)
  case (Cons a extra)
  show ?case
    using Cons.IH [of rs] Cons.IH [of "rs @ [a]"] by (auto simp: add_missing_def)
qed (simp add: add_missing_def)

lemma filed_listed:
  assumes "club_wf db" and "report_filed r c u db"
  shows "\<exists>s rs. getSubmissionReports (cr_submissionId r) u False db = Inr (s, rs) \<and> r \<in> set rs"
proof -
  from assms(2) obtain s where s: "s \<in> set (clubSubmissions db)" "su_id s = cr_submissionId r" "su_studentId s = u"
    and r: "r \<in> set (clubReports db)" by (auto simp: report_filed_def work_key_def)
  have "find (\<lambda>s. su_id s = cr_submissionId r) (clubSubmissions db) = Some s"
    using distinct_find [of su_id "clubSubmissions db" s] assms(1) s by (simp add: club_wf_def find_row_def)
  moreover have "r \<in> set (combined_reports s (newest_first (clubReports db)))"
    using r s(2) set_add_missing [of "filter (\<lambda>r. cr_submissionId r = su_id s) (newest_first (clubReports db))" "json_reports s"]
    by (auto simp: combined_reports_def newest_first_def)
  ultimately show ?thesis using s(3) by (simp add: getSubmissionReports_def)
qed

text \<open>A progress report a student has filed is listed for that student after any further requests, even after
  the submission replaced its attachments, as long as the challenge is not deleted.\<close>

theorem filed_report_listed:
  assumes "club_wf db" and "addSubmissionReport i u t dto e db = Inr (r, db1)"
    and "cr_id r \<notin> set (map cr_id (clubReports db))" and "club_user_exists u db"
    and "foldE club_serve rs db1 = Inr db2"
    and "\<forall>s \<in> set (clubSubmissions db). su_id s = i \<longrightarrow> (\<forall>t'. DeleteChallenge (su_challengeId s) t' \<notin> set rs)"
  shows "\<exists>s reports. getSubmissionReports i u False db2 = Inr (s, reports) \<and> r \<in> set reports"
proof (rule add_report_shape [OF assms(2)])
  fix s
  assume s: "s \<in> set (clubSubmissions db)" "su_id s = i" "su_studentId s = u" "r = report_of t s u dto e"
    and db1: "db1 = create_report r (update_submission i (\<lambda>x. x\<lparr>su_attachments := add_report_json r (su_attachments s)\<rparr>) db)"
  let ?db0 = "update_submission i (\<lambda>x. x\<lparr>su_attachments := add_report_json r (su_attachments s)\<rparr>) db"
  have keys: "map work_key (clubSubmissions ?db0) = map work_key (clubSubmissions db)" "map su_id (clubSubmissions ?db0) = map su_id (clubSubmissions db)"
    by (simp_all add: update_submission_def map_update_same work_key_def)
  have rid: "cr_submissionId r = i" "cr_studentId r = u" using s by (simp_all add: report_of_def)
  have "i \<in> set (map su_id (clubSubmissions ?db0))" unfolding keys using s by force
  moreover have "club_user_exists u ?db0" and "clubReports ?db0 = clubReports db"
    using assms(4) by (simp_all add: club_user_exists_def update_submission_def)
  ultimately have new: "clubReports db1 = clubReports db @ [r]" "clubSubmissions db1 = clubSubmissions ?db0"
    using assms(3) rid by (simp_all add: db1 create_report_def)
  have "(i, su_challengeId s, u) \<in> set (map work_key (clubSubmissions db1))"
    unfolding new keys using s by (force simp: work_key_def)
  then have "report_filed r (su_challengeId s) u db1"
    unfolding report_filed_def rid using new(1) by simp
  moreover have "club_wf db1" by (rule add_report_wf [OF assms(1,2)])
  ultimately have "club_wf db2 \<and> report_filed r (su_challengeId s) u db2"
    using assms(6) s
    by (intro foldE_invariant [where I = "\<lambda>d. club_wf d \<and> report_filed r (su_challengeId s) u d", OF _ _ assms(5)])
      (auto intro: club_serve_wf report_filed_step)
  with filed_listed rid show ?thesis by blast
qed

definition report_dto :: CreateClubReportDto where
  "report_dto = \<lparr>rd_reportDate = None, rd_title = None, rd_content = ''day one'', rd_workDuration = Some 2\<rparr>"

definition hand_in :: club_request where
  "hand_in = SubmitChallenge ''c1'' ''pupil'' ''t'' \<lparr>sc_repositoryUrl = Some ''git'', sc_figmaUrl = None, sc_demoUrl = None,
     sc_submissionNotes = None, sc_attachments = Some (''files'', None)\<rparr> (club_env ''d'')"

theorem filed_report_listed_witness:
  "\<exists>r db1 db2. addSubmissionReport ''s1'' ''pupil'' ''t'' report_dto (club_env ''r'') club0 = Inr (r, db1)
     \<and> foldE club_serve [hand_in] db1 = Inr db2
     \<and> (\<exists>s reports. getSubmissionReports ''s1'' ''pupil'' False db2 = Inr (s, reports) \<and> r \<in> set reports)"
proof -
  have "\<not> isl (bindE (addSubmissionReport ''s1'' ''pupil'' ''t'' report_dto (club_env ''r'') club0) (\<lambda>(r, db1). foldE club_serve [hand_in] db1))"
    by code_simp
  then obtain r db1 db2 where 1: "addSubmissionReport ''s1'' ''pupil'' ''t'' report_dto (club_env ''r'') club0 = Inr (r, db1)"
    and 2: "foldE club_serve [hand_in] db1 = Inr db2"
    using not_isl_Inr by (fastforce simp: bindE_Inr)
  have "club_user_exists ''pupil'' club0" "cr_id r \<notin> set (map cr_id (clubReports club0))"
    by (simp_all add: club_user_exists_def club0_def pupil_def)
  with filed_report_listed [OF club0_wf 1 _ _ 2] 1 2 show ?thesis by (auto simp: hand_in_def)
qed

end
