(* ===== verification/Exam_Model.thy ===== *)
theory Exam_Model
  imports Rbac
begin

text \<open>
  Online exams (\<open>modules/exams/exams.service.ts\<close>) and the question bank
  (\<open>modules/question-bank/question-bank.service.ts\<close>): the tables, the bank, and the composition of exams.

  The rows of \<open>ExamClassroom\<close> and \<open>ExamQuestion\<close> are kept in their exam, the options in their question.
  Scores are columns of type \<open>Float\<close>; the model computes with the rationals they denote.  Formulas and
  images are left out.  The identifier of an option is made from the one of its question.
\<close>

section \<open>Tables\<close>

datatype QuestionType = MULTIPLE_CHOICE | DESCRIPTIVE | TRUE_FALSE | FILL_IN_BLANK

datatype DifficultyLevel = EASY | MEDIUM | HARD | OLYMPIAD

datatype ExamType = ONLINE | PAPER_BASED | HYBRID

datatype ExamStatus = EX_DRAFT | EX_SCHEDULED | EX_RUNNING | EX_FINISHED | EX_CANCELLED

datatype ParticipationStatus = PT_IN_PROGRESS | PT_SUBMITTED | PT_TIMED_OUT | PT_ABSENT

record QuestionOption =
  qo_id :: id
  qo_text :: string
  qo_isCorrect :: bool
  qo_orderIndex :: int

record Question =
  qn_id :: id
  qn_tenantId :: id
  qn_lessonId :: id
  qn_categoryId :: "id option"
  qn_createdById :: id
  qn_type :: QuestionType
  qn_difficulty :: DifficultyLevel
  qn_text :: string
  qn_defaultScore :: rat
  qn_suggestedTimeSeconds :: int
  qn_solutionExplanation :: "string option"
  qn_options :: "QuestionOption list"

record QuestionCategory =
  qc_id :: id
  qc_tenantId :: id
  qc_lessonId :: id
  qc_name :: string
  qc_orderIndex :: int

record ExamQuestion =
  eq_questionId :: id
  eq_orderIndex :: int
  eq_score :: rat

record Exam =
  ex_id :: id
  ex_tenantId :: id
  ex_academicYearId :: id
  ex_termId :: "id option"
  ex_lessonId :: id
  ex_teacherId :: id
  ex_title :: string
  ex_description :: "string option"
  ex_examType :: ExamType
  ex_round :: string
  ex_durationMinutes :: int
  ex_startTime :: time
  ex_endTime :: time
  ex_totalScore :: rat
  ex_shuffleQuestions :: bool
  ex_shuffleOptions :: bool
  ex_showResultsImmediately :: bool
  ex_isPublished :: bool
  ex_isResultsPublished :: bool
  ex_resultsPublishedAt :: "time option"
  ex_status :: ExamStatus
  ex_classrooms :: "id list"
  ex_questions :: "ExamQuestion list"

record ExamParticipation =
  pn_id :: id
  pn_tenantId :: id
  pn_examId :: id
  pn_studentId :: id
  pn_startedAt :: time
  pn_submittedAt :: "time option"
  pn_serverDeadline :: time
  pn_totalScore :: "rat option"
  pn_isGraded :: bool
  pn_tabSwitchCount :: nat
  pn_flaggedForReview :: bool
  pn_graceScore :: rat
  pn_graceReason :: "string option"
  pn_status :: ParticipationStatus
  pn_questionOrder :: "id list"
  pn_optionOrders :: "(id \<times> id list) list"
  pn_teacherFeedback :: "string option"

record ExamAnswer =
  an_participationId :: id
  an_questionId :: id
  an_selectedOptionId :: "id option"
  an_descriptiveAnswer :: "string option"
  an_scoreAwarded :: "rat option"
  an_isAutoGraded :: bool
  an_teacherComment :: "string option"

text \<open>Of the other tables: lessons and years with their tenant, profiles with their account, assignments of
  lessons to teachers, and the classes of the students.\<close>

record exam_teacher =
  xt_id :: id
  xt_userId :: id
  xt_tenantId :: id

record exam_student =
  xs_id :: id
  xs_userId :: id
  xs_tenantId :: id
  xs_classrooms :: "id list"

record exam_year =
  xy_id :: id
  xy_tenantId :: id
  xy_isCurrent :: bool
  xy_startDate :: time

record exam_db =
  exams :: "Exam list"
  questionBank :: "Question list"
  questionCategories :: "QuestionCategory list"
  participations :: "ExamParticipation list"
  examAnswers :: "ExamAnswer list"
  examLessons :: "(id \<times> id) list"
  examTeachers :: "exam_teacher list"
  teacherLessons :: "(id \<times> id \<times> id) list"
  classSchedules :: "(id \<times> id \<times> id) list"
  examStudents :: "exam_student list"
  examYears :: "exam_year list"

text \<open>The user of the request, when there is one.\<close>

record exam_user =
  xu_id :: id
  xu_role :: UserRole

definition is_teacher :: "exam_user option \<Rightarrow> bool" where
  "is_teacher u \<longleftrightarrow> (case u of None \<Rightarrow> False | Some x \<Rightarrow> xu_role x = TEACHER)"

definition lesson_exists :: "id \<Rightarrow> id \<Rightarrow> exam_db \<Rightarrow> bool" where
  "lesson_exists tenantId lessonId db \<longleftrightarrow> (lessonId, tenantId) \<in> set (examLessons db)"

section \<open>The question bank\<close>

record CreateQuestionCategoryDto =
  qcd_lessonId :: id
  qcd_name :: string
  qcd_orderIndex :: "int option"

definition createCategory :: "id \<Rightarrow> CreateQuestionCategoryDto \<Rightarrow> env \<Rightarrow> exam_db \<Rightarrow> http_error + exam_db" where
  "createCategory tenantId dto e db =
     (if \<not> lesson_exists tenantId (qcd_lessonId dto) db then Inl (NotFound ''lesson'')
      else Inr (db\<lparr>questionCategories := questionCategories db @ [\<lparr>qc_id = uuid e 0, qc_tenantId = tenantId,
        qc_lessonId = qcd_lessonId dto, qc_name = qcd_name dto, qc_orderIndex = int_or (qcd_orderIndex dto) 1\<rparr>]\<rparr>))"

definition listCategories :: "id \<Rightarrow> id \<Rightarrow> exam_db \<Rightarrow> (QuestionCategory \<times> nat) list" where
  "listCategories tenantId lessonId db =
     map (\<lambda>c. (c, length (filter (\<lambda>q. qn_categoryId q = Some (qc_id c)) (questionBank db))))
       (sort_by (\<lambda>a b. qc_orderIndex a \<le> qc_orderIndex b)
         (filter (\<lambda>c. qc_tenantId c = tenantId \<and> qc_lessonId c = lessonId) (questionCategories db)))"

record OptionDto =
  od_text :: string
  od_isCorrect :: "bool option"
  od_orderIndex :: "int option"

record CreateQuestionDto =
  qd_lessonId :: id
  qd_categoryId :: "id option"
  qd_type :: QuestionType
  qd_difficulty :: "DifficultyLevel option"
  qd_text :: string
  qd_defaultScore :: "rat option"
  qd_suggestedTimeSeconds :: "int option"
  qd_solutionExplanation :: "string option"
  qd_options :: "OptionDto list option"

definition option_id :: "id \<Rightarrow> nat \<Rightarrow> id" where
  "option_id questionId k = questionId @ ''-'' @ string_of_nat k"

definition bank_option :: "id \<Rightarrow> nat \<Rightarrow> OptionDto \<Rightarrow> QuestionOption" where
  "bank_option questionId idx x = \<lparr>qo_id = option_id questionId idx, qo_text = od_text x,
     qo_isCorrect = (od_isCorrect x = Some True), qo_orderIndex = int_or (od_orderIndex x) (int idx + 1)\<rparr>"

definition indexed :: "'a list \<Rightarrow> (nat \<times> 'a) list" where
  "indexed xs = zip [0..<length xs] xs"

definition no_list :: "'a list option \<Rightarrow> 'a list" where
  "no_list x = (case x of None \<Rightarrow> [] | Some xs \<Rightarrow> xs)"

definition createQuestion :: "id \<Rightarrow> id \<Rightarrow> CreateQuestionDto \<Rightarrow> env \<Rightarrow> exam_db \<Rightarrow> http_error + exam_db" where
  "createQuestion tenantId createdById dto e db =
     (if \<not> lesson_exists tenantId (qd_lessonId dto) db then Inl (NotFound ''lesson'')
      else if qd_type dto = MULTIPLE_CHOICE \<and> length (no_list (qd_options dto)) < 2 then Inl (BadRequest ''two options'')
      else Inr (db\<lparr>questionBank := questionBank db @ [\<lparr>qn_id = uuid e 0, qn_tenantId = tenantId, qn_lessonId = qd_lessonId dto,
        qn_categoryId = qd_categoryId dto, qn_createdById = createdById, qn_type = qd_type dto,
        qn_difficulty = (case qd_difficulty dto of None \<Rightarrow> MEDIUM | Some d \<Rightarrow> d), qn_text = qd_text dto,
        qn_defaultScore = falsy_or (qd_defaultScore dto) 1, qn_suggestedTimeSeconds = int_or (qd_suggestedTimeSeconds dto) 60,
        qn_solutionExplanation = qd_solutionExplanation dto,
        qn_options = map (\<lambda>(k, x). bank_option (uuid e 0) k x) (indexed (no_list (qd_options dto)))\<rparr>]\<rparr>))"

definition ordered_options :: "Question \<Rightarrow> QuestionOption list" where
  "ordered_options q = sort_by (\<lambda>a b. qo_orderIndex a \<le> qo_orderIndex b) (qn_options q)"

record question_filters =
  qf_lessonId :: "id option"
  qf_categoryId :: "id option"
  qf_difficulty :: "DifficultyLevel option"
  qf_type :: "QuestionType option"
  qf_search :: "string option"

definition equals_if_given :: "'a option \<Rightarrow> 'a \<Rightarrow> bool" where
  "equals_if_given f x \<longleftrightarrow> (case f of None \<Rightarrow> True | Some y \<Rightarrow> x = y)"

definition text_if_given :: "string option \<Rightarrow> string option \<Rightarrow> bool" where
  "text_if_given f x \<longleftrightarrow> (truthy f \<longrightarrow> x = f)"

definition listQuestions :: "id \<Rightarrow> question_filters \<Rightarrow> exam_db \<Rightarrow> (Question \<times> QuestionOption list) list" where
  "listQuestions tenantId f db = map (\<lambda>q. (q, ordered_options q)) (rev (filter (\<lambda>q. qn_tenantId q = tenantId
     \<and> text_if_given (qf_lessonId f) (Some (qn_lessonId q)) \<and> text_if_given (qf_categoryId f) (qn_categoryId q)
     \<and> equals_if_given (qf_difficulty f) (qn_difficulty q) \<and> equals_if_given (qf_type f) (qn_type q)
     \<and> (truthy (qf_search f) \<longrightarrow> contains_ci (str_or (qf_search f) '''') (qn_text q))) (questionBank db)))"

definition find_question :: "id \<Rightarrow> id \<Rightarrow> exam_db \<Rightarrow> Question option" where
  "find_question tenantId questionId db = find (\<lambda>q. qn_id q = questionId \<and> qn_tenantId q = tenantId) (questionBank db)"

definition getQuestionDetails :: "id \<Rightarrow> id \<Rightarrow> exam_db \<Rightarrow> http_error + Question \<times> QuestionOption list" where
  "getQuestionDetails tenantId questionId db =
     (case find_question tenantId questionId db of None \<Rightarrow> Inl (NotFound ''question'') | Some q \<Rightarrow> Inr (q, ordered_options q))"

text \<open>Deleting a question cascades to the exams and to the answers.\<close>

definition deleteQuestion :: "id \<Rightarrow> id \<Rightarrow> exam_db \<Rightarrow> http_error + exam_db" where
  "deleteQuestion tenantId questionId db =
     (case find_question tenantId questionId db of
        None \<Rightarrow> Inl (NotFound ''question'')
      | Some _ \<Rightarrow> Inr (db\<lparr>questionBank := filter (\<lambda>q. qn_id q \<noteq> questionId) (questionBank db),
          exams := map (\<lambda>x. x\<lparr>ex_questions := filter (\<lambda>q. eq_questionId q \<noteq> questionId) (ex_questions x)\<rparr>) (exams db),
          examAnswers := filter (\<lambda>a. an_questionId a \<noteq> questionId) (examAnswers db)\<rparr>))"

definition deleteCategory :: "id \<Rightarrow> id \<Rightarrow> exam_db \<Rightarrow> http_error + exam_db" where
  "deleteCategory tenantId categoryId db =
     (case find (\<lambda>c. qc_id c = categoryId \<and> qc_tenantId c = tenantId) (questionCategories db) of
        None \<Rightarrow> Inl (NotFound ''category'')
      | Some _ \<Rightarrow> Inr (db\<lparr>questionCategories := filter (\<lambda>c. qc_id c \<noteq> categoryId) (questionCategories db),
          questionBank := map (\<lambda>q. if qn_categoryId q = Some categoryId then q\<lparr>qn_categoryId := None\<rparr> else q) (questionBank db)\<rparr>))"

section \<open>Creating an exam\<close>

record ExamQuestionItemDto =
  xq_questionId :: id
  xq_orderIndex :: "int option"
  xq_score :: rat

record CreateExamDto =
  xd_academicYearId :: "id option"
  xd_termId :: "id option"
  xd_lessonId :: id
  xd_teacherId :: "id option"
  xd_title :: string
  xd_description :: "string option"
  xd_examType :: "ExamType option"
  xd_type :: "ExamType option"
  xd_round :: "string option"
  xd_durationMinutes :: int
  xd_startTime :: time
  xd_endTime :: time
  xd_totalScore :: "rat option"
  xd_shuffleQuestions :: "bool option"
  xd_shuffleOptions :: "bool option"
  xd_showResultsImmediately :: "bool option"
  xd_classroomId :: "id option"
  xd_classroomIds :: "id list option"
  xd_questions :: "ExamQuestionItemDto list option"

definition teacher_profile :: "id \<Rightarrow> id \<Rightarrow> exam_db \<Rightarrow> exam_teacher option" where
  "teacher_profile tenantId userId db = find (\<lambda>t. xt_userId t = userId \<and> xt_tenantId t = tenantId) (examTeachers db)"

definition teaches :: "id \<Rightarrow> id \<Rightarrow> id \<Rightarrow> exam_db \<Rightarrow> bool" where
  "teaches tenantId teacherId lessonId db \<longleftrightarrow>
     (teacherId, lessonId, tenantId) \<in> set (teacherLessons db) \<or> (teacherId, lessonId, tenantId) \<in> set (classSchedules db)"

text \<open>The teacher of the exam: the caller, the one of the request, the one of the lesson, or the first.\<close>

definition requested_teacher :: "id \<Rightarrow> CreateExamDto \<Rightarrow> exam_user option \<Rightarrow> exam_db \<Rightarrow> http_error + id option" where
  "requested_teacher tenantId dto user db =
     (case user of
        None \<Rightarrow> Inr (xd_teacherId dto)
      | Some u \<Rightarrow>
          if xu_role u = TEACHER then
            (case teacher_profile tenantId (xu_id u) db of
               None \<Rightarrow> Inl (Forbidden ''no teacher profile'')
             | Some t \<Rightarrow> if teaches tenantId (xt_id t) (xd_lessonId dto) db then Inr (Some (xt_id t))
                 else Inl (Forbidden ''lesson of another teacher''))
          else if \<not> truthy (xd_teacherId dto) then
            (case teacher_profile tenantId (xu_id u) db of None \<Rightarrow> Inr (xd_teacherId dto) | Some t \<Rightarrow> Inr (Some (xt_id t)))
          else Inr (xd_teacherId dto))"

definition exam_teacher_of :: "id \<Rightarrow> CreateExamDto \<Rightarrow> exam_user option \<Rightarrow> exam_db \<Rightarrow> http_error + id" where
  "exam_teacher_of tenantId dto user db =
     bindE (requested_teacher tenantId dto user db) (\<lambda>t.
       if truthy t then Inr (str_or t '''')
       else (case find (\<lambda>(_, l, n). n = tenantId \<and> l = xd_lessonId dto) (teacherLessons db) of
           Some (i, _) \<Rightarrow> Inr i
         | None \<Rightarrow> (case find (\<lambda>t. xt_tenantId t = tenantId) (examTeachers db) of
             None \<Rightarrow> Inl (NotFound ''teacher'') | Some t \<Rightarrow> Inr (xt_id t))))"

definition latest_year :: "exam_year list \<Rightarrow> exam_year option" where
  "latest_year ys = (case sort_by (\<lambda>a b. xy_startDate b \<le> xy_startDate a) ys of [] \<Rightarrow> None | y # _ \<Rightarrow> Some y)"

definition exam_year_of :: "id \<Rightarrow> CreateExamDto \<Rightarrow> exam_db \<Rightarrow> http_error + id" where
  "exam_year_of tenantId dto db =
     (if truthy (xd_academicYearId dto) then Inr (str_or (xd_academicYearId dto) '''')
      else (let ys = filter (\<lambda>y. xy_tenantId y = tenantId) (examYears db)
        in case find xy_isCurrent ys of
            Some y \<Rightarrow> Inr (xy_id y)
          | None \<Rightarrow> (case latest_year ys of None \<Rightarrow> Inl (BadRequest ''no academic year'') | Some y \<Rightarrow> Inr (xy_id y))))"

definition calculated_total :: "CreateExamDto \<Rightarrow> rat" where
  "calculated_total dto = (let qs = no_list (xd_questions dto)
     in if qs = [] then 20 else sum_list (map (\<lambda>q. if xq_score q = 0 then 1 else xq_score q) qs))"

definition target_classrooms :: "CreateExamDto \<Rightarrow> id list" where
  "target_classrooms dto = fold set_add (no_list (xd_classroomIds dto)
     @ (if truthy (xd_classroomId dto) then [str_or (xd_classroomId dto) ''''] else [])) []"

definition exam_questions_of :: "CreateExamDto \<Rightarrow> ExamQuestion list" where
  "exam_questions_of dto = map (\<lambda>(idx, q). \<lparr>eq_questionId = xq_questionId q, eq_orderIndex = int_or (xq_orderIndex q) (int idx + 1),
     eq_score = xq_score q\<rparr>) (indexed (no_list (xd_questions dto)))"

definition exam_row :: "id \<Rightarrow> id \<Rightarrow> id \<Rightarrow> id \<Rightarrow> CreateExamDto \<Rightarrow> Exam" where
  "exam_row i tenantId teacherId yearId dto = \<lparr>ex_id = i, ex_tenantId = tenantId, ex_academicYearId = yearId, ex_termId = xd_termId dto,
     ex_lessonId = xd_lessonId dto, ex_teacherId = teacherId, ex_title = xd_title dto, ex_description = xd_description dto,
     ex_examType = (case xd_examType dto of Some t \<Rightarrow> t | None \<Rightarrow> (case xd_type dto of Some t \<Rightarrow> t | None \<Rightarrow> ONLINE)),
     ex_round = str_or (xd_round dto) ''CLASS_EXAM'', ex_durationMinutes = xd_durationMinutes dto, ex_startTime = xd_startTime dto,
     ex_endTime = xd_endTime dto, ex_totalScore = falsy_or (xd_totalScore dto) (calculated_total dto),
     ex_shuffleQuestions = (xd_shuffleQuestions dto \<noteq> Some False), ex_shuffleOptions = (xd_shuffleOptions dto \<noteq> Some False),
     ex_showResultsImmediately = (xd_showResultsImmediately dto = Some True), ex_isPublished = True, ex_isResultsPublished = False,
     ex_resultsPublishedAt = None, ex_status = EX_SCHEDULED, ex_classrooms = target_classrooms dto, ex_questions = exam_questions_of dto\<rparr>"

definition create_exam :: "Exam \<Rightarrow> exam_db \<Rightarrow> http_error + exam_db" where
  "create_exam x db =
     (if ex_id x \<in> set (map ex_id (exams db)) then Inl (UniqueViolation ''Exam.id'')
      else if \<not> distinct (map eq_questionId (ex_questions x)) then Inl (UniqueViolation ''ExamQuestion'')
      else if \<not> list_all (\<lambda>q. eq_questionId q \<in> set (map qn_id (questionBank db))) (ex_questions x) then Inl (ForeignKeyViolation ''ExamQuestion.questionId'')
      else Inr (db\<lparr>exams := exams db @ [x]\<rparr>))"

definition createExam :: "id \<Rightarrow> CreateExamDto \<Rightarrow> exam_user option \<Rightarrow> env \<Rightarrow> exam_db \<Rightarrow> http_error + exam_db" where
  "createExam tenantId dto user e db =
     (if \<not> lesson_exists tenantId (xd_lessonId dto) db then Inl (NotFound ''lesson'')
      else bindE (exam_teacher_of tenantId dto user db) (\<lambda>teacherId.
        bindE (exam_year_of tenantId dto db) (\<lambda>yearId. create_exam (exam_row (uuid e 0) tenantId teacherId yearId dto) db)))"

end
