(* ===== verification/Exam.thy ===== *)
theory Exam
  imports Exam_Model
begin

text \<open>
  Exams: adding questions, the paper of a student with its shuffled questions and options, the submission
  with the deadline of the server and the automatic grading, the grading by the teacher, the publication
  and the results.

  \<open>Math.random\<close> is a parameter of the shuffle: the numbers drawn, one after the other, each in the interval
  from 0 to 1 without 1.
\<close>

section \<open>Questions of an exam\<close>

definition find_exam :: "id \<Rightarrow> id \<Rightarrow> exam_db \<Rightarrow> Exam option" where
  "find_exam tenantId examId db = find (\<lambda>x. ex_id x = examId \<and> ex_tenantId x = tenantId) (exams db)"

definition teacher_account :: "id \<Rightarrow> exam_db \<Rightarrow> id option" where
  "teacher_account teacherId db = map_option xt_userId (find (\<lambda>t. xt_id t = teacherId) (examTeachers db))"

text \<open>A teacher may only touch the own exams; every other role passes.\<close>

definition may_edit :: "exam_user option \<Rightarrow> Exam \<Rightarrow> exam_db \<Rightarrow> bool" where
  "may_edit user x db \<longleftrightarrow> \<not> (is_teacher user \<and> teacher_account (ex_teacherId x) db \<noteq> map_option xu_id user)"

definition create_exam_question :: "id \<Rightarrow> ExamQuestion \<Rightarrow> exam_db \<Rightarrow> http_error + exam_db" where
  "create_exam_question examId q db =
     (if eq_questionId q \<notin> set (map qn_id (questionBank db)) then Inl (ForeignKeyViolation ''ExamQuestion.questionId'')
      else if \<exists>x \<in> set (exams db). ex_id x = examId \<and> eq_questionId q \<in> set (map eq_questionId (ex_questions x))
        then Inl (UniqueViolation ''ExamQuestion'')
      else Inr (db\<lparr>exams := update_row ex_id examId (\<lambda>x. x\<lparr>ex_questions := ex_questions x @ [q]\<rparr>) (exams db)\<rparr>))"

record AddExamQuestionDto =
  aq_questionId :: "id option"
  aq_text :: "string option"
  aq_type :: "QuestionType option"
  aq_score :: rat
  aq_options :: "(string \<times> bool) list option"
  aq_solutionExplanation :: "string option"

definition manual_question :: "id \<Rightarrow> id \<Rightarrow> exam_user option \<Rightarrow> Exam \<Rightarrow> AddExamQuestionDto \<Rightarrow> rat \<Rightarrow> exam_db \<Rightarrow> Question" where
  "manual_question i tenantId user x dto score db = \<lparr>qn_id = i, qn_tenantId = tenantId, qn_lessonId = ex_lessonId x, qn_categoryId = None,
     qn_createdById = (case user of Some u \<Rightarrow> xu_id u | None \<Rightarrow> (case teacher_account (ex_teacherId x) db of None \<Rightarrow> '''' | Some t \<Rightarrow> t)),
     qn_type = (case aq_type dto of None \<Rightarrow> MULTIPLE_CHOICE | Some t \<Rightarrow> t), qn_difficulty = MEDIUM, qn_text = str_or (aq_text dto) '''',
     qn_defaultScore = score, qn_suggestedTimeSeconds = 60, qn_solutionExplanation = aq_solutionExplanation dto,
     qn_options = map (\<lambda>(k, t, c). \<lparr>qo_id = option_id i k, qo_text = t, qo_isCorrect = c, qo_orderIndex = int k + 1\<rparr>)
       (indexed (no_list (aq_options dto)))\<rparr>"

definition add_question :: "Question \<Rightarrow> exam_db \<Rightarrow> exam_db" where
  "add_question q db = db\<lparr>questionBank := questionBank db @ [q]\<rparr>"

definition addQuestionToExam :: "id \<Rightarrow> id \<Rightarrow> AddExamQuestionDto \<Rightarrow> exam_user option \<Rightarrow> env \<Rightarrow> exam_db \<Rightarrow> http_error + exam_db" where
  "addQuestionToExam tenantId examId dto user e db =
     (case find_exam tenantId examId db of
        None \<Rightarrow> Inl (NotFound ''exam'')
      | Some x \<Rightarrow>
          if \<not> may_edit user x db then Inl (Forbidden ''exam of another teacher'')
          else (let add = (\<lambda>i d. create_exam_question examId \<lparr>eq_questionId = i, eq_orderIndex = int (length (ex_questions x)) + 1,
                  eq_score = aq_score dto\<rparr> d)
            in if \<not> truthy (aq_questionId dto) then
                 (if \<not> truthy (aq_text dto) then Inl (BadRequest ''text'')
                  else add (uuid e 0) (add_question (manual_question (uuid e 0) tenantId user x dto (aq_score dto) db) db))
               else (let i = str_or (aq_questionId dto) ''''
                 in case find_question tenantId i db of None \<Rightarrow> Inl (NotFound ''question'') | Some _ \<Rightarrow> add i db)))"

record ImportFromBankDto =
  ib_questionIds :: "id list"
  ib_defaultScore :: "rat option"

definition import_score :: "ImportFromBankDto \<Rightarrow> Question \<Rightarrow> rat" where
  "import_score dto q = falsy_or (ib_defaultScore dto) (if qn_defaultScore q = 0 then 1 else qn_defaultScore q)"

definition importQuestionsFromBank ::
  "id \<Rightarrow> id \<Rightarrow> ImportFromBankDto \<Rightarrow> exam_user option \<Rightarrow> exam_db \<Rightarrow> http_error + nat \<times> exam_db" where
  "importQuestionsFromBank tenantId examId dto user db =
     (case find_exam tenantId examId db of
        None \<Rightarrow> Inl (NotFound ''exam'')
      | Some x \<Rightarrow>
          if \<not> may_edit user x db then Inl (Forbidden ''exam of another teacher'')
          else if ib_questionIds dto = [] then Inl (BadRequest ''no question'')
          else (let bank = filter (\<lambda>q. qn_id q \<in> set (ib_questionIds dto) \<and> qn_tenantId q = tenantId) (questionBank db);
                    toAdd = filter (\<lambda>q. qn_id q \<notin> set (map eq_questionId (ex_questions x))) bank
            in if bank = [] then Inl (BadRequest ''no valid question'')
               else if toAdd = [] then Inl (BadRequest ''all added before'')
               else bindE (foldE (\<lambda>(k, q). create_exam_question examId \<lparr>eq_questionId = qn_id q,
                        eq_orderIndex = int (length (ex_questions x)) + int k + 1, eq_score = import_score dto q\<rparr>) (indexed toAdd) db)
                      (\<lambda>db'. Inr (length toAdd, db'))))"

text \<open>The questions of a batch: a row without a known question and without a text is skipped.\<close>

definition bulk_step :: "id \<Rightarrow> exam_user option \<Rightarrow> Exam \<Rightarrow> env \<Rightarrow> nat \<times> AddExamQuestionDto \<Rightarrow> nat \<times> exam_db \<Rightarrow> http_error + nat \<times> exam_db" where
  "bulk_step tenantId user x e row st =
     (let (k, dto) = row; (currentIndex, db) = st;
          score = (if aq_score dto = 0 then 1 else aq_score dto);
          add = (\<lambda>i d. bindE (create_exam_question (ex_id x) \<lparr>eq_questionId = i, eq_orderIndex = int currentIndex + 1, eq_score = score\<rparr> d)
                   (\<lambda>d'. Inr (currentIndex + 1, d')))
      in if truthy (aq_questionId dto) then add (str_or (aq_questionId dto) '''') db
         else if \<not> truthy (aq_text dto) then Inr (currentIndex, db)
         else add (uuid e k) (add_question (manual_question (uuid e k) tenantId user x dto score db) db))"

text \<open>The rows are written one by one, outside a transaction: what was written before a failing row stays.\<close>

fun bulk_rows :: "id \<Rightarrow> exam_user option \<Rightarrow> Exam \<Rightarrow> env \<Rightarrow> (nat \<times> AddExamQuestionDto) list \<Rightarrow> nat \<times> exam_db
    \<Rightarrow> (http_error + nat) \<times> exam_db" where
  "bulk_rows tenantId user x e [] st = (Inr (fst st), snd st)"
| "bulk_rows tenantId user x e (row # rows) st =
     (case bulk_step tenantId user x e row st of
        Inl err \<Rightarrow> (Inl err, snd st)
      | Inr st' \<Rightarrow> bulk_rows tenantId user x e rows st')"

definition bulkAddQuestionsToExam ::
  "id \<Rightarrow> id \<Rightarrow> AddExamQuestionDto list \<Rightarrow> exam_user option \<Rightarrow> env \<Rightarrow> exam_db \<Rightarrow> (http_error + nat) \<times> exam_db" where
  "bulkAddQuestionsToExam tenantId examId rows user e db =
     (case find_exam tenantId examId db of
        None \<Rightarrow> (Inl (NotFound ''exam''), db)
      | Some x \<Rightarrow>
          if \<not> may_edit user x db then (Inl (Forbidden ''exam of another teacher''), db)
          else if rows = [] then (Inl (BadRequest ''no question''), db)
          else (let (r, db') = bulk_rows tenantId user x e (indexed rows) (length (ex_questions x), db)
            in (map_sum id (\<lambda>n. n - length (ex_questions x)) r, db')))"

section \<open>The lists\<close>

record exam_filters =
  xf_classroomId :: "id option"
  xf_lessonId :: "id option"
  xf_teacherId :: "id option"

definition student_profile :: "id \<Rightarrow> id \<Rightarrow> exam_db \<Rightarrow> exam_student option" where
  "student_profile tenantId userId db = find (\<lambda>s. xs_userId s = userId \<and> xs_tenantId s = tenantId) (examStudents db)"

definition results_visible :: "Exam \<Rightarrow> bool" where
  "results_visible x \<longleftrightarrow> ex_isResultsPublished x \<or> ex_showResultsImmediately x"

text \<open>The scores of an own paper are hidden until the results are visible.\<close>

definition masked :: "Exam \<Rightarrow> ExamParticipation \<Rightarrow> ExamParticipation" where
  "masked x p = (if results_visible x then p
     else p\<lparr>pn_totalScore := None, pn_isGraded := False, pn_graceScore := 0, pn_graceReason := None, pn_teacherFeedback := None\<rparr>)"

definition exam_matches :: "id \<Rightarrow> exam_filters \<Rightarrow> exam_user option \<Rightarrow> exam_db \<Rightarrow> Exam \<Rightarrow> bool" where
  "exam_matches tenantId f user db x \<longleftrightarrow> ex_tenantId x = tenantId \<and> text_if_given (xf_lessonId f) (Some (ex_lessonId x))
     \<and> (case user of
          Some u \<Rightarrow>
            (if xu_role u = TEACHER then
               (case teacher_profile tenantId (xu_id u) db of
                  Some t \<Rightarrow> ex_teacherId x = xt_id t | None \<Rightarrow> text_if_given (xf_teacherId f) (Some (ex_teacherId x)))
             else text_if_given (xf_teacherId f) (Some (ex_teacherId x)))
        | None \<Rightarrow> text_if_given (xf_teacherId f) (Some (ex_teacherId x)))
     \<and> (case user of
          Some u \<Rightarrow>
            (if xu_role u = STUDENT then
               (case student_profile tenantId (xu_id u) db of
                  Some s \<Rightarrow> list_ex (\<lambda>c. c \<in> set (xs_classrooms s)) (ex_classrooms x)
                | None \<Rightarrow> truthy (xf_classroomId f) \<longrightarrow> str_or (xf_classroomId f) '''' \<in> set (ex_classrooms x))
             else truthy (xf_classroomId f) \<longrightarrow> str_or (xf_classroomId f) '''' \<in> set (ex_classrooms x))
        | None \<Rightarrow> truthy (xf_classroomId f) \<longrightarrow> str_or (xf_classroomId f) '''' \<in> set (ex_classrooms x))"

definition own_papers :: "id \<Rightarrow> exam_user option \<Rightarrow> Exam \<Rightarrow> exam_db \<Rightarrow> ExamParticipation list" where
  "own_papers tenantId user x db = (case user of
       Some u \<Rightarrow> (if xu_role u = STUDENT then
           (case student_profile tenantId (xu_id u) db of
              Some s \<Rightarrow> map (masked x) (filter (\<lambda>p. pn_examId p = ex_id x \<and> pn_studentId p = xs_id s) (participations db))
            | None \<Rightarrow> [])
         else [])
     | None \<Rightarrow> [])"

definition listExams :: "id \<Rightarrow> exam_filters \<Rightarrow> exam_user option \<Rightarrow> exam_db \<Rightarrow> (Exam \<times> nat \<times> ExamParticipation list) list" where
  "listExams tenantId f user db =
     map (\<lambda>x. (x, length (filter (\<lambda>p. pn_examId p = ex_id x) (participations db)), own_papers tenantId user x db))
       (sort_by (\<lambda>a b. ex_startTime b \<le> ex_startTime a) (filter (exam_matches tenantId f user db) (exams db)))"

definition getExamParticipations :: "id \<Rightarrow> id \<Rightarrow> exam_user option \<Rightarrow> exam_db
    \<Rightarrow> http_error + (ExamParticipation \<times> ExamAnswer list) list" where
  "getExamParticipations tenantId examId user db =
     (case find_exam tenantId examId db of
        None \<Rightarrow> Inl (NotFound ''exam'')
      | Some x \<Rightarrow> if \<not> may_edit user x db then Inl (Forbidden ''exam of another teacher'')
          else Inr (map (\<lambda>p. (p, filter (\<lambda>a. an_participationId a = pn_id p) (examAnswers db)))
            (sort_by (\<lambda>a b. pn_startedAt b \<le> pn_startedAt a)
              (filter (\<lambda>p. pn_examId p = examId \<and> pn_tenantId p = tenantId) (participations db)))))"

section \<open>The shuffle\<close>

definition swap :: "nat \<Rightarrow> nat \<Rightarrow> 'a list \<Rightarrow> 'a list" where
  "swap i j xs = xs[i := xs ! j, j := xs ! i]"

fun shuffle_from :: "(nat \<Rightarrow> rat) \<Rightarrow> nat \<Rightarrow> nat \<Rightarrow> 'a list \<Rightarrow> 'a list" where
  "shuffle_from random k 0 xs = xs"
| "shuffle_from random k (Suc i) xs =
     shuffle_from random (Suc k) i (swap (Suc i) (nat \<lfloor>random k * of_nat (Suc i + 1)\<rfloor>) xs)"

text \<open>The shuffle draws \<open>length xs - 1\<close> numbers, beginning with the \<open>k\<close>-th.\<close>

definition shuffleArray :: "(nat \<Rightarrow> rat) \<Rightarrow> nat \<Rightarrow> 'a list \<Rightarrow> 'a list" where
  "shuffleArray random k xs = shuffle_from random k (length xs - 1) xs"

section \<open>Starting an exam\<close>

definition exam_options :: "ExamQuestion \<Rightarrow> exam_db \<Rightarrow> QuestionOption list" where
  "exam_options q db = (case find (\<lambda>b. qn_id b = eq_questionId q) (questionBank db) of None \<Rightarrow> [] | Some b \<Rightarrow> qn_options b)"

definition question_order :: "(nat \<Rightarrow> rat) \<Rightarrow> Exam \<Rightarrow> id list" where
  "question_order random x =
     map eq_questionId (if ex_shuffleQuestions x then shuffleArray random 0 (ex_questions x) else ex_questions x)"

text \<open>The options of each question are drawn after the questions, one question after the other.\<close>

fun option_orders :: "(nat \<Rightarrow> rat) \<Rightarrow> bool \<Rightarrow> nat \<Rightarrow> ExamQuestion list \<Rightarrow> exam_db \<Rightarrow> (id \<times> id list) list" where
  "option_orders random sh k [] db = []"
| "option_orders random sh k (q # qs) db =
     (let opts = exam_options q db
      in if opts = [] then option_orders random sh k qs db
         else (eq_questionId q, map qo_id (if sh then shuffleArray random k opts else opts))
           # option_orders random sh (k + length opts) qs db)"

definition server_deadline :: "Exam \<Rightarrow> time \<Rightarrow> time" where
  "server_deadline x t = min (ex_endTime x) (t + (ex_durationMinutes x + 1) * 60 * 1000)"

definition new_participation :: "(nat \<Rightarrow> rat) \<Rightarrow> id \<Rightarrow> id \<Rightarrow> Exam \<Rightarrow> id \<Rightarrow> time \<Rightarrow> exam_db \<Rightarrow> ExamParticipation" where
  "new_participation random i tenantId x studentId t db =
     \<lparr>pn_id = i, pn_tenantId = tenantId, pn_examId = ex_id x, pn_studentId = studentId, pn_startedAt = t, pn_submittedAt = None,
      pn_serverDeadline = server_deadline x t, pn_totalScore = None, pn_isGraded = False, pn_tabSwitchCount = 0,
      pn_flaggedForReview = False, pn_graceScore = 0, pn_graceReason = None, pn_status = PT_IN_PROGRESS,
      pn_questionOrder = question_order random x,
      pn_optionOrders = option_orders random (ex_shuffleOptions x) (length (ex_questions x)) (ex_questions x) db,
      pn_teacherFeedback = None\<rparr>"

definition find_participation :: "id \<Rightarrow> id \<Rightarrow> exam_db \<Rightarrow> ExamParticipation option" where
  "find_participation examId studentId db = find (\<lambda>p. pn_examId p = examId \<and> pn_studentId p = studentId) (participations db)"

definition create_participation :: "ExamParticipation \<Rightarrow> exam_db \<Rightarrow> http_error + exam_db" where
  "create_participation p db =
     (if pn_id p \<in> set (map pn_id (participations db)) then Inl (UniqueViolation ''ExamParticipation.id'')
      else if (pn_examId p, pn_studentId p) \<in> set (map (\<lambda>q. (pn_examId q, pn_studentId q)) (participations db))
        then Inl (UniqueViolation ''ExamParticipation'')
      else Inr (db\<lparr>participations := participations db @ [p]\<rparr>))"

text \<open>A question as the student sees it: no solution and no mark of the correct option.\<close>

record paper_question =
  pq_questionId :: id
  pq_score :: rat
  pq_type :: QuestionType
  pq_text :: string
  pq_options :: "(id \<times> string) list"

definition paper_options :: "ExamParticipation \<Rightarrow> id \<Rightarrow> QuestionOption list \<Rightarrow> QuestionOption list" where
  "paper_options p qid opts = (case map_of (pn_optionOrders p) qid of
       None \<Rightarrow> opts | Some ids \<Rightarrow> concat (map (\<lambda>i. case find (\<lambda>x. qo_id x = i) opts of None \<Rightarrow> [] | Some x \<Rightarrow> [x]) ids))"

definition paper_question_of :: "ExamParticipation \<Rightarrow> Exam \<Rightarrow> exam_db \<Rightarrow> id \<Rightarrow> paper_question list" where
  "paper_question_of p x db qid = (case find (\<lambda>q. eq_questionId q = qid) (ex_questions x) of
       None \<Rightarrow> []
     | Some q \<Rightarrow> (case find (\<lambda>b. qn_id b = qid) (questionBank db) of
         None \<Rightarrow> []
       | Some b \<Rightarrow> [\<lparr>pq_questionId = qid, pq_score = eq_score q, pq_type = qn_type b, pq_text = qn_text b,
           pq_options = map (\<lambda>x. (qo_id x, qo_text x)) (paper_options p qid (qn_options b))\<rparr>]))"

definition paper_of :: "ExamParticipation \<Rightarrow> Exam \<Rightarrow> exam_db \<Rightarrow> paper_question list" where
  "paper_of p x db = concat (map (paper_question_of p x db) (pn_questionOrder p))"

definition startExam :: "(nat \<Rightarrow> rat) \<Rightarrow> id \<Rightarrow> id \<Rightarrow> id \<Rightarrow> env \<Rightarrow> exam_db
    \<Rightarrow> http_error + (ExamParticipation \<times> paper_question list) \<times> exam_db" where
  "startExam random tenantId examId studentUserId e db =
     (case student_profile tenantId studentUserId db of
        None \<Rightarrow> Inl (Forbidden ''no student profile'')
      | Some s \<Rightarrow> (case find_exam tenantId examId db of
          None \<Rightarrow> Inl (NotFound ''exam'')
        | Some x \<Rightarrow>
            if \<not> list_ex (\<lambda>c. c \<in> set (xs_classrooms s)) (ex_classrooms x) then Inl (Forbidden ''another class'')
            else if now e < ex_startTime x then Inl (BadRequest ''not yet'')
            else if now e > ex_endTime x then Inl (BadRequest ''over'')
            else (case find_participation examId (xs_id s) db of
                Some p \<Rightarrow> if pn_status p = PT_SUBMITTED \<or> pn_status p = PT_TIMED_OUT then Inl (Conflict ''taken before'')
                  else Inr ((p, paper_of p x db), db)
              | None \<Rightarrow> (let p = new_participation random (uuid e 0) tenantId x (xs_id s) (now e) db
                  in bindE (create_participation p db) (\<lambda>db1. Inr ((p, paper_of p x db1), db1))))))"

section \<open>Submitting the answers\<close>

record SubmitAnswerItemDto =
  sa_questionId :: id
  sa_selectedOptionId :: "id option"
  sa_descriptiveAnswer :: "string option"
  sa_textAnswer :: "string option"

record SubmitExamAnswersDto =
  se_tabSwitchCount :: "nat option"
  se_answers :: "SubmitAnswerItemDto list"

definition auto_gradable :: "QuestionType \<Rightarrow> bool" where
  "auto_gradable t \<longleftrightarrow> t = MULTIPLE_CHOICE \<or> t = TRUE_FALSE"

definition auto_score :: "ExamQuestion \<Rightarrow> Question \<Rightarrow> SubmitAnswerItemDto \<Rightarrow> rat" where
  "auto_score q b a = (case find qo_isCorrect (qn_options b) of
       Some c \<Rightarrow> if sa_selectedOptionId a = Some (qo_id c) then eq_score q else 0
     | None \<Rightarrow> 0)"

text \<open>The loop over the answers: the running total, whether a question needs a teacher, and the records.\<close>

type_synonym grading = "rat \<times> bool \<times> ExamAnswer list"

definition answer_record :: "id \<Rightarrow> SubmitAnswerItemDto \<Rightarrow> rat option \<Rightarrow> bool \<Rightarrow> ExamAnswer" where
  "answer_record pid a score auto = \<lparr>an_participationId = pid, an_questionId = sa_questionId a,
     an_selectedOptionId = (if truthy (sa_selectedOptionId a) then sa_selectedOptionId a else None),
     an_descriptiveAnswer = (if truthy (sa_descriptiveAnswer a) then sa_descriptiveAnswer a
       else if truthy (sa_textAnswer a) then sa_textAnswer a else None),
     an_scoreAwarded = score, an_isAutoGraded = auto, an_teacherComment = None\<rparr>"

definition exam_question_with :: "Exam \<Rightarrow> exam_db \<Rightarrow> id \<Rightarrow> (ExamQuestion \<times> Question) option" where
  "exam_question_with x db qid = (case find (\<lambda>q. eq_questionId q = qid) (ex_questions x) of
       None \<Rightarrow> None
     | Some q \<Rightarrow> map_option (Pair q) (find (\<lambda>b. qn_id b = qid) (questionBank db)))"

definition grade_answer :: "id \<Rightarrow> Exam \<Rightarrow> exam_db \<Rightarrow> SubmitAnswerItemDto \<Rightarrow> grading \<Rightarrow> grading" where
  "grade_answer pid x db a g =
     (let (totalScore, descriptive, records) = g
      in case exam_question_with x db (sa_questionId a) of
           None \<Rightarrow> g
         | Some (q, b) \<Rightarrow>
             if auto_gradable (qn_type b)
             then (totalScore + auto_score q b a, descriptive, records @ [answer_record pid a (Some (auto_score q b a)) True])
             else (totalScore, True, records @ [answer_record pid a None False]))"

definition grade_answers :: "id \<Rightarrow> Exam \<Rightarrow> exam_db \<Rightarrow> SubmitAnswerItemDto list \<Rightarrow> grading" where
  "grade_answers pid x db as = fold (grade_answer pid x db) as (0, False, [])"

definition answer_key :: "ExamAnswer \<Rightarrow> id \<times> id" where
  "answer_key a = (an_participationId a, an_questionId a)"

text \<open>An upsert keeps the comment of the teacher.\<close>

definition upsert_answer :: "ExamAnswer \<Rightarrow> ExamAnswer list \<Rightarrow> ExamAnswer list" where
  "upsert_answer r as = (if answer_key r \<in> set (map answer_key as)
     then update_row answer_key (answer_key r) (\<lambda>a. r\<lparr>an_teacherComment := an_teacherComment a\<rparr>) as
     else as @ [r])"

definition update_participation :: "id \<Rightarrow> (ExamParticipation \<Rightarrow> ExamParticipation) \<Rightarrow> exam_db \<Rightarrow> exam_db" where
  "update_participation i f db = db\<lparr>participations := update_row pn_id i f (participations db)\<rparr>"

text \<open>The reply of an accepted submission: graded already or not, and the score.\<close>

record submit_reply =
  sr_isGraded :: bool
  sr_totalScore :: "rat option"
  sr_flaggedForReview :: bool

definition tab_switches :: "SubmitExamAnswersDto \<Rightarrow> nat" where
  "tab_switches dto = (case se_tabSwitchCount dto of None \<Rightarrow> 0 | Some n \<Rightarrow> n)"

definition submitted_paper :: "SubmitExamAnswersDto \<Rightarrow> grading \<Rightarrow> time \<Rightarrow> ExamParticipation \<Rightarrow> ExamParticipation" where
  "submitted_paper dto g t p = p\<lparr>pn_status := PT_SUBMITTED, pn_submittedAt := Some t, pn_tabSwitchCount := tab_switches dto,
     pn_flaggedForReview := (tab_switches dto \<ge> 3),
     pn_totalScore := (if fst (snd g) then None else Some (fst g)), pn_isGraded := (\<not> fst (snd g))\<rparr>"

text \<open>A late submission is refused, but the participation is marked as timed out: the state changes although
  the request fails.\<close>

definition submitExamAnswers :: "id \<Rightarrow> id \<Rightarrow> id \<Rightarrow> SubmitExamAnswersDto \<Rightarrow> env \<Rightarrow> exam_db
    \<Rightarrow> (http_error + submit_reply) \<times> exam_db" where
  "submitExamAnswers tenantId examId studentUserId dto e db =
     (case student_profile tenantId studentUserId db of
        None \<Rightarrow> (Inl (Forbidden ''no student profile''), db)
      | Some s \<Rightarrow> (case find_participation examId (xs_id s) db of
          None \<Rightarrow> (Inl (NotFound ''no paper''), db)
        | Some p \<Rightarrow>
            if pn_status p = PT_SUBMITTED then (Inl (Conflict ''submitted before''), db)
            else if now e > pn_serverDeadline p then
              (Inl (BadRequest ''too late''),
               update_participation (pn_id p) (\<lambda>p. p\<lparr>pn_status := PT_TIMED_OUT, pn_submittedAt := Some (now e)\<rparr>) db)
            else (case find (\<lambda>x. ex_id x = examId) (exams db) of
                None \<Rightarrow> (Inl (ForeignKeyViolation ''ExamParticipation.examId''), db)
              | Some x \<Rightarrow> (let g = grade_answers (pn_id p) x db (se_answers dto)
                  in (Inr \<lparr>sr_isGraded = (\<not> fst (snd g)), sr_totalScore = (if fst (snd g) then None else Some (fst g)),
                        sr_flaggedForReview = (tab_switches dto \<ge> 3)\<rparr>,
                      update_participation (pn_id p) (submitted_paper dto g (now e))
                        (db\<lparr>examAnswers := fold upsert_answer (snd (snd g)) (examAnswers db)\<rparr>))))))"

section \<open>Grading by the teacher\<close>

text \<open>For each question of the exam, in its order, the answer of the student.\<close>

definition getExamParticipationSheet :: "id \<Rightarrow> id \<Rightarrow> exam_db
    \<Rightarrow> http_error + ExamParticipation \<times> (ExamQuestion \<times> QuestionOption list \<times> ExamAnswer option) list" where
  "getExamParticipationSheet tenantId participationId db =
     (case find (\<lambda>p. pn_id p = participationId \<and> pn_tenantId p = tenantId) (participations db) of
        None \<Rightarrow> Inl (NotFound ''paper'')
      | Some p \<Rightarrow> (case find (\<lambda>x. ex_id x = pn_examId p) (exams db) of
          None \<Rightarrow> Inl (ForeignKeyViolation ''ExamParticipation.examId'')
        | Some x \<Rightarrow> Inr (p, map (\<lambda>q. (q, sort_by (\<lambda>a b. qo_orderIndex a \<le> qo_orderIndex b) (exam_options q db),
            find (\<lambda>a. an_questionId a = eq_questionId q) (rev (filter (\<lambda>a. an_participationId a = participationId) (examAnswers db)))))
            (sort_by (\<lambda>a b. eq_orderIndex a \<le> eq_orderIndex b) (ex_questions x)))))"

record GradeDescriptiveAnswerDto =
  gd_questionId :: id
  gd_scoreAwarded :: rat
  gd_teacherComment :: "string option"

record GradeExamParticipationDto =
  gp_teacherFeedback :: "string option"
  gp_graceScore :: "rat option"
  gp_graceReason :: "string option"
  gp_grades :: "GradeDescriptiveAnswerDto list"

definition or_null :: "string option \<Rightarrow> string option" where
  "or_null s = (if truthy s then s else None)"

definition set_grade :: "id \<Rightarrow> GradeDescriptiveAnswerDto \<Rightarrow> ExamAnswer list \<Rightarrow> http_error + ExamAnswer list" where
  "set_grade pid g as = (if (pid, gd_questionId g) \<notin> set (map answer_key as) then Inl (NotFound ''answer'')
     else Inr (update_row answer_key (pid, gd_questionId g)
       (\<lambda>a. a\<lparr>an_scoreAwarded := Some (gd_scoreAwarded g), an_teacherComment := or_null (gd_teacherComment g)\<rparr>) as))"

definition raw_score :: "id \<Rightarrow> ExamAnswer list \<Rightarrow> rat" where
  "raw_score pid as = sum_list (map (\<lambda>a. case an_scoreAwarded a of None \<Rightarrow> 0 | Some s \<Rightarrow> s)
     (filter (\<lambda>a. an_participationId a = pid) as))"

definition grace_of :: "GradeExamParticipationDto \<Rightarrow> rat" where
  "grace_of dto = (case gp_graceScore dto of None \<Rightarrow> 0 | Some s \<Rightarrow> s)"

definition graded_paper :: "GradeExamParticipationDto \<Rightarrow> rat \<Rightarrow> ExamParticipation \<Rightarrow> ExamParticipation" where
  "graded_paper dto totalScore p = p\<lparr>pn_totalScore := Some totalScore, pn_graceScore := grace_of dto,
     pn_graceReason := or_null (gp_graceReason dto), pn_isGraded := True, pn_teacherFeedback := or_null (gp_teacherFeedback dto)\<rparr>"

definition gradeDescriptiveAnswers :: "id \<Rightarrow> id \<Rightarrow> GradeExamParticipationDto \<Rightarrow> exam_db \<Rightarrow> http_error + exam_db" where
  "gradeDescriptiveAnswers tenantId participationId dto db =
     (case find (\<lambda>p. pn_id p = participationId \<and> pn_tenantId p = tenantId) (participations db) of
        None \<Rightarrow> Inl (NotFound ''paper'')
      | Some p \<Rightarrow> (case find (\<lambda>x. ex_id x = pn_examId p) (exams db) of
          None \<Rightarrow> Inl (ForeignKeyViolation ''ExamParticipation.examId'')
        | Some x \<Rightarrow> bindE (foldE (set_grade participationId) (gp_grades dto) (examAnswers db)) (\<lambda>as.
            Inr (update_participation participationId
              (graded_paper dto (min (ex_totalScore x) (round2 (raw_score participationId as + grace_of dto))))
              (db\<lparr>examAnswers := as\<rparr>)))))"

section \<open>Publication and results\<close>

definition togglePublishResults :: "id \<Rightarrow> id \<Rightarrow> bool option \<Rightarrow> exam_user option \<Rightarrow> env \<Rightarrow> exam_db \<Rightarrow> http_error + exam_db" where
  "togglePublishResults tenantId examId publish user e db =
     (case find_exam tenantId examId db of
        None \<Rightarrow> Inl (NotFound ''exam'')
      | Some x \<Rightarrow>
          if \<not> may_edit user x db then Inl (Forbidden ''exam of another teacher'')
          else (let nextState = (case publish of Some b \<Rightarrow> b | None \<Rightarrow> \<not> ex_isResultsPublished x)
            in Inr (db\<lparr>exams := update_row ex_id examId (\<lambda>x. x\<lparr>ex_isResultsPublished := nextState,
                 ex_resultsPublishedAt := (if nextState then Some (now e) else None)\<rparr>) (exams db)\<rparr>)))"

record exam_stats =
  st_totalStudents :: nat
  st_gradedCount :: nat
  st_needsGradingCount :: nat
  st_tabSwitchFlaggedCount :: nat
  st_averageScore :: rat
  st_maxScore :: rat
  st_minScore :: rat

definition score_desc :: "ExamParticipation \<Rightarrow> ExamParticipation \<Rightarrow> bool" where
  "score_desc a b = (case pn_totalScore a of None \<Rightarrow> True | Some s \<Rightarrow> (case pn_totalScore b of None \<Rightarrow> False | Some t \<Rightarrow> t \<le> s))"

definition graded_scores :: "ExamParticipation list \<Rightarrow> rat list" where
  "graded_scores ps = concat (map (\<lambda>p. case pn_totalScore p of None \<Rightarrow> [] | Some s \<Rightarrow> if pn_isGraded p then [s] else []) ps)"

definition stats_of :: "ExamParticipation list \<Rightarrow> exam_stats" where
  "stats_of ps = (let scores = graded_scores ps
     in \<lparr>st_totalStudents = length ps, st_gradedCount = length (filter pn_isGraded ps),
         st_needsGradingCount = length (filter (\<lambda>p. (pn_status p = PT_SUBMITTED \<or> pn_status p = PT_TIMED_OUT) \<and> \<not> pn_isGraded p) ps),
         st_tabSwitchFlaggedCount = length (filter (\<lambda>p. pn_tabSwitchCount p > 0) ps),
         st_averageScore = (if scores = [] then 0 else round2 (sum_list scores / of_nat (length scores))),
         st_maxScore = (if scores = [] then 0 else foldr max scores (hd scores)),
         st_minScore = (if scores = [] then 0 else foldr min scores (hd scores))\<rparr>)"

definition getExamResults :: "id \<Rightarrow> id \<Rightarrow> exam_db \<Rightarrow> http_error + Exam \<times> exam_stats \<times> ExamParticipation list" where
  "getExamResults tenantId examId db =
     (case find_exam tenantId examId db of
        None \<Rightarrow> Inl (NotFound ''exam'')
      | Some x \<Rightarrow> (let ps = sort_by score_desc (filter (\<lambda>p. pn_examId p = examId) (participations db))
          in Inr (x, stats_of ps, ps)))"

section \<open>The requests\<close>

datatype exam_request =
    CreateCategory id CreateQuestionCategoryDto env
  | CreateQuestion id id CreateQuestionDto env
  | DeleteQuestion id id
  | DeleteCategory id id
  | CreateExam id CreateExamDto "exam_user option" env
  | AddQuestion id id AddExamQuestionDto "exam_user option" env
  | ImportQuestions id id ImportFromBankDto "exam_user option"
  | BulkAdd id id "AddExamQuestionDto list" "exam_user option" env
  | StartExam "nat \<Rightarrow> rat" id id id env
  | SubmitAnswers id id id SubmitExamAnswersDto env
  | GradeAnswers id id GradeExamParticipationDto
  | PublishResults id id "bool option" "exam_user option" env

definition keep :: "exam_db \<Rightarrow> http_error + exam_db \<Rightarrow> exam_db" where
  "keep db r = (case r of Inl _ \<Rightarrow> db | Inr db' \<Rightarrow> db')"

text \<open>The state after a request, whether it succeeds or not.\<close>

fun exam_serve :: "exam_request \<Rightarrow> exam_db \<Rightarrow> exam_db" where
  "exam_serve (CreateCategory t dto e) db = keep db (createCategory t dto e db)"
| "exam_serve (CreateQuestion t u dto e) db = keep db (createQuestion t u dto e db)"
| "exam_serve (DeleteQuestion t q) db = keep db (deleteQuestion t q db)"
| "exam_serve (DeleteCategory t c) db = keep db (deleteCategory t c db)"
| "exam_serve (CreateExam t dto u e) db = keep db (createExam t dto u e db)"
| "exam_serve (AddQuestion t x dto u e) db = keep db (addQuestionToExam t x dto u e db)"
| "exam_serve (ImportQuestions t x dto u) db = keep db (map_sum id snd (importQuestionsFromBank t x dto u db))"
| "exam_serve (BulkAdd t x rows u e) db = snd (bulkAddQuestionsToExam t x rows u e db)"
| "exam_serve (StartExam r t x s e) db = keep db (map_sum id snd (startExam r t x s e db))"
| "exam_serve (SubmitAnswers t x s dto e) db = snd (submitExamAnswers t x s dto e db)"
| "exam_serve (GradeAnswers t p dto) db = keep db (gradeDescriptiveAnswers t p dto db)"
| "exam_serve (PublishResults t x b u e) db = keep db (togglePublishResults t x b u e db)"

end
