(* ===== verification/Exam_Laws.thy ===== *)
theory Exam_Laws
  imports Exam "HOL-Library.Multiset"
begin

text \<open>
  The laws of the exams: the shuffle permutes, the state of the papers stays consistent through every request,
  handed-in papers are final, and the automatic grading agrees with a sum over the questions.
\<close>

section \<open>The shuffle permutes\<close>

definition unit_draws :: "(nat \<Rightarrow> rat) \<Rightarrow> bool" where
  "unit_draws random \<longleftrightarrow> (\<forall>k. 0 \<le> random k \<and> random k < 1)"

lemma draw_in_range:
  assumes "unit_draws random"
  shows "nat \<lfloor>random k * of_nat (Suc i + 1)\<rfloor> < Suc (Suc i)"
proof -
  have "random k * of_nat (Suc i + 1) < of_nat (Suc i + 1)"
    using assms mult_strict_right_mono [of "random k" 1 "of_nat (Suc i + 1)"] by (simp add: unit_draws_def)
  then have "\<lfloor>random k * of_nat (Suc i + 1)\<rfloor> < int (Suc i + 1)" by (subst floor_less_iff) simp
  then show ?thesis by linarith
qed

lemma length_swap [simp]: "length (swap i j xs) = length xs"
  by (simp add: swap_def)

lemma mset_swap_positions: "i < length xs \<Longrightarrow> j < length xs \<Longrightarrow> mset (swap i j xs) = mset xs"
  unfolding swap_def by (rule mset_swap)

lemma mset_shuffle_from:
  "unit_draws random \<Longrightarrow> i < length xs \<Longrightarrow> mset (shuffle_from random k i xs) = mset xs"
proof (induction random k i xs rule: shuffle_from.induct)
  case (2 random k i xs)
  have "nat \<lfloor>random k * of_nat (Suc i + 1)\<rfloor> < length xs"
    using draw_in_range [OF 2(2), of k i] 2(3) by linarith
  with 2 show ?case by (simp add: mset_swap_positions)
qed simp

lemma mset_shuffleArray: "unit_draws random \<Longrightarrow> mset (shuffleArray random k xs) = mset xs"
  by (cases xs) (simp_all add: shuffleArray_def mset_shuffle_from)

lemma set_shuffleArray: "unit_draws random \<Longrightarrow> set (shuffleArray random k xs) = set xs"
  using mset_shuffleArray [of random k xs] by (metis set_mset_mset)

section \<open>Requests that only touch the bank and the exams\<close>

definition exam_window :: "Exam \<Rightarrow> id \<times> id \<times> time \<times> time \<times> id list" where
  "exam_window x = (ex_id x, ex_tenantId x, ex_startTime x, ex_endTime x, ex_classrooms x)"

definition exam_rows_ok :: "Exam list \<Rightarrow> bool" where
  "exam_rows_ok xs \<longleftrightarrow> distinct (map ex_id xs) \<and> (\<forall>x \<in> set xs. distinct (map eq_questionId (ex_questions x)))"

text \<open>Such a request keeps the papers and the students, may add exams, and loses at most the answers to the
  questions in \<open>Q\<close>.\<close>

definition content_step :: "id set \<Rightarrow> exam_db \<Rightarrow> exam_db \<Rightarrow> bool" where
  "content_step Q db db' \<longleftrightarrow> participations db' = participations db \<and> examStudents db' = examStudents db
     \<and> (\<exists>ws. map exam_window (exams db') = map exam_window (exams db) @ ws)
     \<and> (exam_rows_ok (exams db) \<longrightarrow> exam_rows_ok (exams db'))
     \<and> examAnswers db' = filter (\<lambda>a. an_questionId a \<notin> Q) (examAnswers db)"

lemma content_step_refl: "content_step {} db db"
  by (simp add: content_step_def)

lemma content_step_trans: "content_step {} db1 db2 \<Longrightarrow> content_step {} db2 db3 \<Longrightarrow> content_step {} db1 db3"
  by (auto simp: content_step_def)

lemma map_row_kept: "(\<And>r. g (f r) = g r) \<Longrightarrow> map g (update_row key k f rs) = map g rs"
  by (simp add: update_row_def)

lemma create_exam_question_step:
  assumes "create_exam_question i q db = Inr db'"
  shows "content_step {} db db'"
proof -
  let ?f = "\<lambda>x. x\<lparr>ex_questions := ex_questions x @ [q]\<rparr>"
  from assms have db': "db' = db\<lparr>exams := update_row ex_id i ?f (exams db)\<rparr>"
    and fresh: "\<And>x. x \<in> set (exams db) \<Longrightarrow> ex_id x = i \<Longrightarrow> eq_questionId q \<notin> eq_questionId ` set (ex_questions x)"
    by (auto simp: create_exam_question_def split: if_splits)
  have "exam_rows_ok (update_row ex_id i ?f (exams db))" if "exam_rows_ok (exams db)"
    using that fresh by (auto simp: exam_rows_ok_def map_row_kept elim: update_row_memE)
  then show ?thesis by (simp add: content_step_def db' map_row_kept exam_window_def)
qed

lemma foldE_content_step:
  assumes "\<And>x s s'. f x s = Inr s' \<Longrightarrow> content_step {} (g s) (g s')" and "foldE f xs s = Inr s'"
  shows "content_step {} (g s) (g s')"
  using foldE_invariant [where I = "\<lambda>t. content_step {} (g s) (g t)", OF _ content_step_refl assms(2)] assms(1)
  by (blast intro: content_step_trans)

lemma add_question_step: "content_step {} db (add_question q db)"
  by (simp add: content_step_def add_question_def)

lemma addQuestionToExam_step: "addQuestionToExam t i dto u e db = Inr db' \<Longrightarrow> content_step {} db db'"
  by (auto simp: addQuestionToExam_def Let_def split: option.splits if_splits
      dest!: create_exam_question_step intro: content_step_trans [OF add_question_step])

lemma importQuestions_step: "importQuestionsFromBank t i dto u db = Inr (n, db') \<Longrightarrow> content_step {} db db'"
  by (auto simp: importQuestionsFromBank_def Let_def bindE_Inr split: option.splits if_splits prod.splits
      elim!: foldE_content_step [where g = "\<lambda>d. d", rotated] intro: create_exam_question_step)

lemma bulk_step_step: "bulk_step t u x e row s = Inr s' \<Longrightarrow> content_step {} (snd s) (snd s')"
  by (auto simp: bulk_step_def Let_def bindE_Inr content_step_refl split: if_splits prod.splits
      dest!: create_exam_question_step intro: content_step_trans [OF add_question_step])

lemma bulk_rows_step: "content_step {} (snd s) (snd (bulk_rows t u x e rows s))"
  by (induction rows arbitrary: s)
    (auto simp: content_step_refl split: sum.split intro: content_step_trans [OF bulk_step_step])

lemma bulkAdd_step: "content_step {} db (snd (bulkAddQuestionsToExam t i rows u e db))"
  using bulk_rows_step [of "(n, db)" for n]
  by (auto simp: bulkAddQuestionsToExam_def content_step_refl split: option.split prod.split) (metis snd_conv)

lemma createExam_step: "createExam t dto u e db = Inr db' \<Longrightarrow> content_step {} db db'"
  by (auto simp: createExam_def create_exam_def bindE_Inr content_step_def exam_rows_ok_def split: if_splits)

lemma toggle_step: "togglePublishResults t i b u e db = Inr db' \<Longrightarrow> content_step {} db db'"
  by (auto simp: togglePublishResults_def Let_def content_step_def map_row_kept exam_window_def exam_rows_ok_def
      split: option.splits if_splits elim!: update_row_memE)

lemma exam_window_questions [simp]: "exam_window (x\<lparr>ex_questions := qs\<rparr>) = exam_window x"
  by (simp add: exam_window_def)

lemma deleteQuestion_step: "deleteQuestion t q db = Inr db' \<Longrightarrow> content_step {q} db db'"
  by (auto simp: deleteQuestion_def content_step_def exam_rows_ok_def comp_def distinct_map_filter split: option.splits)

lemma bank_steps:
  "createCategory t cdto e db = Inr db' \<Longrightarrow> content_step {} db db'"
  "createQuestion t u qdto e db = Inr db' \<Longrightarrow> content_step {} db db'"
  "deleteCategory t c db = Inr db' \<Longrightarrow> content_step {} db db'"
  by (auto simp: createCategory_def createQuestion_def deleteCategory_def content_step_def split: if_splits option.splits)

lemma map_sum_snd: "map_sum id snd m = Inr y \<longleftrightarrow> (\<exists>n. m = Inr (n, y))"
  by (cases m) auto

fun lost_questions :: "exam_request \<Rightarrow> id set" where
  "lost_questions (DeleteQuestion t q) = {q}"
| "lost_questions _ = {}"

fun on_papers :: "exam_request \<Rightarrow> bool" where
  "on_papers (StartExam r t i s e) = True"
| "on_papers (SubmitAnswers t i s dto e) = True"
| "on_papers (GradeAnswers t p dto) = True"
| "on_papers _ = False"

lemma content_request:
  assumes "\<not> on_papers r"
  shows "exam_serve r db = db \<or> content_step (lost_questions r) db (exam_serve r db)"
  using assms
  by (cases r) (auto simp: keep_def bank_steps addQuestionToExam_step bulkAdd_step createExam_step toggle_step deleteQuestion_step
      importQuestions_step map_sum_snd split: sum.splits)

section \<open>The papers\<close>

definition paper_key :: "ExamParticipation \<Rightarrow> id \<times> id" where
  "paper_key p = (pn_examId p, pn_studentId p)"

definition paper_ok :: "Exam list \<Rightarrow> ExamParticipation \<Rightarrow> bool" where
  "paper_ok xs p \<longleftrightarrow> (\<exists>x \<in> set xs. ex_id x = pn_examId p \<and> ex_tenantId x = pn_tenantId p
       \<and> ex_startTime x \<le> pn_startedAt p \<and> pn_startedAt p \<le> ex_endTime x \<and> pn_serverDeadline p \<le> ex_endTime x)
     \<and> (pn_status p = PT_SUBMITTED \<longrightarrow> (\<exists>d. pn_submittedAt p = Some d \<and> d \<le> pn_serverDeadline p))
     \<and> (pn_isGraded p \<longrightarrow> pn_totalScore p \<noteq> None)"

definition exam_wf :: "exam_db \<Rightarrow> bool" where
  "exam_wf db \<longleftrightarrow> exam_rows_ok (exams db) \<and> distinct (map pn_id (participations db))
     \<and> distinct (map paper_key (participations db)) \<and> (\<forall>p \<in> set (participations db). paper_ok (exams db) p)"

lemma window_transfer:
  assumes "map exam_window xs' = map exam_window xs @ ws" and "x \<in> set xs"
  shows "\<exists>x' \<in> set xs'. exam_window x' = exam_window x"
proof -
  have "exam_window x \<in> exam_window ` set xs'" using assms by (metis UnI1 image_eqI list.set_map set_append)
  then show ?thesis by (metis imageE)
qed

lemma paper_ok_transfer:
  assumes "map exam_window xs' = map exam_window xs @ ws" and "paper_ok xs p"
  shows "paper_ok xs' p"
  using assms(2) window_transfer [OF assms(1)] unfolding paper_ok_def exam_window_def prod.inject by metis

lemma content_step_wf: "content_step Q db db' \<Longrightarrow> exam_wf db \<Longrightarrow> exam_wf db'"
  by (auto simp: exam_wf_def content_step_def intro: paper_ok_transfer)

lemma find_participation_key: "find_participation i k db = Some p \<Longrightarrow> p \<in> set (participations db) \<and> paper_key p = (i, k)"
  using find_Some_iff_mem [of _ "participations db" p] by (auto simp: find_participation_def paper_key_def)

lemma find_exam_row: "find_exam t i db = Some x \<Longrightarrow> x \<in> set (exams db) \<and> ex_id x = i \<and> ex_tenantId x = t"
  using find_Some_iff_mem [of _ "exams db" x] by (auto simp: find_exam_def)

lemma start_exam_shape:
  assumes "startExam r t i s e db = Inr ((p, qs), db')"
  obtains st and x where "student_profile t s db = Some st" and "find_exam t i db = Some x"
    and "list_ex (\<lambda>c. c \<in> set (xs_classrooms st)) (ex_classrooms x)" and "ex_startTime x \<le> now e" and "now e \<le> ex_endTime x"
    and "qs = paper_of p x db'"
    and "find_participation i (xs_id st) db = Some p \<and> db' = db \<and> pn_status p \<noteq> PT_SUBMITTED \<and> pn_status p \<noteq> PT_TIMED_OUT
      \<or> find_participation i (xs_id st) db = None \<and> p = new_participation r (uuid e 0) t x (xs_id st) (now e) db
        \<and> create_participation p db = Inr db'"
  using assms by (auto simp: startExam_def Let_def bindE_Inr split: option.splits if_splits)

lemma create_participation_rows:
  "create_participation p db = Inr db' \<Longrightarrow> db' = db\<lparr>participations := participations db @ [p]\<rparr>
     \<and> pn_id p \<notin> set (map pn_id (participations db)) \<and> paper_key p \<notin> set (map paper_key (participations db))"
  by (auto simp: create_participation_def paper_key_def split: if_splits)

lemma new_participation_ok:
  assumes "find_exam t i db = Some x" and "ex_startTime x \<le> now e" and "now e \<le> ex_endTime x"
  shows "paper_ok (exams db) (new_participation r u t x k (now e) db)"
  using find_exam_row [OF assms(1)] assms(2,3) by (auto simp: paper_ok_def new_participation_def server_deadline_def)

lemma start_exam_wf:
  assumes "startExam r t i s e db = Inr ((p, qs), db')" and "exam_wf db"
  shows "exam_wf db'"
  by (rule start_exam_shape [OF assms(1)])
    (use assms(2) new_participation_ok [of t i db _ e] in \<open>auto simp: exam_wf_def dest!: create_participation_rows\<close>)

lemma update_participation_wf:
  assumes "exam_wf db" and "\<And>p. pn_id (f p) = pn_id p \<and> paper_key (f p) = paper_key p"
    and "\<And>p. p \<in> set (participations db) \<Longrightarrow> pn_id p = i \<Longrightarrow> paper_ok (exams db) p \<Longrightarrow> paper_ok (exams db) (f p)"
  shows "exam_wf (update_participation i f db)"
  using assms by (auto simp: exam_wf_def update_participation_def map_row_kept elim!: update_row_memE)

lemma exam_wf_answers [simp]: "exam_wf (db\<lparr>examAnswers := as\<rparr>) = exam_wf db"
  by (simp add: exam_wf_def)

text \<open>What a submission does: nothing, a time-out, or a graded paper.\<close>

lemma submit_shape:
  obtains (same) er where "submitExamAnswers t i s dto e db = (Inl er, db)"
  | (late) st p where "student_profile t s db = Some st" and "find_participation i (xs_id st) db = Some p"
      and "pn_status p \<noteq> PT_SUBMITTED" and "pn_serverDeadline p < now e"
      and "submitExamAnswers t i s dto e db = (Inl (BadRequest ''too late''),
        update_participation (pn_id p) (\<lambda>p. p\<lparr>pn_status := PT_TIMED_OUT, pn_submittedAt := Some (now e)\<rparr>) db)"
  | (accepted) st p x g where "student_profile t s db = Some st" and "find_participation i (xs_id st) db = Some p"
      and "pn_status p \<noteq> PT_SUBMITTED" and "now e \<le> pn_serverDeadline p" and "find (\<lambda>x. ex_id x = i) (exams db) = Some x"
      and "g = grade_answers (pn_id p) x db (se_answers dto)"
      and "submitExamAnswers t i s dto e db = (Inr \<lparr>sr_isGraded = (\<not> fst (snd g)),
          sr_totalScore = (if fst (snd g) then None else Some (fst g)), sr_flaggedForReview = (tab_switches dto \<ge> 3)\<rparr>,
        update_participation (pn_id p) (submitted_paper dto g (now e)) (db\<lparr>examAnswers := fold upsert_answer (snd (snd g)) (examAnswers db)\<rparr>))"
proof -
  note d = submitExamAnswers_def
  show ?thesis
  proof (cases "student_profile t s db")
    case None
    with same [of "Forbidden ''no student profile''"] show ?thesis by (simp add: d)
  next
    case st: (Some st)
    show ?thesis
    proof (cases "find_participation i (xs_id st) db")
      case None
      with st same [of "NotFound ''no paper''"] show ?thesis by (simp add: d)
    next
      case p: (Some p)
      show ?thesis
      proof (cases "pn_status p = PT_SUBMITTED \<or> pn_serverDeadline p < now e")
        case True
        with st p same [of "Conflict ''submitted before''"] late [of st p] show ?thesis
          by (cases "pn_status p = PT_SUBMITTED") (simp_all add: d)
      next
        case False
        with st p same [of "ForeignKeyViolation ''ExamParticipation.examId''"] accepted [of st p] show ?thesis
          by (cases "find (\<lambda>x. ex_id x = i) (exams db)") (simp_all add: d Let_def)
      qed
    qed
  qed
qed

lemma paper_of_id:
  assumes "exam_wf db" and "p \<in> set (participations db)" and "q \<in> set (participations db)" and "pn_id q = pn_id p"
  shows "q = p"
  using assms by (auto simp: exam_wf_def dest: distinct_key_inj)

lemma submit_exam_wf:
  assumes wf: "exam_wf db"
  shows "exam_wf (snd (submitExamAnswers t i s dto e db))"
proof (rule submit_shape [of t i s dto e db])
  fix st p
  assume "submitExamAnswers t i s dto e db = (Inl (BadRequest ''too late''),
    update_participation (pn_id p) (\<lambda>p. p\<lparr>pn_status := PT_TIMED_OUT, pn_submittedAt := Some (now e)\<rparr>) db)"
  then show ?thesis using wf by (auto simp: paper_key_def paper_ok_def intro!: update_participation_wf)
next
  fix st p x and g :: grading
  assume p: "find_participation i (xs_id st) db = Some p" and t: "now e \<le> pn_serverDeadline p"
    and r: "submitExamAnswers t i s dto e db = (Inr \<lparr>sr_isGraded = (\<not> fst (snd g)),
          sr_totalScore = (if fst (snd g) then None else Some (fst g)), sr_flaggedForReview = (tab_switches dto \<ge> 3)\<rparr>,
        update_participation (pn_id p) (submitted_paper dto g (now e)) (db\<lparr>examAnswers := fold upsert_answer (snd (snd g)) (examAnswers db)\<rparr>))"
  have "p \<in> set (participations db)" using find_participation_key [OF p] by simp
  then have "\<And>q. q \<in> set (participations db) \<Longrightarrow> pn_id q = pn_id p \<Longrightarrow> q = p" by (rule paper_of_id [OF wf])
  with wf t show ?thesis unfolding r snd_conv
    by (intro update_participation_wf) (auto simp: paper_key_def paper_ok_def submitted_paper_def)
qed (use wf in simp_all)

lemma grade_paper_shape:
  assumes "gradeDescriptiveAnswers t i dto db = Inr db'"
  obtains p x as where "p \<in> set (participations db)" and "pn_id p = i" and "pn_tenantId p = t" and "x \<in> set (exams db)"
    and "ex_id x = pn_examId p" and "foldE (set_grade i) (gp_grades dto) (examAnswers db) = Inr as"
    and "db' = update_participation i (graded_paper dto (min (ex_totalScore x) (round2 (raw_score i as + grace_of dto))))
      (db\<lparr>examAnswers := as\<rparr>)"
  using assms by (auto simp: gradeDescriptiveAnswers_def bindE_Inr split: option.splits dest!: find_Some_iff_mem)

lemma graded_paper_fields [simp]:
  "pn_id (graded_paper dto n p) = pn_id p" "paper_key (graded_paper dto n p) = paper_key p"
  "pn_status (graded_paper dto n p) = pn_status p" "pn_submittedAt (graded_paper dto n p) = pn_submittedAt p"
  "pn_serverDeadline (graded_paper dto n p) = pn_serverDeadline p"
  by (simp_all add: graded_paper_def paper_key_def)

lemma grade_paper_wf:
  assumes "gradeDescriptiveAnswers t i dto db = Inr db'" and "exam_wf db"
  shows "exam_wf db'"
  by (rule grade_paper_shape [OF assms(1)])
    (use assms(2) in \<open>auto simp: paper_ok_def graded_paper_def paper_key_def intro!: update_participation_wf\<close>)

theorem exam_serve_wf: "exam_wf db \<Longrightarrow> exam_wf (exam_serve r db)"
proof (cases "on_papers r")
  case False
  then show "exam_wf db \<Longrightarrow> ?thesis" using content_request [OF False, of db] by (auto intro: content_step_wf)
next
  case True
  then show "exam_wf db \<Longrightarrow> ?thesis"
    by (cases r) (auto simp: keep_def map_sum_snd submit_exam_wf split: sum.splits intro: start_exam_wf grade_paper_wf)
qed

lemma exam_run_wf: "exam_wf db \<Longrightarrow> exam_wf (fold exam_serve rs db)"
  by (induction rs arbitrary: db) (auto intro: exam_serve_wf)

section \<open>Handed-in papers are final\<close>

definition answer_core :: "ExamAnswer \<Rightarrow> id \<times> id \<times> id option \<times> string option" where
  "answer_core a = (an_participationId a, an_questionId a, an_selectedOptionId a, an_descriptiveAnswer a)"

definition answers_given :: "id \<Rightarrow> ExamAnswer list \<Rightarrow> (id \<times> id \<times> id option \<times> string option) list" where
  "answers_given i as = map answer_core (filter (\<lambda>a. an_participationId a = i) as)"

definition handed_in :: "ExamParticipation \<Rightarrow> id \<times> id \<times> id \<times> time option \<times> time \<times> nat" where
  "handed_in p = (pn_id p, pn_examId p, pn_studentId p, pn_submittedAt p, pn_serverDeadline p, pn_tabSwitchCount p)"

definition paper_final :: "ExamParticipation \<Rightarrow> exam_db \<Rightarrow> exam_db \<Rightarrow> bool" where
  "paper_final p db db' \<longleftrightarrow> (\<exists>p' \<in> set (participations db'). pn_status p' = PT_SUBMITTED \<and> handed_in p' = handed_in p)
     \<and> answers_given (pn_id p) (examAnswers db') = answers_given (pn_id p) (examAnswers db)"

lemma answers_given_other:
  "fst k \<noteq> i \<Longrightarrow> (\<And>a. an_participationId (f a) = fst k)
     \<Longrightarrow> answers_given i (update_row answer_key k f as) = answers_given i as"
  by (induction as) (auto simp: answers_given_def update_row_def answer_key_def)

lemma answers_given_upsert: "an_participationId r \<noteq> i \<Longrightarrow> answers_given i (upsert_answer r as) = answers_given i as"
proof (cases "answer_key r \<in> set (map answer_key as)")
  case True
  then show "an_participationId r \<noteq> i \<Longrightarrow> ?thesis"
    by (simp add: upsert_answer_def answers_given_other answer_key_def del: set_map)
qed (auto simp: upsert_answer_def answers_given_def)

lemma answers_given_upserts:
  "\<forall>r \<in> set rs. an_participationId r \<noteq> i \<Longrightarrow> answers_given i (fold upsert_answer rs as) = answers_given i as"
  by (induction rs arbitrary: as) (auto simp: answers_given_upsert)

lemma records_of_paper:
  "\<forall>r \<in> set (snd (snd g)). an_participationId r = i
     \<Longrightarrow> \<forall>r \<in> set (snd (snd (fold (grade_answer i x db) as g))). an_participationId r = i"
proof (induction as arbitrary: g)
  case (Cons a as)
  have "\<forall>r \<in> set (snd (snd (grade_answer i x db a g))). an_participationId r = i"
    using Cons.prems by (auto simp: grade_answer_def answer_record_def split: prod.splits option.splits)
  from Cons.IH [OF this] show ?case by simp
qed simp

lemma grade_records: "g = grade_answers i x db as \<Longrightarrow> \<forall>r \<in> set (snd (snd g)). an_participationId r = i"
  unfolding grade_answers_def using records_of_paper [of "(0, False, [])"] by simp

lemma answers_given_update:
  "(\<And>a. answer_core (f a) = answer_core a) \<Longrightarrow> answers_given i (update_row answer_key k f as) = answers_given i as"
proof (induction as)
  case (Cons a as)
  have "an_participationId (f a) = an_participationId a" using Cons.prems [of a] by (simp add: answer_core_def)
  with Cons show ?case by (auto simp: answers_given_def update_row_def)
qed (simp add: answers_given_def update_row_def)

lemma answers_given_set_grade: "set_grade j g as = Inr as' \<Longrightarrow> answers_given i as' = answers_given i as"
  by (auto simp: set_grade_def answer_core_def intro: answers_given_update split: if_splits)

lemma answers_given_grades: "foldE (set_grade j) gs as = Inr as' \<Longrightarrow> answers_given i as' = answers_given i as"
  using foldE_invariant [where I = "\<lambda>bs. answers_given i bs = answers_given i as"] answers_given_set_grade by metis

lemma update_other_final:
  assumes "p \<in> set (participations db)" and "pn_status p = PT_SUBMITTED"
    and "pn_id p = i \<Longrightarrow> pn_status (f p) = PT_SUBMITTED \<and> handed_in (f p) = handed_in p"
    and "answers_given (pn_id p) (examAnswers db') = answers_given (pn_id p) (examAnswers db)"
    and "participations db' = update_row pn_id i f (participations db)"
  shows "paper_final p db db'"
  using assms by (auto simp: paper_final_def set_update_row)

lemma paper_final_refl: "p \<in> set (participations db) \<Longrightarrow> pn_status p = PT_SUBMITTED
    \<Longrightarrow> participations db' = participations db \<Longrightarrow> answers_given (pn_id p) (examAnswers db') = answers_given (pn_id p) (examAnswers db)
    \<Longrightarrow> paper_final p db db'"
  by (auto simp: paper_final_def)

lemma submit_final:
  assumes wf: "exam_wf db" and p: "p \<in> set (participations db)" "pn_status p = PT_SUBMITTED"
  shows "paper_final p db (snd (submitExamAnswers t i s dto e db))"
proof (rule submit_shape [of t i s dto e db])
  fix st q
  assume q: "find_participation i (xs_id st) db = Some q" "pn_status q \<noteq> PT_SUBMITTED"
    and r: "submitExamAnswers t i s dto e db = (Inl (BadRequest ''too late''),
      update_participation (pn_id q) (\<lambda>p. p\<lparr>pn_status := PT_TIMED_OUT, pn_submittedAt := Some (now e)\<rparr>) db)"
  have "pn_id p \<noteq> pn_id q" using paper_of_id [OF wf] p q find_participation_key [OF q(1)] by blast
  then show ?thesis unfolding r snd_conv by (intro update_other_final [OF p]) (auto simp: update_participation_def)
next
  fix st q x and g :: grading
  assume q: "find_participation i (xs_id st) db = Some q" "pn_status q \<noteq> PT_SUBMITTED"
    and g: "g = grade_answers (pn_id q) x db (se_answers dto)"
    and r: "submitExamAnswers t i s dto e db = (Inr \<lparr>sr_isGraded = (\<not> fst (snd g)),
          sr_totalScore = (if fst (snd g) then None else Some (fst g)), sr_flaggedForReview = (tab_switches dto \<ge> 3)\<rparr>,
        update_participation (pn_id q) (submitted_paper dto g (now e)) (db\<lparr>examAnswers := fold upsert_answer (snd (snd g)) (examAnswers db)\<rparr>))"
  have ne: "pn_id p \<noteq> pn_id q" using paper_of_id [OF wf] p q find_participation_key [OF q(1)] by blast
  have "answers_given (pn_id p) (fold upsert_answer (snd (snd g)) (examAnswers db)) = answers_given (pn_id p) (examAnswers db)"
    using grade_records [OF g] ne by (intro answers_given_upserts) auto
  with ne show ?thesis unfolding r snd_conv by (intro update_other_final [OF p]) (auto simp: update_participation_def)
qed (use p in \<open>auto intro: paper_final_refl\<close>)

lemma grade_final:
  assumes "gradeDescriptiveAnswers t i dto db = Inr db'" and p: "p \<in> set (participations db)" "pn_status p = PT_SUBMITTED"
  shows "paper_final p db db'"
proof (rule grade_paper_shape [OF assms(1)])
  fix x as
  assume "foldE (set_grade i) (gp_grades dto) (examAnswers db) = Inr as"
    and "db' = update_participation i (graded_paper dto (min (ex_totalScore x) (round2 (raw_score i as + grace_of dto))))
      (db\<lparr>examAnswers := as\<rparr>)"
  then show ?thesis using answers_given_grades [of i "gp_grades dto" "examAnswers db" as]
    by (intro update_other_final [OF p, of i]) (auto simp: update_participation_def handed_in_def graded_paper_def p)
qed

lemma start_final:
  assumes "startExam r t i s e db = Inr ((q, qs), db')" and p: "p \<in> set (participations db)" "pn_status p = PT_SUBMITTED"
  shows "paper_final p db db'"
  by (rule start_exam_shape [OF assms(1)]) (use p in \<open>auto simp: paper_final_def dest!: create_participation_rows\<close>)

lemma exam_serve_final:
  assumes "exam_wf db" and p: "p \<in> set (participations db)" "pn_status p = PT_SUBMITTED" and "lost_questions r = {}"
  shows "paper_final p db (exam_serve r db)"
proof (cases "on_papers r")
  case False
  from content_request [OF False, of db] p assms(4) show ?thesis by (auto simp: content_step_def paper_final_def)
next
  case True
  with assms(1) p show ?thesis
    by (cases r) (auto simp: keep_def map_sum_snd submit_final split: sum.splits intro: start_final grade_final paper_final_refl)
qed

lemma exam_run_final:
  assumes "exam_wf db" and "p \<in> set (participations db)" and "pn_status p = PT_SUBMITTED" and "\<forall>r \<in> set rs. lost_questions r = {}"
  shows "paper_final p db (fold exam_serve rs db)"
  using assms
proof (induction rs arbitrary: db p)
  case Nil
  then show ?case by (auto intro: paper_final_refl)
next
  case (Cons r rs)
  from exam_serve_final [OF Cons.prems(1-3), of r] Cons.prems(4) obtain p'
    where p': "p' \<in> set (participations (exam_serve r db))" "pn_status p' = PT_SUBMITTED" "handed_in p' = handed_in p"
      and a: "answers_given (pn_id p) (examAnswers (exam_serve r db)) = answers_given (pn_id p) (examAnswers db)"
    by (auto simp: paper_final_def)
  from Cons.IH [OF exam_serve_wf [OF Cons.prems(1)] p'(1,2)] Cons.prems(4)
  have "paper_final p' (exam_serve r db) (fold exam_serve rs (exam_serve r db))" by simp
  moreover have "pn_id p' = pn_id p" using p'(3) by (simp add: handed_in_def)
  ultimately show ?case using p'(3) a by (auto simp: paper_final_def)
qed

section \<open>The automatic grading\<close>

text \<open>The reference: the scores of the questions of the exam that one of the answers gets right.\<close>

definition answered_right :: "exam_db \<Rightarrow> SubmitAnswerItemDto list \<Rightarrow> ExamQuestion \<Rightarrow> bool" where
  "answered_right db as q \<longleftrightarrow> (case find (\<lambda>b. qn_id b = eq_questionId q) (questionBank db) of
       None \<Rightarrow> False
     | Some b \<Rightarrow> auto_gradable (qn_type b) \<and> list_ex (\<lambda>a. sa_questionId a = eq_questionId q
         \<and> (case find qo_isCorrect (qn_options b) of None \<Rightarrow> False | Some c \<Rightarrow> sa_selectedOptionId a = Some (qo_id c))) as)"

definition right_scores :: "Exam \<Rightarrow> exam_db \<Rightarrow> SubmitAnswerItemDto list \<Rightarrow> rat" where
  "right_scores x db as = sum_list (map (\<lambda>q. if answered_right db as q then eq_score q else 0) (ex_questions x))"

definition answer_points :: "Exam \<Rightarrow> exam_db \<Rightarrow> SubmitAnswerItemDto \<Rightarrow> rat" where
  "answer_points x db a = (case exam_question_with x db (sa_questionId a) of
       None \<Rightarrow> 0 | Some (q, b) \<Rightarrow> if auto_gradable (qn_type b) then auto_score q b a else 0)"

lemma grade_fold_points:
  "fst (fold (grade_answer i x db) as g) = fst g + sum_list (map (answer_points x db) as)"
proof (induction as arbitrary: g)
  case (Cons a as)
  have "fst (grade_answer i x db a g) = fst g + answer_points x db a"
    by (auto simp: grade_answer_def answer_points_def split: prod.splits option.splits)
  with Cons [of "grade_answer i x db a g"] show ?case by simp
qed simp

lemma grade_points: "fst (grade_answers i x db as) = sum_list (map (answer_points x db) as)"
  by (simp add: grade_answers_def grade_fold_points)

lemma answered_right_Cons: "answered_right db (a # as) q \<longleftrightarrow> answered_right db [a] q \<or> answered_right db as q"
  by (auto simp: answered_right_def split: option.splits)

lemma answered_right_question: "answered_right db as q \<Longrightarrow> eq_questionId q \<in> set (map sa_questionId as)"
  by (auto simp: answered_right_def list_ex_iff split: option.splits intro: rev_image_eqI)

lemma answered_right_Nil [simp]: "\<not> answered_right db [] q"
  by (simp add: answered_right_def split: option.split)

lemma sum_list_only:
  assumes "distinct (map key qs)" and "\<And>q. q \<in> set qs \<Longrightarrow> key q \<noteq> k \<Longrightarrow> f q = (0 :: rat)"
  shows "sum_list (map f qs) = (case find (\<lambda>q. key q = k) qs of None \<Rightarrow> 0 | Some q \<Rightarrow> f q)"
  using assms
proof (induction qs)
  case (Cons q qs)
  show ?case
  proof (cases "key q = k")
    case True
    with Cons.prems have "\<forall>r \<in> set qs. f r = 0" by (metis distinct.simps(2) image_eqI list.set_intros(2) list.set_map list.simps(9))
    then have "sum_list (map f qs) = 0" by (induction qs) auto
    with True show ?thesis by simp
  next
    case False
    with Cons show ?thesis by simp
  qed
qed simp

lemma right_scores_single:
  assumes "distinct (map eq_questionId (ex_questions x))"
  shows "right_scores x db [a] = answer_points x db a"
proof -
  have "right_scores x db [a] = (case find (\<lambda>q. eq_questionId q = sa_questionId a) (ex_questions x) of
      None \<Rightarrow> 0 | Some q \<Rightarrow> if answered_right db [a] q then eq_score q else 0)"
    unfolding right_scores_def by (rule sum_list_only [OF assms]) (auto dest: answered_right_question)
  also have "\<dots> = answer_points x db a"
  proof (cases "find (\<lambda>q. eq_questionId q = sa_questionId a) (ex_questions x)")
    case (Some q)
    then have "eq_questionId q = sa_questionId a" using find_Some_iff_mem by fastforce
    with Some show ?thesis
      by (simp add: answer_points_def exam_question_with_def answered_right_def auto_score_def split: option.split)
  qed (simp add: answer_points_def exam_question_with_def)
  finally show ?thesis .
qed

lemma right_scores_Cons:
  assumes "sa_questionId a \<notin> set (map sa_questionId as)"
  shows "right_scores x db (a # as) = right_scores x db [a] + right_scores x db as"
proof -
  have "(if answered_right db (a # as) q then eq_score q else 0)
      = (if answered_right db [a] q then eq_score q else 0) + (if answered_right db as q then eq_score q else 0)" for q
    using assms answered_right_question [of db "[a]" q] answered_right_question [of db as q] answered_right_Cons [of db a as q] by auto
  then show ?thesis by (simp add: right_scores_def sum_list_addf)
qed

lemma grade_right_scores:
  assumes "distinct (map eq_questionId (ex_questions x))" and "distinct (map sa_questionId as)"
  shows "fst (grade_answers i x db as) = right_scores x db as"
  using assms(2) unfolding grade_points
proof (induction as)
  case Nil
  then show ?case by (simp add: right_scores_def)
next
  case (Cons a as)
  then show ?case using right_scores_Cons [of a as x db] right_scores_single [OF assms(1), of db a] by simp
qed

lemma right_scores_bounds:
  assumes "\<forall>q \<in> set (ex_questions x). 0 \<le> eq_score q"
  shows "0 \<le> right_scores x db as \<and> right_scores x db as \<le> sum_list (map eq_score (ex_questions x))"
  unfolding right_scores_def using assms by (auto intro!: sum_list_nonneg sum_list_mono)

section \<open>The paper a student gets\<close>

lemma digit_char_inj: "i < 10 \<Longrightarrow> j < 10 \<Longrightarrow> digit_char i = digit_char j \<longleftrightarrow> i = j"
proof -
  have d: "distinct ''0123456789''" "length ''0123456789'' = 10" by code_simp+
  assume "i < 10" "j < 10"
  with nth_eq_iff_index_eq [OF d(1), of i j] show ?thesis unfolding digit_char_def d(2) by blast
qed

lemma string_of_nat_ne: "string_of_nat n \<noteq> []"
  by (subst string_of_nat.simps) simp

lemma string_of_nat_inj: "string_of_nat n = string_of_nat m \<Longrightarrow> n = m"
proof (induction n arbitrary: m rule: string_of_nat.induct)
  case (1 n)
  note eq = 1(2) [unfolded string_of_nat.simps [of n] string_of_nat.simps [of m]]
  show ?case
  proof (cases "n < 10 \<or> m < 10")
    case True
    with eq show ?thesis by (auto simp: digit_char_inj string_of_nat_ne append_eq_Cons_conv Cons_eq_append_conv split: if_splits)
  next
    case False
    with eq have "digit_char (n mod 10) = digit_char (m mod 10)" "string_of_nat (n div 10) = string_of_nat (m div 10)" by auto
    with 1(1) [of "m div 10"] False have "n div 10 = m div 10" "n mod 10 = m mod 10" by (auto simp: digit_char_inj)
    then show ?thesis by (metis div_mult_mod_eq)
  qed
qed

definition options_ok :: "Question \<Rightarrow> bool" where
  "options_ok b \<longleftrightarrow> distinct (map qo_id (qn_options b))"

definition bank_wf :: "exam_db \<Rightarrow> bool" where
  "bank_wf db \<longleftrightarrow> (\<forall>b \<in> set (questionBank db). options_ok b)
     \<and> (\<forall>x \<in> set (exams db). \<forall>q \<in> set (ex_questions x). eq_questionId q \<in> qn_id ` set (questionBank db))"

lemma distinct_option_ids: "distinct (map (option_id i) ns) = distinct ns"
proof -
  have "inj (option_id i)" by (auto simp: inj_def option_id_def dest: string_of_nat_inj)
  then show ?thesis by (metis distinct_map inj_on_subset subset_UNIV)
qed

lemma options_ok_indexed:
  assumes "\<And>k y. qo_id (f (k, y)) = option_id i k" and "qn_options b = map f (indexed ys)"
  shows "options_ok b"
proof -
  have "map qo_id (qn_options b) = map (\<lambda>p. option_id i (fst p)) (indexed ys)"
    using assms by (auto simp: split_paired_all)
  also have "\<dots> = map (option_id i) [0..<length ys]"
    by (simp add: indexed_def map_fst_zip flip: map_map [unfolded comp_def])
  finally show ?thesis by (simp add: options_ok_def distinct_option_ids)
qed

lemma options_ok_bank: "qn_options b = map (\<lambda>(k, y). bank_option i k y) (indexed ys) \<Longrightarrow> options_ok b"
  by (rule options_ok_indexed [where f = "\<lambda>(k, y). bank_option i k y"]) (auto simp: bank_option_def)

lemma manual_question_ok: "options_ok (manual_question i t u x dto s db)"
  by (rule options_ok_indexed [where f = "\<lambda>(k, t, c). \<lparr>qo_id = option_id i k, qo_text = t, qo_isCorrect = c, qo_orderIndex = int k + 1\<rparr>"])
    (auto simp: manual_question_def)

lemma add_question_bank: "options_ok q \<Longrightarrow> bank_wf db \<Longrightarrow> bank_wf (add_question q db)"
  by (auto simp: bank_wf_def add_question_def)

lemma createQuestion_bank:
  assumes "createQuestion t u dto e db = Inr db'" and "bank_wf db"
  shows "bank_wf db'"
proof -
  obtain q where "db' = add_question q db" and "qn_options q = map (\<lambda>(k, y). bank_option (uuid e 0) k y) (indexed (no_list (qd_options dto)))"
    using assms(1) that by (fastforce simp: createQuestion_def add_question_def split: if_splits)
  then show ?thesis using assms(2) by (simp add: add_question_bank options_ok_bank)
qed

lemma create_exam_question_bank: "create_exam_question i q db = Inr db' \<Longrightarrow> bank_wf db \<Longrightarrow> bank_wf db'"
  by (auto simp: create_exam_question_def bank_wf_def elim!: update_row_memE split: if_splits)

lemma addQuestionToExam_bank: "addQuestionToExam t i dto u e db = Inr db' \<Longrightarrow> bank_wf db \<Longrightarrow> bank_wf db'"
  by (auto simp: addQuestionToExam_def Let_def split: option.splits if_splits
      elim!: create_exam_question_bank intro: add_question_bank manual_question_ok)

lemma importQuestions_bank:
  assumes "importQuestionsFromBank t i dto u db = Inr (n, db')" and "bank_wf db"
  shows "bank_wf db'"
  using assms by (auto simp: importQuestionsFromBank_def Let_def bindE_Inr split: option.splits if_splits
      elim!: foldE_invariant [where I = bank_wf, rotated 2] create_exam_question_bank)

lemma bulk_step_bank: "bulk_step t u x e row s = Inr s' \<Longrightarrow> bank_wf (snd s) \<Longrightarrow> bank_wf (snd s')"
  by (auto simp: bulk_step_def Let_def bindE_Inr split: if_splits prod.splits
      elim!: create_exam_question_bank intro!: add_question_bank manual_question_ok)

lemma bulk_rows_bank: "bank_wf (snd s) \<Longrightarrow> bank_wf (snd (bulk_rows t u x e rows s))"
  by (induction rows arbitrary: s) (auto split: sum.split dest: bulk_step_bank)

lemma bulkAdd_bank: "bank_wf db \<Longrightarrow> bank_wf (snd (bulkAddQuestionsToExam t i rows u e db))"
  using bulk_rows_bank [of "(n, db)" for n]
  by (auto simp: bulkAddQuestionsToExam_def split: option.split prod.split) (metis snd_conv)

lemma createExam_bank: "createExam t dto u e db = Inr db' \<Longrightarrow> bank_wf db \<Longrightarrow> bank_wf db'"
  by (auto simp: createExam_def create_exam_def bindE_Inr bank_wf_def list_all_iff split: if_splits)

lemma createCategory_bank: "createCategory t cdto e db = Inr db' \<Longrightarrow> bank_wf db \<Longrightarrow> bank_wf db'"
  by (auto simp: createCategory_def bank_wf_def split: if_splits)

lemma deleteQuestion_bank: "deleteQuestion t q db = Inr db' \<Longrightarrow> bank_wf db \<Longrightarrow> bank_wf db'"
  by (fastforce simp: deleteQuestion_def bank_wf_def split: option.splits)

lemma deleteCategory_bank:
  assumes "deleteCategory t c db = Inr db'" and "bank_wf db"
  shows "bank_wf db'"
proof -
  define f where "f = (\<lambda>q :: Question. if qn_categoryId q = Some c then q\<lparr>qn_categoryId := None\<rparr> else q)"
  have b: "questionBank db' = map f (questionBank db)" "exams db' = exams db"
    using assms(1) by (auto simp: deleteCategory_def f_def split: option.splits)
  have "qn_id (f q) = qn_id q" "options_ok (f q) = options_ok q" for q by (simp_all add: f_def options_ok_def)
  then show ?thesis using assms(2) unfolding bank_wf_def b by (simp add: image_image)
qed

lemma toggle_bank:
  assumes "togglePublishResults t i b u e db = Inr db'" and "bank_wf db"
  shows "bank_wf db'"
proof -
  obtain f where "exams db' = update_row ex_id i f (exams db)" "questionBank db' = questionBank db" "\<And>x. ex_questions (f x) = ex_questions x"
    using assms(1) by (auto simp: togglePublishResults_def Let_def split: option.splits if_splits)
  with assms(2) show ?thesis by (auto simp: bank_wf_def elim!: update_row_memE)
qed

lemma participation_bank [simp]: "bank_wf (update_participation i f db) = bank_wf db" "bank_wf (db\<lparr>examAnswers := as\<rparr>) = bank_wf db"
  by (simp_all add: bank_wf_def update_participation_def)

lemma papers_bank:
  "startExam r t i s e db = Inr ((p, qs), db') \<Longrightarrow> bank_wf db \<Longrightarrow> bank_wf db'"
  "bank_wf db \<Longrightarrow> bank_wf (snd (submitExamAnswers t i s dto e db))"
  "gradeDescriptiveAnswers t i gdto db = Inr db' \<Longrightarrow> bank_wf db \<Longrightarrow> bank_wf db'"
proof -
  show "startExam r t i s e db = Inr ((p, qs), db') \<Longrightarrow> bank_wf db \<Longrightarrow> bank_wf db'"
    by (rule start_exam_shape, assumption) (auto simp: bank_wf_def dest!: create_participation_rows)
  show "bank_wf db \<Longrightarrow> bank_wf (snd (submitExamAnswers t i s dto e db))"
    by (rule submit_shape [of t i s dto e db]) simp_all
  show "gradeDescriptiveAnswers t i gdto db = Inr db' \<Longrightarrow> bank_wf db \<Longrightarrow> bank_wf db'"
    by (rule grade_paper_shape, assumption) simp
qed

lemmas bank_requests = createCategory_bank createQuestion_bank deleteQuestion_bank deleteCategory_bank createExam_bank
  addQuestionToExam_bank importQuestions_bank bulkAdd_bank toggle_bank papers_bank

lemma exam_serve_bank: "bank_wf db \<Longrightarrow> bank_wf (exam_serve r db)"
  by (cases r) (auto simp: keep_def map_sum_snd intro: bank_requests split: sum.splits)

lemma exam_run_bank: "bank_wf db \<Longrightarrow> bank_wf (fold exam_serve rs db)"
  by (induction rs arbitrary: db) (auto intro: exam_serve_bank)

lemma option_orders_map_of:
  assumes "distinct (map eq_questionId qs)" and "q \<in> set qs" and "unit_draws r"
  shows "(case map_of (option_orders r sh k qs db) (eq_questionId q) of
      None \<Rightarrow> exam_options q db = [] | Some ids \<Rightarrow> mset ids = mset (map qo_id (exam_options q db)))"
  using assms
proof (induction qs arbitrary: k)
  case (Cons a qs)
  have keys: "fst ` set (option_orders r sh j ps db) \<subseteq> eq_questionId ` set ps" for j ps
    by (induction ps arbitrary: j) (auto simp: Let_def)
  show ?case
  proof (cases "q = a")
    case True
    have "eq_questionId a \<notin> fst ` set (option_orders r sh k qs db)" using keys [of k qs] Cons.prems(1) by auto
    then have "map_of (option_orders r sh k qs db) (eq_questionId a) = None" by (simp add: map_of_eq_None_iff)
    with True Cons.prems(3) show ?thesis by (auto simp: Let_def mset_shuffleArray)
  next
    case False
    with Cons.prems have "eq_questionId a \<noteq> eq_questionId q" "q \<in> set qs" by auto
    with Cons show ?thesis by (auto simp: Let_def)
  qed
qed simp

lemma find_distinct:
  "distinct (map key rs) \<Longrightarrow> r \<in> set rs \<Longrightarrow> find (\<lambda>s. key s = key r) rs = Some r"
  using distinct_find [of key rs r] by (simp add: find_row_def)

lemma collect_options:
  assumes "distinct (map qo_id opts)" and "mset ids = mset (map qo_id opts)"
  shows "mset (concat (map (\<lambda>i. case find (\<lambda>x. qo_id x = i) opts of None \<Rightarrow> [] | Some x \<Rightarrow> [x]) ids)) = mset opts"
proof -
  let ?f = "\<lambda>i. case find (\<lambda>x. qo_id x = i) opts of None \<Rightarrow> [] | Some x \<Rightarrow> [x]"
  have "mset (concat (map ?f ids)) = (\<Sum>i \<in># mset ids. mset (?f i))"
    by (induction ids) auto
  also have "\<dots> = (\<Sum>y \<in># mset opts. mset (?f (qo_id y)))"
    unfolding assms(2) mset_map by (simp add: image_mset.compositionality comp_def)
  also have "\<dots> = (\<Sum>y \<in># mset opts. {#y#})"
    by (rule arg_cong [where f = sum_mset], rule image_mset_cong) (simp add: find_distinct [OF assms(1)])
  finally show ?thesis by simp
qed

lemma mset_question_order: "unit_draws r \<Longrightarrow> mset (question_order r x) = mset (map eq_questionId (ex_questions x))"
  by (simp add: question_order_def mset_shuffleArray)

definition shown_question :: "ExamQuestion \<Rightarrow> exam_db \<Rightarrow> paper_question \<Rightarrow> bool" where
  "shown_question q db pq \<longleftrightarrow> (\<exists>b \<in> set (questionBank db). qn_id b = eq_questionId q \<and> pq_questionId pq = eq_questionId q
     \<and> pq_score pq = eq_score q \<and> pq_type pq = qn_type b \<and> pq_text pq = qn_text b
     \<and> mset (pq_options pq) = mset (map (\<lambda>y. (qo_id y, qo_text y)) (qn_options b)))"

lemma new_paper_question:
  assumes "bank_wf db" and x: "x \<in> set (exams db)" "distinct (map eq_questionId (ex_questions x))"
    and r: "unit_draws r" and q: "q \<in> set (ex_questions x)"
    and p: "pn_optionOrders p = option_orders r (ex_shuffleOptions x) k (ex_questions x) db"
  shows "\<exists>pq. paper_question_of p x db (eq_questionId q) = [pq] \<and> shown_question q db pq"
proof -
  from assms(1) x(1) q have "eq_questionId q \<in> qn_id ` set (questionBank db)" by (simp add: bank_wf_def)
  then obtain b where b: "find (\<lambda>b. qn_id b = eq_questionId q) (questionBank db) = Some b"
    by (cases "find (\<lambda>b. qn_id b = eq_questionId q) (questionBank db)") (auto simp: find_None_all)
  then have bm: "b \<in> set (questionBank db)" "qn_id b = eq_questionId q" using find_Some_iff_mem by fastforce+
  then have d: "distinct (map qo_id (qn_options b))" using assms(1) by (simp add: bank_wf_def options_ok_def)
  have opts: "exam_options q db = qn_options b" by (simp add: exam_options_def b)
  have "mset (paper_options p (eq_questionId q) (qn_options b)) = mset (qn_options b)"
    using option_orders_map_of [OF x(2) q r, of db "ex_shuffleOptions x" k] collect_options [OF d]
    unfolding paper_options_def p opts by (auto split: option.splits)
  then have m: "mset (map (\<lambda>y. (qo_id y, qo_text y)) (paper_options p (eq_questionId q) (qn_options b)))
      = mset (map (\<lambda>y. (qo_id y, qo_text y)) (qn_options b))" by simp
  define pq where "pq = \<lparr>pq_questionId = eq_questionId q, pq_score = eq_score q, pq_type = qn_type b, pq_text = qn_text b,
    pq_options = map (\<lambda>y. (qo_id y, qo_text y)) (paper_options p (eq_questionId q) (qn_options b))\<rparr>"
  have "paper_question_of p x db (eq_questionId q) = [pq]"
    by (simp add: paper_question_of_def find_distinct [OF x(2) q] b pq_def)
  moreover have "shown_question q db pq"
    unfolding shown_question_def by (rule bexI [OF _ bm(1)]) (use bm(2) m in \<open>simp add: pq_def del: mset_map\<close>)
  ultimately show ?thesis by blast
qed

lemma new_paper:
  assumes "bank_wf db" and "exam_rows_ok (exams db)" and x: "x \<in> set (exams db)" and r: "unit_draws r"
    and p: "p = new_participation r i t x s tm db"
  shows "mset (map pq_questionId (paper_of p x db)) = mset (map eq_questionId (ex_questions x))
    \<and> (\<forall>pq \<in> set (paper_of p x db). \<exists>q \<in> set (ex_questions x). shown_question q db pq)"
proof -
  have d: "distinct (map eq_questionId (ex_questions x))" using assms(2) x by (simp add: exam_rows_ok_def)
  have po: "pn_optionOrders p = option_orders r (ex_shuffleOptions x) (length (ex_questions x)) (ex_questions x) db"
    "pn_questionOrder p = question_order r x" by (simp_all add: p new_participation_def)
  note pq = new_paper_question [OF assms(1) x d r _ po(1)]
  have each: "\<exists>pq q. q \<in> set (ex_questions x) \<and> eq_questionId q = qid \<and> paper_question_of p x db qid = [pq] \<and> shown_question q db pq"
    if "qid \<in> set (question_order r x)" for qid
  proof -
    from that have "qid \<in> eq_questionId ` set (ex_questions x)"
      using mset_question_order [OF r, of x] by (metis list.set_map set_mset_mset)
    then show ?thesis using pq by blast
  qed
  have "map pq_questionId (concat (map (paper_question_of p x db) ids)) = ids" if "set ids \<subseteq> set (question_order r x)" for ids
    using that by (induction ids) (auto dest!: each simp: shown_question_def)
  then have "map pq_questionId (paper_of p x db) = question_order r x" by (simp add: paper_of_def po)
  moreover have "\<forall>pq \<in> set (paper_of p x db). \<exists>q \<in> set (ex_questions x). shown_question q db pq"
    using each unfolding paper_of_def po by fastforce
  ultimately show ?thesis using mset_question_order [OF r, of x] by simp
qed

lemma paper_of_bank: "questionBank db' = questionBank db \<Longrightarrow> paper_of p x db' = paper_of p x db"
proof -
  assume "questionBank db' = questionBank db"
  then have "paper_question_of p x db' = paper_question_of p x db" by (intro ext) (simp add: paper_question_of_def split: option.split)
  then show ?thesis by (simp add: paper_of_def)
qed

section \<open>Papers stay open for their student\<close>

definition open_view :: "ExamParticipation \<Rightarrow> id \<times> (id \<times> id) \<times> time \<times> ParticipationStatus" where
  "open_view p = (pn_id p, paper_key p, pn_serverDeadline p, pn_status p)"

definition stays_open :: "exam_db \<Rightarrow> exam_db \<Rightarrow> ExamParticipation \<Rightarrow> bool" where
  "stays_open db db' p \<longleftrightarrow> exam_wf db' \<and> examStudents db' = examStudents db
     \<and> (\<exists>q \<in> set (participations db'). open_view q = open_view p)"

fun hands_in :: "id \<Rightarrow> id \<Rightarrow> exam_request \<Rightarrow> bool" where
  "hands_in i s (SubmitAnswers t' i' s' dto e) = (i' = i \<and> s' = s)"
| "hands_in i s _ = False"

lemma update_participation_fields [simp]:
  "participations (update_participation i f db) = update_row pn_id i f (participations db)"
  "examStudents (update_participation i f db) = examStudents db"
  by (simp_all add: update_participation_def)

lemma stays_open_paper:
  assumes "exam_wf (update_participation j f db1)" and "examStudents db1 = examStudents db" and "participations db1 = participations db"
    and "p \<in> set (participations db)" and "pn_id p = j \<Longrightarrow> open_view (f p) = open_view p"
  shows "stays_open db (update_participation j f db1) p"
  using assms by (auto simp: stays_open_def set_update_row)

lemma student_profile_row: "student_profile t s db = Some st \<Longrightarrow> st \<in> set (examStudents db) \<and> xs_userId st = s \<and> xs_tenantId st = t"
  using find_Some_iff_mem [of _ "examStudents db" st] by (auto simp: student_profile_def)

lemma find_participation_mem:
  assumes "exam_wf db" and "p \<in> set (participations db)" and "paper_key p = (i, k)"
  shows "find_participation i k db = Some p"
proof -
  have "find_participation i k db = find (\<lambda>q. paper_key q = paper_key p) (participations db)"
    unfolding find_participation_def assms(3) by (simp add: paper_key_def)
  with assms(1,2) show ?thesis by (simp add: exam_wf_def find_distinct)
qed

lemma stays_open_refl: "exam_wf db' \<Longrightarrow> p \<in> set (participations db) \<Longrightarrow> participations db' = participations db
    \<Longrightarrow> examStudents db' = examStudents db \<Longrightarrow> stays_open db db' p"
  by (auto simp: stays_open_def)

lemma submit_stays_open:
  assumes wf: "exam_wf db" and ids: "distinct (map xs_id (examStudents db))" and st: "student_profile t s db = Some st"
    and p: "p \<in> set (participations db)" "paper_key p = (i, xs_id st)" and other: "i' \<noteq> i \<or> s' \<noteq> s"
  shows "stays_open db (snd (submitExamAnswers t' i' s' dto e db)) p"
proof -
  have ne: "pn_id p \<noteq> pn_id q" if s: "student_profile t' s' db = Some st'" and q: "find_participation i' (xs_id st') db = Some q" for st' q
  proof
    assume "pn_id p = pn_id q"
    then have "p = q" using paper_of_id [OF wf] p(1) find_participation_key [OF q] by blast
    with p(2) find_participation_key [OF q] have "i' = i" "xs_id st' = xs_id st" by auto
    with ids student_profile_row [OF st] student_profile_row [OF s] other show False by (auto dest: distinct_key_inj)
  qed
  have wf': "exam_wf (snd (submitExamAnswers t' i' s' dto e db))" by (rule submit_exam_wf [OF wf])
  show ?thesis
  proof (rule submit_shape [of t' i' s' dto e db])
    fix er assume "submitExamAnswers t' i' s' dto e db = (Inl er, db)"
    with wf p show ?thesis by (simp add: stays_open_refl)
  next
    fix st' q
    assume "student_profile t' s' db = Some st'" "find_participation i' (xs_id st') db = Some q"
      and r: "submitExamAnswers t' i' s' dto e db = (Inl (BadRequest ''too late''),
        update_participation (pn_id q) (\<lambda>p. p\<lparr>pn_status := PT_TIMED_OUT, pn_submittedAt := Some (now e)\<rparr>) db)"
    then show ?thesis using ne wf' unfolding r snd_conv by (intro stays_open_paper) (auto simp: p)
  next
    fix st' q x and g :: grading
    assume "student_profile t' s' db = Some st'" "find_participation i' (xs_id st') db = Some q"
      and r: "submitExamAnswers t' i' s' dto e db = (Inr \<lparr>sr_isGraded = (\<not> fst (snd g)),
          sr_totalScore = (if fst (snd g) then None else Some (fst g)), sr_flaggedForReview = (tab_switches dto \<ge> 3)\<rparr>,
        update_participation (pn_id q) (submitted_paper dto g (now e)) (db\<lparr>examAnswers := fold upsert_answer (snd (snd g)) (examAnswers db)\<rparr>))"
    then show ?thesis using ne wf' unfolding r snd_conv by (intro stays_open_paper) (auto simp: p)
  qed
qed

lemma grade_stays_open:
  assumes "gradeDescriptiveAnswers t j dto db = Inr db'" and "exam_wf db" and "p \<in> set (participations db)"
  shows "stays_open db db' p"
  by (rule grade_paper_shape [OF assms(1)])
    (use assms grade_paper_wf [OF assms(1,2)] in \<open>auto simp: open_view_def intro!: stays_open_paper\<close>)

lemma start_stays_open:
  assumes "startExam r t j s e db = Inr ((q, qs), db')" and "exam_wf db" and "p \<in> set (participations db)"
  shows "stays_open db db' p"
proof (rule start_exam_shape [OF assms(1)])
  fix st x
  assume "find_participation j (xs_id st) db = Some q \<and> db' = db \<and> pn_status q \<noteq> PT_SUBMITTED \<and> pn_status q \<noteq> PT_TIMED_OUT
      \<or> find_participation j (xs_id st) db = None \<and> q = new_participation r (uuid e 0) t x (xs_id st) (now e) db
        \<and> create_participation q db = Inr db'"
  then have "db' = db \<or> db' = db\<lparr>participations := participations db @ [q]\<rparr>" using create_participation_rows by blast
  then show ?thesis using start_exam_wf [OF assms(1,2)] assms(3) by (auto simp: stays_open_def)
qed

lemma serve_stays_open:
  assumes wf: "exam_wf db" and ids: "distinct (map xs_id (examStudents db))" and st: "student_profile t s db = Some st"
    and p: "p \<in> set (participations db)" "paper_key p = (i, xs_id st)" and other: "\<not> hands_in i s r"
  shows "stays_open db (exam_serve r db) p"
proof (cases "on_papers r")
  case False
  from content_request [OF False, of db] wf p(1) exam_serve_wf [OF wf, of r] show ?thesis
    by (auto simp: content_step_def stays_open_def)
next
  case True
  with assms show ?thesis
    by (cases r) (auto simp: keep_def map_sum_snd split: sum.splits
        intro: stays_open_refl start_stays_open grade_stays_open submit_stays_open)
qed

lemma run_stays_open:
  assumes "exam_wf db" and "distinct (map xs_id (examStudents db))" and "student_profile t s db = Some st"
    and "p \<in> set (participations db)" and "paper_key p = (i, xs_id st)" and "\<forall>r \<in> set rs. \<not> hands_in i s r"
  shows "stays_open db (fold exam_serve rs db) p"
  using assms
proof (induction rs arbitrary: db p)
  case Nil
  then show ?case by (simp add: stays_open_refl)
next
  case (Cons r rs)
  from Cons.prems(6) have r: "\<not> hands_in i s r" "\<forall>r \<in> set rs. \<not> hands_in i s r" by auto
  from serve_stays_open [OF Cons.prems(1-5) r(1)] obtain q
    where q: "q \<in> set (participations (exam_serve r db))" "open_view q = open_view p"
      and e: "exam_wf (exam_serve r db)" "examStudents (exam_serve r db) = examStudents db" by (auto simp: stays_open_def)
  have "paper_key q = (i, xs_id st)" using q(2) Cons.prems(5) by (simp add: open_view_def)
  moreover have "student_profile t s (exam_serve r db) = Some st" using Cons.prems(3) e(2) by (simp add: student_profile_def)
  ultimately have "stays_open (exam_serve r db) (fold exam_serve rs (exam_serve r db)) q"
    using Cons.IH [OF e(1) _ _ q(1) _ r(2)] Cons.prems(2) e(2) by simp
  with q(2) e(2) show ?case by (auto simp: stays_open_def)
qed

lemma open_paper_accepted:
  assumes wf: "exam_wf db" and st: "student_profile t s db = Some st" and p: "p \<in> set (participations db)" "paper_key p = (i, xs_id st)"
    and ok: "pn_status p \<noteq> PT_SUBMITTED" "now e \<le> pn_serverDeadline p"
  shows "\<exists>reply. fst (submitExamAnswers t i s dto e db) = Inr reply
    \<and> (\<exists>q \<in> set (participations (snd (submitExamAnswers t i s dto e db))). paper_key q = paper_key p \<and> pn_status q = PT_SUBMITTED
         \<and> pn_submittedAt q = Some (now e))"
proof -
  have f: "find_participation i (xs_id st) db = Some p" by (rule find_participation_mem [OF wf p])
  have "paper_ok (exams db) p" using wf p(1) by (simp add: exam_wf_def)
  then have "\<exists>x \<in> set (exams db). ex_id x = i" using p(2) by (auto simp: paper_ok_def paper_key_def)
  then obtain x where x: "find (\<lambda>x. ex_id x = i) (exams db) = Some x" by (cases "find (\<lambda>x. ex_id x = i) (exams db)") (auto simp: find_None_all)
  define g where "g = grade_answers (pn_id p) x db (se_answers dto)"
  let ?q = "submitted_paper dto g (now e) p"
  have "participations (snd (submitExamAnswers t i s dto e db)) = update_row pn_id (pn_id p) (submitted_paper dto g (now e)) (participations db)"
    using st f x ok by (simp add: submitExamAnswers_def Let_def g_def)
  moreover have "?q \<in> set (update_row pn_id (pn_id p) (submitted_paper dto g (now e)) (participations db))"
    using p(1) by (force simp: set_update_row)
  moreover have "paper_key ?q = paper_key p \<and> pn_status ?q = PT_SUBMITTED \<and> pn_submittedAt ?q = Some (now e)"
    by (simp add: submitted_paper_def paper_key_def)
  moreover have "\<exists>reply. fst (submitExamAnswers t i s dto e db) = Inr reply"
    using st f x ok by (simp add: submitExamAnswers_def Let_def)
  ultimately show ?thesis by metis
qed

section \<open>Grading by the teacher\<close>

definition with_grade :: "GradeDescriptiveAnswerDto \<Rightarrow> ExamAnswer \<Rightarrow> ExamAnswer" where
  "with_grade g a = a\<lparr>an_scoreAwarded := Some (gd_scoreAwarded g), an_teacherComment := or_null (gd_teacherComment g)\<rparr>"

definition graded_answer :: "id \<Rightarrow> GradeDescriptiveAnswerDto list \<Rightarrow> ExamAnswer \<Rightarrow> ExamAnswer" where
  "graded_answer i gs a = (case find (\<lambda>g. answer_key a = (i, gd_questionId g)) gs of None \<Rightarrow> a | Some g \<Rightarrow> with_grade g a)"

lemma answer_key_with_grade [simp]: "answer_key (with_grade g a) = answer_key a"
  by (simp add: with_grade_def answer_key_def)

lemma set_grades_map:
  assumes "foldE (set_grade i) gs as = Inr as'" and "distinct (map gd_questionId gs)"
  shows "as' = map (graded_answer i gs) as"
  using assms
proof (induction gs arbitrary: as)
  case Nil
  then show ?case by (simp add: graded_answer_def map_idI)
next
  case (Cons g gs)
  let ?u = "\<lambda>a. if answer_key a = (i, gd_questionId g) then with_grade g a else a"
  from Cons.prems(1) obtain as1 where s: "set_grade i g as = Inr as1" and r: "foldE (set_grade i) gs as1 = Inr as'"
    by (auto simp: bindE_Inr)
  from s have "as1 = map ?u as" by (auto simp: set_grade_def update_row_def with_grade_def [abs_def] split: if_splits)
  with Cons.IH [OF r] Cons.prems(2) have "as' = map (graded_answer i gs) (map ?u as)" by simp
  moreover have "graded_answer i gs (?u a) = graded_answer i (g # gs) a" for a
  proof (cases "answer_key a = (i, gd_questionId g)")
    case True
    have "find (\<lambda>h. answer_key (with_grade g a) = (i, gd_questionId h)) gs = None"
      using Cons.prems(2) True by (auto simp: find_None_iff)
    with True show ?thesis by (simp add: graded_answer_def)
  qed (simp add: graded_answer_def)
  ultimately show ?case by simp
qed

lemma masked_grade: "\<not> results_visible x \<Longrightarrow> masked x (graded_paper dto n p) = masked x p"
  by (simp add: masked_def graded_paper_def)

lemma own_papers_graded:
  assumes "\<not> results_visible x \<or> pn_examId p \<noteq> ex_id x" and "\<And>q. q \<in> set (participations db) \<Longrightarrow> pn_id q = pn_id p \<Longrightarrow> q = p"
    and "examStudents db' = examStudents db"
    and "participations db' = update_row pn_id (pn_id p) (graded_paper dto n) (participations db)"
  shows "own_papers t u x db' = own_papers t u x db
    \<and> length (filter (\<lambda>q. pn_examId q = ex_id x) (participations db')) = length (filter (\<lambda>q. pn_examId q = ex_id x) (participations db))"
proof -
  let ?g = "\<lambda>q. if pn_id q = pn_id p then graded_paper dto n q else q"
  have f: "pn_examId (graded_paper dto n q) = pn_examId q" "pn_studentId (graded_paper dto n q) = pn_studentId q" for q
    by (simp_all add: graded_paper_def)
  have m: "map (masked x) (filter (\<lambda>q. pn_examId q = ex_id x \<and> pn_studentId q = k) (map ?g qs))
      = map (masked x) (filter (\<lambda>q. pn_examId q = ex_id x \<and> pn_studentId q = k) qs)"
    if "\<And>q. q \<in> set qs \<Longrightarrow> pn_id q = pn_id p \<Longrightarrow> q = p" for k qs
    using that assms(1) by (induction qs) (auto simp: f masked_grade)
  have "length (filter (\<lambda>q. pn_examId q = ex_id x) (map ?g qs)) = length (filter (\<lambda>q. pn_examId q = ex_id x) qs)" for qs
    by (induction qs) (auto simp: f)
  then show ?thesis using m [OF assms(2)] assms(3,4)
    by (auto simp: own_papers_def student_profile_def update_row_def split: option.split)
qed

lemma exam_matches_same:
  "examTeachers db' = examTeachers db \<Longrightarrow> examStudents db' = examStudents db \<Longrightarrow> exam_matches t f u db' = exam_matches t f u db"
  by (intro ext) (simp add: exam_matches_def teacher_profile_def student_profile_def split: option.split)

end
