(* ===== verification/Exam_Props.thy ===== *)
theory Exam_Props
  imports Exam_Laws
begin

text \<open>The properties of the exams.\<close>

section \<open>An exam for the witnesses\<close>

definition bank_question :: "id \<Rightarrow> QuestionType \<Rightarrow> Question" where
  "bank_question i ty = \<lparr>qn_id = i, qn_tenantId = ''t'', qn_lessonId = ''l'', qn_categoryId = None, qn_createdById = ''teach'',
     qn_type = ty, qn_difficulty = MEDIUM, qn_text = i, qn_defaultScore = 1, qn_suggestedTimeSeconds = 60, qn_solutionExplanation = None,
     qn_options = [\<lparr>qo_id = i @ ''a'', qo_text = ''A'', qo_isCorrect = False, qo_orderIndex = 1\<rparr>,
       \<lparr>qo_id = i @ ''b'', qo_text = ''B'', qo_isCorrect = True, qo_orderIndex = 2\<rparr>]\<rparr>"

definition exam_x :: Exam where
  "exam_x = \<lparr>ex_id = ''x'', ex_tenantId = ''t'', ex_academicYearId = ''y'', ex_termId = None, ex_lessonId = ''l'', ex_teacherId = ''tp'',
     ex_title = ''x'', ex_description = None, ex_examType = ONLINE, ex_round = ''CLASS_EXAM'', ex_durationMinutes = 10, ex_startTime = 0,
     ex_endTime = 1000000, ex_totalScore = 5, ex_shuffleQuestions = True, ex_shuffleOptions = True, ex_showResultsImmediately = False,
     ex_isPublished = True, ex_isResultsPublished = False, ex_resultsPublishedAt = None, ex_status = EX_SCHEDULED, ex_classrooms = [''k''],
     ex_questions = [\<lparr>eq_questionId = ''q1'', eq_orderIndex = 1, eq_score = 2\<rparr>, \<lparr>eq_questionId = ''q2'', eq_orderIndex = 2, eq_score = 3\<rparr>]\<rparr>"

definition exam_pupil :: "id \<Rightarrow> exam_student" where
  "exam_pupil u = \<lparr>xs_id = ''s-'' @ u, xs_userId = u, xs_tenantId = ''t'', xs_classrooms = [''k'']\<rparr>"

definition taken_paper :: ExamParticipation where
  "taken_paper = \<lparr>pn_id = ''p2'', pn_tenantId = ''t'', pn_examId = ''x'', pn_studentId = ''s-u2'', pn_startedAt = 10, pn_submittedAt = Some 20,
     pn_serverDeadline = 660010, pn_totalScore = None, pn_isGraded = False, pn_tabSwitchCount = 0, pn_flaggedForReview = False,
     pn_graceScore = 0, pn_graceReason = None, pn_status = PT_SUBMITTED, pn_questionOrder = [''q1'', ''q2''], pn_optionOrders = [],
     pn_teacherFeedback = None\<rparr>"

definition taken_answer :: ExamAnswer where
  "taken_answer = \<lparr>an_participationId = ''p2'', an_questionId = ''q2'', an_selectedOptionId = None, an_descriptiveAnswer = Some ''text'',
     an_scoreAwarded = None, an_isAutoGraded = False, an_teacherComment = None\<rparr>"

definition exam0 :: exam_db where
  "exam0 = \<lparr>exams = [exam_x], questionBank = [bank_question ''q1'' MULTIPLE_CHOICE, bank_question ''q2'' TRUE_FALSE], questionCategories = [],
     participations = [taken_paper], examAnswers = [taken_answer], examLessons = [(''l'', ''t'')],
     examTeachers = [\<lparr>xt_id = ''tp'', xt_userId = ''teach'', xt_tenantId = ''t''\<rparr>], teacherLessons = [], classSchedules = [],
     examStudents = [exam_pupil ''u1'', exam_pupil ''u2''], examYears = []\<rparr>"

definition exam_env :: "string \<Rightarrow> time \<Rightarrow> env" where
  "exam_env s t = \<lparr>now = t, rnd = 0, uuid = (\<lambda>k. s @ string_of_nat k)\<rparr>"

definition half :: "nat \<Rightarrow> rat" where
  "half k = 1 / 2"

definition given :: "id \<Rightarrow> id \<Rightarrow> SubmitAnswerItemDto" where
  "given q c = \<lparr>sa_questionId = q, sa_selectedOptionId = Some c, sa_descriptiveAnswer = None, sa_textAnswer = None\<rparr>"

definition hand_in_dto :: SubmitExamAnswersDto where
  "hand_in_dto = \<lparr>se_tabSwitchCount = None, se_answers = [given ''q1'' ''q1b'', given ''q2'' ''q2a'']\<rparr>"

definition grades_dto :: GradeExamParticipationDto where
  "grades_dto = \<lparr>gp_teacherFeedback = None, gp_graceScore = Some 1, gp_graceReason = None,
     gp_grades = [\<lparr>gd_questionId = ''q2'', gd_scoreAwarded = 2, gd_teacherComment = None\<rparr>]\<rparr>"

lemmas exam_world = exam0_def exam_x_def taken_paper_def taken_answer_def bank_question_def exam_pupil_def

lemma exam0_wf: "exam_wf exam0" and exam0_bank: "bank_wf exam0"
  by (auto simp: exam_wf_def exam_rows_ok_def paper_ok_def paper_key_def bank_wf_def options_ok_def exam_world)

lemma half_draws: "unit_draws half"
  by (simp add: unit_draws_def half_def)

definition exam_run :: "exam_request list" where
  "exam_run = [StartExam half ''t'' ''x'' ''u1'' (exam_env ''a'' 1000), SubmitAnswers ''t'' ''x'' ''u1'' hand_in_dto (exam_env ''b'' 2000),
     GradeAnswers ''t'' ''p2'' grades_dto, PublishResults ''t'' ''x'' None None (exam_env ''c'' 3000)]"

section \<open>The properties\<close>

text \<open>C23: Through any requests, failed ones included, the tables of the exams stay consistent: a student has one
  paper for an exam, of the same school, begun within its time and with a deadline not after its end; a submitted paper
  was handed in by its deadline; a graded one has a score; an exam holds no question twice and every question
  of an exam is in the bank, with options that can be told apart.\<close>

theorem exam_tables_consistent:
  assumes "exam_wf db" and "bank_wf db"
  shows "exam_wf (fold exam_serve rs db) \<and> bank_wf (fold exam_serve rs db)"
  using assms by (simp add: exam_run_wf exam_run_bank)

theorem exam_tables_consistent_witness: "exam_wf (fold exam_serve exam_run exam0) \<and> bank_wf (fold exam_serve exam_run exam0)"
  by (rule exam_tables_consistent [OF exam0_wf exam0_bank])

text \<open>C24: What a student has handed in is final: through any further requests that delete no question the paper stays
  submitted, with its time, its count of tab switches and every answer given, whatever is graded meanwhile.\<close>

theorem submitted_paper_final:
  assumes "exam_wf db" and "p \<in> set (participations db)" and "pn_status p = PT_SUBMITTED"
    and "\<forall>r \<in> set rs. lost_questions r = {}"
  shows "(\<exists>p' \<in> set (participations (fold exam_serve rs db)). pn_status p' = PT_SUBMITTED \<and> handed_in p' = handed_in p)
    \<and> answers_given (pn_id p) (examAnswers (fold exam_serve rs db)) = answers_given (pn_id p) (examAnswers db)"
  using exam_run_final [OF assms] by (simp add: paper_final_def)

theorem submitted_paper_final_witness:
  "\<exists>p' \<in> set (participations (fold exam_serve exam_run exam0)). pn_status p' = PT_SUBMITTED \<and> handed_in p' = handed_in taken_paper"
proof -
  have "taken_paper \<in> set (participations exam0)" "pn_status taken_paper = PT_SUBMITTED" "\<forall>r \<in> set exam_run. lost_questions r = {}"
    by (simp_all add: exam0_def taken_paper_def exam_run_def)
  from submitted_paper_final [OF exam0_wf this] show ?thesis ..
qed

text \<open>C25: The paper of a student who opens an exam for the first time has exactly the questions of the exam, each with its
  score, its text and exactly its options, in some order and without the mark of the correct one; and opening it again
  during the exam, whatever is drawn then, gives the same paper.\<close>

theorem new_paper_complete:
  assumes "exam_wf db" and "bank_wf db" and "unit_draws r" and "startExam r t i s e db = Inr ((p, qs), db')"
    and "p \<notin> set (participations db)"
  shows "\<exists>x \<in> set (exams db). ex_id x = i
    \<and> mset (map pq_questionId qs) = mset (map eq_questionId (ex_questions x))
    \<and> (\<forall>pq \<in> set qs. \<exists>q \<in> set (ex_questions x). shown_question q db pq)
    \<and> (\<forall>r' e'. ex_startTime x \<le> now e' \<and> now e' \<le> ex_endTime x \<longrightarrow> startExam r' t i s e' db' = Inr ((p, qs), db'))"
proof (rule start_exam_shape [OF assms(4)])
  fix st x
  assume st: "student_profile t s db = Some st" and x: "find_exam t i db = Some x" and qs: "qs = paper_of p x db'"
    and c: "list_ex (\<lambda>c. c \<in> set (xs_classrooms st)) (ex_classrooms x)"
    and "find_participation i (xs_id st) db = Some p \<and> db' = db \<and> pn_status p \<noteq> PT_SUBMITTED \<and> pn_status p \<noteq> PT_TIMED_OUT
      \<or> find_participation i (xs_id st) db = None \<and> p = new_participation r (uuid e 0) t x (xs_id st) (now e) db
        \<and> create_participation p db = Inr db'"
  then have p: "p = new_participation r (uuid e 0) t x (xs_id st) (now e) db" and n: "find_participation i (xs_id st) db = None"
    and db': "db' = db\<lparr>participations := participations db @ [p]\<rparr>"
    using assms(5) find_participation_key [of i "xs_id st" db p] create_participation_rows [of p db db'] by auto
  note row = find_exam_row [OF x]
  have qs': "qs = paper_of p x db" unfolding qs by (rule paper_of_bank) (simp add: db')
  have "exam_rows_ok (exams db)" using assms(1) by (simp add: exam_wf_def)
  note content = new_paper [OF assms(2) this conjunct1 [OF row] assms(3) p, folded qs']
  have "student_profile t s db' = Some st" "find_exam t i db' = Some x"
    using st x by (simp_all add: db' student_profile_def find_exam_def)
  moreover have "find_participation i (xs_id st) db' = Some p"
    using n row unfolding find_participation_def db' by (simp add: find_append_new p new_participation_def)
  ultimately have "startExam r' t i s e' db' = Inr ((p, qs), db')" if "ex_startTime x \<le> now e'" "now e' \<le> ex_endTime x" for r' e'
    using that c by (simp add: startExam_def qs) (simp add: p new_participation_def)
  with row content show ?thesis by (intro bexI [of _ x]) auto
qed

theorem new_paper_complete_witness:
  "\<exists>p qs db'. startExam half ''t'' ''x'' ''u1'' (exam_env ''a'' 1000) exam0 = Inr ((p, qs), db')
     \<and> mset (map pq_questionId qs) = {#''q1'', ''q2''#}"
proof -
  have "startExam half ''t'' ''x'' ''u1'' (exam_env ''a'' 1000) exam0 \<noteq> Inl y" for y
    by (auto simp: exam_world startExam_def student_profile_def find_exam_def find_participation_def exam_env_def create_participation_def
        new_participation_def Let_def)
  then obtain p qs db' where s: "startExam half ''t'' ''x'' ''u1'' (exam_env ''a'' 1000) exam0 = Inr ((p, qs), db')"
    by (cases "startExam half ''t'' ''x'' ''u1'' (exam_env ''a'' 1000) exam0") auto
  have "p \<notin> set (participations exam0)"
    by (rule start_exam_shape [OF s]) (auto simp: exam_world student_profile_def find_exam_def find_participation_def new_participation_def)
  from new_paper_complete [OF exam0_wf exam0_bank half_draws s this] s show ?thesis
    by (auto simp: exam0_def exam_x_def)
qed

text \<open>C26: When a submission without repeated questions is graded at once, the score it reports is the sum of the scores
  of the questions of the exam that it answers right; with non-negative scores it is between 0 and their sum.\<close>

theorem automatic_score:
  assumes "exam_wf db" and "submitExamAnswers t i s dto e db = (Inr reply, db')" and "distinct (map sa_questionId (se_answers dto))"
    and "sr_isGraded reply"
  shows "\<exists>x \<in> set (exams db). ex_id x = i \<and> sr_totalScore reply = Some (right_scores x db (se_answers dto))
    \<and> ((\<forall>q \<in> set (ex_questions x). 0 \<le> eq_score q) \<longrightarrow> 0 \<le> right_scores x db (se_answers dto)
         \<and> right_scores x db (se_answers dto) \<le> sum_list (map eq_score (ex_questions x)))"
proof (rule submit_shape [of t i s dto e db])
  fix st p x and g :: grading
  assume x: "find (\<lambda>x. ex_id x = i) (exams db) = Some x" and g: "g = grade_answers (pn_id p) x db (se_answers dto)"
    and "submitExamAnswers t i s dto e db = (Inr \<lparr>sr_isGraded = (\<not> fst (snd g)),
          sr_totalScore = (if fst (snd g) then None else Some (fst g)), sr_flaggedForReview = (tab_switches dto \<ge> 3)\<rparr>,
        update_participation (pn_id p) (submitted_paper dto g (now e)) (db\<lparr>examAnswers := fold upsert_answer (snd (snd g)) (examAnswers db)\<rparr>))"
  then have "sr_totalScore reply = Some (fst g)" using assms(2,4) by auto
  moreover have m: "x \<in> set (exams db)" "ex_id x = i" using find_Some_iff_mem [OF x] by auto
  moreover have "fst g = right_scores x db (se_answers dto)"
    unfolding g using assms(1,3) m(1) by (intro grade_right_scores) (auto simp: exam_wf_def exam_rows_ok_def)
  ultimately show ?thesis using right_scores_bounds [of x db "se_answers dto"] by auto
qed (use assms(2) in auto)

definition exam_started :: exam_db where
  "exam_started = exam0\<lparr>participations := [taken_paper, new_participation half ''a0'' ''t'' exam_x ''s-u1'' 1000 exam0]\<rparr>"

lemma exam_started_wf: "exam_wf exam_started"
  by (auto simp: exam_started_def exam_wf_def exam_rows_ok_def paper_ok_def paper_key_def new_participation_def server_deadline_def exam_world)

theorem automatic_score_witness:
  "\<exists>reply. fst (submitExamAnswers ''t'' ''x'' ''u1'' hand_in_dto (exam_env ''b'' 2000) exam_started) = Inr reply
     \<and> sr_totalScore reply = Some 2"
proof -
  let ?r = "submitExamAnswers ''t'' ''x'' ''u1'' hand_in_dto (exam_env ''b'' 2000) exam_started"
  have "fst ?r = Inr \<lparr>sr_isGraded = True, sr_totalScore = Some 2, sr_flaggedForReview = False\<rparr>" by code_simp
  then obtain db' where r: "?r = (Inr \<lparr>sr_isGraded = True, sr_totalScore = Some 2, sr_flaggedForReview = False\<rparr>, db')"
    by (metis prod.collapse)
  have "distinct (map sa_questionId (se_answers hand_in_dto))" by code_simp
  from automatic_score [OF exam_started_wf r this] r show ?thesis by auto
qed

text \<open>What the grading of a teacher leaves: the answers named get the scores and comments given, all other answers
  stay; the paper is graded, with the sum of the scores of its answers and the grace, rounded to hundredths and
  limited to the total of the exam.\<close>

theorem teacher_grading:
  assumes "exam_wf db" and "gradeDescriptiveAnswers t i dto db = Inr db'" and "distinct (map gd_questionId (gp_grades dto))"
  shows "examAnswers db' = map (graded_answer i (gp_grades dto)) (examAnswers db)
    \<and> (\<exists>x \<in> set (exams db). \<exists>p \<in> set (participations db). \<exists>p' \<in> set (participations db'). pn_id p = i \<and> pn_id p' = i
        \<and> ex_id x = pn_examId p \<and> paper_key p' = paper_key p \<and> pn_isGraded p' \<and> pn_graceScore p' = grace_of dto
        \<and> pn_totalScore p' = Some (min (ex_totalScore x) (round2 (raw_score i (examAnswers db') + grace_of dto))))"
proof (rule grade_paper_shape [OF assms(2)])
  fix p x as
  assume p: "p \<in> set (participations db)" "pn_id p = i" and x: "x \<in> set (exams db)" "ex_id x = pn_examId p"
    and as: "foldE (set_grade i) (gp_grades dto) (examAnswers db) = Inr as"
    and db': "db' = update_participation i (graded_paper dto (min (ex_totalScore x) (round2 (raw_score i as + grace_of dto))))
      (db\<lparr>examAnswers := as\<rparr>)"
  have a: "examAnswers db' = as" by (simp add: db' update_participation_def)
  let ?p = "graded_paper dto (min (ex_totalScore x) (round2 (raw_score i as + grace_of dto))) p"
  have "?p \<in> set (participations db')" using p by (force simp: db' set_update_row)
  then have "\<exists>p' \<in> set (participations db'). pn_id p' = i \<and> paper_key p' = paper_key p \<and> pn_isGraded p' \<and> pn_graceScore p' = grace_of dto
      \<and> pn_totalScore p' = Some (min (ex_totalScore x) (round2 (raw_score i as + grace_of dto)))"
    by (rule rev_bexI) (simp add: p graded_paper_def paper_key_def)
  with set_grades_map [OF as assms(3)] p x show ?thesis unfolding a by blast
qed

theorem teacher_grading_witness:
  "\<exists>db'. gradeDescriptiveAnswers ''t'' ''p2'' grades_dto exam0 = Inr db'
     \<and> (\<exists>p' \<in> set (participations db'). pn_id p' = ''p2'' \<and> pn_isGraded p' \<and> pn_totalScore p' \<noteq> None)"
proof -
  obtain db' where r: "gradeDescriptiveAnswers ''t'' ''p2'' grades_dto exam0 = Inr db'"
    by (simp add: gradeDescriptiveAnswers_def exam_world grades_dto_def set_grade_def answer_key_def)
  have "distinct (map gd_questionId (gp_grades grades_dto))" by (simp add: grades_dto_def)
  from teacher_grading [OF exam0_wf r this] r show ?thesis by auto
qed

text \<open>C27: Until the results of an exam are published (or shown at once) no grading shows: the list of exams a student
  gets, with the own papers, is the same before and after.\<close>

theorem grading_hidden_until_published:
  assumes "exam_wf db" and "gradeDescriptiveAnswers t i dto db = Inr db'" and "xu_role u = STUDENT"
    and "\<forall>p \<in> set (participations db). \<forall>x \<in> set (exams db). pn_id p = i \<and> ex_id x = pn_examId p \<longrightarrow> \<not> results_visible x"
  shows "listExams t' f (Some u) db' = listExams t' f (Some u) db"
proof (rule grade_paper_shape [OF assms(2)])
  fix p x as
  assume p: "p \<in> set (participations db)" "pn_id p = i"
    and db': "db' = update_participation i (graded_paper dto (min (ex_totalScore x) (round2 (raw_score i as + grace_of dto))))
      (db\<lparr>examAnswers := as\<rparr>)"
  have uniq: "\<And>q. q \<in> set (participations db) \<Longrightarrow> pn_id q = pn_id p \<Longrightarrow> q = p" by (rule paper_of_id [OF assms(1) p(1)])
  have row: "(y, length (filter (\<lambda>q. pn_examId q = ex_id y) (participations db')), own_papers t' (Some u) y db')
      = (y, length (filter (\<lambda>q. pn_examId q = ex_id y) (participations db)), own_papers t' (Some u) y db)"
    if "y \<in> set (exams db)" for y
  proof -
    have hidden: "\<not> results_visible y \<or> pn_examId p \<noteq> ex_id y" using assms(4) p that by metis
    have "examStudents db' = examStudents db"
      "participations db' = update_row pn_id (pn_id p) (graded_paper dto (min (ex_totalScore x) (round2 (raw_score i as + grace_of dto)))) (participations db)"
      by (simp_all add: db' p)
    from own_papers_graded [OF hidden uniq this] show ?thesis by simp
  qed
  have e: "exams db' = exams db" "examTeachers db' = examTeachers db" "examStudents db' = examStudents db"
    by (simp_all add: db' update_participation_def)
  note m = exam_matches_same [OF e(2,3), of t' f "Some u"]
  show ?thesis unfolding listExams_def e(1) m by (rule map_cong [OF refl], rule row) simp
qed

theorem grading_hidden_until_published_witness:
  "\<exists>db'. gradeDescriptiveAnswers ''t'' ''p2'' grades_dto exam0 = Inr db'
     \<and> listExams ''t'' \<lparr>xf_classroomId = None, xf_lessonId = None, xf_teacherId = None\<rparr> (Some \<lparr>xu_id = ''u2'', xu_role = STUDENT\<rparr>) db'
       = listExams ''t'' \<lparr>xf_classroomId = None, xf_lessonId = None, xf_teacherId = None\<rparr> (Some \<lparr>xu_id = ''u2'', xu_role = STUDENT\<rparr>) exam0"
proof -
  obtain db' where r: "gradeDescriptiveAnswers ''t'' ''p2'' grades_dto exam0 = Inr db'"
    by (simp add: gradeDescriptiveAnswers_def exam_world grades_dto_def set_grade_def answer_key_def)
  show ?thesis by (intro exI conjI, rule r, rule grading_hidden_until_published [OF exam0_wf r])
    (auto simp: exam0_def exam_x_def results_visible_def)
qed

text \<open>C28: A student of an invited class who opens an exam during its time gets a paper, and nothing anybody else does
  afterwards keeps the student from handing it in: whatever requests follow, the hand-in is accepted up to the deadline
  and ends with a submitted paper.\<close>

theorem student_can_finish:
  assumes "exam_wf db" and "distinct (map xs_id (examStudents db))" and "student_profile t s db = Some st"
    and "find_exam t i db = Some x" and "c \<in> set (ex_classrooms x)" and "c \<in> set (xs_classrooms st)"
    and "ex_startTime x \<le> now e" and "now e \<le> ex_endTime x" and "find_participation i (xs_id st) db = None"
    and "uuid e 0 \<notin> set (map pn_id (participations db))"
  shows "\<exists>p qs db1. startExam r t i s e db = Inr ((p, qs), db1) \<and> pn_serverDeadline p = server_deadline x (now e)
    \<and> (\<forall>rs e' dto. (\<forall>q \<in> set rs. \<not> hands_in i s q) \<longrightarrow> now e' \<le> server_deadline x (now e) \<longrightarrow>
        (\<exists>reply. fst (submitExamAnswers t i s dto e' (fold exam_serve rs db1)) = Inr reply)
        \<and> (\<exists>q \<in> set (participations (snd (submitExamAnswers t i s dto e' (fold exam_serve rs db1)))).
             paper_key q = (i, xs_id st) \<and> pn_status q = PT_SUBMITTED \<and> pn_submittedAt q = Some (now e')))"
proof -
  define p where "p = new_participation r (uuid e 0) t x (xs_id st) (now e) db"
  define db1 where "db1 = db\<lparr>participations := participations db @ [p]\<rparr>"
  have id: "ex_id x = i" using find_exam_row [OF assms(4)] by simp
  have p: "paper_key p = (i, xs_id st)" "pn_status p = PT_IN_PROGRESS" "pn_serverDeadline p = server_deadline x (now e)"
      "pn_id p = uuid e 0" "pn_examId p = i" "pn_studentId p = xs_id st" "p \<in> set (participations db1)"
    by (simp_all add: p_def new_participation_def paper_key_def id db1_def)
  have "list_ex (\<lambda>c. c \<in> set (xs_classrooms st)) (ex_classrooms x)" using assms(5,6) by (auto simp: list_ex_iff)
  moreover have "create_participation p db = Inr db1"
    using assms(9,10) p by (auto simp: create_participation_def db1_def find_participation_def find_None_all)
  ultimately have start: "startExam r t i s e db = Inr ((p, paper_of p x db1), db1)"
    using assms(3,4,7-9) by (simp add: startExam_def p_def [symmetric] Let_def)
  have wf: "exam_wf db1" by (rule start_exam_wf [OF start assms(1)])
  have same: "examStudents db1 = examStudents db" by (simp add: db1_def)
  then have st: "student_profile t s db1 = Some st" using assms(3) by (simp add: student_profile_def)
  have "(\<exists>reply. fst (submitExamAnswers t i s dto e' (fold exam_serve rs db1)) = Inr reply)
      \<and> (\<exists>q \<in> set (participations (snd (submitExamAnswers t i s dto e' (fold exam_serve rs db1)))).
           paper_key q = (i, xs_id st) \<and> pn_status q = PT_SUBMITTED \<and> pn_submittedAt q = Some (now e'))"
    if "\<forall>q \<in> set rs. \<not> hands_in i s q" and "now e' \<le> server_deadline x (now e)" for rs e' dto
  proof -
    have "stays_open db1 (fold exam_serve rs db1) p"
      by (rule run_stays_open [OF wf _ st p(7) p(1) that(1)]) (use assms(2) same in simp)
    then obtain q where w: "exam_wf (fold exam_serve rs db1)" "examStudents (fold exam_serve rs db1) = examStudents db1"
      and q: "q \<in> set (participations (fold exam_serve rs db1))" "open_view q = open_view p" by (auto simp: stays_open_def)
    have "student_profile t s (fold exam_serve rs db1) = Some st" using st w(2) by (simp add: student_profile_def)
    moreover have "paper_key q = (i, xs_id st)" "pn_status q \<noteq> PT_SUBMITTED" "now e' \<le> pn_serverDeadline q"
      using q(2) p(1-3) that(2) by (simp_all add: open_view_def)
    ultimately show ?thesis using open_paper_accepted [OF w(1) _ q(1)] by fastforce
  qed
  with start p(3) show ?thesis by blast
qed

theorem student_can_finish_witness:
  "\<exists>p qs db1. startExam half ''t'' ''x'' ''u1'' (exam_env ''a'' 1000) exam0 = Inr ((p, qs), db1)
     \<and> (\<exists>reply. fst (submitExamAnswers ''t'' ''x'' ''u1'' hand_in_dto (exam_env ''b'' 2000)
          (fold exam_serve [GradeAnswers ''t'' ''p2'' grades_dto] db1)) = Inr reply)"
proof -
  have h: "distinct (map xs_id (examStudents exam0))" "student_profile ''t'' ''u1'' exam0 = Some (exam_pupil ''u1'')"
    "find_exam ''t'' ''x'' exam0 = Some exam_x" "''k'' \<in> set (ex_classrooms exam_x)" "''k'' \<in> set (xs_classrooms (exam_pupil ''u1''))"
    "ex_startTime exam_x \<le> now (exam_env ''a'' 1000)" "now (exam_env ''a'' 1000) \<le> ex_endTime exam_x"
    "find_participation ''x'' (xs_id (exam_pupil ''u1'')) exam0 = None"
    "uuid (exam_env ''a'' 1000) 0 \<notin> set (map pn_id (participations exam0))"
    by (simp_all add: exam_world student_profile_def find_exam_def find_participation_def exam_env_def)
  have t: "now (exam_env ''b'' 2000) \<le> server_deadline exam_x (now (exam_env ''a'' 1000))"
    by (simp add: server_deadline_def exam_x_def exam_env_def)
  have "\<forall>q \<in> set [GradeAnswers ''t'' ''p2'' grades_dto]. \<not> hands_in ''x'' ''u1'' q" by simp
  with student_can_finish [OF exam0_wf h, of half] t show ?thesis by blast
qed

text \<open>The loop over the answers counts a repeated answer once for every time it is sent.\<close>

lemma repeated_answers_counted:
  "fst (grade_answers i x db (replicate n a)) = of_nat n * answer_points x db a"
  by (simp add: grade_points sum_list_replicate)

end
