(* ===== verification/Gradebook_Model.thy ===== *)
theory Gradebook_Model
  imports Rbac Calendar
begin

text \<open>
  The gradebook (\<open>modules/gradebook/gradebook.service.ts\<close>): the tables, and the recording of ordinary grades and of
  the grades of modular lessons, whose modules are called \<open>podman\<close>.

  Scores are columns of type \<open>Float\<close>; the model computes with the rationals they denote.  The local day of the server
  is given by the offset \<open>tz\<close> of its time zone, in milliseconds.
\<close>

section \<open>Tables\<close>

datatype GradeType = CLASS_ACTIVITY | QUIZ | HOMEWORK_GRADE | MIDTERM | FINAL_TERM_1 | FINAL_TERM_2 | CUSTOM

record Classroom =
  cl_id :: id
  cl_tenantId :: id
  cl_academicYearId :: id
  cl_name :: string

record ClassEnrollment_row =
  en_id :: id
  en_tenantId :: id
  en_classroomId :: id
  en_studentId :: id

record Lesson =
  le_id :: id
  le_tenantId :: id
  le_name :: string
  le_code :: string
  le_unitCount :: int
  le_isModular :: bool
  le_podmanCount :: int

record Podman =
  po_id :: id
  po_tenantId :: id
  po_lessonId :: id
  po_number :: int
  po_title :: string

record GradeEntry =
  ge_id :: id
  ge_tenantId :: id
  ge_academicYearId :: id
  ge_termId :: "id option"
  ge_classroomId :: id
  ge_lessonId :: id
  ge_studentId :: id
  ge_teacherId :: id
  ge_examId :: "id option"
  ge_gradeType :: GradeType
  ge_title :: string
  ge_score :: rat
  ge_maxScore :: rat
  ge_weight :: rat
  ge_date :: time
  ge_description :: "string option"
  ge_recordedById :: id

record PodmanGrade =
  pg_id :: id
  pg_tenantId :: id
  pg_academicYearId :: id
  pg_classroomId :: id
  pg_lessonId :: id
  pg_podmanId :: id
  pg_studentId :: id
  pg_teacherId :: id
  pg_continuousScore :: rat
  pg_competencyScore :: int
  pg_finalScore :: rat
  pg_isPassed :: bool
  pg_attemptType :: string
  pg_date :: time
  pg_notes :: "string option"
  pg_recordedById :: id

record StudentProfile_row =
  sd_id :: id
  sd_userId :: id
  sd_tenantId :: id
  sd_studentCode :: string
  sd_name :: string

text \<open>Of the other tables: teachers with account and tenant, timetables with tenant, class, lesson and teacher, the lessons of
  teachers with tenant, lesson and teacher, and parents with account, tenant and their children in order.\<close>

record grade_db =
  classrooms :: "Classroom list"
  classEnrollments :: "ClassEnrollment_row list"
  lessons :: "Lesson list"
  podmans :: "Podman list"
  gradeEntries :: "GradeEntry list"
  podmanGrades :: "PodmanGrade list"
  studentProfiles :: "StudentProfile_row list"
  gradeTeachers :: "(id \<times> id \<times> id) list"
  gradeSchedules :: "(id \<times> id \<times> id \<times> id) list"
  lessonTeachers :: "(id \<times> id \<times> id) list"
  parentChildren :: "(id \<times> id \<times> id list) list"

definition find_classroom :: "id \<Rightarrow> id \<Rightarrow> grade_db \<Rightarrow> Classroom option" where
  "find_classroom tenantId i db = find (\<lambda>c. cl_id c = i \<and> cl_tenantId c = tenantId) (classrooms db)"

definition find_lesson :: "id \<Rightarrow> id \<Rightarrow> grade_db \<Rightarrow> Lesson option" where
  "find_lesson tenantId i db = find (\<lambda>l. le_id l = i \<and> le_tenantId l = tenantId) (lessons db)"

definition student_by_user :: "id \<Rightarrow> id \<Rightarrow> grade_db \<Rightarrow> StudentProfile_row option" where
  "student_by_user tenantId userId db = find (\<lambda>s. sd_userId s = userId \<and> sd_tenantId s = tenantId) (studentProfiles db)"

text \<open>A student may be named by profile, by enrollment or by account.\<close>

definition resolve_student :: "id \<Rightarrow> grade_db \<Rightarrow> id \<Rightarrow> id" where
  "resolve_student tenantId db i =
     (if i \<in> set (map sd_id (studentProfiles db)) then i
      else (case find (\<lambda>x. en_id x = i) (classEnrollments db) of
          Some x \<Rightarrow> en_studentId x
        | None \<Rightarrow> (case student_by_user tenantId i db of Some s \<Rightarrow> sd_id s | None \<Rightarrow> i)))"

text \<open>The teacher of a grade: the one of the request, the caller, the one of the timetable, of the lesson, or any.\<close>

definition grade_teacher :: "id \<Rightarrow> id option \<Rightarrow> id \<Rightarrow> id \<Rightarrow> id \<Rightarrow> grade_db \<Rightarrow> id" where
  "grade_teacher tenantId requested recordedById classroomId lessonId db =
     (if truthy requested then str_or requested ''''
      else (case find (\<lambda>(i, u, t). u = recordedById \<and> t = tenantId) (gradeTeachers db) of
          Some (i, _) \<Rightarrow> i
        | None \<Rightarrow> (case find (\<lambda>(t, c, l, i). t = tenantId \<and> c = classroomId \<and> l = lessonId) (gradeSchedules db) of
            Some (_, _, _, i) \<Rightarrow> i
          | None \<Rightarrow> (case find (\<lambda>(t, l, i). t = tenantId \<and> l = lessonId) (lessonTeachers db) of
              Some (_, _, i) \<Rightarrow> i
            | None \<Rightarrow> (case find (\<lambda>(i, u, t). t = tenantId) (gradeTeachers db) of Some (i, _) \<Rightarrow> i | None \<Rightarrow> '''')))))"

definition day_start :: "int \<Rightarrow> time \<Rightarrow> time" where
  "day_start tz t = (t + tz) div ms_per_day * ms_per_day - tz"

definition day_end :: "int \<Rightarrow> time \<Rightarrow> time" where
  "day_end tz t = day_start tz t + ms_per_day - 1"

section \<open>Recording grades\<close>

record BulkRecordGradeItemDto =
  bi_studentId :: id
  bi_score :: rat
  bi_description :: "string option"

record BulkRecordGradeDto =
  bg_academicYearId :: "id option"
  bg_termId :: "id option"
  bg_classroomId :: id
  bg_lessonId :: id
  bg_teacherId :: "id option"
  bg_examId :: "id option"
  bg_gradeType :: GradeType
  bg_title :: string
  bg_maxScore :: "rat option"
  bg_weight :: "rat option"
  bg_date :: "time option"
  bg_grades :: "BulkRecordGradeItemDto list"

definition grade_max :: "BulkRecordGradeDto \<Rightarrow> rat" where
  "grade_max dto = falsy_or (bg_maxScore dto) 20"

definition grade_date :: "BulkRecordGradeDto \<Rightarrow> env \<Rightarrow> time" where
  "grade_date dto e = (case bg_date dto of Some t \<Rightarrow> t | None \<Rightarrow> now e)"

definition grade_of_day :: "int \<Rightarrow> id \<Rightarrow> BulkRecordGradeDto \<Rightarrow> time \<Rightarrow> id \<Rightarrow> GradeEntry \<Rightarrow> bool" where
  "grade_of_day tz tenantId dto t studentId g \<longleftrightarrow> ge_tenantId g = tenantId \<and> ge_classroomId g = bg_classroomId dto
     \<and> ge_lessonId g = bg_lessonId dto \<and> ge_studentId g = studentId \<and> ge_gradeType g = bg_gradeType dto
     \<and> day_start tz t \<le> ge_date g \<and> ge_date g \<le> day_end tz t"

definition regraded :: "BulkRecordGradeDto \<Rightarrow> BulkRecordGradeItemDto \<Rightarrow> id \<Rightarrow> GradeEntry \<Rightarrow> GradeEntry" where
  "regraded dto item recordedById g = g\<lparr>ge_score := bi_score item, ge_maxScore := grade_max dto, ge_title := bg_title dto,
     ge_description := keep_undefined (bi_description item) (ge_description g),
     ge_weight := falsy_or (bg_weight dto) (falsy_or (Some (ge_weight g)) 1), ge_recordedById := recordedById\<rparr>"

definition new_grade :: "id \<Rightarrow> id \<Rightarrow> BulkRecordGradeDto \<Rightarrow> BulkRecordGradeItemDto \<Rightarrow> id \<Rightarrow> id \<Rightarrow> id \<Rightarrow> id \<Rightarrow> time \<Rightarrow> GradeEntry" where
  "new_grade i tenantId dto item yearId studentId teacherId recordedById t = \<lparr>ge_id = i, ge_tenantId = tenantId, ge_academicYearId = yearId,
     ge_termId = bg_termId dto, ge_classroomId = bg_classroomId dto, ge_lessonId = bg_lessonId dto, ge_studentId = studentId,
     ge_teacherId = teacherId, ge_examId = bg_examId dto, ge_gradeType = bg_gradeType dto, ge_title = bg_title dto, ge_score = bi_score item,
     ge_maxScore = grade_max dto, ge_weight = falsy_or (bg_weight dto) 1, ge_date = t, ge_description = bi_description item,
     ge_recordedById = recordedById\<rparr>"

definition create_grade :: "GradeEntry \<Rightarrow> grade_db \<Rightarrow> http_error + grade_db" where
  "create_grade g db =
     (if ge_id g \<in> set (map ge_id (gradeEntries db)) then Inl (UniqueViolation ''GradeEntry.id'')
      else if ge_studentId g \<notin> set (map sd_id (studentProfiles db)) then Inl (ForeignKeyViolation ''GradeEntry.studentId'')
      else if ge_teacherId g \<notin> set (map fst (gradeTeachers db)) then Inl (ForeignKeyViolation ''GradeEntry.teacherId'')
      else Inr (db\<lparr>gradeEntries := gradeEntries db @ [g]\<rparr>))"

definition record_grade :: "int \<Rightarrow> id \<Rightarrow> id \<Rightarrow> BulkRecordGradeDto \<Rightarrow> id \<Rightarrow> id \<Rightarrow> env
    \<Rightarrow> nat \<times> BulkRecordGradeItemDto \<Rightarrow> grade_db \<Rightarrow> http_error + grade_db" where
  "record_grade tz tenantId recordedById dto yearId teacherId e row db =
     (let (k, item) = row; studentId = resolve_student tenantId db (bi_studentId item); t = grade_date dto e
      in case find (grade_of_day tz tenantId dto t studentId) (gradeEntries db) of
           Some g \<Rightarrow> Inr (db\<lparr>gradeEntries := update_row ge_id (ge_id g) (regraded dto item recordedById) (gradeEntries db)\<rparr>)
         | None \<Rightarrow> create_grade (new_grade (uuid e k) tenantId dto item yearId studentId teacherId recordedById t) db)"

definition score_in_range :: "rat \<Rightarrow> BulkRecordGradeItemDto \<Rightarrow> bool" where
  "score_in_range m item \<longleftrightarrow> \<not> (bi_score item < 0 \<or> bi_score item > m)"

definition recordBulkGrades :: "int \<Rightarrow> id \<Rightarrow> id \<Rightarrow> BulkRecordGradeDto \<Rightarrow> env \<Rightarrow> grade_db \<Rightarrow> http_error + nat \<times> grade_db" where
  "recordBulkGrades tz tenantId recordedById dto e db =
     (case find_classroom tenantId (bg_classroomId dto) db of
        None \<Rightarrow> Inl (NotFound ''classroom'')
      | Some c \<Rightarrow> (case find_lesson tenantId (bg_lessonId dto) db of
          None \<Rightarrow> Inl (NotFound ''lesson'')
        | Some _ \<Rightarrow>
            if \<not> list_all (score_in_range (grade_max dto)) (bg_grades dto) then Inl (BadRequest ''score'')
            else (let yearId = str_or (bg_academicYearId dto) (cl_academicYearId c);
                      teacherId = grade_teacher tenantId (bg_teacherId dto) recordedById (bg_classroomId dto) (bg_lessonId dto) db
              in bindE (foldE (record_grade tz tenantId recordedById dto yearId teacherId e) (zip [0..<length (bg_grades dto)] (bg_grades dto)) db)
                   (\<lambda>db'. Inr (length (bg_grades dto), db')))))"

section \<open>Recording the grades of a module\<close>

record BulkRecordPodmanGradeItemDto =
  pi2_studentId :: id
  pi2_continuousScore :: rat
  pi2_competencyScore :: int
  pi2_notes :: "string option"

record BulkRecordPodmanGradeDto =
  bp_academicYearId :: "id option"
  bp_classroomId :: id
  bp_lessonId :: id
  bp_podmanNumber :: int
  bp_teacherId :: "id option"
  bp_attemptType :: "string option"
  bp_date :: "time option"
  bp_grades :: "BulkRecordPodmanGradeItemDto list"

definition podmans_of :: "id \<Rightarrow> grade_db \<Rightarrow> Podman list" where
  "podmans_of lessonId db = filter (\<lambda>p. po_lessonId p = lessonId) (podmans db)"

definition new_podman :: "id \<Rightarrow> id \<Rightarrow> id \<Rightarrow> int \<Rightarrow> Podman" where
  "new_podman i tenantId lessonId n = \<lparr>po_id = i, po_tenantId = tenantId, po_lessonId = lessonId, po_number = n,
     po_title = ''podman '' @ string_of_int n\<rparr>"

definition create_podman :: "Podman \<Rightarrow> grade_db \<Rightarrow> http_error + grade_db" where
  "create_podman p db =
     (if po_id p \<in> set (map po_id (podmans db)) then Inl (UniqueViolation ''Podman.id'')
      else if (po_lessonId p, po_number p) \<in> set (map (\<lambda>q. (po_lessonId q, po_number q)) (podmans db)) then Inl (UniqueViolation ''Podman'')
      else Inr (db\<lparr>podmans := podmans db @ [p]\<rparr>))"

definition item_ok :: "BulkRecordPodmanGradeItemDto \<Rightarrow> bool" where
  "item_ok x \<longleftrightarrow> \<not> (pi2_continuousScore x < 0 \<or> pi2_continuousScore x > 5) \<and> pi2_competencyScore x \<in> {1, 2, 3}"

definition final_score :: "BulkRecordPodmanGradeItemDto \<Rightarrow> rat" where
  "final_score x = round2 (pi2_continuousScore x + of_int (pi2_competencyScore x) * 5)"

definition podman_regraded :: "BulkRecordPodmanGradeItemDto \<Rightarrow> time \<Rightarrow> id \<Rightarrow> PodmanGrade \<Rightarrow> PodmanGrade" where
  "podman_regraded x t recordedById g = g\<lparr>pg_continuousScore := pi2_continuousScore x, pg_competencyScore := pi2_competencyScore x,
     pg_finalScore := final_score x, pg_isPassed := (final_score x \<ge> 12), pg_date := t,
     pg_notes := keep_undefined (pi2_notes x) (pg_notes g), pg_recordedById := recordedById\<rparr>"

definition new_podman_grade :: "id \<Rightarrow> id \<Rightarrow> BulkRecordPodmanGradeDto \<Rightarrow> BulkRecordPodmanGradeItemDto \<Rightarrow> id \<Rightarrow> id \<Rightarrow> id \<Rightarrow> id \<Rightarrow> string \<Rightarrow> id \<Rightarrow> time
    \<Rightarrow> PodmanGrade" where
  "new_podman_grade i tenantId dto x yearId podmanId studentId teacherId attempt recordedById t = \<lparr>pg_id = i, pg_tenantId = tenantId,
     pg_academicYearId = yearId, pg_classroomId = bp_classroomId dto, pg_lessonId = bp_lessonId dto, pg_podmanId = podmanId,
     pg_studentId = studentId, pg_teacherId = teacherId, pg_continuousScore = pi2_continuousScore x,
     pg_competencyScore = pi2_competencyScore x, pg_finalScore = final_score x, pg_isPassed = (final_score x \<ge> 12), pg_attemptType = attempt,
     pg_date = t, pg_notes = pi2_notes x, pg_recordedById = recordedById\<rparr>"

definition podman_grade_key :: "PodmanGrade \<Rightarrow> id \<times> id \<times> string" where
  "podman_grade_key g = (pg_podmanId g, pg_studentId g, pg_attemptType g)"

definition create_podman_grade :: "PodmanGrade \<Rightarrow> grade_db \<Rightarrow> http_error + grade_db" where
  "create_podman_grade g db =
     (if pg_id g \<in> set (map pg_id (podmanGrades db)) then Inl (UniqueViolation ''PodmanGrade.id'')
      else if podman_grade_key g \<in> set (map podman_grade_key (podmanGrades db)) then Inl (UniqueViolation ''PodmanGrade'')
      else if pg_studentId g \<notin> set (map sd_id (studentProfiles db)) then Inl (ForeignKeyViolation ''PodmanGrade.studentId'')
      else if pg_teacherId g \<notin> set (map fst (gradeTeachers db)) then Inl (ForeignKeyViolation ''PodmanGrade.teacherId'')
      else Inr (db\<lparr>podmanGrades := podmanGrades db @ [g]\<rparr>))"

definition record_podman_grade :: "id \<Rightarrow> id \<Rightarrow> BulkRecordPodmanGradeDto \<Rightarrow> id \<Rightarrow> id \<Rightarrow> id \<Rightarrow> env
    \<Rightarrow> nat \<times> BulkRecordPodmanGradeItemDto \<Rightarrow> grade_db \<Rightarrow> http_error + grade_db" where
  "record_podman_grade tenantId recordedById dto yearId podmanId teacherId e row db =
     (let (k, x) = row; studentId = resolve_student tenantId db (pi2_studentId x); attempt = str_or (bp_attemptType dto) ''REGULAR'';
          t = (case bp_date dto of Some t \<Rightarrow> t | None \<Rightarrow> now e)
      in case find (\<lambda>g. pg_tenantId g = tenantId \<and> podman_grade_key g = (podmanId, studentId, attempt)) (podmanGrades db) of
           Some g \<Rightarrow> Inr (db\<lparr>podmanGrades := update_row pg_id (pg_id g) (podman_regraded x t recordedById) (podmanGrades db)\<rparr>)
         | None \<Rightarrow> create_podman_grade (new_podman_grade (uuid e (Suc k)) tenantId dto x yearId podmanId studentId teacherId attempt recordedById t) db)"

text \<open>A missing module is created before the scores are checked, outside the transaction, and stays when the
  request fails.\<close>

definition recordBulkPodmanGrades :: "id \<Rightarrow> id \<Rightarrow> BulkRecordPodmanGradeDto \<Rightarrow> env \<Rightarrow> grade_db \<Rightarrow> (http_error + nat) \<times> grade_db" where
  "recordBulkPodmanGrades tenantId recordedById dto e db =
     (case find_classroom tenantId (bp_classroomId dto) db of
        None \<Rightarrow> (Inl (NotFound ''classroom''), db)
      | Some c \<Rightarrow> (case find_lesson tenantId (bp_lessonId dto) db of
          None \<Rightarrow> (Inl (NotFound ''lesson''), db)
        | Some _ \<Rightarrow> (case (case find (\<lambda>p. po_number p = bp_podmanNumber dto) (podmans_of (bp_lessonId dto) db) of
              Some p \<Rightarrow> Inr (po_id p, db)
            | None \<Rightarrow> bindE (create_podman (new_podman (uuid e 0) tenantId (bp_lessonId dto) (bp_podmanNumber dto)) db) (\<lambda>d. Inr (uuid e 0, d))) of
              Inl err \<Rightarrow> (Inl err, db)
            | Inr (podmanId, db1) \<Rightarrow>
                if \<not> list_all item_ok (bp_grades dto) then (Inl (BadRequest ''score''), db1)
                else (let yearId = str_or (bp_academicYearId dto) (cl_academicYearId c);
                          teacherId = grade_teacher tenantId (bp_teacherId dto) recordedById (bp_classroomId dto) (bp_lessonId dto) db1
                  in case foldE (record_podman_grade tenantId recordedById dto yearId podmanId teacherId e)
                         (zip [0..<length (bp_grades dto)] (bp_grades dto)) db1 of
                       Inl err \<Rightarrow> (Inl err, db1)
                     | Inr db2 \<Rightarrow> (Inr (length (bp_grades dto)), db2)))))"

end
