(* ===== verification/Gradebook.thy ===== *)
theory Gradebook
  imports Gradebook_Model
begin

text \<open>
  The reports of the gradebook: the grades of a class, the report card of a student with the weighted average
  and the rule for modular lessons, and the matrix of a class in a modular lesson.
\<close>

section \<open>The grades of a class\<close>

definition by_date :: "GradeEntry list \<Rightarrow> GradeEntry list" where
  "by_date = sort_by (\<lambda>a b. ge_date a \<le> ge_date b)"

definition out_of_20 :: "GradeEntry \<Rightarrow> rat" where
  "out_of_20 g = ge_score g / ge_maxScore g * 20"

definition average2 :: "rat list \<Rightarrow> rat" where
  "average2 xs = (if xs = [] then 0 else round2 (foldl (+) 0 xs / of_nat (length xs)))"

record class_gradebook =
  cb_totalStudents :: nat
  cb_totalGradesRecorded :: nat
  cb_average :: rat
  cb_grades :: "GradeEntry list"

definition enrollments_of :: "id \<Rightarrow> grade_db \<Rightarrow> ClassEnrollment_row list" where
  "enrollments_of classroomId db = filter (\<lambda>x. en_classroomId x = classroomId) (classEnrollments db)"

definition getClassGradebook :: "id \<Rightarrow> id \<Rightarrow> id option \<Rightarrow> grade_db \<Rightarrow> http_error + class_gradebook" where
  "getClassGradebook tenantId classroomId lessonId db =
     (case find_classroom tenantId classroomId db of
        None \<Rightarrow> Inl (NotFound ''classroom'')
      | Some c \<Rightarrow> (let grades = by_date (filter (\<lambda>g. ge_tenantId g = tenantId \<and> ge_classroomId g = classroomId
              \<and> (truthy lessonId \<longrightarrow> Some (ge_lessonId g) = lessonId)) (gradeEntries db))
          in Inr \<lparr>cb_totalStudents = length (enrollments_of classroomId db), cb_totalGradesRecorded = length grades,
                cb_average = average2 (map out_of_20 grades), cb_grades = grades\<rparr>))"

section \<open>Grades grouped by lesson\<close>

text \<open>The two objects of the report card, keyed by lesson in the order of their first grade.\<close>

fun alter :: "'k \<Rightarrow> ('v option \<Rightarrow> 'v) \<Rightarrow> ('k \<times> 'v) list \<Rightarrow> ('k \<times> 'v) list" where
  "alter k f [] = [(k, f None)]"
| "alter k f ((j, v) # m) = (if j = k then (j, f (Some v)) # m else (j, v) # alter k f m)"

record lesson_entry =
  ln_grades :: "GradeEntry list"
  ln_totalWeightedScore :: rat
  ln_totalWeight :: rat

definition add_to_entry :: "GradeEntry \<Rightarrow> lesson_entry option \<Rightarrow> lesson_entry" where
  "add_to_entry g x = (let y = (case x of None \<Rightarrow> \<lparr>ln_grades = [], ln_totalWeightedScore = 0, ln_totalWeight = 0\<rparr> | Some y \<Rightarrow> y)
     in \<lparr>ln_grades = ln_grades y @ [g], ln_totalWeightedScore = ln_totalWeightedScore y + out_of_20 g * ge_weight g,
         ln_totalWeight = ln_totalWeight y + ge_weight g\<rparr>)"

definition lesson_grades_map :: "GradeEntry list \<Rightarrow> (id \<times> lesson_entry) list" where
  "lesson_grades_map gs = fold (\<lambda>g. alter (ge_lessonId g) (add_to_entry g)) gs []"

definition podman_number :: "grade_db \<Rightarrow> PodmanGrade \<Rightarrow> int" where
  "podman_number db g = (case find (\<lambda>p. po_id p = pg_podmanId g) (podmans db) of None \<Rightarrow> 0 | Some p \<Rightarrow> po_number p)"

text \<open>Which of two grades of a module counts: a passed one, the later if both are, else the higher.\<close>

definition better_grade :: "PodmanGrade \<Rightarrow> PodmanGrade option \<Rightarrow> PodmanGrade" where
  "better_grade g x = (case x of
       None \<Rightarrow> g
     | Some old \<Rightarrow> if pg_isPassed g \<or> \<not> pg_isPassed old \<and> pg_finalScore g > pg_finalScore old then g else old)"

definition podman_lessons_map :: "grade_db \<Rightarrow> PodmanGrade list \<Rightarrow> (id \<times> (int \<times> PodmanGrade) list) list" where
  "podman_lessons_map db gs =
     fold (\<lambda>g. alter (pg_lessonId g) (\<lambda>x. alter (podman_number db g) (better_grade g) (case x of None \<Rightarrow> [] | Some m \<Rightarrow> m))) gs []"

section \<open>The report card\<close>

record lesson_report =
  lr_lessonId :: id
  lr_isModular :: bool
  lr_unitCount :: int
  lr_average :: rat
  lr_isPassed :: bool
  lr_assessments :: nat
  lr_podmanCount :: int
  lr_passedPodmanCount :: nat
  lr_unpassedPodmanNumbers :: "int list"
  lr_podmans :: "(int \<times> PodmanGrade option) list"

definition unit_count :: "Lesson \<Rightarrow> int" where
  "unit_count l = int_or (Some (le_unitCount l)) 1"

definition podman_count :: "Lesson \<Rightarrow> int" where
  "podman_count l = int_or (Some (le_podmanCount l)) 5"

definition lesson_row :: "grade_db \<Rightarrow> id \<Rightarrow> Lesson option" where
  "lesson_row db i = find (\<lambda>l. le_id l = i) (lessons db)"

text \<open>Lessons with modules are left to the second loop.\<close>

definition regular_report :: "grade_db \<Rightarrow> (id \<times> (int \<times> PodmanGrade) list) list \<Rightarrow> id \<times> lesson_entry \<Rightarrow> lesson_report list" where
  "regular_report db pm kv =
     (case lesson_row db (fst kv) of
        None \<Rightarrow> []
      | Some l \<Rightarrow>
          if map_of pm (fst kv) \<noteq> None \<or> le_isModular l then []
          else (let average = (if ln_totalWeight (snd kv) > 0 then round2 (ln_totalWeightedScore (snd kv) / ln_totalWeight (snd kv)) else 0)
            in [\<lparr>lr_lessonId = fst kv, lr_isModular = False, lr_unitCount = unit_count l, lr_average = average, lr_isPassed = (average \<ge> 10),
                 lr_assessments = length (ln_grades (snd kv)), lr_podmanCount = 0, lr_passedPodmanCount = 0, lr_unpassedPodmanNumbers = [],
                 lr_podmans = []\<rparr>]))"

record podman_loop =
  pl_totalPodmanScore :: rat
  pl_passedCount :: nat
  pl_unpassed :: "int list"
  pl_details :: "(int \<times> PodmanGrade option) list"

definition podman_step :: "(int \<times> PodmanGrade) list \<Rightarrow> int \<Rightarrow> podman_loop \<Rightarrow> podman_loop" where
  "podman_step m num s = (case map_of m num of
       Some g \<Rightarrow> s\<lparr>pl_totalPodmanScore := pl_totalPodmanScore s + pg_finalScore g,
           pl_passedCount := (if pg_isPassed g then pl_passedCount s + 1 else pl_passedCount s),
           pl_unpassed := (if pg_isPassed g then pl_unpassed s else pl_unpassed s @ [num]),
           pl_details := pl_details s @ [(num, Some g)]\<rparr>
     | None \<Rightarrow> s\<lparr>pl_unpassed := pl_unpassed s @ [num], pl_details := pl_details s @ [(num, None)]\<rparr>)"

definition podman_scan :: "(int \<times> PodmanGrade) list \<Rightarrow> int \<Rightarrow> podman_loop" where
  "podman_scan m n = fold (podman_step m) [1..n] \<lparr>pl_totalPodmanScore = 0, pl_passedCount = 0, pl_unpassed = [], pl_details = []\<rparr>"

definition modular_report :: "grade_db \<Rightarrow> id \<times> (int \<times> PodmanGrade) list \<Rightarrow> lesson_report list" where
  "modular_report db kv =
     (case lesson_row db (fst kv) of
        None \<Rightarrow> []
      | Some l \<Rightarrow> (let n = podman_count l; s = podman_scan (snd kv) n
          in [\<lparr>lr_lessonId = fst kv, lr_isModular = True, lr_unitCount = unit_count l, lr_average = round2 (pl_totalPodmanScore s / of_int n),
               lr_isPassed = (int (pl_passedCount s) = n), lr_assessments = 0, lr_podmanCount = n, lr_passedPodmanCount = pl_passedCount s,
               lr_unpassedPodmanNumbers = pl_unpassed s, lr_podmans = pl_details s\<rparr>]))"

text \<open>A lesson without modules always adds to the average, a modular one only when it is passed.\<close>

definition lesson_points :: "lesson_report \<Rightarrow> rat" where
  "lesson_points r = (if lr_isModular r \<and> \<not> lr_isPassed r then 0 else lr_average r * of_int (lr_unitCount r))"

record transcript =
  tr_totalUnits :: int
  tr_passedUnits :: int
  tr_weightedGpa :: rat
  tr_pass :: bool

definition transcript_of :: "lesson_report list \<Rightarrow> transcript" where
  "transcript_of rs =
     (let totalUnits = sum_list (map lr_unitCount rs); points = sum_list (map lesson_points rs);
          gpa = (if totalUnits > 0 then round2 (points / of_int totalUnits) else 0)
      in \<lparr>tr_totalUnits = totalUnits, tr_passedUnits = sum_list (map lr_unitCount (filter lr_isPassed rs)), tr_weightedGpa = gpa,
          tr_pass = (gpa \<ge> 12)\<rparr>)"

record grade_user =
  gu_id :: id
  gu_role :: UserRole

text \<open>Whose report card it is: students see their own, parents that of their first child, others the one asked for.\<close>

definition report_student :: "id \<Rightarrow> id \<Rightarrow> grade_user option \<Rightarrow> grade_db \<Rightarrow> http_error + id" where
  "report_student tenantId studentId user db =
     (let role = map_option gu_role user;
          own = (if studentId = ''me'' \<or> role = Some STUDENT
            then student_by_user tenantId (case user of Some u \<Rightarrow> str_or (Some (gu_id u)) studentId | None \<Rightarrow> studentId) db
            else if role = Some PARENT
            then (case find (\<lambda>(u, t, _). Some u = map_option gu_id user \<and> t = tenantId) (parentChildren db) of
                Some (_, _, child # _) \<Rightarrow> find (\<lambda>s. sd_id s = child) (studentProfiles db)
              | _ \<Rightarrow> None)
            else None)
      in case own of
           Some s \<Rightarrow> Inr (sd_id s)
         | None \<Rightarrow> (case find (\<lambda>s. sd_id s = studentId \<and> sd_tenantId s = tenantId) (studentProfiles db) of
             Some s \<Rightarrow> Inr (sd_id s)
           | None \<Rightarrow> (case student_by_user tenantId studentId db of
               Some s \<Rightarrow> Inr (sd_id s) | None \<Rightarrow> Inl (NotFound ''student''))))"

definition lesson_reports :: "grade_db \<Rightarrow> GradeEntry list \<Rightarrow> PodmanGrade list \<Rightarrow> lesson_report list" where
  "lesson_reports db gs pgs = (let pm = podman_lessons_map db pgs
     in concat (map (regular_report db pm) (lesson_grades_map gs)) @ concat (map (modular_report db) pm))"

definition podman_by_date :: "PodmanGrade list \<Rightarrow> PodmanGrade list" where
  "podman_by_date = sort_by (\<lambda>a b. pg_date a \<le> pg_date b)"

definition getStudentReportCard :: "id \<Rightarrow> id \<Rightarrow> id option \<Rightarrow> grade_user option \<Rightarrow> grade_db
    \<Rightarrow> http_error + id \<times> transcript \<times> lesson_report list" where
  "getStudentReportCard tenantId studentId yearId user db =
     bindE (report_student tenantId studentId user db) (\<lambda>i.
       let gs = by_date (filter (\<lambda>g. ge_tenantId g = tenantId \<and> ge_studentId g = i
              \<and> (truthy yearId \<longrightarrow> Some (ge_academicYearId g) = yearId)) (gradeEntries db));
           pgs = podman_by_date (filter (\<lambda>g. pg_tenantId g = tenantId \<and> pg_studentId g = i
              \<and> (truthy yearId \<longrightarrow> Some (pg_academicYearId g) = yearId)) (podmanGrades db));
           rs = lesson_reports db gs pgs
       in Inr (i, transcript_of rs, rs))"

section \<open>The matrix of a class\<close>

definition student_grades_map :: "grade_db \<Rightarrow> PodmanGrade list \<Rightarrow> (id \<times> (int \<times> PodmanGrade) list) list" where
  "student_grades_map db gs =
     fold (\<lambda>g. alter (pg_studentId g) (\<lambda>x. alter (podman_number db g) (better_grade g) (case x of None \<Rightarrow> [] | Some m \<Rightarrow> m))) gs []"

record matrix_row =
  mx_studentId :: id
  mx_grades :: "(int \<times> PodmanGrade) list"
  mx_completed :: nat
  mx_allPassed :: bool
  mx_unpassed :: "int list"
  mx_average :: rat

record matrix_loop =
  mo_allPassed :: bool
  mo_completedCount :: nat
  mo_totalScore :: rat
  mo_unpassed :: "int list"

definition matrix_step :: "(int \<times> PodmanGrade) list \<Rightarrow> int \<Rightarrow> matrix_loop \<Rightarrow> matrix_loop" where
  "matrix_step m num s = (case map_of m num of
       Some g \<Rightarrow> \<lparr>mo_allPassed = (if pg_isPassed g then mo_allPassed s else False), mo_completedCount = mo_completedCount s + 1,
           mo_totalScore = mo_totalScore s + pg_finalScore g,
           mo_unpassed = (if pg_isPassed g then mo_unpassed s else mo_unpassed s @ [num])\<rparr>
     | None \<Rightarrow> s\<lparr>mo_allPassed := False, mo_unpassed := mo_unpassed s @ [num]\<rparr>)"

definition matrix_row_of :: "int \<Rightarrow> id \<Rightarrow> (int \<times> PodmanGrade) list \<Rightarrow> matrix_row" where
  "matrix_row_of n i m =
     (let s = fold (matrix_step m) [1..n] \<lparr>mo_allPassed = True, mo_completedCount = 0, mo_totalScore = 0, mo_unpassed = []\<rparr>
      in \<lparr>mx_studentId = i, mx_grades = m, mx_completed = mo_completedCount s,
          mx_allPassed = (mo_allPassed s \<and> int (mo_completedCount s) = n), mx_unpassed = mo_unpassed s,
          mx_average = (if int (mo_completedCount s) = n \<and> mo_allPassed s then round2 (mo_totalScore s / of_int n)
            else if mo_completedCount s > 0 then round2 (mo_totalScore s / of_nat (mo_completedCount s)) else 0)\<rparr>)"

text \<open>The first look at a modular lesson creates its modules.\<close>

definition missing_podmans :: "id \<Rightarrow> Lesson \<Rightarrow> env \<Rightarrow> Podman list" where
  "missing_podmans tenantId l e = map (\<lambda>n. new_podman (uuid e (nat n)) tenantId (le_id l) n) [1..podman_count l]"

definition getClassPodmanMatrix :: "id \<Rightarrow> id \<Rightarrow> id \<Rightarrow> env \<Rightarrow> grade_db \<Rightarrow> http_error + matrix_row list \<times> grade_db" where
  "getClassPodmanMatrix tenantId classroomId lessonId e db =
     (case find_classroom tenantId classroomId db of
        None \<Rightarrow> Inl (NotFound ''classroom'')
      | Some _ \<Rightarrow> (case find_lesson tenantId lessonId db of
          None \<Rightarrow> Inl (NotFound ''lesson'')
        | Some l \<Rightarrow>
            bindE (if le_isModular l \<and> podmans_of lessonId db = [] then foldE create_podman (missing_podmans tenantId l e) db else Inr db) (\<lambda>db1.
              let gs = podman_by_date (filter (\<lambda>g. pg_tenantId g = tenantId \<and> pg_classroomId g = classroomId \<and> pg_lessonId g = lessonId) (podmanGrades db1));
                  m = student_grades_map db1 gs
              in Inr (map (\<lambda>x. matrix_row_of (podman_count l) (en_studentId x)
                    (case map_of m (en_studentId x) of None \<Rightarrow> [] | Some r \<Rightarrow> r)) (enrollments_of classroomId db1), db1))))"

end
