(* ===== verification/Gradebook_Laws.thy ===== *)
theory Gradebook_Laws
  imports Gradebook
begin

text \<open>
  The laws of the gradebook: the grouping of grades by a key, the best grade of a module, the loops over the
  modules, and the shape of the recorded rows through every request.
\<close>

section \<open>Grouping\<close>

lemma map_of_alter: "map_of (alter k f m) j = (if j = k then Some (f (map_of m k)) else map_of m j)"
  by (induction k f m rule: alter.induct) auto

lemma keys_alter: "set (map fst (alter k f m)) = insert k (set (map fst m))"
  by (induction k f m rule: alter.induct) auto

lemma distinct_alter: "distinct (map fst m) \<Longrightarrow> distinct (map fst (alter k f m))"
proof (induction k f m rule: alter.induct)
  case (2 k f j v m)
  then show ?case using keys_alter [of k f m] by auto
qed simp

definition grouped :: "('g \<Rightarrow> 'k) \<Rightarrow> ('g \<Rightarrow> 'v option \<Rightarrow> 'v) \<Rightarrow> 'g list \<Rightarrow> ('k \<times> 'v) list" where
  "grouped key f gs = fold (\<lambda>g. alter (key g) (f g)) gs []"

lemma fold_group:
  "map_of (fold (\<lambda>g. alter (key g) (f g)) gs m) j = fold (\<lambda>g x. Some (f g x)) (filter (\<lambda>g. key g = j) gs) (map_of m j)"
  by (induction gs arbitrary: m) (auto simp: map_of_alter)

lemma map_of_grouped: "map_of (grouped key f gs) j = fold (\<lambda>g x. Some (f g x)) (filter (\<lambda>g. key g = j) gs) None"
  by (simp add: grouped_def fold_group)

lemma distinct_grouped: "distinct (map fst (grouped key f gs))"
proof -
  have "distinct (map fst m) \<Longrightarrow> distinct (map fst (fold (\<lambda>g. alter (key g) (f g)) gs m))" for m
    by (induction gs arbitrary: m) (auto simp: distinct_alter)
  then show ?thesis by (simp add: grouped_def)
qed

lemma grouped_entry: "(j, v) \<in> set (grouped key f gs) \<longleftrightarrow> map_of (grouped key f gs) j = Some v"
  by (simp add: distinct_grouped)

text \<open>A fold that only updates what is there once the first element has been seen.\<close>

lemma fold_Some: "fold (\<lambda>g x. Some (f g x)) gs (Some v) = Some (fold (\<lambda>g x. f g (Some x)) gs v)"
  by (induction gs arbitrary: v) auto

lemma fold_option_None: "fold (\<lambda>g x. Some (f g x)) gs None = None \<longleftrightarrow> gs = []"
  by (cases gs) (auto simp: fold_Some)

lemma nested_fold:
  assumes "gs \<noteq> []"
  shows "fold (\<lambda>g x. Some (alter (key g) (f g) (case x of None \<Rightarrow> [] | Some m \<Rightarrow> m))) gs None = Some (grouped key f gs)"
proof -
  have "fold (\<lambda>g x. Some (alter (key g) (f g) (case x of None \<Rightarrow> [] | Some m \<Rightarrow> m))) gs (Some m) = Some (fold (\<lambda>g. alter (key g) (f g)) gs m)" for m gs
    by (induction gs arbitrary: m) auto
  with assms show ?thesis by (cases gs) (simp_all add: grouped_def)
qed

lemma lesson_grades_map_grouped: "lesson_grades_map gs = grouped ge_lessonId add_to_entry gs"
  by (simp add: lesson_grades_map_def grouped_def)

lemma map_of_podman_lessons:
  "map_of (podman_lessons_map db gs) l = (let ls = filter (\<lambda>g. pg_lessonId g = l) gs
     in if ls = [] then None else Some (grouped (podman_number db) better_grade ls))"
  using nested_fold [of "filter (\<lambda>g. pg_lessonId g = l) gs" "podman_number db" better_grade]
  by (simp add: podman_lessons_map_def grouped_def [symmetric] map_of_grouped Let_def)

lemma map_of_student_grades:
  "map_of (student_grades_map db gs) s = (let ss = filter (\<lambda>g. pg_studentId g = s) gs
     in if ss = [] then None else Some (grouped (podman_number db) better_grade ss))"
  using nested_fold [of "filter (\<lambda>g. pg_studentId g = s) gs" "podman_number db" better_grade]
  by (simp add: student_grades_map_def grouped_def [symmetric] map_of_grouped Let_def)

section \<open>The best grade of a module\<close>

definition best_grade :: "PodmanGrade list \<Rightarrow> PodmanGrade option" where
  "best_grade gs = fold (\<lambda>g x. Some (better_grade g x)) gs None"

lemma best_module: "map_of (grouped (podman_number db) better_grade gs) n = best_grade (filter (\<lambda>g. podman_number db g = n) gs)"
  by (simp add: map_of_grouped best_grade_def)

lemma best_fold:
  assumes "fold (\<lambda>g x. Some (better_grade g x)) gs (Some a) = Some b"
  shows "b \<in> insert a (set gs) \<and> (pg_isPassed b \<longleftrightarrow> (\<exists>g \<in> insert a (set gs). pg_isPassed g))"
  using assms
proof (induction gs arbitrary: a)
  case (Cons g gs)
  have "fold (\<lambda>g x. Some (better_grade g x)) gs (Some (better_grade g (Some a))) = Some b" using Cons.prems by simp
  from Cons.IH [OF this] show ?case by (auto simp: better_grade_def split: if_splits)
qed simp

lemma best_grade_Some:
  assumes "best_grade gs = Some b"
  shows "b \<in> set gs \<and> (pg_isPassed b \<longleftrightarrow> (\<exists>g \<in> set gs. pg_isPassed g))"
proof (cases gs)
  case Nil
  with assms show ?thesis by (simp add: best_grade_def)
next
  case (Cons g gs')
  with assms have "fold (\<lambda>g x. Some (better_grade g x)) gs' (Some g) = Some b" by (simp add: best_grade_def better_grade_def)
  from best_fold [OF this] Cons show ?thesis by simp
qed

lemma best_grade_None: "best_grade gs = None \<longleftrightarrow> gs = []"
  by (simp add: best_grade_def fold_option_None)

lemma best_passed: "(\<exists>b. best_grade gs = Some b \<and> pg_isPassed b) \<longleftrightarrow> (\<exists>g \<in> set gs. pg_isPassed g)"
  using best_grade_Some [of gs] best_grade_None [of gs] by (cases "best_grade gs") auto

section \<open>The loops over the modules\<close>

definition module_passed :: "(int \<times> PodmanGrade) list \<Rightarrow> int \<Rightarrow> bool" where
  "module_passed m num \<longleftrightarrow> (case map_of m num of Some g \<Rightarrow> pg_isPassed g | None \<Rightarrow> False)"

lemma podman_scan_fold:
  "pl_passedCount (fold (podman_step m) ns s) = pl_passedCount s + length (filter (module_passed m) ns)
    \<and> pl_unpassed (fold (podman_step m) ns s) = pl_unpassed s @ filter (\<lambda>n. \<not> module_passed m n) ns
    \<and> pl_totalPodmanScore (fold (podman_step m) ns s)
        = pl_totalPodmanScore s + sum_list (map (\<lambda>n. case map_of m n of Some g \<Rightarrow> pg_finalScore g | None \<Rightarrow> 0) ns)"
proof (induction ns arbitrary: s)
  case (Cons n ns)
  from Cons.IH [of "podman_step m n s"] show ?case
    by (auto simp: podman_step_def module_passed_def split: option.split)
qed simp

lemma podman_scan:
  "pl_passedCount (podman_scan m n) = length (filter (module_passed m) [1..n])"
  "pl_unpassed (podman_scan m n) = filter (\<lambda>k. \<not> module_passed m k) [1..n]"
  "pl_totalPodmanScore (podman_scan m n) = sum_list (map (\<lambda>n. case map_of m n of Some g \<Rightarrow> pg_finalScore g | None \<Rightarrow> 0) [1..n])"
  by (simp_all add: podman_scan_def podman_scan_fold)

lemma count_all: "0 < n \<Longrightarrow> int (length (filter P [1..n])) = n \<longleftrightarrow> (\<forall>k \<in> {1..n}. P k)"
proof -
  assume n: "0 < n"
  have len: "length [1..n] = nat n" by simp
  have "length (filter P [1..n]) = length [1..n] \<longleftrightarrow> (\<forall>k \<in> set [1..n]. P k)"
    by (metis filter_True length_filter_less less_irrefl)
  with n len show ?thesis by (auto simp: nat_eq_iff)
qed

lemma matrix_fold:
  "mo_allPassed (fold (matrix_step m) ns s) = (mo_allPassed s \<and> (\<forall>n \<in> set ns. module_passed m n))
    \<and> mo_unpassed (fold (matrix_step m) ns s) = mo_unpassed s @ filter (\<lambda>n. \<not> module_passed m n) ns
    \<and> mo_completedCount (fold (matrix_step m) ns s) = mo_completedCount s + length (filter (\<lambda>n. map_of m n \<noteq> None) ns)
    \<and> mo_totalScore (fold (matrix_step m) ns s)
        = mo_totalScore s + sum_list (map (\<lambda>n. case map_of m n of Some g \<Rightarrow> pg_finalScore g | None \<Rightarrow> 0) ns)"
proof (induction ns arbitrary: s)
  case (Cons n ns)
  from Cons.IH [of "matrix_step m n s"] show ?case
    by (auto simp: matrix_step_def module_passed_def split: option.split)
qed simp

lemma average_divisor:
  fixes n :: int and z :: rat
  assumes "0 < n"
  shows "(if int k = n \<and> b then round2 (z / of_int n) else if k > 0 then round2 (z / of_nat k) else 0)
    = (if k = 0 then 0 else round2 (z / of_nat k))"
  using assms by (cases "int k = n") auto

lemma matrix_row:
  assumes "0 < n"
  shows "mx_allPassed (matrix_row_of n i m) = (\<forall>k \<in> {1..n}. module_passed m k)"
    and "mx_unpassed (matrix_row_of n i m) = filter (\<lambda>k. \<not> module_passed m k) [1..n]"
    and "mx_studentId (matrix_row_of n i m) = i"
    and "mx_average (matrix_row_of n i m) = (if mx_completed (matrix_row_of n i m) = 0 then 0
      else round2 (sum_list (map (\<lambda>n. case map_of m n of Some g \<Rightarrow> pg_finalScore g | None \<Rightarrow> 0) [1..n])
        / of_nat (mx_completed (matrix_row_of n i m))))"
proof -
  have "(\<forall>k \<in> {1..n}. module_passed m k) \<Longrightarrow> (\<forall>k \<in> {1..n}. map_of m k \<noteq> None)"
    by (auto simp: module_passed_def split: option.splits)
  then show "mx_allPassed (matrix_row_of n i m) = (\<forall>k \<in> {1..n}. module_passed m k)"
    using count_all [OF assms, of "\<lambda>k. map_of m k \<noteq> None"] by (auto simp: matrix_row_of_def Let_def matrix_fold)
  show "mx_average (matrix_row_of n i m) = (if mx_completed (matrix_row_of n i m) = 0 then 0
      else round2 (sum_list (map (\<lambda>n. case map_of m n of Some g \<Rightarrow> pg_finalScore g | None \<Rightarrow> 0) [1..n])
        / of_nat (mx_completed (matrix_row_of n i m))))"
    unfolding matrix_row_of_def Let_def matrix_row.simps average_divisor [OF assms] by (simp add: matrix_fold)
qed (simp_all add: matrix_row_of_def Let_def matrix_fold)

section \<open>Sorting by date\<close>

lemma insert_by_sorted:
  assumes "\<And>a b c. le a b \<Longrightarrow> le b c \<Longrightarrow> le a c" and "\<And>a b. le a b \<or> le b a" and "sorted_wrt le ys"
  shows "sorted_wrt le (insert_by le x ys)"
  using assms(3)
proof (induction ys)
  case (Cons y ys)
  then show ?case using assms(1,2) by auto blast+
qed simp

lemma sort_by_sorted:
  assumes "\<And>a b c. le a b \<Longrightarrow> le b c \<Longrightarrow> le a c" and "\<And>a b. le a b \<or> le b a"
  shows "sorted_wrt le (sort_by le xs)"
  unfolding sort_by_def using insert_by_sorted [of le, OF assms] by (induction xs) auto

lemma filter_insert_by:
  assumes "\<And>a b c. le a b \<Longrightarrow> le b c \<Longrightarrow> le a c" and "sorted_wrt le ys"
  shows "filter P (insert_by le x ys) = (if P x then insert_by le x (filter P ys) else filter P ys)"
  using assms(2)
proof (induction ys)
  case (Cons y ys)
  have first: "insert_by le x (filter P zs) = x # filter P zs" if "\<forall>z \<in> set zs. le x z" for zs
    using that by (induction zs) auto
  show ?case
  proof (cases "le x y")
    case True
    then have "\<forall>z \<in> set (y # ys). le x z" using Cons.prems assms(1) by auto
    from first [OF this] True show ?thesis by auto
  next
    case False
    with Cons show ?thesis by auto
  qed
qed simp

text \<open>A stable sort commutes with a filter.\<close>

lemma filter_sort_by:
  assumes "\<And>a b c. le a b \<Longrightarrow> le b c \<Longrightarrow> le a c" and "\<And>a b. le a b \<or> le b a"
  shows "filter P (sort_by le xs) = sort_by le (filter P xs)"
proof (induction xs)
  case (Cons x xs)
  have "filter P (insert_by le x (sort_by le xs)) = (if P x then insert_by le x (filter P (sort_by le xs)) else filter P (sort_by le xs))"
    by (rule filter_insert_by) (use assms in \<open>blast intro: sort_by_sorted\<close>)+
  with Cons show ?case by (simp add: sort_by_def)
qed (simp add: sort_by_def)

lemma filter_podman_by_date: "filter P (podman_by_date gs) = podman_by_date (filter P gs)"
  unfolding podman_by_date_def by (rule filter_sort_by) auto

lemma set_podman_by_date [simp]: "set (podman_by_date gs) = set gs"
  by (simp add: podman_by_date_def)

lemma set_by_date [simp]: "set (by_date gs) = set gs"
  by (simp add: by_date_def)

section \<open>The rule for modular lessons\<close>

lemma podman_entry:
  assumes "(l, m) \<in> set (podman_lessons_map db gs)"
  shows "m = grouped (podman_number db) better_grade (filter (\<lambda>g. pg_lessonId g = l) gs)"
proof -
  have "map_of (podman_lessons_map db gs) l = Some m"
    using assms grouped_entry unfolding podman_lessons_map_def grouped_def [symmetric] by fast
  then show ?thesis by (simp add: map_of_podman_lessons Let_def split: if_splits)
qed

lemma module_passed_grouped:
  "module_passed (grouped (podman_number db) better_grade gs) n \<longleftrightarrow> (\<exists>g \<in> set gs. podman_number db g = n \<and> pg_isPassed g)"
  using best_passed [of "filter (\<lambda>g. podman_number db g = n) gs"] by (auto simp: module_passed_def best_module split: option.split)

lemma modular_reportE:
  assumes "r \<in> set (modular_report db (l, m))"
  obtains le where "lesson_row db l = Some le" and "lr_lessonId r = l" and "lr_isModular r" and "lr_podmanCount r = podman_count le"
    and "lr_unitCount r = unit_count le" and "lr_average r = round2 (pl_totalPodmanScore (podman_scan m (podman_count le)) / of_int (podman_count le))"
    and "lr_isPassed r = (int (pl_passedCount (podman_scan m (podman_count le))) = podman_count le)"
    and "lr_unpassedPodmanNumbers r = pl_unpassed (podman_scan m (podman_count le))"
proof (cases "lesson_row db l")
  case (Some le)
  with assms show ?thesis by (intro that [of le]) (auto simp: modular_report_def Let_def)
qed (use assms in \<open>simp add: modular_report_def\<close>)

lemma regular_reportE:
  assumes "r \<in> set (regular_report db pm (l, en))"
  obtains le where "lesson_row db l = Some le" and "map_of pm l = None" and "\<not> le_isModular le" and "lr_lessonId r = l" and "\<not> lr_isModular r"
    and "lr_unitCount r = unit_count le" and "lr_isPassed r = (lr_average r \<ge> 10)"
    and "lr_average r = (if ln_totalWeight en > 0 then round2 (ln_totalWeightedScore en / ln_totalWeight en) else 0)"
proof (cases "lesson_row db l")
  case (Some le)
  with assms show ?thesis by (intro that [of le]) (auto simp: regular_report_def Let_def split: if_splits)
qed (use assms in \<open>simp add: regular_report_def\<close>)

lemma lesson_reportsE:
  assumes "r \<in> set (lesson_reports db gs pgs)"
  obtains l en where "(l, en) \<in> set (lesson_grades_map gs)" and "r \<in> set (regular_report db (podman_lessons_map db pgs) (l, en))"
  | l m where "(l, m) \<in> set (podman_lessons_map db pgs)" and "r \<in> set (modular_report db (l, m))"
  using assms by (auto simp: lesson_reports_def Let_def)

lemma modular_report_rule:
  assumes "r \<in> set (lesson_reports db gs pgs)" and "lr_isModular r" and "0 < lr_podmanCount r"
  shows "lr_isPassed r = (\<forall>n \<in> {1..lr_podmanCount r}. \<exists>g \<in> set pgs. pg_lessonId g = lr_lessonId r \<and> podman_number db g = n \<and> pg_isPassed g)
    \<and> lr_unpassedPodmanNumbers r = filter (\<lambda>n. \<not> (\<exists>g \<in> set pgs. pg_lessonId g = lr_lessonId r \<and> podman_number db g = n \<and> pg_isPassed g))
         [1..lr_podmanCount r]"
  using assms(1)
proof (cases rule: lesson_reportsE)
  case (1 l en)
  from 1(2) assms(2) show ?thesis by (auto elim: regular_reportE)
next
  case (2 l m)
  note m = podman_entry [OF 2(1)]
  have p: "module_passed m n \<longleftrightarrow> (\<exists>g \<in> set pgs. pg_lessonId g = l \<and> podman_number db g = n \<and> pg_isPassed g)" for n
    by (auto simp: m module_passed_grouped)
  from 2(2) show ?thesis
    by (rule modular_reportE) (use assms(3) in \<open>simp add: podman_scan count_all p\<close>)
qed

section \<open>Averages\<close>

lemma round2_bounds:
  assumes "0 \<le> x" and "x \<le> of_int n"
  shows "0 \<le> round2 x \<and> round2 x \<le> of_int n"
proof -
  have "0 \<le> \<lfloor>x * 100 + 1 / 2\<rfloor>" using assms(1) by (simp add: zero_le_floor)
  moreover have "\<lfloor>x * 100 + 1 / 2\<rfloor> \<le> n * 100" using assms(2) by linarith
  then have "(of_int \<lfloor>x * 100 + 1 / 2\<rfloor> :: rat) \<le> of_int (n * 100)" by (simp only: of_int_le_iff)
  ultimately show ?thesis by (simp add: round2_def)
qed

lemma lesson_entry_fold:
  "fold (\<lambda>g x. Some (add_to_entry g x)) gs (Some y) = Some \<lparr>ln_grades = ln_grades y @ gs,
     ln_totalWeightedScore = ln_totalWeightedScore y + sum_list (map (\<lambda>g. out_of_20 g * ge_weight g) gs),
     ln_totalWeight = ln_totalWeight y + sum_list (map ge_weight gs)\<rparr>"
  by (induction gs arbitrary: y) (auto simp: add_to_entry_def Let_def)

lemma lesson_entry_of:
  assumes "(l, en) \<in> set (lesson_grades_map gs)"
  shows "ln_totalWeightedScore en = sum_list (map (\<lambda>g. out_of_20 g * ge_weight g) (filter (\<lambda>g. ge_lessonId g = l) gs))
    \<and> ln_totalWeight en = sum_list (map ge_weight (filter (\<lambda>g. ge_lessonId g = l) gs))
    \<and> ln_grades en = filter (\<lambda>g. ge_lessonId g = l) gs"
proof -
  let ?gs = "filter (\<lambda>g. ge_lessonId g = l) gs"
  have "fold (\<lambda>g x. Some (add_to_entry g x)) ?gs None = Some en"
    using assms grouped_entry [of l en ge_lessonId add_to_entry gs] by (simp add: lesson_grades_map_grouped map_of_grouped)
  moreover have "fold (\<lambda>g x. Some (add_to_entry g x)) (a # as) None = Some \<lparr>ln_grades = a # as,
     ln_totalWeightedScore = sum_list (map (\<lambda>g. out_of_20 g * ge_weight g) (a # as)), ln_totalWeight = sum_list (map ge_weight (a # as))\<rparr>" for a as
    by (simp add: lesson_entry_fold) (simp add: add_to_entry_def)
  ultimately show ?thesis by (cases ?gs) auto
qed

lemma weighted_sum_bounds:
  assumes "\<forall>g \<in> set gs. 0 \<le> f g \<and> f g \<le> (20 :: rat) \<and> 0 \<le> w g"
  shows "0 \<le> sum_list (map (\<lambda>g. f g * w g) gs) \<and> sum_list (map (\<lambda>g. f g * w g) gs) \<le> 20 * sum_list (map w gs)"
  using assms
proof (induction gs)
  case (Cons g gs)
  then have "0 \<le> f g * w g" and "f g * w g \<le> 20 * w g" by (auto intro: mult_right_mono)
  with Cons show ?case by (simp add: distrib_left)
qed simp

section \<open>Well-formed rows\<close>

definition grade_ok :: "GradeEntry \<Rightarrow> bool" where
  "grade_ok g \<longleftrightarrow> 0 \<le> ge_score g \<and> ge_score g \<le> ge_maxScore g \<and> 0 < ge_maxScore g \<and> 0 < ge_weight g"

definition podman_grade_ok :: "PodmanGrade \<Rightarrow> bool" where
  "podman_grade_ok g \<longleftrightarrow> 0 \<le> pg_continuousScore g \<and> pg_continuousScore g \<le> 5 \<and> pg_competencyScore g \<in> {1, 2, 3}
     \<and> pg_finalScore g = round2 (pg_continuousScore g + of_int (pg_competencyScore g) * 5)
     \<and> (pg_isPassed g \<longleftrightarrow> 12 \<le> pg_finalScore g)"

definition grade_wf :: "grade_db \<Rightarrow> bool" where
  "grade_wf db \<longleftrightarrow> (\<forall>g \<in> set (gradeEntries db). grade_ok g) \<and> distinct (map ge_id (gradeEntries db))
     \<and> (\<forall>g \<in> set (podmanGrades db). podman_grade_ok g) \<and> distinct (map pg_id (podmanGrades db))
     \<and> distinct (map podman_grade_key (podmanGrades db)) \<and> distinct (map (\<lambda>p. (po_lessonId p, po_number p)) (podmans db))
     \<and> distinct (map po_id (podmans db))"

datatype grade_request =
    RecordGrades id id BulkRecordGradeDto env
  | RecordPodmanGrades id id BulkRecordPodmanGradeDto env
  | LookAtMatrix id id id env

text \<open>The annotation of the request: a weight, when given, is positive.\<close>

fun weight_given :: "grade_request \<Rightarrow> bool" where
  "weight_given (RecordGrades t u dto e) = (case bg_weight dto of None \<Rightarrow> True | Some w \<Rightarrow> 0 < w)"
| "weight_given _ = True"

definition after_grades :: "grade_db \<Rightarrow> http_error + 'a \<times> grade_db \<Rightarrow> grade_db" where
  "after_grades db r = (case r of Inl _ \<Rightarrow> db | Inr (_, db') \<Rightarrow> db')"

fun grade_serve :: "int \<Rightarrow> grade_request \<Rightarrow> grade_db \<Rightarrow> grade_db" where
  "grade_serve tz (RecordGrades t u dto e) db = after_grades db (recordBulkGrades tz t u dto e db)"
| "grade_serve tz (RecordPodmanGrades t u dto e) db = snd (recordBulkPodmanGrades t u dto e db)"
| "grade_serve tz (LookAtMatrix t c l e) db = after_grades db (getClassPodmanMatrix t c l e db)"

lemma falsy_or_pos: "0 < d \<Longrightarrow> (case x of None \<Rightarrow> True | Some w \<Rightarrow> 0 \<le> w) \<Longrightarrow> 0 < falsy_or x d"
  by (auto simp: falsy_or_def split: option.splits)

lemma accepted_max:
  assumes "score_in_range (grade_max dto) item"
  shows "0 \<le> bi_score item \<and> bi_score item \<le> grade_max dto \<and> 0 < grade_max dto"
proof -
  have "grade_max dto \<noteq> 0" by (auto simp: grade_max_def falsy_or_def split: option.split)
  with assms show ?thesis by (auto simp: score_in_range_def)
qed

lemma record_grade_wf:
  assumes "record_grade tz t u dto y tc e row db = Inr db'" and "grade_wf db"
    and "score_in_range (grade_max dto) (snd row)" and "case bg_weight dto of None \<Rightarrow> True | Some w \<Rightarrow> 0 < w"
  shows "grade_wf db'"
proof -
  obtain k item where row: "row = (k, item)" by (cases row)
  let ?s = "resolve_student t db (bi_studentId item)"
  show ?thesis
  proof (cases "find (grade_of_day tz t dto (grade_date dto e) ?s) (gradeEntries db)")
    case (Some g)
    with assms(1) have db': "db' = db\<lparr>gradeEntries := update_row ge_id (ge_id g) (regraded dto item u) (gradeEntries db)\<rparr>"
      by (simp add: record_grade_def row Let_def)
    have "map ge_id (update_row ge_id (ge_id g) (regraded dto item u) (gradeEntries db)) = map ge_id (gradeEntries db)"
      by (simp add: update_row_def regraded_def comp_def if_distrib cong: if_cong)
    moreover have "grade_ok (regraded dto item u h)" if "grade_ok h" for h
      using that accepted_max [OF assms(3)] assms(4) row
      by (auto simp: grade_ok_def regraded_def falsy_or_def split: option.splits)
    ultimately show ?thesis using assms(2) by (auto simp: grade_wf_def db' elim!: update_row_memE)
  next
    case None
    have "grade_ok (new_grade i t dto item y s tc u d)" for i s d
      using accepted_max [OF assms(3)] assms(4) row
      by (auto simp: grade_ok_def new_grade_def falsy_or_def split: option.splits)
    with None assms(1,2) row show ?thesis by (auto simp: record_grade_def Let_def create_grade_def grade_wf_def split: if_splits)
  qed
qed

lemma zip_snd: "row \<in> set (zip ns xs) \<Longrightarrow> snd row \<in> set xs"
  by (metis prod.collapse set_zip_rightD)

lemma record_grades_wf:
  assumes "recordBulkGrades tz t u dto e db = Inr (n, db')" and "grade_wf db" and "case bg_weight dto of None \<Rightarrow> True | Some w \<Rightarrow> 0 < w"
  shows "grade_wf db'"
proof -
  obtain y tc where f: "foldE (record_grade tz t u dto y tc e) (zip [0..<length (bg_grades dto)] (bg_grades dto)) db = Inr db'"
    and ok: "list_all (score_in_range (grade_max dto)) (bg_grades dto)"
    using assms(1) by (auto simp: recordBulkGrades_def Let_def bindE_Inr split: option.splits if_splits)
  show ?thesis
  proof (rule foldE_invariant [where I = grade_wf, OF _ assms(2) f])
    fix row s s'
    assume "row \<in> set (zip [0..<length (bg_grades dto)] (bg_grades dto))" "grade_wf s" "record_grade tz t u dto y tc e row s = Inr s'"
    moreover from this have "score_in_range (grade_max dto) (snd row)" using ok zip_snd by (fastforce simp: list_all_iff)
    ultimately show "grade_wf s'" using record_grade_wf assms(3) by blast
  qed
qed

lemma create_podman_wf: "create_podman p db = Inr db' \<Longrightarrow> grade_wf db \<Longrightarrow> grade_wf db'"
  by (auto simp: create_podman_def grade_wf_def split: if_splits)

lemma record_podman_grade_wf:
  assumes "record_podman_grade t u dto y p tc e row db = Inr db'" and "grade_wf db" and "item_ok (snd row)"
  shows "grade_wf db'"
proof -
  obtain k x where row: "row = (k, x)" by (cases row)
  have ok: "0 \<le> pi2_continuousScore x" "pi2_continuousScore x \<le> 5" "pi2_competencyScore x \<in> {1, 2, 3}"
    using assms(3) row by (auto simp: item_ok_def)
  show ?thesis
  proof (cases "find (\<lambda>g. pg_tenantId g = t \<and> podman_grade_key g = (p, resolve_student t db (pi2_studentId x), str_or (bp_attemptType dto) ''REGULAR'')) (podmanGrades db)")
    case (Some g)
    obtain d where db': "db' = db\<lparr>podmanGrades := update_row pg_id (pg_id g) (podman_regraded x d u) (podmanGrades db)\<rparr>"
      using assms(1) Some by (auto simp: record_podman_grade_def row Let_def)
    have keys: "map f (update_row pg_id (pg_id g) (podman_regraded x d u) (podmanGrades db)) = map f (podmanGrades db)"
      if "\<And>h. f (podman_regraded x d u h) = f h" for f :: "PodmanGrade \<Rightarrow> 'a"
      using that by (simp add: update_row_def)
    have "podman_grade_ok (podman_regraded x d u h)" for h
      using ok by (simp add: podman_grade_ok_def podman_regraded_def final_score_def)
    with assms(2) keys [of pg_id] keys [of podman_grade_key] show ?thesis
      by (auto simp: grade_wf_def db' podman_regraded_def podman_grade_key_def elim!: update_row_memE)
  next
    case None
    have "podman_grade_ok (new_podman_grade i t dto x y p s tc att u d)" for i s att d
      using ok by (simp add: podman_grade_ok_def new_podman_grade_def final_score_def)
    with None assms(1,2) show ?thesis
      by (auto simp: record_podman_grade_def row Let_def create_podman_grade_def grade_wf_def split: if_splits)
  qed
qed

lemma record_podman_grades_wf:
  assumes "grade_wf db"
  shows "grade_wf (snd (recordBulkPodmanGrades t u dto e db))"
proof -
  have loop: "grade_wf d'" if "foldE (record_podman_grade t u dto y p tc e) (zip [0..<length (bp_grades dto)] (bp_grades dto)) d = Inr d'"
      and "list_all item_ok (bp_grades dto)" and "grade_wf d" for y p tc d d'
  proof (rule foldE_invariant [where I = grade_wf, OF _ that(3,1)])
    fix row s s'
    assume "row \<in> set (zip [0..<length (bp_grades dto)] (bp_grades dto))" "grade_wf s" "record_podman_grade t u dto y p tc e row s = Inr s'"
    moreover from this have "item_ok (snd row)" using that(2) zip_snd by (fastforce simp: list_all_iff)
    ultimately show "grade_wf s'" using record_podman_grade_wf by blast
  qed
  show ?thesis using assms
    by (auto simp: recordBulkPodmanGrades_def Let_def bindE_Inr split: option.split sum.split
        intro: loop create_podman_wf split del: if_split split: if_splits)
qed

lemma matrix_wf: "getClassPodmanMatrix t c l e db = Inr (rs, db') \<Longrightarrow> grade_wf db \<Longrightarrow> grade_wf db'"
proof -
  assume "getClassPodmanMatrix t c l e db = Inr (rs, db')" and wf: "grade_wf db"
  then obtain ps where "db' = db \<or> foldE create_podman ps db = Inr db'"
    by (auto simp: getClassPodmanMatrix_def Let_def bindE_Inr split: option.splits if_splits)
  moreover have "grade_wf d" if "foldE create_podman ps db = Inr d" for d
    by (rule foldE_invariant [where I = grade_wf, OF _ wf that]) (rule create_podman_wf)
  ultimately show "grade_wf db'" using wf by blast
qed

lemma grade_serve_wf: "grade_wf db \<Longrightarrow> weight_given r \<Longrightarrow> grade_wf (grade_serve tz r db)"
  by (cases r) (auto simp: after_grades_def record_podman_grades_wf split: sum.splits intro: record_grades_wf matrix_wf)

lemma grade_run_wf: "grade_wf db \<Longrightarrow> \<forall>r \<in> set rs. weight_given r \<Longrightarrow> grade_wf (fold (grade_serve tz) rs db)"
  by (induction rs arbitrary: db) (auto intro: grade_serve_wf)

section \<open>Bounds of the report card\<close>

lemma out_of_20_bounds: "grade_ok g \<Longrightarrow> 0 \<le> out_of_20 g \<and> out_of_20 g \<le> 20"
  by (auto simp: out_of_20_def grade_ok_def divide_simps)

lemma podman_grade_bounds:
  assumes "podman_grade_ok g"
  shows "0 \<le> pg_finalScore g \<and> pg_finalScore g \<le> 20"
proof -
  have "0 \<le> pg_continuousScore g + of_int (pg_competencyScore g) * 5" "pg_continuousScore g + of_int (pg_competencyScore g) * 5 \<le> of_int 20"
    using assms by (auto simp: podman_grade_ok_def)
  from round2_bounds [OF this] assms show ?thesis by (simp add: podman_grade_ok_def)
qed

lemma regular_average_bounds:
  assumes "(l, en) \<in> set (lesson_grades_map gs)" and "\<forall>g \<in> set gs. grade_ok g"
    and "r \<in> set (regular_report db pm (l, en))"
  shows "0 \<le> lr_average r \<and> lr_average r \<le> 20"
proof -
  let ?gs = "filter (\<lambda>g. ge_lessonId g = l) gs"
  have "\<forall>g \<in> set ?gs. 0 \<le> out_of_20 g \<and> out_of_20 g \<le> 20 \<and> 0 \<le> ge_weight g"
    using assms(2) out_of_20_bounds by (auto simp: grade_ok_def)
  from weighted_sum_bounds [OF this] lesson_entry_of [OF assms(1)]
  have "0 \<le> ln_totalWeightedScore en" "ln_totalWeightedScore en \<le> 20 * ln_totalWeight en" by simp_all
  then have "0 < ln_totalWeight en \<Longrightarrow> 0 \<le> ln_totalWeightedScore en / ln_totalWeight en \<and> ln_totalWeightedScore en / ln_totalWeight en \<le> of_int 20"
    by (simp add: divide_simps)
  with round2_bounds [of "ln_totalWeightedScore en / ln_totalWeight en" 20] assms(3) show ?thesis
    by (auto elim!: regular_reportE)
qed

lemma scan_bounds:
  assumes "\<forall>g \<in> set gs. podman_grade_ok g" and "m = grouped (podman_number db) better_grade gs"
  shows "0 \<le> pl_totalPodmanScore (podman_scan m n) \<and> pl_totalPodmanScore (podman_scan m n) \<le> 20 * of_nat (nat n)"
proof -
  let ?f = "\<lambda>k. case map_of m k of Some g \<Rightarrow> pg_finalScore g | None \<Rightarrow> 0"
  have f: "0 \<le> ?f k \<and> ?f k \<le> 20" for k
  proof (cases "best_grade (filter (\<lambda>g. podman_number db g = k) gs)")
    case (Some b)
    then have "podman_grade_ok b" using best_grade_Some [OF Some] assms(1) by simp
    from podman_grade_bounds [OF this] Some show ?thesis by (simp add: assms(2) best_module)
  qed (simp add: assms(2) best_module)
  have "0 \<le> sum_list (map ?f ks) \<and> sum_list (map ?f ks) \<le> 20 * of_nat (length ks)" for ks
  proof (induction ks)
    case (Cons k ks)
    then show ?case using f [of k] by (simp add: algebra_simps)
  qed simp
  from this [of "[1..n]"] show ?thesis by (simp add: podman_scan)
qed

lemma modular_average_bounds:
  assumes "(l, m) \<in> set (podman_lessons_map db gs)" and "\<forall>g \<in> set gs. podman_grade_ok g" and "r \<in> set (modular_report db (l, m))"
  shows "0 \<le> lr_average r \<and> lr_average r \<le> 20"
proof -
  have m: "\<forall>g \<in> set (filter (\<lambda>g. pg_lessonId g = l) gs). podman_grade_ok g" using assms(2) by simp
  have "0 \<le> pl_totalPodmanScore (podman_scan m n) / of_int n \<and> pl_totalPodmanScore (podman_scan m n) / of_int n \<le> of_int 20" for n
    using scan_bounds [OF m podman_entry [OF assms(1)], of n] by (cases "0 < n") (auto simp: divide_simps)
  then have "0 \<le> round2 (pl_totalPodmanScore (podman_scan m n) / of_int n) \<and> round2 (pl_totalPodmanScore (podman_scan m n) / of_int n) \<le> 20" for n
    using round2_bounds [of _ 20] by simp
  with assms(3) show ?thesis by (auto elim!: modular_reportE)
qed

lemma gpa_bounds:
  assumes "\<forall>r \<in> set rs. 0 \<le> lr_average r \<and> lr_average r \<le> 20 \<and> 0 < lr_unitCount r"
  shows "0 \<le> tr_weightedGpa (transcript_of rs) \<and> tr_weightedGpa (transcript_of rs) \<le> 20"
proof -
  have "0 \<le> sum_list (map lesson_points rs) \<and> sum_list (map lesson_points rs) \<le> 20 * of_int (sum_list (map lr_unitCount rs))"
    using assms
  proof (induction rs)
    case (Cons r rs)
    then have "0 \<le> lr_average r * of_int (lr_unitCount r)" "lr_average r * of_int (lr_unitCount r) \<le> 20 * of_int (lr_unitCount r)"
      by (auto intro: mult_right_mono)
    then have "0 \<le> lesson_points r \<and> lesson_points r \<le> 20 * of_int (lr_unitCount r)" by (simp add: lesson_points_def)
    moreover have "(20 :: rat) * of_int (sum_list (map lr_unitCount (r # rs))) = 20 * of_int (lr_unitCount r) + 20 * of_int (sum_list (map lr_unitCount rs))"
      by (simp add: distrib_left)
    moreover have "0 \<le> sum_list (map lesson_points rs) \<and> sum_list (map lesson_points rs) \<le> 20 * of_int (sum_list (map lr_unitCount rs))"
      using Cons by simp
    ultimately show ?case by (simp only: list.map sum_list.Cons) linarith
  qed simp
  then have "0 < sum_list (map lr_unitCount rs) \<Longrightarrow>
      0 \<le> sum_list (map lesson_points rs) / of_int (sum_list (map lr_unitCount rs))
      \<and> sum_list (map lesson_points rs) / of_int (sum_list (map lr_unitCount rs)) \<le> of_int 20" by (simp add: divide_simps)
  with round2_bounds [of "sum_list (map lesson_points rs) / of_int (sum_list (map lr_unitCount rs))" 20] show ?thesis
    by (auto simp: transcript_of_def Let_def)
qed

section \<open>What a recording leaves\<close>

lemma day_bounds: "day_start tz t \<le> t \<and> t \<le> day_end tz t"
proof -
  have "0 \<le> (t + tz) mod ms_per_day" "(t + tz) mod ms_per_day < ms_per_day" by (simp_all add: ms_per_day_def)
  moreover have "(t + tz) div ms_per_day * ms_per_day + (t + tz) mod ms_per_day = t + tz" by simp
  ultimately show ?thesis unfolding day_start_def day_end_def by linarith
qed

definition graded_that_day :: "int \<Rightarrow> id \<Rightarrow> BulkRecordGradeDto \<Rightarrow> time \<Rightarrow> id \<Rightarrow> rat \<Rightarrow> grade_db \<Rightarrow> bool" where
  "graded_that_day tz t dto d s sc db \<longleftrightarrow>
     (\<exists>g \<in> set (gradeEntries db). grade_of_day tz t dto d s g \<and> ge_score g = sc \<and> ge_maxScore g = grade_max dto)"

text \<open>Only the day of the date counts.\<close>

lemma graded_same_day:
  "day_start tz d' = day_start tz d \<Longrightarrow> graded_that_day tz t dto d' s sc db = graded_that_day tz t dto d s sc db"
  by (simp add: graded_that_day_def grade_of_day_def day_end_def)

definition same_pupils :: "grade_db \<Rightarrow> grade_db \<Rightarrow> bool" where
  "same_pupils db db' \<longleftrightarrow> studentProfiles db' = studentProfiles db \<and> classEnrollments db' = classEnrollments db
     \<and> classrooms db' = classrooms db \<and> lessons db' = lessons db \<and> gradeTeachers db' = gradeTeachers db
     \<and> gradeSchedules db' = gradeSchedules db \<and> lessonTeachers db' = lessonTeachers db"

lemma resolve_same: "same_pupils db db' \<Longrightarrow> resolve_student t db' = resolve_student t db"
  by (intro ext) (auto simp: same_pupils_def resolve_student_def student_by_user_def split: option.split)

lemma regraded_day [simp]: "grade_of_day tz t dto d s (regraded dto' item u g) = grade_of_day tz t dto d s g"
  by (simp add: grade_of_day_def regraded_def)

lemma record_grade_step:
  assumes "record_grade tz t u dto y tc e (k, item) db = Inr db'" and wf: "distinct (map ge_id (gradeEntries db))"
  shows "same_pupils db db'" and "graded_that_day tz t dto (grade_date dto e) (resolve_student t db (bi_studentId item)) (bi_score item) db'"
    and "s \<noteq> resolve_student t db (bi_studentId item) \<Longrightarrow> graded_that_day tz t dto (grade_date dto e) s sc db
      \<Longrightarrow> graded_that_day tz t dto (grade_date dto e) s sc db'"
    and "distinct (map ge_id (gradeEntries db'))"
proof -
  let ?s = "resolve_student t db (bi_studentId item)"
  let ?P = "grade_of_day tz t dto (grade_date dto e) ?s"
  have "same_pupils db db' \<and> graded_that_day tz t dto (grade_date dto e) ?s (bi_score item) db' \<and> distinct (map ge_id (gradeEntries db'))
    \<and> (s \<noteq> ?s \<longrightarrow> graded_that_day tz t dto (grade_date dto e) s sc db \<longrightarrow> graded_that_day tz t dto (grade_date dto e) s sc db')"
  proof (cases "find ?P (gradeEntries db)")
    case (Some g)
    with assms(1) have db': "db' = db\<lparr>gradeEntries := update_row ge_id (ge_id g) (regraded dto item u) (gradeEntries db)\<rparr>"
      by (simp add: record_grade_def Let_def)
    have g: "g \<in> set (gradeEntries db)" "?P g" using find_Some_iff_mem [OF Some] by auto
    have "map ge_id (gradeEntries db') = map ge_id (gradeEntries db)"
      by (simp add: db' update_row_def regraded_def comp_def if_distrib cong: if_cong)
    moreover have "regraded dto item u g \<in> set (gradeEntries db')" using g(1) by (force simp: db' set_update_row)
    then have "graded_that_day tz t dto (grade_date dto e) ?s (bi_score item) db'"
      unfolding graded_that_day_def by (rule rev_bexI) (use g(2) in \<open>simp add: regraded_def [of dto item u g] grade_of_day_def\<close>)
    moreover have "graded_that_day tz t dto (grade_date dto e) s sc db'"
      if "s \<noteq> ?s" "graded_that_day tz t dto (grade_date dto e) s sc db"
    proof -
      from that(2) obtain h where h: "h \<in> set (gradeEntries db)" "grade_of_day tz t dto (grade_date dto e) s h" "ge_score h = sc" "ge_maxScore h = grade_max dto"
        by (auto simp: graded_that_day_def)
      have "ge_id h \<noteq> ge_id g" using distinct_key_inj [OF wf h(1) g(1)] g(2) h(2) that(1) by (auto simp: grade_of_day_def)
      then have "h \<in> set (gradeEntries db')" using h(1) by (force simp: db' set_update_row)
      with h show ?thesis by (auto simp: graded_that_day_def)
    qed
    ultimately show ?thesis using wf by (simp add: same_pupils_def db')
  next
    case None
    with assms(1) have "create_grade (new_grade (uuid e k) t dto item y ?s tc u (grade_date dto e)) db = Inr db'"
      by (simp add: record_grade_def Let_def)
    then have db': "db' = db\<lparr>gradeEntries := gradeEntries db @ [new_grade (uuid e k) t dto item y ?s tc u (grade_date dto e)]\<rparr>"
      and i: "uuid e k \<notin> set (map ge_id (gradeEntries db))" by (auto simp: create_grade_def new_grade_def split: if_splits)
    have "grade_of_day tz t dto (grade_date dto e) ?s (new_grade (uuid e k) t dto item y ?s tc u (grade_date dto e))"
      using day_bounds [of tz "grade_date dto e"] by (simp add: grade_of_day_def new_grade_def)
    with wf i show ?thesis by (auto simp: graded_that_day_def same_pupils_def db' new_grade_def)
  qed
  then show "same_pupils db db'" "graded_that_day tz t dto (grade_date dto e) ?s (bi_score item) db'" "distinct (map ge_id (gradeEntries db'))"
    "s \<noteq> ?s \<Longrightarrow> graded_that_day tz t dto (grade_date dto e) s sc db \<Longrightarrow> graded_that_day tz t dto (grade_date dto e) s sc db'" by blast+
qed

lemma same_pupils_trans: "same_pupils a b \<Longrightarrow> same_pupils b c \<Longrightarrow> same_pupils a c"
  by (simp add: same_pupils_def)

lemma record_grades_loop:
  assumes "foldE (record_grade tz t u dto y tc e) rows db = Inr db'" and "distinct (map ge_id (gradeEntries db))"
    and "distinct (map (\<lambda>row. resolve_student t db (bi_studentId (snd row))) rows)"
  shows "same_pupils db db' \<and> distinct (map ge_id (gradeEntries db'))
    \<and> (\<forall>row \<in> set rows. graded_that_day tz t dto (grade_date dto e) (resolve_student t db (bi_studentId (snd row))) (bi_score (snd row)) db')
    \<and> (\<forall>s sc. s \<notin> (\<lambda>row. resolve_student t db (bi_studentId (snd row))) ` set rows
         \<longrightarrow> graded_that_day tz t dto (grade_date dto e) s sc db \<longrightarrow> graded_that_day tz t dto (grade_date dto e) s sc db')"
  using assms
proof (induction rows arbitrary: db)
  case Nil
  then show ?case by (simp add: same_pupils_def)
next
  case (Cons row rows)
  obtain k item where row: "row = (k, item)" by (cases row)
  from Cons.prems(1) obtain d where d: "record_grade tz t u dto y tc e (k, item) db = Inr d" and r: "foldE (record_grade tz t u dto y tc e) rows d = Inr db'"
    by (auto simp: bindE_Inr row)
  note st = record_grade_step [OF d Cons.prems(2)]
  have res: "resolve_student t d = resolve_student t db" by (rule resolve_same [OF st(1)])
  have "distinct (map (\<lambda>row. resolve_student t d (bi_studentId (snd row))) rows)" using Cons.prems(3) by (simp add: res)
  from Cons.IH [OF r st(4) this] st(1,2,3) Cons.prems(3) show ?case
    by (auto simp: res row intro: same_pupils_trans)
qed

text \<open>When every student already has the grade of that day, recording only changes rows.\<close>

lemma rerecord_loop:
  assumes "\<forall>row \<in> set rows. \<exists>sc. graded_that_day tz t dto (grade_date dto e) (resolve_student t db (bi_studentId (snd row))) sc db"
    and "distinct (map ge_id (gradeEntries db))"
  shows "\<exists>db'. foldE (record_grade tz t u dto y tc e) rows db = Inr db' \<and> map ge_id (gradeEntries db') = map ge_id (gradeEntries db)"
  using assms
proof (induction rows arbitrary: db)
  case (Cons row rows)
  obtain k item where row: "row = (k, item)" by (cases row)
  let ?s = "resolve_student t db (bi_studentId item)"
  let ?P = "grade_of_day tz t dto (grade_date dto e) ?s"
  obtain g where g: "find ?P (gradeEntries db) = Some g"
    using Cons.prems(1) row by (cases "find ?P (gradeEntries db)") (auto simp: graded_that_day_def find_None_all)
  define d where "d = db\<lparr>gradeEntries := update_row ge_id (ge_id g) (regraded dto item u) (gradeEntries db)\<rparr>"
  have st: "record_grade tz t u dto y tc e (k, item) db = Inr d" using g by (simp add: record_grade_def Let_def d_def)
  have ids: "map ge_id (gradeEntries d) = map ge_id (gradeEntries db)"
    by (simp add: d_def update_row_def regraded_def comp_def if_distrib cong: if_cong)
  note rs = record_grade_step [OF st Cons.prems(2)]
  have res: "resolve_student t d = resolve_student t db" by (rule resolve_same [OF rs(1)])
  have "\<forall>row \<in> set rows. \<exists>sc. graded_that_day tz t dto (grade_date dto e) (resolve_student t d (bi_studentId (snd row))) sc d"
    unfolding res using Cons.prems(1) rs(2,3) by (metis list.set_intros(2))
  from Cons.IH [OF this] rs(4) st ids row show ?case by auto
qed simp

section \<open>Report card and matrix\<close>

lemma same_grades:
  assumes "\<forall>g \<in> set (podmanGrades db). pg_tenantId g = t \<and> pg_studentId g = s \<and> pg_lessonId g = l \<longrightarrow> pg_classroomId g = c"
  shows "filter (\<lambda>g. pg_lessonId g = l) (podman_by_date (filter (\<lambda>g. pg_tenantId g = t \<and> pg_studentId g = s) (podmanGrades db)))
    = filter (\<lambda>g. pg_studentId g = s) (podman_by_date (filter (\<lambda>g. pg_tenantId g = t \<and> pg_classroomId g = c \<and> pg_lessonId g = l) (podmanGrades db)))"
  unfolding filter_podman_by_date filter_filter using assms by (intro arg_cong [where f = podman_by_date] filter_cong) auto

lemma matrix_shape:
  assumes "getClassPodmanMatrix t c l e db = Inr (rows, db')" and "row \<in> set rows"
  obtains le where "le \<in> set (lessons db')" and "le_id le = l"
    and "row = matrix_row_of (podman_count le) (mx_studentId row) (case map_of (student_grades_map db'
        (podman_by_date (filter (\<lambda>g. pg_tenantId g = t \<and> pg_classroomId g = c \<and> pg_lessonId g = l) (podmanGrades db')))) (mx_studentId row) of
      None \<Rightarrow> [] | Some m \<Rightarrow> m)"
proof -
  from assms(1) obtain le d where le: "find_lesson t l db = Some le"
    and d: "(if le_isModular le \<and> podmans_of l db = [] then foldE create_podman (missing_podmans t le e) db else Inr db) = Inr d" "db' = d"
    and rows: "rows = map (\<lambda>x. matrix_row_of (podman_count le) (en_studentId x) (case map_of (student_grades_map d
        (podman_by_date (filter (\<lambda>g. pg_tenantId g = t \<and> pg_classroomId g = c \<and> pg_lessonId g = l) (podmanGrades d)))) (en_studentId x) of
      None \<Rightarrow> [] | Some m \<Rightarrow> m)) (enrollments_of c d)"
    unfolding getClassPodmanMatrix_def Let_def bindE_Inr by (auto simp: bindE_Inr split: option.split_asm)
  have "lessons d' = lessons db" if "foldE create_podman ps db = Inr d'" for ps d'
    by (rule foldE_invariant [where I = "\<lambda>x. lessons x = lessons db", OF _ _ that]) (auto simp: create_podman_def split: if_splits)
  with d have "lessons db' = lessons db" by (auto split: if_splits)
  with find_Some_iff_mem [OF le [unfolded find_lesson_def]] have "le \<in> set (lessons db')" "le_id le = l" by auto
  with that assms(2) rows d(2) show thesis by (auto simp: matrix_row_of_def Let_def)
qed

lemma recordBulkGrades_Inr:
  "recordBulkGrades tz t u dto e db = Inr (n, db') \<longleftrightarrow>
     (\<exists>c l. find_classroom t (bg_classroomId dto) db = Some c \<and> find_lesson t (bg_lessonId dto) db = Some l
       \<and> list_all (score_in_range (grade_max dto)) (bg_grades dto) \<and> n = length (bg_grades dto)
       \<and> foldE (record_grade tz t u dto (str_or (bg_academicYearId dto) (cl_academicYearId c))
            (grade_teacher t (bg_teacherId dto) u (bg_classroomId dto) (bg_lessonId dto) db) e)
            (zip [0..<length (bg_grades dto)] (bg_grades dto)) db = Inr db')"
proof (cases "find_classroom t (bg_classroomId dto) db")
  case (Some c)
  show ?thesis
  proof (cases "find_lesson t (bg_lessonId dto) db")
    case (Some l)
    with \<open>find_classroom t (bg_classroomId dto) db = Some c\<close> show ?thesis
      by (auto simp: recordBulkGrades_def Let_def bindE_Inr)
  qed (simp add: recordBulkGrades_def \<open>find_classroom t (bg_classroomId dto) db = Some c\<close>)
qed (simp add: recordBulkGrades_def)

end
