(* ===== verification/Gradebook_Props.thy ===== *)
theory Gradebook_Props
  imports Gradebook_Laws
begin

text \<open>The properties of the gradebook.\<close>

section \<open>A class for the witnesses\<close>

definition class_lesson :: "id \<Rightarrow> bool \<Rightarrow> Lesson" where
  "class_lesson i modular = \<lparr>le_id = i, le_tenantId = ''t'', le_name = i, le_code = i, le_unitCount = 2, le_isModular = modular,
     le_podmanCount = 2\<rparr>"

definition class_grade :: "id \<Rightarrow> rat \<Rightarrow> rat \<Rightarrow> GradeEntry" where
  "class_grade i sc w = \<lparr>ge_id = i, ge_tenantId = ''t'', ge_academicYearId = ''y'', ge_termId = None, ge_classroomId = ''k'', ge_lessonId = ''math'',
     ge_studentId = ''s'', ge_teacherId = ''tp'', ge_examId = None, ge_gradeType = QUIZ, ge_title = i, ge_score = sc, ge_maxScore = 20,
     ge_weight = w, ge_date = 0, ge_description = None, ge_recordedById = ''u''\<rparr>"

definition module_grade :: "id \<Rightarrow> id \<Rightarrow> rat \<Rightarrow> int \<Rightarrow> string \<Rightarrow> PodmanGrade" where
  "module_grade i p c k att = \<lparr>pg_id = i, pg_tenantId = ''t'', pg_academicYearId = ''y'', pg_classroomId = ''k'', pg_lessonId = ''mod'', pg_podmanId = p,
     pg_studentId = ''s'', pg_teacherId = ''tp'', pg_continuousScore = c, pg_competencyScore = k, pg_finalScore = c + of_int k * 5,
     pg_isPassed = (12 \<le> c + of_int k * 5), pg_attemptType = att, pg_date = 0, pg_notes = None, pg_recordedById = ''u''\<rparr>"

definition grades0 :: grade_db where
  "grades0 = \<lparr>classrooms = [\<lparr>cl_id = ''k'', cl_tenantId = ''t'', cl_academicYearId = ''y'', cl_name = ''k''\<rparr>],
     classEnrollments = [\<lparr>en_id = ''e'', en_tenantId = ''t'', en_classroomId = ''k'', en_studentId = ''s''\<rparr>],
     lessons = [class_lesson ''math'' False, class_lesson ''mod'' True],
     podmans = [\<lparr>po_id = ''p1'', po_tenantId = ''t'', po_lessonId = ''mod'', po_number = 1, po_title = ''1''\<rparr>,
       \<lparr>po_id = ''p2'', po_tenantId = ''t'', po_lessonId = ''mod'', po_number = 2, po_title = ''2''\<rparr>],
     gradeEntries = [class_grade ''g1'' 18 1, class_grade ''g2'' 15 2],
     podmanGrades = [module_grade ''m1'' ''p1'' 4 1 ''REGULAR'', module_grade ''m2'' ''p1'' 3 2 ''RETAKE_1'', module_grade ''m3'' ''p2'' 5 3 ''REGULAR''],
     studentProfiles = [\<lparr>sd_id = ''s'', sd_userId = ''su'', sd_tenantId = ''t'', sd_studentCode = ''1'', sd_name = ''S''\<rparr>],
     gradeTeachers = [(''tp'', ''u'', ''t'')], gradeSchedules = [], lessonTeachers = [], parentChildren = []\<rparr>"

definition grade_env :: env where
  "grade_env = \<lparr>now = 500, rnd = 0, uuid = (\<lambda>k. ''n'' @ string_of_nat k)\<rparr>"

definition bulk_dto :: BulkRecordGradeDto where
  "bulk_dto = \<lparr>bg_academicYearId = None, bg_termId = None, bg_classroomId = ''k'', bg_lessonId = ''math'', bg_teacherId = None, bg_examId = None,
     bg_gradeType = MIDTERM, bg_title = ''midterm'', bg_maxScore = None, bg_weight = Some 3, bg_date = None,
     bg_grades = [\<lparr>bi_studentId = ''su'', bi_score = 17, bi_description = None\<rparr>]\<rparr>"

lemma grades0_wf: "grade_wf grades0"
  by (simp add: grade_wf_def grades0_def grade_ok_def podman_grade_ok_def class_grade_def module_grade_def podman_grade_key_def round2_def floor_unique)

definition report0 :: "http_error + id \<times> transcript \<times> lesson_report list" where
  "report0 = getStudentReportCard ''t'' ''s'' None None grades0"

lemma report0_some: "\<exists>i tr rs. report0 = Inr (i, tr, rs)"
  by (simp add: report0_def getStudentReportCard_def report_student_def grades0_def student_by_user_def Let_def)

section \<open>The properties\<close>

text \<open>C29: Through any requests the grades stay well formed: every score lies between zero and its positive maximum with a
  positive weight; every grade of a module has its two parts in range, the final score of the formula, and counts as passed
  exactly from 12 on; a student has one grade for a module and attempt, a lesson one module of a number.\<close>

theorem grade_rows_well_formed:
  assumes "grade_wf db" and "\<forall>r \<in> set rs. weight_given r"
  shows "grade_wf (fold (grade_serve tz) rs db)"
  using assms by (rule grade_run_wf)

theorem grade_rows_well_formed_witness:
  "grade_wf (fold (grade_serve 0) [RecordGrades ''t'' ''u'' bulk_dto grade_env, LookAtMatrix ''t'' ''k'' ''mod'' grade_env] grades0)"
  by (rule grade_rows_well_formed [OF grades0_wf]) (simp add: bulk_dto_def)

text \<open>C34: Every average of a report card and the weighted average of all lie between 0 and 20, and the units passed are among
  the units taken.\<close>

theorem report_card_in_range:
  assumes "grade_wf db" and "\<forall>l \<in> set (lessons db). 0 \<le> le_unitCount l" and "getStudentReportCard t s y u db = Inr (i, tr, rs)"
  shows "(\<forall>r \<in> set rs. 0 \<le> lr_average r \<and> lr_average r \<le> 20) \<and> 0 \<le> tr_weightedGpa tr \<and> tr_weightedGpa tr \<le> 20
    \<and> 0 \<le> tr_passedUnits tr \<and> tr_passedUnits tr \<le> tr_totalUnits tr"
proof -
  obtain gs pgs where rs: "rs = lesson_reports db gs pgs" "tr = transcript_of rs"
    and gs: "set gs \<subseteq> set (gradeEntries db)" "set pgs \<subseteq> set (podmanGrades db)"
    using assms(3) by (auto simp: getStudentReportCard_def bindE_Inr Let_def)
  have ok: "\<forall>g \<in> set gs. grade_ok g" "\<forall>g \<in> set pgs. podman_grade_ok g" using gs assms(1) by (auto simp: grade_wf_def)
  have units: "0 < unit_count l" if "lesson_row db i = Some l" for i l
    using find_Some_iff_mem [OF that [unfolded lesson_row_def]] assms(2) by (fastforce simp: unit_count_def int_or_def)
  have each: "0 \<le> lr_average r \<and> lr_average r \<le> 20 \<and> 0 < lr_unitCount r" if "r \<in> set rs" for r
    using that unfolding rs(1)
  proof (cases rule: lesson_reportsE)
    case (1 l en)
    from regular_average_bounds [OF 1(1) ok(1) 1(2)] 1(2) units show ?thesis by (auto elim!: regular_reportE)
  next
    case (2 l m)
    from modular_average_bounds [OF 2(1) ok(2) 2(2)] 2(2) units show ?thesis by (auto elim!: modular_reportE)
  qed
  have "0 \<le> sum_list (map lr_unitCount (filter lr_isPassed xs)) \<and> sum_list (map lr_unitCount (filter lr_isPassed xs)) \<le> sum_list (map lr_unitCount xs)"
    if "set xs \<subseteq> set rs" for xs
    using that each by (induction xs) (fastforce+)
  from this [of rs] gpa_bounds [of rs] each rs(2) show ?thesis by (simp add: transcript_of_def Let_def)
qed

theorem report_card_in_range_witness:
  "\<exists>i tr rs. getStudentReportCard ''t'' ''s'' None None grades0 = Inr (i, tr, rs) \<and> 0 \<le> tr_weightedGpa tr \<and> tr_weightedGpa tr \<le> 20"
proof -
  obtain i tr rs where r: "getStudentReportCard ''t'' ''s'' None None grades0 = Inr (i, tr, rs)" using report0_some by (auto simp: report0_def)
  have "\<forall>l \<in> set (lessons grades0). 0 \<le> le_unitCount l" by (simp add: grades0_def class_lesson_def)
  from report_card_in_range [OF grades0_wf this r] r show ?thesis by blast
qed

text \<open>C30: The rule for modular lessons: the report card passes one exactly when every module from the first to the last has some
  grade of the student (in the year asked for) of at least 12, and it lists exactly the modules without one.\<close>

theorem modular_lesson_rule:
  assumes "grade_wf db" and "getStudentReportCard t s y u db = Inr (i, tr, rs)" and "r \<in> set rs" and "lr_isModular r" and "0 < lr_podmanCount r"
  shows "lr_isPassed r = (\<forall>n \<in> {1..lr_podmanCount r}. \<exists>g \<in> set (podmanGrades db). pg_tenantId g = t \<and> pg_studentId g = i
      \<and> (truthy y \<longrightarrow> Some (pg_academicYearId g) = y) \<and> pg_lessonId g = lr_lessonId r \<and> podman_number db g = n \<and> 12 \<le> pg_finalScore g)
    \<and> lr_unpassedPodmanNumbers r = filter (\<lambda>n. \<not> (\<exists>g \<in> set (podmanGrades db). pg_tenantId g = t \<and> pg_studentId g = i
      \<and> (truthy y \<longrightarrow> Some (pg_academicYearId g) = y) \<and> pg_lessonId g = lr_lessonId r \<and> podman_number db g = n \<and> 12 \<le> pg_finalScore g))
        [1..lr_podmanCount r]"
proof -
  let ?pgs = "podman_by_date (filter (\<lambda>g. pg_tenantId g = t \<and> pg_studentId g = i \<and> (truthy y \<longrightarrow> Some (pg_academicYearId g) = y)) (podmanGrades db))"
  obtain gs where rs: "rs = lesson_reports db gs ?pgs"
    using assms(2) by (auto simp: getStudentReportCard_def bindE_Inr Let_def)
  have p: "(\<exists>g \<in> set ?pgs. pg_lessonId g = lr_lessonId r \<and> podman_number db g = n \<and> pg_isPassed g) \<longleftrightarrow>
    (\<exists>g \<in> set (podmanGrades db). pg_tenantId g = t \<and> pg_studentId g = i \<and> (truthy y \<longrightarrow> Some (pg_academicYearId g) = y)
      \<and> pg_lessonId g = lr_lessonId r \<and> podman_number db g = n \<and> 12 \<le> pg_finalScore g)" for n
    using assms(1) by (auto simp: grade_wf_def podman_grade_ok_def)
  from modular_report_rule [OF assms(3) [unfolded rs] assms(4,5)] show ?thesis unfolding p .
qed

definition report_rows :: "(http_error + id \<times> transcript \<times> lesson_report list) \<Rightarrow> lesson_report list" where
  "report_rows x = (case x of Inl _ \<Rightarrow> [] | Inr (_, _, rs) \<Rightarrow> rs)"

lemma report0_rows:
  "map (\<lambda>r. (lr_lessonId r, lr_isModular r, lr_podmanCount r, lr_average r, lr_isPassed r, lr_unpassedPodmanNumbers r)) (report_rows report0)
     = [(''math'', False, 0, 16, True, []), (''mod'', True, 2, 33 / 2, True, [])]"
  by code_simp

theorem modular_lesson_rule_witness:
  "\<exists>r \<in> set (report_rows report0). lr_isModular r \<and> lr_isPassed r
     \<and> (\<forall>n \<in> {1..2}. \<exists>g \<in> set (podmanGrades grades0). podman_number grades0 g = n \<and> 12 \<le> pg_finalScore g)"
proof -
  obtain i tr rs where r: "getStudentReportCard ''t'' ''s'' None None grades0 = Inr (i, tr, rs)" using report0_some by (auto simp: report0_def)
  then have "report_rows report0 = rs" by (simp add: report_rows_def report0_def)
  with report0_rows obtain z x where "rs = [z, x]" and x: "lr_isModular x" "lr_podmanCount x = 2" "lr_isPassed x" by (auto simp: map_eq_Cons_conv)
  then have m: "x \<in> set rs" by simp
  from x have "0 < lr_podmanCount x" by simp
  from modular_lesson_rule [OF grades0_wf r m x(1) this] x m \<open>report_rows report0 = rs\<close> show ?thesis by (intro bexI [of _ x]) auto
qed

text \<open>C33: For an ordinary lesson the report card gives the weighted average of the student's grades, each brought to a maximum of
  20, rounded to hundredths; the lesson is passed from 10 on.\<close>

theorem regular_lesson_average:
  assumes "grade_wf db" and "getStudentReportCard t s y u db = Inr (i, tr, rs)" and "r \<in> set rs" and "\<not> lr_isModular r"
  shows "let gs = by_date (filter (\<lambda>g. ge_tenantId g = t \<and> ge_studentId g = i \<and> (truthy y \<longrightarrow> Some (ge_academicYearId g) = y)
        \<and> ge_lessonId g = lr_lessonId r) (gradeEntries db))
    in lr_average r = round2 (sum_list (map (\<lambda>g. ge_score g / ge_maxScore g * 20 * ge_weight g) gs) / sum_list (map ge_weight gs))
       \<and> gs \<noteq> [] \<and> (lr_isPassed r \<longleftrightarrow> 10 \<le> lr_average r)"
proof -
  let ?all = "by_date (filter (\<lambda>g. ge_tenantId g = t \<and> ge_studentId g = i \<and> (truthy y \<longrightarrow> Some (ge_academicYearId g) = y)) (gradeEntries db))"
  let ?gs = "by_date (filter (\<lambda>g. ge_tenantId g = t \<and> ge_studentId g = i \<and> (truthy y \<longrightarrow> Some (ge_academicYearId g) = y)
    \<and> ge_lessonId g = lr_lessonId r) (gradeEntries db))"
  obtain pgs where "rs = lesson_reports db ?all pgs" using assms(2) by (auto simp: getStudentReportCard_def bindE_Inr Let_def)
  with assms(3) have "r \<in> set (lesson_reports db ?all pgs)" by simp
  then show ?thesis
  proof (cases rule: lesson_reportsE)
    case (1 l en)
    from 1(2) have l: "lr_lessonId r = l" and v: "lr_isPassed r = (lr_average r \<ge> 10)"
      "lr_average r = (if ln_totalWeight en > 0 then round2 (ln_totalWeightedScore en / ln_totalWeight en) else 0)" by (auto elim: regular_reportE)
    have f: "filter (\<lambda>g. ge_lessonId g = l) ?all = ?gs"
      unfolding by_date_def by (subst filter_sort_by) (auto simp: l intro: arg_cong [where f = "sort_by _"] filter_cong)
    have en: "map_of (grouped ge_lessonId add_to_entry ?all) l = Some en"
      using 1(1) unfolding lesson_grades_map_grouped by (rule grouped_entry [THEN iffD1])
    then have ne: "?gs \<noteq> []" using fold_option_None unfolding map_of_grouped f by (metis option.distinct(1))
    have w: "\<forall>g \<in> set ?gs. 0 < ge_weight g" using assms(1) by (auto simp: grade_wf_def grade_ok_def)
    have "0 < sum_list (map ge_weight xs)" if "xs \<noteq> []" "\<forall>g \<in> set xs. 0 < ge_weight g" for xs :: "GradeEntry list"
      using that by (induction xs rule: list_nonempty_induct) (auto simp: add_pos_pos)
    from this [OF ne w] lesson_entry_of [OF 1(1), unfolded f] v ne show ?thesis by (simp add: out_of_20_def Let_def)
  next
    case (2 l m)
    then show ?thesis using assms(4) by (auto elim: modular_reportE)
  qed
qed

theorem regular_lesson_average_witness:
  "\<exists>r \<in> set (report_rows report0). \<not> lr_isModular r \<and> lr_average r = 16 \<and> lr_isPassed r"
proof -
  obtain i tr rs where r: "getStudentReportCard ''t'' ''s'' None None grades0 = Inr (i, tr, rs)" using report0_some by (auto simp: report0_def)
  then have rs: "report_rows report0 = rs" by (simp add: report_rows_def report0_def)
  with report0_rows obtain x z where "rs = [x, z]" and x: "\<not> lr_isModular x" "lr_average x = 16" by (auto simp: map_eq_Cons_conv)
  then have m: "x \<in> set rs" by simp
  from regular_lesson_average [OF grades0_wf r m x(1)] x m rs show ?thesis by (intro bexI [of _ x]) (auto simp: Let_def)
qed









end
