(* ===== verification/Attendance_Model.thy ===== *)
theory Attendance_Model
  imports Gradebook Jalali
begin

text \<open>
  Attendance (\<open>modules/attendance/attendance.service.ts\<close>): the dates of the register, the tables, and the recording of
  students and teachers.

  A date of the register is a text.  Its parts are read as numbers when they are written in digits, as the column's
  format \<open>YYYY-MM-DD\<close> asks; years are within the range of the package \<open>jalaali-js\<close>, an argument of the model as in
  \<open>Jalali\<close>.  How the runtime reads other texts as a \<open>Date\<close> is the argument \<open>parse\<close>, and \<open>tz\<close> is the offset of the server's
  zone.
\<close>

section \<open>Dates of the register\<close>

fun split_on :: "(char \<Rightarrow> bool) \<Rightarrow> string \<Rightarrow> string list" where
  "split_on p [] = [[]]"
| "split_on p (c # cs) = (if p c then [] # split_on p cs
     else (case split_on p cs of [] \<Rightarrow> [[c]] | w # ws \<Rightarrow> (c # w) # ws))"

definition ascii_digit :: "char \<Rightarrow> bool" where
  "ascii_digit c \<longleftrightarrow> 48 \<le> (of_char c :: nat) \<and> (of_char c :: nat) \<le> 57"

text \<open>\<open>Number(s)\<close>; \<open>None\<close> is \<open>NaN\<close>.\<close>

definition number_of :: "string \<Rightarrow> nat option" where
  "number_of s = (let t = trim s in if list_all ascii_digit t then Some (foldl (\<lambda>n c. 10 * n + (of_char c - 48)) 0 t) else None)"

text \<open>\<open>parts.length === 3 && !parts.some(isNaN)\<close>\<close>

definition three_numbers :: "string list \<Rightarrow> (nat \<times> nat \<times> nat) option" where
  "three_numbers parts = (case map number_of parts of [Some y, Some m, Some d] \<Rightarrow> Some (y, m, d) | _ \<Rightarrow> None)"

definition padStart2 :: "string \<Rightarrow> string" where
  "padStart2 s = replicate (2 - length s) CHR ''0'' @ s"

definition date_text :: "string \<Rightarrow> string \<Rightarrow> string \<Rightarrow> string" where
  "date_text y m d = y @ ''-'' @ padStart2 m @ ''-'' @ padStart2 d"

text \<open>The spellings of a day: as given, and in the other calendar.\<close>

definition getDateVariants :: "jalaali \<Rightarrow> string \<Rightarrow> string list" where
  "getDateVariants lib dateStr =
     (if dateStr = [] then []
      else (let clean = trim dateStr;
                other = (case three_numbers (split_on (\<lambda>c. c = CHR ''-'') clean) of
                    Some (y, m, d) \<Rightarrow>
                      if 1800 < y then (case toJalaali lib (int y) (int m) (int d) of
                          (jy, jm, jd) \<Rightarrow> [date_text (string_of_nat jy) (string_of_nat jm) (string_of_nat jd)])
                      else if 1300 < y \<and> y < 1500 then (case toGregorian lib y m d of
                          (gy, gm, gd) \<Rightarrow> [date_text (string_of_int gy) (string_of_int gm) (string_of_int gd)])
                      else []
                  | None \<Rightarrow> [])
            in rev (remdups (rev (clean # other)))))"

datatype DayOfWeek = SATURDAY | SUNDAY | MONDAY | TUESDAY | WEDNESDAY | THURSDAY | FRIDAY

definition day_names :: "DayOfWeek list" where
  "day_names = [SUNDAY, MONDAY, TUESDAY, WEDNESDAY, THURSDAY, FRIDAY, SATURDAY]"

text \<open>\<open>getDay()\<close> of a day number: the first day of 1970 was a Thursday.\<close>

definition get_day :: "int \<Rightarrow> int" where
  "get_day n = (n + 4) mod 7"

definition local_day :: "int \<Rightarrow> time \<Rightarrow> int" where
  "local_day tz t = (t + tz) div ms_per_day"

definition day_name :: "int \<Rightarrow> DayOfWeek" where
  "day_name n = day_names ! nat (get_day n)"

definition gregorian_day :: "int \<times> int \<times> int \<Rightarrow> int" where
  "gregorian_day g = (case g of (y, m, d) \<Rightarrow> days_from_civil y m d)"

definition getDayOfWeekFromDate :: "jalaali \<Rightarrow> (string \<Rightarrow> time option) \<Rightarrow> int \<Rightarrow> env \<Rightarrow> string option \<Rightarrow> DayOfWeek" where
  "getDayOfWeekFromDate lib parse tz e dateStr =
     (if \<not> truthy dateStr then day_name (local_day tz (now e))
      else (let s = str_or dateStr '''';
                fallback = (case parse s of Some t \<Rightarrow> day_name (local_day tz t) | None \<Rightarrow> SATURDAY)
            in case map number_of (split_on (\<lambda>c. c = CHR ''-'') s) of
                 [Some y, m, d] \<Rightarrow>
                   if 1300 < y \<and> y < 1500
                   then (case (m, d) of (Some m, Some d) \<Rightarrow> day_name (gregorian_day (toGregorian lib y m d)) | _ \<Rightarrow> SATURDAY)
                   else fallback
               | _ \<Rightarrow> fallback))"

text \<open>The two alternating weeks of the timetable, counted in the Jalali year from the week of its first day.\<close>

definition day_of_year :: "nat \<Rightarrow> nat \<Rightarrow> int" where
  "day_of_year jm jd = (if jm \<le> 6 then (int jm - 1) * 31 else 6 * 31 + (int jm - 7) * 30) + int jd"

definition week_number :: "jalaali \<Rightarrow> nat \<Rightarrow> nat \<Rightarrow> nat \<Rightarrow> int" where
  "week_number lib jy jm jd =
     (let dowFarvardin1 = (get_day (gregorian_day (toGregorian lib jy 1 1)) + 1) mod 7
      in (day_of_year jm jd - 1 + dowFarvardin1) div 7 + 1)"

definition week_of :: "jalaali \<Rightarrow> nat \<times> nat \<times> nat \<Rightarrow> nat" where
  "week_of lib j = (case j of (jy, jm, jd) \<Rightarrow>
     if jy = 0 \<or> jm = 0 \<or> jd = 0 then 1 else if week_number lib jy jm jd mod 2 = 1 then 1 else 2)"

definition jalali_of_day :: "jalaali \<Rightarrow> int \<Rightarrow> nat \<times> nat \<times> nat" where
  "jalali_of_day lib n = (case civil_from_days n of (y, m, d) \<Rightarrow> toJalaali lib y m d)"

definition getActiveWeekFromDate :: "jalaali \<Rightarrow> (string \<Rightarrow> time option) \<Rightarrow> int \<Rightarrow> env \<Rightarrow> string option \<Rightarrow> nat" where
  "getActiveWeekFromDate lib parse tz e dateStr =
     (if \<not> truthy dateStr
      then (case jalali_of_day lib (local_day tz (now e)) of (jy, jm, jd) \<Rightarrow> if week_number lib jy jm jd mod 2 = 1 then 1 else 2)
      else (let s = str_or dateStr ''''
            in case three_numbers (split_on (\<lambda>c. c = CHR ''-'' \<or> c = CHR ''/'') (trim s)) of
                 Some (y, m, d) \<Rightarrow>
                   week_of lib (if 1300 < y \<and> y < 1500 then (y, m, d) else toJalaali lib (int y) (int m) (int d))
               | None \<Rightarrow> (case parse s of Some t \<Rightarrow> week_of lib (jalali_of_day lib (local_day tz t)) | None \<Rightarrow> 1)))"

section \<open>Tables\<close>

datatype AttendanceStatus = PRESENT | ABSENT | TARDY | EXCUSED_ABSENT | EXPELLED

datatype TeacherAttendanceStatus_row = TA_PRESENT | TA_ABSENT | LEAVE_AUTHORIZED | LEAVE_UNAUTHORIZED

datatype DisciplinaryRewardType = POSITIVE | NEGATIVE | WARNING | HOMEWORK_INCOMPLETE | EXCELLENT | NO_REWARD

record StudentAttendance =
  sa_id :: id
  sa_tenantId :: id
  sa_academicYearId :: id
  sa_classroomId :: id
  sa_lessonId :: "id option"
  sa_scheduleId :: "id option"
  sa_studentId :: id
  sa_date :: string
  sa_periodNumber :: "int option"
  sa_status :: AttendanceStatus
  sa_delayMinutes :: int
  sa_reason :: "string option"
  sa_oralGrade :: "rat option"
  sa_rewardDisciplineType :: "DisciplinaryRewardType option"
  sa_rewardDisciplineNote :: "string option"
  sa_sessionNote :: "string option"
  sa_recordedById :: id

record TeacherAttendance_row =
  ta_id :: id
  ta_tenantId :: id
  ta_teacherId :: id
  ta_date :: string
  ta_entryTime :: "string option"
  ta_exitTime :: "string option"
  ta_status :: TeacherAttendanceStatus_row
  ta_notes :: "string option"
  ta_recordedById :: id

record AcademicYear_row =
  ay_id :: id
  ay_tenantId :: id
  ay_name :: string
  ay_isCurrent :: bool

record ClassSchedule =
  cs_id :: id
  cs_tenantId :: id
  cs_classroomId :: id
  cs_lessonId :: id
  cs_teacherId :: id
  cs_isSplitPeriod :: bool
  cs_secondLessonId :: "id option"
  cs_secondTeacherId :: "id option"
  cs_dayOfWeek :: DayOfWeek
  cs_periodNumber :: int

record roster_enrollment =
  ro_tenantId :: id
  ro_classroomId :: id
  ro_studentId :: id
  ro_active :: bool

record roster_student =
  rs_id :: id
  rs_tenantId :: id
  rs_userId :: id
  rs_studentCode :: string
  rs_firstName :: string
  rs_lastName :: string
  rs_fatherPhone :: "string option"
  rs_motherPhone :: "string option"

record daily_stats =
  ds_date :: string
  ds_totalEnrolled :: nat
  ds_totalRecords :: nat
  ds_present :: nat
  ds_absent :: nat
  ds_tardy :: nat
  ds_excused :: nat
  ds_expelled :: nat

text \<open>Teachers are profile, account and tenant; parents account, tenant and children.  Redis holds the statistics of a
  tenant and date text with the time they expire.\<close>

record attendance_db =
  registerClassrooms :: "Classroom list"
  rosterEnrollments :: "roster_enrollment list"
  rosterStudents :: "roster_student list"
  academicYears :: "AcademicYear_row list"
  studentAttendances :: "StudentAttendance list"
  teacherAttendances :: "TeacherAttendance_row list"
  classSchedules :: "ClassSchedule list"
  registerLessons :: "id list"
  registerTeachers :: "(id \<times> id \<times> id) list"
  registerParents :: "(id \<times> id \<times> id list) list"
  statsReady :: bool
  statsCache :: "id \<Rightarrow> string \<Rightarrow> (daily_stats \<times> time) option"

section \<open>Recording students\<close>

record SingleStudentAttendanceItemDto =
  it_studentId :: id
  it_status :: AttendanceStatus
  it_delayMinutes :: "int option"
  it_reason :: "string option"
  it_oralGrade :: "rat option"
  it_rewardDisciplineType :: "DisciplinaryRewardType option"
  it_rewardDisciplineNote :: "string option"
  it_sessionNote :: "string option"

record BulkRecordStudentAttendanceDto =
  bs_academicYearId :: "id option"
  bs_classroomId :: id
  bs_lessonId :: "id option"
  bs_scheduleId :: "id option"
  bs_date :: string
  bs_periodNumber :: "int option"
  bs_attendances :: "SingleStudentAttendanceItemDto list"

definition period_of :: "BulkRecordStudentAttendanceDto \<Rightarrow> int" where
  "period_of dto = (case bs_periodNumber dto of None \<Rightarrow> 1 | Some p \<Rightarrow> p)"

definition newest_year :: "id \<Rightarrow> attendance_db \<Rightarrow> AcademicYear_row option" where
  "newest_year tenantId db =
     (let ys = rev (filter (\<lambda>y. ay_tenantId y = tenantId) (academicYears db))
      in case find ay_isCurrent ys of Some y \<Rightarrow> Some y | None \<Rightarrow> (case ys of [] \<Rightarrow> None | y # _ \<Rightarrow> Some y))"

definition fallback_year_name :: string where
  "fallback_year_name = ''1404-1405''"

text \<open>The year of the request, of the class, the current or newest of the tenant, or a new one, which is written outside
  the transaction.\<close>

definition attendance_year :: "id \<Rightarrow> BulkRecordStudentAttendanceDto \<Rightarrow> env \<Rightarrow> attendance_db \<Rightarrow> id \<times> attendance_db" where
  "attendance_year tenantId dto e db =
     (let given = (if truthy (bs_academicYearId dto) then bs_academicYearId dto
        else map_option cl_academicYearId (find (\<lambda>c. cl_id c = bs_classroomId dto) (registerClassrooms db)));
          known = (if truthy given then given else map_option ay_id (newest_year tenantId db))
      in if truthy known then (str_or known '''', db)
         else (case find (\<lambda>y. ay_tenantId y = tenantId \<and> ay_name y = fallback_year_name) (academicYears db) of
             Some y \<Rightarrow> (ay_id y, db)
           | None \<Rightarrow> (uuid e 0, db\<lparr>academicYears := academicYears db @
               [\<lparr>ay_id = uuid e 0, ay_tenantId = tenantId, ay_name = fallback_year_name, ay_isCurrent = True\<rparr>]\<rparr>)))"

definition attendance_key :: "StudentAttendance \<Rightarrow> id \<times> id \<times> id \<times> string \<times> int option" where
  "attendance_key r = (sa_tenantId r, sa_classroomId r, sa_studentId r, sa_date r, sa_periodNumber r)"

text \<open>The unique key does not count rows without a period.\<close>

definition attendance_key_taken :: "StudentAttendance \<Rightarrow> StudentAttendance list \<Rightarrow> bool" where
  "attendance_key_taken r rows \<longleftrightarrow> sa_periodNumber r \<noteq> None \<and> attendance_key r \<in> set (map attendance_key rows)"

definition attendance_refs :: "attendance_db \<Rightarrow> StudentAttendance \<Rightarrow> http_error option" where
  "attendance_refs db r =
     (if (case sa_lessonId r of None \<Rightarrow> False | Some l \<Rightarrow> l \<notin> set (registerLessons db)) then Some (ForeignKeyViolation ''StudentAttendance.lessonId'')
      else if (case sa_scheduleId r of None \<Rightarrow> False | Some s \<Rightarrow> s \<notin> set (map cs_id (classSchedules db)))
        then Some (ForeignKeyViolation ''StudentAttendance.scheduleId'')
      else None)"

definition create_attendance :: "StudentAttendance \<Rightarrow> attendance_db \<Rightarrow> http_error + attendance_db" where
  "create_attendance r db =
     (if sa_id r \<in> set (map sa_id (studentAttendances db)) then Inl (UniqueViolation ''StudentAttendance.id'')
      else if attendance_key_taken r (studentAttendances db) then Inl (UniqueViolation ''StudentAttendance'')
      else if sa_studentId r \<notin> set (map rs_id (rosterStudents db)) then Inl (ForeignKeyViolation ''StudentAttendance.studentId'')
      else if sa_classroomId r \<notin> set (map cl_id (registerClassrooms db)) then Inl (ForeignKeyViolation ''StudentAttendance.classroomId'')
      else if sa_academicYearId r \<notin> set (map ay_id (academicYears db)) then Inl (ForeignKeyViolation ''StudentAttendance.academicYearId'')
      else (case attendance_refs db r of
          Some err \<Rightarrow> Inl err
        | None \<Rightarrow> Inr (db\<lparr>studentAttendances := studentAttendances db @ [r]\<rparr>)))"

definition session_records :: "id \<Rightarrow> BulkRecordStudentAttendanceDto \<Rightarrow> attendance_db \<Rightarrow> StudentAttendance list" where
  "session_records tenantId dto db = filter (\<lambda>r. sa_tenantId r = tenantId \<and> sa_classroomId r = bs_classroomId dto
     \<and> sa_date r = bs_date dto \<and> sa_periodNumber r = Some (period_of dto)
     \<and> sa_studentId r \<in> set (map it_studentId (bs_attendances dto))) (studentAttendances db)"

definition re_recorded :: "BulkRecordStudentAttendanceDto \<Rightarrow> SingleStudentAttendanceItemDto \<Rightarrow> id \<Rightarrow> StudentAttendance
    \<Rightarrow> StudentAttendance \<Rightarrow> StudentAttendance" where
  "re_recorded dto item recordedById existing r = r\<lparr>sa_status := it_status item, sa_delayMinutes := int_or (it_delayMinutes item) 0,
     sa_reason := keep_undefined (it_reason item) (sa_reason r), sa_oralGrade := keep_undefined (it_oralGrade item) (sa_oralGrade existing),
     sa_rewardDisciplineType := keep_undefined (it_rewardDisciplineType item) (sa_rewardDisciplineType existing),
     sa_rewardDisciplineNote := keep_undefined (it_rewardDisciplineNote item) (sa_rewardDisciplineNote existing),
     sa_sessionNote := keep_undefined (it_sessionNote item) (sa_sessionNote existing), sa_recordedById := recordedById,
     sa_lessonId := js_or (bs_lessonId dto) (sa_lessonId existing), sa_scheduleId := js_or (bs_scheduleId dto) (sa_scheduleId existing)\<rparr>"

definition null_if_empty :: "string option \<Rightarrow> string option" where
  "null_if_empty x = (if truthy x then x else None)"

definition new_attendance :: "id \<Rightarrow> id \<Rightarrow> BulkRecordStudentAttendanceDto \<Rightarrow> SingleStudentAttendanceItemDto \<Rightarrow> id \<Rightarrow> id \<Rightarrow> StudentAttendance" where
  "new_attendance i tenantId dto item yearId recordedById = \<lparr>sa_id = i, sa_tenantId = tenantId, sa_academicYearId = yearId,
     sa_classroomId = bs_classroomId dto, sa_lessonId = bs_lessonId dto, sa_scheduleId = bs_scheduleId dto, sa_studentId = it_studentId item,
     sa_date = bs_date dto, sa_periodNumber = Some (period_of dto), sa_status = it_status item,
     sa_delayMinutes = int_or (it_delayMinutes item) 0, sa_reason = it_reason item, sa_oralGrade = it_oralGrade item,
     sa_rewardDisciplineType = it_rewardDisciplineType item, sa_rewardDisciplineNote = null_if_empty (it_rewardDisciplineNote item),
     sa_sessionNote = null_if_empty (it_sessionNote item), sa_recordedById = recordedById\<rparr>"

text \<open>The writes are built from the records read before the transaction.\<close>

definition record_attendance :: "id \<Rightarrow> id \<Rightarrow> BulkRecordStudentAttendanceDto \<Rightarrow> id \<Rightarrow> (id \<rightharpoonup> StudentAttendance) \<Rightarrow> env
    \<Rightarrow> nat \<times> SingleStudentAttendanceItemDto \<Rightarrow> attendance_db \<Rightarrow> http_error + attendance_db" where
  "record_attendance tenantId recordedById dto yearId existingMap e row db =
     (case existingMap (it_studentId (snd row)) of
        Some r \<Rightarrow> (case attendance_refs db (re_recorded dto (snd row) recordedById r r) of
            Some err \<Rightarrow> Inl err
          | None \<Rightarrow> Inr (db\<lparr>studentAttendances :=
              update_row sa_id (sa_id r) (re_recorded dto (snd row) recordedById r) (studentAttendances db)\<rparr>))
      | None \<Rightarrow> create_attendance (new_attendance (uuid e (Suc (fst row))) tenantId dto (snd row) yearId recordedById) db)"

record absence_event =
  ev_studentId :: id
  ev_studentName :: string
  ev_parentPhone :: "string option"
  ev_date :: string
  ev_periodNumber :: int
  ev_status :: AttendanceStatus

definition absence_events :: "BulkRecordStudentAttendanceDto \<Rightarrow> attendance_db \<Rightarrow> absence_event list" where
  "absence_events dto db =
     map (\<lambda>item. case find (\<lambda>s. rs_id s = it_studentId item) (rosterStudents db) of
        Some s \<Rightarrow> \<lparr>ev_studentId = it_studentId item, ev_studentName = rs_firstName s @ '' '' @ rs_lastName s,
            ev_parentPhone = js_or (rs_fatherPhone s) (rs_motherPhone s), ev_date = bs_date dto, ev_periodNumber = period_of dto,
            ev_status = it_status item\<rparr>
      | None \<Rightarrow> \<lparr>ev_studentId = it_studentId item, ev_studentName = '''', ev_parentPhone = None, ev_date = bs_date dto,
            ev_periodNumber = period_of dto, ev_status = it_status item\<rparr>)
       (filter (\<lambda>item. it_status item \<in> {ABSENT, TARDY}) (bs_attendances dto))"

definition drop_stats :: "id \<Rightarrow> string \<Rightarrow> attendance_db \<Rightarrow> attendance_db" where
  "drop_stats tenantId date db =
     (if statsReady db then db\<lparr>statsCache := (statsCache db)(tenantId := (statsCache db tenantId)(date := None))\<rparr> else db)"

definition recordStudentAttendanceBulk :: "id \<Rightarrow> id \<Rightarrow> BulkRecordStudentAttendanceDto \<Rightarrow> env \<Rightarrow> attendance_db
    \<Rightarrow> (http_error + nat \<times> absence_event list) \<times> attendance_db" where
  "recordStudentAttendanceBulk tenantId recordedById dto e db =
     (if bs_attendances dto = [] then (Inl (BadRequest ''attendances''), db)
      else (let (yearId, db1) = attendance_year tenantId dto e db;
                existingMap = map_of (map (\<lambda>r. (sa_studentId r, r)) (rev (session_records tenantId dto db1)))
            in case foldE (record_attendance tenantId recordedById dto yearId existingMap e)
                   (zip [0..<length (bs_attendances dto)] (bs_attendances dto)) db1 of
                 Inl err \<Rightarrow> (Inl err, db1)
               | Inr db2 \<Rightarrow> (Inr (length (bs_attendances dto), absence_events dto db1), drop_stats tenantId (bs_date dto) db2)))"

section \<open>Recording teachers\<close>

record RecordTeacherAttendanceDto =
  rt_teacherId :: id
  rt_date :: string
  rt_entryTime :: "string option"
  rt_exitTime :: "string option"
  rt_status :: TeacherAttendanceStatus_row
  rt_notes :: "string option"

definition recordTeacherAttendance :: "id \<Rightarrow> id \<Rightarrow> RecordTeacherAttendanceDto \<Rightarrow> env \<Rightarrow> attendance_db \<Rightarrow> http_error + TeacherAttendance_row \<times> attendance_db" where
  "recordTeacherAttendance tenantId recordedById dto e db =
     (case find (\<lambda>r. ta_tenantId r = tenantId \<and> ta_teacherId r = rt_teacherId dto \<and> ta_date r = rt_date dto) (teacherAttendances db) of
        Some r \<Rightarrow> (let r' = r\<lparr>ta_entryTime := keep_undefined (rt_entryTime dto) (ta_entryTime r),
              ta_exitTime := keep_undefined (rt_exitTime dto) (ta_exitTime r), ta_status := rt_status dto,
              ta_notes := keep_undefined (rt_notes dto) (ta_notes r), ta_recordedById := recordedById\<rparr>
            in Inr (r', db\<lparr>teacherAttendances := update_row ta_id (ta_id r) (\<lambda>_. r') (teacherAttendances db)\<rparr>))
      | None \<Rightarrow> (let r = \<lparr>ta_id = uuid e 0, ta_tenantId = tenantId, ta_teacherId = rt_teacherId dto, ta_date = rt_date dto,
              ta_entryTime = rt_entryTime dto, ta_exitTime = rt_exitTime dto, ta_status = rt_status dto, ta_notes = rt_notes dto,
              ta_recordedById = recordedById\<rparr>
            in if uuid e 0 \<in> set (map ta_id (teacherAttendances db)) then Inl (UniqueViolation ''TeacherAttendance.id'')
               else if rt_teacherId dto \<notin> set (map fst (registerTeachers db)) then Inl (ForeignKeyViolation ''TeacherAttendance.teacherId'')
               else Inr (r, db\<lparr>teacherAttendances := teacherAttendances db @ [r]\<rparr>)))"

definition listTeacherAttendance :: "id \<Rightarrow> string \<Rightarrow> attendance_db \<Rightarrow> TeacherAttendance_row list" where
  "listTeacherAttendance tenantId date db = filter (\<lambda>r. ta_tenantId r = tenantId \<and> ta_date r = date) (teacherAttendances db)"

end
