(* ===== verification/Attendance.thy ===== *)
theory Attendance
  imports Attendance_Model
begin

text \<open>
  The reads of the attendance service: the roster of a class with the absences carried over from earlier periods,
  the summaries, histories, the daily timetable with its alternating weeks and the cached statistics of a day.
\<close>

section \<open>The roster of a class\<close>

record roster_row =
  rw_studentId :: id
  rw_status :: AttendanceStatus
  rw_delayMinutes :: int
  rw_reason :: "string option"
  rw_oralGrade :: "rat option"
  rw_rewardDisciplineType :: DisciplinaryRewardType
  rw_rewardDisciplineNote :: string
  rw_sessionNote :: string
  rw_isRecorded :: bool
  rw_inheritedFromPeriod :: "int option"
  rw_attendanceId :: "id option"

record roster_summary =
  rm_total :: nat
  rm_present :: nat
  rm_absent :: nat
  rm_tardy :: nat
  rm_excused :: nat
  rm_expelled :: nat
  rm_isFullyRecorded :: bool

definition active_roster :: "id \<Rightarrow> id \<Rightarrow> attendance_db \<Rightarrow> roster_enrollment list" where
  "active_roster tenantId classroomId db =
     filter (\<lambda>x. ro_tenantId x = tenantId \<and> ro_classroomId x = classroomId \<and> ro_active x) (rosterEnrollments db)"

definition roster_key :: "attendance_db \<Rightarrow> roster_enrollment \<Rightarrow> string \<times> string" where
  "roster_key db x = (case find (\<lambda>s. rs_id s = ro_studentId x) (rosterStudents db) of
     Some s \<Rightarrow> (rs_studentCode s, rs_lastName s) | None \<Rightarrow> ('''', ''''))"

definition roster_before :: "attendance_db \<Rightarrow> roster_enrollment \<Rightarrow> roster_enrollment \<Rightarrow> bool" where
  "roster_before db a b = (let (c, l) = roster_key db a; (c', l') = roster_key db b in c \<noteq> c' \<and> str_le c c' \<or> c = c' \<and> str_le l l')"

definition register_rows :: "id \<Rightarrow> id \<Rightarrow> string list \<Rightarrow> attendance_db \<Rightarrow> StudentAttendance list" where
  "register_rows tenantId classroomId dates db =
     filter (\<lambda>r. sa_tenantId r = tenantId \<and> sa_classroomId r = classroomId \<and> sa_date r \<in> set dates) (studentAttendances db)"

definition period_desc :: "StudentAttendance \<Rightarrow> StudentAttendance \<Rightarrow> bool" where
  "period_desc a b = (case (sa_periodNumber a, sa_periodNumber b) of
     (Some p, Some q) \<Rightarrow> q \<le> p | (None, _) \<Rightarrow> True | (Some _, None) \<Rightarrow> False)"

text \<open>The latest earlier record of each student.\<close>

definition prior_map :: "int \<Rightarrow> StudentAttendance list \<Rightarrow> (id \<rightharpoonup> StudentAttendance)" where
  "prior_map period rows = map_of (map (\<lambda>r. (sa_studentId r, r))
     (sort_by period_desc (filter (\<lambda>r. case sa_periodNumber r of None \<Rightarrow> False | Some p \<Rightarrow> p < period) rows)))"

definition fallback_status :: "StudentAttendance option \<Rightarrow> AttendanceStatus" where
  "fallback_status prior = (case prior of
     Some r \<Rightarrow> if sa_status r \<in> {ABSENT, EXCUSED_ABSENT} then sa_status r else PRESENT
   | None \<Rightarrow> PRESENT)"

definition roster_row_of :: "(id \<rightharpoonup> StudentAttendance) \<Rightarrow> (id \<rightharpoonup> StudentAttendance) \<Rightarrow> id \<Rightarrow> roster_row" where
  "roster_row_of recorded prior i = (case recorded i of
     Some r \<Rightarrow> \<lparr>rw_studentId = i, rw_status = sa_status r, rw_delayMinutes = sa_delayMinutes r, rw_reason = sa_reason r,
         rw_oralGrade = sa_oralGrade r,
         rw_rewardDisciplineType = (case sa_rewardDisciplineType r of None \<Rightarrow> NO_REWARD | Some x \<Rightarrow> x),
         rw_rewardDisciplineNote = str_or (sa_rewardDisciplineNote r) '''', rw_sessionNote = str_or (sa_sessionNote r) '''',
         rw_isRecorded = True, rw_inheritedFromPeriod = None, rw_attendanceId = Some (sa_id r)\<rparr>
   | None \<Rightarrow> \<lparr>rw_studentId = i, rw_status = fallback_status (prior i), rw_delayMinutes = 0, rw_reason = Some '''', rw_oralGrade = None,
         rw_rewardDisciplineType = NO_REWARD, rw_rewardDisciplineNote = '''', rw_sessionNote = '''', rw_isRecorded = False,
         rw_inheritedFromPeriod = (case prior i of Some r \<Rightarrow> sa_periodNumber r | None \<Rightarrow> None), rw_attendanceId = None\<rparr>)"

definition count_status :: "AttendanceStatus \<Rightarrow> StudentAttendance list \<Rightarrow> nat" where
  "count_status s rows = length (filter (\<lambda>r. sa_status r = s) rows)"

definition count_row :: "AttendanceStatus \<Rightarrow> roster_row list \<Rightarrow> nat" where
  "count_row s rows = length (filter (\<lambda>r. rw_status r = s) rows)"

definition session_rows :: "jalaali \<Rightarrow> id \<Rightarrow> id \<Rightarrow> string \<Rightarrow> int \<Rightarrow> attendance_db \<Rightarrow> StudentAttendance list" where
  "session_rows lib tenantId classroomId date period db =
     filter (\<lambda>r. sa_periodNumber r = Some period) (register_rows tenantId classroomId (getDateVariants lib date) db)"

definition roster_rows :: "jalaali \<Rightarrow> id \<Rightarrow> id \<Rightarrow> string \<Rightarrow> int \<Rightarrow> attendance_db \<Rightarrow> roster_row list" where
  "roster_rows lib tenantId classroomId date period db =
     (let enrollments = sort_by (roster_before db) (active_roster tenantId classroomId db);
          recordedAttendances = session_rows lib tenantId classroomId date period db;
          recordedMap = map_of (map (\<lambda>r. (sa_studentId r, r)) (rev recordedAttendances));
          prior = (if period > 1 \<and> length recordedAttendances < length enrollments
            then prior_map period (register_rows tenantId classroomId (getDateVariants lib date) db) else (\<lambda>_. None))
      in map (\<lambda>x. roster_row_of recordedMap prior (ro_studentId x)) enrollments)"

definition roster_summary_of :: "nat \<Rightarrow> roster_row list \<Rightarrow> roster_summary" where
  "roster_summary_of recordedCount students = \<lparr>rm_total = length students, rm_present = count_row PRESENT students,
     rm_absent = count_row ABSENT students, rm_tardy = count_row TARDY students, rm_excused = count_row EXCUSED_ABSENT students,
     rm_expelled = count_row EXPELLED students, rm_isFullyRecorded = (0 < recordedCount \<and> length students \<le> recordedCount)\<rparr>"

definition getClassroomAttendance :: "jalaali \<Rightarrow> id \<Rightarrow> id \<Rightarrow> string \<Rightarrow> int option \<Rightarrow> attendance_db
    \<Rightarrow> http_error + roster_summary \<times> roster_row list" where
  "getClassroomAttendance lib tenantId classroomId date periodNumber db =
     (case find (\<lambda>c. cl_id c = classroomId \<and> cl_tenantId c = tenantId) (registerClassrooms db) of
        None \<Rightarrow> Inl (NotFound ''classroom'')
      | Some _ \<Rightarrow>
          (let period = (case periodNumber of None \<Rightarrow> 1 | Some p \<Rightarrow> p);
               students = roster_rows lib tenantId classroomId date period db
           in Inr (roster_summary_of (length (session_rows lib tenantId classroomId date period db)) students, students)))"

section \<open>Summaries and histories\<close>

record presence_summary =
  pr_totalSessions :: nat
  pr_presentCount :: nat
  pr_absentCount :: nat
  pr_tardyCount :: nat
  pr_excusedCount :: nat
  pr_presenceRate :: int
  pr_hasExcessiveAbsence :: bool

definition js_round :: "rat \<Rightarrow> int" where
  "js_round x = \<lfloor>x + 1 / 2\<rfloor>"

definition count_presence :: "StudentAttendance \<Rightarrow> presence_summary option \<Rightarrow> presence_summary" where
  "count_presence r x =
     (let st = (case x of Some st \<Rightarrow> st | None \<Rightarrow> \<lparr>pr_totalSessions = 0, pr_presentCount = 0, pr_absentCount = 0, pr_tardyCount = 0,
            pr_excusedCount = 0, pr_presenceRate = 100, pr_hasExcessiveAbsence = False\<rparr>);
          st1 = st\<lparr>pr_totalSessions := pr_totalSessions st + 1\<rparr>
      in case sa_status r of
           PRESENT \<Rightarrow> st1\<lparr>pr_presentCount := pr_presentCount st1 + 1\<rparr>
         | ABSENT \<Rightarrow> st1\<lparr>pr_absentCount := pr_absentCount st1 + 1\<rparr>
         | TARDY \<Rightarrow> st1\<lparr>pr_tardyCount := pr_tardyCount st1 + 1\<rparr>
         | EXCUSED_ABSENT \<Rightarrow> st1\<lparr>pr_excusedCount := pr_excusedCount st1 + 1\<rparr>
         | EXPELLED \<Rightarrow> st1)"

definition rate_presence :: "presence_summary \<Rightarrow> presence_summary" where
  "rate_presence st = st\<lparr>pr_presenceRate := (if pr_totalSessions st > 0
       then js_round (of_nat (pr_presentCount st + pr_tardyCount st) / of_nat (pr_totalSessions st) * 100) else pr_presenceRate st),
     pr_hasExcessiveAbsence := (pr_absentCount st \<ge> 3)\<rparr>"

definition getClassroomAttendanceSummary :: "id \<Rightarrow> id \<Rightarrow> id option \<Rightarrow> attendance_db \<Rightarrow> (id \<times> presence_summary) list" where
  "getClassroomAttendanceSummary tenantId classroomId lessonId db =
     map (\<lambda>(i, st). (i, rate_presence st))
       (fold (\<lambda>r. alter (sa_studentId r) (count_presence r))
         (filter (\<lambda>r. sa_tenantId r = tenantId \<and> sa_classroomId r = classroomId \<and> (truthy lessonId \<longrightarrow> sa_lessonId r = lessonId))
           (studentAttendances db)) [])"

definition by_date_desc :: "StudentAttendance list \<Rightarrow> StudentAttendance list" where
  "by_date_desc = sort_by (\<lambda>a b. str_le (sa_date b) (sa_date a))"

definition getStudentAttendanceHistory :: "id \<Rightarrow> id \<Rightarrow> attendance_db \<Rightarrow> StudentAttendance list" where
  "getStudentAttendanceHistory tenantId studentId db =
     by_date_desc (filter (\<lambda>r. sa_tenantId r = tenantId \<and> sa_studentId r = studentId) (studentAttendances db))"

definition getMyAttendanceHistory :: "id \<Rightarrow> id \<Rightarrow> UserRole \<Rightarrow> attendance_db \<Rightarrow> StudentAttendance list" where
  "getMyAttendanceHistory tenantId userId role db =
     (if role = STUDENT then (case find (\<lambda>s. rs_tenantId s = tenantId \<and> rs_userId s = userId) (rosterStudents db) of
          None \<Rightarrow> [] | Some s \<Rightarrow> getStudentAttendanceHistory tenantId (rs_id s) db)
      else if role = PARENT then (case find (\<lambda>(u, t, _). t = tenantId \<and> u = userId) (registerParents db) of
          None \<Rightarrow> []
        | Some (_, _, children) \<Rightarrow> if children = [] then []
            else by_date_desc (filter (\<lambda>r. sa_tenantId r = tenantId \<and> sa_studentId r \<in> set children) (studentAttendances db)))
      else [])"

text \<open>\<open>lessonId && lessonId !== 'undefined' && lessonId !== 'null'\<close>\<close>

definition real_lesson :: "id option \<Rightarrow> bool" where
  "real_lesson lessonId \<longleftrightarrow> truthy lessonId \<and> lessonId \<noteq> Some ''undefined'' \<and> lessonId \<noteq> Some ''null''"

definition of_lesson :: "id option \<Rightarrow> StudentAttendance \<Rightarrow> bool" where
  "of_lesson lessonId r \<longleftrightarrow> (real_lesson lessonId \<longrightarrow> sa_lessonId r = lessonId \<or> sa_lessonId r = None)"

definition date_then_period_desc :: "StudentAttendance \<Rightarrow> StudentAttendance \<Rightarrow> bool" where
  "date_then_period_desc a b \<longleftrightarrow> sa_date a \<noteq> sa_date b \<and> str_le (sa_date b) (sa_date a) \<or> sa_date a = sa_date b \<and> period_desc a b"

definition is_positive :: "StudentAttendance \<Rightarrow> bool" where
  "is_positive r \<longleftrightarrow> sa_rewardDisciplineType r \<in> {Some POSITIVE, Some EXCELLENT}"

definition is_negative :: "StudentAttendance \<Rightarrow> bool" where
  "is_negative r \<longleftrightarrow> sa_rewardDisciplineType r \<in> {Some NEGATIVE, Some WARNING, Some HOMEWORK_INCOMPLETE}"

record subject_history =
  sh_totalSessions :: nat
  sh_presentCount :: nat
  sh_absentCount :: nat
  sh_tardyCount :: nat
  sh_excusedCount :: nat
  sh_oralGradesCount :: nat
  sh_oralAverage :: "rat option"
  sh_positiveRewardsCount :: nat
  sh_negativeDisciplineCount :: nat
  sh_sessions :: "StudentAttendance list"

definition oral_grades :: "StudentAttendance list \<Rightarrow> rat list" where
  "oral_grades rows = List.map_filter sa_oralGrade rows"

definition average_or_null :: "rat list \<Rightarrow> rat option" where
  "average_or_null xs = (if xs = [] then None else Some (average2 xs))"

definition history_of :: "StudentAttendance list \<Rightarrow> subject_history" where
  "history_of records = \<lparr>sh_totalSessions = length records, sh_presentCount = count_status PRESENT records,
     sh_absentCount = count_status ABSENT records, sh_tardyCount = count_status TARDY records,
     sh_excusedCount = count_status EXCUSED_ABSENT records, sh_oralGradesCount = length (oral_grades records),
     sh_oralAverage = average_or_null (oral_grades records), sh_positiveRewardsCount = length (filter is_positive records),
     sh_negativeDisciplineCount = length (filter is_negative records), sh_sessions = records\<rparr>"

definition getStudentSubjectHistory :: "id \<Rightarrow> id \<Rightarrow> id \<Rightarrow> id option \<Rightarrow> attendance_db \<Rightarrow> http_error + subject_history" where
  "getStudentSubjectHistory tenantId studentId classroomId lessonId db =
     (case find (\<lambda>s. rs_id s = studentId \<and> rs_tenantId s = tenantId) (rosterStudents db) of
        None \<Rightarrow> Inl (NotFound ''student'')
      | Some _ \<Rightarrow> Inr (history_of (sort_by date_then_period_desc (filter (\<lambda>r. sa_tenantId r = tenantId \<and> sa_studentId r = studentId
          \<and> (classroomId \<noteq> [] \<longrightarrow> sa_classroomId r = classroomId) \<and> of_lesson lessonId r) (studentAttendances db)))))"

section \<open>The timetable of a day\<close>

record slot_stats =
  st_scheduleId :: id
  st_lessonId :: id
  st_teacherId :: id
  st_periodNumber :: int
  st_totalStudents :: nat
  st_recordedCount :: nat
  st_presentCount :: nat
  st_absentCount :: nat
  st_tardyCount :: nat
  st_excusedCount :: nat
  st_isRecorded :: bool
  st_isFullyRecorded :: bool

text \<open>Slots of alternating weeks are kept when they are taught in the active one.\<close>

definition slot_applies :: "nat \<Rightarrow> id option \<Rightarrow> ClassSchedule \<Rightarrow> bool" where
  "slot_applies activeWeek teacherId slot =
     (if \<not> cs_isSplitPeriod slot then True
      else if truthy teacherId then
        (if activeWeek = 1 then Some (cs_teacherId slot) = teacherId
         else cs_secondTeacherId slot = teacherId \<and> truthy (cs_secondLessonId slot))
      else if activeWeek = 2 then truthy (cs_secondLessonId slot)
      else True)"

definition slot_stats_of :: "jalaali \<Rightarrow> id \<Rightarrow> string \<Rightarrow> nat \<Rightarrow> attendance_db \<Rightarrow> ClassSchedule \<Rightarrow> slot_stats" where
  "slot_stats_of lib tenantId dateStr activeWeek db slot =
     (let totalStudents = length (active_roster tenantId (cs_classroomId slot) db);
          rows = filter (\<lambda>r. sa_periodNumber r = Some (cs_periodNumber slot))
            (register_rows tenantId (cs_classroomId slot) (getDateVariants lib dateStr) db);
          second = (cs_isSplitPeriod slot \<and> activeWeek = 2)
      in \<lparr>st_scheduleId = cs_id slot,
          st_lessonId = (if second then str_or (cs_secondLessonId slot) (cs_lessonId slot) else cs_lessonId slot),
          st_teacherId = (if second then str_or (cs_secondTeacherId slot) (cs_teacherId slot) else cs_teacherId slot),
          st_periodNumber = cs_periodNumber slot, st_totalStudents = totalStudents, st_recordedCount = length rows,
          st_presentCount = count_status PRESENT rows, st_absentCount = count_status ABSENT rows, st_tardyCount = count_status TARDY rows,
          st_excusedCount = count_status EXCUSED_ABSENT rows, st_isRecorded = (rows \<noteq> []),
          st_isFullyRecorded = (0 < totalStudents \<and> totalStudents \<le> length rows)\<rparr>)"

definition getTeacherDailySchedule :: "jalaali \<Rightarrow> (string \<Rightarrow> time option) \<Rightarrow> int \<Rightarrow> env \<Rightarrow> id \<Rightarrow> id \<Rightarrow> UserRole \<Rightarrow> string \<Rightarrow> id option
    \<Rightarrow> attendance_db \<Rightarrow> slot_stats list" where
  "getTeacherDailySchedule lib parse tz e tenantId userId userRole dateStr teacherIdQuery db =
     (let dayOfWeek = getDayOfWeekFromDate lib parse tz e (Some dateStr);
          activeWeek = getActiveWeekFromDate lib parse tz e (Some dateStr);
          slots = (\<lambda>teacherId. map (slot_stats_of lib tenantId dateStr activeWeek db)
            (filter (slot_applies activeWeek teacherId) (sort_by (\<lambda>a b. cs_periodNumber a \<le> cs_periodNumber b)
              (filter (\<lambda>s. cs_tenantId s = tenantId \<and> cs_dayOfWeek s = dayOfWeek
                 \<and> (truthy teacherId \<longrightarrow> Some (cs_teacherId s) = teacherId \<or> cs_secondTeacherId s = teacherId)) (classSchedules db)))))
      in if userRole = TEACHER then (case find (\<lambda>(_, u, t). t = tenantId \<and> u = userId) (registerTeachers db) of
           None \<Rightarrow> [] | Some (i, _) \<Rightarrow> slots (Some i))
         else slots teacherIdQuery)"

section \<open>The statistics of a day\<close>

definition stats_get :: "id \<Rightarrow> string \<Rightarrow> time \<Rightarrow> attendance_db \<Rightarrow> daily_stats option" where
  "stats_get tenantId date t db =
     (if statsReady db then (case statsCache db tenantId date of
          Some (v, expires) \<Rightarrow> if t < expires then Some v else None
        | None \<Rightarrow> None) else None)"

definition stats_set :: "id \<Rightarrow> string \<Rightarrow> daily_stats \<Rightarrow> time \<Rightarrow> attendance_db \<Rightarrow> attendance_db" where
  "stats_set tenantId date v t db =
     (if statsReady db then db\<lparr>statsCache := (statsCache db)(tenantId := (statsCache db tenantId)(date := Some (v, t + 180 * 1000)))\<rparr>
      else db)"

definition stats_of_day :: "jalaali \<Rightarrow> id \<Rightarrow> string \<Rightarrow> attendance_db \<Rightarrow> daily_stats" where
  "stats_of_day lib tenantId date db =
     (let records = filter (\<lambda>r. sa_tenantId r = tenantId \<and> sa_date r \<in> set (getDateVariants lib date)) (studentAttendances db)
      in \<lparr>ds_date = date, ds_totalEnrolled = length (filter (\<lambda>x. ro_tenantId x = tenantId \<and> ro_active x) (rosterEnrollments db)),
          ds_totalRecords = length records, ds_present = count_status PRESENT records, ds_absent = count_status ABSENT records,
          ds_tardy = count_status TARDY records, ds_excused = count_status EXCUSED_ABSENT records,
          ds_expelled = count_status EXPELLED records\<rparr>)"

definition getDailyStats :: "jalaali \<Rightarrow> id \<Rightarrow> string \<Rightarrow> env \<Rightarrow> attendance_db \<Rightarrow> daily_stats \<times> attendance_db" where
  "getDailyStats lib tenantId date e db =
     (case stats_get tenantId date (now e) db of
        Some v \<Rightarrow> (v, db)
      | None \<Rightarrow> (let v = stats_of_day lib tenantId date db in (v, stats_set tenantId date v (now e) db)))"

end
