(* ===== verification/Attendance_Laws.thy ===== *)
theory Attendance_Laws
  imports Attendance Gradebook_Laws Rbac_Laws
begin

text \<open>
  The laws of attendance: the keys of the register through every request, what a recording leaves in it, what
  the roster reads from it, the cache of the statistics as an instance of \<open>cached_reads\<close>, and the arithmetic of the weeks.
\<close>

section \<open>Well-formed registers\<close>

definition record_refs :: "attendance_db \<Rightarrow> StudentAttendance \<Rightarrow> bool" where
  "record_refs db r \<longleftrightarrow> sa_studentId r \<in> set (map rs_id (rosterStudents db)) \<and> sa_classroomId r \<in> set (map cl_id (registerClassrooms db))
     \<and> sa_academicYearId r \<in> set (map ay_id (academicYears db)) \<and> attendance_refs db r = None"

definition teacher_key :: "TeacherAttendance_row \<Rightarrow> id \<times> id \<times> string" where
  "teacher_key r = (ta_tenantId r, ta_teacherId r, ta_date r)"

definition has_period :: "StudentAttendance \<Rightarrow> bool" where
  "has_period r \<longleftrightarrow> sa_periodNumber r \<noteq> None"

definition attendance_wf :: "attendance_db \<Rightarrow> bool" where
  "attendance_wf db \<longleftrightarrow> distinct (map sa_id (studentAttendances db))
     \<and> distinct (map attendance_key (filter has_period (studentAttendances db)))
     \<and> (\<forall>r \<in> set (studentAttendances db). record_refs db r)
     \<and> distinct (map ta_id (teacherAttendances db)) \<and> distinct (map teacher_key (teacherAttendances db))
     \<and> (\<forall>r \<in> set (teacherAttendances db). ta_teacherId r \<in> set (map fst (registerTeachers db)))"

interpretation re_record: keyed_update sa_id "re_recorded dto item u r" for dto item u r
  by unfold_locales (simp add: re_recorded_def)

interpretation re_record_key: keyed_update attendance_key "re_recorded dto item u r" for dto item u r
  by unfold_locales (simp add: re_recorded_def attendance_key_def)

lemma re_recorded_period [simp]: "has_period (re_recorded dto item u r' r) = has_period r"
  by (simp add: re_recorded_def has_period_def)

lemma keys_update:
  "map attendance_key (filter has_period (update_row sa_id i (re_recorded dto item u r) rows)) = map attendance_key (filter has_period rows)"
  by (induction rows) (auto simp: update_row_def re_record_key.key_kept)

lemma attendance_refs_cong:
  "sa_lessonId r = sa_lessonId r' \<Longrightarrow> sa_scheduleId r = sa_scheduleId r' \<Longrightarrow> registerLessons db' = registerLessons db
     \<Longrightarrow> classSchedules db' = classSchedules db \<Longrightarrow> attendance_refs db' r = attendance_refs db r'"
  by (simp add: attendance_refs_def split: option.split)

lemma attendance_refs_None:
  "attendance_refs db r = None \<longleftrightarrow> (\<forall>l. sa_lessonId r = Some l \<longrightarrow> l \<in> set (registerLessons db))
     \<and> (\<forall>s. sa_scheduleId r = Some s \<longrightarrow> s \<in> set (map cs_id (classSchedules db)))"
  by (auto simp: attendance_refs_def split: option.split)

lemma create_attendanceE:
  assumes "create_attendance r db = Inr db'"
  obtains "db' = db\<lparr>studentAttendances := studentAttendances db @ [r]\<rparr>" and "sa_id r \<notin> set (map sa_id (studentAttendances db))"
    and "\<not> attendance_key_taken r (studentAttendances db)" and "record_refs db r"
  using assms by (auto simp: create_attendance_def record_refs_def split: if_splits option.splits)

lemma record_attendanceE:
  assumes "record_attendance t u dto y m e row db = Inr db'"
  obtains (update) r where "m (it_studentId (snd row)) = Some r"
      and "db' = db\<lparr>studentAttendances := update_row sa_id (sa_id r) (re_recorded dto (snd row) u r) (studentAttendances db)\<rparr>"
      and "attendance_refs db (re_recorded dto (snd row) u r r) = None"
  | (create) i where "m (it_studentId (snd row)) = None" and "create_attendance (new_attendance i t dto (snd row) y u) db = Inr db'"
  using assms by (auto simp: record_attendance_def split: option.splits)

definition same_register :: "attendance_db \<Rightarrow> attendance_db \<Rightarrow> bool" where
  "same_register db db' \<longleftrightarrow> registerClassrooms db' = registerClassrooms db \<and> rosterEnrollments db' = rosterEnrollments db
     \<and> rosterStudents db' = rosterStudents db \<and> set (academicYears db) \<subseteq> set (academicYears db') \<and> classSchedules db' = classSchedules db
     \<and> registerLessons db' = registerLessons db \<and> registerTeachers db' = registerTeachers db"

lemma record_refs_mono: "same_register db db' \<Longrightarrow> record_refs db r \<Longrightarrow> record_refs db' r"
  by (auto simp: same_register_def record_refs_def attendance_refs_None)

lemma record_attendance_wf:
  assumes "record_attendance t u dto y m e row db = Inr db'" and "attendance_wf db"
  shows "attendance_wf db' \<and> same_register db db' \<and> teacherAttendances db' = teacherAttendances db"
  using assms(1)
proof (cases rule: record_attendanceE)
  case (update r)
  let ?f = "re_recorded dto (snd row) u r"
  have "record_refs db' x" if "x \<in> set (studentAttendances db')" for x
  proof -
    from that obtain x0 where x0: "x0 \<in> set (studentAttendances db)" "x = x0 \<or> x = ?f x0"
      by (auto simp: update(2) set_update_row split: if_splits)
    have "record_refs db x0" using assms(2) x0(1) by (simp add: attendance_wf_def)
    moreover have "attendance_refs db (?f x0) = attendance_refs db (?f r)" by (rule attendance_refs_cong) (simp_all add: re_recorded_def)
    ultimately have "record_refs db x" using x0(2) update(3) by (auto simp: record_refs_def re_recorded_def)
    then show ?thesis by (simp add: record_refs_def update(2) attendance_refs_None)
  qed
  with assms(2) show ?thesis by (simp add: attendance_wf_def update(2) keys_update re_record.map_key_update same_register_def)
next
  case (create i)
  from create(2) show ?thesis
  proof (rule create_attendanceE)
    assume db': "db' = db\<lparr>studentAttendances := studentAttendances db @ [new_attendance i t dto (snd row) y u]\<rparr>"
      and new: "sa_id (new_attendance i t dto (snd row) y u) \<notin> set (map sa_id (studentAttendances db))"
      "\<not> attendance_key_taken (new_attendance i t dto (snd row) y u) (studentAttendances db)" "record_refs db (new_attendance i t dto (snd row) y u)"
    have same: "same_register db db'" by (simp add: db' same_register_def)
    have "\<forall>x \<in> set (studentAttendances db'). record_refs db' x"
      using assms(2) new(3) record_refs_mono [OF same] by (auto simp: db' attendance_wf_def)
    moreover have "attendance_key (new_attendance i t dto (snd row) y u) \<notin> set (map attendance_key (studentAttendances db))"
      using new(2) by (simp add: attendance_key_taken_def new_attendance_def)
    ultimately show ?thesis using assms(2) new(1) same by (auto simp: attendance_wf_def db')
  qed
qed

lemma same_register_refl [simp]: "same_register db db"
  by (simp add: same_register_def)

lemma same_register_trans: "same_register a b \<Longrightarrow> same_register b c \<Longrightarrow> same_register a c"
  by (auto simp: same_register_def)

lemma record_loop_wf:
  assumes "foldE (record_attendance t u dto y m e) rows db = Inr db'" and "attendance_wf db"
  shows "attendance_wf db' \<and> same_register db db' \<and> teacherAttendances db' = teacherAttendances db"
  by (rule foldE_invariant [where I = "\<lambda>d. attendance_wf d \<and> same_register db d \<and> teacherAttendances d = teacherAttendances db", OF _ _ assms(1)])
    (use assms(2) record_attendance_wf in \<open>auto intro: same_register_trans\<close>)

lemma attendance_year_cases:
  assumes "attendance_year t dto e db = (y, db1)"
  shows "db1 = db \<or> (\<exists>r. db1 = db\<lparr>academicYears := academicYears db @ [r]\<rparr>)"
  using assms by (auto simp: attendance_year_def Let_def split: if_splits option.splits)

lemma year_step:
  assumes "attendance_year t dto e db = (y, db1)" and "attendance_wf db"
  shows "attendance_wf db1 \<and> same_register db db1 \<and> studentAttendances db1 = studentAttendances db
    \<and> teacherAttendances db1 = teacherAttendances db \<and> statsCache db1 = statsCache db \<and> statsReady db1 = statsReady db"
proof -
  from attendance_year_cases [OF assms(1)] have same: "same_register db db1" and rows: "studentAttendances db1 = studentAttendances db"
    "teacherAttendances db1 = teacherAttendances db" "statsCache db1 = statsCache db" "statsReady db1 = statsReady db"
    by (auto simp: same_register_def)
  have "\<forall>r \<in> set (studentAttendances db1). record_refs db1 r"
    using assms(2) record_refs_mono [OF same] by (auto simp: attendance_wf_def rows)
  with assms(2) same rows show ?thesis by (simp add: attendance_wf_def same_register_def)
qed

lemma drop_stats_wf [simp]:
  "attendance_wf (drop_stats t d db) = attendance_wf db" "studentAttendances (drop_stats t d db) = studentAttendances db"
  "rosterEnrollments (drop_stats t d db) = rosterEnrollments db" "rosterStudents (drop_stats t d db) = rosterStudents db"
  "registerClassrooms (drop_stats t d db) = registerClassrooms db" "statsReady (drop_stats t d db) = statsReady db"
  by (simp_all add: drop_stats_def attendance_wf_def record_refs_def attendance_refs_None)

text \<open>A recording, accepted or refused.\<close>

lemma record_studentsE:
  assumes "recordStudentAttendanceBulk t u dto e db = (res, db')"
  obtains (refused) err where "res = Inl err" and "db' = db \<or> (\<exists>y. attendance_year t dto e db = (y, db'))"
  | (accepted) y db1 db2 where "attendance_year t dto e db = (y, db1)"
      and "foldE (record_attendance t u dto y (map_of (map (\<lambda>r. (sa_studentId r, r)) (rev (session_records t dto db1)))) e)
        (zip [0..<length (bs_attendances dto)] (bs_attendances dto)) db1 = Inr db2"
      and "db' = drop_stats t (bs_date dto) db2" and "res = Inr (length (bs_attendances dto), absence_events dto db1)"
proof (cases "bs_attendances dto = []")
  case True
  with assms show ?thesis by (intro refused) (auto simp: recordStudentAttendanceBulk_def)
next
  case False
  obtain y db1 where y: "attendance_year t dto e db = (y, db1)" by fastforce
  let ?loop = "foldE (record_attendance t u dto y (map_of (map (\<lambda>r. (sa_studentId r, r)) (rev (session_records t dto db1)))) e)
    (zip [0..<length (bs_attendances dto)] (bs_attendances dto)) db1"
  show ?thesis
  proof (cases ?loop)
    case (Inl err)
    with assms False y show ?thesis by (intro refused) (auto simp: recordStudentAttendanceBulk_def)
  next
    case (Inr db2)
    with assms False y show ?thesis by (intro accepted [OF y Inr]) (auto simp: recordStudentAttendanceBulk_def)
  qed
qed

lemma record_students_wf:
  assumes "recordStudentAttendanceBulk t u dto e db = (res, db')" and "attendance_wf db"
  shows "attendance_wf db'"
  using assms(1)
proof (cases rule: record_studentsE)
  case (refused err)
  with assms(2) year_step show ?thesis by blast
next
  case (accepted y db1 db2)
  with year_step [OF accepted(1) assms(2)] record_loop_wf show ?thesis by simp
qed

lemma record_teacher_wf:
  assumes "recordTeacherAttendance t u dto e db = Inr (r, db')" and "attendance_wf db"
  shows "attendance_wf db'"
proof (cases "find (\<lambda>r. ta_tenantId r = t \<and> ta_teacherId r = rt_teacherId dto \<and> ta_date r = rt_date dto) (teacherAttendances db)")
  case None
  then obtain i where db': "db' = db\<lparr>teacherAttendances := teacherAttendances db @ [r]\<rparr>" and i: "ta_id r \<notin> set (map ta_id (teacherAttendances db))"
    and r: "teacher_key r = (t, rt_teacherId dto, rt_date dto)" "ta_teacherId r \<in> set (map fst (registerTeachers db))"
    using assms(1) by (auto simp: recordTeacherAttendance_def Let_def teacher_key_def split: if_splits)
  have "teacher_key r \<notin> set (map teacher_key (teacherAttendances db))" using None unfolding r(1) by (auto simp: find_None_all teacher_key_def)
  with assms(2) i r(2) show ?thesis by (auto simp: attendance_wf_def db' record_refs_def attendance_refs_None)
next
  case (Some r0)
  note r0 = find_Some_iff_mem [OF Some]
  obtain f where db': "db' = db\<lparr>teacherAttendances := update_row ta_id (ta_id r0) (\<lambda>_. r) (teacherAttendances db)\<rparr>"
    and r: "ta_id r = ta_id r0" "teacher_key r = teacher_key r0" "ta_teacherId r = ta_teacherId r0"
    using assms(1) Some by (auto simp: recordTeacherAttendance_def Let_def teacher_key_def)
  have "x = r0" if "x \<in> set (teacherAttendances db)" "ta_id x = ta_id r0" for x
    using distinct_key_inj [of ta_id "teacherAttendances db"] assms(2) r0 that by (auto simp: attendance_wf_def)
  then have "map ta_id (teacherAttendances db') = map ta_id (teacherAttendances db)" "map teacher_key (teacherAttendances db') = map teacher_key (teacherAttendances db)"
    using r by (auto simp: db' update_row_def)
  moreover have "ta_teacherId r \<in> set (map fst (registerTeachers db))" using assms(2) r0 unfolding r(3) attendance_wf_def by blast
  then have "\<forall>x \<in> set (teacherAttendances db'). ta_teacherId x \<in> set (map fst (registerTeachers db))"
    using assms(2) by (auto simp: db' set_update_row attendance_wf_def)
  ultimately show ?thesis using assms(2) by (simp add: attendance_wf_def db' record_refs_def attendance_refs_None)
qed

section \<open>The record of a session\<close>

definition registered :: "id \<Rightarrow> id \<Rightarrow> string \<Rightarrow> int \<Rightarrow> id \<Rightarrow> attendance_db \<Rightarrow> StudentAttendance option" where
  "registered t c d p s db = find (\<lambda>r. attendance_key r = (t, c, s, d, Some p)) (studentAttendances db)"

lemma find_map_key: "(\<And>x. P (g x) = P x) \<Longrightarrow> find P (map g xs) = map_option g (find P xs)"
  by (induction xs) auto

text \<open>A map built from rows that have a key once is a search for the key.\<close>

lemma last_record:
  assumes wf: "attendance_wf db" and P: "\<And>r. r \<in> set (studentAttendances db) \<Longrightarrow> P r \<Longrightarrow> attendance_key r = (t, c, sa_studentId r, d, Some p)"
    and s: "\<And>r. r \<in> set (studentAttendances db) \<Longrightarrow> attendance_key r = (t, c, s, d, Some p) \<Longrightarrow> P r"
  shows "map_of (map (\<lambda>r. (sa_studentId r, r)) (rev (filter P (studentAttendances db)))) s = registered t c d p s db"
proof -
  have uniq: "r = r'" if "r \<in> set (studentAttendances db)" "r' \<in> set (studentAttendances db)" "attendance_key r = (t, c, s, d, Some p)"
      "attendance_key r' = (t, c, s, d, Some p)" for r r'
    using distinct_key_inj [of attendance_key "filter has_period (studentAttendances db)" r r'] wf that
    by (auto simp: attendance_wf_def has_period_def attendance_key_def)
  show ?thesis
  proof (cases "registered t c d p s db")
    case None
    have "map_of (map (\<lambda>r. (sa_studentId r, r)) (rev (filter P (studentAttendances db)))) s = None"
      unfolding map_of_eq_None_iff using None P by (fastforce simp: registered_def find_None_all)
    with None show ?thesis by simp
  next
    case (Some r)
    note r = find_Some_iff_mem [OF Some [unfolded registered_def]]
    then have "(s, r) \<in> set (map (\<lambda>r. (sa_studentId r, r)) (rev (filter P (studentAttendances db))))"
      using s by (auto simp: attendance_key_def image_iff)
    then obtain r' where r': "map_of (map (\<lambda>r. (sa_studentId r, r)) (rev (filter P (studentAttendances db)))) s = Some r'"
      using weak_map_of_SomeI by fastforce
    from map_of_SomeD [OF this] have "r' \<in> set (studentAttendances db)" "P r'" "sa_studentId r' = s" by auto
    then have "r' = r" using uniq r P by metis
    with r' Some show ?thesis by simp
  qed
qed

lemma existing_record:
  assumes "attendance_wf db" and "s \<in> set (map it_studentId (bs_attendances dto))"
  shows "map_of (map (\<lambda>r. (sa_studentId r, r)) (rev (session_records t dto db))) s
    = registered t (bs_classroomId dto) (bs_date dto) (period_of dto) s db"
  unfolding session_records_def by (rule last_record [OF assms(1)]) (use assms(2) in \<open>auto simp: attendance_key_def\<close>)

text \<open>What a recording leaves for the student of an item: the values of the request, or those of before where it has none.\<close>

definition recorded_as :: "BulkRecordStudentAttendanceDto \<Rightarrow> SingleStudentAttendanceItemDto \<Rightarrow> StudentAttendance option \<Rightarrow> StudentAttendance \<Rightarrow> bool" where
  "recorded_as dto item old r \<longleftrightarrow> sa_status r = it_status item \<and> sa_delayMinutes r = int_or (it_delayMinutes item) 0
     \<and> sa_oralGrade r = keep_undefined (it_oralGrade item) (case old of None \<Rightarrow> None | Some x \<Rightarrow> sa_oralGrade x)
     \<and> sa_reason r = keep_undefined (it_reason item) (case old of None \<Rightarrow> None | Some x \<Rightarrow> sa_reason x)
     \<and> sa_rewardDisciplineType r = keep_undefined (it_rewardDisciplineType item) (case old of None \<Rightarrow> None | Some x \<Rightarrow> sa_rewardDisciplineType x)
     \<and> str_or (sa_rewardDisciplineNote r) '''' = str_or (keep_undefined (it_rewardDisciplineNote item) (case old of None \<Rightarrow> None | Some x \<Rightarrow> sa_rewardDisciplineNote x)) ''''
     \<and> str_or (sa_sessionNote r) '''' = str_or (keep_undefined (it_sessionNote item) (case old of None \<Rightarrow> None | Some x \<Rightarrow> sa_sessionNote x)) ''''
     \<and> sa_lessonId r = (case old of None \<Rightarrow> bs_lessonId dto | Some x \<Rightarrow> js_or (bs_lessonId dto) (sa_lessonId x))
     \<and> sa_scheduleId r = (case old of None \<Rightarrow> bs_scheduleId dto | Some x \<Rightarrow> js_or (bs_scheduleId dto) (sa_scheduleId x))"

lemma str_or_null_if_empty [simp]: "str_or (null_if_empty x) '''' = str_or x ''''"
  by (cases x) (auto simp: null_if_empty_def str_or_def)

lemma recorded_as_update: "recorded_as dto (snd row) (Some r) (re_recorded dto (snd row) u r r)"
  by (simp add: recorded_as_def re_recorded_def)

lemma recorded_as_create: "recorded_as dto (snd row) None (new_attendance i t dto (snd row) y u)"
  by (simp add: recorded_as_def new_attendance_def keep_undefined_def split: option.split)

lemma record_attendance_step:
  assumes "record_attendance t u dto y m e row db = Inr db'" and wf: "attendance_wf db"
    and m: "m (it_studentId (snd row)) = registered t (bs_classroomId dto) (bs_date dto) (period_of dto) (it_studentId (snd row)) db"
  shows "\<exists>r. registered t (bs_classroomId dto) (bs_date dto) (period_of dto) (it_studentId (snd row)) db' = Some r
      \<and> recorded_as dto (snd row) (registered t (bs_classroomId dto) (bs_date dto) (period_of dto) (it_studentId (snd row)) db) r"
    and "s \<noteq> it_studentId (snd row) \<Longrightarrow>
      registered t (bs_classroomId dto) (bs_date dto) (period_of dto) s db' = registered t (bs_classroomId dto) (bs_date dto) (period_of dto) s db"
proof -
  let ?reg = "registered t (bs_classroomId dto) (bs_date dto) (period_of dto)" and ?s = "it_studentId (snd row)"
  have "(\<exists>r. ?reg ?s db' = Some r \<and> recorded_as dto (snd row) (?reg ?s db) r) \<and> (s \<noteq> ?s \<longrightarrow> ?reg s db' = ?reg s db)"
    using assms(1)
  proof (cases rule: record_attendanceE)
    case (update r)
    let ?g = "\<lambda>x. if sa_id x = sa_id r then re_recorded dto (snd row) u r x else x"
    have g: "?reg s' db' = map_option ?g (?reg s' db)" for s'
      unfolding registered_def update(2) update_row_def by (simp add: find_map_key re_record_key.key_kept)
    have r: "?reg ?s db = Some r" using update(1) m by simp
    have "?reg s db' = ?reg s db" if "s \<noteq> ?s"
    proof (cases "?reg s db")
      case (Some x)
      have "sa_id x \<noteq> sa_id r"
        using distinct_key_inj [of sa_id "studentAttendances db" x r] wf that find_Some_iff_mem [OF Some [unfolded registered_def]]
          find_Some_iff_mem [OF r [unfolded registered_def]] by (auto simp: attendance_wf_def attendance_key_def)
      with Some g show ?thesis by simp
    qed (simp add: g)
    with g [of ?s] r recorded_as_update [of dto row r u] show ?thesis by auto
  next
    case (create i)
    then have db': "db' = db\<lparr>studentAttendances := studentAttendances db @ [new_attendance i t dto (snd row) y u]\<rparr>"
      by (auto elim: create_attendanceE)
    have none: "?reg ?s db = None" using create(1) m by simp
    have "?reg s' db' = (case ?reg s' db of Some x \<Rightarrow> Some x
      | None \<Rightarrow> if s' = ?s then Some (new_attendance i t dto (snd row) y u) else None)" for s'
      by (simp add: registered_def db' find_append attendance_key_def new_attendance_def split: option.split)
    with none recorded_as_create [of dto row i t y u] show ?thesis by (auto split: option.split)
  qed
  then show "\<exists>r. ?reg ?s db' = Some r \<and> recorded_as dto (snd row) (?reg ?s db) r" "s \<noteq> ?s \<Longrightarrow> ?reg s db' = ?reg s db" by blast+
qed

lemma record_attendance_loop:
  assumes "foldE (record_attendance t u dto y m e) rows db = Inr db'" and "attendance_wf db"
    and "distinct (map (\<lambda>row. it_studentId (snd row)) rows)"
    and "\<forall>row \<in> set rows. m (it_studentId (snd row)) = registered t (bs_classroomId dto) (bs_date dto) (period_of dto) (it_studentId (snd row)) db"
  shows "(\<forall>row \<in> set rows. \<exists>r. registered t (bs_classroomId dto) (bs_date dto) (period_of dto) (it_studentId (snd row)) db' = Some r
      \<and> recorded_as dto (snd row) (registered t (bs_classroomId dto) (bs_date dto) (period_of dto) (it_studentId (snd row)) db) r)
    \<and> (\<forall>s. s \<notin> (\<lambda>row. it_studentId (snd row)) ` set rows \<longrightarrow>
      registered t (bs_classroomId dto) (bs_date dto) (period_of dto) s db' = registered t (bs_classroomId dto) (bs_date dto) (period_of dto) s db)"
  using assms
proof (induction rows arbitrary: db)
  case (Cons row rows)
  let ?reg = "registered t (bs_classroomId dto) (bs_date dto) (period_of dto)"
  obtain d where d: "record_attendance t u dto y m e row db = Inr d" and r: "foldE (record_attendance t u dto y m e) rows d = Inr db'"
    using Cons.prems(1) by (auto simp: bindE_Inr)
  have hd: "m (it_studentId (snd row)) = ?reg (it_studentId (snd row)) db" using Cons.prems(4) by simp
  note st = record_attendance_step [OF d Cons.prems(2) hd]
  have wf: "attendance_wf d" using record_attendance_wf [OF d Cons.prems(2)] by simp
  have fresh: "it_studentId (snd x) \<noteq> it_studentId (snd row)" if "x \<in> set rows" for x using Cons.prems(3) that by (auto simp: image_iff)
  have "\<forall>x \<in> set rows. m (it_studentId (snd x)) = ?reg (it_studentId (snd x)) d" using Cons.prems(4) st(2) fresh by simp
  from Cons.IH [OF r wf _ this] Cons.prems(3) st fresh show ?case by (auto simp: image_iff)
qed simp

lemma record_students_registered:
  assumes "recordStudentAttendanceBulk t u dto e db = (Inr x, db')" and "attendance_wf db"
    and "distinct (map it_studentId (bs_attendances dto))" and "item \<in> set (bs_attendances dto)"
  shows "\<exists>r. registered t (bs_classroomId dto) (bs_date dto) (period_of dto) (it_studentId item) db' = Some r
      \<and> recorded_as dto item (registered t (bs_classroomId dto) (bs_date dto) (period_of dto) (it_studentId item) db) r"
    and "same_register db db'" and "attendance_wf db'"
proof -
  let ?rows = "zip [0..<length (bs_attendances dto)] (bs_attendances dto)"
  obtain y db1 db2 where y: "attendance_year t dto e db = (y, db1)"
    and loop: "foldE (record_attendance t u dto y (map_of (map (\<lambda>r. (sa_studentId r, r)) (rev (session_records t dto db1)))) e) ?rows db1 = Inr db2"
    and db': "db' = drop_stats t (bs_date dto) db2"
    using assms(1) by (cases rule: record_studentsE) auto
  note ys = year_step [OF y assms(2)]
  then have wf: "attendance_wf db1" by simp
  have regs: "registered t c d p s db1 = registered t c d p s db" "registered t c d p s db' = registered t c d p s db2" for c d p s
    using ys by (simp_all add: registered_def db')
  have snds: "map snd ?rows = bs_attendances dto" by simp
  have "map (\<lambda>row. it_studentId (snd row)) ?rows = map it_studentId (map snd ?rows)" by (simp only: map_map comp_def)
  then have "distinct (map (\<lambda>row. it_studentId (snd row)) ?rows)" using assms(3) by (simp only: snds)
  moreover have "\<forall>row \<in> set ?rows. map_of (map (\<lambda>r. (sa_studentId r, r)) (rev (session_records t dto db1))) (it_studentId (snd row))
      = registered t (bs_classroomId dto) (bs_date dto) (period_of dto) (it_studentId (snd row)) db1"
  proof
    fix row assume "row \<in> set ?rows"
    from zip_snd [OF this] show "map_of (map (\<lambda>r. (sa_studentId r, r)) (rev (session_records t dto db1))) (it_studentId (snd row))
        = registered t (bs_classroomId dto) (bs_date dto) (period_of dto) (it_studentId (snd row)) db1"
      by (intro existing_record [OF wf]) simp
  qed
  ultimately have "\<forall>row \<in> set ?rows. \<exists>r. registered t (bs_classroomId dto) (bs_date dto) (period_of dto) (it_studentId (snd row)) db2 = Some r
      \<and> recorded_as dto (snd row) (registered t (bs_classroomId dto) (bs_date dto) (period_of dto) (it_studentId (snd row)) db1) r"
    using record_attendance_loop [OF loop wf] by blast
  moreover obtain row where "row \<in> set ?rows" "snd row = item" using assms(4) snds by (metis imageE list.set_map)
  ultimately show "\<exists>r. registered t (bs_classroomId dto) (bs_date dto) (period_of dto) (it_studentId item) db' = Some r
      \<and> recorded_as dto item (registered t (bs_classroomId dto) (bs_date dto) (period_of dto) (it_studentId item) db) r"
    by (auto simp: regs)
  from record_loop_wf [OF loop wf] have "same_register db1 db2" "attendance_wf db2" by simp_all
  then show "attendance_wf db'" by (simp add: db')
  have "same_register db2 db'" by (simp add: db' same_register_def drop_stats_def)
  with \<open>same_register db1 db2\<close> ys show "same_register db db'" by (blast intro: same_register_trans)
qed

section \<open>The roster\<close>

lemma roster_shape:
  assumes "getClassroomAttendance lib t c date (Some p) db = Inr (sm, rows)"
  shows "rows = roster_rows lib t c date p db" and "sm = roster_summary_of (length (session_rows lib t c date p db)) rows"
proof -
  obtain k where k: "find (\<lambda>k. cl_id k = c \<and> cl_tenantId k = t) (registerClassrooms db) = Some k"
    using assms unfolding getClassroomAttendance_def by (cases "find (\<lambda>k. cl_id k = c \<and> cl_tenantId k = t) (registerClassrooms db)") simp_all
  have "Inr (roster_summary_of (length (session_rows lib t c date p db)) (roster_rows lib t c date p db), roster_rows lib t c date p db)
      = (Inr (sm, rows) :: http_error + roster_summary \<times> roster_row list)"
    using assms unfolding getClassroomAttendance_def Let_def k option.case .
  then show "rows = roster_rows lib t c date p db" and "sm = roster_summary_of (length (session_rows lib t c date p db)) rows" by blast+
qed

lemma length_insert_by [simp]: "length (insert_by le x ys) = Suc (length ys)"
  by (induction ys) auto

lemma length_sort_by [simp]: "length (sort_by le xs) = length xs"
  unfolding sort_by_def by (induction xs) auto

text \<open>A row of the roster, without the order of the list.\<close>

lemma roster_row_cases:
  assumes "row \<in> set (roster_rows lib t c date p db)"
  obtains x where "x \<in> set (active_roster t c db)"
    and "row = roster_row_of (map_of (map (\<lambda>r. (sa_studentId r, r)) (rev (session_rows lib t c date p db))))
      (if p > 1 \<and> length (session_rows lib t c date p db) < length (roster_rows lib t c date p db)
       then prior_map p (register_rows t c (getDateVariants lib date) db) else (\<lambda>_. None)) (ro_studentId x)"
  using assms by (auto simp: roster_rows_def Let_def)

lemma roster_row_student [simp]: "rw_studentId (roster_row_of reg prior i) = i"
  by (simp add: roster_row_of_def split: option.split)

lemma counts_add_up:
  "count_row PRESENT rows + count_row ABSENT rows + count_row TARDY rows + count_row EXCUSED_ABSENT rows + count_row EXPELLED rows = length rows"
proof (induction rows)
  case (Cons r rows)
  then show ?case by (cases "rw_status r") (auto simp: count_row_def)
qed (simp add: count_row_def)

text \<open>Of rows sorted by descending period the first one of a student is the latest.\<close>

lemma period_desc_trans: "period_desc a b \<Longrightarrow> period_desc b c \<Longrightarrow> period_desc a c"
  by (auto simp: period_desc_def split: option.splits)

lemma period_desc_total: "period_desc a b \<or> period_desc b a"
  by (auto simp: period_desc_def split: option.splits)

lemma first_of_sorted:
  assumes "sorted_wrt period_desc rows" and "map_of (map (\<lambda>r. (sa_studentId r, r)) rows) s = Some x"
    and "r \<in> set rows" and "sa_studentId r = s"
  shows "period_desc x r \<or> x = r"
  using assms
proof (induction rows)
  case (Cons a rows)
  then show ?case by (cases "sa_studentId a = s") auto
qed simp

lemma prior_map_latest:
  assumes "r \<in> set rows" and "sa_studentId r = s" and "sa_periodNumber r = Some q" and "q < p"
    and "\<forall>x \<in> set rows. sa_studentId x = s \<longrightarrow> x \<noteq> r \<longrightarrow> (\<forall>q'. sa_periodNumber x = Some q' \<longrightarrow> q' < p \<longrightarrow> q' < q)"
  shows "prior_map p rows s = Some r"
proof -
  let ?rs = "sort_by period_desc (filter (\<lambda>r. case sa_periodNumber r of None \<Rightarrow> False | Some q \<Rightarrow> q < p) rows)"
  have r: "r \<in> set ?rs" using assms(1,3,4) by simp
  then obtain x where x: "map_of (map (\<lambda>r. (sa_studentId r, r)) ?rs) s = Some x"
    using assms(2) weak_map_of_SomeI [of s r "map (\<lambda>r. (sa_studentId r, r)) ?rs"] by (auto simp: image_iff)
  have mem: "x \<in> set ?rs" "sa_studentId x = s" using map_of_SomeD [OF x] by auto
  have "sorted_wrt period_desc ?rs" by (rule sort_by_sorted) (use period_desc_trans period_desc_total in blast)+
  from first_of_sorted [OF this x r assms(2)] have le: "period_desc x r \<or> x = r" .
  have "x = r"
  proof (rule ccontr)
    assume n: "x \<noteq> r"
    from mem obtain q' where "sa_periodNumber x = Some q'" "q' < p" by (auto split: option.splits)
    with n mem assms(3,5) le show False by (auto simp: period_desc_def)
  qed
  with x show ?thesis by (simp add: prior_map_def)
qed

section \<open>Recording a session again\<close>

text \<open>Rows that every list shows alike: they differ at most in who recorded them and in how an empty note is stored.\<close>

definition shown_alike :: "StudentAttendance \<Rightarrow> StudentAttendance \<Rightarrow> bool" where
  "shown_alike r q \<longleftrightarrow> q = r\<lparr>sa_recordedById := sa_recordedById q, sa_rewardDisciplineNote := sa_rewardDisciplineNote q,
       sa_sessionNote := sa_sessionNote q\<rparr>
     \<and> str_or (sa_rewardDisciplineNote q) '''' = str_or (sa_rewardDisciplineNote r) ''''
     \<and> str_or (sa_sessionNote q) '''' = str_or (sa_sessionNote r) ''''"

lemma shown_alike_fields:
  assumes "shown_alike r q"
  shows "sa_id q = sa_id r" "sa_tenantId q = sa_tenantId r" "sa_classroomId q = sa_classroomId r" "sa_studentId q = sa_studentId r"
    "sa_date q = sa_date r" "sa_periodNumber q = sa_periodNumber r" "sa_status q = sa_status r" "sa_delayMinutes q = sa_delayMinutes r"
    "sa_reason q = sa_reason r" "sa_oralGrade q = sa_oralGrade r" "sa_rewardDisciplineType q = sa_rewardDisciplineType r"
    "sa_lessonId q = sa_lessonId r" "sa_scheduleId q = sa_scheduleId r"
    "str_or (sa_rewardDisciplineNote q) '''' = str_or (sa_rewardDisciplineNote r) ''''"
    "str_or (sa_sessionNote q) '''' = str_or (sa_sessionNote r) ''''"
proof -
  have e: "q = r\<lparr>sa_recordedById := sa_recordedById q, sa_rewardDisciplineNote := sa_rewardDisciplineNote q,
       sa_sessionNote := sa_sessionNote q\<rparr>" using assms by (simp add: shown_alike_def)
  show "sa_id q = sa_id r" "sa_tenantId q = sa_tenantId r" "sa_classroomId q = sa_classroomId r" "sa_studentId q = sa_studentId r"
    "sa_date q = sa_date r" "sa_periodNumber q = sa_periodNumber r" "sa_status q = sa_status r" "sa_delayMinutes q = sa_delayMinutes r"
    "sa_reason q = sa_reason r" "sa_oralGrade q = sa_oralGrade r" "sa_rewardDisciplineType q = sa_rewardDisciplineType r"
    "sa_lessonId q = sa_lessonId r" "sa_scheduleId q = sa_scheduleId r"
    by (subst e, simp)+
qed (use assms in \<open>simp_all add: shown_alike_def\<close>)

lemma shown_alike_refl [simp]: "shown_alike r r"
  by (simp add: shown_alike_def)

lemma insert_by_map: "(\<And>a b. le (h a) (h b) = le a b) \<Longrightarrow> insert_by le (h x) (map h ys) = map h (insert_by le x ys)"
  by (induction ys) auto

lemma sort_by_map: "(\<And>a b. le (h a) (h b) = le a b) \<Longrightarrow> sort_by le (map h xs) = map h (sort_by le xs)"
  by (induction xs) (simp_all add: sort_by_def insert_by_map)

lemma map_of_keyed_map:
  "(\<And>r. sa_studentId (h r) = sa_studentId r) \<Longrightarrow>
     map_of (map (\<lambda>r. (sa_studentId r, r)) (map h xs)) i = map_option h (map_of (map (\<lambda>r. (sa_studentId r, r)) xs) i)"
  by (induction xs) auto

lemma roster_row_alike:
  assumes "\<And>r. shown_alike r (h r)"
  shows "roster_row_of (\<lambda>i. map_option h (m i)) (\<lambda>i. map_option h (p i)) i = roster_row_of m p i"
  using shown_alike_fields [OF assms] by (auto simp: roster_row_of_def fallback_status_def split: option.split)

lemma roster_alike:
  assumes h: "\<And>r. shown_alike r (h r)" and rows: "studentAttendances db' = map h (studentAttendances db)"
    and same: "registerClassrooms db' = registerClassrooms db" "rosterEnrollments db' = rosterEnrollments db" "rosterStudents db' = rosterStudents db"
  shows "getClassroomAttendance lib t c date p db' = getClassroomAttendance lib t c date p db"
proof -
  note f = shown_alike_fields [OF h]
  have reg: "register_rows t c ds db' = map h (register_rows t c ds db)" for ds
    by (simp add: register_rows_def rows filter_map comp_def f)
  have ses: "session_rows lib t c date q db' = map h (session_rows lib t c date q db)" for q
    by (simp add: session_rows_def reg filter_map comp_def f)
  have pd: "period_desc (h a) (h b) = period_desc a b" for a b by (simp add: period_desc_def f)
  have prior: "prior_map q (map h xs) = (\<lambda>i. map_option h (prior_map q xs i))" for q xs
    unfolding prior_map_def filter_map sort_by_map [of period_desc h, OF pd] comp_def f
    by (intro ext) (rule map_of_keyed_map, simp add: f)
  have m: "map_of (map (\<lambda>r. (sa_studentId r, r)) (rev (map h xs))) = (\<lambda>i. map_option h (map_of (map (\<lambda>r. (sa_studentId r, r)) (rev xs)) i))" for xs
    using map_of_keyed_map [of h "rev xs"] f by (intro ext) (simp add: rev_map)
  have before: "roster_before db' = roster_before db" by (intro ext) (simp add: roster_before_def roster_key_def same)
  have active: "active_roster t c db' = active_roster t c db" by (simp add: active_roster_def same)
  have "roster_rows lib t c date q db' = roster_rows lib t c date q db" for q
  proof -
    have first: "roster_row_of (\<lambda>i. map_option h (m i)) (\<lambda>_. None) i = roster_row_of m (\<lambda>_. None) i" for m i
      using roster_row_alike [OF h, of m "\<lambda>_. None" i] by simp
    show ?thesis
      unfolding roster_rows_def Let_def ses reg m prior length_map before active
      by (intro map_cong refl) (simp add: roster_row_alike [OF h] first)
  qed
  then show ?thesis unfolding getClassroomAttendance_def Let_def same ses length_map by (simp only:)
qed

lemma js_or_twice [simp]: "js_or a (js_or a b) = js_or a b" "js_or a a = a"
  by simp_all

lemma recorded_asD:
  assumes "recorded_as dto item old r"
  shows "sa_status r = it_status item" and "sa_delayMinutes r = int_or (it_delayMinutes item) 0"
    and "sa_oralGrade r = keep_undefined (it_oralGrade item) (case old of None \<Rightarrow> None | Some x \<Rightarrow> sa_oralGrade x)"
    and "sa_reason r = keep_undefined (it_reason item) (case old of None \<Rightarrow> None | Some x \<Rightarrow> sa_reason x)"
    and "sa_rewardDisciplineType r = keep_undefined (it_rewardDisciplineType item) (case old of None \<Rightarrow> None | Some x \<Rightarrow> sa_rewardDisciplineType x)"
    and "str_or (sa_rewardDisciplineNote r) '''' = str_or (keep_undefined (it_rewardDisciplineNote item) (case old of None \<Rightarrow> None | Some x \<Rightarrow> sa_rewardDisciplineNote x)) ''''"
    and "str_or (sa_sessionNote r) '''' = str_or (keep_undefined (it_sessionNote item) (case old of None \<Rightarrow> None | Some x \<Rightarrow> sa_sessionNote x)) ''''"
    and "sa_lessonId r = (case old of None \<Rightarrow> bs_lessonId dto | Some x \<Rightarrow> js_or (bs_lessonId dto) (sa_lessonId x))"
    and "sa_scheduleId r = (case old of None \<Rightarrow> bs_scheduleId dto | Some x \<Rightarrow> js_or (bs_scheduleId dto) (sa_scheduleId x))"
  using assms unfolding recorded_as_def by blast+

lemma keep_again: "y = keep_undefined a b \<Longrightarrow> keep_undefined a y = y"
  by (cases a) (simp_all add: keep_undefined_def)

lemma keep_text: "str_or y '''' = str_or (keep_undefined a b) '''' \<Longrightarrow> str_or (keep_undefined a y) '''' = str_or y ''''"
  by (cases a) (simp_all add: keep_undefined_def)

lemma js_or_case: "y = (case old of None \<Rightarrow> a | Some x \<Rightarrow> js_or a (f x)) \<Longrightarrow> js_or a y = y"
  by (cases old) (simp_all only: option.case js_or_twice)

text \<open>Recording a row again as it was recorded changes nothing that is shown.\<close>

lemma re_recorded_alike:
  assumes "recorded_as dto item old r" and "shown_alike r x"
  shows "shown_alike r (re_recorded dto item u r x)"
proof -
  note d = recorded_asD [OF assms(1)]
  have e: "x = r\<lparr>sa_recordedById := sa_recordedById x, sa_rewardDisciplineNote := sa_rewardDisciplineNote x,
       sa_sessionNote := sa_sessionNote x\<rparr>" using assms(2) by (simp add: shown_alike_def)
  have "re_recorded dto item u r x = r\<lparr>sa_recordedById := u,
      sa_rewardDisciplineNote := keep_undefined (it_rewardDisciplineNote item) (sa_rewardDisciplineNote r),
      sa_sessionNote := keep_undefined (it_sessionNote item) (sa_sessionNote r)\<rparr>"
    by (subst e) (simp add: re_recorded_def d(1,2) [symmetric] keep_again [OF d(3)] keep_again [OF d(4)] keep_again [OF d(5)]
        js_or_case [OF d(8)] js_or_case [OF d(9)] del: js_or.simps)
  then show ?thesis by (simp add: shown_alike_def keep_text [OF d(6)] keep_text [OF d(7)])
qed

lemma rerecorded_loop:
  assumes "distinct (map sa_id T)"
    and "\<forall>row \<in> set rows. \<exists>r old. m (it_studentId (snd row)) = Some r \<and> r \<in> set T \<and> recorded_as dto (snd row) old r \<and> attendance_refs db r = None"
    and "studentAttendances db = map h T" and "\<And>r. shown_alike r (h r)"
  shows "\<exists>db' h'. foldE (record_attendance t u dto y m e) rows db = Inr db' \<and> studentAttendances db' = map h' T \<and> (\<forall>r. shown_alike r (h' r))"
  using assms(2-4)
proof (induction rows arbitrary: db h)
  case Nil
  then show ?case by auto
next
  case (Cons row rows)
  obtain r old where r: "m (it_studentId (snd row)) = Some r" "r \<in> set T" "recorded_as dto (snd row) old r" "attendance_refs db r = None"
    using Cons.prems(1) by auto
  let ?f = "re_recorded dto (snd row) u r"
  note alike = re_recorded_alike [OF r(3)]
  have "attendance_refs db (?f r) = attendance_refs db r"
    using shown_alike_fields(12,13) [OF alike [of r]] by (intro attendance_refs_cong) simp_all
  then have st: "record_attendance t u dto y m e row db = Inr (db\<lparr>studentAttendances := update_row sa_id (sa_id r) ?f (studentAttendances db)\<rparr>)"
    using r by (simp add: record_attendance_def)
  define h' where "h' = (\<lambda>x. if x = r then ?f (h x) else h x)"
  have one: "sa_id x = sa_id r \<longleftrightarrow> x = r" if "x \<in> set T" for x using distinct_key_inj [OF assms(1) that r(2)] by auto
  have "studentAttendances (db\<lparr>studentAttendances := update_row sa_id (sa_id r) ?f (studentAttendances db)\<rparr>) = map h' T"
    using Cons.prems(2) one by (auto simp: update_row_def h'_def shown_alike_fields [OF Cons.prems(3)])
  moreover have "shown_alike x (h' x)" for x using alike Cons.prems(3) by (simp add: h'_def)
  moreover have "attendance_refs (db\<lparr>studentAttendances := X\<rparr>) q = attendance_refs db q" for X q by (rule attendance_refs_cong) simp_all
  ultimately show ?case using Cons.IH [of "db\<lparr>studentAttendances := update_row sa_id (sa_id r) ?f (studentAttendances db)\<rparr>" h'] Cons.prems(1) st
    by (simp only: foldE.simps bindE.simps list.set ball_simps) simp
qed

lemma record_students_again:
  assumes "recordStudentAttendanceBulk t u dto e db = (Inr x, db')" and "attendance_wf db"
    and "distinct (map it_studentId (bs_attendances dto))"
  shows "\<exists>db''. recordStudentAttendanceBulk t u' dto e' db' = (Inr x, db'')
    \<and> map sa_id (studentAttendances db'') = map sa_id (studentAttendances db')
    \<and> (\<forall>lib c date p. getClassroomAttendance lib t c date p db'' = getClassroomAttendance lib t c date p db')"
proof -
  let ?rows = "zip [0..<length (bs_attendances dto)] (bs_attendances dto)"
  have ne: "bs_attendances dto \<noteq> []" using assms(1) by (auto simp: recordStudentAttendanceBulk_def)
  obtain d where x: "x = (length (bs_attendances dto), absence_events dto d)" and d: "rosterStudents d = rosterStudents db"
    using assms(1)
  proof (cases rule: record_studentsE)
    case (accepted y db1 db2)
    with year_step [OF accepted(1) assms(2)] show ?thesis by (intro that [of db1]) (auto simp: same_register_def)
  qed simp
  have wf: "attendance_wf db'" and same: "same_register db db'"
    using record_students_wf [OF assms(1,2)] record_students_registered(2) [OF assms(1-3)] ne
    by (simp, cases "bs_attendances dto") auto
  obtain y db1 where y: "attendance_year t dto e' db' = (y, db1)" by fastforce
  note ys = year_step [OF y wf]
  let ?m = "map_of (map (\<lambda>r. (sa_studentId r, r)) (rev (session_records t dto db1)))"
  have "\<exists>r old. ?m (it_studentId (snd row)) = Some r \<and> r \<in> set (studentAttendances db1) \<and> recorded_as dto (snd row) old r
      \<and> attendance_refs db1 r = None" if "row \<in> set ?rows" for row
  proof -
    have item: "snd row \<in> set (bs_attendances dto)" using zip_snd [OF that] .
    from record_students_registered(1) [OF assms(1-3) item] obtain r old where
      r: "registered t (bs_classroomId dto) (bs_date dto) (period_of dto) (it_studentId (snd row)) db' = Some r" "recorded_as dto (snd row) old r" by blast
    have "registered t (bs_classroomId dto) (bs_date dto) (period_of dto) (it_studentId (snd row)) db1 = Some r"
      using r(1) ys by (simp add: registered_def)
    moreover have "r \<in> set (studentAttendances db1)" using find_Some_iff_mem [OF r(1) [unfolded registered_def]] ys by simp
    moreover have "attendance_refs db1 r = None" using ys \<open>r \<in> set (studentAttendances db1)\<close> by (simp add: attendance_wf_def record_refs_def)
    ultimately show ?thesis using r(2) item ys existing_record [of db1 "it_studentId (snd row)" dto t] by auto
  qed
  then have "\<forall>row \<in> set ?rows. \<exists>r old. ?m (it_studentId (snd row)) = Some r \<and> r \<in> set (studentAttendances db1) \<and> recorded_as dto (snd row) old r
      \<and> attendance_refs db1 r = None" by blast
  moreover have ids: "distinct (map sa_id (studentAttendances db1))" using ys unfolding attendance_wf_def by blast
  ultimately obtain db2 h where
    loop: "foldE (record_attendance t u' dto y ?m e') ?rows db1 = Inr db2" and rows: "studentAttendances db2 = map h (studentAttendances db1)"
    and h: "\<And>r. shown_alike r (h r)"
    using rerecorded_loop [OF ids, of ?rows ?m dto db1 "\<lambda>r. r" t u' y e'] by auto
  have reg: "same_register db1 db2" using record_loop_wf [OF loop] ys by simp
  have "absence_events dto db1 = absence_events dto d"
    using d same ys by (simp add: absence_events_def same_register_def)
  then have "recordStudentAttendanceBulk t u' dto e' db' = (Inr x, drop_stats t (bs_date dto) db2)"
    using loop y ne by (simp add: recordStudentAttendanceBulk_def x)
  moreover have "map sa_id (studentAttendances (drop_stats t (bs_date dto) db2)) = map sa_id (studentAttendances db')"
    using ys by (simp add: rows shown_alike_fields(1) [OF h])
  moreover have "getClassroomAttendance lib t c date p (drop_stats t (bs_date dto) db2) = getClassroomAttendance lib t c date p db'" for lib c date p
    by (rule roster_alike [OF h]) (use ys reg rows in \<open>simp_all add: same_register_def\<close>)
  ultimately show ?thesis by blast
qed

section \<open>The cached statistics\<close>

datatype attendance_request =
    RecordStudents id id BulkRecordStudentAttendanceDto env
  | RecordTeacher id id RecordTeacherAttendanceDto env
  | DailyStats id string env

fun attendance_serve :: "jalaali \<Rightarrow> attendance_request \<Rightarrow> attendance_db \<Rightarrow> http_error + attendance_db" where
  "attendance_serve lib (RecordStudents t u dto e) db = Inr (snd (recordStudentAttendanceBulk t u dto e db))"
| "attendance_serve lib (RecordTeacher t u dto e) db = bindE (recordTeacherAttendance t u dto e db) (\<lambda>r. Inr (snd r))"
| "attendance_serve lib (DailyStats t d e) db = Inr (snd (getDailyStats lib t d e db))"

text \<open>The statistics are read under dates of a set of spellings \<open>S\<close>; a recording under one of them must not be a
  different spelling of another.\<close>

definition stats_entry :: "string set \<Rightarrow> attendance_db \<Rightarrow> id \<times> string \<Rightarrow> daily_stats option" where
  "stats_entry S db k = (if statsReady db \<and> snd k \<in> S then map_option fst (statsCache db (fst k) (snd k)) else None)"

definition stats_value :: "jalaali \<Rightarrow> attendance_db \<Rightarrow> id \<times> string \<Rightarrow> daily_stats option" where
  "stats_value lib db k = Some (stats_of_day lib (fst k) (snd k) db)"

fun one_spelling :: "jalaali \<Rightarrow> string set \<Rightarrow> attendance_request \<Rightarrow> bool" where
  "one_spelling lib S (RecordStudents t u dto e) = (\<forall>d \<in> S. bs_date dto \<in> set (getDateVariants lib d) \<longrightarrow> d = bs_date dto)"
| "one_spelling lib S _ = True"

lemma stats_cong:
  assumes "rosterEnrollments db' = rosterEnrollments db"
    and "filter (\<lambda>r. sa_tenantId r = t \<and> sa_date r \<in> set (getDateVariants lib d)) (studentAttendances db')
      = filter (\<lambda>r. sa_tenantId r = t \<and> sa_date r \<in> set (getDateVariants lib d)) (studentAttendances db)"
  shows "stats_of_day lib t d db' = stats_of_day lib t d db"
  by (simp add: stats_of_day_def assms)

text \<open>A recording changes only rows of its tenant and date.\<close>

definition other_rows :: "id \<Rightarrow> string \<Rightarrow> StudentAttendance list \<Rightarrow> StudentAttendance list" where
  "other_rows t d rows = filter (\<lambda>r. sa_tenantId r \<noteq> t \<or> sa_date r \<noteq> d) rows"

lemma filter_map_same: "\<forall>x \<in> set xs. P (g x) = P x \<and> (P x \<longrightarrow> g x = x) \<Longrightarrow> filter P (map g xs) = filter P xs"
  by (induction xs) auto

lemma record_loop_others:
  assumes "foldE (record_attendance t u dto y m e) rows db = Inr db'" and "attendance_wf db"
    and m: "\<And>s r. m s = Some r \<Longrightarrow> \<exists>r' \<in> set (studentAttendances db). sa_id r' = sa_id r \<and> sa_tenantId r' = t \<and> sa_date r' = bs_date dto"
  shows "other_rows t (bs_date dto) (studentAttendances db') = other_rows t (bs_date dto) (studentAttendances db)
    \<and> statsCache db' = statsCache db \<and> statsReady db' = statsReady db"
proof -
  let ?I = "\<lambda>d. attendance_wf d \<and> other_rows t (bs_date dto) (studentAttendances d) = other_rows t (bs_date dto) (studentAttendances db)
    \<and> statsCache d = statsCache db \<and> statsReady d = statsReady db
    \<and> (\<forall>s r. m s = Some r \<longrightarrow> (\<exists>r' \<in> set (studentAttendances d). sa_id r' = sa_id r \<and> sa_tenantId r' = t \<and> sa_date r' = bs_date dto))"
  have "?I db'"
  proof (rule foldE_invariant [where I = ?I, OF _ _ assms(1)])
    show "?I db" using assms(2) m by blast
    fix row d d'
    assume I: "?I d" and step: "record_attendance t u dto y m e row d = Inr d'"
    have wf: "attendance_wf d'" using record_attendance_wf [OF step] I by blast
    from step show "?I d'"
    proof (cases rule: record_attendanceE)
      case (update r)
      let ?f = "re_recorded dto (snd row) u r"
      obtain r' where r': "r' \<in> set (studentAttendances d)" "sa_id r' = sa_id r" "sa_tenantId r' = t" "sa_date r' = bs_date dto"
        using I update(1) by blast
      have uniq: "x = r'" if "x \<in> set (studentAttendances d)" "sa_id x = sa_id r" for x
        using distinct_key_inj [of sa_id "studentAttendances d" x r'] I r' that by (simp add: attendance_wf_def)
      have f: "sa_tenantId (?f x) = sa_tenantId x" "sa_date (?f x) = sa_date x" "sa_id (?f x) = sa_id x" for x by (simp_all add: re_recorded_def)
      have rows: "studentAttendances d' = map (\<lambda>x. if sa_id x = sa_id r then ?f x else x) (studentAttendances d)"
        by (simp add: update(2) update_row_def)
      have "other_rows t (bs_date dto) (studentAttendances d') = other_rows t (bs_date dto) (studentAttendances d)"
        unfolding other_rows_def rows
      proof (rule filter_map_same, rule ballI)
        fix x assume x: "x \<in> set (studentAttendances d)"
        show "((sa_tenantId (if sa_id x = sa_id r then ?f x else x) \<noteq> t \<or> sa_date (if sa_id x = sa_id r then ?f x else x) \<noteq> bs_date dto)
              = (sa_tenantId x \<noteq> t \<or> sa_date x \<noteq> bs_date dto))
            \<and> (sa_tenantId x \<noteq> t \<or> sa_date x \<noteq> bs_date dto \<longrightarrow> (if sa_id x = sa_id r then ?f x else x) = x)"
        proof (cases "sa_id x = sa_id r")
          case True
          from uniq [OF x this] True r'(3,4) f show ?thesis by simp
        qed simp
      qed
      moreover have "\<exists>x \<in> set (studentAttendances d'). sa_id x = sa_id z \<and> sa_tenantId x = t \<and> sa_date x = bs_date dto" if "m s = Some z" for s z
      proof -
        from I that obtain x where x: "x \<in> set (studentAttendances d)" "sa_id x = sa_id z" "sa_tenantId x = t" "sa_date x = bs_date dto" by blast
        have "(if sa_id x = sa_id r then ?f x else x) \<in> set (studentAttendances d')" unfolding rows set_map by (rule imageI [OF x(1)])
        then show ?thesis by (rule rev_bexI) (simp add: f x)
      qed
      ultimately show ?thesis using I wf by (simp add: update(2))
    next
      case (create i)
      then have d': "d' = d\<lparr>studentAttendances := studentAttendances d @ [new_attendance i t dto (snd row) y u]\<rparr>" by (auto elim: create_attendanceE)
      show ?thesis using I wf by (auto simp: d' other_rows_def new_attendance_def)
    qed
  qed
  then show ?thesis by blast
qed

lemma record_students_others:
  assumes "recordStudentAttendanceBulk t u dto e db = (res, db')" and "attendance_wf db"
  shows "other_rows t (bs_date dto) (studentAttendances db') = other_rows t (bs_date dto) (studentAttendances db)
    \<and> rosterEnrollments db' = rosterEnrollments db \<and> statsReady db' = statsReady db
    \<and> (studentAttendances db' = studentAttendances db \<and> statsCache db' = statsCache db
       \<or> (if statsReady db then statsCache db' = (statsCache db)(t := (statsCache db t)(bs_date dto := None)) else statsCache db' = statsCache db))"
  using assms(1)
proof (cases rule: record_studentsE)
  case (refused err)
  from refused(2) show ?thesis
  proof
    assume "\<exists>y. attendance_year t dto e db = (y, db')"
    then obtain y where "attendance_year t dto e db = (y, db')" by blast
    from year_step [OF this assms(2)] show ?thesis by (simp add: same_register_def)
  qed simp
next
  case (accepted y db1 db2)
  note ys = year_step [OF accepted(1) assms(2)]
  then have wf: "attendance_wf db1" by simp
  let ?m = "map_of (map (\<lambda>r. (sa_studentId r, r)) (rev (session_records t dto db1)))"
  have m: "\<exists>r' \<in> set (studentAttendances db1). sa_id r' = sa_id r \<and> sa_tenantId r' = t \<and> sa_date r' = bs_date dto" if "?m s = Some r" for s r
    using map_of_SomeD [OF that] by (auto simp: session_records_def)
  note loop = record_loop_others [OF accepted(2) wf m]
  have "same_register db1 db2" using record_loop_wf [OF accepted(2) wf] by simp
  with loop ys show ?thesis by (auto simp: accepted(3) drop_stats_def same_register_def)
qed

lemma stats_value_other:
  assumes "recordStudentAttendanceBulk t u dto e db = (res, db')" and "attendance_wf db" and "t' \<noteq> t \<or> bs_date dto \<notin> set (getDateVariants lib d)"
  shows "stats_of_day lib t' d db' = stats_of_day lib t' d db"
proof (rule stats_cong)
  note o = record_students_others [OF assms(1,2)]
  then show "rosterEnrollments db' = rosterEnrollments db" by simp
  have f: "filter (\<lambda>r. sa_tenantId r = t' \<and> sa_date r \<in> set (getDateVariants lib d)) rows
      = filter (\<lambda>r. sa_tenantId r = t' \<and> sa_date r \<in> set (getDateVariants lib d)) (other_rows t (bs_date dto) rows)" for rows
    unfolding other_rows_def filter_filter using assms(3) by (intro filter_cong) auto
  show "filter (\<lambda>r. sa_tenantId r = t' \<and> sa_date r \<in> set (getDateVariants lib d)) (studentAttendances db')
      = filter (\<lambda>r. sa_tenantId r = t' \<and> sa_date r \<in> set (getDateVariants lib d)) (studentAttendances db)"
    using o f [of "studentAttendances db'"] f [of "studentAttendances db"] by simp
qed

lemma teacher_request_rows:
  "recordTeacherAttendance t u dto e db = Inr (r, db') \<Longrightarrow> studentAttendances db' = studentAttendances db
     \<and> rosterEnrollments db' = rosterEnrollments db \<and> statsCache db' = statsCache db \<and> statsReady db' = statsReady db"
  by (auto simp: recordTeacherAttendance_def Let_def split: option.splits if_splits)

lemma daily_stats_rows:
  "snd (getDailyStats lib t d e db) = db \<or> snd (getDailyStats lib t d e db) = stats_set t d (stats_of_day lib t d db) (now e) db"
  by (simp add: getDailyStats_def Let_def split: option.split)

lemma stats_set_simps [simp]:
  "studentAttendances (stats_set t d v n db) = studentAttendances db" "rosterEnrollments (stats_set t d v n db) = rosterEnrollments db"
  "statsReady (stats_set t d v n db) = statsReady db" "attendance_wf (stats_set t d v n db) = attendance_wf db"
  by (simp_all add: stats_set_def attendance_wf_def record_refs_def attendance_refs_None)

lemma attendance_serve_wf: "attendance_wf db \<Longrightarrow> attendance_serve lib r db = Inr db' \<Longrightarrow> attendance_wf db'"
proof (cases r)
  case (RecordStudents t u dto e)
  assume wf: "attendance_wf db" and "attendance_serve lib r db = Inr db'"
  then have "recordStudentAttendanceBulk t u dto e db = (fst (recordStudentAttendanceBulk t u dto e db), db')"
    by (simp add: RecordStudents prod_eq_iff)
  from record_students_wf [OF this wf] show ?thesis .
next
  case (RecordTeacher t u dto e)
  assume "attendance_wf db" and "attendance_serve lib r db = Inr db'"
  then show ?thesis using record_teacher_wf by (auto simp: RecordTeacher bindE_Inr)
next
  case (DailyStats t d e)
  assume "attendance_wf db" and "attendance_serve lib r db = Inr db'"
  with daily_stats_rows [of lib t d e db] show ?thesis by (auto simp: DailyStats)
qed

interpretation day_stats: cached_reads attendance_wf "attendance_serve lib" "one_spelling lib S" "stats_entry S" "stats_value lib" for lib S
proof
  fix db db' r
  assume "attendance_wf db" and "attendance_serve lib r db = Inr db'"
  then show "attendance_wf db'" by (rule attendance_serve_wf)
next
  fix db db' r k
  assume wf: "attendance_wf db" and sp: "one_spelling lib S r" and serve: "attendance_serve lib r db = Inr db'"
  show "stats_entry S db' k = None \<or> stats_entry S db' k = stats_value lib db' k
      \<or> stats_entry S db' k = stats_entry S db k \<and> stats_value lib db' k = stats_value lib db k"
  proof (cases r)
    case (RecordStudents t u dto e)
    with serve have rec: "recordStudentAttendanceBulk t u dto e db = (fst (recordStudentAttendanceBulk t u dto e db), db')"
      by (simp add: prod_eq_iff)
    note o = record_students_others [OF rec wf]
    show ?thesis
    proof (cases "snd k \<in> S \<and> k \<noteq> (t, bs_date dto)")
      case True
      then have "fst k \<noteq> t \<or> bs_date dto \<notin> set (getDateVariants lib (snd k))" using sp RecordStudents by (cases k) auto
      from stats_value_other [OF rec wf this] have "stats_value lib db' k = stats_value lib db k" by (simp add: stats_value_def)
      moreover have "statsCache db' (fst k) (snd k) = statsCache db (fst k) (snd k)" using o True by (cases k) (auto split: if_splits)
      ultimately show ?thesis using o by (simp add: stats_entry_def)
    next
      case False
      show ?thesis
      proof (cases "studentAttendances db' = studentAttendances db \<and> statsCache db' = statsCache db")
        case True
        with o show ?thesis by (simp add: stats_entry_def stats_value_def stats_of_day_def)
      next
        case False
        with o \<open>\<not> (snd k \<in> S \<and> k \<noteq> (t, bs_date dto))\<close> have "stats_entry S db' k = None"
          by (cases "statsReady db") (auto simp: stats_entry_def)
        then show ?thesis by simp
      qed
    qed
  next
    case (RecordTeacher t u dto e)
    with serve obtain x where "recordTeacherAttendance t u dto e db = Inr (x, db')" by (auto simp: bindE_Inr)
    from teacher_request_rows [OF this] show ?thesis by (simp add: stats_entry_def stats_value_def stats_of_day_def)
  next
    case (DailyStats t d e)
    with serve daily_stats_rows [of lib t d e db]
    have "db' = db \<or> db' = stats_set t d (stats_of_day lib t d db) (now e) db" by auto
    then show ?thesis
    proof
      assume db': "db' = stats_set t d (stats_of_day lib t d db) (now e) db"
      have v: "stats_value lib db' k = stats_value lib db k" unfolding stats_value_def db' by (intro arg_cong [where f = Some] stats_cong) simp_all
      have "stats_entry S db' k = stats_value lib db k" if "statsReady db" "k = (t, d)" "d \<in> S"
        using that by (simp add: stats_entry_def stats_value_def db' stats_set_def)
      moreover have "stats_entry S db' k = stats_entry S db k" if "\<not> (statsReady db \<and> k = (t, d) \<and> d \<in> S)"
        using that by (cases k) (auto simp: stats_entry_def db' stats_set_def)
      ultimately show ?thesis using v by auto
    qed simp
  qed
qed

section \<open>The alternating weeks\<close>

text \<open>A text that names a day of the Jalali calendar.\<close>

definition jalali_text :: "string \<Rightarrow> nat \<Rightarrow> nat \<Rightarrow> nat \<Rightarrow> bool" where
  "jalali_text s y m d \<longleftrightarrow> s \<noteq> [] \<and> three_numbers (split_on (\<lambda>c. c = CHR ''-'' \<or> c = CHR ''/'') (trim s)) = Some (y, m, d)
     \<and> 1300 < y \<and> y < 1500 \<and> 0 < m \<and> 0 < d"

text \<open>The day number of a date by the package, and its agreement with the length of the months.\<close>

definition package_day :: "jalaali \<Rightarrow> nat \<Rightarrow> nat \<Rightarrow> nat \<Rightarrow> int" where
  "package_day lib y m d = gregorian_day (toGregorian lib y m d)"

definition counts_days :: "jalaali \<Rightarrow> nat \<Rightarrow> nat \<Rightarrow> nat \<Rightarrow> bool" where
  "counts_days lib y m d \<longleftrightarrow> package_day lib y m d = package_day lib y 1 1 + day_of_year m d - 1"

definition first_saturday :: "jalaali \<Rightarrow> nat \<Rightarrow> int" where
  "first_saturday lib y = package_day lib y 1 1 - (get_day (package_day lib y 1 1) + 1) mod 7"

lemma first_saturday: "get_day (first_saturday lib y) = 6"
proof -
  have "(f - ((f + 4) mod 7 + 1) mod 7 + 4) mod 7 = 6" for f :: int by presburger
  then show ?thesis by (simp add: first_saturday_def get_day_def)
qed

lemma week_number_days:
  "counts_days lib y m d \<Longrightarrow> week_number lib y m d = (package_day lib y m d - first_saturday lib y) div 7 + 1"
  by (simp add: week_number_def Let_def counts_days_def first_saturday_def package_day_def)

lemma active_week_jalali:
  assumes "jalali_text s y m d" and "counts_days lib y m d"
  shows "getActiveWeekFromDate lib parse tz e (Some s) = (if even ((package_day lib y m d - first_saturday lib y) div 7) then 1 else 2)"
proof -
  have "(w + 1) mod 2 = 1 \<longleftrightarrow> even w" for w :: int by presburger
  moreover have "str_or (Some s) '''' = s" using assms(1) by (cases s) (simp_all add: jalali_text_def str_or_def)
  ultimately show ?thesis
    using assms by (simp add: getActiveWeekFromDate_def jalali_text_def Let_def week_of_def week_number_days)
qed

lemma week_of_one_or_two: "week_of lib j = 1 \<or> week_of lib j = 2"
  by (simp add: week_of_def split: prod.split)

lemma active_week_one_or_two: "getActiveWeekFromDate lib parse tz e s = 1 \<or> getActiveWeekFromDate lib parse tz e s = 2"
  using week_of_one_or_two by (simp add: getActiveWeekFromDate_def Let_def split: prod.split option.split)

lemma saturday_iff: "day_name n = SATURDAY \<longleftrightarrow> n mod 7 = 2"
proof -
  have r: "0 \<le> get_day n" "get_day n < 7" by (simp_all add: get_day_def)
  then have "get_day n \<in> {0, 1, 2, 3, 4, 5, 6}" unfolding insert_iff empty_iff by presburger
  then have "day_name n = SATURDAY \<longleftrightarrow> get_day n = 6" by (auto simp: day_name_def day_names_def)
  also have "get_day n = 6 \<longleftrightarrow> n mod 7 = 2" unfolding get_day_def by presburger
  finally show ?thesis .
qed

text \<open>Within eight days a new week starts exactly at a Saturday.\<close>

lemma week_changes_on_saturday:
  fixes a b f :: int
  assumes "f mod 7 = 2" and "a \<le> b" and "b \<le> a + 7"
  shows "(b - f) div 7 = (a - f) div 7 + (if \<exists>n. a < n \<and> n \<le> b \<and> n mod 7 = 2 then 1 else 0)"
proof -
  obtain g where f: "f = 7 * g + 2" using assms(1) by (metis mult_div_mod_eq)
  have d: "(x - f) div 7 = (x - 2) div 7 - g" for x
  proof -
    have "x - f = x - 2 + 7 * (- g)" by (simp add: f)
    then show ?thesis by (simp only: div_mult_self2)
  qed
  define qa qb where "qa = (a - 2) div 7" and "qb = (b - 2) div 7"
  have q: "7 * qa \<le> a - 2" "a - 2 < 7 * qa + 7" "7 * qb \<le> b - 2" "b - 2 < 7 * qb + 7" unfolding qa_def qb_def by presburger+
  have "qb = qa + 1" if "a < n" "n \<le> b" "n mod 7 = 2" for n
  proof -
    note n = that
    obtain k where "n = 7 * k + 2" using n(3) by (metis mult_div_mod_eq)
    with n(1,2) q assms(2,3) have "qa < k" "k < qb + 1" "qb < qa + 2" by linarith+
    then show ?thesis by linarith
  qed
  moreover have "\<exists>n. a < n \<and> n \<le> b \<and> n mod 7 = 2" if "qb = qa + 1"
  proof (intro exI conjI)
    show "a < 7 * qb + 2" "7 * qb + 2 \<le> b" using that q by linarith+
    show "(7 * qb + 2) mod 7 = 2" by simp
  qed
  ultimately have "(\<exists>n. a < n \<and> n \<le> b \<and> n mod 7 = 2) \<longleftrightarrow> qb = qa + 1" by blast
  moreover have "qb = qa + 1 \<or> qb = qa" using q assms(2,3) by linarith
  ultimately show ?thesis unfolding d qa_def [symmetric] qb_def [symmetric] by auto
qed

section \<open>A slot of the timetable\<close>

text \<open>The filters on ids single out one row, wherever the sort put it.\<close>

lemma filter_one_id:
  assumes "distinct (map key rows)" and "r \<in> set rows"
  shows "filter (\<lambda>x. key x = key r) rows = [r]"
  using assms
proof (induction rows)
  case (Cons a rows)
  have "filter (\<lambda>x. key x = key a) rows = []" using Cons.prems(1) by (auto simp: filter_empty_conv image_iff)
  moreover have "key a \<noteq> key r" if "a \<noteq> r" using Cons.prems that by auto
  ultimately show ?case using Cons by (cases "a = r") auto
qed simp

lemma filter_swap: "filter P (filter Q xs) = filter Q (filter P xs)"
  by (induction xs) auto

lemma distinct_insert_by: "distinct (map key (insert_by le x ys)) \<longleftrightarrow> key x \<notin> key ` set ys \<and> distinct (map key ys)"
  by (induction ys) auto

lemma distinct_sort_by: "distinct (map key (sort_by le xs)) = distinct (map key xs)"
  unfolding sort_by_def
proof (induction xs)
  case (Cons x xs)
  then show ?case using set_sort_by [of le xs] by (simp add: distinct_insert_by sort_by_def)
qed simp

lemma slot_listed_once:
  assumes "slot \<in> set (classSchedules db)" and "distinct (map cs_id (classSchedules db))" and "cs_tenantId slot = t"
    and "getDayOfWeekFromDate lib parse tz e (Some s) = cs_dayOfWeek slot"
    and "find (\<lambda>(_, u', t'). t' = t \<and> u' = u) (registerTeachers db) = Some (i, u, t)" and "i \<noteq> []"
    and "Some (cs_teacherId slot) = Some i \<or> cs_secondTeacherId slot = Some i"
  shows "filter (\<lambda>r. st_scheduleId r = cs_id slot) (getTeacherDailySchedule lib parse tz e t u TEACHER s q db)
      = (if slot_applies (getActiveWeekFromDate lib parse tz e (Some s)) (Some i) slot
         then [slot_stats_of lib t s (getActiveWeekFromDate lib parse tz e (Some s)) db slot] else [])"
proof -
  let ?week = "getActiveWeekFromDate lib parse tz e (Some s)"
  let ?mine = "filter (\<lambda>x. cs_tenantId x = t \<and> cs_dayOfWeek x = cs_dayOfWeek slot \<and> (Some (cs_teacherId x) = Some i \<or> cs_secondTeacherId x = Some i)) (classSchedules db)"
  let ?sorted = "sort_by (\<lambda>a b. cs_periodNumber a \<le> cs_periodNumber b) ?mine"
  have list: "getTeacherDailySchedule lib parse tz e t u TEACHER s q db
      = map (slot_stats_of lib t s ?week db) (filter (slot_applies ?week (Some i)) ?sorted)"
    using assms(4-6) by (simp add: getTeacherDailySchedule_def Let_def)
  have "slot \<in> set ?sorted" using assms(1,3,7) by simp
  moreover have "distinct (map cs_id ?sorted)" using assms(2) by (simp add: distinct_sort_by distinct_map_filter)
  ultimately have "filter (\<lambda>x. cs_id x = cs_id slot) ?sorted = [slot]" by (intro filter_one_id)
  then have f: "filter (\<lambda>x. cs_id x = cs_id slot) (filter (slot_applies ?week (Some i)) ?sorted)
      = (if slot_applies ?week (Some i) slot then [slot] else [])"
    using filter_swap [of "\<lambda>x. cs_id x = cs_id slot" "slot_applies ?week (Some i)" ?sorted] by simp
  have "st_scheduleId (slot_stats_of lib t s ?week db x) = cs_id x" for x by (simp add: slot_stats_of_def Let_def)
  then have "filter (\<lambda>r. st_scheduleId r = cs_id slot) (map (slot_stats_of lib t s ?week db) xs)
      = map (slot_stats_of lib t s ?week db) (filter (\<lambda>x. cs_id x = cs_id slot) xs)" for xs by (simp add: filter_map comp_def)
  then show ?thesis unfolding list by (simp only: f) simp
qed

end
