(* ===== verification/Attendance_Props.thy ===== *)
theory Attendance_Props
  imports Attendance_Laws
begin

text \<open>The properties of attendance.\<close>

section \<open>A class for the witnesses\<close>

text \<open>The Jalali calendar of the year 1404, whose first day is 21 March 2025.\<close>

definition calendar_1404 :: jalaali where
  "calendar_1404 = \<lparr>jalaaliMonthLength = (\<lambda>y m. if m \<le> 6 then 31 else 30), isValidJalaaliDate = (\<lambda>y m d. 1 \<le> m \<and> m \<le> 12 \<and> 1 \<le> d \<and> d \<le> 31),
     toGregorian = (\<lambda>y m d. civil_from_days (days_from_civil 2025 3 21 + day_of_year m d - 1)),
     toJalaali = (\<lambda>y m d. let n = days_from_civil y m d - days_from_civil 2025 3 21 in
       if n < 186 then (1404, nat (n div 31) + 1, nat (n mod 31) + 1) else (1404, nat ((n - 186) div 30) + 7, nat ((n - 186) mod 30) + 1))\<rparr>"

definition register0 :: attendance_db where
  "register0 = \<lparr>registerClassrooms = [\<lparr>cl_id = ''k'', cl_tenantId = ''t'', cl_academicYearId = ''y'', cl_name = ''k''\<rparr>],
     rosterEnrollments = [\<lparr>ro_tenantId = ''t'', ro_classroomId = ''k'', ro_studentId = ''a'', ro_active = True\<rparr>,
       \<lparr>ro_tenantId = ''t'', ro_classroomId = ''k'', ro_studentId = ''b'', ro_active = True\<rparr>],
     rosterStudents = [\<lparr>rs_id = ''a'', rs_tenantId = ''t'', rs_userId = ''ua'', rs_studentCode = ''2'', rs_firstName = ''A'', rs_lastName = ''A'', rs_fatherPhone = Some ''09'', rs_motherPhone = None\<rparr>,
       \<lparr>rs_id = ''b'', rs_tenantId = ''t'', rs_userId = ''ub'', rs_studentCode = ''1'', rs_firstName = ''B'', rs_lastName = ''B'', rs_fatherPhone = None, rs_motherPhone = None\<rparr>],
     academicYears = [\<lparr>ay_id = ''y'', ay_tenantId = ''t'', ay_name = ''y'', ay_isCurrent = True\<rparr>],
     studentAttendances = [], teacherAttendances = [],
     classSchedules = [\<lparr>cs_id = ''slot'', cs_tenantId = ''t'', cs_classroomId = ''k'', cs_lessonId = ''l1'', cs_teacherId = ''p1'', cs_isSplitPeriod = True,
       cs_secondLessonId = Some ''l2'', cs_secondTeacherId = Some ''p2'', cs_dayOfWeek = TUESDAY, cs_periodNumber = 1\<rparr>],
     registerLessons = [''l1'', ''l2''], registerTeachers = [(''p1'', ''u1'', ''t''), (''p2'', ''u2'', ''t'')], registerParents = [],
     statsReady = True, statsCache = (\<lambda>_ _. None)\<rparr>"

definition register_env :: env where
  "register_env = \<lparr>now = 0, rnd = 0, uuid = (\<lambda>k. ''n'' @ string_of_nat k)\<rparr>"

definition mark :: "id \<Rightarrow> AttendanceStatus \<Rightarrow> SingleStudentAttendanceItemDto" where
  "mark i s = \<lparr>it_studentId = i, it_status = s, it_delayMinutes = None, it_reason = None, it_oralGrade = None, it_rewardDisciplineType = None,
     it_rewardDisciplineNote = None, it_sessionNote = None\<rparr>"

definition session_dto :: BulkRecordStudentAttendanceDto where
  "session_dto = \<lparr>bs_academicYearId = None, bs_classroomId = ''k'', bs_lessonId = Some ''l1'', bs_scheduleId = None, bs_date = ''1404-07-01'',
     bs_periodNumber = None, bs_attendances = [mark ''a'' ABSENT, mark ''b'' PRESENT]\<rparr>"

lemma register0_wf: "attendance_wf register0"
  by (simp add: attendance_wf_def register0_def)

definition recorded0 :: "(http_error + nat \<times> absence_event list) \<times> attendance_db" where
  "recorded0 = recordStudentAttendanceBulk ''t'' ''u1'' session_dto register_env register0"


definition recorded_db :: attendance_db where
  "recorded_db = snd recorded0"

lemma spellings: "getDateVariants calendar_1404 ''1404-07-01'' = [''1404-07-01'', ''2025-09-23'']"
  by code_simp

definition marked :: "id \<Rightarrow> id \<Rightarrow> AttendanceStatus \<Rightarrow> StudentAttendance" where
  "marked i s st = \<lparr>sa_id = i, sa_tenantId = ''t'', sa_academicYearId = ''y'', sa_classroomId = ''k'', sa_lessonId = Some ''l1'', sa_scheduleId = None,
     sa_studentId = s, sa_date = ''1404-07-01'', sa_periodNumber = Some 1, sa_status = st, sa_delayMinutes = 0, sa_reason = None, sa_oralGrade = None,
     sa_rewardDisciplineType = None, sa_rewardDisciplineNote = None, sa_sessionNote = None, sa_recordedById = ''u1''\<rparr>"

lemma recorded_tables:
  "studentAttendances recorded_db = [marked ''n1'' ''a'' ABSENT, marked ''n2'' ''b'' PRESENT]"
  "registerClassrooms recorded_db = registerClassrooms register0"
  "rosterEnrollments recorded_db = rosterEnrollments register0"
  "rosterStudents recorded_db = rosterStudents register0"
  by code_simp+

definition roster_view :: "int \<Rightarrow> (id \<times> AttendanceStatus \<times> bool \<times> int option) list" where
  "roster_view p = (case getClassroomAttendance calendar_1404 ''t'' ''k'' ''1404-07-01'' (Some p) recorded_db of
     Inl _ \<Rightarrow> [] | Inr (sm, rows) \<Rightarrow> map (\<lambda>r. (rw_studentId r, rw_status r, rw_isRecorded r, rw_inheritedFromPeriod r)) rows)"

lemma roster_order: "sort_by (roster_before recorded_db) (active_roster ''t'' ''k'' recorded_db) = rev (rosterEnrollments register0)"
  by code_simp

lemma roster_view_rows:
  "roster_view p = map (\<lambda>r. (rw_studentId r, rw_status r, rw_isRecorded r, rw_inheritedFromPeriod r)) (roster_rows calendar_1404 ''t'' ''k'' ''1404-07-01'' p recorded_db)"
  by (simp add: roster_view_def getClassroomAttendance_def recorded_tables register0_def Let_def)

lemma roster_views:
  "roster_view 1 = [(''b'', PRESENT, True, None), (''a'', ABSENT, True, None)]"
  "roster_view 2 = [(''b'', PRESENT, False, Some 1), (''a'', ABSENT, False, Some 1)]"
proof -
  have en: "sort_by (roster_before recorded_db) (active_roster ''t'' ''k'' recorded_db)
      = [\<lparr>ro_tenantId = ''t'', ro_classroomId = ''k'', ro_studentId = ''b'', ro_active = True\<rparr>,
         \<lparr>ro_tenantId = ''t'', ro_classroomId = ''k'', ro_studentId = ''a'', ro_active = True\<rparr>]"
    by (simp add: roster_order register0_def)
  have r: "register_rows ''t'' ''k'' [''1404-07-01'', ''2025-09-23''] recorded_db = [marked ''n1'' ''a'' ABSENT, marked ''n2'' ''b'' PRESENT]"
    by (simp add: register_rows_def recorded_tables marked_def)
  have two: "sort_by period_desc [x, y] = (if period_desc x y then [x, y] else [y, x])" for x y by (simp add: sort_by_def)
  show "roster_view 1 = [(''b'', PRESENT, True, None), (''a'', ABSENT, True, None)]"
    by (simp add: roster_view_rows roster_rows_def Let_def en session_rows_def spellings r marked_def roster_row_of_def)
  show "roster_view 2 = [(''b'', PRESENT, False, Some 1), (''a'', ABSENT, False, Some 1)]"
    by (simp add: roster_view_rows roster_rows_def Let_def en session_rows_def spellings r marked_def roster_row_of_def prior_map_def
        fallback_status_def two)
qed

section \<open>The properties\<close>

text \<open>Through any requests, also refused ones, the register stays well formed: one record for a student, class, date text and
  period, one for a teacher and day, and every record refers to rows that exist.\<close>

theorem register_well_formed:
  assumes "attendance_wf db" and "foldE (attendance_serve lib) rs db = Inr db'"
  shows "attendance_wf db'"
  by (rule foldE_invariant [where I = attendance_wf, OF _ assms]) (rule attendance_serve_wf)

theorem register_well_formed_witness:
  "\<exists>db'. foldE (attendance_serve calendar_1404) [RecordStudents ''t'' ''u1'' session_dto register_env, DailyStats ''t'' ''1404-07-01'' register_env] register0 = Inr db'
     \<and> attendance_wf db'"
proof -
  obtain db' where r: "foldE (attendance_serve calendar_1404) [RecordStudents ''t'' ''u1'' session_dto register_env, DailyStats ''t'' ''1404-07-01'' register_env] register0 = Inr db'"
    by simp
  from register_well_formed [OF register0_wf this] r show ?thesis by blast
qed







text \<open>C38: An absence of an earlier period is carried over: while the session is not fully recorded, a student without a record of his
  own is shown absent or excused when his latest earlier record of the day says so, and else present, whichever spelling of the day
  the record has, and the period it comes from is named.\<close>

theorem absence_carried_over:
  assumes "getClassroomAttendance lib t c date (Some p) db = Inr (sm, rows)" and "1 < p" and "\<not> rm_isFullyRecorded sm"
    and "row \<in> set rows" and "\<not> rw_isRecorded row"
    and r: "r \<in> set (register_rows t c (getDateVariants lib date) db)" "sa_studentId r = rw_studentId row" "sa_periodNumber r = Some q" "q < p"
      "\<forall>x \<in> set (register_rows t c (getDateVariants lib date) db). sa_studentId x = rw_studentId row \<longrightarrow> x \<noteq> r
        \<longrightarrow> (\<forall>q'. sa_periodNumber x = Some q' \<longrightarrow> q' < p \<longrightarrow> q' < q)"
  shows "rw_status row = (if sa_status r = ABSENT \<or> sa_status r = EXCUSED_ABSENT then sa_status r else PRESENT) \<and> rw_inheritedFromPeriod row = Some q"
proof -
  note sh = roster_shape [OF assms(1)]
  have "length (session_rows lib t c date p db) < length rows"
    using assms(3,4) sh(2) by (auto simp: roster_summary_of_def)
  with sh(1) assms(2) have few: "p > 1 \<and> length (session_rows lib t c date p db) < length (roster_rows lib t c date p db)" by simp
  note latest = prior_map_latest [OF r]
  have "row \<in> set (roster_rows lib t c date p db)" using assms(4) sh(1) by simp
  then show ?thesis
    by (rule roster_row_cases) (use few latest assms(5) r(3) in \<open>auto simp: roster_row_of_def fallback_status_def split: option.splits\<close>)
qed

theorem absence_carried_over_witness:
  "\<exists>sm row rest. getClassroomAttendance calendar_1404 ''t'' ''k'' ''1404-07-01'' (Some 2) recorded_db = Inr (sm, rest @ [row])
     \<and> rw_studentId row = ''a'' \<and> rw_status row = ABSENT \<and> rw_inheritedFromPeriod row = Some 1"
proof -
  obtain sm rows where g: "getClassroomAttendance calendar_1404 ''t'' ''k'' ''1404-07-01'' (Some 2) recorded_db = Inr (sm, rows)"
    and v: "map (\<lambda>r. (rw_studentId r, rw_status r, rw_isRecorded r, rw_inheritedFromPeriod r)) rows = [(''b'', PRESENT, False, Some 1), (''a'', ABSENT, False, Some 1)]"
    using roster_views(2) by (auto simp: roster_view_def split: sum.splits prod.splits)
  then obtain other row where rows: "rows = [other] @ [row]" and s: "rw_studentId row = ''a''" "\<not> rw_isRecorded row" by (auto simp: map_eq_Cons_conv)
  have reg: "register_rows ''t'' ''k'' (getDateVariants calendar_1404 ''1404-07-01'') recorded_db = [marked ''n1'' ''a'' ABSENT, marked ''n2'' ''b'' PRESENT]"
    by (simp add: register_rows_def recorded_tables marked_def spellings)
  have full: "\<not> rm_isFullyRecorded sm"
    using roster_shape(2) [OF g] by (simp add: roster_summary_of_def session_rows_def reg marked_def)
  have "row \<in> set rows" using rows by simp
  from absence_carried_over [OF g _ full this s(2), of "marked ''n1'' ''a'' ABSENT" 1] s
  have "rw_status row = ABSENT \<and> rw_inheritedFromPeriod row = Some 1" by (simp add: reg marked_def)
  with g rows s(1) show ?thesis by blast
qed

text \<open>C39: The two weeks of the timetable alternate within a Jalali year: dates seven days apart lie in different weeks, and of two dates
  less than seven days apart the later one lies in the other week exactly when a Saturday came between them or on it.\<close>

theorem weeks_alternate:
  assumes "jalali_text s1 y m1 d1" and "jalali_text s2 y m2 d2" and "counts_days lib y m1 d1" and "counts_days lib y m2 d2"
    and "package_day lib y m1 d1 \<le> package_day lib y m2 d2" and "package_day lib y m2 d2 \<le> package_day lib y m1 d1 + 7"
  shows "getActiveWeekFromDate lib parse tz e (Some s1) \<in> {1, 2} \<and>
    (getActiveWeekFromDate lib parse tz e (Some s2) \<noteq> getActiveWeekFromDate lib parse tz e (Some s1)
       \<longleftrightarrow> (\<exists>n. package_day lib y m1 d1 < n \<and> n \<le> package_day lib y m2 d2 \<and> day_name n = SATURDAY))"
proof -
  let ?f = "first_saturday lib y" and ?a = "package_day lib y m1 d1" and ?b = "package_day lib y m2 d2"
  have f: "?f mod 7 = 2" using first_saturday [of lib y] unfolding get_day_def by presburger
  note w = active_week_jalali [OF assms(1,3), of parse tz e] active_week_jalali [OF assms(2,4), of parse tz e]
  have "(?b - ?f) div 7 = (?a - ?f) div 7 + (if \<exists>n. ?a < n \<and> n \<le> ?b \<and> n mod 7 = 2 then 1 else 0)"
    by (rule week_changes_on_saturday [OF f assms(5,6)])
  then show ?thesis unfolding w saturday_iff by auto
qed

theorem weeks_alternate_witness:
  "getActiveWeekFromDate calendar_1404 (\<lambda>_. None) 0 register_env (Some ''1404-07-08'')
     \<noteq> getActiveWeekFromDate calendar_1404 (\<lambda>_. None) 0 register_env (Some ''1404-07-01'')"
proof -
  have "jalali_text ''1404-07-01'' 1404 7 1" "jalali_text ''1404-07-08'' 1404 7 8" by (code_simp, code_simp)
  moreover have "counts_days calendar_1404 1404 7 1" "counts_days calendar_1404 1404 7 8" by (code_simp, code_simp)
  moreover have d: "package_day calendar_1404 1404 7 1 = 20354" "package_day calendar_1404 1404 7 8 = 20361" by (code_simp, code_simp)
  moreover have "day_name 20358 = SATURDAY" by code_simp
  then have "\<exists>n. 20354 < n \<and> n \<le> 20361 \<and> day_name n = SATURDAY" by (intro exI [of _ 20358]) simp
  ultimately show ?thesis
    using weeks_alternate [of "''1404-07-01''" 1404 7 1 "''1404-07-08''" 7 8 calendar_1404 "\<lambda>_. None" 0 register_env] by simp
qed

text \<open>C40: A period that two teachers share in alternating weeks is in the timetable of the day of exactly one of them: of the first teacher
  with the first lesson in the odd week, of the second with the second lesson in the even one.\<close>

theorem split_slot_shared:
  assumes "slot \<in> set (classSchedules db)" and "cs_tenantId slot = t" and "cs_isSplitPeriod slot" and "truthy (cs_secondLessonId slot)"
    and "cs_secondTeacherId slot = Some b" and "b \<noteq> cs_teacherId slot" and "b \<noteq> []" and "cs_teacherId slot \<noteq> []"
    and "distinct (map cs_id (classSchedules db))"
    and "find (\<lambda>(_, u, t'). t' = t \<and> u = u1) (registerTeachers db) = Some (cs_teacherId slot, u1, t)"
    and "find (\<lambda>(_, u, t'). t' = t \<and> u = u2) (registerTeachers db) = Some (b, u2, t)"
    and "cs_dayOfWeek slot = getDayOfWeekFromDate lib parse tz e (Some s)"
  shows "let week = getActiveWeekFromDate lib parse tz e (Some s);
      first = filter (\<lambda>r. st_scheduleId r = cs_id slot) (getTeacherDailySchedule lib parse tz e t u1 TEACHER s q1 db);
      second = filter (\<lambda>r. st_scheduleId r = cs_id slot) (getTeacherDailySchedule lib parse tz e t u2 TEACHER s q2 db)
    in if week = 1 then second = [] \<and> map st_lessonId first = [cs_lessonId slot] \<and> map st_teacherId first = [cs_teacherId slot]
       else first = [] \<and> map st_lessonId second = [str_or (cs_secondLessonId slot) ''''] \<and> map st_teacherId second = [b]"
proof -
  let ?week = "getActiveWeekFromDate lib parse tz e (Some s)"
  have one: "filter (\<lambda>r. st_scheduleId r = cs_id slot) (getTeacherDailySchedule lib parse tz e t u TEACHER s q db)
      = (if slot_applies ?week (Some i) slot then [slot_stats_of lib t s ?week db slot] else [])"
    if "find (\<lambda>(_, u', t'). t' = t \<and> u' = u) (registerTeachers db) = Some (i, u, t)" "i \<noteq> []" "i = cs_teacherId slot \<or> i = b" for u i q
    using slot_listed_once [OF assms(1,9,2) assms(12) [symmetric] that(1,2)] assms(5) that(3) by auto
  have "?week \<noteq> 1 \<longleftrightarrow> ?week = 2" using active_week_one_or_two [of lib parse tz e "Some s"] by auto
  moreover have "slot_applies ?week (Some (cs_teacherId slot)) slot \<longleftrightarrow> ?week = 1" "slot_applies ?week (Some b) slot \<longleftrightarrow> ?week \<noteq> 1"
    using assms(3-8) by (auto simp: slot_applies_def)
  moreover have "str_or (Some b) x = b" "str_or (cs_secondLessonId slot) x = str_or (cs_secondLessonId slot) ''''" for x
    using assms(4,7) by (auto simp: str_or_def split: list.split option.split)
  then have "st_lessonId (slot_stats_of lib t s w db slot) = (if w = 2 then str_or (cs_secondLessonId slot) '''' else cs_lessonId slot)"
    "st_teacherId (slot_stats_of lib t s w db slot) = (if w = 2 then b else cs_teacherId slot)" for w
    using assms(3,5) by (simp_all add: slot_stats_of_def Let_def)
  ultimately show ?thesis using one [OF assms(10,8)] one [OF assms(11,7)] by (simp add: Let_def)
qed

theorem split_slot_shared_witness:
  "map st_lessonId (filter (\<lambda>r. st_scheduleId r = ''slot'') (getTeacherDailySchedule calendar_1404 (\<lambda>_. None) 0 register_env ''t'' ''u1'' TEACHER ''1404-07-01'' None register0))
     = (if getActiveWeekFromDate calendar_1404 (\<lambda>_. None) 0 register_env (Some ''1404-07-01'') = 1 then [''l1''] else [])"
proof -
  let ?slot = "hd (classSchedules register0)"
  have s: "?slot \<in> set (classSchedules register0)" "cs_tenantId ?slot = ''t''" "cs_isSplitPeriod ?slot" "truthy (cs_secondLessonId ?slot)"
    "cs_secondTeacherId ?slot = Some ''p2''" "''p2'' \<noteq> cs_teacherId ?slot" "''p2'' \<noteq> ''''" "cs_teacherId ?slot \<noteq> ''''" "distinct (map cs_id (classSchedules register0))"
    "find (\<lambda>(_, u, t'). t' = ''t'' \<and> u = ''u1'') (registerTeachers register0) = Some (cs_teacherId ?slot, ''u1'', ''t'')"
    "find (\<lambda>(_, u, t'). t' = ''t'' \<and> u = ''u2'') (registerTeachers register0) = Some (''p2'', ''u2'', ''t'')"
    by (simp_all add: register0_def)
  have "cs_dayOfWeek ?slot = getDayOfWeekFromDate calendar_1404 (\<lambda>_. None) 0 register_env (Some ''1404-07-01'')" by code_simp
  moreover have "cs_id ?slot = ''slot''" "cs_lessonId ?slot = ''l1''" by (simp_all add: register0_def)
  ultimately show ?thesis
    using split_slot_shared [OF s, of calendar_1404 "\<lambda>_. None" 0 register_env "''1404-07-01''" None None] by (auto simp: Let_def split: if_splits)
qed

text \<open>C37: The statistics of a day are those of the register although they are cached: whatever was read and recorded before, as long as no
  recording used another spelling of a date the statistics are read under, the answer is computed from the present records.\<close>

theorem daily_stats_fresh:
  assumes "attendance_wf db" and "\<forall>t. \<forall>d \<in> S. statsCache db t d = None" and "list_all (one_spelling lib S) rs"
    and "foldE (attendance_serve lib) rs db = Inr db'" and "d \<in> S"
  shows "fst (getDailyStats lib t d e db') = stats_of_day lib t d db'"
proof -
  have "day_stats.coherent S lib db" using assms(2) by (auto simp: day_stats.coherent_def stats_entry_def split: if_splits)
  from day_stats.run_coherent [OF assms(1) this assms(3,4)] have ok: "day_stats.coherent S lib db'" .
  show ?thesis
  proof (cases "stats_get t d (now e) db'")
    case (Some v)
    then have "stats_entry S db' (t, d) = Some v"
      using assms(5) by (auto simp: stats_get_def stats_entry_def split: if_splits option.splits)
    from day_stats.coherentD [OF ok this] Some show ?thesis by (simp add: getDailyStats_def stats_value_def)
  qed (simp add: getDailyStats_def Let_def)
qed

theorem daily_stats_fresh_witness:
  "\<exists>db'. foldE (attendance_serve calendar_1404) [DailyStats ''t'' ''1404-07-01'' register_env, RecordStudents ''t'' ''u1'' session_dto register_env] register0 = Inr db'
     \<and> fst (getDailyStats calendar_1404 ''t'' ''1404-07-01'' register_env db') = stats_of_day calendar_1404 ''t'' ''1404-07-01'' db'"
proof -
  obtain db' where r: "foldE (attendance_serve calendar_1404) [DailyStats ''t'' ''1404-07-01'' register_env, RecordStudents ''t'' ''u1'' session_dto register_env] register0 = Inr db'"
    by simp
  have c: "\<forall>t. \<forall>d \<in> {''1404-07-01''}. statsCache register0 t d = None" by (simp add: register0_def)
  have "list_all (one_spelling calendar_1404 {''1404-07-01''}) [DailyStats ''t'' ''1404-07-01'' register_env, RecordStudents ''t'' ''u1'' session_dto register_env]"
    by (simp add: session_dto_def)
  from daily_stats_fresh [OF register0_wf c this r singletonI, of "''t''" register_env] r show ?thesis by blast
qed

end
