(* ===== verification/Spec2Isabelle.thy ===== *)
theory Spec2Isabelle
  imports Import_Props Plan_Props Online_Props Payroll_Props Rbac_Props Club_Props Exam_Props Gradebook_Props Attendance_Props
begin

text \<open>
  A verification library for Rokad, a platform for schools: a NestJS server (\<open>src/src\<close>) over a PostgreSQL
  database reached through Prisma (\<open>src/prisma/schema.prisma\<close>), Redis for locks and caches, and a React client
  (\<open>src/frontend\<close>).  The library models services of the server: the state is the tables a service reads and
  writes, the operations are its methods, and the theorems speak about single operations or about
  any sequence (or interleaving) of them.

  \<^bold>\<open>Parts and theories.\<close>

  \<^item> \<open>Prelude\<close>: HTTP exceptions as values of a sum type, JavaScript truthiness and strings, tables as
    lists of rows in insertion order, columns of type \<open>Decimal(15, 2)\<close>, and the locale \<open>keyed_update\<close> of an update
    by key.  \<open>Calendar\<close> has the part of \<open>Date\<close> the services use.
  \<^item> Fees (\<open>src/src/modules/finance\<close>).  \<open>Fee_Model\<close>: contracts, installments, payments, receipts, transactions.
    \<open>Fee_Ledger\<close>: what all write paths share (receipt numbers, the credit of an installment, the clamped
    balance) and the ledger invariant, with the locale \<open>ledger_service\<close> for a service that only
    adds debts and keeps balances within their bounds.  \<open>Fee_Payment\<close>: \<open>fee-payment.service.ts\<close> with cash payments
    and the register of cheques.  \<open>Fee_Plan\<close>: \<open>fee.service.ts\<close> with fee plans, their allocation to groups of students,
    individual contracts and the overviews.  \<open>Fee_Import\<close>: \<open>fee-import.service.ts\<close>, previews and confirmations of spreadsheets.
    The properties are in \<open>Fee_Props\<close>, \<open>Plan_Props\<close> and \<open>Import_Props\<close>.
  \<^item> Online payments (\<open>payment.service.ts\<close>, \<open>providers\<close>).  \<open>Online_Payment\<close>: both gateways, whose HTTP answers are
    parameters, and the callback as a machine of phases, so that callbacks can interleave between
    their awaits.  \<open>Online_System\<close>: the step relation of many callbacks, expiring locks and requests at the desk.
    \<open>Online_Ledger\<close>: the ledger invariant under these steps.  \<open>Online_Props\<close>: the properties.
  \<^item> Jalali dates (\<open>common/utils/jalali.util.ts\<close>).  \<open>Jalali\<close>: normalisation of digits, the validator, the
    conversions and formats; the package \<open>jalaali-js\<close> and the offset of Tehran are arguments.  \<open>Date_Props\<close>: the properties.
  \<^item> Payroll (\<open>src/src/modules/payroll\<close>).  \<open>Payroll\<close>: \<open>payroll.service.ts\<close> and \<open>teacher-contract.service.ts\<close>.  \<open>Payroll_Laws\<close>,
    \<open>Payroll_Contracts\<close> and \<open>Payroll_Month\<close>: issued slips under all requests (locale \<open>payroll_office\<close>), contracts that
    never overlap, the calculation of a month.  \<open>Payroll_Props\<close>: the properties.
  \<^item> Permissions (\<open>src/src/modules/rbac\<close>, \<open>common/guards\<close>).  \<open>Rbac\<close>: the catalog, roles, overrides, the cache of
    effective permissions and the guards.  \<open>Rbac_Laws\<close>: the cache against the tables (locale \<open>cached_reads\<close>).
    \<open>Rbac_Props\<close>: the properties.
  \<^item> Business club (\<open>src/src/modules/club\<close>).  \<open>Club_Model\<close> and \<open>Club\<close>: \<open>club.service.ts\<close>; \<open>Club_Laws\<close> and \<open>Club_Props\<close>.
  \<^item> Exams and the question bank (\<open>src/src/modules/exams\<close>, \<open>question-bank\<close>).  \<open>Exam_Model\<close>: tables, bank, composition of exams.
    \<open>Exam\<close>: the shuffled paper, the hand-in with the deadline of the server, grading, results.  \<open>Exam_Laws\<close> and \<open>Exam_Props\<close>.
  \<^item> Gradebook (\<open>src/src/modules/gradebook\<close>).  \<open>Gradebook_Model\<close>: recording of grades and of the grades of modules.
    \<open>Gradebook\<close>: the report card of a student and the matrix of a class, computed by folds over the grades.  \<open>Gradebook_Laws\<close>
    (the best attempt at a module, the folds, the loop of a recording) and \<open>Gradebook_Props\<close>.
  \<^item> Attendance (\<open>src/src/modules/attendance\<close>).  \<open>Attendance_Model\<close>: the register of students and teachers, the spellings of a date, the
    cache of daily statistics.  \<open>Attendance\<close>: the roster with absences carried over, statistics, the timetable of alternating weeks.
    \<open>Attendance_Laws\<close> (the cache by the locale \<open>cached_reads\<close>, a recording and its repetition) and \<open>Attendance_Props\<close>.

  \<^bold>\<open>How the parts interact.\<close>  All services share one database; the finance services share the ledger, so
  \<open>Online_Ledger\<close> shows the invariant of \<open>Fee_Ledger\<close> for the callbacks and the desk together, and imports, plans and
  cash payments are instances of the same locale.  Dates of fees, cheques and payroll come from \<open>Jalali\<close>.  The
  guards of \<open>Rbac\<close> stand before every controller; the services themselves are modelled without
  them, with the tenant and the user as arguments.

  \<^bold>\<open>Conventions.\<close>  A model of Prisma becomes a record with its columns (a prefix for each table), an enumeration
  a datatype, a table the list of its rows.  \<open>findFirst\<close> and \<open>findUnique\<close> are \<^const>\<open>List.find\<close>, \<open>orderBy createdAt desc\<close> is the reversed
  list, \<open>update\<close> is \<^const>\<open>update_row\<close>.  Unique keys and references are checked by the \<open>create\<close> functions
  and fail with an error of their own.  A failing transaction changes nothing, so its result carries
  no state; where a request writes before it fails and there is no transaction, the state is part of the
  result next to the error.  The clock, random draws and UUIDs of a request are its argument \<^typ>\<open>env\<close>.  Amounts
  are exact rationals, rounded where a column rounds; the texts of messages are short English keys.

  \<^bold>\<open>Groups of lemmas.\<close>  For each component: what each write does to the tables (\<open>_shape\<close>, \<open>_rows\<close>), the invariant for each
  write and then for each request (\<open>_wf\<close>, \<open>_inv\<close>, \<open>_step\<close>), runs by induction over the list of requests, and
  the functional result of the central operations.  Properties are few lines over these; every property
  with a hypothesis has a witness, a small concrete school in which it is applied.

  \<^bold>\<open>Bounds and termination.\<close>  All loops are structural recursions over rows, questions, days or digits; no fuel is
  needed.  A callback passes at most once through each of its phases (\<open>phase_rank\<close>), which bounds its steps; a gateway
  is a function of its request, so one that never answers is not covered.  Removed overrides and roles count in the
  model as they do in the code; where the documentation says otherwise the properties of \<open>Rbac_Props\<close> state both readings.

  \<^bold>\<open>Not modelled.\<close>  The React client and the controllers, modules and decorators of the server (routing and
  validation annotations); services that mostly move data to other systems (SMS, push notifications, chat and
  messages, file storage, heartbeat, Telegram anchor); and school administration without a checked rule of its
  own (the dossier of the gradebook, profiles, calendars, lesson plans, materials, homework, members, classes and others, listed one by one in
  the manifest).  The templates of the spreadsheets are generated files and left out.
\<close>

end
